(* ===== verification/Prelude.thy ===== *)
theory Prelude
  imports Main
begin

text \<open>
  Shared vocabulary of the development: the collections of automation the component theories
  use, naive UTC timestamps, the fragment of Python's \<open>str\<close> the source relies on, and database
  tables.

  A \<^emph>\<open>timestamp\<close> is a naive UTC \<open>datetime\<close> (\<open>backend/app/utils/timezone.py\<close>), counted in
  microseconds, which is the resolution of Python's \<open>datetime\<close>. Every reading of the clock
  (\<open>utc_now_naive()\<close>) is an explicit argument of the operation that makes it, so an operation that
  reads the clock twice takes two arguments.

  A \<^emph>\<open>string\<close> is a list of characters; case conversion is that of ASCII letters, which is what
  the markers and status names of the source consist of.

  A \<^emph>\<open>table\<close> is the list of its rows. \<open>select ... where\<close> is \<open>filter\<close>, and
  \<open>scalar_one_or_none\<close> is None on no row, the row on one row and an error on several, as
  SQLAlchemy documents it.
\<close>

section \<open>Automation collections\<close>

named_theorems row_defs \<open>row-level definitions of the services\<close>
named_theorems table_simps \<open>facts about tables\<close>
named_theorems inv_intros \<open>preservation of invariants\<close>

section \<open>Time\<close>

type_synonym timestamp = int

definition timedelta_seconds :: "int \<Rightarrow> int" where
  "timedelta_seconds n = n * 1000000"

definition timedelta_days :: "int \<Rightarrow> int" where
  "timedelta_days n = timedelta_seconds (n * 86400)"

lemma timedelta_seconds_nonneg: "0 \<le> n \<Longrightarrow> 0 \<le> timedelta_seconds n"
  by (simp add: timedelta_seconds_def)

lemma timedelta_seconds_pos: "0 < n \<Longrightarrow> 0 < timedelta_seconds n"
  by (simp add: timedelta_seconds_def)

section \<open>Strings\<close>

definition ascii_lower :: "char \<Rightarrow> char" where
  "ascii_lower c =
     (let n = (of_char c :: nat) in if 65 \<le> n \<and> n \<le> 90 then char_of (n + 32) else c)"

definition str_lower :: "string \<Rightarrow> string" where
  "str_lower s = map ascii_lower s"

text \<open>\<open>s.strip()\<close>: whitespace is removed at both ends.\<close>

definition is_space :: "char \<Rightarrow> bool" where
  "is_space c =
     (let n = (of_char c :: nat) in (9 \<le> n \<and> n \<le> 13) \<or> (28 \<le> n \<and> n \<le> 32) \<or> n = 133 \<or> n = 160)"

definition str_strip :: "string \<Rightarrow> string" where
  "str_strip s = rev (dropWhile is_space (rev (dropWhile is_space s)))"

text \<open>\<open>s.strip(c)\<close> for one character.\<close>

definition strip_char :: "char \<Rightarrow> string \<Rightarrow> string" where
  "strip_char c s = rev (dropWhile (\<lambda>x. x = c) (rev (dropWhile (\<lambda>x. x = c) s)))"

text \<open>Python's \<open>needle in haystack\<close>.\<close>

fun str_in :: "string \<Rightarrow> string \<Rightarrow> bool" where
  "str_in needle [] = (needle = [])"
| "str_in needle (c # cs) = (take (length needle) (c # cs) = needle \<or> str_in needle cs)"

definition any_marker :: "string list \<Rightarrow> string \<Rightarrow> bool" where
  "any_marker markers s = list_ex (\<lambda>m. str_in m s) markers"

text \<open>Truthiness of \<open>str | None\<close>.\<close>

fun str_truthy :: "string option \<Rightarrow> bool" where
  "str_truthy None = False"
| "str_truthy (Some s) = (s \<noteq> [])"

text \<open>\<open>value or fallback\<close> on optional strings.\<close>

definition str_or :: "string option \<Rightarrow> string option \<Rightarrow> string option" where
  "str_or a b = (if str_truthy a then a else b)"

text \<open>\<open>s.split(sep, 1)\<close> when the separator occurs: the parts before and after its first occurrence.\<close>

fun split_once :: "char \<Rightarrow> string \<Rightarrow> (string \<times> string) option" where
  "split_once sep [] = None"
| "split_once sep (c # cs) =
     (if c = sep then Some ([], cs)
      else map_option (\<lambda>(a, b). (c # a, b)) (split_once sep cs))"

text \<open>\<open>str(n)\<close> of an integer.\<close>

fun digits :: "nat \<Rightarrow> string" where
  "digits n = (if n < 10 then [char_of (48 + n)] else digits (n div 10) @ [char_of (48 + n mod 10)])"

definition str_of_int :: "int \<Rightarrow> string" where
  "str_of_int i = (if i < 0 then CHR ''-'' # digits (nat (- i)) else digits (nat i))"

declare digits.simps [simp del]

lemma str_in_append_right: "str_in needle hay \<Longrightarrow> str_in needle (pre @ hay)"
  by (induction pre) auto

lemma str_in_prefix: "str_in needle (needle @ rest)"
proof (cases "needle @ rest")
  case Nil
  then show ?thesis by simp
next
  case (Cons c cs)
  then have "take (length needle) (c # cs) = needle" by (metis append_eq_conv_conj)
  with Cons show ?thesis by simp
qed

lemma str_in_iff: "str_in needle hay \<longleftrightarrow> (\<exists>pre suf. hay = pre @ needle @ suf)"
proof
  show "str_in needle hay \<Longrightarrow> \<exists>pre suf. hay = pre @ needle @ suf"
  proof (induction hay)
    case Nil
    then show ?case by simp
  next
    case (Cons c cs)
    show ?case
    proof (cases "take (length needle) (c # cs) = needle")
      case True
      then have "c # cs = [] @ needle @ drop (length needle) (c # cs)"
        by (metis append_Nil append_take_drop_id)
      then show ?thesis by blast
    next
      case False
      with Cons.prems have "str_in needle cs" by simp
      then obtain pre suf where "cs = pre @ needle @ suf" using Cons.IH by blast
      then have "c # cs = (c # pre) @ needle @ suf" by simp
      then show ?thesis by blast
    qed
  qed
next
  show "\<exists>pre suf. hay = pre @ needle @ suf \<Longrightarrow> str_in needle hay"
    by (auto intro: str_in_append_right str_in_prefix)
qed

lemma str_in_trans: "str_in a b \<Longrightarrow> str_in b c \<Longrightarrow> str_in a c"
proof -
  assume "str_in a b" and "str_in b c"
  then obtain p s p' s' where "b = p @ a @ s" and "c = p' @ b @ s'"
    by (auto simp: str_in_iff)
  then have "c = (p' @ p) @ a @ (s @ s')" by simp
  then show "str_in a c" unfolding str_in_iff by blast
qed

lemma any_marker_member: "m \<in> set ms \<Longrightarrow> str_in m s \<Longrightarrow> any_marker ms s"
  by (auto simp: any_marker_def list_ex_iff)

section \<open>Tables\<close>

text \<open>The exceptions raised by the persistence layer itself: a query for one row that finds several, and a
  write that violates a constraint.\<close>

datatype orm_error = MultipleResultsFound | IntegrityError

fun scalar_one_or_none :: "'r list \<Rightarrow> orm_error + 'r option" where
  "scalar_one_or_none [] = Inr None"
| "scalar_one_or_none [r] = Inr (Some r)"
| "scalar_one_or_none (r # s # rs) = Inl MultipleResultsFound"

text \<open>Writing back the row a query returned: the attributes of the mapped object are the row's.\<close>

definition write_row :: "('r \<Rightarrow> bool) \<Rightarrow> 'r \<Rightarrow> 'r list \<Rightarrow> 'r list" where
  "write_row p r' rs = map (\<lambda>r. if p r then r' else r) rs"

text \<open>
  The shape of every service method that loads one row, returns a default when there is none, and
  otherwise mutates the row and returns a value.
\<close>

definition on_row ::
  "('r \<Rightarrow> bool) \<Rightarrow> 'a \<Rightarrow> ('r \<Rightarrow> 'r \<times> 'a) \<Rightarrow> 'r list \<Rightarrow> (orm_error + 'a) \<times> 'r list" where
  "on_row p none f rs =
     (case scalar_one_or_none (filter p rs) of
        Inl e \<Rightarrow> (Inl e, rs)
      | Inr None \<Rightarrow> (Inr none, rs)
      | Inr (Some r) \<Rightarrow> (let (r', a) = f r in (Inr a, write_row p r' rs)))"

text \<open>
  The same for a method whose row part may raise: the transaction is rolled back, so the table is
  as it was.
\<close>

definition on_row_try ::
  "('r \<Rightarrow> bool) \<Rightarrow> 'a \<Rightarrow> ('r \<Rightarrow> orm_error + 'r \<times> 'a) \<Rightarrow> 'r list \<Rightarrow>
   (orm_error + 'a) \<times> 'r list" where
  "on_row_try p none f rs =
     (case scalar_one_or_none (filter p rs) of
        Inl e \<Rightarrow> (Inl e, rs)
      | Inr None \<Rightarrow> (Inr none, rs)
      | Inr (Some r) \<Rightarrow>
          (case f r of
             Inl e \<Rightarrow> (Inl e, rs)
           | Inr (r', a) \<Rightarrow> (Inr a, write_row p r' rs)))"

text \<open>A column declared \<open>unique=True\<close>.\<close>

definition unique_column :: "('r \<Rightarrow> 'k) \<Rightarrow> 'r list \<Rightarrow> bool" where
  "unique_column key rs \<longleftrightarrow> distinct (map key rs)"

lemma unique_column_filter: "unique_column key rs \<Longrightarrow> unique_column key (filter p rs)"
  by (simp add: unique_column_def distinct_map inj_on_def)

lemma unique_filter:
  assumes "unique_column key rs" and "r \<in> set rs"
  shows "filter (\<lambda>x. key x = key r) rs = [r]"
  using assms
proof (induction rs)
  case Nil
  then show ?case by simp
next
  case (Cons x xs)
  show ?case
  proof (cases "x = r")
    case True
    with Cons.prems(1) have "key r \<notin> key ` set xs" by (simp add: unique_column_def)
    then have "filter (\<lambda>y. key y = key r) xs = []" by (force simp: filter_empty_conv image_iff)
    with True show ?thesis by simp
  next
    case False
    with Cons.prems have "r \<in> set xs" and "unique_column key xs"
      by (auto simp: unique_column_def)
    moreover have "key x \<noteq> key r"
      using Cons.prems(1) \<open>r \<in> set xs\<close> by (auto simp: unique_column_def)
    ultimately show ?thesis using Cons.IH by simp
  qed
qed

lemma filter_missing: "k \<notin> key ` set rs \<Longrightarrow> filter (\<lambda>x. key x = k) rs = []"
  by (auto simp: filter_empty_conv)

text \<open>A query on a unique column never finds two rows.\<close>

lemma unique_scalar_cases:
  assumes "unique_column key rs"
  obtains (missing) "filter (\<lambda>x. key x = k) rs = []" and "k \<notin> key ` set rs"
  | (found) r where "r \<in> set rs" and "key r = k" and "filter (\<lambda>x. key x = k) rs = [r]"
proof (cases "k \<in> key ` set rs")
  case True
  then obtain r where r: "r \<in> set rs" and k: "key r = k" by auto
  have "filter (\<lambda>x. key x = k) rs = [r]"
    using unique_filter [OF assms r] k by simp
  with r k show ?thesis by (rule found)
next
  case False
  from missing [OF filter_missing [OF False] False] show ?thesis .
qed

lemma on_row_missing:
  "filter p rs = [] \<Longrightarrow> on_row p none f rs = (Inr none, rs)"
  by (simp add: on_row_def)

lemma on_row_found:
  "filter p rs = [r] \<Longrightarrow>
   on_row p none f rs = (Inr (snd (f r)), write_row p (fst (f r)) rs)"
  by (simp add: on_row_def split_beta)

lemma on_row_try_missing: "filter p rs = [] \<Longrightarrow> on_row_try p none f rs = (Inr none, rs)"
  by (simp add: on_row_try_def)

lemma on_row_try_found:
  "filter p rs = [r] \<Longrightarrow> f r = Inr (r', a) \<Longrightarrow>
   on_row_try p none f rs = (Inr a, write_row p r' rs)"
  "filter p rs = [r] \<Longrightarrow> f r = Inl e \<Longrightarrow> on_row_try p none f rs = (Inl e, rs)"
  by (simp_all add: on_row_try_def)

lemma on_row_unique:
  assumes "unique_column key rs" and "r \<in> set rs"
  shows "on_row (\<lambda>x. key x = key r) none f rs =
         (Inr (snd (f r)), write_row (\<lambda>x. key x = key r) (fst (f r)) rs)"
  using unique_filter [OF assms] by (rule on_row_found)

lemma on_row_Inr:
  assumes "unique_column key rs"
  shows "\<exists>a. fst (on_row (\<lambda>x. key x = k) none f rs) = Inr a"
  using assms by (rule unique_scalar_cases [of key rs k]) (simp_all add: on_row_missing on_row_found)

lemma write_row_keys [table_simps]:
  "key r' = k \<Longrightarrow> map key (write_row (\<lambda>x. key x = k) r' rs) = map key rs"
  by (auto simp: write_row_def)

lemma write_row_map:
  assumes "unique_column key rs" and "r \<in> set rs"
  shows "write_row (\<lambda>x. key x = key r) (f r) rs = map (\<lambda>x. if key x = key r then f x else x) rs"
proof -
  have "x = r" if "x \<in> set rs" and "key x = key r" for x
    using assms that by (auto simp: unique_column_def distinct_map dest: inj_onD)
  then show ?thesis by (auto simp: write_row_def)
qed

lemma map_row_id [table_simps]:
  assumes "unique_column key rs" and "r \<in> set rs"
  shows "map (\<lambda>x. if key x = key r then r else x) rs = rs"
proof (rule map_idI)
  fix x assume "x \<in> set rs"
  then show "(if key x = key r then r else x) = x"
    using assms by (auto simp: unique_column_def distinct_map dest: inj_onD)
qed

text \<open>
  The effect of \<^const>\<open>on_row\<close> on a table with a unique key: the addressed row is replaced by the
  updated row, every other row is untouched.
\<close>

lemma on_row_table:
  assumes "unique_column key rs"
  shows "snd (on_row (\<lambda>x. key x = k) none f rs) =
         map (\<lambda>x. if key x = k then fst (f x) else x) rs"
  using assms
proof (rule unique_scalar_cases [of key rs k])
  assume "filter (\<lambda>x. key x = k) rs = []" and "k \<notin> key ` set rs"
  then show ?thesis by (auto simp: on_row_missing intro!: map_idI [symmetric])
next
  fix r assume r: "r \<in> set rs" "key r = k" "filter (\<lambda>x. key x = k) rs = [r]"
  have "write_row (\<lambda>x. key x = key r) (fst (f r)) rs =
      map (\<lambda>x. if key x = key r then fst (f x) else x) rs"
    using write_row_map [OF assms r(1), of "\<lambda>x. fst (f x)"] by simp
  with r show ?thesis by (simp add: on_row_found)
qed

lemma on_row_value:
  assumes "unique_column key rs"
  shows "r \<in> set rs \<Longrightarrow> fst (on_row (\<lambda>x. key x = key r) none f rs) = Inr (snd (f r))"
    and "k \<notin> key ` set rs \<Longrightarrow> fst (on_row (\<lambda>x. key x = k) none f rs) = Inr none"
  using assms by (simp_all add: on_row_unique on_row_missing filter_missing)

lemma map_row_unique [table_simps]:
  assumes "\<And>x. key (f x) = key x"
  shows "unique_column key (map (\<lambda>x. if key x = k then f x else x) rs) = unique_column key rs"
proof -
  have "map key (map (\<lambda>x. if key x = k then f x else x) rs) = map key rs"
    using assms by simp
  then show ?thesis by (simp only: unique_column_def)
qed

text \<open>\<open>select ... where ... order_by(key) ... limit(n)\<close>.\<close>

definition select_ordered :: "('r \<Rightarrow> bool) \<Rightarrow> ('r \<Rightarrow> 'k :: linorder) \<Rightarrow> nat \<Rightarrow> 'r list \<Rightarrow> 'r list" where
  "select_ordered p key n rs = take n (sort_key key (filter p rs))"

lemma select_ordered_set: "set (select_ordered p key n rs) \<subseteq> {r \<in> set rs. p r}"
  using set_take_subset by (fastforce simp: select_ordered_def)

lemma select_ordered_all:
  "length (filter p rs) \<le> n \<Longrightarrow> set (select_ordered p key n rs) = {r \<in> set rs. p r}"
  by (auto simp: select_ordered_def)

lemma select_ordered_length: "length (select_ordered p key n rs) \<le> n"
  by (simp add: select_ordered_def)

end
