(* ===== verification/Async_Diagnostics.thy ===== *)
theory Async_Diagnostics
  imports Prelude
begin

text \<open>
  \<open>backend/app/modules/async_operations/diagnostics.py\<close>: the normalised diagnostic (code, stage,
  error class, retryable flag) that every durable background operation stores next to its raw
  status. The Python functions write the four \<open>internal_error_*\<close> attributes of any record by
  \<open>setattr\<close>; here the four attributes are the base record \<open>diagnostic_row\<close>, and the row
  types of the components extend it, so the functions apply to all of them.
\<close>

section \<open>Enumerations\<close>

datatype AsyncOperationKindValue =
  Kind_IMPORT | Kind_RENDER | Kind_PLAYBACK | Kind_MAIL | Kind_SCORE_DELETION

fun kind_value :: "AsyncOperationKindValue \<Rightarrow> string" where
  "kind_value Kind_IMPORT = ''import''"
| "kind_value Kind_RENDER = ''render''"
| "kind_value Kind_PLAYBACK = ''playback''"
| "kind_value Kind_MAIL = ''mail''"
| "kind_value Kind_SCORE_DELETION = ''score_deletion''"

datatype AsyncOperationStatusValue =
  Op_QUEUED | Op_DISPATCHED | Op_PROCESSING | Op_RETRYING | Op_SUCCEEDED | Op_FAILED
| Op_PERMANENT_FAILED | Op_EXPIRED | Op_EXHAUSTED | Op_BLOCKED

fun op_status_value :: "AsyncOperationStatusValue \<Rightarrow> string" where
  "op_status_value Op_QUEUED = ''queued''"
| "op_status_value Op_DISPATCHED = ''dispatched''"
| "op_status_value Op_PROCESSING = ''processing''"
| "op_status_value Op_RETRYING = ''retrying''"
| "op_status_value Op_SUCCEEDED = ''succeeded''"
| "op_status_value Op_FAILED = ''failed''"
| "op_status_value Op_PERMANENT_FAILED = ''permanent_failed''"
| "op_status_value Op_EXPIRED = ''expired''"
| "op_status_value Op_EXHAUSTED = ''exhausted''"
| "op_status_value Op_BLOCKED = ''blocked''"

datatype AsyncOperationErrorClassValue =
  Class_TRANSIENT | Class_PERMANENT | Class_USER_ERROR | Class_SYSTEM_ERROR | Class_UNKNOWN

fun error_class_value :: "AsyncOperationErrorClassValue \<Rightarrow> string" where
  "error_class_value Class_TRANSIENT = ''transient''"
| "error_class_value Class_PERMANENT = ''permanent''"
| "error_class_value Class_USER_ERROR = ''user_error''"
| "error_class_value Class_SYSTEM_ERROR = ''system_error''"
| "error_class_value Class_UNKNOWN = ''unknown''"

record AsyncOperationDiagnosticValue =
  internal_code_of :: string
  internal_stage_of :: string
  internal_error_class_of :: "AsyncOperationErrorClassValue option"
  retryable_of :: bool

section \<open>The stored attributes\<close>

record diagnostic_row =
  internal_error_code :: "string option"
  internal_error_stage :: "string option"
  internal_error_class :: "string option"
  internal_error_retryable :: "bool option"

definition clear_async_diagnostic :: "'z diagnostic_row_scheme \<Rightarrow> 'z diagnostic_row_scheme" where
  "clear_async_diagnostic r =
     r\<lparr>internal_error_code := None, internal_error_stage := None,
       internal_error_class := None, internal_error_retryable := None\<rparr>"

section \<open>Classification of error texts\<close>

definition user_error_markers :: "string list" where
  "user_error_markers =
     [''unsupported'', ''invalid file'', ''invalid input'', ''corrupt'', ''parse'']"

definition permanent_markers :: "string list" where
  "permanent_markers =
     [''references unavailable'', ''stale resources'', ''body is unavailable'', ''permanent'',
      ''expired'']"

definition transient_markers :: "string list" where
  "transient_markers =
     [''timeout'', ''temporarily'', ''unavailable'', ''connection'', ''lease expired'', ''worker'',
      ''redis'', ''s3'', ''storage'', ''smtp'']"

definition system_error_markers :: "string list" where
  "system_error_markers = [''traceback'', ''exception'', ''failed'']"

definition classify_async_error :: "string option \<Rightarrow> AsyncOperationErrorClassValue option" where
  "classify_async_error err =
     (case err of
        None \<Rightarrow> None
      | Some e \<Rightarrow>
          if e = [] then None
          else
            let normalized = str_lower e in
            if any_marker user_error_markers normalized then Some Class_USER_ERROR
            else if any_marker permanent_markers normalized then Some Class_PERMANENT
            else if any_marker transient_markers normalized then Some Class_TRANSIENT
            else if any_marker system_error_markers normalized then Some Class_SYSTEM_ERROR
            else Some Class_UNKNOWN)"

section \<open>Stage, code and retryability\<close>

definition internal_stage :: "string \<Rightarrow> string \<Rightarrow> string" where
  "internal_stage kind raw_status =
     (if kind = kind_value Kind_IMPORT then
        (case split_once (CHR ''/'') raw_status of
           Some (state, dispatch) \<Rightarrow>
             if dispatch \<in> {''PENDING'', ''DISPATCHED'', ''FAILED''} then ''dispatch''
             else str_lower state
         | None \<Rightarrow> ''import'')
      else if kind = kind_value Kind_RENDER then ''render''
      else if kind = kind_value Kind_PLAYBACK then ''playback''
      else if kind = kind_value Kind_MAIL then ''delivery''
      else if kind = kind_value Kind_SCORE_DELETION then ''cleanup''
      else kind)"

definition internal_code ::
  "string \<Rightarrow> string \<Rightarrow> string \<Rightarrow> AsyncOperationErrorClassValue option \<Rightarrow> string option \<Rightarrow> string"
where
  "internal_code kind status raw_status error_class last_err =
     (let normalized = str_lower (case last_err of
                         Some e \<Rightarrow> (if e = [] then raw_status else e) | None \<Rightarrow> raw_status) in
      if status = op_status_value Op_EXPIRED \<or> str_in ''expired'' normalized
      then kind @ ''_expired''
      else if status = op_status_value Op_EXHAUSTED then kind @ ''_attempts_exhausted''
      else if str_in ''lease expired'' normalized then kind @ ''_lease_expired''
      else if str_in ''references unavailable'' normalized \<or> str_in ''stale resources'' normalized
      then kind @ ''_stale_resources''
      else if str_in ''body is unavailable'' normalized then kind @ ''_body_unavailable''
      else if str_in ''timeout'' normalized then kind @ ''_timeout''
      else if error_class = Some Class_TRANSIENT then kind @ ''_transient_failure''
      else if error_class = Some Class_PERMANENT then kind @ ''_permanent_failure''
      else if error_class = Some Class_USER_ERROR then kind @ ''_user_input_error''
      else if error_class = Some Class_SYSTEM_ERROR then kind @ ''_system_failure''
      else if error_class = Some Class_UNKNOWN then kind @ ''_unknown_failure''
      else kind @ ''_status_'' @ status)"

definition is_retryable :: "string \<Rightarrow> int \<Rightarrow> int option \<Rightarrow> bool" where
  "is_retryable status attempts max_attempts =
     (if status \<in> {op_status_value Op_SUCCEEDED, op_status_value Op_PROCESSING,
                   op_status_value Op_DISPATCHED, op_status_value Op_PERMANENT_FAILED,
                   op_status_value Op_EXPIRED, op_status_value Op_EXHAUSTED,
                   op_status_value Op_BLOCKED}
      then False
      else if (case max_attempts of None \<Rightarrow> False | Some m \<Rightarrow> m \<le> attempts) then False
      else status \<in> {op_status_value Op_QUEUED, op_status_value Op_RETRYING,
                     op_status_value Op_FAILED})"

section \<open>Building and storing a diagnostic\<close>

definition build_async_diagnostic ::
  "AsyncOperationKindValue \<Rightarrow> AsyncOperationStatusValue \<Rightarrow> string \<Rightarrow> string option \<Rightarrow> int \<Rightarrow>
   int option \<Rightarrow> AsyncOperationDiagnosticValue option"
where
  "build_async_diagnostic kind status raw_status last_err attempts max_attempts =
     (let error_class = classify_async_error last_err in
      if last_err = None \<and> error_class = None \<and>
         status \<notin> {Op_FAILED, Op_PERMANENT_FAILED, Op_EXPIRED, Op_EXHAUSTED, Op_BLOCKED}
      then None
      else Some \<lparr>
        internal_code_of =
          internal_code (kind_value kind) (op_status_value status) raw_status error_class last_err,
        internal_stage_of = internal_stage (kind_value kind) raw_status,
        internal_error_class_of = error_class,
        retryable_of = is_retryable (op_status_value status) attempts max_attempts\<rparr>)"

definition apply_async_diagnostic ::
  "AsyncOperationKindValue \<Rightarrow> AsyncOperationStatusValue \<Rightarrow> string \<Rightarrow> string option \<Rightarrow> int \<Rightarrow>
   int option \<Rightarrow> 'z diagnostic_row_scheme \<Rightarrow> 'z diagnostic_row_scheme"
where
  "apply_async_diagnostic kind status raw_status last_err attempts max_attempts r =
     (case build_async_diagnostic kind status raw_status last_err attempts max_attempts of
        None \<Rightarrow> clear_async_diagnostic r
      | Some d \<Rightarrow>
          r\<lparr>internal_error_code := Some (internal_code_of d),
            internal_error_stage := Some (internal_stage_of d),
            internal_error_class := map_option error_class_value (internal_error_class_of d),
            internal_error_retryable := Some (retryable_of d)\<rparr>)"

section \<open>Frame facts\<close>

text \<open>
  Storing or clearing a diagnostic touches the four diagnostic attributes only. The extension part
  of the record (every column the component adds) is unchanged; the row types built on
  \<open>diagnostic_row\<close> get the same fact for each of their own columns.
\<close>

lemma clear_more [simp]: "diagnostic_row.more (clear_async_diagnostic r) = diagnostic_row.more r"
  by (simp add: clear_async_diagnostic_def)

lemma apply_more [simp]:
  "diagnostic_row.more (apply_async_diagnostic k s raw e a m r) = diagnostic_row.more r"
  by (simp add: apply_async_diagnostic_def split: option.split)

text \<open>
  Because the attributes are a record's root, an update of the extension commutes with storing the
  diagnostic.
\<close>

lemma clear_more_update:
  "clear_async_diagnostic (diagnostic_row.more_update f r) =
   diagnostic_row.more_update f (clear_async_diagnostic r)"
  by (simp add: clear_async_diagnostic_def)

lemma apply_more_update:
  "apply_async_diagnostic k s raw e a m (diagnostic_row.more_update f r) =
   diagnostic_row.more_update f (apply_async_diagnostic k s raw e a m r)"
  by (simp add: apply_async_diagnostic_def clear_async_diagnostic_def split: option.split)

section \<open>Correctness of the classification\<close>

lemma error_class_value_inject: "error_class_value a = error_class_value b \<longleftrightarrow> a = b"
  by (cases a; cases b) simp_all

lemma op_status_value_inject: "op_status_value a = op_status_value b \<longleftrightarrow> a = b"
  by (cases a; cases b) simp_all

lemma kind_value_inject: "kind_value a = kind_value b \<longleftrightarrow> a = b"
  by (cases a; cases b) simp_all

text \<open>A diagnostic says retryable exactly for the three open statuses with attempts left.\<close>

lemma is_retryable_iff:
  "is_retryable (op_status_value s) n m \<longleftrightarrow>
   s \<in> {Op_QUEUED, Op_RETRYING, Op_FAILED} \<and> (\<forall>k. m = Some k \<longrightarrow> n < k)"
  by (cases s; cases m) (auto simp: is_retryable_def)

lemma classify_None_iff: "classify_async_error e = None \<longleftrightarrow> \<not> str_truthy e"
  by (cases e) (auto simp: classify_async_error_def Let_def)

text \<open>Whatever mentions an expiry is never transient: the permanent markers are asked first.\<close>

lemma classify_expired:
  assumes "str_in ''expired'' (str_lower e)"
  shows "classify_async_error (Some e) \<in> {Some Class_USER_ERROR, Some Class_PERMANENT}"
proof -
  have "any_marker permanent_markers (str_lower e)"
    using assms by (intro any_marker_member [of "''expired''"]) (simp_all add: permanent_markers_def)
  moreover have "e \<noteq> []" using assms by (auto simp: str_lower_def)
  ultimately show ?thesis by (simp add: classify_async_error_def Let_def)
qed

lemma lease_expired_is_expired: "str_in ''lease expired'' s \<Longrightarrow> str_in ''expired'' s"
  by (rule str_in_trans [of _ "''lease expired''"]) (simp_all)

lemma build_Some_iff:
  "build_async_diagnostic k s raw e n m = None \<longleftrightarrow>
   e = None \<and> s \<in> {Op_QUEUED, Op_DISPATCHED, Op_PROCESSING, Op_RETRYING, Op_SUCCEEDED}"
  by (cases s; cases e) (auto simp: build_async_diagnostic_def Let_def classify_None_iff)

section \<open>The lease-expiry code is never produced\<close>

text \<open>No record is ever given the code \<open><kind>_lease_expired\<close>: the test for the longer phrase
  stands after the test for \<open>expired\<close>, which it contains, so the branch that would return it is
  never taken, whatever the kind, status, raw status, class and error text.\<close>

theorem lease_expired_code_unreachable:
  "internal_code (kind_value k) status raw_status error_class e \<noteq> kind_value k @ ''_lease_expired''"
  using lease_expired_is_expired by (auto simp: internal_code_def Let_def)

text \<open>The diagnostic stored for an operation whose error text mentions an expiry (a lease expiry
  in particular) is never of class \<open>transient\<close>, although \<open>lease expired\<close> is one of the transient
  markers, while the retryable flag only looks at the status and the attempts: a lease expiry with
  attempts left is stored as retryable and of a class other than transient, with the code
  \<open><kind>_expired\<close>.\<close>

theorem expiry_diagnostic:
  assumes "str_in ''expired'' (str_lower e)" and "s \<in> {Op_FAILED, Op_QUEUED, Op_RETRYING}"
    and "n < m"
  shows "let r' = apply_async_diagnostic k s raw (Some e) n (Some m) r in
    internal_error_code r' = Some (kind_value k @ ''_expired'') \<and>
    internal_error_class r' \<in> {Some ''user_error'', Some ''permanent''} \<and>
    internal_error_retryable r' = Some True"
proof -
  have ne: "e \<noteq> []" using assms(1) by (auto simp: str_lower_def)
  have "is_retryable (op_status_value s) n (Some m)"
    using assms(2,3) by (auto simp: is_retryable_iff)
  moreover have "internal_code (kind_value k) (op_status_value s) raw c (Some e) =
      kind_value k @ ''_expired''" for c
    using assms(1) ne by (simp add: internal_code_def Let_def)
  ultimately show ?thesis
    using classify_expired [OF assms(1)]
    by (auto simp: apply_async_diagnostic_def build_async_diagnostic_def Let_def)
qed

theorem expiry_diagnostic_witness:
  "let r' = apply_async_diagnostic Kind_MAIL Op_FAILED ''FAILED''
       (Some ''Mail delivery lease expired'') 1 (Some 5)
       \<lparr>internal_error_code = None, internal_error_stage = None, internal_error_class = None,
        internal_error_retryable = None\<rparr> in
    internal_error_code r' = Some ''mail_expired'' \<and>
    internal_error_class r' \<in> {Some ''user_error'', Some ''permanent''} \<and>
    internal_error_retryable r' = Some True"
proof -
  have h: "str_in ''expired'' (str_lower ''Mail delivery lease expired'')"
    by code_simp
  show ?thesis
    using expiry_diagnostic [OF h, of Op_FAILED 1 5 Kind_MAIL "''FAILED''"] by simp
qed

end
