(* ===== verification/Delivery_Policy.thy ===== *)
theory Delivery_Policy
  imports Async_Diagnostics
begin

text \<open>
  \<open>backend/app/modules/async_operations/delivery_policy.py\<close> (retry delay, lease expiry), the
  columns the outbox tables share, and the contract of one durable delivery as an interface:
  the locale \<open>delivery_row\<close> (how often and when a row is handed to a worker), the locale
  \<open>closable_row\<close> (a closed row is never handed out again) and the abstract automaton
  \<open>delivery_step\<close> that the services implement.
\<close>

section \<open>Timing policy\<close>

definition exponential_retry_delay_seconds :: "int \<Rightarrow> int \<Rightarrow> int" where
  "exponential_retry_delay_seconds base_seconds attempts =
     base_seconds * 2 ^ nat (max 0 (attempts - 1))"

definition delivery_lease_expired ::
  "'st \<Rightarrow> 'st \<Rightarrow> 'st \<Rightarrow> timestamp option \<Rightarrow> timestamp option \<Rightarrow> timestamp \<Rightarrow> int \<Rightarrow> int \<Rightarrow> bool"
where
  "delivery_lease_expired st dispatched_status processing_status dispatched started now
      dispatch_timeout_seconds processing_timeout_seconds =
     (let dispatched_cutoff = now - timedelta_seconds dispatch_timeout_seconds;
          processing_cutoff = now - timedelta_seconds processing_timeout_seconds
      in (st = dispatched_status \<and> (case dispatched of None \<Rightarrow> False | Some t \<Rightarrow> t \<le> dispatched_cutoff))
       \<or> (st = processing_status \<and> (case started of None \<Rightarrow> False | Some t \<Rightarrow> t \<le> processing_cutoff)))"

text \<open>The delay doubles with every attempt after the first, starting from the base.\<close>

lemma retry_delay_first: "n \<le> 1 \<Longrightarrow> exponential_retry_delay_seconds b n = b"
  by (simp add: exponential_retry_delay_seconds_def)

lemma retry_delay_step:
  "1 \<le> n \<Longrightarrow> exponential_retry_delay_seconds b (n + 1) = 2 * exponential_retry_delay_seconds b n"
proof -
  assume n: "1 \<le> n"
  then have "nat n = Suc (nat (n - 1))" by simp
  then have "(2::int) ^ nat n = 2 * 2 ^ nat (n - 1)" by simp
  with n show ?thesis by (simp add: exponential_retry_delay_seconds_def)
qed

lemma retry_delay_ge: "0 \<le> b \<Longrightarrow> b \<le> exponential_retry_delay_seconds b n"
  unfolding exponential_retry_delay_seconds_def
  by (metis mult.right_neutral mult_left_mono one_le_numeral one_le_power)

lemma retry_delay_mono:
  "0 \<le> b \<Longrightarrow> n \<le> k \<Longrightarrow> exponential_retry_delay_seconds b n \<le> exponential_retry_delay_seconds b k"
  unfolding exponential_retry_delay_seconds_def
  by (intro mult_left_mono power_increasing) auto

lemma lease_expired_statuses:
  "delivery_lease_expired st d p da sa now dt pt \<Longrightarrow> st = d \<or> st = p"
  by (auto simp: delivery_lease_expired_def Let_def)

text \<open>An expired lease stays expired: nothing but a status change ends it.\<close>

lemma lease_expired_mono:
  "delivery_lease_expired st d p da sa now dt pt \<Longrightarrow> now \<le> now' \<Longrightarrow>
   delivery_lease_expired st d p da sa now' dt pt"
  by (auto simp: delivery_lease_expired_def Let_def split: option.splits)

lemma lease_processing_due:
  "now + timedelta_seconds pt \<le> now' \<Longrightarrow> delivery_lease_expired p d p da (Some now) now' dt pt"
  by (simp add: delivery_lease_expired_def Let_def)

lemma lease_dispatched_due:
  "now + timedelta_seconds dt \<le> now' \<Longrightarrow> delivery_lease_expired d d p (Some now) sa now' dt pt"
  by (simp add: delivery_lease_expired_def Let_def)

section \<open>Columns shared by the outbox tables\<close>

record 'st outbox_row = diagnostic_row +
  row_id :: "int option"
  outbox_uuid :: string
  originating_request_id :: "string option"
  traceparent :: "string option"
  tracestate :: "string option"
  status :: 'st
  attempt_count :: int
  next_attempt_at :: timestamp
  dispatched_at :: "timestamp option"
  started_at :: "timestamp option"
  completed_at :: "timestamp option"
  last_error :: "string option"
  created_at :: timestamp
  updated_at :: timestamp

lemma clear_diagnostic_outbox [simp]:
  "row_id (clear_async_diagnostic r) = row_id r"
  "outbox_uuid (clear_async_diagnostic r) = outbox_uuid r"
  "originating_request_id (clear_async_diagnostic r) = originating_request_id r"
  "traceparent (clear_async_diagnostic r) = traceparent r"
  "tracestate (clear_async_diagnostic r) = tracestate r"
  "status (clear_async_diagnostic r) = status r"
  "attempt_count (clear_async_diagnostic r) = attempt_count r"
  "next_attempt_at (clear_async_diagnostic r) = next_attempt_at r"
  "dispatched_at (clear_async_diagnostic r) = dispatched_at r"
  "started_at (clear_async_diagnostic r) = started_at r"
  "completed_at (clear_async_diagnostic r) = completed_at r"
  "last_error (clear_async_diagnostic r) = last_error r"
  "created_at (clear_async_diagnostic r) = created_at r"
  "updated_at (clear_async_diagnostic r) = updated_at r"
  "outbox_row.more (clear_async_diagnostic r) = outbox_row.more r"
  by (simp_all add: clear_async_diagnostic_def)

lemma apply_diagnostic_outbox [simp]:
  "row_id (apply_async_diagnostic k s raw e n m r) = row_id r"
  "outbox_uuid (apply_async_diagnostic k s raw e n m r) = outbox_uuid r"
  "originating_request_id (apply_async_diagnostic k s raw e n m r) = originating_request_id r"
  "traceparent (apply_async_diagnostic k s raw e n m r) = traceparent r"
  "tracestate (apply_async_diagnostic k s raw e n m r) = tracestate r"
  "status (apply_async_diagnostic k s raw e n m r) = status r"
  "attempt_count (apply_async_diagnostic k s raw e n m r) = attempt_count r"
  "next_attempt_at (apply_async_diagnostic k s raw e n m r) = next_attempt_at r"
  "dispatched_at (apply_async_diagnostic k s raw e n m r) = dispatched_at r"
  "started_at (apply_async_diagnostic k s raw e n m r) = started_at r"
  "completed_at (apply_async_diagnostic k s raw e n m r) = completed_at r"
  "last_error (apply_async_diagnostic k s raw e n m r) = last_error r"
  "created_at (apply_async_diagnostic k s raw e n m r) = created_at r"
  "updated_at (apply_async_diagnostic k s raw e n m r) = updated_at r"
  "outbox_row.more (apply_async_diagnostic k s raw e n m r) = outbox_row.more r"
  by (simp_all add: apply_async_diagnostic_def split: option.split)

section \<open>The contract of one durable delivery\<close>

text \<open>
  Runs of a row: the events happen one after another, and the run counts how often the row was
  handed to a worker (a claim that returned a payload).
\<close>

fun run_row :: "('e \<Rightarrow> 'row \<Rightarrow> 'row \<times> bool) \<Rightarrow> 'e list \<Rightarrow> 'row \<Rightarrow> 'row \<times> nat" where
  "run_row step [] r = (r, 0)"
| "run_row step (e # es) r =
     (let (r1, handed) = step e r; (r2, n) = run_row step es r1
      in (r2, (if handed then Suc n else n)))"

locale delivery_row =
  fixes step :: "'e \<Rightarrow> 'row \<Rightarrow> 'row \<times> bool"
    and running :: "'row \<Rightarrow> bool"
    and attempts :: "'row \<Rightarrow> int"
    and max_attempts :: int
    and closes_attempt :: "'e \<Rightarrow> bool"
  assumes handed_out: "snd (step e r) \<Longrightarrow>
      \<not> running r \<and> attempts r < max_attempts \<and>
      running (fst (step e r)) \<and> attempts (fst (step e r)) = attempts r + 1"
    and kept: "\<not> snd (step e r) \<Longrightarrow>
      attempts r \<le> attempts (fst (step e r)) \<and>
      (attempts r \<le> max_attempts \<longrightarrow> attempts (fst (step e r)) \<le> max_attempts)"
    and still_running: "running r \<Longrightarrow> \<not> closes_attempt e \<Longrightarrow> running (fst (step e r))"
    and not_started: "\<not> snd (step e r) \<Longrightarrow> running (fst (step e r)) \<Longrightarrow> running r"
begin

lemma step_bound:
  "attempts r \<le> max_attempts \<Longrightarrow> attempts (fst (step e r)) \<le> max_attempts"
  using handed_out [of e r] kept [of e r] by (cases "snd (step e r)") auto

lemma run_bound:
  "attempts r \<le> max_attempts \<Longrightarrow> attempts (fst (run_row step es r)) \<le> max_attempts"
proof (induction es arbitrary: r)
  case Nil
  then show ?case by simp
next
  case (Cons e es)
  then show ?case using step_bound [of r e] by (simp add: split_beta Let_def)
qed

lemma run_deliveries:
  "attempts r + int (snd (run_row step es r)) \<le> attempts (fst (run_row step es r))"
proof (induction es arbitrary: r)
  case Nil
  then show ?case by simp
next
  case (Cons e es)
  have "attempts r + (if snd (step e r) then 1 else 0) \<le> attempts (fst (step e r))"
    using handed_out [of e r] kept [of e r] by auto
  with Cons.IH [of "fst (step e r)"] show ?case
    by (auto simp: split_beta Let_def split: if_splits)
qed

lemma deliveries_bounded:
  assumes "attempts r \<le> max_attempts"
  shows "int (snd (run_row step es r)) \<le> max_attempts - attempts r"
  using run_deliveries [of r es] run_bound [OF assms, of es] by linarith

lemma running_exclusive:
  "running r \<Longrightarrow> \<forall>e \<in> set es. \<not> closes_attempt e \<Longrightarrow>
   snd (run_row step es r) = 0 \<and> running (fst (run_row step es r))"
proof (induction es arbitrary: r)
  case Nil
  then show ?case by simp
next
  case (Cons e es)
  then have "\<not> snd (step e r)" using handed_out [of e r] by blast
  moreover have "running (fst (step e r))" using Cons.prems still_running [of r e] by simp
  ultimately show ?case using Cons.IH [of "fst (step e r)"] Cons.prems
    by (simp add: split_beta Let_def)
qed

lemma one_delivery_per_lease:
  "\<forall>e \<in> set es. \<not> closes_attempt e \<Longrightarrow> snd (run_row step es r) \<le> 1"
proof (induction es arbitrary: r)
  case Nil
  then show ?case by simp
next
  case (Cons e es)
  show ?case
  proof (cases "snd (step e r)")
    case True
    then have "running (fst (step e r))" using handed_out [of e r] by blast
    with Cons.prems have "snd (run_row step es (fst (step e r))) = 0"
      using running_exclusive [of "fst (step e r)" es] by simp
    with True show ?thesis by (simp add: split_beta Let_def)
  next
    case False
    with Cons show ?thesis by (simp add: split_beta Let_def)
  qed
qed

end

text \<open>A delivery row with a closed condition: once closed, closed for ever, and never handed out.\<close>

locale closable_row = delivery_row step running attempts max_attempts closes_attempt
  for step :: "'e \<Rightarrow> 'row \<Rightarrow> 'row \<times> bool"
    and running attempts max_attempts closes_attempt +
  fixes closed :: "'row \<Rightarrow> bool"
  assumes stays_closed: "closed r \<Longrightarrow> closed (fst (step e r))"
    and closed_not_handed: "closed r \<Longrightarrow> \<not> snd (step e r)"
begin

lemma closed_run:
  "closed r \<Longrightarrow> snd (run_row step es r) = 0 \<and> closed (fst (run_row step es r))"
proof (induction es arbitrary: r)
  case Nil
  then show ?case by simp
next
  case (Cons e es)
  then show ?case using stays_closed [of r e] closed_not_handed [of r e]
    by (simp add: split_beta Let_def)
qed

end

section \<open>The abstract automaton\<close>

text \<open>
  What the outboxes are meant to be: a row waits, is handed to the broker, runs under a lease, and
  ends done or failed; a failed row with attempts left may be handed out again. Completion and
  failure are reported for a running row.
\<close>

datatype phase = Waiting | Handed | Running | Done | Failed

record delivery_state =
  phase_of :: phase
  tries :: int

inductive delivery_step :: "int \<Rightarrow> delivery_state \<Rightarrow> delivery_state \<Rightarrow> bool" for limit where
  idle: "delivery_step limit s s"
| hand: "phase_of s \<in> {Waiting, Failed} \<Longrightarrow> tries s < limit \<Longrightarrow>
     delivery_step limit s (s\<lparr>phase_of := Handed\<rparr>)"
| give_back: "phase_of s = Handed \<Longrightarrow> delivery_step limit s (s\<lparr>phase_of := Waiting\<rparr>)"
| start: "phase_of s \<in> {Waiting, Handed, Failed} \<Longrightarrow> tries s < limit \<Longrightarrow>
     delivery_step limit s \<lparr>phase_of = Running, tries = tries s + 1\<rparr>"
| finish: "phase_of s = Running \<Longrightarrow> delivery_step limit s (s\<lparr>phase_of := Done\<rparr>)"
| report_failure: "phase_of s = Running \<Longrightarrow> delivery_step limit s (s\<lparr>phase_of := Failed\<rparr>)"
| lease_lost: "phase_of s \<in> {Handed, Running} \<Longrightarrow>
     delivery_step limit s (s\<lparr>phase_of := Failed\<rparr>)"
| drop: "phase_of s \<in> {Waiting, Handed, Failed} \<Longrightarrow> delivery_step limit s (s\<lparr>phase_of := Done\<rparr>)"
| exhaust: "phase_of s \<in> {Waiting, Handed, Failed} \<Longrightarrow> tries s < limit \<Longrightarrow>
     delivery_step limit s \<lparr>phase_of = Failed, tries = limit\<rparr>"

inductive_cases delivery_step_doneE: "delivery_step limit \<lparr>phase_of = Done, tries = n\<rparr> s'"

lemma delivery_step_tries:
  "delivery_step limit s s' \<Longrightarrow> tries s \<le> limit \<Longrightarrow> tries s \<le> tries s' \<and> tries s' \<le> limit"
  by (induction rule: delivery_step.induct) auto

lemma delivery_step_done: "delivery_step limit s s' \<Longrightarrow> phase_of s = Done \<Longrightarrow> s' = s"
  by (cases s) (auto elim: delivery_step_doneE)

inductive delivery_reach :: "int \<Rightarrow> delivery_state \<Rightarrow> delivery_state \<Rightarrow> bool" for limit where
  here: "delivery_reach limit s s"
| onward: "delivery_reach limit s t \<Longrightarrow> delivery_step limit t u \<Longrightarrow> delivery_reach limit s u"

lemma delivery_reach_tries:
  "delivery_reach limit s t \<Longrightarrow> tries s \<le> limit \<Longrightarrow> tries s \<le> tries t \<and> tries t \<le> limit"
  by (induction rule: delivery_reach.induct) (auto dest: delivery_step_tries)

lemma delivery_reach_done: "delivery_reach limit s t \<Longrightarrow> phase_of s = Done \<Longrightarrow> t = s"
  by (induction rule: delivery_reach.induct) (auto dest: delivery_step_done)

end
