(* ===== verification/Mail_Outbox.thy ===== *)
theory Mail_Outbox
  imports Delivery_Policy
begin

text \<open>
  Transactional mail: \<open>backend/app/db/models/mail_outbox.py\<close> (the row),
  \<open>backend/app/modules/mail/outbox_service.py\<close> (the service),
  \<open>backend/app/core/settings/mail_delivery.py\<close> (its settings). One definition per method; the row
  part of a method (\<open>..._row\<close>) is what it does to the loaded row, the table part loads the row by
  its uuid and writes it back. The worker's session is created with \<open>autoflush=False\<close>
  (\<open>backend/app/db/sync_session.py\<close>), so the queries of \<open>recover_and_list_due\<close> see the rows as
  they were when the scan began.
\<close>

section \<open>The row\<close>

datatype MailOutboxStatus =
  Mail_PENDING | Mail_DISPATCHED | Mail_PROCESSING | Mail_SENT | Mail_FAILED
| Mail_PERMANENT_FAILURE | Mail_EXPIRED

fun mail_status_value :: "MailOutboxStatus \<Rightarrow> string" where
  "mail_status_value Mail_PENDING = ''PENDING''"
| "mail_status_value Mail_DISPATCHED = ''DISPATCHED''"
| "mail_status_value Mail_PROCESSING = ''PROCESSING''"
| "mail_status_value Mail_SENT = ''SENT''"
| "mail_status_value Mail_FAILED = ''FAILED''"
| "mail_status_value Mail_PERMANENT_FAILURE = ''PERMANENT_FAILURE''"
| "mail_status_value Mail_EXPIRED = ''EXPIRED''"

record MailOutbox = "MailOutboxStatus outbox_row" +
  category :: string
  dedupe_key :: string
  recipient :: string
  subject :: string
  text_body :: "string option"
  html_body :: "string option"
  expires_at :: "timestamp option"
  provider_message_id :: "string option"

record mail_settings =
  MAIL_OUTBOX_DISPATCH_TIMEOUT_SECONDS :: int
  MAIL_OUTBOX_PROCESSING_TIMEOUT_SECONDS :: int
  MAIL_OUTBOX_RETRY_BASE_SECONDS :: int
  MAIL_OUTBOX_MAX_ATTEMPTS :: int
  MAIL_OUTBOX_DISPATCH_BATCH_SIZE :: int
  MAIL_OUTBOX_RETENTION_DAYS :: int

definition mail_delivery_defaults :: mail_settings where
  "mail_delivery_defaults = \<lparr>
     MAIL_OUTBOX_DISPATCH_TIMEOUT_SECONDS = 120,
     MAIL_OUTBOX_PROCESSING_TIMEOUT_SECONDS = 120,
     MAIL_OUTBOX_RETRY_BASE_SECONDS = 30,
     MAIL_OUTBOX_MAX_ATTEMPTS = 5,
     MAIL_OUTBOX_DISPATCH_BATCH_SIZE = 50,
     MAIL_OUTBOX_RETENTION_DAYS = 7\<rparr>"

record MailOutboxPayload =
  mp_outbox_uuid :: string
  mp_recipient :: string
  mp_subject :: string
  mp_text_body :: string
  mp_html_body :: "string option"
  mp_category :: string
  mp_attempt :: int
  mp_max_attempts :: int
  mp_originating_request_id :: "string option"
  mp_traceparent :: "string option"
  mp_tracestate :: "string option"

section \<open>Queueing\<close>

text \<open>
  The constructor call of \<open>queue_mail\<close>, with the column defaults of the model: the uuid and the
  three clock readings of the \<open>default_factory\<close>s are arguments, as are the request id and the trace
  context of the caller.
\<close>

definition new_mail_outbox ::
  "string \<Rightarrow> timestamp \<Rightarrow> timestamp \<Rightarrow> timestamp \<Rightarrow> string option \<Rightarrow> string option \<Rightarrow> string option \<Rightarrow>
   string \<Rightarrow> string \<Rightarrow> string \<Rightarrow> string \<Rightarrow> string \<Rightarrow> string option \<Rightarrow> timestamp option \<Rightarrow> MailOutbox"
where
  "new_mail_outbox new_uuid t_next t_created t_updated request_id trace_parent trace_state
      cat dkey rcpt subj text html expires = \<lparr>
     internal_error_code = None, internal_error_stage = None,
     internal_error_class = None, internal_error_retryable = None,
     row_id = None, outbox_uuid = new_uuid,
     originating_request_id = request_id, traceparent = trace_parent, tracestate = trace_state,
     status = Mail_PENDING, attempt_count = 0, next_attempt_at = t_next,
     dispatched_at = None, started_at = None, completed_at = None, last_error = None,
     created_at = t_created, updated_at = t_updated,
     category = cat, dedupe_key = dkey, recipient = str_lower (str_strip rcpt),
     subject = subj, text_body = Some text, html_body = html, expires_at = expires,
     provider_message_id = None\<rparr>"

definition queue_mail ::
  "string \<Rightarrow> timestamp \<Rightarrow> timestamp \<Rightarrow> timestamp \<Rightarrow> string option \<Rightarrow> string option \<Rightarrow> string option \<Rightarrow>
   string \<Rightarrow> string \<Rightarrow> string \<Rightarrow> string \<Rightarrow> string \<Rightarrow> string option \<Rightarrow> timestamp option \<Rightarrow>
   MailOutbox list \<Rightarrow> (orm_error + MailOutbox) \<times> MailOutbox list"
where
  "queue_mail new_uuid t_next t_created t_updated request_id trace_parent trace_state
      cat dkey rcpt subj text html expires db =
     (case scalar_one_or_none (filter (\<lambda>r. dedupe_key r = dkey) db) of
        Inl e \<Rightarrow> (Inl e, db)
      | Inr (Some existing) \<Rightarrow> (Inr existing, db)
      | Inr None \<Rightarrow>
          (let outbox = new_mail_outbox new_uuid t_next t_created t_updated request_id
                          trace_parent trace_state cat dkey rcpt subj text html expires
           in (Inr outbox, db @ [outbox])))"

section \<open>The service, row by row\<close>

definition mail_diagnostic ::
  "mail_settings \<Rightarrow> AsyncOperationStatusValue \<Rightarrow> MailOutbox \<Rightarrow> MailOutbox" where
  "mail_diagnostic st op r =
     apply_async_diagnostic Kind_MAIL op (mail_status_value (status r)) (last_error r)
       (attempt_count r) (Some (MAIL_OUTBOX_MAX_ATTEMPTS st)) r"

definition mail_finish :: "MailOutboxStatus \<Rightarrow> timestamp \<Rightarrow> MailOutbox \<Rightarrow> MailOutbox" where
  "mail_finish s now r =
     r\<lparr>status := s, completed_at := Some now, text_body := None, html_body := None,
       updated_at := now\<rparr>"

definition mail_claim_row ::
  "mail_settings \<Rightarrow> timestamp \<Rightarrow> MailOutbox \<Rightarrow> MailOutbox \<times> MailOutboxPayload option" where
  "mail_claim_row st now r =
     (if status r \<in> {Mail_PROCESSING, Mail_SENT, Mail_PERMANENT_FAILURE, Mail_EXPIRED}
      then (r, None)
      else if (case expires_at r of None \<Rightarrow> False | Some e \<Rightarrow> e \<le> now)
      then (mail_diagnostic st Op_EXPIRED (mail_finish Mail_EXPIRED now r), None)
      else if status r = Mail_FAILED \<and> next_attempt_at r > now then (r, None)
      else if attempt_count r \<ge> MAIL_OUTBOX_MAX_ATTEMPTS st
      then (mail_diagnostic st Op_EXHAUSTED (mail_finish Mail_PERMANENT_FAILURE now r), None)
      else (case text_body r of
              Some (c # cs) \<Rightarrow>
                (let r1 = r\<lparr>status := Mail_PROCESSING, attempt_count := attempt_count r + 1,
                            started_at := Some now\<rparr>;
                     r2 = (clear_async_diagnostic r1)\<lparr>updated_at := now\<rparr>
                 in (r2, Some \<lparr>
                       mp_outbox_uuid = outbox_uuid r2, mp_recipient = recipient r2,
                       mp_subject = subject r2, mp_text_body = c # cs,
                       mp_html_body = html_body r2, mp_category = category r2,
                       mp_attempt = attempt_count r2,
                       mp_max_attempts = MAIL_OUTBOX_MAX_ATTEMPTS st,
                       mp_originating_request_id = originating_request_id r2,
                       mp_traceparent = traceparent r2, mp_tracestate = tracestate r2\<rparr>))
            | _ \<Rightarrow>
                (mail_diagnostic st Op_PERMANENT_FAILED
                   ((mail_finish Mail_PERMANENT_FAILURE now r)
                      \<lparr>last_error := Some ''Mail outbox body is unavailable''\<rparr>), None)))"

definition mail_sent_row :: "timestamp \<Rightarrow> string option \<Rightarrow> MailOutbox \<Rightarrow> MailOutbox" where
  "mail_sent_row now message_id r =
     clear_async_diagnostic
       ((mail_finish Mail_SENT now r)\<lparr>provider_message_id := message_id, last_error := None\<rparr>)"

definition mail_transient_failure_row ::
  "mail_settings \<Rightarrow> timestamp \<Rightarrow> string \<Rightarrow> MailOutbox \<Rightarrow> MailOutbox" where
  "mail_transient_failure_row st now err r =
     (let r1 = (if attempt_count r \<ge> MAIL_OUTBOX_MAX_ATTEMPTS st
                then mail_finish Mail_PERMANENT_FAILURE now r
                else r\<lparr>status := Mail_FAILED,
                       next_attempt_at := now + timedelta_seconds
                         (exponential_retry_delay_seconds (MAIL_OUTBOX_RETRY_BASE_SECONDS st)
                            (attempt_count r)),
                       updated_at := now\<rparr>);
          r2 = r1\<lparr>last_error := Some (take 4000 err)\<rparr>
      in mail_diagnostic st
           (if status r2 = Mail_PERMANENT_FAILURE then Op_PERMANENT_FAILED else Op_RETRYING) r2)"

definition mail_permanent_failure_row ::
  "mail_settings \<Rightarrow> timestamp \<Rightarrow> string \<Rightarrow> MailOutbox \<Rightarrow> MailOutbox" where
  "mail_permanent_failure_row st now err r =
     mail_diagnostic st Op_PERMANENT_FAILED
       ((mail_finish Mail_PERMANENT_FAILURE now r)\<lparr>last_error := Some (take 4000 err)\<rparr>)"

definition mail_is_dispatchable :: "mail_settings \<Rightarrow> timestamp \<Rightarrow> MailOutbox \<Rightarrow> bool" where
  "mail_is_dispatchable st now r \<longleftrightarrow>
     status r \<in> {Mail_PENDING, Mail_FAILED} \<and>
     attempt_count r < MAIL_OUTBOX_MAX_ATTEMPTS st \<and>
     next_attempt_at r \<le> now \<and>
     (case expires_at r of None \<Rightarrow> True | Some e \<Rightarrow> e > now)"

definition mail_mark_dispatched_row ::
  "mail_settings \<Rightarrow> timestamp \<Rightarrow> timestamp \<Rightarrow> MailOutbox \<Rightarrow> MailOutbox \<times> bool" where
  "mail_mark_dispatched_row st t_check now r =
     (if \<not> mail_is_dispatchable st t_check r then (r, False)
      else ((clear_async_diagnostic (r\<lparr>status := Mail_DISPATCHED, dispatched_at := Some now\<rparr>))
              \<lparr>updated_at := now\<rparr>, True))"

definition mail_release_dispatch_row ::
  "mail_settings \<Rightarrow> timestamp \<Rightarrow> string \<Rightarrow> MailOutbox \<Rightarrow> MailOutbox" where
  "mail_release_dispatch_row st now err r =
     (if status r \<noteq> Mail_DISPATCHED then r
      else (mail_diagnostic st Op_QUEUED
              (r\<lparr>status := Mail_PENDING, dispatched_at := None,
                 last_error := Some (take 4000 err)\<rparr>))\<lparr>updated_at := now\<rparr>)"

definition mail_recover_row :: "mail_settings \<Rightarrow> timestamp \<Rightarrow> MailOutbox \<Rightarrow> MailOutbox" where
  "mail_recover_row st now r =
     (if delivery_lease_expired (status r) Mail_DISPATCHED Mail_PROCESSING
           (dispatched_at r) (started_at r) now
           (MAIL_OUTBOX_DISPATCH_TIMEOUT_SECONDS st) (MAIL_OUTBOX_PROCESSING_TIMEOUT_SECONDS st)
      then (mail_diagnostic st Op_FAILED
              (r\<lparr>status := Mail_FAILED, next_attempt_at := now,
                 last_error := Some ''Mail delivery lease expired''\<rparr>))\<lparr>updated_at := now\<rparr>
      else r)"

definition mail_expirable :: "timestamp \<Rightarrow> MailOutbox \<Rightarrow> bool" where
  "mail_expirable now r \<longleftrightarrow>
     (case expires_at r of None \<Rightarrow> False | Some e \<Rightarrow> e \<le> now) \<and>
     status r \<in> {Mail_PENDING, Mail_FAILED, Mail_DISPATCHED}"

definition mail_expire_row :: "mail_settings \<Rightarrow> timestamp \<Rightarrow> MailOutbox \<Rightarrow> MailOutbox" where
  "mail_expire_row st now r = mail_diagnostic st Op_EXPIRED (mail_finish Mail_EXPIRED now r)"

definition mail_due :: "mail_settings \<Rightarrow> timestamp \<Rightarrow> MailOutbox \<Rightarrow> bool" where
  "mail_due st now r \<longleftrightarrow>
     status r \<in> {Mail_PENDING, Mail_FAILED} \<and>
     next_attempt_at r \<le> now \<and>
     attempt_count r < MAIL_OUTBOX_MAX_ATTEMPTS st \<and>
     (case expires_at r of None \<Rightarrow> True | Some e \<Rightarrow> e > now)"

text \<open>
  What one scan does to a row: the lease check, then the expiry, whose query saw the row as it was
  before the lease check.
\<close>

definition mail_scan_row :: "mail_settings \<Rightarrow> timestamp \<Rightarrow> MailOutbox \<Rightarrow> MailOutbox" where
  "mail_scan_row st now r =
     (let r1 = (if status r = Mail_DISPATCHED \<or> status r = Mail_PROCESSING
                then mail_recover_row st now r else r)
      in if mail_expirable now r then mail_expire_row st now r1 else r1)"

section \<open>The service on the table\<close>

definition mail_claim ::
  "mail_settings \<Rightarrow> timestamp \<Rightarrow> string \<Rightarrow> MailOutbox list \<Rightarrow>
   (orm_error + MailOutboxPayload option) \<times> MailOutbox list" where
  "mail_claim st now uuid db =
     on_row (\<lambda>r. outbox_uuid r = uuid) None (mail_claim_row st now) db"

definition mail_sent ::
  "timestamp \<Rightarrow> string \<Rightarrow> string option \<Rightarrow> MailOutbox list \<Rightarrow> (orm_error + unit) \<times> MailOutbox list" where
  "mail_sent now uuid message_id db =
     on_row (\<lambda>r. outbox_uuid r = uuid) () (\<lambda>r. (mail_sent_row now message_id r, ())) db"

definition mail_transient_failure ::
  "mail_settings \<Rightarrow> timestamp \<Rightarrow> string \<Rightarrow> string \<Rightarrow> MailOutbox list \<Rightarrow>
   (orm_error + unit) \<times> MailOutbox list" where
  "mail_transient_failure st now uuid err db =
     on_row (\<lambda>r. outbox_uuid r = uuid) () (\<lambda>r. (mail_transient_failure_row st now err r, ())) db"

definition mail_permanent_failure ::
  "mail_settings \<Rightarrow> timestamp \<Rightarrow> string \<Rightarrow> string \<Rightarrow> MailOutbox list \<Rightarrow>
   (orm_error + unit) \<times> MailOutbox list" where
  "mail_permanent_failure st now uuid err db =
     on_row (\<lambda>r. outbox_uuid r = uuid) () (\<lambda>r. (mail_permanent_failure_row st now err r, ())) db"

definition mail_mark_dispatched ::
  "mail_settings \<Rightarrow> timestamp \<Rightarrow> timestamp \<Rightarrow> string \<Rightarrow> MailOutbox list \<Rightarrow>
   (orm_error + bool) \<times> MailOutbox list" where
  "mail_mark_dispatched st t_check now uuid db =
     on_row (\<lambda>r. outbox_uuid r = uuid) False (mail_mark_dispatched_row st t_check now) db"

definition mail_release_dispatch ::
  "mail_settings \<Rightarrow> timestamp \<Rightarrow> string \<Rightarrow> string \<Rightarrow> MailOutbox list \<Rightarrow>
   (orm_error + unit) \<times> MailOutbox list" where
  "mail_release_dispatch st now uuid err db =
     on_row (\<lambda>r. outbox_uuid r = uuid) () (\<lambda>r. (mail_release_dispatch_row st now err r, ())) db"

definition mail_recover_and_list_due ::
  "mail_settings \<Rightarrow> timestamp \<Rightarrow> MailOutbox list \<Rightarrow> string list \<times> MailOutbox list" where
  "mail_recover_and_list_due st now db =
     (map outbox_uuid
        (select_ordered (mail_due st now) created_at (nat (MAIL_OUTBOX_DISPATCH_BATCH_SIZE st)) db),
      map (mail_scan_row st now) db)"

definition mail_cleanup_deletes :: "mail_settings \<Rightarrow> timestamp \<Rightarrow> MailOutbox \<Rightarrow> bool" where
  "mail_cleanup_deletes st now r \<longleftrightarrow>
     status r \<in> {Mail_SENT, Mail_PERMANENT_FAILURE, Mail_EXPIRED} \<and>
     (case completed_at r of None \<Rightarrow> False
      | Some c \<Rightarrow> c < now - timedelta_days (MAIL_OUTBOX_RETENTION_DAYS st))"

definition mail_cleanup ::
  "mail_settings \<Rightarrow> timestamp \<Rightarrow> MailOutbox list \<Rightarrow> int \<times> MailOutbox list" where
  "mail_cleanup st now db =
     (int (length (filter (mail_cleanup_deletes st now) db)),
      filter (\<lambda>r. \<not> mail_cleanup_deletes st now r) db)"

section \<open>Frame facts\<close>

lemma clear_diagnostic_mail [simp]:
  fixes r :: MailOutbox
  shows
  "category (clear_async_diagnostic r) = category r"
  "dedupe_key (clear_async_diagnostic r) = dedupe_key r"
  "recipient (clear_async_diagnostic r) = recipient r"
  "subject (clear_async_diagnostic r) = subject r"
  "text_body (clear_async_diagnostic r) = text_body r"
  "html_body (clear_async_diagnostic r) = html_body r"
  "expires_at (clear_async_diagnostic r) = expires_at r"
  "provider_message_id (clear_async_diagnostic r) = provider_message_id r"
  by (simp_all add: clear_async_diagnostic_def)

lemma mail_diagnostic_simps [simp]:
  "outbox_uuid (mail_diagnostic st op r) = outbox_uuid r"
  "status (mail_diagnostic st op r) = status r"
  "attempt_count (mail_diagnostic st op r) = attempt_count r"
  "next_attempt_at (mail_diagnostic st op r) = next_attempt_at r"
  "dispatched_at (mail_diagnostic st op r) = dispatched_at r"
  "started_at (mail_diagnostic st op r) = started_at r"
  "completed_at (mail_diagnostic st op r) = completed_at r"
  "last_error (mail_diagnostic st op r) = last_error r"
  "created_at (mail_diagnostic st op r) = created_at r"
  "dedupe_key (mail_diagnostic st op r) = dedupe_key r"
  "recipient (mail_diagnostic st op r) = recipient r"
  "text_body (mail_diagnostic st op r) = text_body r"
  "html_body (mail_diagnostic st op r) = html_body r"
  "expires_at (mail_diagnostic st op r) = expires_at r"
  by (simp_all add: mail_diagnostic_def apply_async_diagnostic_def clear_async_diagnostic_def
      split: option.split)

lemma mail_finish_simps [simp]:
  "outbox_uuid (mail_finish s now r) = outbox_uuid r"
  "status (mail_finish s now r) = s"
  "attempt_count (mail_finish s now r) = attempt_count r"
  "next_attempt_at (mail_finish s now r) = next_attempt_at r"
  "dispatched_at (mail_finish s now r) = dispatched_at r"
  "started_at (mail_finish s now r) = started_at r"
  "completed_at (mail_finish s now r) = Some now"
  "last_error (mail_finish s now r) = last_error r"
  "created_at (mail_finish s now r) = created_at r"
  "dedupe_key (mail_finish s now r) = dedupe_key r"
  "recipient (mail_finish s now r) = recipient r"
  "text_body (mail_finish s now r) = None"
  "html_body (mail_finish s now r) = None"
  "expires_at (mail_finish s now r) = expires_at r"
  by (simp_all add: mail_finish_def)

lemmas [row_defs] = mail_claim_row_def mail_sent_row_def mail_transient_failure_row_def
  mail_permanent_failure_row_def mail_mark_dispatched_row_def mail_release_dispatch_row_def
  mail_recover_row_def mail_expire_row_def mail_scan_row_def

section \<open>Runs of a row\<close>

text \<open>
  The events of one row: the methods of the service that touch it, with their clock readings. The
  second component tells whether the event handed a payload to a worker.
\<close>

datatype mail_event =
  MClaim timestamp
| MSent timestamp "string option"
| MTransientFailure timestamp string
| MPermanentFailure timestamp string
| MMarkDispatched timestamp timestamp
| MReleaseDispatch timestamp string
| MScan timestamp

fun mail_step :: "mail_settings \<Rightarrow> mail_event \<Rightarrow> MailOutbox \<Rightarrow> MailOutbox \<times> bool" where
  "mail_step st (MClaim t) r =
     (fst (mail_claim_row st t r), snd (mail_claim_row st t r) \<noteq> None)"
| "mail_step st (MSent t m) r = (mail_sent_row t m r, False)"
| "mail_step st (MTransientFailure t e) r = (mail_transient_failure_row st t e r, False)"
| "mail_step st (MPermanentFailure t e) r = (mail_permanent_failure_row st t e r, False)"
| "mail_step st (MMarkDispatched t t') r = (fst (mail_mark_dispatched_row st t t' r), False)"
| "mail_step st (MReleaseDispatch t e) r = (mail_release_dispatch_row st t e r, False)"
| "mail_step st (MScan t) r = (mail_scan_row st t r, False)"

text \<open>The events that end the attempt of a running row.\<close>

fun mail_closes_attempt :: "mail_event \<Rightarrow> bool" where
  "mail_closes_attempt (MSent _ _) = True"
| "mail_closes_attempt (MTransientFailure _ _) = True"
| "mail_closes_attempt (MPermanentFailure _ _) = True"
| "mail_closes_attempt (MScan _) = True"
| "mail_closes_attempt _ = False"

definition mail_running :: "MailOutbox \<Rightarrow> bool" where
  "mail_running r \<longleftrightarrow> status r = Mail_PROCESSING"

definition mail_body_gone :: "MailOutbox \<Rightarrow> bool" where
  "mail_body_gone r \<longleftrightarrow> text_body r = None"

text \<open>A claim hands out a payload exactly under the guards of the method.\<close>

lemma mail_claim_row_Some_iff:
  "snd (mail_claim_row st now r) \<noteq> None \<longleftrightarrow>
   status r \<in> {Mail_PENDING, Mail_DISPATCHED, Mail_FAILED} \<and>
   (\<forall>e. expires_at r = Some e \<longrightarrow> now < e) \<and>
   (status r = Mail_FAILED \<longrightarrow> next_attempt_at r \<le> now) \<and>
   attempt_count r < MAIL_OUTBOX_MAX_ATTEMPTS st \<and> str_truthy (text_body r)"
  by (cases "status r"; cases "text_body r"; cases "the (text_body r)")
     (auto simp: mail_claim_row_def Let_def split: option.split)

lemma mail_claim_row_handed:
  assumes "snd (mail_claim_row st now r) \<noteq> None"
  shows "status (fst (mail_claim_row st now r)) = Mail_PROCESSING"
    and "attempt_count (fst (mail_claim_row st now r)) = attempt_count r + 1"
    and "started_at (fst (mail_claim_row st now r)) = Some now"
    and "text_body (fst (mail_claim_row st now r)) = text_body r"
  using assms
  by (auto simp: mail_claim_row_def Let_def split: if_splits option.splits list.splits)

lemma mail_claim_row_quiet:
  assumes "snd (mail_claim_row st now r) = None"
  shows "attempt_count (fst (mail_claim_row st now r)) = attempt_count r"
    and "status (fst (mail_claim_row st now r)) = Mail_PROCESSING \<longleftrightarrow> status r = Mail_PROCESSING"
  using assms
  by (auto simp: mail_claim_row_def Let_def split: if_splits option.splits list.splits)

lemma mail_transient_failure_row_simps [simp]:
  "attempt_count (mail_transient_failure_row st t e r) = attempt_count r"
  "status (mail_transient_failure_row st t e r) =
     (if attempt_count r \<ge> MAIL_OUTBOX_MAX_ATTEMPTS st then Mail_PERMANENT_FAILURE else Mail_FAILED)"
  "text_body (mail_transient_failure_row st t e r) =
     (if attempt_count r \<ge> MAIL_OUTBOX_MAX_ATTEMPTS st then None else text_body r)"
  "outbox_uuid (mail_transient_failure_row st t e r) = outbox_uuid r"
  by (auto simp: mail_transient_failure_row_def Let_def)

lemma mail_permanent_failure_row_simps [simp]:
  "attempt_count (mail_permanent_failure_row st t e r) = attempt_count r"
  "status (mail_permanent_failure_row st t e r) = Mail_PERMANENT_FAILURE"
  "text_body (mail_permanent_failure_row st t e r) = None"
  "outbox_uuid (mail_permanent_failure_row st t e r) = outbox_uuid r"
  by (auto simp: mail_permanent_failure_row_def)

lemma mail_sent_row_simps [simp]:
  "attempt_count (mail_sent_row t m r) = attempt_count r"
  "status (mail_sent_row t m r) = Mail_SENT"
  "text_body (mail_sent_row t m r) = None"
  "outbox_uuid (mail_sent_row t m r) = outbox_uuid r"
  by (auto simp: mail_sent_row_def)

lemma mail_mark_dispatched_row_simps [simp]:
  "attempt_count (fst (mail_mark_dispatched_row st t t' r)) = attempt_count r"
  "status (fst (mail_mark_dispatched_row st t t' r)) =
     (if mail_is_dispatchable st t r then Mail_DISPATCHED else status r)"
  "text_body (fst (mail_mark_dispatched_row st t t' r)) = text_body r"
  "outbox_uuid (fst (mail_mark_dispatched_row st t t' r)) = outbox_uuid r"
  by (auto simp: mail_mark_dispatched_row_def)

lemma mail_release_dispatch_row_simps [simp]:
  "attempt_count (mail_release_dispatch_row st t e r) = attempt_count r"
  "status (mail_release_dispatch_row st t e r) =
     (if status r = Mail_DISPATCHED then Mail_PENDING else status r)"
  "text_body (mail_release_dispatch_row st t e r) = text_body r"
  "outbox_uuid (mail_release_dispatch_row st t e r) = outbox_uuid r"
  by (auto simp: mail_release_dispatch_row_def)

definition mail_lease_lost :: "mail_settings \<Rightarrow> timestamp \<Rightarrow> MailOutbox \<Rightarrow> bool" where
  "mail_lease_lost st now r =
     delivery_lease_expired (status r) Mail_DISPATCHED Mail_PROCESSING (dispatched_at r)
       (started_at r) now (MAIL_OUTBOX_DISPATCH_TIMEOUT_SECONDS st)
       (MAIL_OUTBOX_PROCESSING_TIMEOUT_SECONDS st)"

lemma mail_scan_row_simps [simp]:
  "attempt_count (mail_scan_row st t r) = attempt_count r"
  "status (mail_scan_row st t r) =
     (if mail_expirable t r then Mail_EXPIRED
      else if mail_lease_lost st t r then Mail_FAILED else status r)"
  "text_body (mail_scan_row st t r) = (if mail_expirable t r then None else text_body r)"
  "outbox_uuid (mail_scan_row st t r) = outbox_uuid r"
  by (auto simp: mail_scan_row_def mail_recover_row_def mail_expire_row_def mail_lease_lost_def Let_def
      dest: lease_expired_statuses)

lemma mail_scan_row_kept:
  "\<not> mail_expirable t r \<Longrightarrow> \<not> mail_lease_lost st t r \<Longrightarrow> mail_scan_row st t r = r"
  by (auto simp: mail_scan_row_def mail_recover_row_def mail_lease_lost_def)

lemma mail_claim_row_uuid [simp]: "outbox_uuid (fst (mail_claim_row st t r)) = outbox_uuid r"
  by (auto simp: mail_claim_row_def Let_def split: option.splits list.splits)

lemma mail_claim_row_body_gone:
  "text_body r = None \<Longrightarrow>
   text_body (fst (mail_claim_row st t r)) = None \<and> snd (mail_claim_row st t r) = None"
  by (auto simp: mail_claim_row_def Let_def split: option.splits)

interpretation mail_rows: delivery_row "mail_step st" mail_running attempt_count
  "MAIL_OUTBOX_MAX_ATTEMPTS st" mail_closes_attempt for st
proof (unfold_locales, goal_cases)
  case (1 e r)
  then show ?case
    using mail_claim_row_handed [of st _ r] mail_claim_row_Some_iff [of st _ r]
    by (cases e) (auto simp: mail_running_def)
next
  case (2 e r)
  then show ?case by (cases e) (auto simp: mail_claim_row_quiet)
next
  case (3 r e)
  then show ?case by (cases e) (auto simp: mail_running_def mail_is_dispatchable_def mail_claim_row_def)
next
  case (4 e r)
  then show ?case
    by (cases e) (auto simp: mail_running_def mail_claim_row_quiet split: if_splits)
qed

interpretation mail_closed: closable_row "mail_step st" mail_running attempt_count
  "MAIL_OUTBOX_MAX_ATTEMPTS st" mail_closes_attempt mail_body_gone for st
proof (unfold_locales, goal_cases)
  case (1 r e)
  then show ?case by (cases e) (auto simp: mail_body_gone_def mail_claim_row_body_gone)
next
  case (2 r e)
  then show ?case by (cases e) (auto simp: mail_body_gone_def mail_claim_row_body_gone)
qed

section \<open>Refinement of the abstract delivery\<close>

fun mail_phase :: "MailOutboxStatus \<Rightarrow> phase" where
  "mail_phase Mail_PENDING = Waiting"
| "mail_phase Mail_DISPATCHED = Handed"
| "mail_phase Mail_PROCESSING = Running"
| "mail_phase Mail_SENT = Done"
| "mail_phase Mail_FAILED = Failed"
| "mail_phase Mail_PERMANENT_FAILURE = Done"
| "mail_phase Mail_EXPIRED = Done"

definition mail_abs :: "MailOutbox \<Rightarrow> delivery_state" where
  "mail_abs r = \<lparr>phase_of = mail_phase (status r), tries = attempt_count r\<rparr>"

text \<open>A worker's report about a row that is no longer, or not yet, in its hands.\<close>

fun mail_late_report :: "mail_event \<Rightarrow> MailOutbox \<Rightarrow> bool" where
  "mail_late_report (MSent _ _) r = (status r \<noteq> Mail_PROCESSING)"
| "mail_late_report (MTransientFailure _ _) r = (status r \<noteq> Mail_PROCESSING)"
| "mail_late_report (MPermanentFailure _ _) r = (status r \<noteq> Mail_PROCESSING)"
| "mail_late_report _ r = False"

lemma mail_claim_row_outcome:
  assumes "snd (mail_claim_row st t r) = None"
  shows "fst (mail_claim_row st t r) = r \<or>
    status r \<in> {Mail_PENDING, Mail_DISPATCHED, Mail_FAILED} \<and>
    status (fst (mail_claim_row st t r)) \<in> {Mail_EXPIRED, Mail_PERMANENT_FAILURE}"
  using assms
  by (cases "status r") (auto simp: mail_claim_row_def Let_def split: if_splits option.splits list.splits)

lemma mail_abs_sel [simp]:
  "phase_of (mail_abs r) = mail_phase (status r)" "tries (mail_abs r) = attempt_count r"
  by (simp_all add: mail_abs_def)

lemma mail_abs_eqI: "status r' = status r \<Longrightarrow> attempt_count r' = attempt_count r \<Longrightarrow> mail_abs r' = mail_abs r"
  by (simp add: mail_abs_def)

lemma delivery_step_mail:
  "delivery_step n (mail_abs r) \<lparr>phase_of = p, tries = k\<rparr> \<Longrightarrow> mail_phase (status r') = p \<Longrightarrow>
   attempt_count r' = k \<Longrightarrow> delivery_step n (mail_abs r) (mail_abs r')"
  by (simp add: mail_abs_def)

lemma mail_claim_refines:
  "delivery_step (MAIL_OUTBOX_MAX_ATTEMPTS st) (mail_abs r) (mail_abs (fst (mail_claim_row st t r)))"
proof (cases "snd (mail_claim_row st t r) = None")
  case True
  from mail_claim_row_outcome [OF this] show ?thesis
  proof
    assume "fst (mail_claim_row st t r) = r"
    then show ?thesis by (simp add: delivery_step.idle)
  next
    assume st: "status r \<in> {Mail_PENDING, Mail_DISPATCHED, Mail_FAILED} \<and>
      status (fst (mail_claim_row st t r)) \<in> {Mail_EXPIRED, Mail_PERMANENT_FAILURE}"
    have "delivery_step (MAIL_OUTBOX_MAX_ATTEMPTS st) (mail_abs r) (mail_abs r\<lparr>phase_of := Done\<rparr>)"
      using st by (intro delivery_step.drop) auto
    with st mail_claim_row_quiet(1) [OF True] show ?thesis
      by (auto simp: mail_abs_def)
  qed
next
  case False
  then have ok: "status r \<in> {Mail_PENDING, Mail_DISPATCHED, Mail_FAILED}"
      "attempt_count r < MAIL_OUTBOX_MAX_ATTEMPTS st"
    using mail_claim_row_Some_iff [of st t r] by auto
  have "delivery_step (MAIL_OUTBOX_MAX_ATTEMPTS st) (mail_abs r)
      \<lparr>phase_of = Running, tries = tries (mail_abs r) + 1\<rparr>"
    using ok by (intro delivery_step.start) auto
  with mail_claim_row_handed [OF False] show ?thesis by (simp add: mail_abs_def)
qed

lemma mail_other_steps_refine:
  assumes "\<not> mail_late_report e r" and "\<And>t. e \<noteq> MClaim t"
  shows "delivery_step (MAIL_OUTBOX_MAX_ATTEMPTS st) (mail_abs r) (mail_abs (fst (mail_step st e r)))"
proof (cases e)
  case (MSent t m)
  with assms(1) delivery_step.finish [of "mail_abs r"] show ?thesis by (simp add: mail_abs_def)
next
  case (MTransientFailure t x)
  with assms(1) delivery_step.finish [of "mail_abs r"] delivery_step.report_failure [of "mail_abs r"]
  show ?thesis by (simp add: mail_abs_def)
next
  case (MPermanentFailure t x)
  with assms(1) delivery_step.finish [of "mail_abs r"] show ?thesis by (simp add: mail_abs_def)
next
  case (MMarkDispatched t t')
  show ?thesis
  proof (cases "mail_is_dispatchable st t r")
    case True
    then have "delivery_step (MAIL_OUTBOX_MAX_ATTEMPTS st) (mail_abs r) (mail_abs r\<lparr>phase_of := Handed\<rparr>)"
      by (intro delivery_step.hand) (auto simp: mail_is_dispatchable_def)
    with True MMarkDispatched show ?thesis by (simp add: mail_abs_def)
  next
    case False
    with MMarkDispatched show ?thesis by (simp add: mail_mark_dispatched_row_def delivery_step.idle)
  qed
next
  case (MReleaseDispatch t x)
  with delivery_step.give_back [of "mail_abs r"] delivery_step.idle [of _ "mail_abs r"]
  show ?thesis by (auto simp: mail_abs_def)
next
  case (MScan t)
  have drop: "delivery_step n (mail_abs r) (mail_abs r\<lparr>phase_of := Done\<rparr>)"
    if "mail_expirable t r" for n
    using that by (intro delivery_step.drop) (auto simp: mail_expirable_def)
  have lost: "delivery_step n (mail_abs r) (mail_abs r\<lparr>phase_of := Failed\<rparr>)"
    if "mail_lease_lost st t r" for n
    using that by (intro delivery_step.lease_lost) (auto simp: mail_lease_lost_def dest: lease_expired_statuses)
  from MScan drop lost delivery_step.idle [of _ "mail_abs r"] show ?thesis
    by (simp add: mail_abs_def)
qed (use assms(2) in auto)

section \<open>The table invariant\<close>

text \<open>
  A closed mail has no body and a completion time; attempts are counted from zero and the uuid and
  the deduplication key are unique.
\<close>

definition mail_row_ok :: "MailOutbox \<Rightarrow> bool" where
  "mail_row_ok r \<longleftrightarrow>
     (status r \<in> {Mail_SENT, Mail_PERMANENT_FAILURE, Mail_EXPIRED} \<longrightarrow>
        text_body r = None \<and> html_body r = None \<and> completed_at r \<noteq> None) \<and>
     (status r = Mail_PROCESSING \<longrightarrow> started_at r \<noteq> None) \<and>
     (status r = Mail_DISPATCHED \<longrightarrow> dispatched_at r \<noteq> None) \<and>
     0 \<le> attempt_count r"

definition mail_table_ok :: "MailOutbox list \<Rightarrow> bool" where
  "mail_table_ok db \<longleftrightarrow>
     unique_column outbox_uuid db \<and> unique_column dedupe_key db \<and> (\<forall>r \<in> set db. mail_row_ok r)"

lemma mail_claim_row_ok: "mail_row_ok r \<Longrightarrow> mail_row_ok (fst (mail_claim_row st t r))"
  unfolding mail_claim_row_def mail_row_ok_def
  by (auto simp: Let_def split: option.splits list.splits)

lemma mail_row_ok_diagnostic [simp]: "mail_row_ok (mail_diagnostic st op r) = mail_row_ok r"
  by (simp add: mail_row_ok_def)

lemma mail_row_ok_updated [simp]: "mail_row_ok (r\<lparr>updated_at := t\<rparr>) = mail_row_ok r"
  by (simp add: mail_row_ok_def)

lemma mail_row_ok_finish:
  "mail_row_ok r \<Longrightarrow> s \<in> {Mail_SENT, Mail_PERMANENT_FAILURE, Mail_EXPIRED} \<Longrightarrow>
   mail_row_ok (mail_finish s t r)"
  by (auto simp: mail_row_ok_def)

lemma mail_row_ok_last_error [simp]: "mail_row_ok (r\<lparr>last_error := x\<rparr>) = mail_row_ok r"
  by (simp add: mail_row_ok_def)

lemma mail_row_ok_clear [simp]: "mail_row_ok (clear_async_diagnostic r) = mail_row_ok r"
  by (simp add: mail_row_ok_def)

lemma mail_sent_row_ok: "mail_row_ok r \<Longrightarrow> mail_row_ok (mail_sent_row t m r)"
  by (simp add: mail_sent_row_def) (simp add: mail_row_ok_def)

lemma mail_transient_failure_row_ok:
  "mail_row_ok r \<Longrightarrow> mail_row_ok (mail_transient_failure_row st t x r)"
  by (simp add: mail_transient_failure_row_def Let_def mail_row_ok_finish) (simp add: mail_row_ok_def)

lemma mail_permanent_failure_row_ok:
  "mail_row_ok r \<Longrightarrow> mail_row_ok (mail_permanent_failure_row st t x r)"
  by (simp add: mail_permanent_failure_row_def mail_row_ok_finish)

lemma mail_mark_dispatched_row_ok:
  "mail_row_ok r \<Longrightarrow> mail_row_ok (fst (mail_mark_dispatched_row st t t' r))"
  by (simp add: mail_mark_dispatched_row_def) (simp add: mail_row_ok_def)

lemma mail_release_dispatch_row_ok:
  "mail_row_ok r \<Longrightarrow> mail_row_ok (mail_release_dispatch_row st t x r)"
  by (simp add: mail_release_dispatch_row_def) (simp add: mail_row_ok_def)

lemma mail_recover_row_ok: "mail_row_ok r \<Longrightarrow> mail_row_ok (mail_recover_row st t r)"
  by (simp add: mail_recover_row_def) (simp add: mail_row_ok_def)

lemma mail_expire_row_ok: "mail_row_ok r \<Longrightarrow> mail_row_ok (mail_expire_row st t r)"
  by (simp add: mail_expire_row_def mail_row_ok_finish)

lemma mail_scan_row_ok: "mail_row_ok r \<Longrightarrow> mail_row_ok (mail_scan_row st t r)"
  by (simp add: mail_scan_row_def Let_def mail_recover_row_ok mail_expire_row_ok)

lemmas mail_row_oks = mail_claim_row_ok mail_sent_row_ok mail_transient_failure_row_ok
  mail_permanent_failure_row_ok mail_mark_dispatched_row_ok mail_release_dispatch_row_ok
  mail_scan_row_ok

lemma mail_step_row_ok: "mail_row_ok r \<Longrightarrow> mail_row_ok (fst (mail_step st e r))"
  by (cases e) (simp_all add: mail_row_oks)

lemma mail_claim_row_dedupe [simp]: "dedupe_key (fst (mail_claim_row st t r)) = dedupe_key r"
  by (auto simp: mail_claim_row_def Let_def split: option.splits list.splits)

lemma mail_rows_dedupe [simp]:
  "dedupe_key (mail_sent_row t m r) = dedupe_key r"
  "dedupe_key (mail_transient_failure_row st t x r) = dedupe_key r"
  "dedupe_key (mail_permanent_failure_row st t x r) = dedupe_key r"
  "dedupe_key (fst (mail_mark_dispatched_row st t t' r)) = dedupe_key r"
  "dedupe_key (mail_release_dispatch_row st t x r) = dedupe_key r"
  "dedupe_key (mail_scan_row st t r) = dedupe_key r"
  by (simp_all add: row_defs Let_def del: mail_scan_row_simps)

lemma mail_step_keys [simp]:
  "outbox_uuid (fst (mail_step st e r)) = outbox_uuid r"
  "dedupe_key (fst (mail_step st e r)) = dedupe_key r"
  by (cases e; simp)+

text \<open>The methods on the table, as the events they perform on the row they address.\<close>

definition mail_row_event :: "mail_settings \<Rightarrow> string \<Rightarrow> mail_event \<Rightarrow> MailOutbox list \<Rightarrow> MailOutbox list" where
  "mail_row_event st uuid e db =
     map (\<lambda>r. if outbox_uuid r = uuid then fst (mail_step st e r) else r) db"

lemma mail_methods_as_events:
  assumes "unique_column outbox_uuid db"
  shows "snd (mail_claim st t u db) = mail_row_event st u (MClaim t) db"
    and "snd (mail_sent t u m db) = mail_row_event st u (MSent t m) db"
    and "snd (mail_transient_failure st t u x db) = mail_row_event st u (MTransientFailure t x) db"
    and "snd (mail_permanent_failure st t u x db) = mail_row_event st u (MPermanentFailure t x) db"
    and "snd (mail_mark_dispatched st t t' u db) = mail_row_event st u (MMarkDispatched t t') db"
    and "snd (mail_release_dispatch st t u x db) = mail_row_event st u (MReleaseDispatch t x) db"
  using assms
  by (simp_all add: mail_claim_def mail_sent_def mail_transient_failure_def
      mail_permanent_failure_def mail_mark_dispatched_def mail_release_dispatch_def
      on_row_table mail_row_event_def)

lemma mail_table_ok_map:
  assumes "mail_table_ok db"
    and "\<And>r. outbox_uuid (f r) = outbox_uuid r" "\<And>r. dedupe_key (f r) = dedupe_key r"
    and "\<And>r. mail_row_ok r \<Longrightarrow> mail_row_ok (f r)"
  shows "mail_table_ok (map f db)"
  using assms by (simp add: mail_table_ok_def unique_column_def comp_def)

lemma mail_row_event_ok: "mail_table_ok db \<Longrightarrow> mail_table_ok (mail_row_event st u e db)"
  unfolding mail_row_event_def
  by (rule mail_table_ok_map) (auto intro: mail_step_row_ok)

lemma mail_scan_ok: "mail_table_ok db \<Longrightarrow> mail_table_ok (snd (mail_recover_and_list_due st t db))"
  using mail_table_ok_map [of db "mail_scan_row st t"] mail_step_row_ok [of _ st "MScan t"]
    mail_step_keys [of st "MScan t"]
  by (simp add: mail_recover_and_list_due_def)

lemma mail_cleanup_ok: "mail_table_ok db \<Longrightarrow> mail_table_ok (snd (mail_cleanup st t db))"
  by (simp add: mail_cleanup_def mail_table_ok_def unique_column_filter)

section \<open>Properties\<close>

text \<open>C1. Every method of the mail outbox implements a step of the abstract delivery automaton
  (waiting, handed to the broker, running, done, failed, with at most
  \<open>MAIL_OUTBOX_MAX_ATTEMPTS\<close> attempts), except a worker's report about a row that is not
  \<open>PROCESSING\<close>, which the service does not refuse.\<close>

theorem mail_refines_delivery:
  assumes "\<not> mail_late_report e r"
  shows "delivery_step (MAIL_OUTBOX_MAX_ATTEMPTS st) (mail_abs r) (mail_abs (fst (mail_step st e r)))"
  using assms mail_claim_refines mail_other_steps_refine [OF assms] by (cases e) auto

theorem mail_refines_delivery_witness:
  "delivery_step 5
     (mail_abs (new_mail_outbox ''u'' 0 0 0 None None None ''auth'' ''k'' ''a@b'' ''s'' ''t'' None None))
     (mail_abs (fst (mail_step mail_delivery_defaults (MClaim 7)
       (new_mail_outbox ''u'' 0 0 0 None None None ''auth'' ''k'' ''a@b'' ''s'' ''t'' None None))))"
  using mail_refines_delivery [of "MClaim 7" _ mail_delivery_defaults]
  by (simp add: mail_delivery_defaults_def)

text \<open>C2. However the calls of workers, dispatchers and scans interleave, a mail is handed to a
  worker at most \<open>MAIL_OUTBOX_MAX_ATTEMPTS\<close> times minus the attempts already made, and the stored
  attempt count never passes the maximum.\<close>

theorem mail_deliveries_bounded:
  assumes "attempt_count r \<le> MAIL_OUTBOX_MAX_ATTEMPTS st"
  shows "int (snd (run_row (mail_step st) es r)) \<le> MAIL_OUTBOX_MAX_ATTEMPTS st - attempt_count r \<and>
    attempt_count (fst (run_row (mail_step st) es r)) \<le> MAIL_OUTBOX_MAX_ATTEMPTS st"
  using mail_rows.deliveries_bounded [OF assms] mail_rows.run_bound [OF assms] by blast

theorem mail_deliveries_bounded_witness:
  "snd (run_row (mail_step mail_delivery_defaults) [MClaim 1, MClaim 2, MScan 900000000, MClaim 900000001]
     (new_mail_outbox ''u'' 0 0 0 None None None ''auth'' ''k'' ''a@b'' ''s'' ''t'' None None)) \<le> 5"
  using mail_deliveries_bounded [of
      "new_mail_outbox ''u'' 0 0 0 None None None ''auth'' ''k'' ''a@b'' ''s'' ''t'' None None"
      mail_delivery_defaults "[MClaim 1, MClaim 2, MScan 900000000, MClaim 900000001]"]
  by (simp add: mail_delivery_defaults_def new_mail_outbox_def)

text \<open>A mail that was reported sent, failed for good or expired is never handed to a worker
  again, whatever late reports, scans and dispatches follow: its body is gone for ever, and a claim
  without a body hands out nothing.\<close>

theorem mail_never_sent_again:
  "snd (run_row (mail_step st) es (mail_sent_row t m r)) = 0 \<and>
   snd (run_row (mail_step st) es (mail_permanent_failure_row st t x r)) = 0 \<and>
   snd (run_row (mail_step st) es (mail_expire_row st t r)) = 0 \<and>
   text_body (fst (run_row (mail_step st) es (mail_sent_row t m r))) = None"
  using mail_closed.closed_run [of "mail_sent_row t m r"]
    mail_closed.closed_run [of "mail_permanent_failure_row st t x r"]
    mail_closed.closed_run [of "mail_expire_row st t r"]
  by (simp add: mail_body_gone_def mail_expire_row_def)

text \<open>A worker that dies loses nothing: when the processing lease of a claimed mail has run out
  and attempts and lifetime are left, the next scan makes it due at once, and from then on the
  dispatcher may mark it and a worker's claim hands out its payload again.\<close>

theorem mail_crash_recovery:
  assumes "mail_lease_lost st t r" and "attempt_count r < MAIL_OUTBOX_MAX_ATTEMPTS st"
    and "text_body r = Some (c # cs)" and "\<forall>e. expires_at r = Some e \<longrightarrow> t' < e" and "t \<le> t'"
  shows "mail_due st t' (mail_scan_row st t r) \<and>
    snd (mail_mark_dispatched_row st t' t' (mail_scan_row st t r)) \<and>
    snd (mail_claim_row st t' (fst (mail_mark_dispatched_row st t' t' (mail_scan_row st t r)))) \<noteq> None"
proof -
  have live: "\<not> mail_expirable t r" using assms(4,5) by (force simp: mail_expirable_def split: option.splits)
  have st: "status r \<in> {Mail_DISPATCHED, Mail_PROCESSING}"
    using assms(1) by (auto simp: mail_lease_lost_def dest: lease_expired_statuses)
  have scan: "next_attempt_at (mail_scan_row st t r) = t" "expires_at (mail_scan_row st t r) = expires_at r"
    using live st assms(1) by (auto simp: mail_scan_row_def mail_recover_row_def mail_lease_lost_def)
  have disp: "mail_is_dispatchable st t' (mail_scan_row st t r)"
    using live assms scan by (auto simp: mail_is_dispatchable_def split: option.split)
  have "expires_at (fst (mail_mark_dispatched_row st t' t' (mail_scan_row st t r))) = expires_at r"
    using scan by (simp add: mail_mark_dispatched_row_def)
  then have "snd (mail_claim_row st t' (fst (mail_mark_dispatched_row st t' t' (mail_scan_row st t r)))) \<noteq> None"
    using disp live assms by (subst mail_claim_row_Some_iff) auto
  with disp show ?thesis
    by (simp add: mail_due_def mail_is_dispatchable_def mail_mark_dispatched_row_def)
qed

theorem mail_crash_recovery_witness:
  "let r = (new_mail_outbox ''u'' 0 0 0 None None None ''auth'' ''k'' ''a@b'' ''s'' ''t'' None None)
             \<lparr>status := Mail_PROCESSING, attempt_count := 1, started_at := Some 0\<rparr>
   in mail_due mail_delivery_defaults 120000000 (mail_scan_row mail_delivery_defaults 120000000 r)"
  using mail_crash_recovery [of mail_delivery_defaults 120000000
      "(new_mail_outbox ''u'' 0 0 0 None None None ''auth'' ''k'' ''a@b'' ''s'' ''t'' None None)
             \<lparr>status := Mail_PROCESSING, attempt_count := 1, started_at := Some 0\<rparr>"
      "CHR ''t''" "[]" 120000000]
  by (simp add: mail_delivery_defaults_def new_mail_outbox_def mail_lease_lost_def
      delivery_lease_expired_def timedelta_seconds_def)

section \<open>Reachable tables\<close>

text \<open>
  The table as the program can bring it about: it starts empty and every service method, called with
  any arguments in any order, leads to the next table. A queued mail gets a uuid no row has.
\<close>

inductive mail_reachable :: "mail_settings \<Rightarrow> MailOutbox list \<Rightarrow> bool" for st where
  mail_empty: "mail_reachable st []"
| mail_queue: "mail_reachable st db \<Longrightarrow> u \<notin> outbox_uuid ` set db \<Longrightarrow>
     mail_reachable st (snd (queue_mail u t1 t2 t3 rid tp ts cat k rc sj tx ht ex db))"
| mail_call_claim: "mail_reachable st db \<Longrightarrow> mail_reachable st (snd (mail_claim st t u db))"
| mail_call_sent: "mail_reachable st db \<Longrightarrow> mail_reachable st (snd (mail_sent t u m db))"
| mail_call_transient:
    "mail_reachable st db \<Longrightarrow> mail_reachable st (snd (mail_transient_failure st t u x db))"
| mail_call_permanent:
    "mail_reachable st db \<Longrightarrow> mail_reachable st (snd (mail_permanent_failure st t u x db))"
| mail_call_mark:
    "mail_reachable st db \<Longrightarrow> mail_reachable st (snd (mail_mark_dispatched st t t' u db))"
| mail_call_release:
    "mail_reachable st db \<Longrightarrow> mail_reachable st (snd (mail_release_dispatch st t u x db))"
| mail_call_scan:
    "mail_reachable st db \<Longrightarrow> mail_reachable st (snd (mail_recover_and_list_due st t db))"
| mail_call_cleanup: "mail_reachable st db \<Longrightarrow> mail_reachable st (snd (mail_cleanup st t db))"

lemma queue_mail_ok:
  assumes "mail_table_ok db" and "u \<notin> outbox_uuid ` set db"
  shows "mail_table_ok (snd (queue_mail u t1 t2 t3 rid tp ts cat k rc sj tx ht ex db))"
proof -
  have "unique_column dedupe_key db" using assms(1) by (simp add: mail_table_ok_def)
  then show ?thesis
  proof (rule unique_scalar_cases [of dedupe_key db k])
    assume none: "filter (\<lambda>x. dedupe_key x = k) db = []" "k \<notin> dedupe_key ` set db"
    then show ?thesis using assms
      by (simp add: queue_mail_def Let_def mail_table_ok_def unique_column_def new_mail_outbox_def
          mail_row_ok_def)
  next
    fix r assume "filter (\<lambda>x. dedupe_key x = k) db = [r]"
    then show ?thesis using assms(1) by (simp add: queue_mail_def)
  qed
qed

lemma mail_table_ok_uuid: "mail_table_ok db \<Longrightarrow> unique_column outbox_uuid db"
  by (simp add: mail_table_ok_def)

lemma mail_reachable_ok: "mail_reachable st db \<Longrightarrow> mail_table_ok db"
proof (induction rule: mail_reachable.induct)
  case mail_empty
  then show ?case by (simp add: mail_table_ok_def unique_column_def)
next
  case (mail_queue db u t1 t2 t3 rid tp ts cat k rc sj tx ht ex)
  then show ?case by (intro queue_mail_ok)
next
  case (mail_call_sent db t u m)
  then show ?case
    using mail_methods_as_events(2) [of db t u m st] by (simp add: mail_row_event_ok mail_table_ok_uuid)
next
  case (mail_call_scan db t)
  then show ?case by (simp add: mail_scan_ok)
next
  case (mail_call_cleanup db t)
  then show ?case by (simp add: mail_cleanup_ok)
qed (simp_all add: mail_methods_as_events mail_row_event_ok mail_table_ok_uuid)

text \<open>In every reachable table the uuid and the deduplication key identify one row, so no method
  ever meets a second row for its uuid; a closed mail keeps no body and knows when it was closed; and
  the retention job deletes closed mails without a body only, never a mail still to be sent.\<close>

theorem mail_reachable_safe:
  assumes "mail_reachable st db"
  shows "(\<exists>p. fst (mail_claim st t u db) = Inr p) \<and>
    (\<forall>r \<in> set db. mail_phase (status r) = Done \<longrightarrow>
       text_body r = None \<and> html_body r = None \<and> completed_at r \<noteq> None) \<and>
    (\<forall>r \<in> set db. r \<notin> set (snd (mail_cleanup st t db)) \<longrightarrow>
       mail_phase (status r) = Done \<and> text_body r = None)"
proof (intro conjI)
  have ok: "mail_table_ok db" using assms by (rule mail_reachable_ok)
  then show "\<exists>p. fst (mail_claim st t u db) = Inr p"
    unfolding mail_claim_def by (intro on_row_Inr) (simp add: mail_table_ok_def)
  show closed: "\<forall>r \<in> set db. mail_phase (status r) = Done \<longrightarrow>
       text_body r = None \<and> html_body r = None \<and> completed_at r \<noteq> None"
  proof (intro ballI impI)
    fix r assume "r \<in> set db" "mail_phase (status r) = Done"
    moreover from this ok have "mail_row_ok r" by (simp add: mail_table_ok_def)
    ultimately show "text_body r = None \<and> html_body r = None \<and> completed_at r \<noteq> None"
      by (cases "status r") (auto simp: mail_row_ok_def)
  qed
  show "\<forall>r \<in> set db. r \<notin> set (snd (mail_cleanup st t db)) \<longrightarrow>
       mail_phase (status r) = Done \<and> text_body r = None"
    using closed by (fastforce simp: mail_cleanup_def mail_cleanup_deletes_def)
qed

theorem mail_reachable_safe_witness:
  "\<exists>p. fst (mail_claim mail_delivery_defaults 5 ''u''
     (snd (queue_mail ''u'' 0 0 0 None None None ''auth'' ''k'' ''a@b'' ''s'' ''t'' None None []))) = Inr p"
proof -
  have "mail_reachable mail_delivery_defaults
     (snd (queue_mail ''u'' 0 0 0 None None None ''auth'' ''k'' ''a@b'' ''s'' ''t'' None None []))"
    by (rule mail_reachable.mail_queue [OF mail_reachable.mail_empty]) simp
  from mail_reachable_safe [OF this, of 5 "''u''"] show ?thesis by blast
qed

text \<open>A mail without an expiry whose last attempt dies with its worker is stuck: the scan makes
  it \<open>FAILED\<close> with no attempt left, and from then on no scan changes it or lists it, it cannot be
  dispatched, and the retention job never deletes it, so its body stays in the table for ever
  (every other way to run out of attempts clears the body and closes the row).\<close>

theorem mail_exhausted_lease_is_stuck:
  assumes "mail_lease_lost st t r" and "attempt_count r = MAIL_OUTBOX_MAX_ATTEMPTS st"
    and "expires_at r = None"
  shows "let r' = mail_scan_row st t r in
    status r' = Mail_FAILED \<and> text_body r' = text_body r \<and>
    mail_scan_row st t' r' = r' \<and> \<not> mail_due st t' r' \<and>
    mail_mark_dispatched_row st t' t' r' = (r', False) \<and> \<not> mail_cleanup_deletes st t' r'"
proof -
  define r' where "r' = mail_scan_row st t r"
  have ne: "\<not> mail_expirable t r" using assms(3) by (simp add: mail_expirable_def)
  have ex: "expires_at r' = None"
    using assms(3) ne by (simp add: r'_def mail_scan_row_def mail_recover_row_def)
  have st': "status r' = Mail_FAILED" "text_body r' = text_body r"
      "attempt_count r' = MAIL_OUTBOX_MAX_ATTEMPTS st"
    using assms ne by (simp_all add: r'_def)
  have keep: "mail_scan_row st t' r' = r'"
    using ex st' by (intro mail_scan_row_kept)
      (auto simp: mail_expirable_def mail_lease_lost_def dest: lease_expired_statuses)
  show ?thesis unfolding r'_def [symmetric] Let_def using st' keep
    by (simp add: mail_due_def mail_mark_dispatched_row_def mail_is_dispatchable_def
        mail_cleanup_deletes_def)
qed

theorem mail_exhausted_lease_is_stuck_witness:
  "let r' = mail_scan_row mail_delivery_defaults 120000000
        ((new_mail_outbox ''u'' 0 0 0 None None None ''auth'' ''k'' ''a@b'' ''s'' ''t'' None None)
           \<lparr>status := Mail_PROCESSING, attempt_count := 5, started_at := Some 0\<rparr>)
   in status r' = Mail_FAILED \<and> text_body r' = Some ''t'' \<and>
      \<not> mail_cleanup_deletes mail_delivery_defaults 999999999999999 r'"
  using mail_exhausted_lease_is_stuck [of mail_delivery_defaults 120000000
      "(new_mail_outbox ''u'' 0 0 0 None None None ''auth'' ''k'' ''a@b'' ''s'' ''t'' None None)
           \<lparr>status := Mail_PROCESSING, attempt_count := 5, started_at := Some 0\<rparr>" 999999999999999]
  by (simp add: Let_def mail_delivery_defaults_def new_mail_outbox_def mail_lease_lost_def
      delivery_lease_expired_def timedelta_seconds_def)

text \<open>A late transient failure undoes the record of a delivered mail: when a worker whose lease
  was lost reports a transient failure after another worker has reported the mail sent, the row goes
  from \<open>SENT\<close> back to \<open>FAILED\<close> and the next claim closes it as \<open>PERMANENT_FAILURE\<close> because its
  body is gone.\<close>

theorem mail_late_failure_overwrites_sent:
  assumes "attempt_count r < MAIL_OUTBOX_MAX_ATTEMPTS st" and "expires_at r = None"
    and "t \<ge> t1 + timedelta_seconds
           (exponential_retry_delay_seconds (MAIL_OUTBOX_RETRY_BASE_SECONDS st) (attempt_count r))"
  shows "let sent = mail_sent_row t0 m r; late = mail_transient_failure_row st t1 x sent in
    status sent = Mail_SENT \<and> status late = Mail_FAILED \<and>
    status (fst (mail_claim_row st t late)) = Mail_PERMANENT_FAILURE \<and>
    last_error (fst (mail_claim_row st t late)) = Some ''Mail outbox body is unavailable''"
proof -
  define late where "late = mail_transient_failure_row st t1 x (mail_sent_row t0 m r)"
  have "status late = Mail_FAILED" "text_body late = None" "attempt_count late = attempt_count r"
    using assms(1) by (simp_all add: late_def)
  moreover have "expires_at late = None" "next_attempt_at late \<le> t"
    using assms by (simp_all add: late_def mail_transient_failure_row_def mail_sent_row_def)
  ultimately show ?thesis
    using assms(1) by (simp add: late_def [symmetric] mail_claim_row_def)
qed

theorem mail_late_failure_overwrites_sent_witness:
  "let r = (new_mail_outbox ''u'' 0 0 0 None None None ''auth'' ''k'' ''a@b'' ''s'' ''t'' None None)
             \<lparr>attempt_count := 1\<rparr>;
       late = mail_transient_failure_row mail_delivery_defaults 0 ''smtp timeout'' (mail_sent_row 0 None r)
   in status late = Mail_FAILED \<and>
      status (fst (mail_claim_row mail_delivery_defaults 30000000 late)) = Mail_PERMANENT_FAILURE"
  using mail_late_failure_overwrites_sent [of
      "(new_mail_outbox ''u'' 0 0 0 None None None ''auth'' ''k'' ''a@b'' ''s'' ''t'' None None)
             \<lparr>attempt_count := 1\<rparr>" mail_delivery_defaults 0 30000000 0 None "''smtp timeout''"]
  by (simp add: Let_def mail_delivery_defaults_def new_mail_outbox_def timedelta_seconds_def
      exponential_retry_delay_seconds_def)

end
