(* ===== verification/Retry_Outbox.thy ===== *)
theory Retry_Outbox
  imports Delivery_Policy
begin

text \<open>
  The interface of the three asset outboxes (playback audio, rendered pages, deletion of replay
  objects): their methods as parameters, what each promises about phase, attempts and due time as
  laws, and what follows for a row whose methods are called in any order, proved once. The events and
  the step function are ordinary definitions; the locale \<open>retry_outbox\<close> only assumes the laws, and
  each service discharges them for its own definitions.
\<close>

datatype 'ctx outbox_event =
  OClaim 'ctx timestamp timestamp
| OComplete timestamp
| OFail timestamp string
| OMarkDispatched timestamp timestamp
| OReleaseDispatch timestamp string
| OScan timestamp

fun outbox_step ::
  "('ctx \<Rightarrow> timestamp \<Rightarrow> timestamp \<Rightarrow> 'row \<Rightarrow> 'row \<times> bool) \<Rightarrow> (timestamp \<Rightarrow> 'row \<Rightarrow> 'row) \<Rightarrow>
   (timestamp \<Rightarrow> string \<Rightarrow> 'row \<Rightarrow> 'row) \<Rightarrow> (timestamp \<Rightarrow> timestamp \<Rightarrow> 'row \<Rightarrow> 'row \<times> bool) \<Rightarrow>
   (timestamp \<Rightarrow> string \<Rightarrow> 'row \<Rightarrow> 'row) \<Rightarrow> (timestamp \<Rightarrow> 'row \<Rightarrow> 'row) \<Rightarrow>
   'ctx outbox_event \<Rightarrow> 'row \<Rightarrow> 'row \<times> bool"
where
  "outbox_step claim complete fail mark release scan (OClaim c t t') r = claim c t t' r"
| "outbox_step claim complete fail mark release scan (OComplete t) r = (complete t r, False)"
| "outbox_step claim complete fail mark release scan (OFail t x) r = (fail t x r, False)"
| "outbox_step claim complete fail mark release scan (OMarkDispatched t t') r =
     (fst (mark t t' r), False)"
| "outbox_step claim complete fail mark release scan (OReleaseDispatch t x) r = (release t x r, False)"
| "outbox_step claim complete fail mark release scan (OScan t) r = (scan t r, False)"

fun outbox_closes_attempt :: "'ctx outbox_event \<Rightarrow> bool" where
  "outbox_closes_attempt (OComplete _) = True"
| "outbox_closes_attempt (OFail _ _) = True"
| "outbox_closes_attempt (OScan _) = True"
| "outbox_closes_attempt _ = False"

fun outbox_report :: "'ctx outbox_event \<Rightarrow> bool" where
  "outbox_report (OComplete _) = True"
| "outbox_report (OFail _ _) = True"
| "outbox_report _ = False"

locale retry_outbox =
  fixes phase :: "'row \<Rightarrow> phase"
    and attempts :: "'row \<Rightarrow> int"
    and due_at :: "'row \<Rightarrow> timestamp"
    and max_attempts :: int
    and base_seconds :: int
    and usable :: "'ctx \<Rightarrow> 'row \<Rightarrow> bool"
    and lost :: "timestamp \<Rightarrow> 'row \<Rightarrow> bool"
    and claim :: "'ctx \<Rightarrow> timestamp \<Rightarrow> timestamp \<Rightarrow> 'row \<Rightarrow> 'row \<times> bool"
    and complete :: "timestamp \<Rightarrow> 'row \<Rightarrow> 'row"
    and fail :: "timestamp \<Rightarrow> string \<Rightarrow> 'row \<Rightarrow> 'row"
    and mark :: "timestamp \<Rightarrow> timestamp \<Rightarrow> 'row \<Rightarrow> 'row \<times> bool"
    and release :: "timestamp \<Rightarrow> string \<Rightarrow> 'row \<Rightarrow> 'row"
    and scan :: "timestamp \<Rightarrow> 'row \<Rightarrow> 'row"
  assumes claim_iff: "snd (claim c t t' r) \<longleftrightarrow>
      phase r \<in> {Waiting, Handed, Failed} \<and> (phase r = Failed \<longrightarrow> due_at r \<le> t) \<and>
      attempts r < max_attempts \<and> usable c r"
    and claim_handed: "snd (claim c t t' r) \<Longrightarrow>
      phase (fst (claim c t t' r)) = Running \<and> attempts (fst (claim c t t' r)) = attempts r + 1"
    and claim_refused: "\<not> snd (claim c t t' r) \<Longrightarrow>
      fst (claim c t t' r) = r \<or>
      phase r \<in> {Waiting, Handed, Failed} \<and> attempts r < max_attempts \<and>
      (phase (fst (claim c t t' r)) = Failed \<and> attempts (fst (claim c t t' r)) = max_attempts \<or>
       phase (fst (claim c t t' r)) = Done \<and> attempts (fst (claim c t t' r)) = attempts r)"
    and complete: "phase (complete t r) = Done" "attempts (complete t r) = attempts r"
      "usable c (complete t r) = usable c r"
    and fail: "phase (fail t x r) = Failed" "attempts (fail t x r) = attempts r"
      "due_at (fail t x r) =
         t + timedelta_seconds (exponential_retry_delay_seconds base_seconds (attempts r))"
      "usable c (fail t x r) = usable c r"
    and mark_iff: "snd (mark t t' r) \<longleftrightarrow>
      phase r \<in> {Waiting, Failed} \<and> attempts r < max_attempts \<and> due_at r \<le> t"
    and mark_yes: "snd (mark t t' r) \<Longrightarrow> phase (fst (mark t t' r)) = Handed \<and>
      attempts (fst (mark t t' r)) = attempts r \<and>
      usable c (fst (mark t t' r)) = usable c r"
    and mark_no: "\<not> snd (mark t t' r) \<Longrightarrow> fst (mark t t' r) = r"
    and release: "phase r = Handed \<Longrightarrow> phase (release t x r) = Waiting"
      "attempts (release t x r) = attempts r"
      "phase r \<noteq> Handed \<Longrightarrow> release t x r = r"
    and lost_phase: "lost t r \<Longrightarrow> phase r \<in> {Handed, Running}"
    and scan_lost: "lost t r \<Longrightarrow> phase (scan t r) = Failed \<and> attempts (scan t r) = attempts r \<and>
      due_at (scan t r) = t \<and> usable c (scan t r) = usable c r"
    and scan_kept: "\<not> lost t r \<Longrightarrow> scan t r = r"
begin

abbreviation step :: "'ctx outbox_event \<Rightarrow> 'row \<Rightarrow> 'row \<times> bool" where
  "step \<equiv> outbox_step claim complete fail mark release scan"

lemma scan_attempts: "attempts (scan t r) = attempts r"
  using scan_lost [of t r] scan_kept [of t r] by (cases "lost t r") auto

lemma mark_attempts: "attempts (fst (mark t t' r)) = attempts r"
  using mark_yes [of t t' r] mark_no [of t t' r] by (cases "snd (mark t t' r)") auto

lemma release_phase: "phase (release t x r) = (if phase r = Handed then Waiting else phase r)"
  by (simp add: release)

lemma running_kept:
  "phase r = Running \<Longrightarrow> \<not> outbox_closes_attempt e \<Longrightarrow> phase (fst (step e r)) = Running"
  using claim_iff [of _ _ _ r] claim_refused [of _ _ _ r] mark_iff [of _ _ r] mark_no [of _ _ r]
  by (cases e) (auto simp: release_phase)

lemma running_only_by_claim:
  "\<not> snd (step e r) \<Longrightarrow> phase (fst (step e r)) = Running \<Longrightarrow> phase r = Running"
  using claim_refused [of _ _ _ r] mark_yes [of _ _ r] mark_no [of _ _ r] scan_lost [of _ r]
    scan_kept [of _ r]
proof (cases e)
  case (OMarkDispatched t t')
  then show "phase (fst (step e r)) = Running \<Longrightarrow> phase r = Running"
    using mark_yes [of t t' r] mark_no [of t t' r] by (cases "snd (mark t t' r)") auto
next
  case (OScan t)
  then show "phase (fst (step e r)) = Running \<Longrightarrow> phase r = Running"
    using scan_lost [of t r] scan_kept [of t r] by (cases "lost t r") auto
next
  case (OClaim c t t')
  then show "\<not> snd (step e r) \<Longrightarrow> phase (fst (step e r)) = Running \<Longrightarrow> phase r = Running"
    using claim_refused [of c t t' r] by auto
qed (auto simp: complete fail release_phase split: if_splits)

lemma attempts_kept:
  "\<not> snd (step e r) \<Longrightarrow> attempts r \<le> attempts (fst (step e r)) \<and>
     (attempts r \<le> max_attempts \<longrightarrow> attempts (fst (step e r)) \<le> max_attempts)"
proof (cases e)
  case (OClaim c t t')
  then show "\<not> snd (step e r) \<Longrightarrow> ?thesis" using claim_refused [of c t t' r] by auto
qed (simp_all add: complete fail release mark_attempts scan_attempts)

end

sublocale retry_outbox \<subseteq> delivery_row "outbox_step claim complete fail mark release scan"
  "\<lambda>r. phase r = Running" attempts max_attempts outbox_closes_attempt
proof (unfold_locales, goal_cases)
  case (1 e r)
  then show ?case
    using claim_iff [of _ _ _ r] claim_handed [of _ _ _ r] by (cases e) auto
next
  case (2 e r)
  then show ?case by (rule attempts_kept)
next
  case (3 r e)
  then show ?case by (rule running_kept)
next
  case (4 e r)
  then show ?case by (rule running_only_by_claim)
qed

context retry_outbox
begin

text \<open>Every event is a step of the abstract automaton, late reports excepted.\<close>

definition abs :: "'row \<Rightarrow> delivery_state" where
  "abs r = \<lparr>phase_of = phase r, tries = attempts r\<rparr>"

lemma abs_sel [simp]: "phase_of (abs r) = phase r" "tries (abs r) = attempts r"
  by (simp_all add: abs_def)

lemma claim_refines: "delivery_step max_attempts (abs r) (abs (fst (claim c t t' r)))"
proof (cases "snd (claim c t t' r)")
  case True
  then have "phase r \<in> {Waiting, Handed, Failed}" "attempts r < max_attempts"
    by (simp_all add: claim_iff)
  then have "delivery_step max_attempts (abs r) \<lparr>phase_of = Running, tries = tries (abs r) + 1\<rparr>"
    by (intro delivery_step.start) simp_all
  with claim_handed [OF True] show ?thesis by (simp add: abs_def)
next
  case False
  from claim_refused [OF False] show ?thesis
  proof (elim disjE conjE)
    assume "fst (claim c t t' r) = r"
    then show ?thesis by (simp add: delivery_step.idle)
  next
    assume "phase r \<in> {Waiting, Handed, Failed}" "attempts r < max_attempts"
      and f: "phase (fst (claim c t t' r)) = Failed" "attempts (fst (claim c t t' r)) = max_attempts"
    then have "delivery_step max_attempts (abs r) \<lparr>phase_of = Failed, tries = max_attempts\<rparr>"
      by (intro delivery_step.exhaust) simp_all
    with f show ?thesis by (simp add: abs_def)
  next
    assume "phase r \<in> {Waiting, Handed, Failed}"
      and d: "phase (fst (claim c t t' r)) = Done" "attempts (fst (claim c t t' r)) = attempts r"
    then have "delivery_step max_attempts (abs r) (abs r\<lparr>phase_of := Done\<rparr>)"
      by (intro delivery_step.drop) simp_all
    with d show ?thesis by (simp add: abs_def)
  qed
qed

lemma refines_delivery:
  assumes "outbox_report e \<longrightarrow> phase r = Running"
  shows "delivery_step max_attempts (abs r) (abs (fst (step e r)))"
proof (cases e)
  case (OClaim c t t')
  then show ?thesis using claim_refines by simp
next
  case (OComplete t)
  with assms delivery_step.finish [of "abs r"] show ?thesis by (simp add: complete abs_def)
next
  case (OFail t x)
  with assms delivery_step.report_failure [of "abs r"] show ?thesis by (simp add: fail abs_def)
next
  case (OMarkDispatched t t')
  show ?thesis
  proof (cases "snd (mark t t' r)")
    case True
    then have "delivery_step max_attempts (abs r) (abs r\<lparr>phase_of := Handed\<rparr>)"
      by (intro delivery_step.hand) (simp_all add: mark_iff)
    with mark_yes [OF True] OMarkDispatched show ?thesis by (simp add: abs_def)
  next
    case False
    with OMarkDispatched mark_no [OF False] show ?thesis by (simp add: delivery_step.idle)
  qed
next
  case (OReleaseDispatch t x)
  with delivery_step.give_back [of "abs r"] delivery_step.idle [of _ "abs r"] show ?thesis
    by (cases "phase r = Handed") (simp_all add: release abs_def)
next
  case (OScan t)
  show ?thesis
  proof (cases "lost t r")
    case True
    then have "delivery_step max_attempts (abs r) (abs r\<lparr>phase_of := Failed\<rparr>)"
      using lost_phase by (intro delivery_step.lease_lost) simp
    with scan_lost [OF True] OScan show ?thesis by (simp add: abs_def)
  next
    case False
    with OScan scan_kept [OF False] show ?thesis by (simp add: delivery_step.idle)
  qed
qed

text \<open>A lost lease is made good by the next scan, dispatch and claim.\<close>

lemma crash_recovery:
  assumes "lost t r" and "attempts r < max_attempts" and "t \<le> t'" and "usable c r"
  shows "snd (mark t' t'' (scan t r)) \<and> snd (claim c t1 t2 (fst (mark t' t'' (scan t r))))"
proof
  show m: "snd (mark t' t'' (scan t r))"
    using scan_lost [OF assms(1)] assms(2,3) by (simp add: mark_iff)
  from mark_yes [OF m, of c] scan_lost [OF assms(1), of c] assms(2,4)
  show "snd (claim c t1 t2 (fst (mark t' t'' (scan t r))))"
    by (simp add: claim_iff)
qed

text \<open>A failure reported after completion puts the row back to work.\<close>

lemma late_failure_reopens:
  assumes "attempts r < max_attempts" and "usable c r"
    and "t + timedelta_seconds (exponential_retry_delay_seconds base_seconds (attempts r)) \<le> t'"
  shows "phase (complete t0 r) = Done \<and> snd (claim c t' t'' (fail t x (complete t0 r)))"
  using assms by (simp add: claim_iff complete fail)

text \<open>A failed row is not handed out before its delay has passed.\<close>

lemma no_early_retry:
  "t' < t + timedelta_seconds (exponential_retry_delay_seconds base_seconds (attempts r)) \<Longrightarrow>
   \<not> snd (claim c t' t'' (fail t x r)) \<and> \<not> snd (mark t' t'' (fail t x r))"
  by (simp add: claim_iff mark_iff fail)

end

end
