(* ===== verification/Score_Model.thy ===== *)
theory Score_Model
  imports Async_Diagnostics
begin

text \<open>
  The rows of scores and revisions, \<open>backend/app/db/models/score.py\<close>, as the services read them.
  Primary keys of persisted rows are integers; \<open>db.get(Model, key)\<close> is \<open>db_get\<close>.
\<close>

datatype ScoreDeletionStatus = Score_ACTIVE | Score_DELETING | Score_DELETED

fun deletion_status_value :: "ScoreDeletionStatus \<Rightarrow> string" where
  "deletion_status_value Score_ACTIVE = ''ACTIVE''"
| "deletion_status_value Score_DELETING = ''DELETING''"
| "deletion_status_value Score_DELETED = ''DELETED''"

record Score = diagnostic_row +
  sc_id :: int
  score_uuid :: string
  owner_user_id :: int
  title :: string
  head_revision_id :: "int option"
  originating_job_id :: "int option"
  version :: int
  deletion_status :: ScoreDeletionStatus
  deleted_at :: "timestamp option"
  deletion_requested_at :: "timestamp option"
  deletion_request_id :: "string option"
  cleanup_completed_at :: "timestamp option"
  cleanup_attempt_count :: int
  next_cleanup_at :: "timestamp option"
  deletion_error :: "string option"
  sc_created_at :: timestamp
  sc_updated_at :: timestamp

datatype RevisionOrigin = Origin_OMR | Origin_EDIT | Origin_IMPORT

record ScoreRevision =
  rv_id :: int
  revision_uuid :: string
  rv_score_id :: int
  revision_number :: int
  parent_revision_id :: "int option"
  base_revision_id :: "int option"
  content_hash :: string
  idempotency_key :: "string option"
  rv_origin :: RevisionOrigin
  created_by_user_id :: "int option"
  created_by_job_id :: "int option"
  rv_created_at :: timestamp

text \<open>\<open>Session.get\<close>: the row with the primary key, None when the key is missing or null.\<close>

definition db_get :: "('r \<Rightarrow> int) \<Rightarrow> 'r list \<Rightarrow> int option \<Rightarrow> 'r option" where
  "db_get key rows k = (case k of None \<Rightarrow> None | Some i \<Rightarrow> List.find (\<lambda>r. key r = i) rows)"

lemma db_get_Some: "db_get key rows k = Some r \<Longrightarrow> r \<in> set rows \<and> k = Some (key r)"
  by (auto simp: db_get_def find_Some_iff split: option.splits)

lemma db_get_unique:
  assumes "unique_column key rows" and "r \<in> set rows"
  shows "db_get key rows (Some (key r)) = Some r"
proof -
  have "List.find (\<lambda>x. key x = key r) rows \<noteq> None"
    using assms(2) by (auto simp: find_None_iff)
  then obtain x where x: "List.find (\<lambda>x. key x = key r) rows = Some x" by blast
  then have "x \<in> set rows" "key x = key r" by (auto simp: find_Some_iff)
  with assms have "x = r" by (auto simp: unique_column_def distinct_map dest: inj_onD)
  with x show ?thesis by (simp add: db_get_def)
qed

text \<open>A score and its revision, for evaluating the operations on concrete rows.\<close>

definition example_score :: Score where
  "example_score = \<lparr>
     internal_error_code = None, internal_error_stage = None,
     internal_error_class = None, internal_error_retryable = None,
     sc_id = 1, score_uuid = ''s'', owner_user_id = 7, title = ''t'', head_revision_id = Some 1,
     originating_job_id = None, version = 1, deletion_status = Score_ACTIVE, deleted_at = None,
     deletion_requested_at = None, deletion_request_id = None, cleanup_completed_at = None,
     cleanup_attempt_count = 0, next_cleanup_at = None, deletion_error = None,
     sc_created_at = 0, sc_updated_at = 0\<rparr>"

definition example_revision :: ScoreRevision where
  "example_revision = \<lparr>
     rv_id = 1, revision_uuid = ''r'', rv_score_id = 1, revision_number = 1,
     parent_revision_id = None, base_revision_id = None, content_hash = ''h'',
     idempotency_key = None, rv_origin = Origin_OMR, created_by_user_id = Some 7,
     created_by_job_id = None, rv_created_at = 0\<rparr>"

end
