(* ===== verification/Playback_Outbox.thy ===== *)
theory Playback_Outbox
  imports Retry_Outbox Score_Model
begin

text \<open>
  Generation of playback audio: \<open>backend/app/db/models/playback.py\<close> (the row),
  \<open>backend/app/modules/playback/outbox_service.py\<close> (the service) and
  \<open>backend/app/core/settings/playback_delivery.py\<close>. As for the mail outbox, each method has a row
  part and a table part; a claim also reads the score and the revision the row refers to.
\<close>

section \<open>The row\<close>

datatype PlaybackAssetKind = Playback_AUDIO

datatype PlaybackOutboxStatus =
  Playback_PENDING | Playback_DISPATCHED | Playback_PROCESSING | Playback_COMPLETED
| Playback_FAILED

fun playback_status_value :: "PlaybackOutboxStatus \<Rightarrow> string" where
  "playback_status_value Playback_PENDING = ''PENDING''"
| "playback_status_value Playback_DISPATCHED = ''DISPATCHED''"
| "playback_status_value Playback_PROCESSING = ''PROCESSING''"
| "playback_status_value Playback_COMPLETED = ''COMPLETED''"
| "playback_status_value Playback_FAILED = ''FAILED''"

record PlaybackOutbox = "PlaybackOutboxStatus outbox_row" +
  po_score_id :: int
  po_revision_id :: int
  po_requested_by_user_id :: "int option"
  po_source_fingerprint :: string
  asset_kind :: PlaybackAssetKind

record playback_settings =
  PLAYBACK_OUTBOX_DISPATCH_TIMEOUT_SECONDS :: int
  PLAYBACK_OUTBOX_PROCESSING_TIMEOUT_SECONDS :: int
  PLAYBACK_OUTBOX_RETRY_BASE_SECONDS :: int
  PLAYBACK_OUTBOX_MAX_ATTEMPTS :: int
  PLAYBACK_OUTBOX_DISPATCH_BATCH_SIZE :: int

definition playback_delivery_defaults :: playback_settings where
  "playback_delivery_defaults = \<lparr>
     PLAYBACK_OUTBOX_DISPATCH_TIMEOUT_SECONDS = 300,
     PLAYBACK_OUTBOX_PROCESSING_TIMEOUT_SECONDS = 1200,
     PLAYBACK_OUTBOX_RETRY_BASE_SECONDS = 60,
     PLAYBACK_OUTBOX_MAX_ATTEMPTS = 5,
     PLAYBACK_OUTBOX_DISPATCH_BATCH_SIZE = 50\<rparr>"

record PlaybackOutboxPayload =
  pp_outbox_uuid :: string
  pp_score_uuid :: string
  pp_revision_uuid :: string
  pp_source_fingerprint :: string
  pp_asset_kind :: PlaybackAssetKind
  pp_attempt :: int
  pp_max_attempts :: int
  pp_originating_request_id :: "string option"
  pp_traceparent :: "string option"
  pp_tracestate :: "string option"

section \<open>Creation\<close>

definition new_playback_outbox ::
  "string \<Rightarrow> timestamp \<Rightarrow> timestamp \<Rightarrow> timestamp \<Rightarrow> string option \<Rightarrow> string option \<Rightarrow> string option \<Rightarrow>
   int \<Rightarrow> int \<Rightarrow> int \<Rightarrow> string \<Rightarrow> PlaybackAssetKind \<Rightarrow> PlaybackOutbox"
where
  "new_playback_outbox new_uuid t_next t_created t_updated request_id trace_parent trace_state
      score_id revision_id requested_by fingerprint kind = \<lparr>
     internal_error_code = None, internal_error_stage = None,
     internal_error_class = None, internal_error_retryable = None,
     row_id = None, outbox_uuid = new_uuid,
     originating_request_id = request_id, traceparent = trace_parent, tracestate = trace_state,
     status = Playback_PENDING, attempt_count = 0, next_attempt_at = t_next,
     dispatched_at = None, started_at = None, completed_at = None, last_error = None,
     created_at = t_created, updated_at = t_updated,
     po_score_id = score_id, po_revision_id = revision_id,
     po_requested_by_user_id = Some requested_by, po_source_fingerprint = fingerprint,
     asset_kind = kind\<rparr>"

definition create_playback_outbox ::
  "string \<Rightarrow> timestamp \<Rightarrow> timestamp \<Rightarrow> timestamp \<Rightarrow> string option \<Rightarrow> string option \<Rightarrow> string option \<Rightarrow>
   int \<Rightarrow> int \<Rightarrow> int \<Rightarrow> string \<Rightarrow> PlaybackAssetKind \<Rightarrow> PlaybackOutbox list \<Rightarrow>
   (orm_error + PlaybackOutbox) \<times> PlaybackOutbox list"
where
  "create_playback_outbox new_uuid t_next t_created t_updated request_id trace_parent trace_state
      score_id revision_id requested_by fingerprint kind db =
     (case scalar_one_or_none
             (filter (\<lambda>r. po_revision_id r = revision_id \<and> asset_kind r = kind) db) of
        Inl e \<Rightarrow> (Inl e, db)
      | Inr (Some existing) \<Rightarrow> (Inr existing, db)
      | Inr None \<Rightarrow>
          (let outbox = new_playback_outbox new_uuid t_next t_created t_updated request_id
                          trace_parent trace_state score_id revision_id requested_by fingerprint kind
           in (Inr outbox, db @ [outbox])))"

section \<open>The service, row by row\<close>

definition playback_diagnostic ::
  "playback_settings \<Rightarrow> AsyncOperationStatusValue \<Rightarrow> PlaybackOutbox \<Rightarrow> PlaybackOutbox" where
  "playback_diagnostic st op r =
     apply_async_diagnostic Kind_PLAYBACK op (playback_status_value (status r)) (last_error r)
       (attempt_count r) (Some (PLAYBACK_OUTBOX_MAX_ATTEMPTS st)) r"

definition build_revision_audio_payload ::
  "playback_settings \<Rightarrow> Score list \<Rightarrow> ScoreRevision list \<Rightarrow> PlaybackOutbox \<Rightarrow>
   PlaybackOutboxPayload option" where
  "build_revision_audio_payload st scores revisions r =
     (case db_get sc_id scores (Some (po_score_id r)) of
        None \<Rightarrow> None
      | Some score \<Rightarrow>
          if deletion_status score \<noteq> Score_ACTIVE then None
          else (case db_get rv_id revisions (Some (po_revision_id r)) of
                  None \<Rightarrow> None
                | Some revision \<Rightarrow>
                    if rv_score_id revision \<noteq> po_score_id r
                       \<or> content_hash revision \<noteq> po_source_fingerprint r
                    then None
                    else Some \<lparr>
                      pp_outbox_uuid = outbox_uuid r, pp_score_uuid = score_uuid score,
                      pp_revision_uuid = revision_uuid revision,
                      pp_source_fingerprint = po_source_fingerprint r,
                      pp_asset_kind = asset_kind r, pp_attempt = 0,
                      pp_max_attempts = PLAYBACK_OUTBOX_MAX_ATTEMPTS st,
                      pp_originating_request_id = originating_request_id r,
                      pp_traceparent = traceparent r, pp_tracestate = tracestate r\<rparr>))"

definition playback_exhaust_unavailable ::
  "playback_settings \<Rightarrow> timestamp \<Rightarrow> PlaybackOutbox \<Rightarrow> PlaybackOutbox" where
  "playback_exhaust_unavailable st t r =
     (playback_diagnostic st Op_EXHAUSTED
        (r\<lparr>status := Playback_FAILED, attempt_count := PLAYBACK_OUTBOX_MAX_ATTEMPTS st,
           last_error := Some ''Playback outbox references unavailable or stale resources''\<rparr>))
       \<lparr>updated_at := t\<rparr>"

text \<open>
  \<open>_build_payload\<close>: the payload, or the row exhausted because what it refers to is gone or stale.
\<close>

definition playback_build_payload ::
  "playback_settings \<Rightarrow> Score list \<Rightarrow> ScoreRevision list \<Rightarrow> timestamp \<Rightarrow> PlaybackOutbox \<Rightarrow>
   PlaybackOutbox \<times> PlaybackOutboxPayload option" where
  "playback_build_payload st scores revisions t r =
     (case build_revision_audio_payload st scores revisions r of
        Some payload \<Rightarrow> (r, Some payload)
      | None \<Rightarrow> (playback_exhaust_unavailable st t r, None))"

definition playback_claim_row ::
  "playback_settings \<Rightarrow> Score list \<Rightarrow> ScoreRevision list \<Rightarrow> timestamp \<Rightarrow> timestamp \<Rightarrow>
   PlaybackOutbox \<Rightarrow> PlaybackOutbox \<times> PlaybackOutboxPayload option" where
  "playback_claim_row st scores revisions t_check now r =
     (if status r \<in> {Playback_PROCESSING, Playback_COMPLETED} then (r, None)
      else if status r = Playback_FAILED \<and> next_attempt_at r > t_check then (r, None)
      else if attempt_count r \<ge> PLAYBACK_OUTBOX_MAX_ATTEMPTS st then (r, None)
      else
        let attempt = attempt_count r + 1 in
        (case playback_build_payload st scores revisions now r of
           (r', None) \<Rightarrow> (r', None)
         | (r', Some payload) \<Rightarrow>
             (r'\<lparr>status := Playback_PROCESSING, attempt_count := attempt_count r' + 1,
                 started_at := Some now, updated_at := now\<rparr>,
              Some (payload\<lparr>pp_attempt := attempt,
                            pp_max_attempts := PLAYBACK_OUTBOX_MAX_ATTEMPTS st\<rparr>))))"

definition playback_complete_row :: "timestamp \<Rightarrow> PlaybackOutbox \<Rightarrow> PlaybackOutbox" where
  "playback_complete_row now r =
     (clear_async_diagnostic
        (r\<lparr>status := Playback_COMPLETED, completed_at := Some now, last_error := None\<rparr>))
       \<lparr>updated_at := now\<rparr>"

definition playback_fail_row ::
  "playback_settings \<Rightarrow> timestamp \<Rightarrow> string \<Rightarrow> PlaybackOutbox \<Rightarrow> PlaybackOutbox" where
  "playback_fail_row st now err r =
     (let delay = exponential_retry_delay_seconds (PLAYBACK_OUTBOX_RETRY_BASE_SECONDS st)
                    (attempt_count r);
          r1 = r\<lparr>status := Playback_FAILED, next_attempt_at := now + timedelta_seconds delay,
                 last_error := Some (take 4000 err)\<rparr>
      in (playback_diagnostic st
            (if attempt_count r \<ge> PLAYBACK_OUTBOX_MAX_ATTEMPTS st then Op_EXHAUSTED
             else Op_RETRYING) r1)\<lparr>updated_at := now\<rparr>)"

definition playback_is_dispatchable :: "playback_settings \<Rightarrow> timestamp \<Rightarrow> PlaybackOutbox \<Rightarrow> bool" where
  "playback_is_dispatchable st now r \<longleftrightarrow>
     status r \<in> {Playback_PENDING, Playback_FAILED} \<and>
     attempt_count r < PLAYBACK_OUTBOX_MAX_ATTEMPTS st \<and> next_attempt_at r \<le> now"

definition playback_mark_dispatched_row ::
  "playback_settings \<Rightarrow> timestamp \<Rightarrow> timestamp \<Rightarrow> PlaybackOutbox \<Rightarrow> PlaybackOutbox \<times> bool" where
  "playback_mark_dispatched_row st t_check now r =
     (if \<not> playback_is_dispatchable st t_check r then (r, False)
      else ((clear_async_diagnostic (r\<lparr>status := Playback_DISPATCHED, dispatched_at := Some now\<rparr>))
              \<lparr>updated_at := now\<rparr>, True))"

definition playback_release_dispatch_row ::
  "playback_settings \<Rightarrow> timestamp \<Rightarrow> string \<Rightarrow> PlaybackOutbox \<Rightarrow> PlaybackOutbox" where
  "playback_release_dispatch_row st now err r =
     (if status r \<noteq> Playback_DISPATCHED then r
      else (playback_diagnostic st Op_QUEUED
              (r\<lparr>status := Playback_PENDING, dispatched_at := None,
                 last_error := Some (take 4000 err)\<rparr>))\<lparr>updated_at := now\<rparr>)"

definition playback_scan_row :: "playback_settings \<Rightarrow> timestamp \<Rightarrow> PlaybackOutbox \<Rightarrow> PlaybackOutbox" where
  "playback_scan_row st now r =
     (if (status r = Playback_DISPATCHED \<or> status r = Playback_PROCESSING) \<and>
         delivery_lease_expired (status r) Playback_DISPATCHED Playback_PROCESSING
           (dispatched_at r) (started_at r) now
           (PLAYBACK_OUTBOX_DISPATCH_TIMEOUT_SECONDS st)
           (PLAYBACK_OUTBOX_PROCESSING_TIMEOUT_SECONDS st)
      then (playback_diagnostic st Op_FAILED
              (r\<lparr>status := Playback_FAILED, next_attempt_at := now,
                 last_error := Some ''Playback delivery lease expired''\<rparr>))\<lparr>updated_at := now\<rparr>
      else r)"

definition playback_due :: "playback_settings \<Rightarrow> timestamp \<Rightarrow> PlaybackOutbox \<Rightarrow> bool" where
  "playback_due st now r \<longleftrightarrow>
     status r \<in> {Playback_PENDING, Playback_FAILED} \<and> next_attempt_at r \<le> now \<and>
     attempt_count r < PLAYBACK_OUTBOX_MAX_ATTEMPTS st"

section \<open>The service on the table\<close>

definition playback_claim ::
  "playback_settings \<Rightarrow> Score list \<Rightarrow> ScoreRevision list \<Rightarrow> timestamp \<Rightarrow> timestamp \<Rightarrow> string \<Rightarrow>
   PlaybackOutbox list \<Rightarrow> (orm_error + PlaybackOutboxPayload option) \<times> PlaybackOutbox list" where
  "playback_claim st scores revisions t_check now uuid db =
     on_row (\<lambda>r. outbox_uuid r = uuid) None (playback_claim_row st scores revisions t_check now) db"

definition playback_complete ::
  "timestamp \<Rightarrow> string \<Rightarrow> PlaybackOutbox list \<Rightarrow> (orm_error + unit) \<times> PlaybackOutbox list" where
  "playback_complete now uuid db =
     on_row (\<lambda>r. outbox_uuid r = uuid) () (\<lambda>r. (playback_complete_row now r, ())) db"

definition playback_fail ::
  "playback_settings \<Rightarrow> timestamp \<Rightarrow> string \<Rightarrow> string \<Rightarrow> PlaybackOutbox list \<Rightarrow>
   (orm_error + unit) \<times> PlaybackOutbox list" where
  "playback_fail st now uuid err db =
     on_row (\<lambda>r. outbox_uuid r = uuid) () (\<lambda>r. (playback_fail_row st now err r, ())) db"

definition playback_mark_dispatched ::
  "playback_settings \<Rightarrow> timestamp \<Rightarrow> timestamp \<Rightarrow> string \<Rightarrow> PlaybackOutbox list \<Rightarrow>
   (orm_error + bool) \<times> PlaybackOutbox list" where
  "playback_mark_dispatched st t_check now uuid db =
     on_row (\<lambda>r. outbox_uuid r = uuid) False (playback_mark_dispatched_row st t_check now) db"

definition playback_release_dispatch ::
  "playback_settings \<Rightarrow> timestamp \<Rightarrow> string \<Rightarrow> string \<Rightarrow> PlaybackOutbox list \<Rightarrow>
   (orm_error + unit) \<times> PlaybackOutbox list" where
  "playback_release_dispatch st now uuid err db =
     on_row (\<lambda>r. outbox_uuid r = uuid) () (\<lambda>r. (playback_release_dispatch_row st now err r, ())) db"

definition playback_recover_and_list_due ::
  "playback_settings \<Rightarrow> timestamp \<Rightarrow> PlaybackOutbox list \<Rightarrow> string list \<times> PlaybackOutbox list" where
  "playback_recover_and_list_due st now db =
     (map outbox_uuid
        (select_ordered (playback_due st now) created_at
           (nat (PLAYBACK_OUTBOX_DISPATCH_BATCH_SIZE st)) db),
      map (playback_scan_row st now) db)"

section \<open>Row facts\<close>

lemma clear_diagnostic_playback [simp]:
  fixes r :: PlaybackOutbox
  shows
  "po_score_id (clear_async_diagnostic r) = po_score_id r"
  "po_revision_id (clear_async_diagnostic r) = po_revision_id r"
  "po_source_fingerprint (clear_async_diagnostic r) = po_source_fingerprint r"
  "asset_kind (clear_async_diagnostic r) = asset_kind r"
  by (simp_all add: clear_async_diagnostic_def)

lemma playback_diagnostic_simps [simp]:
  "outbox_uuid (playback_diagnostic st op r) = outbox_uuid r"
  "status (playback_diagnostic st op r) = status r"
  "attempt_count (playback_diagnostic st op r) = attempt_count r"
  "next_attempt_at (playback_diagnostic st op r) = next_attempt_at r"
  "dispatched_at (playback_diagnostic st op r) = dispatched_at r"
  "started_at (playback_diagnostic st op r) = started_at r"
  "completed_at (playback_diagnostic st op r) = completed_at r"
  "last_error (playback_diagnostic st op r) = last_error r"
  "created_at (playback_diagnostic st op r) = created_at r"
  "po_score_id (playback_diagnostic st op r) = po_score_id r"
  "po_revision_id (playback_diagnostic st op r) = po_revision_id r"
  "po_source_fingerprint (playback_diagnostic st op r) = po_source_fingerprint r"
  "asset_kind (playback_diagnostic st op r) = asset_kind r"
  by (simp_all add: playback_diagnostic_def apply_async_diagnostic_def clear_async_diagnostic_def
      split: option.split)

text \<open>The columns that say what the row is about: no method but the constructor writes them.\<close>

definition playback_target :: "PlaybackOutbox \<Rightarrow> string \<times> int \<times> int \<times> string \<times> PlaybackAssetKind" where
  "playback_target r =
     (outbox_uuid r, po_score_id r, po_revision_id r, po_source_fingerprint r, asset_kind r)"

fun playback_phase :: "PlaybackOutboxStatus \<Rightarrow> phase" where
  "playback_phase Playback_PENDING = Waiting"
| "playback_phase Playback_DISPATCHED = Handed"
| "playback_phase Playback_PROCESSING = Running"
| "playback_phase Playback_COMPLETED = Done"
| "playback_phase Playback_FAILED = Failed"

lemma playback_phase_iff [simp]:
  "playback_phase s = Waiting \<longleftrightarrow> s = Playback_PENDING"
  "playback_phase s = Handed \<longleftrightarrow> s = Playback_DISPATCHED"
  "playback_phase s = Running \<longleftrightarrow> s = Playback_PROCESSING"
  "playback_phase s = Done \<longleftrightarrow> s = Playback_COMPLETED"
  "playback_phase s = Failed \<longleftrightarrow> s = Playback_FAILED"
  by (cases s; simp)+

text \<open>
  What a claim needs of the rows the playback row refers to: the score is active, and the revision is
  one of its revisions and still has the content the audio was requested for.
\<close>

definition playback_usable :: "Score list \<times> ScoreRevision list \<Rightarrow> PlaybackOutbox \<Rightarrow> bool" where
  "playback_usable c r \<longleftrightarrow>
     (case (db_get sc_id (fst c) (Some (po_score_id r)),
            db_get rv_id (snd c) (Some (po_revision_id r))) of
        (Some score, Some revision) \<Rightarrow>
          deletion_status score = Score_ACTIVE \<and> rv_score_id revision = po_score_id r \<and>
          content_hash revision = po_source_fingerprint r
      | _ \<Rightarrow> False)"

lemma playback_usable_payload:
  "build_revision_audio_payload st scores revisions r = None \<longleftrightarrow>
   \<not> playback_usable (scores, revisions) r"
  by (auto simp: playback_usable_def build_revision_audio_payload_def split: option.split)

lemma playback_usable_target:
  "playback_target r' = playback_target r \<Longrightarrow> playback_usable c r' = playback_usable c r"
  by (auto simp: playback_usable_def playback_target_def split: option.split)

lemma playback_complete_row_simps [simp]:
  "status (playback_complete_row t r) = Playback_COMPLETED"
  "attempt_count (playback_complete_row t r) = attempt_count r"
  "playback_target (playback_complete_row t r) = playback_target r"
  by (simp_all add: playback_complete_row_def playback_target_def)

lemma playback_fail_row_simps [simp]:
  "status (playback_fail_row st t x r) = Playback_FAILED"
  "attempt_count (playback_fail_row st t x r) = attempt_count r"
  "next_attempt_at (playback_fail_row st t x r) =
     t + timedelta_seconds (exponential_retry_delay_seconds
       (PLAYBACK_OUTBOX_RETRY_BASE_SECONDS st) (attempt_count r))"
  "playback_target (playback_fail_row st t x r) = playback_target r"
  by (simp_all add: playback_fail_row_def playback_target_def Let_def)

lemma playback_mark_row_simps [simp]:
  "snd (playback_mark_dispatched_row st t t' r) = playback_is_dispatchable st t r"
  "attempt_count (fst (playback_mark_dispatched_row st t t' r)) = attempt_count r"
  "playback_is_dispatchable st t r \<Longrightarrow>
     status (fst (playback_mark_dispatched_row st t t' r)) = Playback_DISPATCHED"
  "\<not> playback_is_dispatchable st t r \<Longrightarrow> fst (playback_mark_dispatched_row st t t' r) = r"
  "playback_target (fst (playback_mark_dispatched_row st t t' r)) = playback_target r"
  by (simp_all add: playback_mark_dispatched_row_def playback_target_def)

lemma playback_release_row_simps [simp]:
  "attempt_count (playback_release_dispatch_row st t x r) = attempt_count r"
  "status r = Playback_DISPATCHED \<Longrightarrow>
     status (playback_release_dispatch_row st t x r) = Playback_PENDING"
  "status r \<noteq> Playback_DISPATCHED \<Longrightarrow> playback_release_dispatch_row st t x r = r"
  "playback_target (playback_release_dispatch_row st t x r) = playback_target r"
  by (simp_all add: playback_release_dispatch_row_def playback_target_def)

definition playback_lost :: "playback_settings \<Rightarrow> timestamp \<Rightarrow> PlaybackOutbox \<Rightarrow> bool" where
  "playback_lost st now r =
     delivery_lease_expired (status r) Playback_DISPATCHED Playback_PROCESSING (dispatched_at r)
       (started_at r) now (PLAYBACK_OUTBOX_DISPATCH_TIMEOUT_SECONDS st)
       (PLAYBACK_OUTBOX_PROCESSING_TIMEOUT_SECONDS st)"

lemma playback_lost_status: "playback_lost st t r \<Longrightarrow> status r \<in> {Playback_DISPATCHED, Playback_PROCESSING}"
  unfolding playback_lost_def by (drule lease_expired_statuses) blast

lemma playback_scan_row_cases:
  "playback_scan_row st t r =
     (if playback_lost st t r
      then (playback_diagnostic st Op_FAILED
              (r\<lparr>status := Playback_FAILED, next_attempt_at := t,
                 last_error := Some ''Playback delivery lease expired''\<rparr>))\<lparr>updated_at := t\<rparr>
      else r)"
  using playback_lost_status [of st t r] by (auto simp: playback_scan_row_def playback_lost_def)

lemma playback_scan_row_simps [simp]:
  "attempt_count (playback_scan_row st t r) = attempt_count r"
  "playback_lost st t r \<Longrightarrow> status (playback_scan_row st t r) = Playback_FAILED"
  "playback_lost st t r \<Longrightarrow> next_attempt_at (playback_scan_row st t r) = t"
  "\<not> playback_lost st t r \<Longrightarrow> playback_scan_row st t r = r"
  "playback_target (playback_scan_row st t r) = playback_target r"
  by (simp_all add: playback_scan_row_cases playback_target_def)

lemma playback_exhaust_simps [simp]:
  "status (playback_exhaust_unavailable st t r) = Playback_FAILED"
  "attempt_count (playback_exhaust_unavailable st t r) = PLAYBACK_OUTBOX_MAX_ATTEMPTS st"
  "playback_target (playback_exhaust_unavailable st t r) = playback_target r"
  by (simp_all add: playback_exhaust_unavailable_def playback_target_def)

lemma playback_usable_rows [simp]:
  "playback_usable c (playback_complete_row t r) = playback_usable c r"
  "playback_usable c (playback_fail_row st t x r) = playback_usable c r"
  "playback_usable c (fst (playback_mark_dispatched_row st t t' r)) = playback_usable c r"
  "playback_usable c (playback_scan_row st t r) = playback_usable c r"
  by (rule playback_usable_target, simp)+

text \<open>The three outcomes of a claim: refused by a guard, exhausted, or handed out.\<close>

definition playback_claimable :: "playback_settings \<Rightarrow> timestamp \<Rightarrow> PlaybackOutbox \<Rightarrow> bool" where
  "playback_claimable st t r \<longleftrightarrow>
     status r \<in> {Playback_PENDING, Playback_DISPATCHED, Playback_FAILED} \<and>
     (status r = Playback_FAILED \<longrightarrow> next_attempt_at r \<le> t) \<and>
     attempt_count r < PLAYBACK_OUTBOX_MAX_ATTEMPTS st"

lemma playback_claim_refused:
  "\<not> playback_claimable st t r \<Longrightarrow> playback_claim_row st scores revisions t now r = (r, None)"
  by (cases "status r") (auto simp: playback_claimable_def playback_claim_row_def)

lemma playback_claim_stale:
  "playback_claimable st t r \<Longrightarrow> \<not> playback_usable (scores, revisions) r \<Longrightarrow>
   playback_claim_row st scores revisions t now r = (playback_exhaust_unavailable st now r, None)"
  using playback_usable_payload [of st scores revisions r]
  by (auto simp: playback_claimable_def playback_claim_row_def playback_build_payload_def Let_def)

lemma playback_claim_handed:
  assumes "playback_claimable st t r" and "build_revision_audio_payload st scores revisions r = Some p"
  shows "playback_claim_row st scores revisions t now r =
     (r\<lparr>status := Playback_PROCESSING, attempt_count := attempt_count r + 1,
        started_at := Some now, updated_at := now\<rparr>,
      Some (p\<lparr>pp_attempt := attempt_count r + 1,
              pp_max_attempts := PLAYBACK_OUTBOX_MAX_ATTEMPTS st\<rparr>))"
  using assms by (auto simp: playback_claimable_def playback_claim_row_def playback_build_payload_def Let_def)

lemma playback_claim_usable:
  assumes "playback_claimable st t r" and "playback_usable (scores, revisions) r"
  obtains p where "playback_claim_row st scores revisions t now r =
     (r\<lparr>status := Playback_PROCESSING, attempt_count := attempt_count r + 1,
        started_at := Some now, updated_at := now\<rparr>, Some p)"
proof -
  from assms(2) obtain q where "build_revision_audio_payload st scores revisions r = Some q"
    using playback_usable_payload [of st scores revisions r] by auto
  from playback_claim_handed [OF assms(1) this, of now] that show thesis by blast
qed

definition playback_claim_event ::
  "playback_settings \<Rightarrow> Score list \<times> ScoreRevision list \<Rightarrow> timestamp \<Rightarrow> timestamp \<Rightarrow>
   PlaybackOutbox \<Rightarrow> PlaybackOutbox \<times> bool" where
  "playback_claim_event st c t t' r =
     (fst (playback_claim_row st (fst c) (snd c) t t' r),
      snd (playback_claim_row st (fst c) (snd c) t t' r) \<noteq> None)"

lemma playback_claim_event_cases:
  obtains (refused) "\<not> playback_claimable st t r" "playback_claim_event st c t t' r = (r, False)"
  | (stale) "playback_claimable st t r" "\<not> playback_usable c r"
      "playback_claim_event st c t t' r = (playback_exhaust_unavailable st t' r, False)"
  | (handed) "playback_claimable st t r" "playback_usable c r"
      "playback_claim_event st c t t' r =
         (r\<lparr>status := Playback_PROCESSING, attempt_count := attempt_count r + 1,
            started_at := Some t', updated_at := t'\<rparr>, True)"
proof (cases "playback_claimable st t r")
  case False
  then show thesis by (intro refused) (simp_all add: playback_claim_event_def playback_claim_refused)
next
  case True
  show thesis
  proof (cases "playback_usable (fst c, snd c) r")
    case False
    with True show thesis
      by (intro stale) (simp_all add: playback_claim_event_def playback_claim_stale)
  next
    case usable: True
    from playback_claim_usable [OF True usable, of t'] obtain p where
      "playback_claim_row st (fst c) (snd c) t t' r =
         (r\<lparr>status := Playback_PROCESSING, attempt_count := attempt_count r + 1,
            started_at := Some t', updated_at := t'\<rparr>, Some p)" .
    with True usable show thesis by (intro handed) (simp_all add: playback_claim_event_def)
  qed
qed

section \<open>The outbox contract\<close>

abbreviation playback_step ::
  "playback_settings \<Rightarrow> (Score list \<times> ScoreRevision list) outbox_event \<Rightarrow> PlaybackOutbox \<Rightarrow>
   PlaybackOutbox \<times> bool" where
  "playback_step st \<equiv>
     outbox_step (playback_claim_event st) playback_complete_row (playback_fail_row st)
       (playback_mark_dispatched_row st) (playback_release_dispatch_row st) (playback_scan_row st)"

interpretation playback_rows: retry_outbox "\<lambda>r. playback_phase (status r)" attempt_count
  next_attempt_at "PLAYBACK_OUTBOX_MAX_ATTEMPTS st" "PLAYBACK_OUTBOX_RETRY_BASE_SECONDS st"
  playback_usable "playback_lost st" "playback_claim_event st" playback_complete_row
  "playback_fail_row st" "playback_mark_dispatched_row st" "playback_release_dispatch_row st"
  "playback_scan_row st" for st
proof (unfold_locales, goal_cases)
  case (1 c t t' r)
  show ?case
    by (cases rule: playback_claim_event_cases [of st t r c t']) (auto simp: playback_claimable_def)
next
  case (2 c t t' r)
  then show ?case by (cases rule: playback_claim_event_cases [of st t r c t']) auto
next
  case (3 c t t' r)
  then show ?case
    by (cases rule: playback_claim_event_cases [of st t r c t']) (auto simp: playback_claimable_def)
next
  case (11 t t' r)
  show ?case by (auto simp: playback_is_dispatchable_def)
next
  case (17 t r)
  then show ?case by (auto dest: playback_lost_status)
qed simp_all

section \<open>Properties\<close>

text \<open>A row of the table under its key, and the table after its row has been rewritten.\<close>

lemma playback_claim_table:
  assumes "unique_column outbox_uuid db"
  shows "fst (playback_claim st scores revisions t now u db) = Inr (Some p) \<Longrightarrow>
    \<exists>r \<in> set db. outbox_uuid r = u \<and> snd (playback_claim_row st scores revisions t now r) = Some p \<and>
      snd (playback_claim st scores revisions t now u db) =
        map (\<lambda>x. if outbox_uuid x = u then fst (playback_claim_row st scores revisions t now x) else x) db"
  using assms
proof (cases rule: unique_scalar_cases [OF assms, of u])
  case 1
  assume "fst (playback_claim st scores revisions t now u db) = Inr (Some p)"
  with 1 show ?thesis by (simp add: playback_claim_def on_row_missing)
next
  case (2 r)
  assume "fst (playback_claim st scores revisions t now u db) = Inr (Some p)"
  with 2 have "snd (playback_claim_row st scores revisions t now r) = Some p"
    by (simp add: playback_claim_def on_row_found)
  with 2 show ?thesis
    using on_row_table [OF assms, of u None "playback_claim_row st scores revisions t now"]
    by (auto simp: playback_claim_def)
qed

text \<open>A claim hands out playback work only for what exists and is current: the payload names an
  active score and a revision of that score whose content is the one the audio was requested for; it
  carries the number of this attempt, within the maximum; the row is now running under a fresh lease
  and every other row of the table is untouched.\<close>

theorem playback_claim_sound:
  assumes "unique_column outbox_uuid db"
    and "fst (playback_claim st scores revisions t now u db) = Inr (Some p)"
  shows "\<exists>r \<in> set db. \<exists>score \<in> set scores. \<exists>revision \<in> set revisions.
    outbox_uuid r = u \<and> pp_outbox_uuid p = u \<and>
    pp_score_uuid p = score_uuid score \<and> sc_id score = po_score_id r \<and>
    deletion_status score = Score_ACTIVE \<and>
    pp_revision_uuid p = revision_uuid revision \<and> rv_id revision = po_revision_id r \<and>
    rv_score_id revision = sc_id score \<and> content_hash revision = pp_source_fingerprint p \<and>
    pp_attempt p = attempt_count r + 1 \<and> pp_attempt p \<le> pp_max_attempts p \<and>
    pp_max_attempts p = PLAYBACK_OUTBOX_MAX_ATTEMPTS st \<and>
    snd (playback_claim st scores revisions t now u db) =
      map (\<lambda>x. if outbox_uuid x = u
               then r\<lparr>status := Playback_PROCESSING, attempt_count := pp_attempt p,
                      started_at := Some now, updated_at := now\<rparr> else x) db"
proof -
  from playback_claim_table [OF assms] obtain r where r: "r \<in> set db" "outbox_uuid r = u"
    and p: "snd (playback_claim_row st scores revisions t now r) = Some p"
    and db: "snd (playback_claim st scores revisions t now u db) =
        map (\<lambda>x. if outbox_uuid x = u then fst (playback_claim_row st scores revisions t now x) else x) db"
    by blast
  have c: "playback_claimable st t r"
    using p playback_claim_refused [of st t r scores revisions now] by fastforce
  have "playback_usable (scores, revisions) r"
    using p playback_claim_stale [OF c, of scores revisions now] by fastforce
  then obtain q where q: "build_revision_audio_payload st scores revisions r = Some q"
    using playback_usable_payload [of st scores revisions r] by auto
  note claim = playback_claim_handed [OF c q, of now]
  have same: "x = r" if "x \<in> set db" "outbox_uuid x = u" for x
    using assms(1) r that by (auto simp: unique_column_def distinct_map dest: inj_onD)
  have pq: "p = q\<lparr>pp_attempt := attempt_count r + 1, pp_max_attempts := PLAYBACK_OUTBOX_MAX_ATTEMPTS st\<rparr>"
    using p claim by simp
  have db': "snd (playback_claim st scores revisions t now u db) =
      map (\<lambda>x. if outbox_uuid x = u
               then r\<lparr>status := Playback_PROCESSING, attempt_count := pp_attempt p,
                      started_at := Some now, updated_at := now\<rparr> else x) db"
    using same claim unfolding db by (auto simp: pq)
  from q obtain score revision where
    s: "db_get sc_id scores (Some (po_score_id r)) = Some score" "deletion_status score = Score_ACTIVE" and
    v: "db_get rv_id revisions (Some (po_revision_id r)) = Some revision"
       "rv_score_id revision = po_score_id r" "content_hash revision = po_source_fingerprint r" and
    f: "pp_outbox_uuid q = outbox_uuid r" "pp_score_uuid q = score_uuid score"
       "pp_revision_uuid q = revision_uuid revision" "pp_source_fingerprint q = po_source_fingerprint r"
    by (auto simp: build_revision_audio_payload_def split: option.splits if_splits)
  have "score \<in> set scores" "sc_id score = po_score_id r"
    and "revision \<in> set revisions" "rv_id revision = po_revision_id r"
    using db_get_Some [OF s(1)] db_get_Some [OF v(1)] by auto
  moreover have "pp_attempt p \<le> pp_max_attempts p"
    using c by (simp add: pq playback_claimable_def)
  ultimately show ?thesis
    using r db' s(2) v(2,3) f
    by (intro bexI [of _ r] bexI [of _ score] bexI [of _ revision]) (auto simp: pq)
qed

text \<open>A fresh row for the example revision.\<close>

definition example_playback :: PlaybackOutbox where
  "example_playback = new_playback_outbox ''u'' 0 0 0 None None None 1 1 7 ''h'' Playback_AUDIO"

lemmas playback_example_defs = example_playback_def new_playback_outbox_def example_score_def
  example_revision_def playback_delivery_defaults_def playback_claim_def on_row_def
  playback_claim_row_def playback_build_payload_def build_revision_audio_payload_def db_get_def

theorem playback_claim_sound_witness:
  "let p = the (snd (playback_claim_row playback_delivery_defaults [example_score] [example_revision] 5 6
             example_playback))
   in pp_score_uuid p = ''s'' \<and> pp_attempt p \<le> 5"
proof -
  define p where "p = the (snd (playback_claim_row playback_delivery_defaults [example_score]
    [example_revision] 5 6 example_playback))"
  have "fst (playback_claim playback_delivery_defaults [example_score] [example_revision] 5 6 ''u''
       [example_playback]) = Inr (Some p)"
    by (simp add: p_def playback_example_defs)
  from playback_claim_sound [OF _ this] have "pp_score_uuid p = score_uuid example_score"
      and "pp_attempt p \<le> PLAYBACK_OUTBOX_MAX_ATTEMPTS playback_delivery_defaults"
    by (auto simp: unique_column_def)
  then show ?thesis
    by (simp add: p_def example_score_def playback_delivery_defaults_def del: One_nat_def)
qed



text \<open>A worker that dies loses nothing: once its lease has run out and attempts are left, one scan
  makes the row due, the dispatcher may mark it, and, as long as the score and the revision are still
  current, the next claim hands the work out again; the same holds for a message the broker lost.\<close>

theorem playback_crash_recovery:
  fixes r :: PlaybackOutbox and st :: playback_settings
  assumes "status r = Playback_PROCESSING \<and> started_at r = Some t0 \<and>
        t0 + timedelta_seconds (PLAYBACK_OUTBOX_PROCESSING_TIMEOUT_SECONDS st) \<le> t \<or>
      status r = Playback_DISPATCHED \<and> dispatched_at r = Some t0 \<and>
        t0 + timedelta_seconds (PLAYBACK_OUTBOX_DISPATCH_TIMEOUT_SECONDS st) \<le> t"
    and "attempt_count r < PLAYBACK_OUTBOX_MAX_ATTEMPTS st" and "t \<le> t'"
    and "playback_usable (scores, revisions) r"
  shows "let r1 = playback_scan_row st t r; (r2, marked) = playback_mark_dispatched_row st t' t'' r1 in
    playback_due st t' r1 \<and> marked \<and>
    snd (playback_claim_row st scores revisions t1 t2 r2) \<noteq> None"
proof -
  have lost: "playback_lost st t r"
    using assms(1) by (auto simp: playback_lost_def lease_processing_due lease_dispatched_due)
  have "playback_due st t' (playback_scan_row st t r)"
    using assms(2,3) lost by (simp add: playback_due_def)
  then show ?thesis
    using playback_rows.crash_recovery [OF lost assms(2,3,4), of t'' t1 t2]
    by (simp add: Let_def split_beta playback_claim_event_def)
qed

theorem playback_crash_recovery_witness:
  "let r1 = playback_scan_row playback_delivery_defaults 1200000000
       (example_playback\<lparr>status := Playback_PROCESSING, attempt_count := 1, started_at := Some 0\<rparr>)
   in playback_due playback_delivery_defaults 1200000000 r1"
proof -
  have "playback_usable ([example_score], [example_revision])
      (example_playback\<lparr>status := Playback_PROCESSING, attempt_count := 1, started_at := Some 0\<rparr>)"
    by (simp add: playback_usable_def playback_example_defs)
  from playback_crash_recovery [OF _ _ _ this, of 0 playback_delivery_defaults 1200000000 1200000000]
  show ?thesis
    by (simp add: Let_def split_beta playback_delivery_defaults_def timedelta_seconds_def
        example_playback_def new_playback_outbox_def)
qed

text \<open>A failure reported late, after the audio was completed by another worker, reopens the row:
  \<open>fail\<close> does not look at the status, so once its delay has passed the completed work is handed out
  again.\<close>

theorem playback_late_failure_reopens:
  fixes r :: PlaybackOutbox and st :: playback_settings
  assumes "attempt_count r < PLAYBACK_OUTBOX_MAX_ATTEMPTS st" and "playback_usable (scores, revisions) r"
    and "t + timedelta_seconds (exponential_retry_delay_seconds
           (PLAYBACK_OUTBOX_RETRY_BASE_SECONDS st) (attempt_count r)) \<le> t'"
  shows "status (playback_complete_row t0 r) = Playback_COMPLETED \<and>
    status (playback_fail_row st t x (playback_complete_row t0 r)) = Playback_FAILED \<and>
    snd (playback_claim_row st scores revisions t' t''
          (playback_fail_row st t x (playback_complete_row t0 r))) \<noteq> None"
  using playback_rows.late_failure_reopens [OF assms, of t0 t'' x]
  by (simp add: playback_claim_event_def)

theorem playback_late_failure_reopens_witness:
  "snd (playback_claim_row playback_delivery_defaults [example_score] [example_revision] 60000000 60000000
     (playback_fail_row playback_delivery_defaults 0 ''boom''
       (playback_complete_row 0 (example_playback\<lparr>attempt_count := 1\<rparr>)))) \<noteq> None"
proof -
  have "playback_usable ([example_score], [example_revision]) (example_playback\<lparr>attempt_count := 1\<rparr>)"
    by (simp add: playback_usable_def playback_example_defs)
  from playback_late_failure_reopens [OF _ this, of playback_delivery_defaults 0 60000000]
  show ?thesis
    by (simp add: playback_delivery_defaults_def timedelta_seconds_def exponential_retry_delay_seconds_def)
qed

end
