(* ===== verification/Import_Model.thy ===== *)
theory Import_Model
  imports Async_Diagnostics
begin

text \<open>
  The rows of import jobs and what belongs to them: \<open>backend/app/db/models/import_job.py\<close> (jobs, their
  uploads and artifacts) and \<open>backend/app/db/models/file.py\<close> (uploads and stored blobs). A JSON column
  holds a value of \<open>json\<close>; a number is kept as its literal.
\<close>

datatype json =
  JNull
| JBool bool
| JNumber string
| JString string
| JArray "json list"
| JObject "(string \<times> json) list"

datatype ImportJobState =
  Import_PENDING | Import_RUNNING | Import_PENDING_REVIEW | Import_CONFIRMED | Import_FAILURE

fun import_state_value :: "ImportJobState \<Rightarrow> string" where
  "import_state_value Import_PENDING = ''PENDING''"
| "import_state_value Import_RUNNING = ''RUNNING''"
| "import_state_value Import_PENDING_REVIEW = ''PENDING_REVIEW''"
| "import_state_value Import_CONFIRMED = ''CONFIRMED''"
| "import_state_value Import_FAILURE = ''FAILURE''"

datatype ImportDispatchStatus =
  Dispatch_PENDING | Dispatch_DISPATCHED | Dispatch_PROCESSING | Dispatch_COMPLETED
| Dispatch_FAILED

fun dispatch_status_value :: "ImportDispatchStatus \<Rightarrow> string" where
  "dispatch_status_value Dispatch_PENDING = ''PENDING''"
| "dispatch_status_value Dispatch_DISPATCHED = ''DISPATCHED''"
| "dispatch_status_value Dispatch_PROCESSING = ''PROCESSING''"
| "dispatch_status_value Dispatch_COMPLETED = ''COMPLETED''"
| "dispatch_status_value Dispatch_FAILED = ''FAILED''"

record ImportJob = diagnostic_row +
  ij_id :: int
  job_uuid :: string
  ij_user_id :: int
  state :: ImportJobState
  progress :: int
  current_step :: "string option"
  ij_idempotency_key :: "string option"
  ij_originating_request_id :: "string option"
  ij_traceparent :: "string option"
  ij_tracestate :: "string option"
  requested_options :: "json option"
  execution_manifest_id :: "int option"
  dispatch_status :: ImportDispatchStatus
  dispatch_attempt_count :: int
  publish_attempt_count :: int
  next_dispatch_at :: timestamp
  ij_dispatched_at :: "timestamp option"
  dispatch_started_at :: "timestamp option"
  dispatch_completed_at :: "timestamp option"
  dispatch_error :: "string option"
  ij_code :: "string option"
  ij_error :: "string option"
  error_type :: "string option"
  requested_at :: "timestamp option"
  ij_started_at :: "timestamp option"
  last_heartbeat_at :: "timestamp option"
  finished_at :: "timestamp option"
  ij_score_id :: "int option"
  ij_created_at :: timestamp
  ij_updated_at :: timestamp

record ImportJobUpload =
  iu_id :: int
  iu_job_id :: int
  iu_upload_id :: int
  iu_page_number :: int
  sort_order :: int

record ImportArtifact =
  ia_id :: int
  artifact_uuid :: string
  ia_job_id :: int
  ia_kind :: string
  ia_storage_backend :: string
  ia_storage_key :: string
  ia_filename :: string
  ia_mime_type :: "string option"
  ia_size_bytes :: "int option"
  ia_sha256 :: "string option"
  ia_page_number :: "int option"
  ia_created_at :: timestamp

datatype ImportArtifactKind = REVIEW_MUSICXML | REVIEW_PREVIEW_IMAGE

fun artifact_kind_value :: "ImportArtifactKind \<Rightarrow> string" where
  "artifact_kind_value REVIEW_MUSICXML = ''review_musicxml''"
| "artifact_kind_value REVIEW_PREVIEW_IMAGE = ''review_preview_image''"

record StorageBlob =
  sb_id :: int
  blob_uuid :: string
  sb_sha256 :: string
  sb_storage_backend :: string
  sb_storage_key :: string
  sb_filename :: string
  sb_size_bytes :: int
  sb_mime_type :: string
  sb_created_at :: timestamp

record Upload =
  up_id :: int
  upload_uuid :: string
  blob_id :: int
  original_filename :: "string option"
  uploader_user_id :: "int option"
  up_created_at :: timestamp
  up_updated_at :: timestamp

section \<open>Frame facts\<close>

lemma clear_diagnostic_import [simp]:
  fixes r :: ImportJob
  shows
  "ij_id (clear_async_diagnostic r) = ij_id r"
  "job_uuid (clear_async_diagnostic r) = job_uuid r"
  "state (clear_async_diagnostic r) = state r"
  "dispatch_status (clear_async_diagnostic r) = dispatch_status r"
  "dispatch_attempt_count (clear_async_diagnostic r) = dispatch_attempt_count r"
  "publish_attempt_count (clear_async_diagnostic r) = publish_attempt_count r"
  "next_dispatch_at (clear_async_diagnostic r) = next_dispatch_at r"
  "ij_dispatched_at (clear_async_diagnostic r) = ij_dispatched_at r"
  "dispatch_started_at (clear_async_diagnostic r) = dispatch_started_at r"
  "dispatch_error (clear_async_diagnostic r) = dispatch_error r"
  "ij_code (clear_async_diagnostic r) = ij_code r"
  "ij_error (clear_async_diagnostic r) = ij_error r"
  "ij_created_at (clear_async_diagnostic r) = ij_created_at r"
  "last_heartbeat_at (clear_async_diagnostic r) = last_heartbeat_at r"
  "ij_started_at (clear_async_diagnostic r) = ij_started_at r"
  "progress (clear_async_diagnostic r) = progress r"
  "current_step (clear_async_diagnostic r) = current_step r"
  "finished_at (clear_async_diagnostic r) = finished_at r"
  by (simp_all add: clear_async_diagnostic_def)

lemma apply_diagnostic_import [simp]:
  fixes r :: ImportJob
  shows
  "ij_id (apply_async_diagnostic k s raw e n m r) = ij_id r"
  "job_uuid (apply_async_diagnostic k s raw e n m r) = job_uuid r"
  "state (apply_async_diagnostic k s raw e n m r) = state r"
  "dispatch_status (apply_async_diagnostic k s raw e n m r) = dispatch_status r"
  "dispatch_attempt_count (apply_async_diagnostic k s raw e n m r) = dispatch_attempt_count r"
  "publish_attempt_count (apply_async_diagnostic k s raw e n m r) = publish_attempt_count r"
  "next_dispatch_at (apply_async_diagnostic k s raw e n m r) = next_dispatch_at r"
  "ij_dispatched_at (apply_async_diagnostic k s raw e n m r) = ij_dispatched_at r"
  "dispatch_started_at (apply_async_diagnostic k s raw e n m r) = dispatch_started_at r"
  "dispatch_error (apply_async_diagnostic k s raw e n m r) = dispatch_error r"
  "ij_code (apply_async_diagnostic k s raw e n m r) = ij_code r"
  "ij_error (apply_async_diagnostic k s raw e n m r) = ij_error r"
  "ij_created_at (apply_async_diagnostic k s raw e n m r) = ij_created_at r"
  "last_heartbeat_at (apply_async_diagnostic k s raw e n m r) = last_heartbeat_at r"
  "ij_started_at (apply_async_diagnostic k s raw e n m r) = ij_started_at r"
  "progress (apply_async_diagnostic k s raw e n m r) = progress r"
  "current_step (apply_async_diagnostic k s raw e n m r) = current_step r"
  "finished_at (apply_async_diagnostic k s raw e n m r) = finished_at r"
  by (simp_all add: apply_async_diagnostic_def split: option.split)

text \<open>A submitted job and its uploads, for evaluating the operations on concrete rows.\<close>

definition example_job :: ImportJob where
  "example_job = \<lparr>
     internal_error_code = None, internal_error_stage = None,
     internal_error_class = None, internal_error_retryable = None,
     ij_id = 1, job_uuid = ''j'', ij_user_id = 7, state = Import_PENDING, progress = 0,
     current_step = None, ij_idempotency_key = None, ij_originating_request_id = None,
     ij_traceparent = None, ij_tracestate = None, requested_options = None,
     execution_manifest_id = None, dispatch_status = Dispatch_PENDING, dispatch_attempt_count = 0,
     publish_attempt_count = 0, next_dispatch_at = 0, ij_dispatched_at = None,
     dispatch_started_at = None, dispatch_completed_at = None, dispatch_error = None,
     ij_code = None, ij_error = None, error_type = None, requested_at = Some 0,
     ij_started_at = None, last_heartbeat_at = None, finished_at = None, ij_score_id = None,
     ij_created_at = 0, ij_updated_at = 0\<rparr>"

definition example_artifact :: ImportArtifact where
  "example_artifact = \<lparr>
     ia_id = 1, artifact_uuid = ''a'', ia_job_id = 1, ia_kind = ''review_musicxml'',
     ia_storage_backend = ''local'', ia_storage_key = ''k'', ia_filename = ''f'',
     ia_mime_type = None, ia_size_bytes = None, ia_sha256 = Some ''h'', ia_page_number = None,
     ia_created_at = 0\<rparr>"

definition example_upload :: Upload where
  "example_upload = \<lparr>
     up_id = 1, upload_uuid = ''up'', blob_id = 1, original_filename = None,
     uploader_user_id = Some 7, up_created_at = 0, up_updated_at = 0\<rparr>"

definition example_blob :: StorageBlob where
  "example_blob = \<lparr>
     sb_id = 1, blob_uuid = ''b'', sb_sha256 = ''h'', sb_storage_backend = ''local'',
     sb_storage_key = ''blobs/h'', sb_filename = ''f'', sb_size_bytes = 10,
     sb_mime_type = ''image/png'', sb_created_at = 0\<rparr>"

definition example_job_upload :: ImportJobUpload where
  "example_job_upload = \<lparr>
     iu_id = 1, iu_job_id = 1, iu_upload_id = 1, iu_page_number = 1, sort_order = 0\<rparr>"

end
