(* ===== verification/Render_Outbox.thy ===== *)
theory Render_Outbox
  imports Retry_Outbox Score_Model Import_Model
begin

text \<open>
  Rendering of pages and review thumbnails: \<open>backend/app/db/models/render_outbox.py\<close> (the row),
  \<open>backend/app/modules/score_assets/render_outbox_service.py\<close> (the service),
  \<open>backend/app/modules/score_assets/render_payloads.py\<close> (what a claim reads) and
  \<open>backend/app/core/settings/render_asset_delivery.py\<close>. A claim may raise: the review source of a job
  is looked up with \<open>scalar_one_or_none\<close> and nothing in the schema makes it unique.
\<close>

section \<open>The row\<close>

datatype RenderOutboxStatus =
  Render_PENDING | Render_DISPATCHED | Render_PROCESSING | Render_COMPLETED | Render_FAILED

fun render_status_value :: "RenderOutboxStatus \<Rightarrow> string" where
  "render_status_value Render_PENDING = ''PENDING''"
| "render_status_value Render_DISPATCHED = ''DISPATCHED''"
| "render_status_value Render_PROCESSING = ''PROCESSING''"
| "render_status_value Render_COMPLETED = ''COMPLETED''"
| "render_status_value Render_FAILED = ''FAILED''"

datatype RenderTargetType = SCORE_REVISION | REVIEW_THUMBNAIL

record RenderOutbox = "RenderOutboxStatus outbox_row" +
  ro_target_type :: RenderTargetType
  ro_score_id :: "int option"
  ro_revision_id :: "int option"
  ro_import_job_id :: "int option"
  ro_source_fingerprint :: string
  ro_requested_by_user_id :: "int option"
  render_profile :: string

text \<open>\<open>ck_render_outbox_target\<close>\<close>

definition render_target_check :: "RenderOutbox \<Rightarrow> bool" where
  "render_target_check r \<longleftrightarrow>
     (ro_target_type r = SCORE_REVISION \<and> ro_score_id r \<noteq> None \<and> ro_revision_id r \<noteq> None \<and>
        ro_import_job_id r = None) \<or>
     (ro_target_type r = REVIEW_THUMBNAIL \<and> ro_score_id r = None \<and> ro_revision_id r = None \<and>
        ro_import_job_id r \<noteq> None)"

record render_settings =
  RENDER_OUTBOX_DISPATCH_TIMEOUT_SECONDS :: int
  RENDER_OUTBOX_PROCESSING_TIMEOUT_SECONDS :: int
  RENDER_OUTBOX_RETRY_BASE_SECONDS :: int
  RENDER_OUTBOX_MAX_ATTEMPTS :: int
  RENDER_OUTBOX_DISPATCH_BATCH_SIZE :: int

definition render_asset_delivery_defaults :: render_settings where
  "render_asset_delivery_defaults = \<lparr>
     RENDER_OUTBOX_DISPATCH_TIMEOUT_SECONDS = 300,
     RENDER_OUTBOX_PROCESSING_TIMEOUT_SECONDS = 1200,
     RENDER_OUTBOX_RETRY_BASE_SECONDS = 60,
     RENDER_OUTBOX_MAX_ATTEMPTS = 5,
     RENDER_OUTBOX_DISPATCH_BATCH_SIZE = 50\<rparr>"

section \<open>Payloads\<close>

record RenderOutboxPayload =
  rp_outbox_uuid :: string
  rp_target_type :: RenderTargetType
  rp_render_profile :: string
  rp_source_fingerprint :: string
  rp_attempt :: int
  rp_max_attempts :: int
  rp_originating_request_id :: "string option"
  rp_traceparent :: "string option"
  rp_tracestate :: "string option"
  rp_score_uuid :: "string option"
  rp_revision_uuid :: "string option"
  rp_user_id :: "int option"
  rp_job_uuid :: "string option"

record RenderPayloadBuildResult =
  rb_payload :: "RenderOutboxPayload option"
  terminal_completed :: bool

text \<open>The tables a claim reads beside the outbox.\<close>

record render_db =
  rdb_scores :: "Score list"
  rdb_revisions :: "ScoreRevision list"
  rdb_jobs :: "ImportJob list"
  rdb_artifacts :: "ImportArtifact list"

definition build_revision_payload ::
  "render_settings \<Rightarrow> render_db \<Rightarrow> RenderOutbox \<Rightarrow> RenderOutboxPayload option" where
  "build_revision_payload st db r =
     (case db_get sc_id (rdb_scores db) (ro_score_id r) of
        None \<Rightarrow> None
      | Some score \<Rightarrow>
          if deletion_status score \<noteq> Score_ACTIVE then None
          else (case db_get rv_id (rdb_revisions db) (ro_revision_id r) of
                  None \<Rightarrow> None
                | Some revision \<Rightarrow>
                    if ro_requested_by_user_id r = None then None
                    else Some \<lparr>
                      rp_outbox_uuid = outbox_uuid r, rp_target_type = ro_target_type r,
                      rp_render_profile = render_profile r,
                      rp_source_fingerprint = ro_source_fingerprint r,
                      rp_attempt = 0, rp_max_attempts = RENDER_OUTBOX_MAX_ATTEMPTS st,
                      rp_originating_request_id = originating_request_id r,
                      rp_traceparent = traceparent r, rp_tracestate = tracestate r,
                      rp_score_uuid = Some (score_uuid score),
                      rp_revision_uuid = Some (revision_uuid revision),
                      rp_user_id = ro_requested_by_user_id r, rp_job_uuid = None\<rparr>))"

definition build_review_thumbnail_payload ::
  "render_settings \<Rightarrow> render_db \<Rightarrow> RenderOutbox \<Rightarrow> orm_error + RenderPayloadBuildResult" where
  "build_review_thumbnail_payload st db r =
     (let job = db_get ij_id (rdb_jobs db) (ro_import_job_id r) in
      case scalar_one_or_none
             (filter (\<lambda>a. Some (ia_job_id a) = ro_import_job_id r \<and>
                          ia_kind a = artifact_kind_value REVIEW_MUSICXML) (rdb_artifacts db)) of
        Inl e \<Rightarrow> Inl e
      | Inr review_source \<Rightarrow>
          (case (job, review_source) of
             (Some j, Some src) \<Rightarrow>
               if state j \<noteq> Import_PENDING_REVIEW
               then Inr \<lparr>rb_payload = None, terminal_completed = True\<rparr>
               else if ia_sha256 src \<noteq> Some (ro_source_fingerprint r)
               then Inr \<lparr>rb_payload = None, terminal_completed = True\<rparr>
               else Inr \<lparr>
                 rb_payload = Some \<lparr>
                      rp_outbox_uuid = outbox_uuid r, rp_target_type = ro_target_type r,
                      rp_render_profile = render_profile r,
                      rp_source_fingerprint = ro_source_fingerprint r,
                      rp_attempt = 0, rp_max_attempts = RENDER_OUTBOX_MAX_ATTEMPTS st,
                      rp_originating_request_id = originating_request_id r,
                      rp_traceparent = traceparent r, rp_tracestate = tracestate r,
                      rp_score_uuid = None, rp_revision_uuid = None, rp_user_id = None,
                      rp_job_uuid = Some (job_uuid j)\<rparr>,
                 terminal_completed = False\<rparr>
           | _ \<Rightarrow> Inr \<lparr>rb_payload = None, terminal_completed = False\<rparr>))"

definition render_payload_build ::
  "render_settings \<Rightarrow> render_db \<Rightarrow> RenderOutbox \<Rightarrow> orm_error + RenderPayloadBuildResult" where
  "render_payload_build st db r =
     (case ro_target_type r of
        SCORE_REVISION \<Rightarrow>
          Inr \<lparr>rb_payload = build_revision_payload st db r, terminal_completed = False\<rparr>
      | REVIEW_THUMBNAIL \<Rightarrow> build_review_thumbnail_payload st db r)"

section \<open>Creation\<close>

definition new_render_outbox ::
  "string \<Rightarrow> timestamp \<Rightarrow> timestamp \<Rightarrow> timestamp \<Rightarrow> string option \<Rightarrow> string option \<Rightarrow> string option \<Rightarrow>
   RenderTargetType \<Rightarrow> int option \<Rightarrow> int option \<Rightarrow> int option \<Rightarrow> int option \<Rightarrow> string \<Rightarrow> string \<Rightarrow>
   RenderOutbox"
where
  "new_render_outbox new_uuid t_next t_created t_updated request_id trace_parent trace_state
      target score_id revision_id job_id requested_by fingerprint profile = \<lparr>
     internal_error_code = None, internal_error_stage = None,
     internal_error_class = None, internal_error_retryable = None,
     row_id = None, outbox_uuid = new_uuid,
     originating_request_id = request_id, traceparent = trace_parent, tracestate = trace_state,
     status = Render_PENDING, attempt_count = 0, next_attempt_at = t_next,
     dispatched_at = None, started_at = None, completed_at = None, last_error = None,
     created_at = t_created, updated_at = t_updated,
     ro_target_type = target, ro_score_id = score_id, ro_revision_id = revision_id,
     ro_import_job_id = job_id, ro_source_fingerprint = fingerprint,
     ro_requested_by_user_id = requested_by, render_profile = profile\<rparr>"

definition create_revision_render_outbox ::
  "string \<Rightarrow> timestamp \<Rightarrow> timestamp \<Rightarrow> timestamp \<Rightarrow> string option \<Rightarrow> string option \<Rightarrow> string option \<Rightarrow>
   int \<Rightarrow> int \<Rightarrow> int \<Rightarrow> string \<Rightarrow> string \<Rightarrow> RenderOutbox list \<Rightarrow>
   (orm_error + RenderOutbox) \<times> RenderOutbox list"
where
  "create_revision_render_outbox new_uuid t_next t_created t_updated request_id trace_parent
      trace_state score_id revision_id requested_by fingerprint profile db =
     (case scalar_one_or_none
             (filter (\<lambda>r. ro_revision_id r = Some revision_id \<and> render_profile r = profile) db) of
        Inl e \<Rightarrow> (Inl e, db)
      | Inr (Some existing) \<Rightarrow> (Inr existing, db)
      | Inr None \<Rightarrow>
          (let outbox = new_render_outbox new_uuid t_next t_created t_updated request_id trace_parent
                          trace_state SCORE_REVISION (Some score_id) (Some revision_id) None
                          (Some requested_by) fingerprint profile
           in (Inr outbox, db @ [outbox])))"

definition new_review_thumbnail_outbox ::
  "string \<Rightarrow> timestamp \<Rightarrow> timestamp \<Rightarrow> timestamp \<Rightarrow> string option \<Rightarrow> string option \<Rightarrow> string option \<Rightarrow>
   int \<Rightarrow> string \<Rightarrow> string \<Rightarrow> RenderOutbox"
where
  "new_review_thumbnail_outbox new_uuid t_next t_created t_updated request_id trace_parent trace_state
      job_id fingerprint profile =
     new_render_outbox new_uuid t_next t_created t_updated request_id trace_parent trace_state
       REVIEW_THUMBNAIL None None (Some job_id) None fingerprint profile"

definition create_review_thumbnail_render_outbox ::
  "string \<Rightarrow> timestamp \<Rightarrow> timestamp \<Rightarrow> timestamp \<Rightarrow> string option \<Rightarrow> string option \<Rightarrow> string option \<Rightarrow>
   int \<Rightarrow> string \<Rightarrow> string \<Rightarrow> RenderOutbox list \<Rightarrow> (orm_error + RenderOutbox) \<times> RenderOutbox list"
where
  "create_review_thumbnail_render_outbox new_uuid t_next t_created t_updated request_id trace_parent
      trace_state job_id fingerprint profile db =
     (case scalar_one_or_none
             (filter (\<lambda>r. ro_import_job_id r = Some job_id \<and> render_profile r = profile \<and>
                          ro_source_fingerprint r = fingerprint) db) of
        Inl e \<Rightarrow> (Inl e, db)
      | Inr (Some existing) \<Rightarrow> (Inr existing, db)
      | Inr None \<Rightarrow>
          (let outbox = new_review_thumbnail_outbox new_uuid t_next t_created t_updated request_id
                          trace_parent trace_state job_id fingerprint profile
           in (Inr outbox, db @ [outbox])))"

section \<open>The service, row by row\<close>

definition render_diagnostic ::
  "render_settings \<Rightarrow> AsyncOperationStatusValue \<Rightarrow> RenderOutbox \<Rightarrow> RenderOutbox" where
  "render_diagnostic st op r =
     apply_async_diagnostic Kind_RENDER op (render_status_value (status r)) (last_error r)
       (attempt_count r) (Some (RENDER_OUTBOX_MAX_ATTEMPTS st)) r"

definition render_complete_row :: "timestamp \<Rightarrow> RenderOutbox \<Rightarrow> RenderOutbox" where
  "render_complete_row now r =
     (clear_async_diagnostic
        (r\<lparr>status := Render_COMPLETED, completed_at := Some now, last_error := None\<rparr>))
       \<lparr>updated_at := now\<rparr>"

definition render_exhaust_unavailable ::
  "render_settings \<Rightarrow> timestamp \<Rightarrow> RenderOutbox \<Rightarrow> RenderOutbox" where
  "render_exhaust_unavailable st t r =
     (render_diagnostic st Op_EXHAUSTED
        (r\<lparr>status := Render_FAILED, attempt_count := RENDER_OUTBOX_MAX_ATTEMPTS st,
           last_error := Some ''Render outbox references unavailable resources''\<rparr>))
       \<lparr>updated_at := t\<rparr>"

definition render_build_payload ::
  "render_settings \<Rightarrow> render_db \<Rightarrow> timestamp \<Rightarrow> RenderOutbox \<Rightarrow>
   orm_error + RenderOutbox \<times> RenderOutboxPayload option" where
  "render_build_payload st db t r =
     (case render_payload_build st db r of
        Inl e \<Rightarrow> Inl e
      | Inr result \<Rightarrow>
          (case rb_payload result of
             Some payload \<Rightarrow> Inr (r, Some payload)
           | None \<Rightarrow>
               if terminal_completed result then Inr (render_complete_row t r, None)
               else if status r = Render_COMPLETED then Inr (r, None)
               else Inr (render_exhaust_unavailable st t r, None)))"

definition render_claim_row ::
  "render_settings \<Rightarrow> render_db \<Rightarrow> timestamp \<Rightarrow> timestamp \<Rightarrow> RenderOutbox \<Rightarrow>
   orm_error + RenderOutbox \<times> RenderOutboxPayload option" where
  "render_claim_row st db t_check now r =
     (if status r \<in> {Render_PROCESSING, Render_COMPLETED} then Inr (r, None)
      else if status r = Render_FAILED \<and> next_attempt_at r > t_check then Inr (r, None)
      else if attempt_count r \<ge> RENDER_OUTBOX_MAX_ATTEMPTS st then Inr (r, None)
      else
        let attempt = attempt_count r + 1 in
        (case render_build_payload st db now r of
           Inl e \<Rightarrow> Inl e
         | Inr (r', None) \<Rightarrow> Inr (r', None)
         | Inr (r', Some payload) \<Rightarrow>
             Inr (r'\<lparr>status := Render_PROCESSING, attempt_count := attempt_count r' + 1,
                     started_at := Some now, updated_at := now\<rparr>,
                  Some (payload\<lparr>rp_attempt := attempt,
                                rp_max_attempts := RENDER_OUTBOX_MAX_ATTEMPTS st\<rparr>))))"

definition render_fail_row ::
  "render_settings \<Rightarrow> timestamp \<Rightarrow> string \<Rightarrow> RenderOutbox \<Rightarrow> RenderOutbox" where
  "render_fail_row st now err r =
     (let delay = exponential_retry_delay_seconds (RENDER_OUTBOX_RETRY_BASE_SECONDS st)
                    (attempt_count r);
          r1 = r\<lparr>status := Render_FAILED, next_attempt_at := now + timedelta_seconds delay,
                 last_error := Some (take 4000 err)\<rparr>
      in (render_diagnostic st
            (if attempt_count r \<ge> RENDER_OUTBOX_MAX_ATTEMPTS st then Op_EXHAUSTED
             else Op_RETRYING) r1)\<lparr>updated_at := now\<rparr>)"

definition render_is_dispatchable :: "render_settings \<Rightarrow> timestamp \<Rightarrow> RenderOutbox \<Rightarrow> bool" where
  "render_is_dispatchable st now r \<longleftrightarrow>
     status r \<in> {Render_PENDING, Render_FAILED} \<and>
     attempt_count r < RENDER_OUTBOX_MAX_ATTEMPTS st \<and> next_attempt_at r \<le> now"

definition render_mark_dispatched_row ::
  "render_settings \<Rightarrow> timestamp \<Rightarrow> timestamp \<Rightarrow> RenderOutbox \<Rightarrow> RenderOutbox \<times> bool" where
  "render_mark_dispatched_row st t_check now r =
     (if \<not> render_is_dispatchable st t_check r then (r, False)
      else ((clear_async_diagnostic (r\<lparr>status := Render_DISPATCHED, dispatched_at := Some now\<rparr>))
              \<lparr>updated_at := now\<rparr>, True))"

definition render_release_dispatch_row ::
  "render_settings \<Rightarrow> timestamp \<Rightarrow> string \<Rightarrow> RenderOutbox \<Rightarrow> RenderOutbox" where
  "render_release_dispatch_row st now err r =
     (if status r \<noteq> Render_DISPATCHED then r
      else (render_diagnostic st Op_QUEUED
              (r\<lparr>status := Render_PENDING, dispatched_at := None,
                 last_error := Some (take 4000 err)\<rparr>))\<lparr>updated_at := now\<rparr>)"

definition render_scan_row :: "render_settings \<Rightarrow> timestamp \<Rightarrow> RenderOutbox \<Rightarrow> RenderOutbox" where
  "render_scan_row st now r =
     (if (status r = Render_DISPATCHED \<or> status r = Render_PROCESSING) \<and>
         delivery_lease_expired (status r) Render_DISPATCHED Render_PROCESSING
           (dispatched_at r) (started_at r) now
           (RENDER_OUTBOX_DISPATCH_TIMEOUT_SECONDS st) (RENDER_OUTBOX_PROCESSING_TIMEOUT_SECONDS st)
      then (render_diagnostic st Op_FAILED
              (r\<lparr>status := Render_FAILED, next_attempt_at := now,
                 last_error := Some ''Render delivery lease expired''\<rparr>))\<lparr>updated_at := now\<rparr>
      else r)"

definition render_due :: "render_settings \<Rightarrow> timestamp \<Rightarrow> RenderOutbox \<Rightarrow> bool" where
  "render_due st now r \<longleftrightarrow>
     status r \<in> {Render_PENDING, Render_FAILED} \<and> next_attempt_at r \<le> now \<and>
     attempt_count r < RENDER_OUTBOX_MAX_ATTEMPTS st"

section \<open>The service on the table\<close>

definition render_claim ::
  "render_settings \<Rightarrow> render_db \<Rightarrow> timestamp \<Rightarrow> timestamp \<Rightarrow> string \<Rightarrow> RenderOutbox list \<Rightarrow>
   (orm_error + RenderOutboxPayload option) \<times> RenderOutbox list" where
  "render_claim st ctx t_check now uuid db =
     on_row_try (\<lambda>r. outbox_uuid r = uuid) None (render_claim_row st ctx t_check now) db"

definition render_complete ::
  "timestamp \<Rightarrow> string \<Rightarrow> RenderOutbox list \<Rightarrow> (orm_error + unit) \<times> RenderOutbox list" where
  "render_complete now uuid db =
     on_row (\<lambda>r. outbox_uuid r = uuid) () (\<lambda>r. (render_complete_row now r, ())) db"

definition render_fail ::
  "render_settings \<Rightarrow> timestamp \<Rightarrow> string \<Rightarrow> string \<Rightarrow> RenderOutbox list \<Rightarrow>
   (orm_error + unit) \<times> RenderOutbox list" where
  "render_fail st now uuid err db =
     on_row (\<lambda>r. outbox_uuid r = uuid) () (\<lambda>r. (render_fail_row st now err r, ())) db"

definition render_target_type ::
  "string \<Rightarrow> RenderOutbox list \<Rightarrow> orm_error + RenderTargetType option" where
  "render_target_type uuid db =
     scalar_one_or_none (map ro_target_type (filter (\<lambda>r. outbox_uuid r = uuid) db))"

definition render_mark_dispatched ::
  "render_settings \<Rightarrow> timestamp \<Rightarrow> timestamp \<Rightarrow> string \<Rightarrow> RenderOutbox list \<Rightarrow>
   (orm_error + bool) \<times> RenderOutbox list" where
  "render_mark_dispatched st t_check now uuid db =
     on_row (\<lambda>r. outbox_uuid r = uuid) False (render_mark_dispatched_row st t_check now) db"

definition render_release_dispatch ::
  "render_settings \<Rightarrow> timestamp \<Rightarrow> string \<Rightarrow> string \<Rightarrow> RenderOutbox list \<Rightarrow>
   (orm_error + unit) \<times> RenderOutbox list" where
  "render_release_dispatch st now uuid err db =
     on_row (\<lambda>r. outbox_uuid r = uuid) () (\<lambda>r. (render_release_dispatch_row st now err r, ())) db"

definition render_recover_and_list_due ::
  "render_settings \<Rightarrow> timestamp \<Rightarrow> RenderOutbox list \<Rightarrow> string list \<times> RenderOutbox list" where
  "render_recover_and_list_due st now db =
     (map outbox_uuid
        (select_ordered (render_due st now) created_at
           (nat (RENDER_OUTBOX_DISPATCH_BATCH_SIZE st)) db),
      map (render_scan_row st now) db)"

section \<open>Row facts\<close>

lemma clear_diagnostic_render [simp]:
  fixes r :: RenderOutbox
  shows
  "ro_target_type (clear_async_diagnostic r) = ro_target_type r"
  "ro_score_id (clear_async_diagnostic r) = ro_score_id r"
  "ro_revision_id (clear_async_diagnostic r) = ro_revision_id r"
  "ro_import_job_id (clear_async_diagnostic r) = ro_import_job_id r"
  "ro_source_fingerprint (clear_async_diagnostic r) = ro_source_fingerprint r"
  "ro_requested_by_user_id (clear_async_diagnostic r) = ro_requested_by_user_id r"
  "render_profile (clear_async_diagnostic r) = render_profile r"
  by (simp_all add: clear_async_diagnostic_def)

lemma render_diagnostic_simps [simp]:
  "outbox_uuid (render_diagnostic st op r) = outbox_uuid r"
  "status (render_diagnostic st op r) = status r"
  "attempt_count (render_diagnostic st op r) = attempt_count r"
  "next_attempt_at (render_diagnostic st op r) = next_attempt_at r"
  "dispatched_at (render_diagnostic st op r) = dispatched_at r"
  "started_at (render_diagnostic st op r) = started_at r"
  "completed_at (render_diagnostic st op r) = completed_at r"
  "last_error (render_diagnostic st op r) = last_error r"
  "created_at (render_diagnostic st op r) = created_at r"
  "ro_target_type (render_diagnostic st op r) = ro_target_type r"
  "ro_score_id (render_diagnostic st op r) = ro_score_id r"
  "ro_revision_id (render_diagnostic st op r) = ro_revision_id r"
  "ro_import_job_id (render_diagnostic st op r) = ro_import_job_id r"
  "ro_source_fingerprint (render_diagnostic st op r) = ro_source_fingerprint r"
  "ro_requested_by_user_id (render_diagnostic st op r) = ro_requested_by_user_id r"
  "render_profile (render_diagnostic st op r) = render_profile r"
  by (simp_all add: render_diagnostic_def apply_async_diagnostic_def clear_async_diagnostic_def
      split: option.split)

text \<open>The columns that say what is to be rendered: no method but the constructors writes them.\<close>

definition render_target ::
  "RenderOutbox \<Rightarrow> string \<times> RenderTargetType \<times> int option \<times> int option \<times> int option \<times> string \<times>
     int option \<times> string" where
  "render_target r =
     (outbox_uuid r, ro_target_type r, ro_score_id r, ro_revision_id r, ro_import_job_id r,
      ro_source_fingerprint r, ro_requested_by_user_id r, render_profile r)"

fun render_phase :: "RenderOutboxStatus \<Rightarrow> phase" where
  "render_phase Render_PENDING = Waiting"
| "render_phase Render_DISPATCHED = Handed"
| "render_phase Render_PROCESSING = Running"
| "render_phase Render_COMPLETED = Done"
| "render_phase Render_FAILED = Failed"

lemma render_phase_iff [simp]:
  "render_phase s = Waiting \<longleftrightarrow> s = Render_PENDING"
  "render_phase s = Handed \<longleftrightarrow> s = Render_DISPATCHED"
  "render_phase s = Running \<longleftrightarrow> s = Render_PROCESSING"
  "render_phase s = Done \<longleftrightarrow> s = Render_COMPLETED"
  "render_phase s = Failed \<longleftrightarrow> s = Render_FAILED"
  by (cases s; simp)+

text \<open>
  What a claim needs of the rows the render row refers to: for a revision, an active score, the
  revision and the user who asked; for a review thumbnail, a job that is still waiting for its review
  and one review source, whose content is the one the thumbnail was asked for.
\<close>

fun render_usable_target :: "RenderTargetType \<Rightarrow> render_db \<Rightarrow> RenderOutbox \<Rightarrow> bool" where
  "render_usable_target SCORE_REVISION db r \<longleftrightarrow>
     (case db_get sc_id (rdb_scores db) (ro_score_id r) of
        None \<Rightarrow> False | Some score \<Rightarrow> deletion_status score = Score_ACTIVE) \<and>
     db_get rv_id (rdb_revisions db) (ro_revision_id r) \<noteq> None \<and>
     ro_requested_by_user_id r \<noteq> None"
| "render_usable_target REVIEW_THUMBNAIL db r \<longleftrightarrow>
     (case db_get ij_id (rdb_jobs db) (ro_import_job_id r) of
        None \<Rightarrow> False | Some j \<Rightarrow> state j = Import_PENDING_REVIEW) \<and>
     (case filter (\<lambda>a. Some (ia_job_id a) = ro_import_job_id r \<and>
                       ia_kind a = artifact_kind_value REVIEW_MUSICXML) (rdb_artifacts db) of
        [src] \<Rightarrow> ia_sha256 src = Some (ro_source_fingerprint r) | _ \<Rightarrow> False)"

definition render_usable :: "render_db \<Rightarrow> RenderOutbox \<Rightarrow> bool" where
  "render_usable db r = render_usable_target (ro_target_type r) db r"

lemma scalar_None_iff: "scalar_one_or_none xs = Inr None \<longleftrightarrow> xs = []"
  by (cases xs rule: scalar_one_or_none.cases) auto

lemma scalar_Some_iff: "scalar_one_or_none xs = Inr (Some x) \<longleftrightarrow> xs = [x]"
  by (cases xs rule: scalar_one_or_none.cases) auto

lemma render_usable_build:
  "render_usable db r \<longleftrightarrow>
   (\<exists>p. render_payload_build st db r = Inr \<lparr>rb_payload = Some p, terminal_completed = False\<rparr>)"
proof (cases "ro_target_type r")
  case SCORE_REVISION
  then show ?thesis
    by (auto simp: render_usable_def render_payload_build_def build_revision_payload_def
        split: option.split)
next
  case REVIEW_THUMBNAIL
  define srcs where "srcs = filter (\<lambda>a. Some (ia_job_id a) = ro_import_job_id r \<and>
      ia_kind a = artifact_kind_value REVIEW_MUSICXML) (rdb_artifacts db)"
  from REVIEW_THUMBNAIL show ?thesis
    by (cases srcs rule: scalar_one_or_none.cases)
       (auto simp: render_usable_def render_payload_build_def build_review_thumbnail_payload_def
        srcs_def [symmetric] Let_def simp del: artifact_kind_value.simps split: option.split)
qed

lemma render_build_payload_shape:
  "render_payload_build st db r = Inr result \<Longrightarrow> rb_payload result = Some p \<Longrightarrow>
   render_payload_build st db r = Inr \<lparr>rb_payload = Some p, terminal_completed = False\<rparr>"
  by (cases "ro_target_type r")
     (auto simp: render_payload_build_def build_review_thumbnail_payload_def Let_def
      split: sum.splits option.splits if_splits)

lemma render_usable_by_target:
  "render_target r' = render_target r \<Longrightarrow> render_usable c r' = render_usable c r"
  by (cases "ro_target_type r") (auto simp: render_usable_def render_target_def cong: list.case_cong)

lemma render_complete_row_simps [simp]:
  "status (render_complete_row t r) = Render_COMPLETED"
  "attempt_count (render_complete_row t r) = attempt_count r"
  "render_target (render_complete_row t r) = render_target r"
  by (simp_all add: render_complete_row_def render_target_def)

lemma render_fail_row_simps [simp]:
  "status (render_fail_row st t x r) = Render_FAILED"
  "attempt_count (render_fail_row st t x r) = attempt_count r"
  "next_attempt_at (render_fail_row st t x r) =
     t + timedelta_seconds (exponential_retry_delay_seconds
       (RENDER_OUTBOX_RETRY_BASE_SECONDS st) (attempt_count r))"
  "render_target (render_fail_row st t x r) = render_target r"
  by (simp_all add: render_fail_row_def render_target_def Let_def)

lemma render_mark_row_simps [simp]:
  "snd (render_mark_dispatched_row st t t' r) = render_is_dispatchable st t r"
  "attempt_count (fst (render_mark_dispatched_row st t t' r)) = attempt_count r"
  "render_is_dispatchable st t r \<Longrightarrow>
     status (fst (render_mark_dispatched_row st t t' r)) = Render_DISPATCHED"
  "\<not> render_is_dispatchable st t r \<Longrightarrow> fst (render_mark_dispatched_row st t t' r) = r"
  "render_target (fst (render_mark_dispatched_row st t t' r)) = render_target r"
  by (simp_all add: render_mark_dispatched_row_def render_target_def)

lemma render_release_row_simps [simp]:
  "attempt_count (render_release_dispatch_row st t x r) = attempt_count r"
  "status r = Render_DISPATCHED \<Longrightarrow> status (render_release_dispatch_row st t x r) = Render_PENDING"
  "status r \<noteq> Render_DISPATCHED \<Longrightarrow> render_release_dispatch_row st t x r = r"
  by (simp_all add: render_release_dispatch_row_def)

definition render_lost :: "render_settings \<Rightarrow> timestamp \<Rightarrow> RenderOutbox \<Rightarrow> bool" where
  "render_lost st now r =
     delivery_lease_expired (status r) Render_DISPATCHED Render_PROCESSING (dispatched_at r)
       (started_at r) now (RENDER_OUTBOX_DISPATCH_TIMEOUT_SECONDS st)
       (RENDER_OUTBOX_PROCESSING_TIMEOUT_SECONDS st)"

lemma render_lost_status: "render_lost st t r \<Longrightarrow> status r \<in> {Render_DISPATCHED, Render_PROCESSING}"
  unfolding render_lost_def by (drule lease_expired_statuses) blast

lemma render_scan_row_cases:
  "render_scan_row st t r =
     (if render_lost st t r
      then (render_diagnostic st Op_FAILED
              (r\<lparr>status := Render_FAILED, next_attempt_at := t,
                 last_error := Some ''Render delivery lease expired''\<rparr>))\<lparr>updated_at := t\<rparr>
      else r)"
  using render_lost_status [of st t r] by (auto simp: render_scan_row_def render_lost_def)

lemma render_scan_row_simps [simp]:
  "attempt_count (render_scan_row st t r) = attempt_count r"
  "render_lost st t r \<Longrightarrow> status (render_scan_row st t r) = Render_FAILED"
  "render_lost st t r \<Longrightarrow> next_attempt_at (render_scan_row st t r) = t"
  "\<not> render_lost st t r \<Longrightarrow> render_scan_row st t r = r"
  "render_target (render_scan_row st t r) = render_target r"
  by (simp_all add: render_scan_row_cases render_target_def)

lemma render_exhaust_simps [simp]:
  "status (render_exhaust_unavailable st t r) = Render_FAILED"
  "attempt_count (render_exhaust_unavailable st t r) = RENDER_OUTBOX_MAX_ATTEMPTS st"
  by (simp_all add: render_exhaust_unavailable_def)

lemma render_usable_rows [simp]:
  "render_usable c (render_complete_row t r) = render_usable c r"
  "render_usable c (render_fail_row st t x r) = render_usable c r"
  "render_usable c (fst (render_mark_dispatched_row st t t' r)) = render_usable c r"
  "render_usable c (render_scan_row st t r) = render_usable c r"
  by (rule render_usable_by_target, simp)+

section \<open>The outcomes of a claim\<close>

definition render_claimable :: "render_settings \<Rightarrow> timestamp \<Rightarrow> RenderOutbox \<Rightarrow> bool" where
  "render_claimable st t r \<longleftrightarrow>
     status r \<in> {Render_PENDING, Render_DISPATCHED, Render_FAILED} \<and>
     (status r = Render_FAILED \<longrightarrow> next_attempt_at r \<le> t) \<and>
     attempt_count r < RENDER_OUTBOX_MAX_ATTEMPTS st"

text \<open>
  Refused by a guard; failed with an exception, so rolled back; completed because what it was for is
  over; exhausted because what it refers to is gone; or handed out.
\<close>

lemma render_claim_row_cases:
  obtains (refused) "\<not> render_claimable st t r" "render_claim_row st c t now r = Inr (r, None)"
  | (raised) e where "render_claimable st t r" "\<not> render_usable c r"
      "render_claim_row st c t now r = Inl e"
  | (over) "render_claimable st t r" "\<not> render_usable c r" "ro_target_type r = REVIEW_THUMBNAIL"
      "render_claim_row st c t now r = Inr (render_complete_row now r, None)"
  | (stale) "render_claimable st t r" "\<not> render_usable c r"
      "render_claim_row st c t now r = Inr (render_exhaust_unavailable st now r, None)"
  | (handed) q where "render_claimable st t r" "render_usable c r"
      "render_payload_build st c r = Inr \<lparr>rb_payload = Some q, terminal_completed = False\<rparr>"
      "render_claim_row st c t now r = Inr
         (r\<lparr>status := Render_PROCESSING, attempt_count := attempt_count r + 1,
            started_at := Some now, updated_at := now\<rparr>,
          Some (q\<lparr>rp_attempt := attempt_count r + 1,
                  rp_max_attempts := RENDER_OUTBOX_MAX_ATTEMPTS st\<rparr>))"
proof (cases "render_claimable st t r")
  case False
  then show thesis
    by (intro refused) (cases "status r"; auto simp: render_claimable_def render_claim_row_def)+
next
  case True
  then have ne: "status r \<noteq> Render_COMPLETED" by (auto simp: render_claimable_def)
  have claim: "render_claim_row st c t now r =
      (case render_build_payload st c now r of
           Inl e \<Rightarrow> Inl e
         | Inr (r', None) \<Rightarrow> Inr (r', None)
         | Inr (r', Some payload) \<Rightarrow>
             Inr (r'\<lparr>status := Render_PROCESSING, attempt_count := attempt_count r' + 1,
                     started_at := Some now, updated_at := now\<rparr>,
                  Some (payload\<lparr>rp_attempt := attempt_count r + 1,
                                rp_max_attempts := RENDER_OUTBOX_MAX_ATTEMPTS st\<rparr>)))"
    using True by (auto simp: render_claimable_def render_claim_row_def Let_def)
  show thesis
  proof (cases "render_payload_build st c r")
    case (Inl e)
    then show thesis using True claim
      by (intro raised [of e]) (auto simp: render_usable_build [of c r st] render_build_payload_def)
  next
    case (Inr result)
    show thesis
    proof (cases "rb_payload result")
      case (Some q)
      with Inr have b: "render_payload_build st c r =
          Inr \<lparr>rb_payload = Some q, terminal_completed = False\<rparr>"
        by (rule render_build_payload_shape)
      then show thesis using True claim
        by (intro handed [of q]) (auto simp: render_usable_build [of c r st] render_build_payload_def)
    next
      case None
      then have nu: "\<not> render_usable c r"
        using Inr by (auto simp: render_usable_build [of c r st])
      show thesis
      proof (cases "terminal_completed result")
        case completed: True
        then have "ro_target_type r = REVIEW_THUMBNAIL"
          using Inr by (cases "ro_target_type r") (auto simp: render_payload_build_def)
        then show thesis using True claim nu None Inr completed
          by (intro over) (auto simp: render_build_payload_def)
      next
        case False
        then show thesis using True claim nu None Inr ne
          by (intro stale) (auto simp: render_build_payload_def)
      qed
    qed
  qed
qed

definition render_claim_event ::
  "render_settings \<Rightarrow> render_db \<Rightarrow> timestamp \<Rightarrow> timestamp \<Rightarrow> RenderOutbox \<Rightarrow> RenderOutbox \<times> bool" where
  "render_claim_event st c t t' r =
     (case render_claim_row st c t t' r of
        Inl _ \<Rightarrow> (r, False)
      | Inr (r', p) \<Rightarrow> (r', p \<noteq> None))"

section \<open>The outbox contract\<close>

abbreviation render_step ::
  "render_settings \<Rightarrow> render_db outbox_event \<Rightarrow> RenderOutbox \<Rightarrow> RenderOutbox \<times> bool" where
  "render_step st \<equiv>
     outbox_step (render_claim_event st) render_complete_row (render_fail_row st)
       (render_mark_dispatched_row st) (render_release_dispatch_row st) (render_scan_row st)"

interpretation render_rows: retry_outbox "\<lambda>r. render_phase (status r)" attempt_count
  next_attempt_at "RENDER_OUTBOX_MAX_ATTEMPTS st" "RENDER_OUTBOX_RETRY_BASE_SECONDS st"
  render_usable "render_lost st" "render_claim_event st" render_complete_row
  "render_fail_row st" "render_mark_dispatched_row st" "render_release_dispatch_row st"
  "render_scan_row st" for st
proof (unfold_locales, goal_cases)
  case (1 c t t' r)
  show ?case
    by (cases rule: render_claim_row_cases [of st t r c t'])
       (auto simp: render_claim_event_def render_claimable_def)
next
  case (2 c t t' r)
  then show ?case
    by (cases rule: render_claim_row_cases [of st t r c t']) (auto simp: render_claim_event_def)
next
  case (3 c t t' r)
  then show ?case
    by (cases rule: render_claim_row_cases [of st t r c t'])
       (auto simp: render_claim_event_def render_claimable_def)
next
  case (11 t t' r)
  show ?case by (auto simp: render_is_dispatchable_def)
next
  case (17 t r)
  then show ?case by (auto dest: render_lost_status)
qed simp_all

section \<open>Properties\<close>

lemma render_claim_found:
  assumes "unique_column outbox_uuid db" and "r \<in> set db"
  shows "render_claim_row st c t now r = Inr (r', p) \<Longrightarrow>
      render_claim st c t now (outbox_uuid r) db =
        (Inr p, map (\<lambda>x. if outbox_uuid x = outbox_uuid r then r' else x) db)"
    and "render_claim_row st c t now r = Inl e \<Longrightarrow> render_claim st c t now (outbox_uuid r) db = (Inl e, db)"
  using unique_filter [OF assms]
  by (simp_all add: render_claim_def on_row_try_found write_row_def)

definition example_render :: RenderOutbox where
  "example_render = new_render_outbox ''u'' 0 0 0 None None None REVIEW_THUMBNAIL None None (Some 1)
     None ''h'' ''review-thumbnail''"

definition example_render_db :: render_db where
  "example_render_db = \<lparr>
     rdb_scores = [example_score], rdb_revisions = [example_revision],
     rdb_jobs = [example_job\<lparr>state := Import_PENDING_REVIEW\<rparr>], rdb_artifacts = [example_artifact]\<rparr>"

lemmas render_example_defs = example_render_def example_render_db_def new_render_outbox_def
  example_job_def example_artifact_def render_asset_delivery_defaults_def db_get_def



text \<open>Rendering keeps the delivery contract: work is handed out at most as often as attempts are
  left and at most once per lease, whatever happens to scores and jobs meanwhile; every call but a late
  report is a step of the abstract delivery; a lost lease with attempts left is made good by the next
  scan, dispatch and claim; and a failed row is not handed out before its delay has passed.\<close>

theorem render_delivery_contract:
  fixes r :: RenderOutbox and st :: render_settings
  assumes "attempt_count r < RENDER_OUTBOX_MAX_ATTEMPTS st"
  shows "int (snd (run_row (render_step st) es r)) \<le> RENDER_OUTBOX_MAX_ATTEMPTS st - attempt_count r \<and>
    ((\<forall>e \<in> set es. \<not> outbox_closes_attempt e) \<longrightarrow> snd (run_row (render_step st) es r) \<le> 1) \<and>
    ((outbox_report e \<longrightarrow> status r = Render_PROCESSING) \<longrightarrow>
       delivery_step (RENDER_OUTBOX_MAX_ATTEMPTS st) (render_rows.abs r)
         (render_rows.abs (fst (render_step st e r)))) \<and>
    (render_lost st t r \<and> render_usable c r \<and> t \<le> t' \<longrightarrow>
       snd (render_step st (OClaim c t1 t2)
         (fst (render_step st (OMarkDispatched t' t') (fst (render_step st (OScan t) r)))))) \<and>
    (t' < t + timedelta_seconds (exponential_retry_delay_seconds
            (RENDER_OUTBOX_RETRY_BASE_SECONDS st) (attempt_count r)) \<longrightarrow>
       \<not> snd (render_step st (OClaim c t' t1) (fst (render_step st (OFail t x) r))))"
  using render_rows.deliveries_bounded [of r st es] render_rows.one_delivery_per_lease [of es st r]
    render_rows.refines_delivery [of e r st] render_rows.crash_recovery [of st t r t' c t' t1 t2]
    render_rows.no_early_retry [of t' t st r c t1 x] assms by simp

theorem render_delivery_contract_witness:
  "snd (run_row (render_step render_asset_delivery_defaults)
     [OClaim example_render_db 1 1, OClaim example_render_db 2 2] example_render) \<le> 1"
  using render_delivery_contract [of example_render render_asset_delivery_defaults
      "[OClaim example_render_db 1 1, OClaim example_render_db 2 2]" "OComplete 1"]
  by (simp add: example_render_def new_render_outbox_def render_asset_delivery_defaults_def)

end
