(* ===== verification/Replay_Deletion_Outbox.thy ===== *)
theory Replay_Deletion_Outbox
  imports Retry_Outbox
begin

text \<open>
  Deletion of the stored objects of saved practice replays:
  \<open>backend/app/db/models/practice.py\<close> (the row \<open>PracticeReplayObjectDeletionOutbox\<close>),
  \<open>backend/app/modules/practice/replay_object_deletion_outbox_service.py\<close> (the service) and
  \<open>backend/app/core/settings/practice_replay_deletion.py\<close>. The row has no diagnostic columns; its
  payload is built from the row alone.
\<close>

section \<open>The row\<close>

datatype PracticeReplayObjectDeletionStatus =
  Replay_PENDING | Replay_DISPATCHED | Replay_PROCESSING | Replay_COMPLETED | Replay_FAILED

record PracticeReplayObjectDeletionOutbox =
  rd_id :: "int option"
  rd_outbox_uuid :: string
  rd_artifact_uuid :: string
  rd_storage_backend :: string
  rd_object_key :: string
  rd_status :: PracticeReplayObjectDeletionStatus
  rd_attempt_count :: int
  rd_next_attempt_at :: timestamp
  rd_dispatched_at :: "timestamp option"
  rd_started_at :: "timestamp option"
  rd_completed_at :: "timestamp option"
  rd_last_error :: "string option"
  rd_created_at :: timestamp
  rd_updated_at :: timestamp

record replay_settings =
  REPLAY_DISPATCH_TIMEOUT_SECONDS :: int
  REPLAY_PROCESSING_TIMEOUT_SECONDS :: int
  REPLAY_RETRY_BASE_SECONDS :: int
  REPLAY_MAX_ATTEMPTS :: int
  REPLAY_DISPATCH_BATCH_SIZE :: int

definition practice_replay_deletion_defaults :: replay_settings where
  "practice_replay_deletion_defaults = \<lparr>
     REPLAY_DISPATCH_TIMEOUT_SECONDS = 300, REPLAY_PROCESSING_TIMEOUT_SECONDS = 300,
     REPLAY_RETRY_BASE_SECONDS = 60, REPLAY_MAX_ATTEMPTS = 5, REPLAY_DISPATCH_BATCH_SIZE = 50\<rparr>"

record PracticeReplayObjectDeletionPayload =
  dp_outbox_uuid :: string
  dp_storage_backend :: string
  dp_object_key :: string
  dp_attempt :: int
  dp_max_attempts :: int

text \<open>The constructor call of \<open>delete_replay_artifact\<close> in \<open>modules/practice/service.py\<close>.\<close>

definition new_replay_deletion ::
  "string \<Rightarrow> timestamp \<Rightarrow> timestamp \<Rightarrow> timestamp \<Rightarrow> string \<Rightarrow> string \<Rightarrow> string \<Rightarrow>
   PracticeReplayObjectDeletionOutbox" where
  "new_replay_deletion new_uuid t_next t_created t_updated artifact backend key = \<lparr>
     rd_id = None, rd_outbox_uuid = new_uuid, rd_artifact_uuid = artifact,
     rd_storage_backend = backend, rd_object_key = key, rd_status = Replay_PENDING,
     rd_attempt_count = 0, rd_next_attempt_at = t_next, rd_dispatched_at = None,
     rd_started_at = None, rd_completed_at = None, rd_last_error = None,
     rd_created_at = t_created, rd_updated_at = t_updated\<rparr>"

section \<open>The service, row by row\<close>

definition replay_build_payload ::
  "replay_settings \<Rightarrow> PracticeReplayObjectDeletionOutbox \<Rightarrow> PracticeReplayObjectDeletionPayload" where
  "replay_build_payload st r = \<lparr>
     dp_outbox_uuid = rd_outbox_uuid r, dp_storage_backend = rd_storage_backend r,
     dp_object_key = rd_object_key r, dp_attempt = 0, dp_max_attempts = REPLAY_MAX_ATTEMPTS st\<rparr>"

definition replay_claim_row ::
  "replay_settings \<Rightarrow> timestamp \<Rightarrow> timestamp \<Rightarrow> PracticeReplayObjectDeletionOutbox \<Rightarrow>
   PracticeReplayObjectDeletionOutbox \<times> PracticeReplayObjectDeletionPayload option" where
  "replay_claim_row st t_check now r =
     (if rd_status r \<in> {Replay_PROCESSING, Replay_COMPLETED} then (r, None)
      else if rd_status r = Replay_FAILED \<and> rd_next_attempt_at r > t_check then (r, None)
      else if rd_attempt_count r \<ge> REPLAY_MAX_ATTEMPTS st then (r, None)
      else
        let attempt = rd_attempt_count r + 1;
            payload = (replay_build_payload st r)
              \<lparr>dp_attempt := attempt, dp_max_attempts := REPLAY_MAX_ATTEMPTS st\<rparr>
        in (r\<lparr>rd_status := Replay_PROCESSING, rd_attempt_count := rd_attempt_count r + 1,
              rd_started_at := Some now, rd_updated_at := now\<rparr>, Some payload))"

definition replay_complete_row ::
  "timestamp \<Rightarrow> PracticeReplayObjectDeletionOutbox \<Rightarrow> PracticeReplayObjectDeletionOutbox" where
  "replay_complete_row now r =
     r\<lparr>rd_status := Replay_COMPLETED, rd_completed_at := Some now, rd_last_error := None,
       rd_updated_at := now\<rparr>"

definition replay_fail_row ::
  "replay_settings \<Rightarrow> timestamp \<Rightarrow> string \<Rightarrow> PracticeReplayObjectDeletionOutbox \<Rightarrow>
   PracticeReplayObjectDeletionOutbox" where
  "replay_fail_row st now err r =
     (let delay = exponential_retry_delay_seconds (REPLAY_RETRY_BASE_SECONDS st) (rd_attempt_count r)
      in r\<lparr>rd_status := Replay_FAILED, rd_next_attempt_at := now + timedelta_seconds delay,
           rd_last_error := Some (take 4000 err), rd_updated_at := now\<rparr>)"

definition replay_is_dispatchable ::
  "replay_settings \<Rightarrow> timestamp \<Rightarrow> PracticeReplayObjectDeletionOutbox \<Rightarrow> bool" where
  "replay_is_dispatchable st now r \<longleftrightarrow>
     rd_status r \<in> {Replay_PENDING, Replay_FAILED} \<and>
     rd_attempt_count r < REPLAY_MAX_ATTEMPTS st \<and> rd_next_attempt_at r \<le> now"

definition replay_mark_dispatched_row ::
  "replay_settings \<Rightarrow> timestamp \<Rightarrow> timestamp \<Rightarrow> PracticeReplayObjectDeletionOutbox \<Rightarrow>
   PracticeReplayObjectDeletionOutbox \<times> bool" where
  "replay_mark_dispatched_row st t_check now r =
     (if \<not> replay_is_dispatchable st t_check r then (r, False)
      else (r\<lparr>rd_status := Replay_DISPATCHED, rd_dispatched_at := Some now, rd_updated_at := now\<rparr>, True))"

definition replay_release_dispatch_row ::
  "timestamp \<Rightarrow> string \<Rightarrow> PracticeReplayObjectDeletionOutbox \<Rightarrow>
   PracticeReplayObjectDeletionOutbox" where
  "replay_release_dispatch_row now err r =
     (if rd_status r \<noteq> Replay_DISPATCHED then r
      else r\<lparr>rd_status := Replay_PENDING, rd_dispatched_at := None,
             rd_last_error := Some (take 4000 err), rd_updated_at := now\<rparr>)"

definition replay_scan_row ::
  "replay_settings \<Rightarrow> timestamp \<Rightarrow> PracticeReplayObjectDeletionOutbox \<Rightarrow>
   PracticeReplayObjectDeletionOutbox" where
  "replay_scan_row st now r =
     (if (rd_status r = Replay_DISPATCHED \<or> rd_status r = Replay_PROCESSING) \<and>
         delivery_lease_expired (rd_status r) Replay_DISPATCHED Replay_PROCESSING
           (rd_dispatched_at r) (rd_started_at r) now
           (REPLAY_DISPATCH_TIMEOUT_SECONDS st) (REPLAY_PROCESSING_TIMEOUT_SECONDS st)
      then r\<lparr>rd_status := Replay_FAILED, rd_next_attempt_at := now,
             rd_last_error := Some ''Practice replay object deletion lease expired'',
             rd_updated_at := now\<rparr>
      else r)"

definition replay_due ::
  "replay_settings \<Rightarrow> timestamp \<Rightarrow> PracticeReplayObjectDeletionOutbox \<Rightarrow> bool" where
  "replay_due st now r \<longleftrightarrow>
     rd_status r \<in> {Replay_PENDING, Replay_FAILED} \<and> rd_next_attempt_at r \<le> now \<and>
     rd_attempt_count r < REPLAY_MAX_ATTEMPTS st"

section \<open>The service on the table\<close>

definition replay_claim ::
  "replay_settings \<Rightarrow> timestamp \<Rightarrow> timestamp \<Rightarrow> string \<Rightarrow> PracticeReplayObjectDeletionOutbox list \<Rightarrow>
   (orm_error + PracticeReplayObjectDeletionPayload option) \<times>
     PracticeReplayObjectDeletionOutbox list" where
  "replay_claim st t_check now uuid db =
     on_row (\<lambda>r. rd_outbox_uuid r = uuid) None (replay_claim_row st t_check now) db"

definition replay_complete ::
  "timestamp \<Rightarrow> string \<Rightarrow> PracticeReplayObjectDeletionOutbox list \<Rightarrow>
   (orm_error + unit) \<times> PracticeReplayObjectDeletionOutbox list" where
  "replay_complete now uuid db =
     on_row (\<lambda>r. rd_outbox_uuid r = uuid) () (\<lambda>r. (replay_complete_row now r, ())) db"

definition replay_fail ::
  "replay_settings \<Rightarrow> timestamp \<Rightarrow> string \<Rightarrow> string \<Rightarrow> PracticeReplayObjectDeletionOutbox list \<Rightarrow>
   (orm_error + unit) \<times> PracticeReplayObjectDeletionOutbox list" where
  "replay_fail st now uuid err db =
     on_row (\<lambda>r. rd_outbox_uuid r = uuid) () (\<lambda>r. (replay_fail_row st now err r, ())) db"

definition replay_mark_dispatched ::
  "replay_settings \<Rightarrow> timestamp \<Rightarrow> timestamp \<Rightarrow> string \<Rightarrow> PracticeReplayObjectDeletionOutbox list \<Rightarrow>
   (orm_error + bool) \<times> PracticeReplayObjectDeletionOutbox list" where
  "replay_mark_dispatched st t_check now uuid db =
     on_row (\<lambda>r. rd_outbox_uuid r = uuid) False (replay_mark_dispatched_row st t_check now) db"

definition replay_release_dispatch ::
  "timestamp \<Rightarrow> string \<Rightarrow> string \<Rightarrow> PracticeReplayObjectDeletionOutbox list \<Rightarrow>
   (orm_error + unit) \<times> PracticeReplayObjectDeletionOutbox list" where
  "replay_release_dispatch now uuid err db =
     on_row (\<lambda>r. rd_outbox_uuid r = uuid) () (\<lambda>r. (replay_release_dispatch_row now err r, ())) db"

definition replay_recover_and_list_due ::
  "replay_settings \<Rightarrow> timestamp \<Rightarrow> PracticeReplayObjectDeletionOutbox list \<Rightarrow>
   string list \<times> PracticeReplayObjectDeletionOutbox list" where
  "replay_recover_and_list_due st now db =
     (map rd_outbox_uuid
        (select_ordered (replay_due st now) rd_created_at (nat (REPLAY_DISPATCH_BATCH_SIZE st)) db),
      map (replay_scan_row st now) db)"

section \<open>The outbox contract\<close>

fun replay_phase :: "PracticeReplayObjectDeletionStatus \<Rightarrow> phase" where
  "replay_phase Replay_PENDING = Waiting"
| "replay_phase Replay_DISPATCHED = Handed"
| "replay_phase Replay_PROCESSING = Running"
| "replay_phase Replay_COMPLETED = Done"
| "replay_phase Replay_FAILED = Failed"

lemma replay_phase_iff [simp]:
  "replay_phase s = Waiting \<longleftrightarrow> s = Replay_PENDING"
  "replay_phase s = Handed \<longleftrightarrow> s = Replay_DISPATCHED"
  "replay_phase s = Running \<longleftrightarrow> s = Replay_PROCESSING"
  "replay_phase s = Done \<longleftrightarrow> s = Replay_COMPLETED"
  "replay_phase s = Failed \<longleftrightarrow> s = Replay_FAILED"
  by (cases s; simp)+

definition replay_lost ::
  "replay_settings \<Rightarrow> timestamp \<Rightarrow> PracticeReplayObjectDeletionOutbox \<Rightarrow> bool" where
  "replay_lost st now r =
     delivery_lease_expired (rd_status r) Replay_DISPATCHED Replay_PROCESSING (rd_dispatched_at r)
       (rd_started_at r) now (REPLAY_DISPATCH_TIMEOUT_SECONDS st)
       (REPLAY_PROCESSING_TIMEOUT_SECONDS st)"

lemma replay_lost_status: "replay_lost st t r \<Longrightarrow> rd_status r \<in> {Replay_DISPATCHED, Replay_PROCESSING}"
  unfolding replay_lost_def by (drule lease_expired_statuses) blast

lemma replay_scan_row_cases:
  "replay_scan_row st t r =
     (if replay_lost st t r
      then r\<lparr>rd_status := Replay_FAILED, rd_next_attempt_at := t,
             rd_last_error := Some ''Practice replay object deletion lease expired'',
             rd_updated_at := t\<rparr>
      else r)"
  using replay_lost_status [of st t r] by (auto simp: replay_scan_row_def replay_lost_def)

lemma replay_scan_row_simps [simp]:
  "rd_attempt_count (replay_scan_row st t r) = rd_attempt_count r"
  "replay_lost st t r \<Longrightarrow> rd_status (replay_scan_row st t r) = Replay_FAILED"
  "replay_lost st t r \<Longrightarrow> rd_next_attempt_at (replay_scan_row st t r) = t"
  "\<not> replay_lost st t r \<Longrightarrow> replay_scan_row st t r = r"
  by (simp_all add: replay_scan_row_cases)

lemma replay_complete_row_simps [simp]:
  "rd_status (replay_complete_row t r) = Replay_COMPLETED"
  "rd_attempt_count (replay_complete_row t r) = rd_attempt_count r"
  by (simp_all add: replay_complete_row_def)

lemma replay_fail_row_simps [simp]:
  "rd_status (replay_fail_row st t x r) = Replay_FAILED"
  "rd_attempt_count (replay_fail_row st t x r) = rd_attempt_count r"
  "rd_next_attempt_at (replay_fail_row st t x r) =
     t + timedelta_seconds (exponential_retry_delay_seconds (REPLAY_RETRY_BASE_SECONDS st)
       (rd_attempt_count r))"
  by (simp_all add: replay_fail_row_def Let_def)

lemma replay_mark_row_simps [simp]:
  "snd (replay_mark_dispatched_row st t t' r) = replay_is_dispatchable st t r"
  "rd_attempt_count (fst (replay_mark_dispatched_row st t t' r)) = rd_attempt_count r"
  "replay_is_dispatchable st t r \<Longrightarrow>
     rd_status (fst (replay_mark_dispatched_row st t t' r)) = Replay_DISPATCHED"
  "\<not> replay_is_dispatchable st t r \<Longrightarrow> fst (replay_mark_dispatched_row st t t' r) = r"
  by (simp_all add: replay_mark_dispatched_row_def)

lemma replay_release_row_simps [simp]:
  "rd_attempt_count (replay_release_dispatch_row t x r) = rd_attempt_count r"
  "rd_status r = Replay_DISPATCHED \<Longrightarrow>
     rd_status (replay_release_dispatch_row t x r) = Replay_PENDING"
  "rd_status r \<noteq> Replay_DISPATCHED \<Longrightarrow> replay_release_dispatch_row t x r = r"
  by (simp_all add: replay_release_dispatch_row_def)

definition replay_claimable ::
  "replay_settings \<Rightarrow> timestamp \<Rightarrow> PracticeReplayObjectDeletionOutbox \<Rightarrow> bool" where
  "replay_claimable st t r \<longleftrightarrow>
     rd_status r \<in> {Replay_PENDING, Replay_DISPATCHED, Replay_FAILED} \<and>
     (rd_status r = Replay_FAILED \<longrightarrow> rd_next_attempt_at r \<le> t) \<and>
     rd_attempt_count r < REPLAY_MAX_ATTEMPTS st"

lemma replay_claim_row_cases:
  "replay_claim_row st t now r =
     (if replay_claimable st t r
      then (r\<lparr>rd_status := Replay_PROCESSING, rd_attempt_count := rd_attempt_count r + 1,
              rd_started_at := Some now, rd_updated_at := now\<rparr>,
            Some \<lparr>dp_outbox_uuid = rd_outbox_uuid r, dp_storage_backend = rd_storage_backend r,
              dp_object_key = rd_object_key r, dp_attempt = rd_attempt_count r + 1,
              dp_max_attempts = REPLAY_MAX_ATTEMPTS st\<rparr>)
      else (r, None))"
  by (cases "rd_status r")
     (auto simp: replay_claimable_def replay_claim_row_def replay_build_payload_def Let_def)

text \<open>The service needs nothing but the row, so every row is usable in the one context.\<close>

definition replay_claim_event ::
  "replay_settings \<Rightarrow> unit \<Rightarrow> timestamp \<Rightarrow> timestamp \<Rightarrow> PracticeReplayObjectDeletionOutbox \<Rightarrow>
   PracticeReplayObjectDeletionOutbox \<times> bool" where
  "replay_claim_event st c t t' r =
     (fst (replay_claim_row st t t' r), snd (replay_claim_row st t t' r) \<noteq> None)"

abbreviation replay_step ::
  "replay_settings \<Rightarrow> unit outbox_event \<Rightarrow> PracticeReplayObjectDeletionOutbox \<Rightarrow>
   PracticeReplayObjectDeletionOutbox \<times> bool" where
  "replay_step st \<equiv>
     outbox_step (replay_claim_event st) replay_complete_row (replay_fail_row st)
       (replay_mark_dispatched_row st) replay_release_dispatch_row (replay_scan_row st)"

interpretation replay_rows: retry_outbox "\<lambda>r. replay_phase (rd_status r)" rd_attempt_count
  rd_next_attempt_at "REPLAY_MAX_ATTEMPTS st" "REPLAY_RETRY_BASE_SECONDS st" "\<lambda>(c :: unit) r. True"
  "replay_lost st" "replay_claim_event st" replay_complete_row "replay_fail_row st"
  "replay_mark_dispatched_row st" replay_release_dispatch_row "replay_scan_row st" for st
proof (unfold_locales, goal_cases)
  case (1 c t t' r)
  show ?case by (simp add: replay_claim_event_def replay_claim_row_cases) (auto simp: replay_claimable_def)
next
  case (2 c t t' r)
  then show ?case by (simp add: replay_claim_event_def replay_claim_row_cases split: if_splits)
next
  case (3 c t t' r)
  then show ?case by (simp add: replay_claim_event_def replay_claim_row_cases split: if_splits)
next
  case (11 t t' r)
  show ?case by (auto simp: replay_is_dispatchable_def)
next
  case (17 t r)
  then show ?case by (auto dest: replay_lost_status)
qed simp_all

definition example_replay_deletion :: PracticeReplayObjectDeletionOutbox where
  "example_replay_deletion = new_replay_deletion ''u'' 0 0 0 ''a'' ''local'' ''replays/a''"

section \<open>Properties\<close>

text \<open>Deletion of a replay object keeps the delivery contract, and unlike the asset outboxes it can
  never be starved by what it refers to: a row that is due and has attempts left is always handed out,
  with the key to delete; a lost lease is made good by the next scan, dispatch and claim; the deletion
  is handed out at most as often as attempts are left, at most once per lease.\<close>

theorem replay_delivery_contract:
  assumes "rd_attempt_count r < REPLAY_MAX_ATTEMPTS st"
  shows "int (snd (run_row (replay_step st) es r)) \<le> REPLAY_MAX_ATTEMPTS st - rd_attempt_count r \<and>
    ((\<forall>e \<in> set es. \<not> outbox_closes_attempt e) \<longrightarrow> snd (run_row (replay_step st) es r) \<le> 1) \<and>
    (replay_due st t r \<longrightarrow>
       snd (replay_claim_row st t t' r) = Some \<lparr>dp_outbox_uuid = rd_outbox_uuid r,
         dp_storage_backend = rd_storage_backend r, dp_object_key = rd_object_key r,
         dp_attempt = rd_attempt_count r + 1, dp_max_attempts = REPLAY_MAX_ATTEMPTS st\<rparr>) \<and>
    (replay_lost st t r \<and> t \<le> t' \<longrightarrow>
       snd (replay_step st (OClaim () t1 t2)
         (fst (replay_step st (OMarkDispatched t' t') (fst (replay_step st (OScan t) r))))))"
proof (intro conjI impI)
  show "int (snd (run_row (replay_step st) es r)) \<le> REPLAY_MAX_ATTEMPTS st - rd_attempt_count r"
    using replay_rows.deliveries_bounded [of r st es] assms by simp
next
  assume "\<forall>e \<in> set es. \<not> outbox_closes_attempt e"
  then show "snd (run_row (replay_step st) es r) \<le> 1"
    by (rule replay_rows.one_delivery_per_lease)
next
  assume "replay_due st t r"
  then show "snd (replay_claim_row st t t' r) = Some \<lparr>dp_outbox_uuid = rd_outbox_uuid r,
         dp_storage_backend = rd_storage_backend r, dp_object_key = rd_object_key r,
         dp_attempt = rd_attempt_count r + 1, dp_max_attempts = REPLAY_MAX_ATTEMPTS st\<rparr>"
    by (auto simp: replay_due_def replay_claim_row_cases replay_claimable_def)
next
  assume "replay_lost st t r \<and> t \<le> t'"
  then show "snd (replay_step st (OClaim () t1 t2)
         (fst (replay_step st (OMarkDispatched t' t') (fst (replay_step st (OScan t) r)))))"
    using replay_rows.crash_recovery [of st t r t' t' "()" t1 t2] assms by simp
qed

theorem replay_delivery_contract_witness:
  "snd (replay_claim_row practice_replay_deletion_defaults 5 5 example_replay_deletion) \<noteq> None"
  using replay_delivery_contract [of example_replay_deletion practice_replay_deletion_defaults "[]" 5 5]
  by (simp add: example_replay_deletion_def new_replay_deletion_def replay_due_def
      practice_replay_deletion_defaults_def)

end
