(* ===== verification/Import_Dispatch.thy ===== *)
theory Import_Dispatch
  imports Retry_Outbox Import_Model
begin

text \<open>
  Dispatch of import jobs: \<open>backend/app/modules/import_jobs/dispatch_service.py\<close> and
  \<open>backend/app/core/settings/import_dispatch.py\<close>. The job row is its own outbox: beside the state of
  the pipeline it carries the status of its delivery. One definition per method, split into a row part
  and a table part as for the outboxes.
\<close>

section \<open>Settings and payload\<close>

record import_settings =
  IMPORT_DISPATCH_TIMEOUT_SECONDS :: int
  IMPORT_PROCESSING_TIMEOUT_SECONDS :: int
  IMPORT_DISPATCH_MAX_ATTEMPTS :: int
  IMPORT_DISPATCH_BATCH_SIZE :: int

definition import_dispatch_defaults :: import_settings where
  "import_dispatch_defaults = \<lparr>
     IMPORT_DISPATCH_TIMEOUT_SECONDS = 300, IMPORT_PROCESSING_TIMEOUT_SECONDS = 1200,
     IMPORT_DISPATCH_MAX_ATTEMPTS = 3, IMPORT_DISPATCH_BATCH_SIZE = 20\<rparr>"

record ImportDispatchPayload =
  ip_job_uuid :: string
  storage_keys :: "string list"
  ip_options :: "json option"
  ip_attempt :: int
  ip_max_attempts :: int
  ip_originating_request_id :: "string option"
  ip_traceparent :: "string option"
  ip_tracestate :: "string option"

text \<open>The options of a job, when the stored JSON value is an object.\<close>

definition requested_options_of :: "ImportJob \<Rightarrow> json option" where
  "requested_options_of job =
     (case requested_options job of Some (JObject kvs) \<Rightarrow> Some (JObject kvs) | _ \<Rightarrow> None)"

text \<open>The tables a claim joins to find the stored uploads of a job.\<close>

record import_db =
  idb_job_uploads :: "ImportJobUpload list"
  idb_uploads :: "Upload list"
  idb_blobs :: "StorageBlob list"

definition job_storage_keys :: "import_db \<Rightarrow> ImportJob \<Rightarrow> string list" where
  "job_storage_keys db job =
     concat (map (\<lambda>ju. concat (map (\<lambda>u.
         map sb_storage_key (filter (\<lambda>b. sb_id b = blob_id u) (idb_blobs db)))
       (filter (\<lambda>u. up_id u = iu_upload_id ju) (idb_uploads db))))
     (sort_key sort_order (sort_key iu_id
       (filter (\<lambda>ju. iu_job_id ju = ij_id job) (idb_job_uploads db)))))"

section \<open>The service, row by row\<close>

definition import_raw_status :: "ImportJob \<Rightarrow> string" where
  "import_raw_status job =
     import_state_value (state job) @ ''/'' @ dispatch_status_value (dispatch_status job)"

definition import_diagnostic ::
  "import_settings \<Rightarrow> AsyncOperationStatusValue \<Rightarrow> ImportJob \<Rightarrow> ImportJob" where
  "import_diagnostic st op job =
     apply_async_diagnostic Kind_IMPORT op (import_raw_status job) (dispatch_error job)
       (dispatch_attempt_count job) (Some (IMPORT_DISPATCH_MAX_ATTEMPTS st)) job"

definition reset_pipeline_state :: "ImportJob \<Rightarrow> ImportJob" where
  "reset_pipeline_state job =
     clear_async_diagnostic
       (job\<lparr>state := Import_PENDING, progress := 0, current_step := None, ij_started_at := None,
            last_heartbeat_at := None, finished_at := None, ij_code := None, ij_error := None,
            error_type := None\<rparr>)"

definition import_terminal_failure ::
  "import_settings \<Rightarrow> timestamp \<Rightarrow> string \<Rightarrow> ImportJob \<Rightarrow> ImportJob" where
  "import_terminal_failure st now err job =
     (import_diagnostic st Op_EXHAUSTED
        (job\<lparr>dispatch_status := Dispatch_FAILED, state := Import_FAILURE,
             ij_code := Some ''feature_temporarily_unavailable'',
             ij_error := Some ''feature_temporarily_unavailable'',
             error_type := Some ''ImportDispatchFailure'', dispatch_error := Some err\<rparr>))
       \<lparr>finished_at := Some now, ij_updated_at := now\<rparr>"

definition import_claim_row ::
  "import_settings \<Rightarrow> import_db \<Rightarrow> timestamp \<Rightarrow> timestamp \<Rightarrow> ImportJob \<Rightarrow>
   ImportJob \<times> ImportDispatchPayload option" where
  "import_claim_row st db t_check now job =
     (if dispatch_status job \<in> {Dispatch_PROCESSING, Dispatch_COMPLETED} then (job, None)
      else if state job \<noteq> Import_PENDING then (job, None)
      else if dispatch_attempt_count job \<ge> IMPORT_DISPATCH_MAX_ATTEMPTS st then (job, None)
      else if dispatch_status job = Dispatch_FAILED \<and> next_dispatch_at job > t_check then (job, None)
      else
        let keys = job_storage_keys db job in
        if keys = []
        then (import_terminal_failure st now ''Import job has no persisted uploads'' job, None)
        else
          let job1 = job\<lparr>dispatch_status := Dispatch_PROCESSING,
                         dispatch_attempt_count := dispatch_attempt_count job + 1,
                         dispatch_started_at := Some now, dispatch_error := None\<rparr>;
              job2 = (clear_async_diagnostic job1)\<lparr>ij_updated_at := now\<rparr>
          in (job2, Some \<lparr>
                ip_job_uuid = job_uuid job2, storage_keys = keys,
                ip_options = requested_options_of job2, ip_attempt = dispatch_attempt_count job2,
                ip_max_attempts = IMPORT_DISPATCH_MAX_ATTEMPTS st,
                ip_originating_request_id = ij_originating_request_id job2,
                ip_traceparent = ij_traceparent job2, ip_tracestate = ij_tracestate job2\<rparr>))"

definition import_complete_row :: "timestamp \<Rightarrow> ImportJob \<Rightarrow> ImportJob" where
  "import_complete_row now job =
     (clear_async_diagnostic
        (job\<lparr>dispatch_status := Dispatch_COMPLETED, dispatch_completed_at := Some now,
             dispatch_error := None\<rparr>))\<lparr>ij_updated_at := now\<rparr>"

definition publish_delay_seconds :: "int \<Rightarrow> int" where
  "publish_delay_seconds publish_attempts = min 300 (2 ^ nat (min publish_attempts 8))"

definition import_release_dispatch_row ::
  "import_settings \<Rightarrow> timestamp \<Rightarrow> timestamp \<Rightarrow> string \<Rightarrow> ImportJob \<Rightarrow> ImportJob" where
  "import_release_dispatch_row st t_next now err job =
     (if dispatch_status job \<noteq> Dispatch_DISPATCHED then job
      else
        let job1 = job\<lparr>dispatch_status := Dispatch_PENDING, ij_dispatched_at := None,
                       publish_attempt_count := publish_attempt_count job + 1\<rparr>;
            job2 = job1\<lparr>next_dispatch_at := t_next +
                         timedelta_seconds (publish_delay_seconds (publish_attempt_count job1)),
                        dispatch_error := Some (take 4000 err)\<rparr>
        in (import_diagnostic st Op_QUEUED job2)\<lparr>ij_updated_at := now\<rparr>)"

definition import_stale_dispatch :: "import_settings \<Rightarrow> timestamp \<Rightarrow> ImportJob \<Rightarrow> bool" where
  "import_stale_dispatch st now job \<longleftrightarrow>
     dispatch_status job = Dispatch_DISPATCHED \<and>
     (case ij_dispatched_at job of None \<Rightarrow> False
      | Some t \<Rightarrow> t \<le> now - timedelta_seconds (IMPORT_DISPATCH_TIMEOUT_SECONDS st))"

definition import_stale_processing :: "import_settings \<Rightarrow> timestamp \<Rightarrow> ImportJob \<Rightarrow> bool" where
  "import_stale_processing st now job \<longleftrightarrow>
     dispatch_status job = Dispatch_PROCESSING \<and>
     (case dispatch_started_at job of None \<Rightarrow> False
      | Some t \<Rightarrow> t \<le> now - timedelta_seconds (IMPORT_PROCESSING_TIMEOUT_SECONDS st))"

text \<open>
  The recovery loop of \<open>recover_and_claim_due\<close> on one job; \<open>t_fail\<close> is the clock reading of
  \<open>_terminal_failure\<close>.
\<close>

definition import_recover_row ::
  "import_settings \<Rightarrow> timestamp \<Rightarrow> timestamp \<Rightarrow> ImportJob \<Rightarrow> ImportJob" where
  "import_recover_row st now t_fail job =
     (if dispatch_status job \<notin> {Dispatch_DISPATCHED, Dispatch_PROCESSING} then job
      else if \<not> import_stale_dispatch st now job \<and> \<not> import_stale_processing st now job then job
      else if dispatch_attempt_count job \<ge> IMPORT_DISPATCH_MAX_ATTEMPTS st
      then import_terminal_failure st t_fail ''Import worker delivery attempts exhausted'' job
      else
        let stale_processing = import_stale_processing st now job;
            job1 = job\<lparr>dispatch_status := Dispatch_PENDING, next_dispatch_at := now,
                       ij_dispatched_at := None, dispatch_started_at := None\<rparr>;
            job2 = (if stale_processing then reset_pipeline_state job1 else job1);
            job3 = job2\<lparr>dispatch_error := Some ''Import delivery lease expired''\<rparr>
        in (import_diagnostic st Op_QUEUED job3)\<lparr>ij_updated_at := now\<rparr>)"

definition import_due :: "import_settings \<Rightarrow> timestamp \<Rightarrow> ImportJob \<Rightarrow> bool" where
  "import_due st now job \<longleftrightarrow>
     state job = Import_PENDING \<and> dispatch_status job \<in> {Dispatch_PENDING, Dispatch_FAILED} \<and>
     next_dispatch_at job \<le> now \<and> dispatch_attempt_count job < IMPORT_DISPATCH_MAX_ATTEMPTS st"

definition import_mark_due_row :: "timestamp \<Rightarrow> ImportJob \<Rightarrow> ImportJob" where
  "import_mark_due_row now job =
     (clear_async_diagnostic
        (job\<lparr>dispatch_status := Dispatch_DISPATCHED, ij_dispatched_at := Some now,
             dispatch_error := None\<rparr>))\<lparr>ij_updated_at := now\<rparr>"

definition import_is_dispatchable :: "import_settings \<Rightarrow> timestamp \<Rightarrow> ImportJob \<Rightarrow> bool" where
  "import_is_dispatchable st now job \<longleftrightarrow>
     state job = Import_PENDING \<and> dispatch_status job \<in> {Dispatch_PENDING, Dispatch_FAILED} \<and>
     dispatch_attempt_count job < IMPORT_DISPATCH_MAX_ATTEMPTS st \<and> next_dispatch_at job \<le> now"

section \<open>The service on the table\<close>

definition import_claim ::
  "import_settings \<Rightarrow> import_db \<Rightarrow> timestamp \<Rightarrow> timestamp \<Rightarrow> string \<Rightarrow> ImportJob list \<Rightarrow>
   (orm_error + ImportDispatchPayload option) \<times> ImportJob list" where
  "import_claim st ctx t_check now uuid db =
     on_row (\<lambda>r. job_uuid r = uuid) None (import_claim_row st ctx t_check now) db"

definition import_complete ::
  "timestamp \<Rightarrow> string \<Rightarrow> ImportJob list \<Rightarrow> (orm_error + unit) \<times> ImportJob list" where
  "import_complete now uuid db =
     on_row (\<lambda>r. job_uuid r = uuid) () (\<lambda>r. (import_complete_row now r, ())) db"

definition import_release_dispatch ::
  "import_settings \<Rightarrow> timestamp \<Rightarrow> timestamp \<Rightarrow> string \<Rightarrow> string \<Rightarrow> ImportJob list \<Rightarrow>
   (orm_error + unit) \<times> ImportJob list" where
  "import_release_dispatch st t_next now uuid err db =
     on_row (\<lambda>r. job_uuid r = uuid) () (\<lambda>r. (import_release_dispatch_row st t_next now err r, ())) db"

text \<open>
  \<open>recover_and_claim_due\<close>: the jobs whose lease ran out are recovered, and the jobs that were due
  before the scan began (the session does not flush before a query) are marked and listed, oldest
  first, up to the batch size; a job is marked when its uuid is in the batch. Rows locked by others
  are skipped by \<open>skip_locked\<close>: \<open>locked\<close> says which.
\<close>

definition import_due_batch ::
  "import_settings \<Rightarrow> (ImportJob \<Rightarrow> bool) \<Rightarrow> timestamp \<Rightarrow> ImportJob list \<Rightarrow> ImportJob list" where
  "import_due_batch st locked now db =
     select_ordered (\<lambda>job. import_due st now job \<and> \<not> locked job) ij_created_at
       (nat (IMPORT_DISPATCH_BATCH_SIZE st)) db"

definition import_recover_and_claim_due ::
  "import_settings \<Rightarrow> (ImportJob \<Rightarrow> bool) \<Rightarrow> timestamp \<Rightarrow> timestamp \<Rightarrow> ImportJob list \<Rightarrow>
   string list \<times> ImportJob list" where
  "import_recover_and_claim_due st locked now t_fail db =
     (let due = map job_uuid (import_due_batch st locked now db)
      in (due,
          map (\<lambda>job. let job1 = import_recover_row st now t_fail job
                     in if job_uuid job \<in> set due then import_mark_due_row now job1 else job1) db))"

section \<open>The pipeline's own updates of the job\<close>

text \<open>
  \<open>backend/app/modules/import_jobs/worker_service.py\<close>: the worker that runs the pipeline reports
  progress, success and failure on the same row, without looking at the status of the delivery. A
  progress state is given by its name; an unknown name raises \<open>ValueError\<close>.
\<close>

fun import_state_of :: "string \<Rightarrow> ImportJobState option" where
  "import_state_of s =
     (if s = ''PENDING'' then Some Import_PENDING
      else if s = ''RUNNING'' then Some Import_RUNNING
      else if s = ''PENDING_REVIEW'' then Some Import_PENDING_REVIEW
      else if s = ''CONFIRMED'' then Some Import_CONFIRMED
      else if s = ''FAILURE'' then Some Import_FAILURE
      else None)"

definition import_update_progress_row ::
  "timestamp \<Rightarrow> string \<Rightarrow> int \<Rightarrow> string option \<Rightarrow> string option \<Rightarrow> string option \<Rightarrow> string option \<Rightarrow>
   timestamp option \<Rightarrow> ImportJob \<Rightarrow> ImportJob option" where
  "import_update_progress_row now st_name prog step cd err err_type started job =
     (case import_state_of st_name of
        None \<Rightarrow> None
      | Some s \<Rightarrow> Some (job\<lparr>
          state := s, progress := prog, current_step := str_or step (current_step job),
          ij_code := (case cd of None \<Rightarrow> ij_code job | Some c \<Rightarrow> Some c),
          ij_error := (case err of None \<Rightarrow> ij_error job | Some e \<Rightarrow> Some e),
          error_type := (case err_type of None \<Rightarrow> error_type job | Some e \<Rightarrow> Some e),
          ij_started_at := (if started \<noteq> None \<and> ij_started_at job = None then started
                            else ij_started_at job),
          last_heartbeat_at := Some now, ij_updated_at := now\<rparr>))"

definition import_finalize_success_row :: "timestamp \<Rightarrow> ImportJob \<Rightarrow> ImportJob" where
  "import_finalize_success_row now job =
     (clear_async_diagnostic
        (job\<lparr>state := Import_PENDING_REVIEW, progress := 100, last_heartbeat_at := Some now,
             finished_at := Some now\<rparr>))\<lparr>ij_updated_at := now\<rparr>"

definition import_finalize_failure_row ::
  "timestamp \<Rightarrow> string \<Rightarrow> string \<Rightarrow> string option \<Rightarrow> ImportJob \<Rightarrow> ImportJob" where
  "import_finalize_failure_row now err err_type cd job =
     (let job1 = job\<lparr>state := Import_FAILURE, progress := 0, ij_error := Some err,
                     error_type := Some err_type, ij_code := str_or cd (ij_code job)\<rparr>
      in (apply_async_diagnostic Kind_IMPORT Op_FAILED (import_state_value (state job1))
            (ij_error job1) (dispatch_attempt_count job1) None job1)
           \<lparr>last_heartbeat_at := Some now, finished_at := Some now, ij_updated_at := now\<rparr>)"

section \<open>Row facts\<close>

lemma import_diagnostic_simps [simp]:
  "job_uuid (import_diagnostic st op r) = job_uuid r"
  "state (import_diagnostic st op r) = state r"
  "dispatch_status (import_diagnostic st op r) = dispatch_status r"
  "dispatch_attempt_count (import_diagnostic st op r) = dispatch_attempt_count r"
  "next_dispatch_at (import_diagnostic st op r) = next_dispatch_at r"
  "ij_dispatched_at (import_diagnostic st op r) = ij_dispatched_at r"
  "dispatch_started_at (import_diagnostic st op r) = dispatch_started_at r"
  "dispatch_error (import_diagnostic st op r) = dispatch_error r"
  "ij_code (import_diagnostic st op r) = ij_code r"
  "progress (import_diagnostic st op r) = progress r"
  "ij_id (import_diagnostic st op r) = ij_id r"
  by (simp_all add: import_diagnostic_def)

lemma reset_pipeline_simps [simp]:
  "job_uuid (reset_pipeline_state r) = job_uuid r"
  "state (reset_pipeline_state r) = Import_PENDING"
  "dispatch_status (reset_pipeline_state r) = dispatch_status r"
  "dispatch_attempt_count (reset_pipeline_state r) = dispatch_attempt_count r"
  "next_dispatch_at (reset_pipeline_state r) = next_dispatch_at r"
  "progress (reset_pipeline_state r) = 0"
  "ij_code (reset_pipeline_state r) = None"
  "ij_id (reset_pipeline_state r) = ij_id r"
  by (simp_all add: reset_pipeline_state_def)

lemma terminal_failure_simps [simp]:
  "job_uuid (import_terminal_failure st now err r) = job_uuid r"
  "state (import_terminal_failure st now err r) = Import_FAILURE"
  "dispatch_status (import_terminal_failure st now err r) = Dispatch_FAILED"
  "dispatch_attempt_count (import_terminal_failure st now err r) = dispatch_attempt_count r"
  "ij_code (import_terminal_failure st now err r) = Some ''feature_temporarily_unavailable''"
  by (simp_all add: import_terminal_failure_def)

lemma import_complete_row_simps [simp]:
  "dispatch_status (import_complete_row now r) = Dispatch_COMPLETED"
  "dispatch_attempt_count (import_complete_row now r) = dispatch_attempt_count r"
  "state (import_complete_row now r) = state r"
  by (simp_all add: import_complete_row_def)

lemma import_mark_due_row_simps [simp]:
  "dispatch_status (import_mark_due_row now r) = Dispatch_DISPATCHED"
  "dispatch_attempt_count (import_mark_due_row now r) = dispatch_attempt_count r"
  "state (import_mark_due_row now r) = state r"
  "ij_dispatched_at (import_mark_due_row now r) = Some now"
  "job_uuid (import_mark_due_row now r) = job_uuid r"
  by (simp_all add: import_mark_due_row_def)

lemma import_release_row_simps [simp]:
  "dispatch_attempt_count (import_release_dispatch_row st t now x r) = dispatch_attempt_count r"
  "dispatch_status (import_release_dispatch_row st t now x r) =
     (if dispatch_status r = Dispatch_DISPATCHED then Dispatch_PENDING else dispatch_status r)"
  by (simp_all add: import_release_dispatch_row_def Let_def)

lemma import_pipeline_row_simps [simp]:
  "dispatch_status (import_finalize_success_row now r) = dispatch_status r"
  "dispatch_attempt_count (import_finalize_success_row now r) = dispatch_attempt_count r"
  "state (import_finalize_success_row now r) = Import_PENDING_REVIEW"
  "dispatch_started_at (import_finalize_success_row now r) = dispatch_started_at r"
  "dispatch_status (import_finalize_failure_row now e et cd r) = dispatch_status r"
  "dispatch_attempt_count (import_finalize_failure_row now e et cd r) = dispatch_attempt_count r"
  "state (import_finalize_failure_row now e et cd r) = Import_FAILURE"
  by (simp_all add: import_finalize_success_row_def import_finalize_failure_row_def Let_def)

lemma import_update_progress_frame:
  "import_update_progress_row now s p cs cd e et t0 r = Some r' \<Longrightarrow>
   dispatch_status r' = dispatch_status r \<and> dispatch_attempt_count r' = dispatch_attempt_count r"
  by (auto simp: import_update_progress_row_def split: option.splits)

definition import_stale :: "import_settings \<Rightarrow> timestamp \<Rightarrow> ImportJob \<Rightarrow> bool" where
  "import_stale st now job \<longleftrightarrow> import_stale_dispatch st now job \<or> import_stale_processing st now job"

lemma import_stale_status:
  "import_stale st now job \<Longrightarrow> dispatch_status job \<in> {Dispatch_DISPATCHED, Dispatch_PROCESSING}"
  by (auto simp: import_stale_def import_stale_dispatch_def import_stale_processing_def)

lemma import_recover_kept: "\<not> import_stale st now r \<Longrightarrow> import_recover_row st now t r = r"
  by (auto simp: import_stale_def import_recover_row_def)

lemma import_recover_attempts [simp]:
  "dispatch_attempt_count (import_recover_row st now t r) = dispatch_attempt_count r"
  "job_uuid (import_recover_row st now t r) = job_uuid r"
  by (simp_all add: import_recover_row_def Let_def)

lemma import_recover_exhausted:
  "import_stale st now r \<Longrightarrow> IMPORT_DISPATCH_MAX_ATTEMPTS st \<le> dispatch_attempt_count r \<Longrightarrow>
   import_recover_row st now t r =
     import_terminal_failure st t ''Import worker delivery attempts exhausted'' r"
  using import_stale_status [of st now r] by (auto simp: import_stale_def import_recover_row_def)

lemma import_recover_retry:
  assumes "import_stale st now r" and "dispatch_attempt_count r < IMPORT_DISPATCH_MAX_ATTEMPTS st"
  shows "dispatch_status (import_recover_row st now t r) = Dispatch_PENDING"
    and "next_dispatch_at (import_recover_row st now t r) = now"
    and "state (import_recover_row st now t r) =
      (if import_stale_processing st now r then Import_PENDING else state r)"
    and "import_stale_processing st now r \<Longrightarrow>
      progress (import_recover_row st now t r) = 0 \<and> ij_code (import_recover_row st now t r) = None"
  using assms import_stale_status [OF assms(1)]
  by (auto simp: import_stale_def import_recover_row_def Let_def)

lemma import_recover_status:
  "dispatch_status (import_recover_row st now t r) \<in> {dispatch_status r, Dispatch_PENDING, Dispatch_FAILED}"
  by (auto simp: import_recover_row_def Let_def)

section \<open>Runs of a job\<close>

datatype import_event =
  IClaim import_db timestamp timestamp
| IComplete timestamp
| IRelease timestamp timestamp string
| IScan timestamp timestamp bool
| IProgress timestamp string int "string option" "string option" "string option" "string option"
    "timestamp option"
| ISuccess timestamp
| IFailure timestamp string string "string option"

fun import_step :: "import_settings \<Rightarrow> import_event \<Rightarrow> ImportJob \<Rightarrow> ImportJob \<times> bool" where
  "import_step st (IClaim db t t') r =
     (fst (import_claim_row st db t t' r), snd (import_claim_row st db t t' r) \<noteq> None)"
| "import_step st (IComplete t) r = (import_complete_row t r, False)"
| "import_step st (IRelease t t' x) r = (import_release_dispatch_row st t t' x r, False)"
| "import_step st (IScan t t' picked) r =
     ((if picked \<and> import_due st t r then import_mark_due_row t (import_recover_row st t t' r)
       else import_recover_row st t t' r), False)"
| "import_step st (IProgress t s p cs cd e et t0) r =
     ((case import_update_progress_row t s p cs cd e et t0 r of None \<Rightarrow> r | Some r' \<Rightarrow> r'), False)"
| "import_step st (ISuccess t) r = (import_finalize_success_row t r, False)"
| "import_step st (IFailure t e et cd) r = (import_finalize_failure_row t e et cd r, False)"

fun import_closes_attempt :: "import_event \<Rightarrow> bool" where
  "import_closes_attempt (IComplete _) = True"
| "import_closes_attempt (IScan _ _ _) = True"
| "import_closes_attempt _ = False"

definition import_claimable :: "import_settings \<Rightarrow> timestamp \<Rightarrow> ImportJob \<Rightarrow> bool" where
  "import_claimable st t r \<longleftrightarrow>
     state r = Import_PENDING \<and>
     dispatch_status r \<in> {Dispatch_PENDING, Dispatch_DISPATCHED, Dispatch_FAILED} \<and>
     dispatch_attempt_count r < IMPORT_DISPATCH_MAX_ATTEMPTS st \<and>
     (dispatch_status r = Dispatch_FAILED \<longrightarrow> next_dispatch_at r \<le> t)"

lemma import_claim_refused: "\<not> import_claimable st t r \<Longrightarrow> import_claim_row st db t now r = (r, None)"
  by (cases "dispatch_status r") (auto simp: import_claimable_def import_claim_row_def)

lemma import_claim_empty:
  "import_claimable st t r \<Longrightarrow> job_storage_keys db r = [] \<Longrightarrow>
   import_claim_row st db t now r =
     (import_terminal_failure st now ''Import job has no persisted uploads'' r, None)"
  by (auto simp: import_claimable_def import_claim_row_def)

lemma import_claim_handed:
  assumes "import_claimable st t r" and "job_storage_keys db r \<noteq> []"
  shows "dispatch_status (fst (import_claim_row st db t now r)) = Dispatch_PROCESSING"
    and "dispatch_attempt_count (fst (import_claim_row st db t now r)) = dispatch_attempt_count r + 1"
    and "dispatch_started_at (fst (import_claim_row st db t now r)) = Some now"
    and "state (fst (import_claim_row st db t now r)) = Import_PENDING"
    and "\<exists>p. snd (import_claim_row st db t now r) = Some p \<and> ip_job_uuid p = job_uuid r \<and>
      storage_keys p = job_storage_keys db r \<and> ip_attempt p = dispatch_attempt_count r + 1 \<and>
      ip_max_attempts p = IMPORT_DISPATCH_MAX_ATTEMPTS st"
  using assms by (auto simp: import_claimable_def import_claim_row_def Let_def)

lemma import_claim_cases:
  obtains (refused) "\<not> import_claimable st t r" "import_claim_row st db t now r = (r, None)"
  | (empty) "import_claimable st t r" "job_storage_keys db r = []" "import_claim_row st db t now r =
      (import_terminal_failure st now ''Import job has no persisted uploads'' r, None)"
  | (handed) "import_claimable st t r" "job_storage_keys db r \<noteq> []"
      "snd (import_claim_row st db t now r) \<noteq> None"
proof (cases "import_claimable st t r")
  case False
  then show thesis by (intro refused import_claim_refused)
next
  case True
  show thesis
  proof (cases "job_storage_keys db r = []")
    case True
    with \<open>import_claimable st t r\<close> show thesis by (intro empty import_claim_empty)
  next
    case False
    with True show thesis using import_claim_handed(5) [OF True False, of now] by (intro handed) auto
  qed
qed

interpretation import_rows: delivery_row "import_step st" "\<lambda>r. dispatch_status r = Dispatch_PROCESSING"
  dispatch_attempt_count "IMPORT_DISPATCH_MAX_ATTEMPTS st" import_closes_attempt for st
proof (unfold_locales, goal_cases)
  case (1 e r)
  show ?case
  proof (cases e)
    case (IClaim db t t')
    with 1 show ?thesis
      by (cases rule: import_claim_cases [of st t r db t'])
         (auto simp: import_claim_handed import_claimable_def)
  qed (use 1 in simp_all)
next
  case (2 e r)
  show ?case
  proof (cases e)
    case (IClaim db t t')
    with 2 show ?thesis by (cases rule: import_claim_cases [of st t r db t']) auto
  next
    case (IProgress t s p cs cd e' et t0)
    then show ?thesis by (auto split: option.split dest: import_update_progress_frame)
  qed (simp_all)
next
  case (3 r e)
  show ?case
  proof (cases e)
    case (IClaim db t t')
    with 3 show ?thesis
      by (cases rule: import_claim_cases [of st t r db t']) (auto simp: import_claimable_def)
  next
    case (IProgress t s p cs cd e' et t0)
    with 3 show ?thesis by (auto split: option.split dest: import_update_progress_frame)
  qed (use 3 in simp_all)
next
  case (4 e r)
  show ?case
  proof (cases e)
    case (IClaim db t t')
    with 4 show ?thesis by (cases rule: import_claim_cases [of st t r db t']) auto
  next
    case (IProgress t s p cs cd e' et t0)
    with 4 show ?thesis by (auto split: option.splits dest: import_update_progress_frame)
  next
    case (IScan t t' picked)
    with 4 show ?thesis using import_recover_status [of st t t' r] by (auto split: if_splits)
  qed (use 4 in \<open>auto split: if_splits\<close>)
qed

interpretation import_closed: closable_row "import_step st"
  "\<lambda>r. dispatch_status r = Dispatch_PROCESSING" dispatch_attempt_count
  "IMPORT_DISPATCH_MAX_ATTEMPTS st" import_closes_attempt
  "\<lambda>r. dispatch_status r = Dispatch_COMPLETED" for st
proof (unfold_locales, goal_cases)
  case (1 r e)
  show ?case
  proof (cases e)
    case (IClaim db t t')
    with 1 import_claim_refused [of st t r db t'] show ?thesis by (auto simp: import_claimable_def)
  next
    case (IProgress t s p cs cd e' et t0)
    with 1 show ?thesis by (auto split: option.split dest: import_update_progress_frame)
  next
    case (IScan t t' picked)
    have "import_recover_row st t t' r = r" using 1 by (simp add: import_recover_row_def)
    with 1 IScan show ?thesis by (simp add: import_due_def)
  qed (use 1 in simp_all)
next
  case (2 r e)
  show ?case
  proof (cases e)
    case (IClaim db t t')
    with 2 import_claim_refused [of st t r db t'] show ?thesis by (auto simp: import_claimable_def)
  qed simp_all
qed

section \<open>The scan on the table\<close>

lemma import_due_batch_sound:
  "j \<in> set (import_due_batch st locked now db) \<Longrightarrow> j \<in> set db \<and> import_due st now j \<and> \<not> locked j"
  using select_ordered_set [of "\<lambda>job. import_due st now job \<and> \<not> locked job" ij_created_at
      "nat (IMPORT_DISPATCH_BATCH_SIZE st)" db] by (auto simp: import_due_batch_def)

lemma import_due_batch_complete:
  "int (length (filter (\<lambda>job. import_due st now job \<and> \<not> locked job) db)) \<le> IMPORT_DISPATCH_BATCH_SIZE st \<Longrightarrow>
   set (import_due_batch st locked now db) = {j \<in> set db. import_due st now j \<and> \<not> locked j}"
  unfolding import_due_batch_def by (intro select_ordered_all) simp

lemma import_due_not_stale: "import_due st now r \<Longrightarrow> import_recover_row st now' t r = r"
  by (intro import_recover_kept) (auto simp: import_due_def dest: import_stale_status)

text \<open>What the scan makes of one row of a table with unique uuids.\<close>

definition import_scanned ::
  "import_settings \<Rightarrow> (ImportJob \<Rightarrow> bool) \<Rightarrow> timestamp \<Rightarrow> timestamp \<Rightarrow> ImportJob list \<Rightarrow> ImportJob \<Rightarrow>
   ImportJob" where
  "import_scanned st locked now t_fail db r =
     fst (import_step st (IScan now t_fail (r \<in> set (import_due_batch st locked now db))) r)"

lemma import_scan_table:
  assumes "unique_column job_uuid db"
  shows "import_recover_and_claim_due st locked now t_fail db =
    (map job_uuid (import_due_batch st locked now db), map (import_scanned st locked now t_fail db) db)"
proof -
  have "job_uuid r \<in> job_uuid ` set (import_due_batch st locked now db) \<longleftrightarrow>
      r \<in> set (import_due_batch st locked now db)" if "r \<in> set db" for r
  proof
    assume "job_uuid r \<in> job_uuid ` set (import_due_batch st locked now db)"
    then obtain r' where r': "r' \<in> set (import_due_batch st locked now db)" "job_uuid r' = job_uuid r"
      by force
    then have "r' \<in> set db" by (simp add: import_due_batch_sound)
    then have "r' = r" using r'(2) that assms
      by (auto simp: unique_column_def distinct_map dest: inj_onD)
    with r' show "r \<in> set (import_due_batch st locked now db)" by simp
  qed simp
  moreover have "r \<in> set (import_due_batch st locked now db) \<Longrightarrow> import_due st now r" for r
    by (simp add: import_due_batch_sound)
  ultimately show ?thesis
    by (auto simp: import_recover_and_claim_due_def import_scanned_def Let_def)
qed

lemma import_claim_found:
  assumes "unique_column job_uuid db" and "r \<in> set db"
  shows "import_claim st c t now (job_uuid r) db =
    (Inr (snd (import_claim_row st c t now r)),
     map (\<lambda>x. if job_uuid x = job_uuid r then fst (import_claim_row st c t now x) else x) db)"
  using on_row_value(1) [OF assms, of None "import_claim_row st c t now"]
    on_row_table [OF assms(1), of "job_uuid r" None "import_claim_row st c t now"]
  by (simp add: import_claim_def prod_eq_iff)

definition example_import_db :: import_db where
  "example_import_db = \<lparr>idb_job_uploads = [example_job_upload], idb_uploads = [example_upload],
     idb_blobs = [example_blob]\<rparr>"

lemma example_keys [simp]: "job_storage_keys example_import_db example_job = [''blobs/h'']"
  by (simp add: job_storage_keys_def example_import_db_def example_job_upload_def example_upload_def
      example_blob_def example_job_def)

section \<open>Properties\<close>



text \<open>C4. A claim starts the pipeline for jobs that wait only: the job is pending, was not started by
  another worker, has attempts left and, if it failed before, its delay has passed; the payload lists
  the stored uploads of the job, at least one, and the job is recorded as running under a fresh lease.
  A job without a stored upload is failed at once and for good, with a public error code.\<close>

theorem import_claim_outcome:
  assumes "unique_column job_uuid db" and "r \<in> set db"
  shows "(fst (import_claim st c t now (job_uuid r) db) = Inr (Some p) \<longrightarrow>
      state r = Import_PENDING \<and> dispatch_status r \<notin> {Dispatch_PROCESSING, Dispatch_COMPLETED} \<and>
      dispatch_attempt_count r < IMPORT_DISPATCH_MAX_ATTEMPTS st \<and>
      (dispatch_status r = Dispatch_FAILED \<longrightarrow> next_dispatch_at r \<le> t) \<and>
      ip_job_uuid p = job_uuid r \<and> storage_keys p = job_storage_keys c r \<and> storage_keys p \<noteq> [] \<and>
      ip_attempt p = dispatch_attempt_count r + 1 \<and> ip_attempt p \<le> ip_max_attempts p \<and>
      (\<exists>r' \<in> set (snd (import_claim st c t now (job_uuid r) db)).
         job_uuid r' = job_uuid r \<and> dispatch_status r' = Dispatch_PROCESSING \<and>
         dispatch_attempt_count r' = ip_attempt p \<and> dispatch_started_at r' = Some now)) \<and>
    (import_claimable st t r \<and> job_storage_keys c r = [] \<longrightarrow>
      fst (import_claim st c t now (job_uuid r) db) = Inr None \<and>
      (\<exists>r' \<in> set (snd (import_claim st c t now (job_uuid r) db)).
         job_uuid r' = job_uuid r \<and> state r' = Import_FAILURE \<and>
         ij_code r' = Some ''feature_temporarily_unavailable'' \<and>
         (\<forall>t' now'. \<not> import_claimable st t' r' \<and> \<not> import_due st t' r')))"
proof (intro conjI impI)
  note found = import_claim_found [OF assms, of st c t now]
  have mem: "fst (import_claim_row st c t now r) \<in> set (snd (import_claim st c t now (job_uuid r) db))"
    using assms(2) unfolding found by force
  have uuid: "job_uuid (fst (import_claim_row st c t now r)) = job_uuid r"
    by (auto simp: import_claim_row_def Let_def)
  {
    assume p: "fst (import_claim st c t now (job_uuid r) db) = Inr (Some p)"
    then have "snd (import_claim_row st c t now r) = Some p" by (simp add: found)
    then have ok: "import_claimable st t r" and keys: "job_storage_keys c r \<noteq> []"
      by (cases rule: import_claim_cases [of st t r c now]; simp)+
    note handed = import_claim_handed [OF ok keys, of now]
    show "state r = Import_PENDING"
      and "dispatch_status r \<notin> {Dispatch_PROCESSING, Dispatch_COMPLETED}"
      and "dispatch_attempt_count r < IMPORT_DISPATCH_MAX_ATTEMPTS st"
      using ok by (auto simp: import_claimable_def)
    show "dispatch_status r = Dispatch_FAILED \<Longrightarrow> next_dispatch_at r \<le> t"
      using ok by (auto simp: import_claimable_def)
    have pf: "ip_job_uuid p = job_uuid r" "storage_keys p = job_storage_keys c r"
        "ip_attempt p = dispatch_attempt_count r + 1" "ip_max_attempts p = IMPORT_DISPATCH_MAX_ATTEMPTS st"
      using handed(5) p by (auto simp: found)
    show "ip_job_uuid p = job_uuid r" and "storage_keys p = job_storage_keys c r"
      and "storage_keys p \<noteq> []" and "ip_attempt p = dispatch_attempt_count r + 1"
      and "ip_attempt p \<le> ip_max_attempts p"
      using pf keys ok by (simp_all add: import_claimable_def)
    show "\<exists>r' \<in> set (snd (import_claim st c t now (job_uuid r) db)).
         job_uuid r' = job_uuid r \<and> dispatch_status r' = Dispatch_PROCESSING \<and>
         dispatch_attempt_count r' = ip_attempt p \<and> dispatch_started_at r' = Some now"
      using mem uuid handed(1-3) pf by (intro bexI [OF _ mem]) simp
  next
    assume "import_claimable st t r \<and> job_storage_keys c r = []"
    then have e: "import_claim_row st c t now r =
        (import_terminal_failure st now ''Import job has no persisted uploads'' r, None)"
      by (simp add: import_claim_empty)
    then show "fst (import_claim st c t now (job_uuid r) db) = Inr None" by (simp add: found)
    show "\<exists>r' \<in> set (snd (import_claim st c t now (job_uuid r) db)).
         job_uuid r' = job_uuid r \<and> state r' = Import_FAILURE \<and>
         ij_code r' = Some ''feature_temporarily_unavailable'' \<and>
         (\<forall>t' now'. \<not> import_claimable st t' r' \<and> \<not> import_due st t' r')"
      using e by (intro bexI [OF _ mem]) (simp add: import_claimable_def import_due_def)
  }
qed

theorem import_claim_outcome_witness:
  "\<exists>p. fst (import_claim import_dispatch_defaults example_import_db 5 5 ''j'' [example_job]) = Inr (Some p) \<and>
     storage_keys p \<noteq> []"
proof -
  have c: "import_claimable import_dispatch_defaults 5 example_job"
    by (simp add: import_claimable_def example_job_def import_dispatch_defaults_def)
  obtain p where p: "snd (import_claim_row import_dispatch_defaults example_import_db 5 5 example_job) = Some p"
    using import_claim_handed(5) [OF c, of example_import_db 5] by auto
  have u: "unique_column job_uuid [example_job]" by (simp add: unique_column_def)
  have "fst (import_claim import_dispatch_defaults example_import_db 5 5 (job_uuid example_job) [example_job]) =
      Inr (Some p)"
    using import_claim_found [OF u, of example_job] p by simp
  with import_claim_outcome [OF u, of example_job import_dispatch_defaults example_import_db 5 5 p]
  show ?thesis by (auto simp: example_job_def)
qed



text \<open>The scan does not look at what the pipeline has achieved: when a worker finishes the pipeline
  and dies before it completes the delivery, the job waits for its review (or is confirmed meanwhile)
  while its delivery lease runs out, and the scan then puts the finished job back to \<open>PENDING\<close> with no
  progress, so that the next claim runs the pipeline a second time; with no attempts left it turns the
  finished job into a failure.\<close>

theorem import_scan_undoes_finished_job:
  assumes "dispatch_status r = Dispatch_PROCESSING" and "dispatch_started_at r = Some t0"
    and "t0 + timedelta_seconds (IMPORT_PROCESSING_TIMEOUT_SECONDS st) \<le> now"
    and "s \<in> {Import_PENDING_REVIEW, Import_CONFIRMED}"
  shows "let finished = (import_finalize_success_row t r)\<lparr>state := s\<rparr>;
             scanned = import_recover_row st now t_fail finished in
    (dispatch_attempt_count r < IMPORT_DISPATCH_MAX_ATTEMPTS st \<longrightarrow>
       state scanned = Import_PENDING \<and> progress scanned = 0 \<and> import_claimable st now scanned) \<and>
    (dispatch_attempt_count r \<ge> IMPORT_DISPATCH_MAX_ATTEMPTS st \<longrightarrow> state scanned = Import_FAILURE)"
proof -
  define f where "f = (import_finalize_success_row t r)\<lparr>state := s\<rparr>"
  have sp: "import_stale_processing st now f" "import_stale st now f"
    using assms by (auto simp: f_def import_stale_def import_stale_processing_def)
  have n: "dispatch_attempt_count f = dispatch_attempt_count r" by (simp add: f_def)
  show ?thesis
    unfolding f_def [symmetric] Let_def
    using sp n import_recover_retry [OF sp(2), of t_fail] import_recover_exhausted [OF sp(2), of t_fail]
    by (auto simp: import_claimable_def)
qed

theorem import_scan_undoes_finished_job_witness:
  "let finished = (import_finalize_success_row 5
           (example_job\<lparr>dispatch_status := Dispatch_PROCESSING, dispatch_attempt_count := 1,
                        dispatch_started_at := Some 0, state := Import_RUNNING\<rparr>))
           \<lparr>state := Import_CONFIRMED\<rparr>
   in state (import_recover_row import_dispatch_defaults 1200000000 1200000000 finished) = Import_PENDING"
  using import_scan_undoes_finished_job [of
      "example_job\<lparr>dispatch_status := Dispatch_PROCESSING, dispatch_attempt_count := 1,
                   dispatch_started_at := Some 0, state := Import_RUNNING\<rparr>" 0
      import_dispatch_defaults 1200000000 Import_CONFIRMED 5 1200000000]
  by (simp add: Let_def import_dispatch_defaults_def timedelta_seconds_def)

end
