(* ===== verification/Worker_Tasks.thy ===== *)
theory Worker_Tasks
  imports Mail_Outbox Playback_Outbox Render_Outbox Replay_Deletion_Outbox Import_Dispatch
begin

text \<open>
  The Celery side: producers (\<open>backend/app/worker/dispatch/\<close>), consumers
  (\<open>backend/app/worker/execution/\<close>) and the periodic scans that call the producers
  (\<open>backend/app/worker/execution/maintenance_dispatch.py\<close>). The broker, the mail provider, the
  renderers, the object store and the import pipeline are parameters: what a call to them returned.

  A task is not one transaction. It claims in a first one, works, and reports in another; whatever
  other processes do to the table in between is the parameter \<open>others\<close>.
\<close>

section \<open>Producers\<close>

type_synonym broker_message = "string \<times> string"

type_synonym 'db release_call = "string \<Rightarrow> 'db \<Rightarrow> (orm_error + unit) \<times> 'db"

fun orm_error_text :: "orm_error \<Rightarrow> string" where
  "orm_error_text MultipleResultsFound = ''Multiple rows were found when one or none was required''"

text \<open>
  \<open>send_durable_task\<close>: the message (task name and identity) is published, or the dispatch is released
  with the broker's error. The release stands inside the outer \<open>try\<close>, so when it raises it is called
  once more with its own error.
\<close>

definition send_durable_task ::
  "(broker_message \<Rightarrow> string option) \<Rightarrow> broker_message \<Rightarrow> 'db release_call \<Rightarrow> 'db \<Rightarrow>
   broker_message list \<Rightarrow> (orm_error + bool) \<times> 'db \<times> broker_message list" where
  "send_durable_task send msg release db queue =
     (case send msg of
        None \<Rightarrow> (Inr True, db, queue @ [msg])
      | Some err \<Rightarrow>
          (case release err db of
             (Inr _, db') \<Rightarrow> (Inr False, db', queue)
           | (Inl e, db') \<Rightarrow>
               (case release (orm_error_text e) db' of
                  (Inr _, db'') \<Rightarrow> (Inr False, db'', queue)
                | (Inl e', db'') \<Rightarrow> (Inl e', db'', queue))))"

text \<open>The shape of the four outbox producers: mark in one transaction, then publish.\<close>

definition dispatch_outbox ::
  "('db \<Rightarrow> (orm_error + bool) \<times> 'db) \<Rightarrow> (broker_message \<Rightarrow> string option) \<Rightarrow> broker_message \<Rightarrow>
   'db release_call \<Rightarrow> ('db \<Rightarrow> 'db) \<Rightarrow> 'db \<Rightarrow> broker_message list \<Rightarrow>
   (orm_error + bool) \<times> 'db \<times> broker_message list" where
  "dispatch_outbox mark send msg release others db queue =
     (case mark db of
        (Inl e, _) \<Rightarrow> (Inl e, db, queue)
      | (Inr False, db1) \<Rightarrow> (Inr False, db1, queue)
      | (Inr True, db1) \<Rightarrow> send_durable_task send msg release (others db1) queue)"

definition dispatch_mail_outbox ::
  "mail_settings \<Rightarrow> timestamp \<Rightarrow> timestamp \<Rightarrow> timestamp \<Rightarrow> (broker_message \<Rightarrow> string option) \<Rightarrow>
   (MailOutbox list \<Rightarrow> MailOutbox list) \<Rightarrow> string \<Rightarrow> MailOutbox list \<Rightarrow> broker_message list \<Rightarrow>
   (orm_error + bool) \<times> MailOutbox list \<times> broker_message list" where
  "dispatch_mail_outbox st t_check t_mark t_release send others uuid =
     dispatch_outbox (mail_mark_dispatched st t_check t_mark uuid) send
       (''app.worker.tasks.send_mail_outbox_task'', uuid)
       (\<lambda>err. mail_release_dispatch st t_release uuid err) others"

definition dispatch_playback_outbox ::
  "playback_settings \<Rightarrow> timestamp \<Rightarrow> timestamp \<Rightarrow> timestamp \<Rightarrow> (broker_message \<Rightarrow> string option) \<Rightarrow>
   (PlaybackOutbox list \<Rightarrow> PlaybackOutbox list) \<Rightarrow> string \<Rightarrow> PlaybackOutbox list \<Rightarrow>
   broker_message list \<Rightarrow> (orm_error + bool) \<times> PlaybackOutbox list \<times> broker_message list" where
  "dispatch_playback_outbox st t_check t_mark t_release send others uuid =
     dispatch_outbox (playback_mark_dispatched st t_check t_mark uuid) send
       (''app.worker.tasks.playback_outbox_task'', uuid)
       (\<lambda>err. playback_release_dispatch st t_release uuid err) others"

definition dispatch_render_outbox ::
  "render_settings \<Rightarrow> timestamp \<Rightarrow> timestamp \<Rightarrow> timestamp \<Rightarrow> (broker_message \<Rightarrow> string option) \<Rightarrow>
   (RenderOutbox list \<Rightarrow> RenderOutbox list) \<Rightarrow> string \<Rightarrow> RenderOutbox list \<Rightarrow> broker_message list \<Rightarrow>
   (orm_error + bool) \<times> RenderOutbox list \<times> broker_message list" where
  "dispatch_render_outbox st t_check t_mark t_release send others uuid =
     dispatch_outbox (render_mark_dispatched st t_check t_mark uuid) send
       (''app.worker.tasks.render_outbox_task'', uuid)
       (\<lambda>err. render_release_dispatch st t_release uuid err) others"

definition dispatch_practice_replay_object_deletion ::
  "replay_settings \<Rightarrow> timestamp \<Rightarrow> timestamp \<Rightarrow> timestamp \<Rightarrow> (broker_message \<Rightarrow> string option) \<Rightarrow>
   (PracticeReplayObjectDeletionOutbox list \<Rightarrow> PracticeReplayObjectDeletionOutbox list) \<Rightarrow> string \<Rightarrow>
   PracticeReplayObjectDeletionOutbox list \<Rightarrow> broker_message list \<Rightarrow>
   (orm_error + bool) \<times> PracticeReplayObjectDeletionOutbox list \<times> broker_message list" where
  "dispatch_practice_replay_object_deletion st t_check t_mark t_release send others uuid =
     dispatch_outbox (replay_mark_dispatched st t_check t_mark uuid) send
       (''app.worker.tasks.practice_replay_object_deletion_task'', uuid)
       (\<lambda>err. replay_release_dispatch t_release uuid err) others"

text \<open>
  The producer of import jobs does not mark: the scan has done so. It releases once more when reading
  the trace context or publishing raises.
\<close>

definition dispatch_import_job ::
  "import_settings \<Rightarrow> timestamp \<Rightarrow> timestamp \<Rightarrow> (broker_message \<Rightarrow> string option) \<Rightarrow> string \<Rightarrow>
   ImportJob list \<Rightarrow> broker_message list \<Rightarrow> (orm_error + bool) \<times> ImportJob list \<times> broker_message list" where
  "dispatch_import_job st t_next t_release send uuid db queue =
     (let release = (\<lambda>err db. import_release_dispatch st t_next t_release uuid err db);
          again = (\<lambda>e db. case release (orm_error_text e) db of
                     (Inr _, db') \<Rightarrow> (Inr False, db', queue)
                   | (Inl e', db') \<Rightarrow> (Inl e', db', queue))
      in case scalar_one_or_none (filter (\<lambda>j. job_uuid j = uuid) db) of
           Inl e \<Rightarrow> again e db
         | Inr _ \<Rightarrow>
             (case send_durable_task send (''app.worker.tasks.process_images_job'', uuid) release db queue of
                (Inl e, db', _) \<Rightarrow> again e db'
              | res \<Rightarrow> res))"

section \<open>Periodic scans\<close>

text \<open>
  \<open>sum(1 for uuid in due if dispatch(uuid))\<close>: the producers run one after another; an exception ends
  the scan.
\<close>

fun dispatch_all ::
  "(string \<Rightarrow> 'db \<Rightarrow> broker_message list \<Rightarrow> (orm_error + bool) \<times> 'db \<times> broker_message list) \<Rightarrow>
   string list \<Rightarrow> 'db \<Rightarrow> broker_message list \<Rightarrow> (orm_error + int) \<times> 'db \<times> broker_message list" where
  "dispatch_all dispatch [] db queue = (Inr 0, db, queue)"
| "dispatch_all dispatch (u # us) db queue =
     (case dispatch u db queue of
        (Inl e, db', queue') \<Rightarrow> (Inl e, db', queue')
      | (Inr ok, db', queue') \<Rightarrow>
          (case dispatch_all dispatch us db' queue' of
             (Inl e, db'', queue'') \<Rightarrow> (Inl e, db'', queue'')
           | (Inr n, db'', queue'') \<Rightarrow> (Inr ((if ok then 1 else 0) + n), db'', queue'')))"

text \<open>The result of a scan: how many rows were due and how many of them were dispatched.\<close>

definition run_maintenance ::
  "('db \<Rightarrow> string list \<times> 'db) \<Rightarrow>
   (string \<Rightarrow> 'db \<Rightarrow> broker_message list \<Rightarrow> (orm_error + bool) \<times> 'db \<times> broker_message list) \<Rightarrow>
   'db \<Rightarrow> broker_message list \<Rightarrow> (orm_error + int \<times> int) \<times> 'db \<times> broker_message list" where
  "run_maintenance recover dispatch db queue =
     (let (due, db1) = recover db in
      case dispatch_all dispatch due db1 queue of
        (Inl e, db2, queue2) \<Rightarrow> (Inl e, db2, queue2)
      | (Inr n, db2, queue2) \<Rightarrow> (Inr (int (length due), n), db2, queue2))"

definition execute_mail_outbox_maintenance ::
  "mail_settings \<Rightarrow> timestamp \<Rightarrow> timestamp \<Rightarrow> timestamp \<Rightarrow> timestamp \<Rightarrow>
   (broker_message \<Rightarrow> string option) \<Rightarrow> MailOutbox list \<Rightarrow> broker_message list \<Rightarrow>
   (orm_error + int \<times> int) \<times> MailOutbox list \<times> broker_message list" where
  "execute_mail_outbox_maintenance st now t_check t_mark t_release send =
     run_maintenance (mail_recover_and_list_due st now)
       (dispatch_mail_outbox st t_check t_mark t_release send id)"

definition execute_playback_outbox_maintenance ::
  "playback_settings \<Rightarrow> timestamp \<Rightarrow> timestamp \<Rightarrow> timestamp \<Rightarrow> timestamp \<Rightarrow>
   (broker_message \<Rightarrow> string option) \<Rightarrow> PlaybackOutbox list \<Rightarrow> broker_message list \<Rightarrow>
   (orm_error + int \<times> int) \<times> PlaybackOutbox list \<times> broker_message list" where
  "execute_playback_outbox_maintenance st now t_check t_mark t_release send =
     run_maintenance (playback_recover_and_list_due st now)
       (dispatch_playback_outbox st t_check t_mark t_release send id)"

definition execute_render_outbox_maintenance ::
  "render_settings \<Rightarrow> timestamp \<Rightarrow> timestamp \<Rightarrow> timestamp \<Rightarrow> timestamp \<Rightarrow>
   (broker_message \<Rightarrow> string option) \<Rightarrow> RenderOutbox list \<Rightarrow> broker_message list \<Rightarrow>
   (orm_error + int \<times> int) \<times> RenderOutbox list \<times> broker_message list" where
  "execute_render_outbox_maintenance st now t_check t_mark t_release send =
     run_maintenance (render_recover_and_list_due st now)
       (dispatch_render_outbox st t_check t_mark t_release send id)"

definition execute_practice_replay_object_deletion_maintenance ::
  "replay_settings \<Rightarrow> timestamp \<Rightarrow> timestamp \<Rightarrow> timestamp \<Rightarrow> timestamp \<Rightarrow>
   (broker_message \<Rightarrow> string option) \<Rightarrow> PracticeReplayObjectDeletionOutbox list \<Rightarrow>
   broker_message list \<Rightarrow>
   (orm_error + int \<times> int) \<times> PracticeReplayObjectDeletionOutbox list \<times> broker_message list" where
  "execute_practice_replay_object_deletion_maintenance st now t_check t_mark t_release send =
     run_maintenance (replay_recover_and_list_due st now)
       (dispatch_practice_replay_object_deletion st t_check t_mark t_release send id)"

definition execute_import_dispatch_maintenance ::
  "import_settings \<Rightarrow> (ImportJob \<Rightarrow> bool) \<Rightarrow> timestamp \<Rightarrow> timestamp \<Rightarrow> timestamp \<Rightarrow> timestamp \<Rightarrow>
   (broker_message \<Rightarrow> string option) \<Rightarrow> ImportJob list \<Rightarrow> broker_message list \<Rightarrow>
   (orm_error + int \<times> int) \<times> ImportJob list \<times> broker_message list" where
  "execute_import_dispatch_maintenance st locked now t_fail t_next t_release send =
     run_maintenance (import_recover_and_claim_due st locked now t_fail)
       (dispatch_import_job st t_next t_release send)"

section \<open>Consumers\<close>

text \<open>What ends a task with an exception: the persistence layer, or an exception that is raised on.\<close>

datatype task_error = Task_orm orm_error | Task_raised string

text \<open>
  The shape of a consumer: claim, and stop when nothing was handed out; otherwise work, and report the
  outcome. An outcome without a report is an exception that no handler catches: the row is left as
  it is, for the scan to recover. A report comes with the status the task returns, or with the
  exception that is raised again after it.
\<close>

definition run_outbox_task ::
  "('db \<Rightarrow> (orm_error + 'p option) \<times> 'db) \<Rightarrow> ('p \<Rightarrow> 'out) \<Rightarrow>
   ('p \<Rightarrow> 'out \<Rightarrow> ('db \<Rightarrow> (orm_error + unit) \<times> 'db) option \<times> (string + string)) \<Rightarrow>
   ('db \<Rightarrow> 'db) \<Rightarrow> string \<Rightarrow> 'db \<Rightarrow> (task_error + string) \<times> 'db" where
  "run_outbox_task claim work report others ignored db =
     (case claim db of
        (Inl e, _) \<Rightarrow> (Inl (Task_orm e), db)
      | (Inr None, db1) \<Rightarrow> (Inr ignored, db1)
      | (Inr (Some payload), db1) \<Rightarrow>
          (let db2 = others db1;
               (rep, ret) = report payload (work payload);
               result = (case ret of Inl raised \<Rightarrow> Inl (Task_raised raised) | Inr outcome \<Rightarrow> Inr outcome)
           in case rep of
                None \<Rightarrow> (result, db2)
              | Some r \<Rightarrow>
                  (case r db2 of
                     (Inl e, _) \<Rightarrow> (Inl (Task_orm e), db2)
                   | (Inr _, db3) \<Rightarrow> (result, db3))))"

subsection \<open>Mail\<close>

text \<open>What \<open>send_email\<close> did: the provider's message id, or one of its errors, or any other exception.\<close>

datatype mail_outcome =
  Mail_ok "string option"
| Mail_permanent_error string
| Mail_transient_error string
| Mail_other_error string

fun mail_report ::
  "mail_settings \<Rightarrow> timestamp \<Rightarrow> string \<Rightarrow> mail_outcome \<Rightarrow>
   (MailOutbox list \<Rightarrow> (orm_error + unit) \<times> MailOutbox list) option \<times> (string + string)" where
  "mail_report st t uuid (Mail_ok message_id) = (Some (mail_sent t uuid message_id), Inr ''sent'')"
| "mail_report st t uuid (Mail_permanent_error err) =
     (Some (mail_permanent_failure st t uuid err), Inr ''permanent_failure'')"
| "mail_report st t uuid (Mail_transient_error err) =
     (Some (mail_transient_failure st t uuid err), Inr ''failed'')"
| "mail_report st t uuid (Mail_other_error err) = (None, Inl err)"

definition execute_mail_outbox_task ::
  "mail_settings \<Rightarrow> timestamp \<Rightarrow> timestamp \<Rightarrow>
   (string \<Rightarrow> string \<Rightarrow> string \<Rightarrow> string option \<Rightarrow> mail_outcome) \<Rightarrow>
   (MailOutbox list \<Rightarrow> MailOutbox list) \<Rightarrow> string \<Rightarrow> MailOutbox list \<Rightarrow>
   (task_error + string) \<times> MailOutbox list" where
  "execute_mail_outbox_task st t_claim t_report send_email others uuid =
     run_outbox_task (mail_claim st t_claim uuid)
       (\<lambda>p. send_email (mp_recipient p) (mp_subject p) (mp_text_body p) (mp_html_body p))
       (\<lambda>p. mail_report st t_report uuid) others ''ignored''"

subsection \<open>Playback\<close>

text \<open>
  Any exception of the renderer is reported as a failure. Beside the result, the task publishes the
  status of the asset; \<open>asset_event\<close> is that message, None when nothing is published.
\<close>

datatype asset_event = Asset_event string string string string

definition execute_playback_outbox_task ::
  "playback_settings \<Rightarrow> Score list \<Rightarrow> ScoreRevision list \<Rightarrow> timestamp \<Rightarrow> timestamp \<Rightarrow> timestamp \<Rightarrow>
   (string \<Rightarrow> string \<Rightarrow> string \<Rightarrow> PlaybackAssetKind \<Rightarrow> string option) \<Rightarrow>
   (PlaybackOutbox list \<Rightarrow> PlaybackOutbox list) \<Rightarrow> string \<Rightarrow> PlaybackOutbox list \<Rightarrow>
   (task_error + string) \<times> PlaybackOutbox list" where
  "execute_playback_outbox_task st scores revisions t_check t_claim t_report render_sync others uuid =
     run_outbox_task (playback_claim st scores revisions t_check t_claim uuid)
       (\<lambda>p. render_sync (pp_score_uuid p) (pp_revision_uuid p) (pp_source_fingerprint p)
              (pp_asset_kind p))
       (\<lambda>p outcome. case outcome of
            Some err \<Rightarrow> (Some (playback_fail st t_report uuid err), Inr ''failed'')
          | None \<Rightarrow> (Some (playback_complete t_report uuid), Inr ''generated''))
       others ''ignored''"

definition playback_status_event :: "PlaybackOutboxPayload \<Rightarrow> string option \<Rightarrow> asset_event" where
  "playback_status_event p outcome =
     Asset_event (pp_score_uuid p) (pp_revision_uuid p) ''audio''
       (case outcome of None \<Rightarrow> ''ready'' | Some _ \<Rightarrow> ''failed'')"

subsection \<open>Rendering\<close>

text \<open>
  \<open>_render_target\<close>: the renderer of the payload's target, given a complete payload; the parameters
  return the error text of an exception, or the identity of the artifact.
\<close>

definition render_target_outcome ::
  "(string \<Rightarrow> string \<Rightarrow> string \<Rightarrow> string \<Rightarrow> string option) \<Rightarrow>
   (string \<Rightarrow> string \<Rightarrow> string + string option) \<Rightarrow> RenderOutboxPayload \<Rightarrow> string + string option" where
  "render_target_outcome render_for_worker render_thumbnail p =
     (case rp_target_type p of
        SCORE_REVISION \<Rightarrow>
          (case (rp_score_uuid p, rp_revision_uuid p, rp_user_id p) of
             (Some score, Some revision, Some _) \<Rightarrow>
               (case render_for_worker score revision (rp_source_fingerprint p) (rp_render_profile p) of
                  Some err \<Rightarrow> Inl err
                | None \<Rightarrow> Inr None)
           | _ \<Rightarrow> Inl ''Revision render payload is incomplete'')
      | REVIEW_THUMBNAIL \<Rightarrow>
          (case rp_job_uuid p of
             Some job \<Rightarrow> render_thumbnail job (rp_source_fingerprint p)
           | None \<Rightarrow> Inl ''Review thumbnail render payload is incomplete''))"

definition execute_render_outbox_task ::
  "render_settings \<Rightarrow> render_db \<Rightarrow> timestamp \<Rightarrow> timestamp \<Rightarrow> timestamp \<Rightarrow>
   (string \<Rightarrow> string \<Rightarrow> string \<Rightarrow> string \<Rightarrow> string option) \<Rightarrow>
   (string \<Rightarrow> string \<Rightarrow> string + string option) \<Rightarrow>
   (RenderOutbox list \<Rightarrow> RenderOutbox list) \<Rightarrow> string \<Rightarrow> RenderOutbox list \<Rightarrow>
   (task_error + string) \<times> RenderOutbox list" where
  "execute_render_outbox_task st ctx t_check t_claim t_report render_for_worker render_thumbnail
      others uuid =
     run_outbox_task (render_claim st ctx t_check t_claim uuid)
       (render_target_outcome render_for_worker render_thumbnail)
       (\<lambda>p outcome. case outcome of
            Inl err \<Rightarrow> (Some (render_fail st t_report uuid err), Inr ''failed'')
          | Inr _ \<Rightarrow> (Some (render_complete t_report uuid), Inr ''rendered''))
       others ''ignored''"

definition render_status_event ::
  "RenderOutboxPayload \<Rightarrow> string + string option \<Rightarrow> asset_event option" where
  "render_status_event p outcome =
     (if rp_target_type p \<noteq> SCORE_REVISION then None
      else case (rp_score_uuid p, rp_revision_uuid p) of
             (Some score, Some revision) \<Rightarrow>
               Some (Asset_event score revision ''preview''
                 (case outcome of Inl _ \<Rightarrow> ''failed'' | Inr _ \<Rightarrow> ''ready''))
           | _ \<Rightarrow> None)"

subsection \<open>Deletion of replay objects\<close>

text \<open>
  The object is deleted only in the backend it was stored in; \<open>delete_object\<close> returns the error of
  \<open>file_storage.delete\<close>, if it raised.
\<close>

definition replay_delete_outcome ::
  "string \<Rightarrow> (string \<Rightarrow> string option) \<Rightarrow> PracticeReplayObjectDeletionPayload \<Rightarrow> string option" where
  "replay_delete_outcome backend delete_object p =
     (if dp_storage_backend p \<noteq> backend
      then Some (''practice replay deletion storage backend mismatch: '' @ dp_storage_backend p @
                 '' != '' @ backend)
      else delete_object (dp_object_key p))"

definition execute_practice_replay_object_deletion_task ::
  "replay_settings \<Rightarrow> timestamp \<Rightarrow> timestamp \<Rightarrow> timestamp \<Rightarrow> string \<Rightarrow> (string \<Rightarrow> string option) \<Rightarrow>
   (PracticeReplayObjectDeletionOutbox list \<Rightarrow> PracticeReplayObjectDeletionOutbox list) \<Rightarrow> string \<Rightarrow>
   PracticeReplayObjectDeletionOutbox list \<Rightarrow>
   (task_error + string) \<times> PracticeReplayObjectDeletionOutbox list" where
  "execute_practice_replay_object_deletion_task st t_check t_claim t_report backend delete_object
      others uuid =
     run_outbox_task (replay_claim st t_check t_claim uuid)
       (replay_delete_outcome backend delete_object)
       (\<lambda>p outcome. case outcome of
            Some err \<Rightarrow> (Some (replay_fail st t_report uuid err), Inr ''failed'')
          | None \<Rightarrow> (Some (replay_complete t_report uuid), Inr ''deleted''))
       others ''ignored''"

subsection \<open>Import jobs\<close>

text \<open>
  The pipeline updates the job itself (that is part of \<open>others\<close>) and either returns or raises; in both
  cases the delivery is completed, and an exception is raised again.
\<close>

definition execute_import_job_task ::
  "import_settings \<Rightarrow> import_db \<Rightarrow> timestamp \<Rightarrow> timestamp \<Rightarrow> timestamp \<Rightarrow>
   (string list \<Rightarrow> json option \<Rightarrow> string option) \<Rightarrow> (ImportJob list \<Rightarrow> ImportJob list) \<Rightarrow> string \<Rightarrow>
   ImportJob list \<Rightarrow> (task_error + string) \<times> ImportJob list" where
  "execute_import_job_task st ctx t_check t_claim t_report run_pipeline others uuid =
     run_outbox_task (import_claim st ctx t_check t_claim uuid)
       (\<lambda>p. run_pipeline (storage_keys p) (ip_options p))
       (\<lambda>p outcome. (Some (import_complete t_report uuid),
          (case outcome of Some err \<Rightarrow> Inl err | None \<Rightarrow> Inr uuid)))
       others uuid"

section \<open>What a scan does with its due rows\<close>

text \<open>The interface between the producers and a service: how marking and releasing act on its rows.\<close>

locale outbox_producer =
  fixes key :: "'row \<Rightarrow> string"
    and mark :: "'row \<Rightarrow> 'row \<times> bool"
    and release :: "string \<Rightarrow> 'row \<Rightarrow> 'row"
    and task :: string
  assumes key_mark: "key (fst (mark r)) = key r"
    and key_release: "key (release x r) = key r"
begin

definition mark_call :: "string \<Rightarrow> 'row list \<Rightarrow> (orm_error + bool) \<times> 'row list" where
  "mark_call u db = on_row (\<lambda>r. key r = u) False mark db"

definition release_call :: "string \<Rightarrow> string \<Rightarrow> 'row list \<Rightarrow> (orm_error + unit) \<times> 'row list" where
  "release_call u err db = on_row (\<lambda>r. key r = u) () (\<lambda>r. (release err r, ())) db"

definition produce ::
  "(broker_message \<Rightarrow> string option) \<Rightarrow> string \<Rightarrow> 'row list \<Rightarrow> broker_message list \<Rightarrow>
   (orm_error + bool) \<times> 'row list \<times> broker_message list" where
  "produce send u = dispatch_outbox (mark_call u) send (task, u) (release_call u) id"

definition produced :: "(broker_message \<Rightarrow> string option) \<Rightarrow> 'row \<Rightarrow> 'row" where
  "produced send r = (case send (task, key r) of
      None \<Rightarrow> fst (mark r) | Some err \<Rightarrow> release err (fst (mark r)))"

lemma key_produced: "key (produced send r) = key r"
  by (simp add: produced_def key_mark key_release split: option.split)

lemma produce_row:
  assumes u: "unique_column key db" and r: "r \<in> set db" "snd (mark r)"
  shows "produce send (key r) db queue =
    (Inr (send (task, key r) = None), map (\<lambda>x. if key x = key r then produced send x else x) db,
     if send (task, key r) = None then queue @ [(task, key r)] else queue)"
proof -
  define db1 where "db1 = map (\<lambda>x. if key x = key r then fst (mark x) else x) db"
  have m: "mark_call (key r) db = (Inr True, db1)"
    using on_row_value(1) [OF u r(1), of False mark] on_row_table [OF u, of "key r" False mark] r(2)
    by (simp add: mark_call_def db1_def prod_eq_iff)
  have u1: "unique_column key db1"
    using map_row_unique [of key "\<lambda>x. fst (mark x)" "key r" db] u by (simp add: db1_def key_mark)
  have r1: "fst (mark r) \<in> set db1" using r(1) by (force simp: db1_def)
  have "release_call (key r) err db1 =
      (Inr (), map (\<lambda>x. if key x = key r then release err (fst (mark x)) else x) db)" for err
    using on_row_value(1) [OF u1 r1, of "()" "\<lambda>x. (release err x, ())"]
      on_row_table [OF u1, of "key r" "()" "\<lambda>x. (release err x, ())"]
    by (auto simp: release_call_def prod_eq_iff db1_def key_mark)
  then show ?thesis
    by (auto simp: produce_def dispatch_outbox_def m send_durable_task_def db1_def produced_def
        split: option.split)
qed

text \<open>Every row of the list that may be marked is marked and published, or released again.\<close>

lemma produce_all:
  assumes "unique_column key db" and "distinct us"
    and "\<forall>u \<in> set us. \<exists>r \<in> set db. key r = u \<and> snd (mark r)"
  shows "dispatch_all (produce send) us db queue =
    (Inr (int (length (filter (\<lambda>u. send (task, u) = None) us))),
     map (\<lambda>x. if key x \<in> set us then produced send x else x) db,
     queue @ map (Pair task) (filter (\<lambda>u. send (task, u) = None) us))"
  using assms
proof (induction us arbitrary: db queue)
  case Nil
  then show ?case by simp
next
  case (Cons u us)
  then obtain r where r: "r \<in> set db" "key r = u" "snd (mark r)" by auto
  define db1 where "db1 = map (\<lambda>x. if key x = u then produced send x else x) db"
  define queue1 where "queue1 = (if send (task, u) = None then queue @ [(task, u)] else queue)"
  have p: "produce send u db queue = (Inr (send (task, u) = None), db1, queue1)"
    using produce_row [OF Cons.prems(1) r(1,3), of send queue] r(2) by (simp add: db1_def queue1_def)
  have u1: "unique_column key db1"
    using map_row_unique [of key "produced send" u db] Cons.prems(1) by (simp add: db1_def key_produced)
  have "\<forall>v \<in> set us. \<exists>r \<in> set db1. key r = v \<and> snd (mark r)"
  proof
    fix v assume v: "v \<in> set us"
    with Cons.prems(3) obtain x where "x \<in> set db" "key x = v" "snd (mark x)" by auto
    moreover from v Cons.prems(2) have "v \<noteq> u" by auto
    ultimately show "\<exists>r \<in> set db1. key r = v \<and> snd (mark r)"
      by (intro bexI [of _ x]) (auto simp: db1_def image_iff)
  qed
  with u1 Cons.prems(2) have ih: "dispatch_all (produce send) us db1 queue1 =
    (Inr (int (length (filter (\<lambda>u. send (task, u) = None) us))),
     map (\<lambda>x. if key x \<in> set us then produced send x else x) db1,
     queue1 @ map (Pair task) (filter (\<lambda>u. send (task, u) = None) us))"
    by (intro Cons.IH) simp_all
  have "map (\<lambda>x. if key x \<in> set us then produced send x else x) db1 =
      map (\<lambda>x. if key x \<in> set (u # us) then produced send x else x) db"
    using Cons.prems(2) by (auto simp: db1_def key_produced)
  with p ih show ?case
    by (cases "send (task, u)") (simp_all add: queue1_def)
qed

end

interpretation mail_producer: outbox_producer outbox_uuid "mail_mark_dispatched_row st t_check t_mark"
  "mail_release_dispatch_row st t_release" "''app.worker.tasks.send_mail_outbox_task''"
  for st t_check t_mark t_release
  by unfold_locales simp_all

interpretation playback_producer: outbox_producer outbox_uuid
  "playback_mark_dispatched_row st t_check t_mark" "playback_release_dispatch_row st t_release"
  "''app.worker.tasks.playback_outbox_task''" for st t_check t_mark t_release
  by unfold_locales
    (use playback_mark_row_simps(5) playback_release_row_simps(4) in \<open>auto simp: playback_target_def\<close>)

interpretation render_producer: outbox_producer outbox_uuid
  "render_mark_dispatched_row st t_check t_mark" "render_release_dispatch_row st t_release"
  "''app.worker.tasks.render_outbox_task''" for st t_check t_mark t_release
  by unfold_locales
    (auto simp: render_mark_dispatched_row_def render_release_dispatch_row_def)

interpretation replay_producer: outbox_producer rd_outbox_uuid
  "replay_mark_dispatched_row st t_check t_mark" "replay_release_dispatch_row t_release"
  "''app.worker.tasks.practice_replay_object_deletion_task''" for st t_check t_mark t_release
  by unfold_locales (auto simp: replay_mark_dispatched_row_def replay_release_dispatch_row_def)

lemma dispatch_playback_produce:
  "dispatch_playback_outbox st t_check t_mark t_release send id =
   playback_producer.produce st t_check t_mark t_release send"
  by (simp add: fun_eq_iff dispatch_playback_outbox_def playback_producer.produce_def
      playback_producer.mark_call_def [abs_def] playback_producer.release_call_def [abs_def]
      playback_mark_dispatched_def [abs_def] playback_release_dispatch_def [abs_def])

lemma playback_due_kept: "playback_due st now r \<Longrightarrow> playback_scan_row st t r = r"
  using playback_lost_status [of st t r] by (cases "playback_lost st t r") (auto simp: playback_due_def)

lemma unique_map_keys:
  "(\<And>x. key (f x) = key x) \<Longrightarrow> unique_column key (map f rs) = unique_column key rs"
  by (simp add: unique_column_def o_def)

lemma distinct_select_keys:
  assumes "unique_column key rs"
  shows "distinct (map key (select_ordered p k n rs))"
proof -
  have "distinct (map key (filter p rs))"
    using assms by (simp add: unique_column_def distinct_map_filter)
  then have "distinct (map key (sort_key k (filter p rs)))"
    by (simp add: distinct_map)
  then show ?thesis by (simp add: select_ordered_def take_map [symmetric])
qed

section \<open>Properties\<close>

text \<open>One playback maintenance scan, in full: it lists the due rows (oldest first, one batch),
  marks each of them, and publishes one message for each; a row whose message the broker refused is
  released, pending again and still due, with its attempts untouched; rows whose lease ran out are
  recovered, and nothing else changes. The counts returned are the rows listed and the messages
  published.\<close>

theorem playback_maintenance_scan:
  assumes "unique_column outbox_uuid db" and "now \<le> t_check"
  shows "let listed = map outbox_uuid (select_ordered (playback_due st now) created_at
                        (nat (PLAYBACK_OUTBOX_DISPATCH_BATCH_SIZE st)) db);
             task = (\<lambda>u. (''app.worker.tasks.playback_outbox_task'', u));
             sent = filter (\<lambda>u. send (task u) = None) listed;
             (result, db', queue') =
               execute_playback_outbox_maintenance st now t_check t_mark t_release send db queue in
    result = Inr (int (length listed), int (length sent)) \<and> queue' = queue @ map task sent \<and>
    (\<forall>r \<in> set db. \<exists>r' \<in> set db'. outbox_uuid r' = outbox_uuid r \<and>
       attempt_count r' = attempt_count r \<and>
       (outbox_uuid r \<in> set sent \<longrightarrow> status r' = Playback_DISPATCHED) \<and>
       (outbox_uuid r \<in> set listed - set sent \<longrightarrow>
          status r' = Playback_PENDING \<and> playback_due st now r') \<and>
       (outbox_uuid r \<notin> set listed \<longrightarrow> r' = playback_scan_row st now r))"
proof -
  define listed where "listed = map outbox_uuid (select_ordered (playback_due st now) created_at
                        (nat (PLAYBACK_OUTBOX_DISPATCH_BATCH_SIZE st)) db)"
  define task where "task = (\<lambda>u :: string. (''app.worker.tasks.playback_outbox_task'', u))"
  define sent where "sent = filter (\<lambda>u. send (task u) = None) listed"
  define db1 where "db1 = map (playback_scan_row st now) db"
  define res where "res = playback_producer.produced st t_check t_mark t_release send"
  have uuid: "outbox_uuid (playback_scan_row st now x) = outbox_uuid x" for x
    using playback_scan_row_simps(5) [of st now x] by (simp add: playback_target_def)
  have u1: "unique_column outbox_uuid db1"
    using assms(1) uuid by (simp add: db1_def unique_map_keys)
  have member: "\<exists>r \<in> set db. outbox_uuid r = u \<and> playback_due st now r" if "u \<in> set listed" for u
    using that select_ordered_set [of "playback_due st now" created_at
        "nat (PLAYBACK_OUTBOX_DISPATCH_BATCH_SIZE st)" db]
    by (force simp: listed_def)
  have due_listed: "playback_due st now r" if "r \<in> set db" "outbox_uuid r \<in> set listed" for r
  proof -
    from member [OF that(2)] obtain x where x: "x \<in> set db" "outbox_uuid x = outbox_uuid r"
      "playback_due st now x" by blast
    with assms(1) that(1) have "x = r" by (auto simp: unique_column_def distinct_map dest: inj_onD)
    with x show ?thesis by simp
  qed
  have markable: "snd (playback_mark_dispatched_row st t_check t_mark r)" if "playback_due st now r" for r
    using that assms(2) by (auto simp: playback_due_def playback_is_dispatchable_def)
  have all: "\<forall>u \<in> set listed. \<exists>r \<in> set db1. outbox_uuid r = u \<and>
      snd (playback_mark_dispatched_row st t_check t_mark r)"
  proof
    fix u assume "u \<in> set listed"
    then obtain r where "r \<in> set db" "outbox_uuid r = u" "playback_due st now r" using member by blast
    then show "\<exists>r \<in> set db1. outbox_uuid r = u \<and> snd (playback_mark_dispatched_row st t_check t_mark r)"
      using markable [of r] playback_due_kept [of st now r now] by (force simp: db1_def)
  qed
  have run: "execute_playback_outbox_maintenance st now t_check t_mark t_release send db queue =
      (Inr (int (length listed), int (length sent)),
       map (\<lambda>x. if outbox_uuid x \<in> set listed then res x else x) db1, queue @ map task sent)"
    using playback_producer.produce_all [OF u1 distinct_select_keys [OF assms(1)] all [unfolded listed_def],
        where send = send and queue = queue and t_release = t_release]
    by (simp add: execute_playback_outbox_maintenance_def run_maintenance_def
        playback_recover_and_list_due_def dispatch_playback_produce Let_def db1_def res_def sent_def
        task_def listed_def)
  have "\<exists>r' \<in> set (map (\<lambda>x. if outbox_uuid x \<in> set listed then res x else x) db1).
       outbox_uuid r' = outbox_uuid r \<and> attempt_count r' = attempt_count r \<and>
       (outbox_uuid r \<in> set sent \<longrightarrow> status r' = Playback_DISPATCHED) \<and>
       (outbox_uuid r \<in> set listed - set sent \<longrightarrow> status r' = Playback_PENDING \<and> playback_due st now r') \<and>
       (outbox_uuid r \<notin> set listed \<longrightarrow> r' = playback_scan_row st now r)" if r: "r \<in> set db" for r
  proof (cases "outbox_uuid r \<in> set listed")
    case False
    then show ?thesis using r by (intro bexI [of _ "playback_scan_row st now r"])
        (auto simp: uuid db1_def sent_def)
  next
    case True
    note due = due_listed [OF r True]
    then have kept: "playback_scan_row st now r = r" by (rule playback_due_kept)
    have "res r \<in> set (map (\<lambda>x. if outbox_uuid x \<in> set listed then res x else x) db1)"
      using r True kept by (force simp: db1_def)
    moreover have "outbox_uuid (res r) = outbox_uuid r"
      unfolding res_def by (rule playback_producer.key_produced)
    moreover have disp: "playback_is_dispatchable st t_check r" using markable [OF due] by simp
    moreover have "next_attempt_at (playback_release_dispatch_row st t_release x
        (fst (playback_mark_dispatched_row st t_check t_mark r))) = next_attempt_at r" for x
      using disp by (simp add: playback_release_dispatch_row_def playback_mark_dispatched_row_def)
    ultimately show ?thesis using True due
      by (intro bexI [of _ "res r"])
         (auto simp: res_def playback_producer.produced_def sent_def task_def playback_due_def
          split: option.split)
  qed
  then show ?thesis
    unfolding listed_def [symmetric] task_def [symmetric] Let_def sent_def [symmetric] run by simp
qed

theorem playback_maintenance_scan_witness:
  "snd (snd (execute_playback_outbox_maintenance playback_delivery_defaults 5 6 7 8 (\<lambda>_. None)
     [example_playback] [])) = [(''app.worker.tasks.playback_outbox_task'', ''u'')]"
proof -
  have u: "unique_column outbox_uuid [example_playback]" by (simp add: unique_column_def)
  have l: "map outbox_uuid (select_ordered (playback_due playback_delivery_defaults 5) created_at
      (nat (PLAYBACK_OUTBOX_DISPATCH_BATCH_SIZE playback_delivery_defaults)) [example_playback]) = [''u'']"
    by (simp add: select_ordered_def playback_due_def example_playback_def new_playback_outbox_def
        playback_delivery_defaults_def)
  show ?thesis
    using playback_maintenance_scan [OF u, of 5 6 playback_delivery_defaults "\<lambda>_. None" 7 8 "[]"]
    unfolding l by (auto simp: Let_def split: prod.splits)
qed

text \<open>The events of one mail task on its row, while the events \<open>es\<close> of others come in between.\<close>

fun mail_outcome_events :: "timestamp \<Rightarrow> mail_outcome \<Rightarrow> mail_event list" where
  "mail_outcome_events t (Mail_ok m) = [MSent t m]"
| "mail_outcome_events t (Mail_permanent_error err) = [MPermanentFailure t err]"
| "mail_outcome_events t (Mail_transient_error err) = [MTransientFailure t err]"
| "mail_outcome_events t (Mail_other_error err) = []"

fun mail_outcome_status :: "mail_outcome \<Rightarrow> task_error + string" where
  "mail_outcome_status (Mail_ok m) = Inr ''sent''"
| "mail_outcome_status (Mail_permanent_error err) = Inr ''permanent_failure''"
| "mail_outcome_status (Mail_transient_error err) = Inr ''failed''"
| "mail_outcome_status (Mail_other_error err) = Inl (Task_raised err)"

definition mail_on_row :: "mail_settings \<Rightarrow> string \<Rightarrow> mail_event list \<Rightarrow> MailOutbox list \<Rightarrow> MailOutbox list" where
  "mail_on_row st u es db =
     map (\<lambda>x. if outbox_uuid x = u then fst (run_row (mail_step st) es x) else x) db"

lemma mail_step_uuid: "outbox_uuid (fst (mail_step st e r)) = outbox_uuid r"
  by (cases e) simp_all

lemma mail_run_uuid: "outbox_uuid (fst (run_row (mail_step st) es r)) = outbox_uuid r"
  by (induction es arbitrary: r) (simp_all add: Let_def split_beta mail_step_uuid)

lemma fst_run_append: "fst (run_row step (xs @ ys) r) = fst (run_row step ys (fst (run_row step xs r)))"
  by (induction xs arbitrary: r) (simp_all add: Let_def split_beta)

lemma mail_on_row_unique: "unique_column outbox_uuid db \<Longrightarrow> unique_column outbox_uuid (mail_on_row st u es db)"
  unfolding mail_on_row_def by (subst map_row_unique) (simp_all add: mail_run_uuid)

lemma mail_on_row_append:
  "mail_on_row st u ys (mail_on_row st u xs db) = mail_on_row st u (xs @ ys) db"
  by (auto simp: mail_on_row_def mail_run_uuid fst_run_append)

lemma mail_on_row_Nil: "mail_on_row st u [] db = db"
  by (auto simp: mail_on_row_def intro!: map_idI)

lemma mail_call_on_row:
  assumes "unique_column outbox_uuid db"
  shows "snd (on_row (\<lambda>x. outbox_uuid x = u) none f db) =
      map (\<lambda>x. if outbox_uuid x = u then fst (f x) else x) db"
    and "\<exists>a. fst (on_row (\<lambda>x. outbox_uuid x = u) () g db) = Inr a"
  using assms by (rule on_row_table) (rule on_row_Inr [OF assms])

lemma mail_report_on_row:
  assumes "unique_column outbox_uuid db"
  shows "case mail_report st t u out of
     (None, ret) \<Rightarrow> mail_outcome_events t out = [] \<and> mail_outcome_status out = Inl (Task_raised (projl ret))
       \<and> isl ret
   | (Some call, ret) \<Rightarrow> call db = (Inr (), mail_on_row st u (mail_outcome_events t out) db) \<and>
       \<not> isl ret \<and> mail_outcome_status out = Inr (projr ret)"
  using mail_call_on_row(1) [OF assms, of u "()"]
    mail_call_on_row(2) [OF assms, of u]
  by (cases out)
     (auto simp: mail_on_row_def mail_sent_def mail_permanent_failure_def mail_transient_failure_def
       prod_eq_iff Let_def)

text \<open>A mail task is a run of its row, whatever others do to the row between its two
  transactions: one claim, then (when the claim handed out the mail) exactly one report, which is the
  one for what the provider answered; an exception that is none of the provider's errors is raised on
  and leaves the row to the scan. The provider is called with what the claim handed out, and a task
  whose claim hands out nothing calls nobody and returns \<open>ignored\<close>.\<close>

theorem mail_task_is_run:
  assumes "unique_column outbox_uuid db" and "r \<in> set db"
  shows "execute_mail_outbox_task st t t' send_email (mail_on_row st (outbox_uuid r) es) (outbox_uuid r) db =
    (case snd (mail_claim_row st t r) of
       None \<Rightarrow> (Inr ''ignored'', mail_on_row st (outbox_uuid r) [MClaim t] db)
     | Some p \<Rightarrow>
         let out = send_email (mp_recipient p) (mp_subject p) (mp_text_body p) (mp_html_body p) in
         (mail_outcome_status out,
          mail_on_row st (outbox_uuid r) ([MClaim t] @ es @ mail_outcome_events t' out) db))"
proof -
  let ?u = "outbox_uuid r"
  have claim: "mail_claim st t ?u db = (Inr (snd (mail_claim_row st t r)), mail_on_row st ?u [MClaim t] db)"
    using on_row_value(1) [OF assms, of None "mail_claim_row st t"]
      mail_call_on_row(1) [OF assms(1), of ?u None "mail_claim_row st t"]
    by (simp add: mail_claim_def prod_eq_iff mail_on_row_def Let_def)
  show ?thesis
  proof (cases "snd (mail_claim_row st t r)")
    case None
    then show ?thesis by (simp add: execute_mail_outbox_task_def run_outbox_task_def claim)
  next
    case (Some p)
    define out where "out = send_email (mp_recipient p) (mp_subject p) (mp_text_body p) (mp_html_body p)"
    have db2: "mail_on_row st ?u es (mail_on_row st ?u [MClaim t] db) = mail_on_row st ?u (MClaim t # es) db"
      by (simp add: mail_on_row_append)
    have "unique_column outbox_uuid (mail_on_row st ?u (MClaim t # es) db)"
      using assms(1) by (rule mail_on_row_unique)
    from mail_report_on_row [OF this, where st = st and t = t' and u = ?u and out = out] Some show ?thesis
      by (cases out) (auto simp: execute_mail_outbox_task_def run_outbox_task_def claim Let_def
          out_def [symmetric] db2 mail_on_row_append)
  qed
qed

theorem mail_task_is_run_witness:
  "fst (execute_mail_outbox_task mail_delivery_defaults 1 2 (\<lambda>_ _ _ _. Mail_ok (Some ''id''))
     (mail_on_row mail_delivery_defaults ''u'' [MScan 2]) ''u''
     [new_mail_outbox ''u'' 0 0 0 None None None ''auth'' ''k'' ''a@b'' ''s'' ''t'' None None]) = Inr ''sent''"
proof -
  let ?r = "new_mail_outbox ''u'' 0 0 0 None None None ''auth'' ''k'' ''a@b'' ''s'' ''t'' None None"
  have u: "outbox_uuid ?r = ''u''" by (simp add: new_mail_outbox_def)
  have "snd (mail_claim_row mail_delivery_defaults 1 ?r) \<noteq> None"
    by (subst mail_claim_row_Some_iff) (simp add: new_mail_outbox_def mail_delivery_defaults_def)
  moreover have "unique_column outbox_uuid [?r]" by (simp add: unique_column_def)
  ultimately show ?thesis
    using mail_task_is_run [of "[?r]" ?r mail_delivery_defaults 1 2 "\<lambda>_ _ _ _. Mail_ok (Some ''id'')"
        "[MScan 2]"] unfolding u by (auto simp: Let_def)
qed



end
