(* ===== verification/App_Errors.thy ===== *)
theory App_Errors
  imports Prelude
begin

text \<open>
  The exceptions the services raise, \<open>backend/app/core/exceptions.py\<close>: an error code, an HTTP status
  and details. A service method is a function that returns \<open>Inl\<close> the exception or \<open>Inr\<close> its value,
  together with the state of the session. An exception of the persistence layer, that of a recursion that
  does not end, and any other one, with its text, are among the values.
\<close>

datatype detail = D_str string | D_int int

datatype app_exception =
  AppException string int "(string \<times> detail) list"
| OrmException orm_error
| RecursionError
| OtherException string

fun exception_code :: "app_exception \<Rightarrow> string" where
  "exception_code (AppException c s d) = c"
| "exception_code (OrmException e) = ''''"
| "exception_code RecursionError = ''''"
| "exception_code (OtherException s) = ''''"

fun exception_status :: "app_exception \<Rightarrow> int" where
  "exception_status (AppException c s d) = s"
| "exception_status (OrmException e) = 500"
| "exception_status RecursionError = 500"
| "exception_status (OtherException s) = 500"

definition unauthorized_exception :: "string \<Rightarrow> (string \<times> detail) list \<Rightarrow> app_exception" where
  "unauthorized_exception code details = AppException code 403 details"

definition resource_not_found_exception ::
  "string \<Rightarrow> string option \<Rightarrow> string \<Rightarrow> app_exception" where
  "resource_not_found_exception resource_type resource_id code =
     AppException code 404
       ((''resource_type'', D_str resource_type) #
        (case resource_id of
           None \<Rightarrow> [] | Some i \<Rightarrow> if i = [] then [] else [(''resource_id'', D_str i)]))"

definition resource_already_exists_exception :: "string \<Rightarrow> app_exception" where
  "resource_already_exists_exception resource_type =
     AppException ''resource_already_exists'' 409 [(''resource_type'', D_str resource_type)]"

definition validation_exception ::
  "string \<Rightarrow> string \<Rightarrow> (string \<times> detail) list \<Rightarrow> app_exception" where
  "validation_exception code field details =
     AppException code 422 ((if field = [] then [] else [(''field'', D_str field)]) @ details)"

definition business_rule_exception ::
  "string \<Rightarrow> string \<Rightarrow> (string \<times> detail) list \<Rightarrow> app_exception" where
  "business_rule_exception code rule details =
     AppException code 400 ((if rule = [] then [] else [(''rule'', D_str rule)]) @ details)"

definition conflict_exception :: "string \<Rightarrow> (string \<times> detail) list \<Rightarrow> app_exception" where
  "conflict_exception code details = AppException code 409 details"

definition external_service_exception :: "string \<Rightarrow> string \<Rightarrow> app_exception" where
  "external_service_exception service code = AppException code 503 [(''service'', D_str service)]"

text \<open>A query that may find two rows, as a step of a service method.\<close>

definition one_or_none :: "'r list \<Rightarrow> app_exception + 'r option" where
  "one_or_none rs =
     (case scalar_one_or_none rs of Inl e \<Rightarrow> Inl (OrmException e) | Inr x \<Rightarrow> Inr x)"

lemma one_or_none_simps [simp]:
  "one_or_none [] = Inr None" "one_or_none [r] = Inr (Some r)"
  by (simp_all add: one_or_none_def)

lemma one_or_none_Some: "one_or_none rs = Inr (Some r) \<longleftrightarrow> rs = [r]"
  by (cases rs rule: scalar_one_or_none.cases) (auto simp: one_or_none_def)

lemma one_or_none_None: "one_or_none rs = Inr None \<longleftrightarrow> rs = []"
  by (cases rs rule: scalar_one_or_none.cases) (auto simp: one_or_none_def)

section \<open>Sums over the rows of a table\<close>

definition row_total :: "('r \<Rightarrow> int) \<Rightarrow> ('r \<Rightarrow> bool) \<Rightarrow> 'r list \<Rightarrow> int" where
  "row_total f p rs = sum_list (map f (filter p rs))"

lemma row_total_simps [simp]:
  "row_total f p [] = 0"
  "row_total f p (r # rs) = (if p r then f r else 0) + row_total f p rs"
  "row_total f p (rs @ ss) = row_total f p rs + row_total f p ss"
  by (simp_all add: row_total_def)

lemma row_total_none: "(\<And>r. r \<in> set rs \<Longrightarrow> \<not> p r) \<Longrightarrow> row_total f p rs = 0"
  by (induction rs) auto

lemma row_total_nonneg: "(\<And>r. r \<in> set rs \<Longrightarrow> p r \<Longrightarrow> 0 \<le> f r) \<Longrightarrow> 0 \<le> row_total f p rs"
  by (induction rs) auto

lemma row_total_member:
  assumes "\<And>x. x \<in> set rs \<Longrightarrow> p x \<Longrightarrow> 0 \<le> f x" and "r \<in> set rs" and "p r"
  shows "f r \<le> row_total f p rs"
  using assms
proof (induction rs)
  case Nil
  then show ?case by simp
next
  case (Cons x xs)
  have "0 \<le> row_total f p xs" using Cons.prems(1) by (intro row_total_nonneg) auto
  moreover have "x \<noteq> r \<Longrightarrow> f r \<le> row_total f p xs" using Cons by auto
  moreover have "p x \<Longrightarrow> 0 \<le> f x" using Cons.prems(1) by simp
  ultimately show ?case using Cons.prems(3) by (cases "x = r") auto
qed

lemma row_total_cong:
  "(\<And>r. r \<in> set rs \<Longrightarrow> p r = q r \<and> (p r \<longrightarrow> f r = g r)) \<Longrightarrow> row_total f p rs = row_total g q rs"
  by (induction rs) auto

text \<open>Rewriting the row under one key changes a sum by that row's change.\<close>

lemma row_total_write:
  assumes "unique_column key rs" and "r \<in> set rs" and "key r' = key r"
  shows "row_total f p (map (\<lambda>x. if key x = key r' then r' else x) rs) =
    row_total f p rs - (if p r then f r else 0) + (if p r' then f r' else 0)"
  using assms
proof (induction rs)
  case Nil
  then show ?case by simp
next
  case (Cons x xs)
  show ?case
  proof (cases "x = r")
    case True
    then have "key r \<notin> key ` set xs" using Cons.prems(1) by (simp add: unique_column_def)
    then have "map (\<lambda>x. if key x = key r' then r' else x) xs = xs"
      using Cons.prems(3) by (intro map_idI) (metis imageI)
    with True Cons.prems(3) show ?thesis by simp
  next
    case False
    with Cons.prems have "r \<in> set xs" and u: "unique_column key xs" by (auto simp: unique_column_def)
    moreover have "key x \<noteq> key r"
      using Cons.prems(1) \<open>r \<in> set xs\<close> by (auto simp: unique_column_def)
    ultimately show ?thesis using Cons.IH [OF u] Cons.prems(3) by simp
  qed
qed

lemma set_write:
  assumes "unique_column key rs" and "r \<in> set rs" and "key r' = key r"
  shows "set (map (\<lambda>x. if key x = key r' then r' else x) rs) = insert r' {x \<in> set rs. key x \<noteq> key r}"
  using assms by auto

lemma unique_write:
  "unique_column key (map (\<lambda>x. if key x = key r' then r' else x) rs) = unique_column key rs"
proof -
  have "map key (map (\<lambda>x. if key x = key r' then r' else x) rs) = map key rs" by simp
  then show ?thesis by (simp only: unique_column_def)
qed

text \<open>Summing by group and then over the groups is summing over everything.\<close>

lemma row_total_group_one:
  assumes "unique_column key cs" and "k \<in> key ` set cs"
  shows "row_total (\<lambda>c. if key c = k then x else 0) (\<lambda>c. P (key c)) cs = (if P k then x else 0)"
  using assms
proof (induction cs)
  case Nil
  then show ?case by simp
next
  case (Cons c cs)
  show ?case
  proof (cases "key c = k")
    case True
    then have "k \<notin> key ` set cs" using Cons.prems(1) by (auto simp: unique_column_def)
    then have "row_total (\<lambda>c. if key c = k then x else 0) (\<lambda>c. P (key c)) cs = 0"
      by (induction cs) auto
    with True show ?thesis by simp
  next
    case False
    with Cons.prems have "k \<in> key ` set cs" and "unique_column key cs"
      by (auto simp: unique_column_def)
    with Cons.IH False show ?thesis by simp
  qed
qed

lemma row_total_add: "row_total (\<lambda>r. f r + g r) p rs = row_total f p rs + row_total g p rs"
  by (induction rs) auto

lemma row_total_group:
  assumes "unique_column key cs" and "\<And>e. e \<in> set es \<Longrightarrow> q e \<Longrightarrow> ek e \<in> key ` set cs"
  shows "row_total (\<lambda>c. row_total g (\<lambda>e. q e \<and> ek e = key c) es) (\<lambda>c. P (key c)) cs =
    row_total g (\<lambda>e. q e \<and> P (ek e)) es"
  using assms(2)
proof (induction es)
  case Nil
  have "row_total (\<lambda>c. 0) (\<lambda>c. P (key c)) cs = 0" by (induction cs) auto
  then show ?case by simp
next
  case (Cons e es)
  have split: "row_total (\<lambda>c. row_total g (\<lambda>e. q e \<and> ek e = key c) (e # es)) (\<lambda>c. P (key c)) cs =
      row_total (\<lambda>c. if q e \<and> ek e = key c then g e else 0) (\<lambda>c. P (key c)) cs +
      row_total (\<lambda>c. row_total g (\<lambda>e. q e \<and> ek e = key c) es) (\<lambda>c. P (key c)) cs"
    by (simp add: row_total_add)
  have "row_total (\<lambda>c. if q e \<and> ek e = key c then g e else 0) (\<lambda>c. P (key c)) cs =
      (if q e \<and> P (ek e) then g e else 0)"
  proof (cases "q e")
    case True
    then have "ek e \<in> key ` set cs" using Cons.prems by simp
    from row_total_group_one [OF assms(1) this, of "g e" P] True show ?thesis
      by (simp add: eq_commute)
  next
    case False
    have "row_total (\<lambda>c. 0) (\<lambda>c. P (key c)) cs = 0" by (induction cs) auto
    with False show ?thesis by simp
  qed
  with split Cons show ?case by simp
qed

end
