(* ===== verification/Storage_Usage.thy ===== *)
theory Storage_Usage
  imports App_Errors
begin

text \<open>
  Accounting of stored bytes: \<open>backend/app/db/models/storage_usage.py\<close> (rows),
  \<open>backend/app/modules/storage_usage/accounting.py\<close> (what an operation does to the rows),
  \<open>.../repository.py\<close> (queries) and \<open>.../service.py\<close> (operations). A quota account holds the bytes
  in use and the bytes reserved by open reservations; counters hold the same per category; events
  record every change of the bytes in use. Each method is a function of the session's rows; on an
  exception the second component is what the session holds when it is raised. The asynchronous and the
  synchronous methods of the service have the same body over two kinds of session.

  A call reads the clock at several places: \<open>clk n\<close> is the reading at its n-th place.
\<close>

section \<open>Rows\<close>

datatype StorageUsageCategory =
  Cat_SOURCE | Cat_UPLOAD | Cat_INPUT_ASSET | Cat_DERIVED_RENDER | Cat_DERIVED_AUDIO
| Cat_TEMP_IMPORT

definition storage_usage_categories :: "StorageUsageCategory list" where
  "storage_usage_categories =
     [Cat_SOURCE, Cat_UPLOAD, Cat_INPUT_ASSET, Cat_DERIVED_RENDER, Cat_DERIVED_AUDIO,
      Cat_TEMP_IMPORT]"

datatype StorageUsageReservationStatus = RESERVED | COMMITTED | RELEASED

record StorageQuotaPolicy =
  qp_id :: "int option"
  qp_plan_code :: string
  qp_quota_limit_bytes :: int
  qp_created_at :: timestamp
  qp_updated_at :: timestamp

record StorageUsageAccount =
  sa_user_id :: int
  plan_code :: string
  sa_used_bytes :: int
  sa_reserved_bytes :: int
  quota_limit_bytes :: int
  sa_created_at :: timestamp
  sa_updated_at :: timestamp

record StorageUsageCounter =
  cn_id :: "int option"
  cn_user_id :: int
  cn_category :: StorageUsageCategory
  cn_used_bytes :: int
  cn_reserved_bytes :: int
  cn_updated_at :: timestamp

record StorageUsageReservation =
  rs_id :: "int option"
  reservation_uuid :: string
  rs_user_id :: int
  rs_category :: StorageUsageCategory
  bytes_reserved :: int
  rs_counts_toward_quota :: bool
  rs_status :: StorageUsageReservationStatus
  rs_reason :: string
  rs_object_type :: "string option"
  rs_object_id :: "string option"
  rs_storage_key :: "string option"
  rs_created_at :: timestamp
  rs_updated_at :: timestamp

record StorageUsageEvent =
  ev_id :: "int option"
  ev_user_id :: int
  ev_category :: StorageUsageCategory
  delta_bytes :: int
  ev_counts_toward_quota :: bool
  ev_reason :: string
  ev_object_type :: "string option"
  ev_object_id :: "string option"
  ev_storage_key :: "string option"
  ev_created_at :: timestamp

record storage_db =
  policies :: "StorageQuotaPolicy list"
  accounts :: "StorageUsageAccount list"
  counters :: "StorageUsageCounter list"
  reservations :: "StorageUsageReservation list"
  events :: "StorageUsageEvent list"

section \<open>Accounting\<close>

definition default_plan_code :: string where
  "default_plan_code = ''FREE''"

definition counts_toward_quota :: "StorageUsageCategory \<Rightarrow> bool" where
  "counts_toward_quota c \<longleftrightarrow> c \<in> {Cat_SOURCE, Cat_UPLOAD, Cat_INPUT_ASSET}"

definition assert_quota_available :: "StorageUsageAccount \<Rightarrow> int \<Rightarrow> app_exception option" where
  "assert_quota_available account bytes_count =
     (if sa_used_bytes account + sa_reserved_bytes account + bytes_count \<le> quota_limit_bytes account
      then None
      else Some (validation_exception ''storage_quota_exceeded'' ''storage''
             [(''used_bytes'', D_int (sa_used_bytes account)),
              (''reserved_bytes'', D_int (sa_reserved_bytes account)),
              (''requested_bytes'', D_int bytes_count),
              (''limit_bytes'', D_int (quota_limit_bytes account))]))"

definition new_reservation ::
  "string \<Rightarrow> timestamp \<Rightarrow> int \<Rightarrow> StorageUsageCategory \<Rightarrow> int \<Rightarrow> bool \<Rightarrow> string \<Rightarrow>
   string option \<Rightarrow> string option \<Rightarrow> string option \<Rightarrow> StorageUsageReservation" where
  "new_reservation new_uuid now user cat n quota reason ot oid key = \<lparr>
     rs_id = None, reservation_uuid = new_uuid, rs_user_id = user, rs_category = cat,
     bytes_reserved = n, rs_counts_toward_quota = quota, rs_status = RESERVED, rs_reason = reason,
     rs_object_type = ot, rs_object_id = oid, rs_storage_key = key, rs_created_at = now,
     rs_updated_at = now\<rparr>"

definition new_usage_event ::
  "timestamp \<Rightarrow> int \<Rightarrow> StorageUsageCategory \<Rightarrow> int \<Rightarrow> bool \<Rightarrow> string \<Rightarrow> string option \<Rightarrow>
   string option \<Rightarrow> string option \<Rightarrow> StorageUsageEvent" where
  "new_usage_event now user cat delta quota reason ot oid key = \<lparr>
     ev_id = None, ev_user_id = user, ev_category = cat, delta_bytes = delta,
     ev_counts_toward_quota = quota, ev_reason = reason, ev_object_type = ot, ev_object_id = oid,
     ev_storage_key = key, ev_created_at = now\<rparr>"

definition apply_reservation_hold ::
  "(nat \<Rightarrow> timestamp) \<Rightarrow> StorageUsageAccount \<Rightarrow> StorageUsageCounter \<Rightarrow> int \<Rightarrow> bool \<Rightarrow>
   app_exception + StorageUsageAccount \<times> StorageUsageCounter" where
  "apply_reservation_hold clk account counter bytes_count quota =
     (let counter' = counter\<lparr>cn_reserved_bytes := cn_reserved_bytes counter + bytes_count,
                             cn_updated_at := clk 1\<rparr>
      in if quota
         then (case assert_quota_available account bytes_count of
                 Some e \<Rightarrow> Inl e
               | None \<Rightarrow> Inr (account\<lparr>sa_reserved_bytes := sa_reserved_bytes account + bytes_count,
                                      sa_updated_at := clk 0\<rparr>, counter'))
         else Inr (account, counter'))"

definition commit_reserved_usage ::
  "(nat \<Rightarrow> timestamp) \<Rightarrow> StorageUsageAccount \<Rightarrow> StorageUsageCounter \<Rightarrow> StorageUsageReservation \<Rightarrow>
   string option \<Rightarrow> string option \<Rightarrow> string option \<Rightarrow>
   StorageUsageAccount \<times> StorageUsageCounter \<times> StorageUsageReservation" where
  "commit_reserved_usage clk account counter reservation ot oid key =
     (let n = bytes_reserved reservation in
      (if rs_counts_toward_quota reservation
       then account\<lparr>sa_reserved_bytes := sa_reserved_bytes account - n,
                    sa_used_bytes := sa_used_bytes account + n, sa_updated_at := clk 0\<rparr>
       else account,
       counter\<lparr>cn_reserved_bytes := cn_reserved_bytes counter - n,
               cn_used_bytes := cn_used_bytes counter + n, cn_updated_at := clk 1\<rparr>,
       reservation\<lparr>rs_status := COMMITTED,
                   rs_object_type := str_or ot (rs_object_type reservation),
                   rs_object_id := str_or oid (rs_object_id reservation),
                   rs_storage_key := str_or key (rs_storage_key reservation),
                   rs_updated_at := clk 2\<rparr>))"

definition release_reserved_usage ::
  "(nat \<Rightarrow> timestamp) \<Rightarrow> StorageUsageAccount \<Rightarrow> StorageUsageCounter \<Rightarrow> StorageUsageReservation \<Rightarrow>
   StorageUsageAccount \<times> StorageUsageCounter \<times> StorageUsageReservation" where
  "release_reserved_usage clk account counter reservation =
     (let n = bytes_reserved reservation in
      (if rs_counts_toward_quota reservation
       then account\<lparr>sa_reserved_bytes := sa_reserved_bytes account - n, sa_updated_at := clk 0\<rparr>
       else account,
       counter\<lparr>cn_reserved_bytes := cn_reserved_bytes counter - n, cn_updated_at := clk 1\<rparr>,
       reservation\<lparr>rs_status := RELEASED, rs_updated_at := clk 2\<rparr>))"

definition release_used_usage ::
  "(nat \<Rightarrow> timestamp) \<Rightarrow> StorageUsageAccount \<Rightarrow> StorageUsageCounter \<Rightarrow> int \<Rightarrow> bool \<Rightarrow>
   StorageUsageAccount \<times> StorageUsageCounter \<times> int" where
  "release_used_usage clk account counter bytes_count quota =
     (let released = min bytes_count (cn_used_bytes counter) in
      (if quota
       then account\<lparr>sa_used_bytes := max (sa_used_bytes account - released) 0, sa_updated_at := clk 0\<rparr>
       else account,
       counter\<lparr>cn_used_bytes := max (cn_used_bytes counter - released) 0, cn_updated_at := clk 1\<rparr>,
       released))"

section \<open>Finding and creating rows\<close>

definition repository_account :: "int \<Rightarrow> storage_db \<Rightarrow> app_exception + StorageUsageAccount option" where
  "repository_account user db = one_or_none (filter (\<lambda>a. sa_user_id a = user) (accounts db))"

definition repository_policy :: "string \<Rightarrow> storage_db \<Rightarrow> app_exception + StorageQuotaPolicy option" where
  "repository_policy code db = one_or_none (filter (\<lambda>p. qp_plan_code p = code) (policies db))"

text \<open>The key of a counter is its user and category.\<close>

definition counter_key :: "StorageUsageCounter \<Rightarrow> int \<times> StorageUsageCategory" where
  "counter_key c = (cn_user_id c, cn_category c)"

definition repository_counter ::
  "int \<Rightarrow> StorageUsageCategory \<Rightarrow> storage_db \<Rightarrow> app_exception + StorageUsageCounter option" where
  "repository_counter user cat db = one_or_none (filter (\<lambda>c. counter_key c = (user, cat)) (counters db))"

definition repository_reservation ::
  "string \<Rightarrow> storage_db \<Rightarrow> app_exception + StorageUsageReservation option" where
  "repository_reservation uuid db =
     one_or_none (filter (\<lambda>r. reservation_uuid r = uuid) (reservations db))"

definition repository_counters :: "int \<Rightarrow> storage_db \<Rightarrow> StorageUsageCounter list" where
  "repository_counters user db = filter (\<lambda>c. cn_user_id c = user) (counters db)"

definition require_default_policy :: "storage_db \<Rightarrow> app_exception + StorageQuotaPolicy" where
  "require_default_policy db =
     (case repository_policy default_plan_code db of
        Inl e \<Rightarrow> Inl e
      | Inr (Some policy) \<Rightarrow> Inr policy
      | Inr None \<Rightarrow> Inl (resource_not_found_exception ''storage_quota_policy'' (Some default_plan_code)
                        ''quota_check_unavailable''))"

definition ensure_account ::
  "(nat \<Rightarrow> timestamp) \<Rightarrow> int \<Rightarrow> storage_db \<Rightarrow> (app_exception + StorageUsageAccount) \<times> storage_db" where
  "ensure_account clk user db =
     (case repository_account user db of
        Inl e \<Rightarrow> (Inl e, db)
      | Inr (Some account) \<Rightarrow> (Inr account, db)
      | Inr None \<Rightarrow>
          (case require_default_policy db of
             Inl e \<Rightarrow> (Inl e, db)
           | Inr policy \<Rightarrow>
               let account = \<lparr>sa_user_id = user, plan_code = qp_plan_code policy, sa_used_bytes = 0,
                     sa_reserved_bytes = 0, quota_limit_bytes = qp_quota_limit_bytes policy,
                     sa_created_at = clk 0, sa_updated_at = clk 1\<rparr>
               in (Inr account, db\<lparr>accounts := accounts db @ [account]\<rparr>)))"

definition ensure_counter ::
  "timestamp \<Rightarrow> int \<Rightarrow> StorageUsageCategory \<Rightarrow> storage_db \<Rightarrow>
   (app_exception + StorageUsageCounter) \<times> storage_db" where
  "ensure_counter now user cat db =
     (case repository_counter user cat db of
        Inl e \<Rightarrow> (Inl e, db)
      | Inr (Some counter) \<Rightarrow> (Inr counter, db)
      | Inr None \<Rightarrow>
          let counter = \<lparr>cn_id = None, cn_user_id = user, cn_category = cat, cn_used_bytes = 0,
                         cn_reserved_bytes = 0, cn_updated_at = now\<rparr>
          in (Inr counter, db\<lparr>counters := counters db @ [counter]\<rparr>))"

text \<open>The attributes of a mapped object are its row's: writing back an account and a counter.\<close>

definition put_usage :: "StorageUsageAccount \<Rightarrow> StorageUsageCounter \<Rightarrow> storage_db \<Rightarrow> storage_db" where
  "put_usage account counter db =
     db\<lparr>accounts := map (\<lambda>a. if sa_user_id a = sa_user_id account then account else a) (accounts db),
        counters := map (\<lambda>c. if counter_key c = counter_key counter then counter else c) (counters db)\<rparr>"

definition put_reservation :: "StorageUsageReservation \<Rightarrow> storage_db \<Rightarrow> storage_db" where
  "put_reservation reservation db =
     db\<lparr>reservations := map (\<lambda>r. if reservation_uuid r = reservation_uuid reservation
                                then reservation else r) (reservations db)\<rparr>"

section \<open>The service\<close>

record StorageReservationHandle =
  reservation_id :: string
  handle_bytes_reserved :: int

text \<open>Both rows of a user, as every operation loads them first.\<close>

definition load_usage ::
  "(nat \<Rightarrow> timestamp) \<Rightarrow> int \<Rightarrow> StorageUsageCategory \<Rightarrow> storage_db \<Rightarrow>
   (app_exception + StorageUsageAccount \<times> StorageUsageCounter) \<times> storage_db" where
  "load_usage clk user cat db =
     (case ensure_account clk user db of
        (Inl e, db1) \<Rightarrow> (Inl e, db1)
      | (Inr account, db1) \<Rightarrow>
          (case ensure_counter (clk 2) user cat db1 of
             (Inl e, db2) \<Rightarrow> (Inl e, db2)
           | (Inr counter, db2) \<Rightarrow> (Inr (account, counter), db2)))"

definition reserve ::
  "(nat \<Rightarrow> timestamp) \<Rightarrow> string \<Rightarrow> int \<Rightarrow> StorageUsageCategory \<Rightarrow> int \<Rightarrow> string \<Rightarrow> string option \<Rightarrow>
   string option \<Rightarrow> string option \<Rightarrow> storage_db \<Rightarrow>
   (app_exception + StorageReservationHandle) \<times> storage_db" where
  "reserve clk new_uuid user cat n reason ot oid key db =
     (if n \<le> 0
      then (Inl (validation_exception ''validation_error'' ''bytes_count'' [(''bytes_count'', D_int n)]), db)
      else case load_usage clk user cat db of
             (Inl e, db1) \<Rightarrow> (Inl e, db1)
           | (Inr (account, counter), db1) \<Rightarrow>
               let quota = counts_toward_quota cat in
               (case apply_reservation_hold (\<lambda>i. clk (3 + i)) account counter n quota of
                  Inl e \<Rightarrow> (Inl e, db1)
                | Inr (account', counter') \<Rightarrow>
                    let db2 = put_usage account' counter' db1;
                        reservation = new_reservation new_uuid (clk 5) user cat n quota reason ot oid key
                    in (Inr \<lparr>reservation_id = reservation_uuid reservation, handle_bytes_reserved = n\<rparr>,
                        db2\<lparr>reservations := reservations db2 @ [reservation]\<rparr>)))"

definition commit_reservation ::
  "(nat \<Rightarrow> timestamp) \<Rightarrow> string \<Rightarrow> string option \<Rightarrow> string option \<Rightarrow> string option \<Rightarrow> storage_db \<Rightarrow>
   (app_exception + unit) \<times> storage_db" where
  "commit_reservation clk rid ot oid key db =
     (case repository_reservation rid db of
        Inl e \<Rightarrow> (Inl e, db)
      | Inr None \<Rightarrow> (Inl (resource_not_found_exception ''storage_usage_reservation'' (Some rid)
                          ''resource_not_found''), db)
      | Inr (Some reservation) \<Rightarrow>
          if rs_status reservation \<noteq> RESERVED then (Inr (), db)
          else case load_usage clk (rs_user_id reservation) (rs_category reservation) db of
                 (Inl e, db1) \<Rightarrow> (Inl e, db1)
               | (Inr (account, counter), db1) \<Rightarrow>
                   let (account', counter', reservation') =
                         commit_reserved_usage (\<lambda>i. clk (3 + i)) account counter reservation ot oid key;
                       event = new_usage_event (clk 6) (rs_user_id reservation') (rs_category reservation')
                                 (bytes_reserved reservation') (rs_counts_toward_quota reservation')
                                 (rs_reason reservation') (rs_object_type reservation')
                                 (rs_object_id reservation') (rs_storage_key reservation');
                       db2 = put_reservation reservation' (put_usage account' counter' db1)
                   in (Inr (), db2\<lparr>events := events db2 @ [event]\<rparr>))"

definition release_reservation ::
  "(nat \<Rightarrow> timestamp) \<Rightarrow> string \<Rightarrow> storage_db \<Rightarrow> (app_exception + unit) \<times> storage_db" where
  "release_reservation clk rid db =
     (case repository_reservation rid db of
        Inl e \<Rightarrow> (Inl e, db)
      | Inr None \<Rightarrow> (Inr (), db)
      | Inr (Some reservation) \<Rightarrow>
          if rs_status reservation \<noteq> RESERVED then (Inr (), db)
          else case load_usage clk (rs_user_id reservation) (rs_category reservation) db of
                 (Inl e, db1) \<Rightarrow> (Inl e, db1)
               | (Inr (account, counter), db1) \<Rightarrow>
                   let (account', counter', reservation') =
                         release_reserved_usage (\<lambda>i. clk (3 + i)) account counter reservation
                   in (Inr (), put_reservation reservation' (put_usage account' counter' db1)))"

definition record_allocation ::
  "(nat \<Rightarrow> timestamp) \<Rightarrow> string \<Rightarrow> int \<Rightarrow> StorageUsageCategory \<Rightarrow> int \<Rightarrow> string \<Rightarrow> string option \<Rightarrow>
   string option \<Rightarrow> string option \<Rightarrow> storage_db \<Rightarrow> (app_exception + unit) \<times> storage_db" where
  "record_allocation clk new_uuid user cat n reason ot oid key db =
     (if n \<le> 0 then (Inr (), db)
      else case reserve clk new_uuid user cat n reason ot oid key db of
             (Inl e, db1) \<Rightarrow> (Inl e, db1)
           | (Inr handle, db1) \<Rightarrow>
               commit_reservation (\<lambda>i. clk (6 + i)) (reservation_id handle) ot oid key db1)"

definition record_release ::
  "(nat \<Rightarrow> timestamp) \<Rightarrow> int \<Rightarrow> StorageUsageCategory \<Rightarrow> int \<Rightarrow> string \<Rightarrow> string option \<Rightarrow>
   string option \<Rightarrow> string option \<Rightarrow> storage_db \<Rightarrow> (app_exception + unit) \<times> storage_db" where
  "record_release clk user cat n reason ot oid key db =
     (if n \<le> 0 then (Inr (), db)
      else case load_usage clk user cat db of
             (Inl e, db1) \<Rightarrow> (Inl e, db1)
           | (Inr (account, counter), db1) \<Rightarrow>
               let quota = counts_toward_quota cat;
                   (account', counter', released) =
                     release_used_usage (\<lambda>i. clk (3 + i)) account counter n quota;
                   event = new_usage_event (clk 5) user cat (- released) quota reason ot oid key;
                   db2 = put_usage account' counter' db1
               in (Inr (), db2\<lparr>events := events db2 @ [event]\<rparr>))"

text \<open>Reading the usage: the account, and one line per category.\<close>

record StorageUsageBreakdownRead =
  bd_category :: StorageUsageCategory
  bd_used_bytes :: int
  bd_reserved_bytes :: int
  bd_counts_toward_quota :: bool

record StorageUsageQuotaRead =
  qr_used_bytes :: int
  qr_reserved_bytes :: int
  qr_limit_bytes :: int
  qr_available_bytes :: int

record StorageUsageRead =
  quota_read :: StorageUsageQuotaRead
  breakdown :: "StorageUsageBreakdownRead list"

definition get_usage ::
  "(nat \<Rightarrow> timestamp) \<Rightarrow> int \<Rightarrow> storage_db \<Rightarrow> (app_exception + StorageUsageRead) \<times> storage_db" where
  "get_usage clk user db =
     (case ensure_account clk user db of
        (Inl e, db1) \<Rightarrow> (Inl e, db1)
      | (Inr account, db1) \<Rightarrow>
          let by_category = (\<lambda>cat. List.find (\<lambda>c. cn_category c = cat) (rev (repository_counters user db1)))
          in (Inr \<lparr>
                quota_read = \<lparr>
                  qr_used_bytes = sa_used_bytes account, qr_reserved_bytes = sa_reserved_bytes account,
                  qr_limit_bytes = quota_limit_bytes account,
                  qr_available_bytes =
                    max (quota_limit_bytes account - sa_used_bytes account - sa_reserved_bytes account) 0\<rparr>,
                breakdown = map (\<lambda>cat. \<lparr>
                    bd_category = cat,
                    bd_used_bytes = (case by_category cat of None \<Rightarrow> 0 | Some c \<Rightarrow> cn_used_bytes c),
                    bd_reserved_bytes = (case by_category cat of None \<Rightarrow> 0 | Some c \<Rightarrow> cn_reserved_bytes c),
                    bd_counts_toward_quota = counts_toward_quota cat\<rparr>) storage_usage_categories\<rparr>, db1))"

section \<open>The books balance\<close>

text \<open>What the sums range over: the quota counters of a user, the open reservations and the events of a
  counter.\<close>

definition quota_counter :: "int \<Rightarrow> StorageUsageCounter \<Rightarrow> bool" where
  "quota_counter user c \<longleftrightarrow> cn_user_id c = user \<and> counts_toward_quota (cn_category c)"

definition open_reservation :: "int \<times> StorageUsageCategory \<Rightarrow> StorageUsageReservation \<Rightarrow> bool" where
  "open_reservation k r \<longleftrightarrow> rs_status r = RESERVED \<and> (rs_user_id r, rs_category r) = k"

definition event_of :: "int \<times> StorageUsageCategory \<Rightarrow> StorageUsageEvent \<Rightarrow> bool" where
  "event_of k e \<longleftrightarrow> (ev_user_id e, ev_category e) = k"

definition storage_keys_ok :: "storage_db \<Rightarrow> bool" where
  "storage_keys_ok db \<longleftrightarrow>
     unique_column qp_plan_code (policies db) \<and> (\<forall>p \<in> set (policies db). 0 \<le> qp_quota_limit_bytes p) \<and>
     unique_column sa_user_id (accounts db) \<and> unique_column counter_key (counters db) \<and>
     unique_column reservation_uuid (reservations db)"

definition account_ok :: "storage_db \<Rightarrow> StorageUsageAccount \<Rightarrow> bool" where
  "account_ok db a \<longleftrightarrow>
     sa_used_bytes a = row_total cn_used_bytes (quota_counter (sa_user_id a)) (counters db) \<and>
     sa_reserved_bytes a = row_total cn_reserved_bytes (quota_counter (sa_user_id a)) (counters db) \<and>
     sa_used_bytes a + sa_reserved_bytes a \<le> quota_limit_bytes a"

definition counter_ok :: "storage_db \<Rightarrow> StorageUsageCounter \<Rightarrow> bool" where
  "counter_ok db c \<longleftrightarrow>
     0 \<le> cn_used_bytes c \<and>
     cn_reserved_bytes c = row_total bytes_reserved (open_reservation (counter_key c)) (reservations db) \<and>
     cn_used_bytes c = row_total delta_bytes (event_of (counter_key c)) (events db) \<and>
     cn_user_id c \<in> sa_user_id ` set (accounts db)"

definition reservation_ok :: "storage_db \<Rightarrow> StorageUsageReservation \<Rightarrow> bool" where
  "reservation_ok db r \<longleftrightarrow>
     0 < bytes_reserved r \<and> rs_counts_toward_quota r = counts_toward_quota (rs_category r) \<and>
     (rs_user_id r, rs_category r) \<in> counter_key ` set (counters db)"

definition storage_ok :: "storage_db \<Rightarrow> bool" where
  "storage_ok db \<longleftrightarrow>
     storage_keys_ok db \<and> (\<forall>a \<in> set (accounts db). account_ok db a) \<and>
     (\<forall>c \<in> set (counters db). counter_ok db c) \<and>
     (\<forall>r \<in> set (reservations db). reservation_ok db r) \<and>
     (\<forall>e \<in> set (events db). (ev_user_id e, ev_category e) \<in> counter_key ` set (counters db))"

lemma storage_okD:
  assumes "storage_ok db"
  shows "a \<in> set (accounts db) \<Longrightarrow> account_ok db a"
    and "c \<in> set (counters db) \<Longrightarrow> counter_ok db c"
    and "r \<in> set (reservations db) \<Longrightarrow> reservation_ok db r"
    and "e \<in> set (events db) \<Longrightarrow> (ev_user_id e, ev_category e) \<in> counter_key ` set (counters db)"
    and "storage_keys_ok db"
  using assms by (simp_all add: storage_ok_def)

lemma storage_okI:
  "storage_keys_ok db \<Longrightarrow> (\<And>a. a \<in> set (accounts db) \<Longrightarrow> account_ok db a) \<Longrightarrow>
   (\<And>c. c \<in> set (counters db) \<Longrightarrow> counter_ok db c) \<Longrightarrow>
   (\<And>r. r \<in> set (reservations db) \<Longrightarrow> reservation_ok db r) \<Longrightarrow>
   (\<And>e. e \<in> set (events db) \<Longrightarrow> (ev_user_id e, ev_category e) \<in> counter_key ` set (counters db)) \<Longrightarrow>
   storage_ok db"
  by (simp add: storage_ok_def)

lemma counter_reserved_nonneg:
  "storage_ok db \<Longrightarrow> c \<in> set (counters db) \<Longrightarrow> 0 \<le> cn_reserved_bytes c"
  using storage_okD(2,3)
  by (fastforce simp: counter_ok_def reservation_ok_def intro!: row_total_nonneg)

lemma counter_used_nonneg:
  "storage_ok db \<Longrightarrow> c \<in> set (counters db) \<Longrightarrow> 0 \<le> cn_used_bytes c"
  unfolding storage_ok_def counter_ok_def by blast

lemma account_nonneg:
  assumes "storage_ok db" and "a \<in> set (accounts db)"
  shows "0 \<le> sa_used_bytes a" and "0 \<le> sa_reserved_bytes a"
proof -
  have "account_ok db a" using assms by (rule storage_okD)
  moreover have "0 \<le> row_total cn_used_bytes (quota_counter (sa_user_id a)) (counters db)"
    using counter_used_nonneg [OF assms(1)] by (intro row_total_nonneg)
  moreover have "0 \<le> row_total cn_reserved_bytes (quota_counter (sa_user_id a)) (counters db)"
    using counter_reserved_nonneg [OF assms(1)] by (intro row_total_nonneg)
  ultimately show "0 \<le> sa_used_bytes a" and "0 \<le> sa_reserved_bytes a"
    by (simp_all add: account_ok_def)
qed

text \<open>A quota counter never holds more than its account.\<close>

lemma account_covers_counter:
  assumes "storage_ok db" and "a \<in> set (accounts db)" and "c \<in> set (counters db)"
    and "cn_user_id c = sa_user_id a" and "counts_toward_quota (cn_category c)"
  shows "cn_used_bytes c \<le> sa_used_bytes a"
proof -
  have "cn_used_bytes c \<le> row_total cn_used_bytes (quota_counter (sa_user_id a)) (counters db)"
    using assms counter_used_nonneg [OF assms(1)]
    by (intro row_total_member) (simp_all add: quota_counter_def)
  then show ?thesis using storage_okD(1) [OF assms(1,2)] by (simp add: account_ok_def)
qed

section \<open>Loading the rows\<close>

lemma ensure_account_ok:
  assumes ok: "storage_ok db" and run: "ensure_account clk u db = (res, db1)"
  shows "storage_ok db1" and "counters db1 = counters db" and "reservations db1 = reservations db"
    and "events db1 = events db" and "policies db1 = policies db"
    and "res = Inr a \<Longrightarrow> a \<in> set (accounts db1) \<and> sa_user_id a = u"
    and "set (accounts db) \<subseteq> set (accounts db1)"
proof -
  have uniq: "unique_column sa_user_id (accounts db)"
    using ok by (simp add: storage_ok_def storage_keys_ok_def)
  have all: "storage_ok db1 \<and> counters db1 = counters db \<and> reservations db1 = reservations db \<and>
    events db1 = events db \<and> policies db1 = policies db \<and>
    (\<forall>a. res = Inr a \<longrightarrow> a \<in> set (accounts db1) \<and> sa_user_id a = u) \<and>
    set (accounts db) \<subseteq> set (accounts db1)"
  proof (cases rule: unique_scalar_cases [OF uniq, of u])
    case (2 r)
    with run ok show ?thesis by (auto simp: ensure_account_def repository_account_def)
  next
    case 1
    show ?thesis
    proof (cases "require_default_policy db")
      case (Inl e)
      with 1 run ok show ?thesis by (auto simp: ensure_account_def repository_account_def)
    next
      case (Inr pol)
      then have "pol \<in> set (policies db)"
        by (auto simp: require_default_policy_def repository_policy_def one_or_none_Some filter_eq_Cons_iff
            split: sum.splits option.splits)
      then have lim: "0 \<le> qp_quota_limit_bytes pol"
        using ok by (simp add: storage_ok_def storage_keys_ok_def)
      define acc where "acc = \<lparr>sa_user_id = u, plan_code = qp_plan_code pol, sa_used_bytes = 0,
                     sa_reserved_bytes = 0, quota_limit_bytes = qp_quota_limit_bytes pol,
                     sa_created_at = clk 0, sa_updated_at = clk 1\<rparr>"
      have db1: "db1 = db\<lparr>accounts := accounts db @ [acc]\<rparr>" and res: "res = Inr acc"
        using run 1 Inr by (auto simp: ensure_account_def repository_account_def acc_def Let_def)
      have no_counter: "\<not> quota_counter u c" if "c \<in> set (counters db)" for c
        using ok that 1(2) by (auto simp: storage_ok_def counter_ok_def quota_counter_def)
      have "account_ok db1 acc"
        using no_counter lim
        by (simp add: account_ok_def acc_def db1 row_total_none [of "counters db" "quota_counter u"])
      moreover have "account_ok db1 a" if "a \<in> set (accounts db)" for a
        using storage_okD(1) [OF ok that] by (simp add: account_ok_def db1)
      moreover have "counter_ok db1 c" if "c \<in> set (counters db)" for c
        using storage_okD(2) [OF ok that] by (simp add: counter_ok_def db1)
      moreover have "reservation_ok db1 r" if "r \<in> set (reservations db)" for r
        using storage_okD(3) [OF ok that] by (simp add: reservation_ok_def db1)
      moreover have "storage_keys_ok db1"
        using storage_okD(5) [OF ok] 1(2)
        by (simp add: storage_keys_ok_def unique_column_def db1 acc_def)
      ultimately have "storage_ok db1"
        using storage_okD(4) [OF ok] by (intro storage_okI) (auto simp: db1)
      then show ?thesis by (auto simp: db1 res acc_def)
    qed
  qed
  show "storage_ok db1" and "counters db1 = counters db" and "reservations db1 = reservations db"
    and "events db1 = events db" and "policies db1 = policies db"
    and "res = Inr a \<Longrightarrow> a \<in> set (accounts db1) \<and> sa_user_id a = u"
    and "set (accounts db) \<subseteq> set (accounts db1)"
    using all by simp_all
qed

lemma ensure_counter_ok:
  assumes ok: "storage_ok db" and acc: "u \<in> sa_user_id ` set (accounts db)"
    and run: "ensure_counter now u k db = (res, db1)"
  shows "\<exists>c. res = Inr c \<and> storage_ok db1 \<and> accounts db1 = accounts db \<and> policies db1 = policies db \<and>
    reservations db1 = reservations db \<and> events db1 = events db \<and> c \<in> set (counters db1) \<and>
    counter_key c = (u, k) \<and> (counters db1 = counters db \<or>
      (u, k) \<notin> counter_key ` set (counters db) \<and> counters db1 = counters db @ [c] \<and>
      cn_used_bytes c = 0 \<and> cn_reserved_bytes c = 0)"
proof -
  have uniq: "unique_column counter_key (counters db)"
    using ok by (simp add: storage_ok_def storage_keys_ok_def)
  show ?thesis
  proof (cases rule: unique_scalar_cases [OF uniq, of "(u, k)"])
    case (2 r)
    with run ok show ?thesis by (auto simp: ensure_counter_def repository_counter_def)
  next
    case 1
    define c where "c = \<lparr>cn_id = None, cn_user_id = u, cn_category = k, cn_used_bytes = 0,
                         cn_reserved_bytes = 0, cn_updated_at = now\<rparr>"
    have db1: "db1 = db\<lparr>counters := counters db @ [c]\<rparr>" and res: "res = Inr c"
      using run 1 by (auto simp: ensure_counter_def repository_counter_def c_def Let_def)
    have key: "counter_key c = (u, k)" by (simp add: c_def counter_key_def)
    have "\<not> open_reservation (u, k) r" if "r \<in> set (reservations db)" for r
      using ok that 1(2) by (auto simp: storage_ok_def reservation_ok_def open_reservation_def)
    moreover have "\<not> event_of (u, k) e" if "e \<in> set (events db)" for e
      using ok that 1(2) by (auto simp: storage_ok_def event_of_def)
    ultimately have "counter_ok db1 c"
      using acc unfolding counter_ok_def key
      by (simp add: c_def db1 row_total_none [of "reservations db" "open_reservation (u, k)"]
          row_total_none [of "events db" "event_of (u, k)"])
    moreover have "counter_ok db1 x" if "x \<in> set (counters db)" for x
      using storage_okD(2) [OF ok that] by (simp add: counter_ok_def db1)
    moreover have "account_ok db1 a" if "a \<in> set (accounts db)" for a
      using storage_okD(1) [OF ok that] by (simp add: account_ok_def db1 c_def)
    moreover have "reservation_ok db1 r" if "r \<in> set (reservations db)" for r
      using storage_okD(3) [OF ok that] by (auto simp: reservation_ok_def db1)
    moreover have "storage_keys_ok db1"
      using storage_okD(5) [OF ok] 1(2)
      by (simp add: storage_keys_ok_def unique_column_def db1 key)
    ultimately have "storage_ok db1"
      using storage_okD(4) [OF ok] by (intro storage_okI) (auto simp: db1)
    then show ?thesis using 1(2) by (simp add: db1 res c_def counter_key_def)
  qed
qed

lemma load_usage_ok:
  assumes ok: "storage_ok db" and run: "load_usage clk u k db = (res, db1)"
  shows "storage_ok db1" and "reservations db1 = reservations db" and "events db1 = events db"
    and "policies db1 = policies db"
    and "res = Inr (a, c) \<Longrightarrow> a \<in> set (accounts db1) \<and> sa_user_id a = u \<and> c \<in> set (counters db1) \<and>
      counter_key c = (u, k)"
proof -
  obtain r0 db0 where e: "ensure_account clk u db = (r0, db0)" by (cases "ensure_account clk u db")
  note acc = ensure_account_ok [OF ok e]
  have all: "storage_ok db1 \<and> reservations db1 = reservations db \<and> events db1 = events db \<and>
      policies db1 = policies db \<and> (\<forall>a c. res = Inr (a, c) \<longrightarrow>
        a \<in> set (accounts db1) \<and> sa_user_id a = u \<and> c \<in> set (counters db1) \<and> counter_key c = (u, k))"
  proof (cases r0)
    case (Inl x)
    with run e acc show ?thesis by (auto simp: load_usage_def)
  next
    case (Inr a0)
    then have a0: "a0 \<in> set (accounts db0)" "sa_user_id a0 = u" using acc(6) by auto
    obtain r2 db2 where e2: "ensure_counter (clk 2) u k db0 = (r2, db2)"
      by (cases "ensure_counter (clk 2) u k db0")
    from a0 have "u \<in> sa_user_id ` set (accounts db0)" by auto
    from ensure_counter_ok [OF acc(1) this e2] run e Inr e2 a0 acc show ?thesis
      by (auto simp: load_usage_def)
  qed
  show "storage_ok db1" and "reservations db1 = reservations db" and "events db1 = events db"
    and "policies db1 = policies db"
    and "res = Inr (a, c) \<Longrightarrow> a \<in> set (accounts db1) \<and> sa_user_id a = u \<and> c \<in> set (counters db1) \<and>
      counter_key c = (u, k)"
    using all by simp_all
qed

section \<open>Writing the rows\<close>

text \<open>
  What an operation has to get right: the account moves as its counter does when the category counts,
  and the counter agrees with the reservations and events as they are afterwards.
\<close>

lemma put_usage_ok:
  assumes ok: "storage_ok db" and a: "a \<in> set (accounts db)" and c: "c \<in> set (counters db)"
    and user: "cn_user_id c = sa_user_id a"
    and a': "sa_user_id a' = sa_user_id a" and c': "cn_user_id c' = cn_user_id c" "cn_category c' = cn_category c"
    and quota: "counts_toward_quota (cn_category c) \<Longrightarrow>
      sa_used_bytes a' = sa_used_bytes a + (cn_used_bytes c' - cn_used_bytes c) \<and>
      sa_reserved_bytes a' = sa_reserved_bytes a + (cn_reserved_bytes c' - cn_reserved_bytes c)"
    and free: "\<not> counts_toward_quota (cn_category c) \<Longrightarrow>
      sa_used_bytes a' = sa_used_bytes a \<and> sa_reserved_bytes a' = sa_reserved_bytes a"
    and limit: "sa_used_bytes a' + sa_reserved_bytes a' \<le> quota_limit_bytes a'"
    and db': "policies db' = policies db" "accounts db' = accounts (put_usage a' c' db)"
      "counters db' = counters (put_usage a' c' db)"
    and used: "0 \<le> cn_used_bytes c'"
      "cn_used_bytes c' = row_total delta_bytes (event_of (counter_key c)) (events db')"
      "cn_reserved_bytes c' = row_total bytes_reserved (open_reservation (counter_key c)) (reservations db')"
    and others: "\<And>k. k \<noteq> counter_key c \<Longrightarrow>
      row_total delta_bytes (event_of k) (events db') = row_total delta_bytes (event_of k) (events db) \<and>
      row_total bytes_reserved (open_reservation k) (reservations db') =
        row_total bytes_reserved (open_reservation k) (reservations db)"
    and res: "unique_column reservation_uuid (reservations db')"
      "\<And>r. r \<in> set (reservations db') \<Longrightarrow> reservation_ok db r"
      "\<And>e. e \<in> set (events db') \<Longrightarrow> (ev_user_id e, ev_category e) \<in> counter_key ` set (counters db)"
  shows "storage_ok db'"
proof -
  have ua: "unique_column sa_user_id (accounts db)" and uc: "unique_column counter_key (counters db)"
    using ok by (simp_all add: storage_ok_def storage_keys_ok_def)
  have key: "counter_key c' = counter_key c" using c' by (simp add: counter_key_def)
  have accs: "set (accounts db') = insert a' {x \<in> set (accounts db). sa_user_id x \<noteq> sa_user_id a}"
    using set_write [OF ua a a'] by (simp add: db'(2) put_usage_def)
  have cns: "set (counters db') = insert c' {x \<in> set (counters db). counter_key x \<noteq> counter_key c}"
    using set_write [OF uc c key] by (simp add: db'(3) put_usage_def)
  have tot: "row_total f (quota_counter u) (counters db') = row_total f (quota_counter u) (counters db) +
      (if quota_counter u c then f c' - f c else 0)" for f u
    using row_total_write [OF uc c key, of f "quota_counter u"] c'
    by (auto simp: db'(3) put_usage_def quota_counter_def)
  have keys: "counter_key ` set (counters db') = counter_key ` set (counters db)"
    using c by (auto simp: cns key)
  have users: "sa_user_id ` set (accounts db') = sa_user_id ` set (accounts db)"
    using a by (auto simp: accs a')
  have "account_ok db' x" if "x \<in> set (accounts db')" for x
  proof (cases "x = a'")
    case True
    from storage_okD(1) [OF ok a] show ?thesis using True quota free limit user a'
      by (auto simp: account_ok_def tot quota_counter_def)
  next
    case False
    then have x: "x \<in> set (accounts db)" "sa_user_id x \<noteq> sa_user_id a" using that by (auto simp: accs)
    from storage_okD(1) [OF ok x(1)] show ?thesis using x(2) user by (auto simp: account_ok_def tot quota_counter_def)
  qed
  moreover have "counter_ok db' x" if "x \<in> set (counters db')" for x
  proof (cases "x = c'")
    case True
    have "cn_user_id c \<in> sa_user_id ` set (accounts db)" using a user by auto
    then show ?thesis using True used c' by (simp add: counter_ok_def key users)
  next
    case False
    then have x: "x \<in> set (counters db)" "counter_key x \<noteq> counter_key c" using that by (auto simp: cns)
    from storage_okD(2) [OF ok x(1)] show ?thesis using others [OF x(2)] by (simp add: counter_ok_def users)
  qed
  moreover have "storage_keys_ok db'"
    using ok res(1) by (simp add: storage_ok_def storage_keys_ok_def db' put_usage_def unique_write)
  ultimately show ?thesis
    using res(2,3) by (simp add: storage_ok_def reservation_ok_def keys)
qed

section \<open>Every operation keeps the books\<close>

lemma put_usage_simps [simp]:
  "policies (put_usage a c db) = policies db"
  "reservations (put_usage a c db) = reservations db"
  "events (put_usage a c db) = events db"
  "policies (put_reservation r db) = policies db"
  "accounts (put_reservation r db) = accounts db"
  "counters (put_reservation r db) = counters db"
  "events (put_reservation r db) = events db"
  by (simp_all add: put_usage_def put_reservation_def)

lemma account_limit: "storage_ok db \<Longrightarrow> a \<in> set (accounts db) \<Longrightarrow>
  sa_used_bytes a + sa_reserved_bytes a \<le> quota_limit_bytes a"
  using storage_okD(1) [of db a] by (simp add: account_ok_def)

lemma counter_sums:
  assumes "storage_ok db" and "c \<in> set (counters db)"
  shows "cn_reserved_bytes c = row_total bytes_reserved (open_reservation (counter_key c)) (reservations db)"
    and "cn_used_bytes c = row_total delta_bytes (event_of (counter_key c)) (events db)"
  using storage_okD(2) [OF assms] by (simp_all add: counter_ok_def)

lemma apply_hold_cases:
  assumes "apply_reservation_hold clk a c n q = Inr (a', c')"
  shows "sa_user_id a' = sa_user_id a \<and> quota_limit_bytes a' = quota_limit_bytes a \<and>
    sa_used_bytes a' = sa_used_bytes a \<and> sa_reserved_bytes a' = sa_reserved_bytes a + (if q then n else 0) \<and>
    cn_user_id c' = cn_user_id c \<and> cn_category c' = cn_category c \<and> cn_used_bytes c' = cn_used_bytes c \<and>
    cn_reserved_bytes c' = cn_reserved_bytes c + n \<and>
    (q \<longrightarrow> sa_used_bytes a + sa_reserved_bytes a + n \<le> quota_limit_bytes a)"
  using assms
  by (auto simp: apply_reservation_hold_def assert_quota_available_def Let_def
      split: if_splits option.splits)

lemma reserve_ok:
  assumes ok: "storage_ok db" and fresh: "uuid \<notin> reservation_uuid ` set (reservations db)"
  shows "storage_ok (snd (reserve clk uuid u k n reason ot oid key db))"
proof (cases "n \<le> 0")
  case True
  then show ?thesis using ok by (simp add: reserve_def)
next
  case False
  obtain r1 db1 where l: "load_usage clk u k db = (r1, db1)" by (cases "load_usage clk u k db")
  note load = load_usage_ok [OF ok l]
  show ?thesis
  proof (cases r1)
    case (Inl e)
    with l False load(1) show ?thesis by (simp add: reserve_def)
  next
    case (Inr ac)
    obtain a c where ac: "ac = (a, c)" by (cases ac)
    have m: "a \<in> set (accounts db1)" "sa_user_id a = u" "c \<in> set (counters db1)" "counter_key c = (u, k)"
      using load(5) [of a c] Inr ac by auto
    show ?thesis
    proof (cases "apply_reservation_hold (\<lambda>i. clk (3 + i)) a c n (counts_toward_quota k)")
      case (Inl e)
      with l Inr ac False load(1) show ?thesis by (simp add: reserve_def Let_def)
    next
      case hold: (Inr ac')
      obtain a' c' where ac': "ac' = (a', c')" by (cases ac')
      note h = apply_hold_cases [OF hold [unfolded ac']]
      define r where "r = new_reservation uuid (clk 5) u k n (counts_toward_quota k) reason ot oid key"
      have ck: "cn_user_id c = u" "cn_category c = k" using m(4) by (simp_all add: counter_key_def)
      have res: "snd (reserve clk uuid u k n reason ot oid key db) =
          (put_usage a' c' db1)\<lparr>reservations := reservations db1 @ [r]\<rparr>"
        using False l Inr ac hold ac' by (simp add: reserve_def Let_def r_def)
      have rf: "reservation_uuid r = uuid" "bytes_reserved r = n" "rs_user_id r = u" "rs_category r = k"
          "rs_status r = RESERVED" "rs_counts_toward_quota r = counts_toward_quota k"
        by (simp_all add: r_def new_reservation_def)
      have "reservation_ok db1 r"
        using False m(3,4) rf by (force simp: reservation_ok_def)
      then have rok: "reservation_ok db1 x" if "x \<in> set (reservations db1 @ [r])" for x
        using that storage_okD(3) [OF load(1)] by auto
      have uniq: "unique_column reservation_uuid (reservations db1 @ [r])"
        using fresh storage_okD(5) [OF load(1)]
        by (simp add: storage_keys_ok_def unique_column_def load(2) rf)
      show ?thesis
        unfolding res
        using False h ck m account_limit [OF load(1) m(1)] counter_sums [OF load(1) m(3)]
          counter_used_nonneg [OF load(1) m(3)] rf uniq rok storage_okD(4) [OF load(1)]
        by (intro put_usage_ok [OF load(1) m(1,3), of a' c'])
           (auto simp: open_reservation_def counter_key_def)
    qed
  qed
qed

lemma put_reservation_totals:
  assumes "unique_column reservation_uuid rs" and "r \<in> set rs" and "rs_status r = RESERVED"
    and "reservation_uuid r' = reservation_uuid r" and "rs_status r' \<noteq> RESERVED"
    and "k = (rs_user_id r, rs_category r)"
  shows "row_total bytes_reserved (open_reservation k')
      (map (\<lambda>x. if reservation_uuid x = reservation_uuid r' then r' else x) rs) =
    row_total bytes_reserved (open_reservation k') rs - (if k' = k then bytes_reserved r else 0)"
  using row_total_write [OF assms(1,2,4), of bytes_reserved "open_reservation k'"] assms
  by (auto simp: open_reservation_def)

lemma repository_reservation_found:
  "repository_reservation rid db = Inr (Some r) \<Longrightarrow> r \<in> set (reservations db) \<and> reservation_uuid r = rid"
  by (auto simp: repository_reservation_def one_or_none_Some filter_eq_Cons_iff)

text \<open>Closing a reservation, by commit or release: the same change but for where the bytes go.\<close>

lemma close_reservation_ok:
  assumes ok: "storage_ok db" and l: "load_usage clk (rs_user_id r) (rs_category r) db = (Inr (a, c), db1)"
    and r: "r \<in> set (reservations db)" "rs_status r = RESERVED"
    and r': "reservation_uuid r' = reservation_uuid r" "rs_status r' \<noteq> RESERVED" "reservation_ok db1 r \<Longrightarrow> reservation_ok db1 r'"
    and a': "sa_user_id a' = sa_user_id a" "quota_limit_bytes a' = quota_limit_bytes a"
    and c': "cn_user_id c' = cn_user_id c" "cn_category c' = cn_category c"
    and moved: "cn_reserved_bytes c' = cn_reserved_bytes c - bytes_reserved r"
      "cn_used_bytes c' = cn_used_bytes c + n" "n \<in> {0, bytes_reserved r}"
      "if rs_counts_toward_quota r
       then sa_reserved_bytes a' = sa_reserved_bytes a - bytes_reserved r \<and> sa_used_bytes a' = sa_used_bytes a + n
       else sa_reserved_bytes a' = sa_reserved_bytes a \<and> sa_used_bytes a' = sa_used_bytes a"
    and ev: "es = (if n = 0 then [] else [ev])" "delta_bytes ev = n" "event_of (rs_user_id r, rs_category r) ev"
  shows "storage_ok ((put_reservation r' (put_usage a' c' db1))\<lparr>events := events db1 @ es\<rparr>)"
proof -
  note load = load_usage_ok [OF ok l]
  have m: "a \<in> set (accounts db1)" "sa_user_id a = rs_user_id r" "c \<in> set (counters db1)"
      "counter_key c = (rs_user_id r, rs_category r)"
    using load(5) [of a c] by auto
  have ck: "cn_user_id c = rs_user_id r" "cn_category c = rs_category r"
    using m(4) by (simp_all add: counter_key_def)
  have r1: "r \<in> set (reservations db1)" using r(1) load(2) by simp
  then have rok: "reservation_ok db1 r" by (rule storage_okD [OF load(1)])
  then have pos: "0 < bytes_reserved r" and quota: "rs_counts_toward_quota r = counts_toward_quota (rs_category r)"
    by (simp_all add: reservation_ok_def)
  have uniq: "unique_column reservation_uuid (reservations db1)"
    using storage_okD(5) [OF load(1)] by (simp add: storage_keys_ok_def)
  let ?rs = "map (\<lambda>x. if reservation_uuid x = reservation_uuid r' then r' else x) (reservations db1)"
  have tot: "row_total bytes_reserved (open_reservation k') ?rs =
      row_total bytes_reserved (open_reservation k') (reservations db1) -
        (if k' = (rs_user_id r, rs_category r) then bytes_reserved r else 0)" for k'
    using put_reservation_totals [OF uniq r1 r(2) r'(1,2) refl, of k'] by simp
  have evt: "row_total delta_bytes (event_of k') es =
      (if k' = (rs_user_id r, rs_category r) then n else 0)" for k'
    using ev by (auto simp: event_of_def)
  have uniq': "unique_column reservation_uuid ?rs" using uniq by (simp only: unique_write)
  have rok': "reservation_ok db1 x" if "x \<in> set ?rs" for x
    using that set_write [OF uniq r1 r'(1)] r'(3) [OF rok] storage_okD(3) [OF load(1)] by auto
  have evk: "(ev_user_id e, ev_category e) \<in> counter_key ` set (counters db1)" if "e \<in> set (events db1 @ es)" for e
  proof -
    have "(rs_user_id r, rs_category r) \<in> counter_key ` set (counters db1)" using m(3,4) by force
    then show ?thesis
      using that storage_okD(4) [OF load(1)] ev by (auto simp: event_of_def split: if_splits)
  qed
  show ?thesis
    using moved pos quota ck m a' c' account_limit [OF load(1) m(1)] counter_sums [OF load(1) m(3)]
      counter_used_nonneg [OF load(1) m(3)]
    by (intro put_usage_ok [OF load(1) m(1,3), of a' c'])
       (auto simp: put_reservation_def tot evt uniq' rok' evk simp del: set_append split: if_splits)
qed

lemma commit_reservation_ok:
  assumes ok: "storage_ok db"
  shows "storage_ok (snd (commit_reservation clk rid ot oid key db))"
proof (cases "repository_reservation rid db")
  case (Inl e)
  then show ?thesis using ok by (simp add: commit_reservation_def)
next
  case (Inr x)
  show ?thesis
  proof (cases x)
    case None
    then show ?thesis using ok Inr by (simp add: commit_reservation_def)
  next
    case (Some r)
    then have r: "r \<in> set (reservations db)" using Inr repository_reservation_found by blast
    obtain r1 db1 where l: "load_usage clk (rs_user_id r) (rs_category r) db = (r1, db1)"
      by (cases "load_usage clk (rs_user_id r) (rs_category r) db")
    show ?thesis
    proof (cases "rs_status r = RESERVED")
      case False
      then show ?thesis using ok Inr Some by (simp add: commit_reservation_def)
    next
      case True
      show ?thesis
      proof (cases r1)
        case (Inl e)
        with l load_usage_ok(1) [OF ok l] True Some Inr show ?thesis
          by (simp add: commit_reservation_def)
      next
        case ac: (Inr ac)
        obtain a c where ac': "ac = (a, c)" by (cases ac)
        obtain a' c' r' where cm: "commit_reserved_usage (\<lambda>i. clk (3 + i)) a c r ot oid key = (a', c', r')"
          by (cases "commit_reserved_usage (\<lambda>i. clk (3 + i)) a c r ot oid key")
        then have f: "reservation_uuid r' = reservation_uuid r" "rs_status r' \<noteq> RESERVED"
            "rs_user_id r' = rs_user_id r" "rs_category r' = rs_category r" "bytes_reserved r' = bytes_reserved r"
            "rs_counts_toward_quota r' = rs_counts_toward_quota r"
            "sa_user_id a' = sa_user_id a" "quota_limit_bytes a' = quota_limit_bytes a"
            "cn_user_id c' = cn_user_id c" "cn_category c' = cn_category c"
            "cn_reserved_bytes c' = cn_reserved_bytes c - bytes_reserved r"
            "cn_used_bytes c' = cn_used_bytes c + bytes_reserved r"
            "if rs_counts_toward_quota r
             then sa_reserved_bytes a' = sa_reserved_bytes a - bytes_reserved r \<and>
                  sa_used_bytes a' = sa_used_bytes a + bytes_reserved r
             else sa_reserved_bytes a' = sa_reserved_bytes a \<and> sa_used_bytes a' = sa_used_bytes a"
          by (auto simp: commit_reserved_usage_def Let_def)
        have pos: "bytes_reserved r \<noteq> 0"
          using storage_okD(3) [OF ok r] by (simp add: reservation_ok_def)
        have "storage_ok ((put_reservation r' (put_usage a' c' db1))\<lparr>events := events db1 @
            (if bytes_reserved r = 0 then [] else [new_usage_event (clk 6) (rs_user_id r') (rs_category r')
               (bytes_reserved r') (rs_counts_toward_quota r') (rs_reason r') (rs_object_type r')
               (rs_object_id r') (rs_storage_key r')])\<rparr>)"
          by (rule close_reservation_ok [OF ok l [unfolded ac ac'] r True f(1,2) _ f(7-12) _ f(13) refl])
             (simp_all add: reservation_ok_def f new_usage_event_def event_of_def)
        then show ?thesis
          using l ac ac' cm True Some Inr pos by (simp add: commit_reservation_def Let_def)
      qed
    qed
  qed
qed

lemma release_reservation_ok:
  assumes ok: "storage_ok db"
  shows "storage_ok (snd (release_reservation clk rid db))"
proof (cases "repository_reservation rid db")
  case (Inl e)
  then show ?thesis using ok by (simp add: release_reservation_def)
next
  case (Inr x)
  show ?thesis
  proof (cases x)
    case None
    then show ?thesis using ok Inr by (simp add: release_reservation_def)
  next
    case (Some r)
    then have r: "r \<in> set (reservations db)" using Inr repository_reservation_found by blast
    obtain r1 db1 where l: "load_usage clk (rs_user_id r) (rs_category r) db = (r1, db1)"
      by (cases "load_usage clk (rs_user_id r) (rs_category r) db")
    show ?thesis
    proof (cases "rs_status r = RESERVED")
      case False
      then show ?thesis using ok Inr Some by (simp add: release_reservation_def)
    next
      case True
      show ?thesis
      proof (cases r1)
        case (Inl e)
        with l load_usage_ok(1) [OF ok l] True Some Inr show ?thesis
          by (simp add: release_reservation_def)
      next
        case ac: (Inr ac)
        obtain a c where ac': "ac = (a, c)" by (cases ac)
        obtain a' c' r' where cm: "release_reserved_usage (\<lambda>i. clk (3 + i)) a c r = (a', c', r')"
          by (cases "release_reserved_usage (\<lambda>i. clk (3 + i)) a c r")
        then have f: "reservation_uuid r' = reservation_uuid r" "rs_status r' \<noteq> RESERVED"
            "rs_user_id r' = rs_user_id r" "rs_category r' = rs_category r" "bytes_reserved r' = bytes_reserved r"
            "rs_counts_toward_quota r' = rs_counts_toward_quota r"
            "sa_user_id a' = sa_user_id a" "quota_limit_bytes a' = quota_limit_bytes a"
            "cn_user_id c' = cn_user_id c" "cn_category c' = cn_category c"
            "cn_reserved_bytes c' = cn_reserved_bytes c - bytes_reserved r"
            "cn_used_bytes c' = cn_used_bytes c + 0"
            "if rs_counts_toward_quota r
             then sa_reserved_bytes a' = sa_reserved_bytes a - bytes_reserved r \<and>
                  sa_used_bytes a' = sa_used_bytes a + 0
             else sa_reserved_bytes a' = sa_reserved_bytes a \<and> sa_used_bytes a' = sa_used_bytes a"
          by (auto simp: release_reserved_usage_def Let_def)
        define ev where "ev = new_usage_event 0 (rs_user_id r) (rs_category r) 0 False [] None None None"
        have ev: "delta_bytes ev = 0" "event_of (rs_user_id r, rs_category r) ev"
          by (simp_all add: ev_def new_usage_event_def event_of_def)
        have "storage_ok ((put_reservation r' (put_usage a' c' db1))\<lparr>events := events db1 @
            (if (0::int) = 0 then [] else [ev])\<rparr>)"
          by (rule close_reservation_ok [OF ok l [unfolded ac ac'] r True f(1,2) _ f(7-12) _ f(13) refl ev])
             (simp_all add: reservation_ok_def f)
        then show ?thesis
          using l ac ac' cm True Some Inr
          by (simp add: release_reservation_def Let_def put_reservation_def put_usage_def)
      qed
    qed
  qed
qed

lemma record_allocation_ok:
  assumes ok: "storage_ok db" and fresh: "uuid \<notin> reservation_uuid ` set (reservations db)"
  shows "storage_ok (snd (record_allocation clk uuid u k n reason ot oid key db))"
  using reserve_ok [OF ok fresh, of clk u k n reason ot oid key] ok
  by (cases "reserve clk uuid u k n reason ot oid key db")
     (auto simp: record_allocation_def split: sum.split intro: commit_reservation_ok)

lemma record_release_ok:
  assumes ok: "storage_ok db"
  shows "storage_ok (snd (record_release clk u k n reason ot oid key db))"
proof (cases "n \<le> 0")
  case True
  then show ?thesis using ok by (simp add: record_release_def)
next
  case False
  obtain r1 db1 where l: "load_usage clk u k db = (r1, db1)" by (cases "load_usage clk u k db")
  note load = load_usage_ok [OF ok l]
  show ?thesis
  proof (cases r1)
    case (Inl e)
    with l False load(1) show ?thesis by (simp add: record_release_def)
  next
    case (Inr ac)
    obtain a c where ac: "ac = (a, c)" by (cases ac)
    have m: "a \<in> set (accounts db1)" "sa_user_id a = u" "c \<in> set (counters db1)" "counter_key c = (u, k)"
      using load(5) [of a c] Inr ac by auto
    have ck: "cn_user_id c = u" "cn_category c = k" using m(4) by (simp_all add: counter_key_def)
    obtain a' c' d where rel: "release_used_usage (\<lambda>i. clk (3 + i)) a c n (counts_toward_quota k) = (a', c', d)"
      by (cases "release_used_usage (\<lambda>i. clk (3 + i)) a c n (counts_toward_quota k)")
    have cover: "counts_toward_quota k \<Longrightarrow> cn_used_bytes c \<le> sa_used_bytes a"
      using account_covers_counter [OF load(1) m(1,3)] ck m(2) by simp
    have f: "d = min n (cn_used_bytes c)" "sa_user_id a' = sa_user_id a"
        "quota_limit_bytes a' = quota_limit_bytes a" "sa_reserved_bytes a' = sa_reserved_bytes a"
        "cn_user_id c' = cn_user_id c" "cn_category c' = cn_category c"
        "cn_reserved_bytes c' = cn_reserved_bytes c" "cn_used_bytes c' = cn_used_bytes c - d"
        "sa_used_bytes a' = sa_used_bytes a - (if counts_toward_quota k then d else 0)"
      using rel cover counter_used_nonneg [OF load(1) m(3)]
      by (auto simp: release_used_usage_def Let_def)
    have d: "0 \<le> d" "d \<le> cn_used_bytes c"
      using False counter_used_nonneg [OF load(1) m(3)] by (auto simp: f(1))
    define ev where "ev = new_usage_event (clk 5) u k (- d) (counts_toward_quota k) reason ot oid key"
    have res: "snd (record_release clk u k n reason ot oid key db) =
        (put_usage a' c' db1)\<lparr>events := events db1 @ [ev]\<rparr>"
      using False l Inr ac rel by (simp add: record_release_def Let_def ev_def)
    have evf: "delta_bytes ev = - d" "ev_user_id ev = u" "ev_category ev = k"
      by (simp_all add: ev_def new_usage_event_def)
    have keyc: "(u, k) \<in> counter_key ` set (counters db1)" using m(3,4) by force
    have uniq: "unique_column reservation_uuid (reservations db1)"
      using storage_okD(5) [OF load(1)] by (simp add: storage_keys_ok_def)
    have evk: "(ev_user_id e, ev_category e) \<in> counter_key ` set (counters db1)"
      if "e \<in> set (events db1 @ [ev])" for e
      using that storage_okD(4) [OF load(1)] evf keyc by auto
    show ?thesis
      unfolding res
      using f d ck m evf account_limit [OF load(1) m(1)] counter_sums [OF load(1) m(3)] uniq
        storage_okD(3) [OF load(1)] evk
      by (intro put_usage_ok [OF load(1) m(1,3), of a' c']) (auto simp: event_of_def counter_key_def)
  qed
qed

lemma get_usage_ok: "storage_ok db \<Longrightarrow> storage_ok (snd (get_usage clk u db))"
  using ensure_account_ok(1) [of db clk u]
  by (cases "ensure_account clk u db") (auto simp: get_usage_def Let_def split: sum.split)

text \<open>The synchronous methods: the same bodies over a synchronous session.\<close>

definition reserve_sync ::
  "(nat \<Rightarrow> timestamp) \<Rightarrow> string \<Rightarrow> int \<Rightarrow> StorageUsageCategory \<Rightarrow> int \<Rightarrow> string \<Rightarrow> string option \<Rightarrow>
   string option \<Rightarrow> string option \<Rightarrow> storage_db \<Rightarrow>
   (app_exception + StorageReservationHandle) \<times> storage_db" where
  "reserve_sync = reserve"

definition commit_reservation_sync ::
  "(nat \<Rightarrow> timestamp) \<Rightarrow> string \<Rightarrow> string option \<Rightarrow> string option \<Rightarrow> string option \<Rightarrow> storage_db \<Rightarrow>
   (app_exception + unit) \<times> storage_db" where
  "commit_reservation_sync = commit_reservation"

definition release_reservation_sync ::
  "(nat \<Rightarrow> timestamp) \<Rightarrow> string \<Rightarrow> storage_db \<Rightarrow> (app_exception + unit) \<times> storage_db" where
  "release_reservation_sync = release_reservation"

definition record_allocation_sync ::
  "(nat \<Rightarrow> timestamp) \<Rightarrow> string \<Rightarrow> int \<Rightarrow> StorageUsageCategory \<Rightarrow> int \<Rightarrow> string \<Rightarrow> string option \<Rightarrow>
   string option \<Rightarrow> string option \<Rightarrow> storage_db \<Rightarrow> (app_exception + unit) \<times> storage_db" where
  "record_allocation_sync = record_allocation"

definition record_release_sync ::
  "(nat \<Rightarrow> timestamp) \<Rightarrow> int \<Rightarrow> StorageUsageCategory \<Rightarrow> int \<Rightarrow> string \<Rightarrow> string option \<Rightarrow>
   string option \<Rightarrow> string option \<Rightarrow> storage_db \<Rightarrow> (app_exception + unit) \<times> storage_db" where
  "record_release_sync = record_release"

end
