(* ===== verification/Storage_Ledger.thy ===== *)
theory Storage_Ledger
  imports Storage_Usage
begin

text \<open>
  What the storage accounting promises. The abstract ledger has, for every user and category, the bytes
  in use and the bytes held; holding, settling, releasing and freeing are pointwise updates of it.
  The operations of \<open>backend/app/modules/storage_usage/service.py\<close> on their five tables are these
  updates (\<open>ledger_of\<close> is the abstraction), the account row of a user always is the total of the quota
  categories, and the tables agree with the reservations and the event log in every state the service
  can reach.
\<close>

section \<open>The ledger\<close>

type_synonym usage_key = "int \<times> StorageUsageCategory"

record ledger =
  lg_used :: "usage_key \<Rightarrow> int"
  lg_held :: "usage_key \<Rightarrow> int"

definition ledger_of :: "storage_db \<Rightarrow> ledger" where
  "ledger_of db = \<lparr>
     lg_used = (\<lambda>k. row_total cn_used_bytes (\<lambda>c. counter_key c = k) (counters db)),
     lg_held = (\<lambda>k. row_total cn_reserved_bytes (\<lambda>c. counter_key c = k) (counters db))\<rparr>"

definition ledger_total :: "(usage_key \<Rightarrow> int) \<Rightarrow> int \<Rightarrow> int" where
  "ledger_total f user = f (user, Cat_SOURCE) + f (user, Cat_UPLOAD) + f (user, Cat_INPUT_ASSET)"

definition ledger_hold :: "usage_key \<Rightarrow> int \<Rightarrow> ledger \<Rightarrow> ledger" where
  "ledger_hold k n l = l\<lparr>lg_held := (lg_held l)(k := lg_held l k + n)\<rparr>"

definition ledger_use :: "usage_key \<Rightarrow> int \<Rightarrow> ledger \<Rightarrow> ledger" where
  "ledger_use k n l = l\<lparr>lg_used := (lg_used l)(k := lg_used l k + n)\<rparr>"

text \<open>The limit that applies to a user: that of the account, or of the default plan before the first use.\<close>

definition user_limit :: "int \<Rightarrow> storage_db \<Rightarrow> int" where
  "user_limit user db =
     (case List.find (\<lambda>a. sa_user_id a = user) (accounts db) of
        Some a \<Rightarrow> quota_limit_bytes a
      | None \<Rightarrow> (case List.find (\<lambda>p. qp_plan_code p = default_plan_code) (policies db) of
                   Some p \<Rightarrow> qp_quota_limit_bytes p | None \<Rightarrow> 0))"

definition has_default_policy :: "storage_db \<Rightarrow> bool" where
  "has_default_policy db \<longleftrightarrow> list_ex (\<lambda>p. qp_plan_code p = default_plan_code) (policies db)"

lemma ledger_eqI:
  "(\<And>k. lg_used l k = lg_used m k) \<Longrightarrow> (\<And>k. lg_held l k = lg_held m k) \<Longrightarrow> l = (m :: ledger)"
  by (cases l; cases m) (simp add: fun_eq_iff)

lemma ledger_of_simps [simp]:
  "ledger_of (db\<lparr>reservations := rs\<rparr>) = ledger_of db"
  "ledger_of (db\<lparr>events := es\<rparr>) = ledger_of db"
  "ledger_of (db\<lparr>accounts := as\<rparr>) = ledger_of db"
  "ledger_of (put_reservation r db) = ledger_of db"
  by (simp_all add: ledger_of_def put_reservation_def)

lemma quota_total:
  "row_total f (quota_counter u) cs =
     ledger_total (\<lambda>k. row_total f (\<lambda>c. counter_key c = k) cs) u"
proof (induction cs)
  case Nil
  then show ?case by (simp add: ledger_total_def)
next
  case (Cons c cs)
  then show ?case
    by (cases "cn_category c")
       (auto simp: ledger_total_def quota_counter_def counter_key_def counts_toward_quota_def)
qed

lemma account_is_total:
  assumes "storage_ok db" and "a \<in> set (accounts db)"
  shows "sa_used_bytes a = ledger_total (lg_used (ledger_of db)) (sa_user_id a)"
    and "sa_reserved_bytes a = ledger_total (lg_held (ledger_of db)) (sa_user_id a)"
  using storage_okD(1) [OF assms] by (simp_all add: account_ok_def quota_total ledger_of_def)

section \<open>Loading and writing\<close>

lemma unique_find:
  assumes "unique_column key rs" and "r \<in> set rs"
  shows "List.find (\<lambda>x. key x = key r) rs = Some r"
  using assms by (induction rs) (auto simp: unique_column_def)

lemma unique_total:
  assumes "unique_column key rs" and "r \<in> set rs"
  shows "row_total f (\<lambda>x. key x = key r) rs = f r"
  using unique_filter [OF assms] by (simp add: row_total_def)

lemma counter_in_ledger:
  assumes "storage_ok db" and "c \<in> set (counters db)"
  shows "lg_used (ledger_of db) (counter_key c) = cn_used_bytes c"
    and "lg_held (ledger_of db) (counter_key c) = cn_reserved_bytes c"
proof -
  have "unique_column counter_key (counters db)"
    using storage_okD(5) [OF assms(1)] by (simp add: storage_keys_ok_def)
  then show "lg_used (ledger_of db) (counter_key c) = cn_used_bytes c"
    and "lg_held (ledger_of db) (counter_key c) = cn_reserved_bytes c"
    using assms(2) by (simp_all add: ledger_of_def unique_total)
qed

lemma account_limit_is:
  assumes "storage_ok db" and "a \<in> set (accounts db)"
  shows "quota_limit_bytes a = user_limit (sa_user_id a) db"
proof -
  have "unique_column sa_user_id (accounts db)"
    using storage_okD(5) [OF assms(1)] by (simp add: storage_keys_ok_def)
  from unique_find [OF this assms(2)] show ?thesis by (simp add: user_limit_def)
qed

lemma default_policy_cases:
  assumes ok: "storage_ok db"
  obtains (absent) e where "require_default_policy db = Inl e" and "\<not> has_default_policy db"
  | (present) p where "require_default_policy db = Inr p"
      and "List.find (\<lambda>p. qp_plan_code p = default_plan_code) (policies db) = Some p"
proof -
  have u: "unique_column qp_plan_code (policies db)"
    using storage_okD(5) [OF ok] by (simp add: storage_keys_ok_def)
  show thesis
  proof (cases rule: unique_scalar_cases [OF u, of default_plan_code])
    case 1
    then show thesis
      by (intro absent) (force simp: require_default_policy_def repository_policy_def has_default_policy_def list_ex_iff)+
  next
    case (2 p)
    then show thesis using unique_find [OF u 2(1)]
      by (intro present) (simp_all add: require_default_policy_def repository_policy_def)
  qed
qed

lemma find_append: "List.find p (xs @ ys) = (case List.find p xs of None \<Rightarrow> List.find p ys | Some x \<Rightarrow> Some x)"
  by (induction xs) auto

lemma ensure_account_effect:
  assumes ok: "storage_ok db" and run: "ensure_account clk u db = (res, db1)"
  shows "user_limit v db1 = user_limit v db"
    and "has_default_policy db \<Longrightarrow> \<exists>a. res = Inr a"
proof -
  have uniq: "unique_column sa_user_id (accounts db)"
    using storage_okD(5) [OF ok] by (simp add: storage_keys_ok_def)
  have "user_limit v db1 = user_limit v db \<and> (has_default_policy db \<longrightarrow> (\<exists>a. res = Inr a))"
  proof (cases rule: unique_scalar_cases [OF uniq, of u])
    case (2 r)
    with run show ?thesis by (auto simp: ensure_account_def repository_account_def)
  next
    case 1
    have none: "List.find (\<lambda>a. sa_user_id a = u) (accounts db) = None"
      using 1(2) by (auto simp: find_None_iff)
    show ?thesis
      using ok
    proof (cases rule: default_policy_cases)
      case (absent e)
      with 1 run show ?thesis by (auto simp: ensure_account_def repository_account_def)
    next
      case (present p)
      with 1 run none show ?thesis
        by (auto simp: ensure_account_def repository_account_def user_limit_def find_append Let_def
            split: option.split if_splits)
    qed
  qed
  then show "user_limit v db1 = user_limit v db" and "has_default_policy db \<Longrightarrow> \<exists>a. res = Inr a"
    by simp_all
qed

lemma load_usage_effect:
  assumes ok: "storage_ok db" and run: "load_usage clk u k db = (res, db1)"
  shows "ledger_of db1 = ledger_of db" and "user_limit v db1 = user_limit v db"
    and "has_default_policy db \<Longrightarrow> \<exists>a c. res = Inr (a, c)"
proof -
  obtain r0 db0 where e: "ensure_account clk u db = (r0, db0)" by (cases "ensure_account clk u db")
  note acc = ensure_account_ok [OF ok e] and eff = ensure_account_effect [OF ok e]
  have l0: "ledger_of db0 = ledger_of db" by (simp add: ledger_of_def acc(2))
  have "ledger_of db1 = ledger_of db \<and> user_limit v db1 = user_limit v db \<and>
    (has_default_policy db \<longrightarrow> (\<exists>a c. res = Inr (a, c)))"
  proof (cases r0)
    case (Inl x)
    with run e l0 eff show ?thesis by (auto simp: load_usage_def)
  next
    case (Inr a0)
    then have "u \<in> sa_user_id ` set (accounts db0)" using acc(6) by auto
    moreover obtain r2 db2 where e2: "ensure_counter (clk 2) u k db0 = (r2, db2)"
      by (cases "ensure_counter (clk 2) u k db0")
    ultimately obtain c where c: "r2 = Inr c" "accounts db2 = accounts db0" "policies db2 = policies db0"
        "counters db2 = counters db0 \<or> counters db2 = counters db0 @ [c] \<and>
          cn_used_bytes c = 0 \<and> cn_reserved_bytes c = 0"
      using ensure_counter_ok [OF acc(1)] by blast
    have "ledger_of db2 = ledger_of db0" using c(4) by (auto simp: ledger_of_def)
    moreover have "user_limit v db2 = user_limit v db0" by (simp only: user_limit_def c(2,3))
    ultimately show ?thesis using run e e2 Inr c(1) l0 eff(1) [of v] by (auto simp: load_usage_def)
  qed
  then show "ledger_of db1 = ledger_of db" and "user_limit v db1 = user_limit v db"
    and "has_default_policy db \<Longrightarrow> \<exists>a c. res = Inr (a, c)" by simp_all
qed

text \<open>What the loaded rows say, in terms of the ledger.\<close>

lemma load_usage_rows:
  assumes ok: "storage_ok db" and run: "load_usage clk u k db = (Inr (a, c), db1)"
  shows "sa_used_bytes a = ledger_total (lg_used (ledger_of db)) u"
    and "sa_reserved_bytes a = ledger_total (lg_held (ledger_of db)) u"
    and "quota_limit_bytes a = user_limit u db"
    and "cn_used_bytes c = lg_used (ledger_of db) (u, k)"
    and "cn_reserved_bytes c = lg_held (ledger_of db) (u, k)"
proof -
  note load = load_usage_ok [OF ok run] and eff = load_usage_effect [OF ok run]
  have m: "a \<in> set (accounts db1)" "sa_user_id a = u" "c \<in> set (counters db1)" "counter_key c = (u, k)"
    using load(5) [of a c] by auto
  show "sa_used_bytes a = ledger_total (lg_used (ledger_of db)) u"
    and "sa_reserved_bytes a = ledger_total (lg_held (ledger_of db)) u"
    using account_is_total [OF load(1) m(1)] by (simp_all add: m(2) eff(1))
  show "quota_limit_bytes a = user_limit u db"
    using account_limit_is [OF load(1) m(1)] eff(2) by (simp add: m(2))
  show "cn_used_bytes c = lg_used (ledger_of db) (u, k)"
    and "cn_reserved_bytes c = lg_held (ledger_of db) (u, k)"
    using counter_in_ledger [OF load(1) m(3)] by (simp_all add: m(4) eff(1))
qed

lemma put_usage_ledger:
  assumes "storage_ok db" and "c \<in> set (counters db)" and "counter_key c = k" and "counter_key c' = k"
  shows "ledger_of (put_usage a' c' db) =
    (ledger_of db)\<lparr>lg_used := (lg_used (ledger_of db))(k := cn_used_bytes c'),
                   lg_held := (lg_held (ledger_of db))(k := cn_reserved_bytes c')\<rparr>"
proof -
  have uc: "unique_column counter_key (counters db)"
    using storage_okD(5) [OF assms(1)] by (simp add: storage_keys_ok_def)
  have "counter_key c' = counter_key c" using assms by simp
  note w = row_total_write [OF uc assms(2) this, unfolded assms(4)]
  have total: "row_total f (\<lambda>c. counter_key c = j) (counters (put_usage a' c' db)) =
      (if j = k then f c' else row_total f (\<lambda>c. counter_key c = j) (counters db))" for f j
    using unique_total [OF uc assms(2), of f] by (auto simp: put_usage_def w assms(3,4))
  show ?thesis by (rule ledger_eqI) (simp_all add: ledger_of_def total)
qed

section \<open>The operations on the ledger\<close>

lemma apply_hold_fails:
  assumes "apply_reservation_hold clk a c n q = Inl e"
  shows "q \<and> quota_limit_bytes a < sa_used_bytes a + sa_reserved_bytes a + n \<and>
    e = validation_exception ''storage_quota_exceeded'' ''storage''
          [(''used_bytes'', D_int (sa_used_bytes a)), (''reserved_bytes'', D_int (sa_reserved_bytes a)),
           (''requested_bytes'', D_int n), (''limit_bytes'', D_int (quota_limit_bytes a))]"
  using assms
  by (auto simp: apply_reservation_hold_def assert_quota_available_def Let_def
      split: if_splits option.splits)

text \<open>What a user may still store: a category outside the quota is unlimited.\<close>

definition ledger_fits :: "storage_db \<Rightarrow> int \<Rightarrow> StorageUsageCategory \<Rightarrow> int \<Rightarrow> bool" where
  "ledger_fits db u k n \<longleftrightarrow>
     (counts_toward_quota k \<longrightarrow>
        ledger_total (lg_used (ledger_of db)) u + ledger_total (lg_held (ledger_of db)) u + n
          \<le> user_limit u db)"

definition quota_error :: "storage_db \<Rightarrow> int \<Rightarrow> int \<Rightarrow> app_exception" where
  "quota_error db u n =
     validation_exception ''storage_quota_exceeded'' ''storage''
       [(''used_bytes'', D_int (ledger_total (lg_used (ledger_of db)) u)),
        (''reserved_bytes'', D_int (ledger_total (lg_held (ledger_of db)) u)),
        (''requested_bytes'', D_int n), (''limit_bytes'', D_int (user_limit u db))]"

lemma reserve_ledger:
  assumes ok: "storage_ok db" and pol: "has_default_policy db" and n: "0 < n"
  shows "if ledger_fits db u k n
    then fst (reserve clk uuid u k n reason ot oid key db) =
           Inr \<lparr>reservation_id = uuid, handle_bytes_reserved = n\<rparr> \<and>
         ledger_of (snd (reserve clk uuid u k n reason ot oid key db)) = ledger_hold (u, k) n (ledger_of db) \<and>
         reservations (snd (reserve clk uuid u k n reason ot oid key db)) = reservations db @
           [new_reservation uuid (clk 5) u k n (counts_toward_quota k) reason ot oid key] \<and>
         events (snd (reserve clk uuid u k n reason ot oid key db)) = events db
    else fst (reserve clk uuid u k n reason ot oid key db) = Inl (quota_error db u n) \<and>
         ledger_of (snd (reserve clk uuid u k n reason ot oid key db)) = ledger_of db \<and>
         reservations (snd (reserve clk uuid u k n reason ot oid key db)) = reservations db \<and>
         events (snd (reserve clk uuid u k n reason ot oid key db)) = events db"
proof -
  obtain r1 db1 where l: "load_usage clk u k db = (r1, db1)" by (cases "load_usage clk u k db")
  then obtain a c where ac: "r1 = Inr (a, c)" using load_usage_effect(3) [OF ok l pol] by blast
  note l = l [unfolded ac]
  note load = load_usage_ok [OF ok l] and eff = load_usage_effect [OF ok l] and rows = load_usage_rows [OF ok l]
  have m: "c \<in> set (counters db1)" "counter_key c = (u, k)" using load(5) [of a c] by auto
  show ?thesis
  proof (cases "apply_reservation_hold (\<lambda>i. clk (3 + i)) a c n (counts_toward_quota k)")
    case (Inl e)
    from apply_hold_fails [OF Inl] have "\<not> ledger_fits db u k n" and "e = quota_error db u n"
      by (simp_all add: rows ledger_fits_def quota_error_def)
    then show ?thesis using n l Inl load(2,3) eff(1) by (simp add: reserve_def Let_def)
  next
    case (Inr ac')
    obtain a' c' where ac': "ac' = (a', c')" by (cases ac')
    note h = apply_hold_cases [OF Inr [unfolded ac']]
    have "counter_key c' = (u, k)" using h m(2) by (simp add: counter_key_def)
    note lg = put_usage_ledger [OF load(1) m this, of a', unfolded eff(1)]
    have "ledger_of (put_usage a' c' db1) = ledger_hold (u, k) n (ledger_of db)"
      using h by (simp add: lg ledger_hold_def rows fun_upd_triv)
    moreover have "ledger_fits db u k n" using h by (simp add: ledger_fits_def rows)
    ultimately show ?thesis
      using n l Inr ac' load(2,3) by (simp add: reserve_def Let_def new_reservation_def)
  qed
qed

lemma reserve_policies:
  assumes "storage_ok db"
  shows "policies (snd (reserve clk uuid u k n reason ot oid key db)) = policies db"
proof -
  obtain r1 db1 where l: "load_usage clk u k db = (r1, db1)" by (cases "load_usage clk u k db")
  from load_usage_ok(4) [OF assms l] l show ?thesis
    by (auto simp: reserve_def Let_def split: sum.splits)
qed

lemma load_usage_existing:
  assumes ok: "storage_ok db" and key: "(u, k) \<in> counter_key ` set (counters db)"
  obtains a c where "load_usage clk u k db = (Inr (a, c), db)"
proof -
  obtain c where c: "c \<in> set (counters db)" "counter_key c = (u, k)" using key by force
  then have "u \<in> sa_user_id ` set (accounts db)"
    using storage_okD(2) [OF ok c(1)] by (simp add: counter_ok_def counter_key_def)
  then obtain a where a: "a \<in> set (accounts db)" "sa_user_id a = u" by auto
  have "unique_column sa_user_id (accounts db)" and "unique_column counter_key (counters db)"
    using storage_okD(5) [OF ok] by (simp_all add: storage_keys_ok_def)
  with unique_filter [OF this(1) a(1)] unique_filter [OF this(2) c(1)] a c
  have "load_usage clk u k db = (Inr (a, c), db)"
    by (simp add: load_usage_def ensure_account_def repository_account_def ensure_counter_def
        repository_counter_def)
  then show thesis by (rule that)
qed

lemma find_reservation:
  assumes ok: "storage_ok db" and r: "r \<in> set (reservations db)"
  shows "repository_reservation (reservation_uuid r) db = Inr (Some r)"
proof -
  have "unique_column reservation_uuid (reservations db)"
    using storage_okD(5) [OF ok] by (simp add: storage_keys_ok_def)
  from unique_filter [OF this r] show ?thesis by (simp add: repository_reservation_def)
qed

text \<open>The reservation as a commit leaves it, and the event it writes.\<close>

definition committed :: "timestamp \<Rightarrow> string option \<Rightarrow> string option \<Rightarrow> string option \<Rightarrow>
    StorageUsageReservation \<Rightarrow> StorageUsageReservation" where
  "committed now ot oid key r = r\<lparr>
     rs_status := COMMITTED, rs_object_type := str_or ot (rs_object_type r),
     rs_object_id := str_or oid (rs_object_id r), rs_storage_key := str_or key (rs_storage_key r),
     rs_updated_at := now\<rparr>"

definition commit_event :: "timestamp \<Rightarrow> StorageUsageReservation \<Rightarrow> StorageUsageEvent" where
  "commit_event now r =
     new_usage_event now (rs_user_id r) (rs_category r) (bytes_reserved r) (rs_counts_toward_quota r)
       (rs_reason r) (rs_object_type r) (rs_object_id r) (rs_storage_key r)"

lemma commit_ledger:
  assumes ok: "storage_ok db" and r: "r \<in> set (reservations db)" "rs_status r = RESERVED"
    and k: "k = (rs_user_id r, rs_category r)" and r': "r' = committed (clk 5) ot oid key r"
  shows "\<exists>db'. commit_reservation clk (reservation_uuid r) ot oid key db = (Inr (), db') \<and>
    ledger_of db' = ledger_use k (bytes_reserved r) (ledger_hold k (- bytes_reserved r) (ledger_of db)) \<and>
    reservations db' = reservations (put_reservation r' db) \<and>
    events db' = events db @ [commit_event (clk 6) r'] \<and> policies db' = policies db"
proof -
  have "(rs_user_id r, rs_category r) \<in> counter_key ` set (counters db)"
    using storage_okD(3) [OF ok r(1)] by (simp add: reservation_ok_def)
  then obtain a c where l: "load_usage clk (rs_user_id r) (rs_category r) db = (Inr (a, c), db)"
    by (rule load_usage_existing [OF ok])
  note load = load_usage_ok [OF ok l] and rows = load_usage_rows [OF ok l]
  have m: "c \<in> set (counters db)" "counter_key c = k" using load(5) [of a c] k by auto
  obtain a' c' r1 where cm: "commit_reserved_usage (\<lambda>i. clk (3 + i)) a c r ot oid key = (a', c', r1)"
    by (cases "commit_reserved_usage (\<lambda>i. clk (3 + i)) a c r ot oid key")
  then have f: "r1 = r'" "cn_user_id c' = cn_user_id c" "cn_category c' = cn_category c"
      "cn_reserved_bytes c' = cn_reserved_bytes c - bytes_reserved r"
      "cn_used_bytes c' = cn_used_bytes c + bytes_reserved r"
    by (auto simp: commit_reserved_usage_def Let_def r' committed_def)
  then have "counter_key c' = k" using m(2) by (simp add: counter_key_def)
  note lg = put_usage_ledger [OF ok m this, of a']
  have "ledger_of (put_usage a' c' db) =
      ledger_use k (bytes_reserved r) (ledger_hold k (- bytes_reserved r) (ledger_of db))"
    using f k by (simp add: lg ledger_hold_def ledger_use_def rows)
  then show ?thesis
    using find_reservation [OF ok r(1)] r(2) l cm f(1)
    by (simp add: commit_reservation_def Let_def commit_event_def put_reservation_def put_usage_def
        ledger_of_def)
qed

lemma release_ledger:
  assumes ok: "storage_ok db" and r: "r \<in> set (reservations db)" "rs_status r = RESERVED"
    and k: "k = (rs_user_id r, rs_category r)"
  shows "\<exists>db'. release_reservation clk (reservation_uuid r) db = (Inr (), db') \<and>
    ledger_of db' = ledger_hold k (- bytes_reserved r) (ledger_of db) \<and>
    reservations db' = reservations (put_reservation (r\<lparr>rs_status := RELEASED, rs_updated_at := clk 5\<rparr>) db) \<and>
    events db' = events db \<and> policies db' = policies db"
proof -
  have "(rs_user_id r, rs_category r) \<in> counter_key ` set (counters db)"
    using storage_okD(3) [OF ok r(1)] by (simp add: reservation_ok_def)
  then obtain a c where l: "load_usage clk (rs_user_id r) (rs_category r) db = (Inr (a, c), db)"
    by (rule load_usage_existing [OF ok])
  note load = load_usage_ok [OF ok l] and rows = load_usage_rows [OF ok l]
  have m: "c \<in> set (counters db)" "counter_key c = k" using load(5) [of a c] k by auto
  obtain a' c' r1 where cm: "release_reserved_usage (\<lambda>i. clk (3 + i)) a c r = (a', c', r1)"
    by (cases "release_reserved_usage (\<lambda>i. clk (3 + i)) a c r")
  then have f: "r1 = r\<lparr>rs_status := RELEASED, rs_updated_at := clk 5\<rparr>"
      "cn_user_id c' = cn_user_id c" "cn_category c' = cn_category c"
      "cn_reserved_bytes c' = cn_reserved_bytes c - bytes_reserved r"
      "cn_used_bytes c' = cn_used_bytes c"
    by (auto simp: release_reserved_usage_def Let_def)
  then have "counter_key c' = k" using m(2) by (simp add: counter_key_def)
  note lg = put_usage_ledger [OF ok m this, of a']
  have "ledger_of (put_usage a' c' db) = ledger_hold k (- bytes_reserved r) (ledger_of db)"
    using f k by (simp add: lg ledger_hold_def rows fun_upd_triv)
  then show ?thesis
    using find_reservation [OF ok r(1)] r(2) l cm f(1)
    by (simp add: release_reservation_def Let_def put_reservation_def put_usage_def ledger_of_def)
qed

lemma record_release_ledger:
  assumes ok: "storage_ok db" and pol: "has_default_policy db" and n: "0 < n"
    and d: "d = min n (lg_used (ledger_of db) (u, k))"
  shows "\<exists>db'. record_release clk u k n reason ot oid key db = (Inr (), db') \<and>
    ledger_of db' = ledger_use (u, k) (- d) (ledger_of db) \<and>
    reservations db' = reservations db \<and> policies db' = policies db \<and>
    events db' = events db @ [new_usage_event (clk 5) u k (- d) (counts_toward_quota k) reason ot oid key]"
proof -
  obtain r1 db1 where l: "load_usage clk u k db = (r1, db1)" by (cases "load_usage clk u k db")
  then obtain a c where ac: "r1 = Inr (a, c)" using load_usage_effect(3) [OF ok l pol] by blast
  note l = l [unfolded ac]
  note load = load_usage_ok [OF ok l] and eff = load_usage_effect [OF ok l] and rows = load_usage_rows [OF ok l]
  have m: "c \<in> set (counters db1)" "counter_key c = (u, k)" using load(5) [of a c] by auto
  obtain a' c' x where rel: "release_used_usage (\<lambda>i. clk (3 + i)) a c n (counts_toward_quota k) = (a', c', x)"
    by (cases "release_used_usage (\<lambda>i. clk (3 + i)) a c n (counts_toward_quota k)")
  then have f: "x = d" "cn_user_id c' = cn_user_id c" "cn_category c' = cn_category c"
      "cn_reserved_bytes c' = cn_reserved_bytes c" "cn_used_bytes c' = cn_used_bytes c - d"
    using n by (auto simp: release_used_usage_def Let_def d rows)
  then have "counter_key c' = (u, k)" using m(2) by (simp add: counter_key_def)
  note lg = put_usage_ledger [OF load(1) m this, of a', unfolded eff(1)]
  have "ledger_of (put_usage a' c' db1) = ledger_use (u, k) (- d) (ledger_of db)"
    using f by (simp add: lg ledger_use_def rows fun_upd_triv)
  then show ?thesis
    using n l rel f(1) load(2-4)
    by (simp add: record_release_def Let_def put_usage_def ledger_of_def)
qed

lemma allocation_ledger:
  assumes ok: "storage_ok db" and pol: "has_default_policy db" and n: "0 < n"
    and fits: "ledger_fits db u k n" and fresh: "uuid \<notin> reservation_uuid ` set (reservations db)"
  shows "\<exists>db' e. record_allocation clk uuid u k n reason ot oid key db = (Inr (), db') \<and>
    ledger_of db' = ledger_use (u, k) n (ledger_of db) \<and> events db' = events db @ [e] \<and>
    delta_bytes e = n \<and> policies db' = policies db"
proof -
  define r where "r = new_reservation uuid (clk 5) u k n (counts_toward_quota k) reason ot oid key"
  obtain h d where d: "reserve clk uuid u k n reason ot oid key db = (h, d)"
    by (cases "reserve clk uuid u k n reason ot oid key db")
  have h: "h = Inr \<lparr>reservation_id = uuid, handle_bytes_reserved = n\<rparr>"
      "ledger_of d = ledger_hold (u, k) n (ledger_of db)" "r \<in> set (reservations d)" "events d = events db"
    using reserve_ledger [OF ok pol n, of u k clk uuid reason ot oid key] d fits by (auto simp: r_def)
  have okd: "storage_ok d" using reserve_ok [OF ok fresh] d by (metis snd_conv)
  have pd: "policies d = policies db" using reserve_policies [OF ok] d by (metis snd_conv)
  have rf: "rs_status r = RESERVED" "reservation_uuid r = uuid" "(rs_user_id r, rs_category r) = (u, k)"
      "bytes_reserved r = n" by (simp_all add: r_def new_reservation_def)
  obtain db' where db': "commit_reservation (\<lambda>i. clk (6 + i)) uuid ot oid key d = (Inr (), db')"
      "ledger_of db' = ledger_use (u, k) n (ledger_hold (u, k) (- n) (ledger_of d))"
      "events db' = events d @ [commit_event (clk 12) (committed (clk 11) ot oid key r)]"
      "policies db' = policies d"
    using commit_ledger [OF okd h(3) rf(1) rf(3) [symmetric] refl, of "\<lambda>i. clk (6 + i)" ot oid key]
    by (auto simp: rf(2,4))
  have "ledger_of db' = ledger_use (u, k) n (ledger_of db)"
    by (rule ledger_eqI) (simp_all add: db'(2) h(2) ledger_use_def ledger_hold_def)
  moreover have "delta_bytes (commit_event (clk 12) (committed (clk 11) ot oid key r)) = n"
    by (simp add: commit_event_def new_usage_event_def committed_def rf(4))
  ultimately show ?thesis using n d h(1,4) db'(1,3,4) pd by (simp add: record_allocation_def)
qed

section \<open>The states the service can reach\<close>

text \<open>
  The tables start with the plans only. A generated \<open>reservation_uuid\<close> is not one the table has
  (\<open>uuid4\<close>, and the column is unique). What an operation leaves in the session when it raises is also
  among the states; a roll-back goes back to the state before.
\<close>

definition storage_start :: "StorageQuotaPolicy list \<Rightarrow> storage_db" where
  "storage_start ps = \<lparr>policies = ps, accounts = [], counters = [], reservations = [], events = []\<rparr>"

lemma storage_start_simps [simp]:
  "policies (storage_start ps) = ps" "accounts (storage_start ps) = []" "counters (storage_start ps) = []"
  "reservations (storage_start ps) = []" "events (storage_start ps) = []"
  by (simp_all add: storage_start_def)

inductive storage_step :: "storage_db \<Rightarrow> storage_db \<Rightarrow> bool" where
  step_reserve: "uuid \<notin> reservation_uuid ` set (reservations db) \<Longrightarrow>
    storage_step db (snd (reserve clk uuid u k n reason ot oid key db))"
| step_commit: "storage_step db (snd (commit_reservation clk rid ot oid key db))"
| step_release: "storage_step db (snd (release_reservation clk rid db))"
| step_allocate: "uuid \<notin> reservation_uuid ` set (reservations db) \<Longrightarrow>
    storage_step db (snd (record_allocation clk uuid u k n reason ot oid key db))"
| step_free: "storage_step db (snd (record_release clk u k n reason ot oid key db))"
| step_read: "storage_step db (snd (get_usage clk u db))"

inductive storage_reachable :: "storage_db \<Rightarrow> bool" where
  reach_start: "unique_column qp_plan_code ps \<Longrightarrow> \<forall>p \<in> set ps. 0 \<le> qp_quota_limit_bytes p \<Longrightarrow>
    storage_reachable (storage_start ps)"
| reach_step: "storage_reachable db \<Longrightarrow> storage_step db db' \<Longrightarrow> storage_reachable db'"

lemma storage_start_ok:
  "unique_column qp_plan_code ps \<Longrightarrow> \<forall>p \<in> set ps. 0 \<le> qp_quota_limit_bytes p \<Longrightarrow>
   storage_ok (storage_start ps)"
  by (simp add: storage_start_def storage_ok_def storage_keys_ok_def unique_column_def)

lemma storage_step_ok: "storage_step db db' \<Longrightarrow> storage_ok db \<Longrightarrow> storage_ok db'"
  by (induction rule: storage_step.induct)
     (simp_all add: reserve_ok commit_reservation_ok release_reservation_ok record_allocation_ok
       record_release_ok get_usage_ok)

lemma storage_reachable_ok: "storage_reachable db \<Longrightarrow> storage_ok db"
  by (induction rule: storage_reachable.induct) (auto intro: storage_start_ok storage_step_ok)

section \<open>Properties\<close>

text \<open>A run used as a witness: the FREE plan of 1000 bytes, and 300 bytes of a source reserved.\<close>

definition example_policy :: StorageQuotaPolicy where
  "example_policy = \<lparr>qp_id = Some 1, qp_plan_code = ''FREE'', qp_quota_limit_bytes = 1000,
     qp_created_at = 0, qp_updated_at = 0\<rparr>"

definition example_storage :: storage_db where
  "example_storage =
     snd (reserve (\<lambda>i. 5) ''r1'' 7 Cat_SOURCE 300 ''upload'' None None None (storage_start [example_policy]))"

definition example_account :: StorageUsageAccount where
  "example_account = \<lparr>sa_user_id = 7, plan_code = ''FREE'', sa_used_bytes = 0, sa_reserved_bytes = 0,
     quota_limit_bytes = 1000, sa_created_at = 5, sa_updated_at = 5\<rparr>"

definition example_counter :: StorageUsageCounter where
  "example_counter = \<lparr>cn_id = None, cn_user_id = 7, cn_category = Cat_SOURCE, cn_used_bytes = 0,
     cn_reserved_bytes = 0, cn_updated_at = 5\<rparr>"

lemma example_load:
  "load_usage (\<lambda>i. 5) 7 Cat_SOURCE (storage_start [example_policy]) =
     (Inr (example_account, example_counter),
      (storage_start [example_policy])\<lparr>accounts := [example_account], counters := [example_counter]\<rparr>)"
proof -
  have acc: "ensure_account (\<lambda>i. 5) 7 (storage_start [example_policy]) =
      (Inr example_account, (storage_start [example_policy])\<lparr>accounts := [example_account]\<rparr>)"
    by (simp add: ensure_account_def repository_account_def require_default_policy_def repository_policy_def
        default_plan_code_def example_policy_def example_account_def Let_def)
  show ?thesis
    by (simp add: load_usage_def acc ensure_counter_def repository_counter_def example_counter_def Let_def)
qed

lemma example_storage_eq:
  "example_storage = \<lparr>policies = [example_policy],
     accounts = [example_account\<lparr>sa_reserved_bytes := 300\<rparr>],
     counters = [example_counter\<lparr>cn_reserved_bytes := 300\<rparr>],
     reservations = [new_reservation ''r1'' 5 7 Cat_SOURCE 300 True ''upload'' None None None],
     events = []\<rparr>"
proof -
  have quota: "counts_toward_quota Cat_SOURCE" by (simp add: counts_toward_quota_def)
  have "apply_reservation_hold (\<lambda>i. 5) example_account example_counter 300 True =
      Inr (example_account\<lparr>sa_reserved_bytes := 300\<rparr>, example_counter\<lparr>cn_reserved_bytes := 300\<rparr>)"
    by (simp add: apply_reservation_hold_def assert_quota_available_def example_account_def
        example_counter_def Let_def)
  with example_load quota
  have "example_storage = (put_usage (example_account\<lparr>sa_reserved_bytes := 300\<rparr>)
      (example_counter\<lparr>cn_reserved_bytes := 300\<rparr>)
      ((storage_start [example_policy])\<lparr>accounts := [example_account], counters := [example_counter]\<rparr>))
      \<lparr>reservations := [new_reservation ''r1'' 5 7 Cat_SOURCE 300 True ''upload'' None None None]\<rparr>"
    by (simp add: example_storage_def reserve_def Let_def)
  then show ?thesis by (simp add: put_usage_def storage_start_def counter_key_def)
qed

lemmas example_storage_run = example_storage_eq example_policy_def new_reservation_def default_plan_code_def
  counts_toward_quota_def counter_key_def example_account_def example_counter_def

lemma example_storage_reachable: "storage_reachable example_storage"
  unfolding example_storage_def
  by (rule reach_step [OF reach_start [of "[example_policy]"] step_reserve])
     (simp_all add: unique_column_def example_policy_def storage_start_def)

text \<open>C6. The books balance: in every state the service can reach, whatever the order of the calls and
  whichever of them fail, a user's account is never negative, never exceeds its limit counting the bytes
  promised to open reservations, holds as used exactly the sum of the logged changes in the quota
  categories, and as reserved exactly the bytes of the open reservations in them.\<close>

theorem storage_books_balance:
  assumes "storage_reachable db" and "a \<in> set (accounts db)"
  shows "0 \<le> sa_used_bytes a \<and> 0 \<le> sa_reserved_bytes a \<and>
    sa_used_bytes a + sa_reserved_bytes a \<le> quota_limit_bytes a \<and>
    sa_used_bytes a = row_total delta_bytes
      (\<lambda>e. ev_user_id e = sa_user_id a \<and> counts_toward_quota (ev_category e)) (events db) \<and>
    sa_reserved_bytes a = row_total bytes_reserved
      (\<lambda>r. rs_status r = RESERVED \<and> rs_user_id r = sa_user_id a \<and> counts_toward_quota (rs_category r))
      (reservations db)"
proof -
  have ok: "storage_ok db" using assms(1) by (rule storage_reachable_ok)
  have uc: "unique_column counter_key (counters db)"
    using storage_okD(5) [OF ok] by (simp add: storage_keys_ok_def)
  let ?P = "\<lambda>k. fst k = sa_user_id a \<and> counts_toward_quota (snd k)"
  have q: "quota_counter (sa_user_id a) c = ?P (counter_key c)" for c
    by (simp add: quota_counter_def counter_key_def)
  have "row_total cn_used_bytes (quota_counter (sa_user_id a)) (counters db) =
      row_total (\<lambda>c. row_total delta_bytes (\<lambda>e. True \<and> (ev_user_id e, ev_category e) = counter_key c) (events db))
        (\<lambda>c. ?P (counter_key c)) (counters db)"
    using counter_sums(2) [OF ok] by (intro row_total_cong) (simp add: q event_of_def [abs_def])
  also have "\<dots> = row_total delta_bytes (\<lambda>e. True \<and> ?P (ev_user_id e, ev_category e)) (events db)"
    using storage_okD(4) [OF ok] by (rule row_total_group [OF uc])
  finally have used: "row_total cn_used_bytes (quota_counter (sa_user_id a)) (counters db) =
    row_total delta_bytes (\<lambda>e. ?P (ev_user_id e, ev_category e)) (events db)" by simp
  have "row_total cn_reserved_bytes (quota_counter (sa_user_id a)) (counters db) =
      row_total (\<lambda>c. row_total bytes_reserved
          (\<lambda>r. rs_status r = RESERVED \<and> (rs_user_id r, rs_category r) = counter_key c) (reservations db))
        (\<lambda>c. ?P (counter_key c)) (counters db)"
    using counter_sums(1) [OF ok] by (intro row_total_cong) (simp add: q open_reservation_def [abs_def])
  also have "\<dots> = row_total bytes_reserved
      (\<lambda>r. rs_status r = RESERVED \<and> ?P (rs_user_id r, rs_category r)) (reservations db)"
    using storage_okD(3) [OF ok] by (intro row_total_group [OF uc]) (simp add: reservation_ok_def)
  finally have held: "row_total cn_reserved_bytes (quota_counter (sa_user_id a)) (counters db) =
    row_total bytes_reserved (\<lambda>r. rs_status r = RESERVED \<and> ?P (rs_user_id r, rs_category r)) (reservations db)" .
  show ?thesis
    using account_nonneg [OF ok assms(2)] account_limit [OF ok assms(2)] storage_okD(1) [OF ok assms(2)]
    by (simp add: account_ok_def used held)
qed

theorem storage_books_balance_witness:
  "row_total bytes_reserved
      (\<lambda>r. rs_status r = RESERVED \<and> rs_user_id r = 7 \<and> counts_toward_quota (rs_category r))
      (reservations example_storage) = 300"
proof -
  let ?a = "example_account\<lparr>sa_reserved_bytes := 300\<rparr>"
  have "?a \<in> set (accounts example_storage)" by (simp add: example_storage_eq)
  from storage_books_balance [OF example_storage_reachable this] show ?thesis
    by (simp add: example_account_def)
qed

text \<open>C7. A reservation is granted exactly when the bytes in use, the bytes already promised and the bytes
  asked for are within the user's limit (always, in a category that does not count), and then exactly
  those bytes are promised, to one new open reservation that the returned handle names. Otherwise the
  error names the four figures, and the books, the reservations and the log are as before. Asking for no
  or a negative number of bytes is an error that changes nothing.\<close>

theorem storage_reserve_outcome:
  assumes "storage_reachable db" and "has_default_policy db"
    and "reserve clk uuid u k n reason ot oid key db = (res, db')"
  shows "(n \<le> 0 \<longrightarrow>
      res = Inl (validation_exception ''validation_error'' ''bytes_count'' [(''bytes_count'', D_int n)]) \<and>
      db' = db) \<and>
    (0 < n \<and> \<not> ledger_fits db u k n \<longrightarrow>
      res = Inl (quota_error db u n) \<and> ledger_of db' = ledger_of db \<and>
      reservations db' = reservations db \<and> events db' = events db) \<and>
    (0 < n \<and> ledger_fits db u k n \<longrightarrow>
      res = Inr \<lparr>reservation_id = uuid, handle_bytes_reserved = n\<rparr> \<and>
      ledger_of db' = ledger_hold (u, k) n (ledger_of db) \<and>
      reservations db' = reservations db @
        [new_reservation uuid (clk 5) u k n (counts_toward_quota k) reason ot oid key] \<and>
      events db' = events db)"
proof (cases "0 < n")
  case True
  with reserve_ledger [OF storage_reachable_ok [OF assms(1)] assms(2) True, of u k clk uuid reason ot oid key]
  show ?thesis using assms(3) by (auto split: if_splits)
next
  case False
  then show ?thesis using assms(3) by (simp add: reserve_def)
qed

theorem storage_reserve_outcome_witness:
  "fst (reserve (\<lambda>i. 6) ''r2'' 7 Cat_UPLOAD 701 ''x'' None None None example_storage) =
     Inl (quota_error example_storage 7 701) \<and>
   fst (reserve (\<lambda>i. 6) ''r2'' 7 Cat_UPLOAD 700 ''x'' None None None example_storage) =
     Inr \<lparr>reservation_id = ''r2'', handle_bytes_reserved = 700\<rparr> \<and>
   fst (reserve (\<lambda>i. 6) ''r2'' 7 Cat_UPLOAD 0 ''x'' None None None example_storage) =
     Inl (validation_exception ''validation_error'' ''bytes_count'' [(''bytes_count'', D_int 0)])"
proof -
  have pol: "has_default_policy example_storage" by (simp add: example_storage_run has_default_policy_def)
  have fits: "ledger_fits example_storage 7 Cat_UPLOAD 700" "\<not> ledger_fits example_storage 7 Cat_UPLOAD 701"
    by (simp_all add: ledger_fits_def example_storage_run ledger_total_def ledger_of_def user_limit_def)
  note out = storage_reserve_outcome [OF example_storage_reachable pol surjective_pairing]
  show ?thesis
    using out [where clk = "\<lambda>i. 6" and uuid = "''r2''" and u = 7 and k = Cat_UPLOAD and n = 0 and reason = "''x''"
        and ot = None and oid = None and key = None]
      out [where clk = "\<lambda>i. 6" and uuid = "''r2''" and u = 7 and k = Cat_UPLOAD and n = 701 and reason = "''x''"
        and ot = None and oid = None and key = None]
      out [where clk = "\<lambda>i. 6" and uuid = "''r2''" and u = 7 and k = Cat_UPLOAD and n = 700 and reason = "''x''"
        and ot = None and oid = None and key = None] fits
    by simp
qed

text \<open>C8. A reservation is settled once. Committing an open reservation moves exactly its bytes from
  promised to used under its user and category and logs exactly one event for it; releasing it gives the
  bytes back and logs nothing. Whichever came first, a later commit or release of the same reservation
  succeeds without changing anything.\<close>

theorem storage_reservation_settled_once:
  assumes "storage_reachable db" and "r \<in> set (reservations db)" and "rs_status r = RESERVED"
  shows "(\<exists>db'. commit_reservation clk (reservation_uuid r) ot oid key db = (Inr (), db') \<and>
      ledger_of db' = ledger_use (rs_user_id r, rs_category r) (bytes_reserved r)
        (ledger_hold (rs_user_id r, rs_category r) (- bytes_reserved r) (ledger_of db)) \<and>
      events db' = events db @ [commit_event (clk 6) (committed (clk 5) ot oid key r)] \<and>
      commit_reservation clk2 (reservation_uuid r) ot2 oid2 key2 db' = (Inr (), db') \<and>
      release_reservation clk2 (reservation_uuid r) db' = (Inr (), db')) \<and>
    (\<exists>db'. release_reservation clk (reservation_uuid r) db = (Inr (), db') \<and>
      ledger_of db' = ledger_hold (rs_user_id r, rs_category r) (- bytes_reserved r) (ledger_of db) \<and>
      events db' = events db \<and>
      commit_reservation clk2 (reservation_uuid r) ot2 oid2 key2 db' = (Inr (), db') \<and>
      release_reservation clk2 (reservation_uuid r) db' = (Inr (), db'))"
proof -
  have ok: "storage_ok db" using assms(1) by (rule storage_reachable_ok)
  have settled: "commit_reservation clk2 (reservation_uuid r) ot2 oid2 key2 db' = (Inr (), db') \<and>
      release_reservation clk2 (reservation_uuid r) db' = (Inr (), db')"
    if "storage_ok db'" and "reservations db' = reservations (put_reservation r' db)"
      and "reservation_uuid r' = reservation_uuid r" and "rs_status r' \<noteq> RESERVED" for db' r'
  proof -
    have "r' \<in> set (reservations db')" using that(2,3) assms(2) by (force simp: put_reservation_def)
    from find_reservation [OF that(1) this] that(3,4) show ?thesis
      by (simp add: commit_reservation_def release_reservation_def)
  qed
  obtain dc where dc: "commit_reservation clk (reservation_uuid r) ot oid key db = (Inr (), dc)"
      "ledger_of dc = ledger_use (rs_user_id r, rs_category r) (bytes_reserved r)
        (ledger_hold (rs_user_id r, rs_category r) (- bytes_reserved r) (ledger_of db))"
      "reservations dc = reservations (put_reservation (committed (clk 5) ot oid key r) db)"
      "events dc = events db @ [commit_event (clk 6) (committed (clk 5) ot oid key r)]"
    using commit_ledger [OF ok assms(2,3) refl refl] by blast
  have "storage_ok dc" using commit_reservation_ok [OF ok] dc(1) by (metis snd_conv)
  from settled [OF this dc(3)] dc have c: "\<exists>db'. commit_reservation clk (reservation_uuid r) ot oid key db = (Inr (), db') \<and>
      ledger_of db' = ledger_use (rs_user_id r, rs_category r) (bytes_reserved r)
        (ledger_hold (rs_user_id r, rs_category r) (- bytes_reserved r) (ledger_of db)) \<and>
      events db' = events db @ [commit_event (clk 6) (committed (clk 5) ot oid key r)] \<and>
      commit_reservation clk2 (reservation_uuid r) ot2 oid2 key2 db' = (Inr (), db') \<and>
      release_reservation clk2 (reservation_uuid r) db' = (Inr (), db')"
    by (simp add: committed_def)
  obtain dr where dr: "release_reservation clk (reservation_uuid r) db = (Inr (), dr)"
      "ledger_of dr = ledger_hold (rs_user_id r, rs_category r) (- bytes_reserved r) (ledger_of db)"
      "reservations dr = reservations (put_reservation (r\<lparr>rs_status := RELEASED, rs_updated_at := clk 5\<rparr>) db)"
      "events dr = events db"
    using release_ledger [OF ok assms(2,3) refl] by blast
  have "storage_ok dr" using release_reservation_ok [OF ok] dr(1) by (metis snd_conv)
  from settled [OF this dr(3)] dr have d: "\<exists>db'. release_reservation clk (reservation_uuid r) db = (Inr (), db') \<and>
      ledger_of db' = ledger_hold (rs_user_id r, rs_category r) (- bytes_reserved r) (ledger_of db) \<and>
      events db' = events db \<and>
      commit_reservation clk2 (reservation_uuid r) ot2 oid2 key2 db' = (Inr (), db') \<and>
      release_reservation clk2 (reservation_uuid r) db' = (Inr (), db')"
    by simp
  from c d show ?thesis by (rule conjI)
qed

definition example_reservation :: StorageUsageReservation where
  "example_reservation = new_reservation ''r1'' 5 7 Cat_SOURCE 300 True ''upload'' None None None"

theorem storage_reservation_settled_once_witness:
  "\<exists>db'. commit_reservation (\<lambda>i. 6) ''r1'' None None None example_storage = (Inr (), db') \<and>
    release_reservation (\<lambda>i. 7) ''r1'' db' = (Inr (), db') \<and> length (events db') = 1"
proof -
  have r: "example_reservation \<in> set (reservations example_storage)" "rs_status example_reservation = RESERVED"
      "reservation_uuid example_reservation = ''r1''" "events example_storage = []"
    by (simp_all add: example_storage_run example_reservation_def)
  from storage_reservation_settled_once [OF example_storage_reachable r(1,2),
      of "\<lambda>i. 6" None None None "\<lambda>i. 7" None None None] r(3,4)
  show ?thesis by force
qed

text \<open>Storing and freeing is a round trip: recording an allocation that fits and then its release brings
  the books back to where they were, with one event for each of opposite sizes; a release never frees more
  than the category holds.\<close>

theorem storage_allocation_roundtrip:
  assumes "storage_reachable db" and "has_default_policy db" and "0 < n" and "ledger_fits db u k n"
    and "uuid \<notin> reservation_uuid ` set (reservations db)"
  shows "\<exists>db1 db2 e1 e2. record_allocation clk uuid u k n reason ot oid key db = (Inr (), db1) \<and>
      ledger_of db1 = ledger_use (u, k) n (ledger_of db) \<and>
      record_release clk2 u k n reason2 ot2 oid2 key2 db1 = (Inr (), db2) \<and>
      ledger_of db2 = ledger_of db \<and> events db2 = events db @ [e1, e2] \<and>
      delta_bytes e1 = n \<and> delta_bytes e2 = - n"
proof -
  have ok: "storage_ok db" using assms(1) by (rule storage_reachable_ok)
  obtain db1 e1 where alloc: "record_allocation clk uuid u k n reason ot oid key db = (Inr (), db1)"
      "ledger_of db1 = ledger_use (u, k) n (ledger_of db)" "events db1 = events db @ [e1]"
      "delta_bytes e1 = n" "policies db1 = policies db"
    using allocation_ledger [OF ok assms(2-5), of clk reason ot oid key] by blast
  have ok1: "storage_ok db1" using record_allocation_ok [OF ok assms(5)] alloc(1) by (metis snd_conv)
  have pol1: "has_default_policy db1" using assms(2) alloc(5) by (simp add: has_default_policy_def)
  have "0 \<le> lg_used (ledger_of db) (u, k)"
    using counter_used_nonneg [OF ok] by (auto simp: ledger_of_def intro!: row_total_nonneg)
  then have all: "n = min n (lg_used (ledger_of db1) (u, k))" by (simp add: alloc(2) ledger_use_def)
  have undone: "ledger_use (u, k) (- n) (ledger_of db1) = ledger_of db"
    by (rule ledger_eqI) (simp_all add: alloc(2) ledger_use_def)
  from record_release_ledger [OF ok1 pol1 assms(3) all, of clk2 reason2 ot2 oid2 key2] alloc undone
  show ?thesis by (fastforce simp: new_usage_event_def)
qed

theorem storage_allocation_roundtrip_witness:
  "\<exists>db1 db2. record_allocation (\<lambda>i. 6) ''r2'' 7 Cat_UPLOAD 700 ''x'' None None None example_storage = (Inr (), db1) \<and>
     record_release (\<lambda>i. 7) 7 Cat_UPLOAD 700 ''y'' None None None db1 = (Inr (), db2) \<and>
     ledger_of db2 = ledger_of example_storage"
proof -
  have pol: "has_default_policy example_storage" by (simp add: example_storage_run has_default_policy_def)
  have fits: "ledger_fits example_storage 7 Cat_UPLOAD 700"
    by (simp add: ledger_fits_def example_storage_run ledger_total_def ledger_of_def user_limit_def)
  have fresh: "''r2'' \<notin> reservation_uuid ` set (reservations example_storage)"
    by (simp add: example_storage_run)
  show ?thesis
    using storage_allocation_roundtrip [OF example_storage_reachable pol _ fits fresh, of "\<lambda>i. 6" "''x''" None None None
        "\<lambda>i. 7" "''y''" None None None] by auto
qed

end
