(* ===== verification/Score_Access.thy ===== *)
theory Score_Access
  imports Score_Model App_Errors
begin

text \<open>
  Who may do what with a score: the rows of \<open>backend/app/db/models/score_access.py\<close> and the policy of
  \<open>backend/app/modules/score_access/policy.py\<close>. A request is resolved to a context that names the
  first origin that applies: ownership, a live membership, a grant the user redeemed, a grant by its
  token, a publication by its slug. SHA-256 of a token in hexadecimal is the parameter \<open>sha\<close> of the
  definitions that hash; nothing is assumed of it.
\<close>

section \<open>Rows\<close>

datatype MembershipRole = EDITOR | VIEWER

datatype InviteStatus =
  Invite_PENDING | Invite_ACCEPTED | Invite_REVOKED | Invite_EXPIRED | Invite_DECLINED

datatype PublicationStatus = PUBLISHED | UNPUBLISHED

datatype AccessOrigin = Access_OWNER | Access_MEMBERSHIP | Access_SHARE | Access_PUBLICATION

record ScoreMembership =
  sm_id :: int
  sm_score_id :: int
  sm_user_id :: int
  sm_role :: MembershipRole
  sm_created_by_user_id :: int
  sm_created_at :: timestamp
  sm_revoked_at :: "timestamp option"

record ScoreInvite =
  si_id :: int
  invite_uuid :: string
  si_score_id :: int
  si_token_hash :: string
  si_email :: "string option"
  si_role :: MembershipRole
  si_status :: InviteStatus
  si_created_by_user_id :: int
  accepted_by_user_id :: "int option"
  si_created_at :: timestamp
  si_expires_at :: "timestamp option"
  accepted_at :: "timestamp option"
  si_revoked_at :: "timestamp option"
  declined_at :: "timestamp option"

record ScoreShareGrant =
  sg_id :: int
  grant_uuid :: string
  sg_score_id :: int
  sg_token_hash :: string
  sg_allow_download :: bool
  sg_allow_practice :: bool
  sg_expires_at :: "timestamp option"
  sg_revoked_at :: "timestamp option"
  sg_created_by_user_id :: int
  sg_created_at :: timestamp

record ShareGrantRedemption =
  gr_id :: int
  gr_grant_id :: int
  gr_user_id :: int
  gr_created_at :: timestamp

record ScorePublication =
  pb_id :: int
  pb_score_id :: int
  public_slug :: string
  published_revision_id :: int
  pb_status :: PublicationStatus
  pb_allow_download :: bool
  pb_allow_practice :: bool
  published_by_user_id :: int
  published_at :: timestamp
  pb_updated_at :: timestamp

record access_db =
  ad_scores :: "Score list"
  ad_revisions :: "ScoreRevision list"
  ad_memberships :: "ScoreMembership list"
  ad_invites :: "ScoreInvite list"
  ad_grants :: "ScoreShareGrant list"
  ad_redemptions :: "ShareGrantRedemption list"
  ad_publications :: "ScorePublication list"

section \<open>Actions, capabilities, contexts\<close>

datatype ScoreAction =
  Act_VIEW | Act_EDIT | Act_DELETE | Act_MANAGE_SHARING | Act_MANAGE_MEMBERS | Act_DOWNLOAD
| Act_PRACTICE | Act_PUBLISH

fun score_action_value :: "ScoreAction \<Rightarrow> string" where
  "score_action_value Act_VIEW = ''VIEW''"
| "score_action_value Act_EDIT = ''EDIT''"
| "score_action_value Act_DELETE = ''DELETE''"
| "score_action_value Act_MANAGE_SHARING = ''MANAGE_SHARING''"
| "score_action_value Act_MANAGE_MEMBERS = ''MANAGE_MEMBERS''"
| "score_action_value Act_DOWNLOAD = ''DOWNLOAD''"
| "score_action_value Act_PRACTICE = ''PRACTICE''"
| "score_action_value Act_PUBLISH = ''PUBLISH''"

record ScoreCapabilities =
  can_view :: bool
  can_edit :: bool
  can_delete :: bool
  can_manage_sharing :: bool
  can_manage_members :: bool
  can_download :: bool
  can_practice :: bool
  can_publish :: bool

record ScoreAccessContext =
  cx_score :: Score
  cx_revision :: ScoreRevision
  cx_origin :: AccessOrigin
  cx_capabilities :: ScoreCapabilities
  cx_membership :: "ScoreMembership option"
  cx_grant :: "ScoreShareGrant option"
  cx_publication :: "ScorePublication option"

section \<open>Resolving\<close>

definition access_revision :: "access_db \<Rightarrow> Score \<Rightarrow> string option \<Rightarrow> app_exception + ScoreRevision" where
  "access_revision db score uuid =
     (let found = if str_truthy uuid
                  then one_or_none (filter (\<lambda>r. Some (revision_uuid r) = uuid \<and> rv_score_id r = sc_id score)
                                     (ad_revisions db))
                  else Inr (db_get rv_id (ad_revisions db) (head_revision_id score))
      in case found of
           Inl e \<Rightarrow> Inl e
         | Inr (Some revision) \<Rightarrow> Inr revision
         | Inr None \<Rightarrow> Inl (resource_not_found_exception ''revision''
                             (if str_truthy uuid then uuid else Some ''head'') ''revision_not_found''))"

definition valid_grant ::
  "(string \<Rightarrow> string) \<Rightarrow> access_db \<Rightarrow> Score \<Rightarrow> string \<Rightarrow> timestamp \<Rightarrow>
   app_exception + ScoreShareGrant option" where
  "valid_grant sha db score token now =
     (let token_hash = sha token in
      case one_or_none (filter (\<lambda>g. sg_score_id g = sc_id score \<and> sg_token_hash g = token_hash)
                          (ad_grants db)) of
        Inl e \<Rightarrow> Inl e
      | Inr None \<Rightarrow> Inr None
      | Inr (Some grant) \<Rightarrow>
          if sg_revoked_at grant \<noteq> None then Inr None
          else (case sg_expires_at grant of
                  None \<Rightarrow> Inr (Some grant)
                | Some t \<Rightarrow> if t \<le> now then Inr None else Inr (Some grant)))"

text \<open>The join of grants and redemptions, the latest redemption first.\<close>

definition redeemed_rows :: "access_db \<Rightarrow> Score \<Rightarrow> int \<Rightarrow> (ScoreShareGrant \<times> ShareGrantRedemption) list" where
  "redeemed_rows db score user =
     sort_key (\<lambda>(g, d). - gr_created_at d)
       (filter (\<lambda>(g, d). gr_grant_id d = sg_id g \<and> sg_score_id g = sc_id score \<and> gr_user_id d = user \<and>
                         sg_revoked_at g = None)
          (List.product (ad_grants db) (ad_redemptions db)))"

definition valid_redeemed_grant ::
  "access_db \<Rightarrow> Score \<Rightarrow> int \<Rightarrow> timestamp \<Rightarrow> ScoreShareGrant option" where
  "valid_redeemed_grant db score user now =
     List.find (\<lambda>g. case sg_expires_at g of None \<Rightarrow> True | Some t \<Rightarrow> now < t)
       (map fst (redeemed_rows db score user))"

definition grant_revision :: "access_db \<Rightarrow> Score \<Rightarrow> app_exception + ScoreRevision" where
  "grant_revision db score =
     (case db_get rv_id (ad_revisions db) (head_revision_id score) of
        None \<Rightarrow> Inl (unauthorized_exception ''no_access'' [])
      | Some revision \<Rightarrow> if rv_score_id revision \<noteq> sc_id score
                        then Inl (unauthorized_exception ''no_access'' []) else Inr revision)"

definition owner_capabilities :: ScoreCapabilities where
  "owner_capabilities = \<lparr>can_view = True, can_edit = True, can_delete = True, can_manage_sharing = True,
     can_manage_members = True, can_download = True, can_practice = True, can_publish = True\<rparr>"

definition member_capabilities :: "MembershipRole \<Rightarrow> ScoreCapabilities" where
  "member_capabilities role = \<lparr>can_view = True, can_edit = (role = EDITOR), can_delete = False,
     can_manage_sharing = False, can_manage_members = False, can_download = True, can_practice = True,
     can_publish = False\<rparr>"

definition guest_capabilities :: "bool \<Rightarrow> bool \<Rightarrow> ScoreCapabilities" where
  "guest_capabilities download practice = \<lparr>can_view = True, can_edit = False, can_delete = False,
     can_manage_sharing = False, can_manage_members = False, can_download = download,
     can_practice = practice, can_publish = False\<rparr>"

text \<open>A grant that applies, for the redeemed grant and for the token alike: the context, or None when
  another revision than the grant's is asked for.\<close>

definition share_context ::
  "access_db \<Rightarrow> Score \<Rightarrow> ScoreRevision \<Rightarrow> string option \<Rightarrow> ScoreShareGrant \<Rightarrow>
   app_exception + ScoreAccessContext option" where
  "share_context db score requested wanted grant =
     (case grant_revision db score of
        Inl e \<Rightarrow> Inl e
      | Inr target \<Rightarrow>
          if wanted = None \<or> rv_id target = rv_id requested
          then Inr (Some \<lparr>cx_score = score, cx_revision = target, cx_origin = Access_SHARE,
                 cx_capabilities = guest_capabilities (sg_allow_download grant) (sg_allow_practice grant),
                 cx_membership = None, cx_grant = Some grant, cx_publication = None\<rparr>)
          else Inr None)"

definition publication_context ::
  "access_db \<Rightarrow> Score \<Rightarrow> ScoreRevision \<Rightarrow> string option \<Rightarrow> string \<Rightarrow>
   app_exception + ScoreAccessContext option" where
  "publication_context db score requested wanted slug =
     (case one_or_none (filter (\<lambda>p. pb_score_id p = sc_id score \<and> public_slug p = slug \<and>
                                  pb_status p = PUBLISHED) (ad_publications db)) of
        Inl e \<Rightarrow> Inl e
      | Inr None \<Rightarrow> Inr None
      | Inr (Some publication) \<Rightarrow>
          if wanted = None \<or> published_revision_id publication = rv_id requested
          then (case db_get rv_id (ad_revisions db) (Some (published_revision_id publication)) of
                  None \<Rightarrow> Inl (unauthorized_exception ''no_access'' [])
                | Some revision \<Rightarrow>
                    Inr (Some \<lparr>cx_score = score, cx_revision = revision, cx_origin = Access_PUBLICATION,
                       cx_capabilities =
                         guest_capabilities (pb_allow_download publication) (pb_allow_practice publication),
                       cx_membership = None, cx_grant = None, cx_publication = Some publication\<rparr>))
          else Inr None)"

text \<open>An optional step that may raise, followed by the rest when it yields nothing.\<close>

definition or_else :: "app_exception + 'a option \<Rightarrow> app_exception + 'a \<Rightarrow> app_exception + 'a" where
  "or_else step rest = (case step of Inl e \<Rightarrow> Inl e | Inr (Some a) \<Rightarrow> Inr a | Inr None \<Rightarrow> rest)"

lemma or_else_simps [simp]:
  "or_else (Inl e) rest = Inl e" "or_else (Inr (Some a)) rest = Inr a" "or_else (Inr None) rest = rest"
  by (simp_all add: or_else_def)

definition member_context ::
  "access_db \<Rightarrow> Score \<Rightarrow> ScoreRevision \<Rightarrow> int \<Rightarrow> app_exception + ScoreAccessContext option" where
  "member_context db score requested user =
     (case one_or_none (filter (\<lambda>m. sm_score_id m = sc_id score \<and> sm_user_id m = user \<and>
                                  sm_revoked_at m = None) (ad_memberships db)) of
        Inl e \<Rightarrow> Inl e
      | Inr None \<Rightarrow> Inr None
      | Inr (Some membership) \<Rightarrow>
          Inr (Some \<lparr>cx_score = score, cx_revision = requested, cx_origin = Access_MEMBERSHIP,
             cx_capabilities = member_capabilities (sm_role membership),
             cx_membership = Some membership, cx_grant = None, cx_publication = None\<rparr>))"

definition redeemed_context ::
  "access_db \<Rightarrow> Score \<Rightarrow> ScoreRevision \<Rightarrow> string option \<Rightarrow> int \<Rightarrow> timestamp \<Rightarrow>
   app_exception + ScoreAccessContext option" where
  "redeemed_context db score requested wanted user now =
     (case valid_redeemed_grant db score user now of
        None \<Rightarrow> Inr None
      | Some grant \<Rightarrow> share_context db score requested wanted grant)"

definition token_context ::
  "(string \<Rightarrow> string) \<Rightarrow> access_db \<Rightarrow> Score \<Rightarrow> ScoreRevision \<Rightarrow> string option \<Rightarrow> string \<Rightarrow> timestamp \<Rightarrow>
   app_exception + ScoreAccessContext option" where
  "token_context sha db score requested wanted token now =
     (case valid_grant sha db score token now of
        Inl e \<Rightarrow> Inl e
      | Inr None \<Rightarrow> Inr None
      | Inr (Some grant) \<Rightarrow> share_context db score requested wanted grant)"

record access_request =
  rq_user :: "int option"
  rq_revision :: "string option"
  rq_token :: "string option"
  rq_slug :: "string option"

text \<open>The origins in their order, once the score and the requested revision are known. An explicit time of
  the request or the clock is \<open>now\<close>.\<close>

definition resolve_origin ::
  "(string \<Rightarrow> string) \<Rightarrow> access_db \<Rightarrow> timestamp \<Rightarrow> string \<Rightarrow> access_request \<Rightarrow> Score \<Rightarrow> ScoreRevision \<Rightarrow>
   app_exception + ScoreAccessContext" where
  "resolve_origin sha db now uuid rq score requested =
     (if rq_user rq = Some (owner_user_id score)
      then Inr \<lparr>cx_score = score, cx_revision = requested, cx_origin = Access_OWNER,
             cx_capabilities = owner_capabilities, cx_membership = None, cx_grant = None,
             cx_publication = None\<rparr>
      else
        or_else (case rq_user rq of None \<Rightarrow> Inr None
                 | Some user \<Rightarrow> member_context db score requested user)
        (or_else (case rq_user rq of None \<Rightarrow> Inr None
                  | Some user \<Rightarrow> redeemed_context db score requested (rq_revision rq) user now)
        (or_else (if str_truthy (rq_token rq)
                  then token_context sha db score requested (rq_revision rq) (the (rq_token rq)) now
                  else Inr None)
        (or_else (if str_truthy (rq_slug rq)
                  then publication_context db score requested (rq_revision rq) (the (rq_slug rq))
                  else Inr None)
        (Inl (unauthorized_exception ''no_access'' [(''score_id'', D_str uuid)]))))))"

definition resolve ::
  "(string \<Rightarrow> string) \<Rightarrow> access_db \<Rightarrow> timestamp \<Rightarrow> string \<Rightarrow> access_request \<Rightarrow>
   app_exception + ScoreAccessContext" where
  "resolve sha db now uuid rq =
     (case one_or_none (filter (\<lambda>s. score_uuid s = uuid \<and> deletion_status s = Score_ACTIVE) (ad_scores db)) of
        Inl e \<Rightarrow> Inl e
      | Inr None \<Rightarrow> Inl (resource_not_found_exception ''score'' (Some uuid) ''score_not_found'')
      | Inr (Some score) \<Rightarrow>
          (case access_revision db score (rq_revision rq) of
             Inl e \<Rightarrow> Inl e
           | Inr requested \<Rightarrow> resolve_origin sha db now uuid rq score requested))"

section \<open>Authorizing\<close>

fun capability :: "ScoreCapabilities \<Rightarrow> ScoreAction \<Rightarrow> bool" where
  "capability c Act_VIEW = can_view c"
| "capability c Act_EDIT = can_edit c"
| "capability c Act_DELETE = can_delete c"
| "capability c Act_MANAGE_SHARING = can_manage_sharing c"
| "capability c Act_MANAGE_MEMBERS = can_manage_members c"
| "capability c Act_DOWNLOAD = can_download c"
| "capability c Act_PRACTICE = can_practice c"
| "capability c Act_PUBLISH = can_publish c"

definition denial_code :: "ScoreAction \<Rightarrow> string" where
  "denial_code action =
     (if action = Act_EDIT then ''no_edit_access''
      else if action = Act_DELETE then ''no_delete_access''
      else if action = Act_MANAGE_SHARING then ''no_share_access''
      else if action = Act_DOWNLOAD then ''no_download_access''
      else if action = Act_PRACTICE then ''no_practice_access''
      else ''no_access'')"

definition authorize ::
  "(string \<Rightarrow> string) \<Rightarrow> access_db \<Rightarrow> timestamp \<Rightarrow> string \<Rightarrow> ScoreAction \<Rightarrow> access_request \<Rightarrow>
   app_exception + ScoreAccessContext" where
  "authorize sha db now uuid action rq =
     (case resolve sha db now uuid rq of
        Inl e \<Rightarrow> Inl e
      | Inr access \<Rightarrow>
          if capability (cx_capabilities access) action then Inr access
          else Inl (unauthorized_exception (denial_code action)
                 [(''score_id'', D_str uuid), (''action'', D_str (score_action_value action))]))"

section \<open>Who is entitled\<close>

text \<open>The rules, stated over the rows and independently of the order in which the policy looks.\<close>

definition live_score :: "access_db \<Rightarrow> string \<Rightarrow> Score \<Rightarrow> bool" where
  "live_score db uuid score \<longleftrightarrow>
     score \<in> set (ad_scores db) \<and> score_uuid score = uuid \<and> deletion_status score = Score_ACTIVE"

definition live_member :: "access_db \<Rightarrow> Score \<Rightarrow> int option \<Rightarrow> ScoreMembership \<Rightarrow> bool" where
  "live_member db score user m \<longleftrightarrow>
     m \<in> set (ad_memberships db) \<and> sm_score_id m = sc_id score \<and> user = Some (sm_user_id m) \<and>
     sm_revoked_at m = None"

definition grant_live :: "timestamp \<Rightarrow> ScoreShareGrant \<Rightarrow> bool" where
  "grant_live now g \<longleftrightarrow>
     sg_revoked_at g = None \<and> (case sg_expires_at g of None \<Rightarrow> True | Some t \<Rightarrow> now < t)"

definition redeemed_by :: "access_db \<Rightarrow> int option \<Rightarrow> ScoreShareGrant \<Rightarrow> bool" where
  "redeemed_by db user g \<longleftrightarrow>
     (\<exists>d \<in> set (ad_redemptions db). gr_grant_id d = sg_id g \<and> user = Some (gr_user_id d))"

definition holds_token :: "(string \<Rightarrow> string) \<Rightarrow> string option \<Rightarrow> ScoreShareGrant \<Rightarrow> bool" where
  "holds_token sha token g \<longleftrightarrow> str_truthy token \<and> sha (the token) = sg_token_hash g"

definition grant_reaches ::
  "(string \<Rightarrow> string) \<Rightarrow> access_db \<Rightarrow> timestamp \<Rightarrow> Score \<Rightarrow> access_request \<Rightarrow> ScoreShareGrant \<Rightarrow> bool" where
  "grant_reaches sha db now score rq g \<longleftrightarrow>
     g \<in> set (ad_grants db) \<and> sg_score_id g = sc_id score \<and> grant_live now g \<and>
     (redeemed_by db (rq_user rq) g \<or> holds_token sha (rq_token rq) g)"

definition published_under :: "access_db \<Rightarrow> Score \<Rightarrow> access_request \<Rightarrow> ScorePublication \<Rightarrow> bool" where
  "published_under db score rq p \<longleftrightarrow>
     p \<in> set (ad_publications db) \<and> pb_score_id p = sc_id score \<and> pb_status p = PUBLISHED \<and>
     str_truthy (rq_slug rq) \<and> rq_slug rq = Some (public_slug p)"

definition guest_entitled ::
  "(ScoreShareGrant \<Rightarrow> bool) \<Rightarrow> (ScorePublication \<Rightarrow> bool) \<Rightarrow> (string \<Rightarrow> string) \<Rightarrow> access_db \<Rightarrow>
   timestamp \<Rightarrow> Score \<Rightarrow> access_request \<Rightarrow> bool" where
  "guest_entitled G P sha db now score rq \<longleftrightarrow>
     rq_user rq = Some (owner_user_id score) \<or> (\<exists>m. live_member db score (rq_user rq) m) \<or>
     (\<exists>g. grant_reaches sha db now score rq g \<and> G g) \<or> (\<exists>p. published_under db score rq p \<and> P p)"

fun entitled ::
  "(string \<Rightarrow> string) \<Rightarrow> access_db \<Rightarrow> timestamp \<Rightarrow> Score \<Rightarrow> access_request \<Rightarrow> ScoreAction \<Rightarrow> bool" where
  "entitled sha db now score rq Act_VIEW = guest_entitled (\<lambda>g. True) (\<lambda>p. True) sha db now score rq"
| "entitled sha db now score rq Act_DOWNLOAD =
     guest_entitled sg_allow_download pb_allow_download sha db now score rq"
| "entitled sha db now score rq Act_PRACTICE =
     guest_entitled sg_allow_practice pb_allow_practice sha db now score rq"
| "entitled sha db now score rq Act_EDIT =
     (rq_user rq = Some (owner_user_id score) \<or>
      (\<exists>m. live_member db score (rq_user rq) m \<and> sm_role m = EDITOR))"
| "entitled sha db now score rq Act_DELETE = (rq_user rq = Some (owner_user_id score))"
| "entitled sha db now score rq Act_MANAGE_SHARING = (rq_user rq = Some (owner_user_id score))"
| "entitled sha db now score rq Act_MANAGE_MEMBERS = (rq_user rq = Some (owner_user_id score))"
| "entitled sha db now score rq Act_PUBLISH = (rq_user rq = Some (owner_user_id score))"

text \<open>The constraints the tables declare, and the references the policy follows: unique columns, the head
  and the published revision of a score exist and belong to it.\<close>

definition access_db_ok :: "access_db \<Rightarrow> bool" where
  "access_db_ok db \<longleftrightarrow>
     unique_column sc_id (ad_scores db) \<and> unique_column score_uuid (ad_scores db) \<and>
     unique_column rv_id (ad_revisions db) \<and> unique_column revision_uuid (ad_revisions db) \<and>
     unique_column (\<lambda>m. (sm_score_id m, sm_user_id m)) (ad_memberships db) \<and>
     unique_column sm_id (ad_memberships db) \<and>
     unique_column sg_token_hash (ad_grants db) \<and> unique_column grant_uuid (ad_grants db) \<and>
     unique_column public_slug (ad_publications db) \<and>
     (\<forall>s \<in> set (ad_scores db). \<exists>r \<in> set (ad_revisions db).
        head_revision_id s = Some (rv_id r) \<and> rv_score_id r = sc_id s) \<and>
     (\<forall>p \<in> set (ad_publications db). \<exists>r \<in> set (ad_revisions db).
        published_revision_id p = rv_id r \<and> rv_score_id r = pb_score_id p)"

section \<open>What each step of the policy finds\<close>

lemma one_or_none_filter: "one_or_none (filter p rs) = Inr (Some r) \<Longrightarrow> r \<in> set rs \<and> p r"
  by (auto simp: one_or_none_Some filter_eq_Cons_iff)

lemma one_or_none_empty: "one_or_none (filter p rs) = Inr None \<Longrightarrow> r \<in> set rs \<Longrightarrow> \<not> p r"
  by (auto simp: one_or_none_None filter_empty_conv)

lemma unique_query:
  assumes "unique_column key rs" and "\<And>r. r \<in> set rs \<Longrightarrow> p r \<Longrightarrow> key r = k"
  obtains (none) "one_or_none (filter p rs) = Inr None" and "\<And>r. r \<in> set rs \<Longrightarrow> \<not> p r"
  | (some) r where "one_or_none (filter p rs) = Inr (Some r)" and "r \<in> set rs" and "p r"
      and "\<And>x. x \<in> set rs \<Longrightarrow> p x \<Longrightarrow> x = r"
proof (cases "\<exists>r \<in> set rs. p r")
  case True
  then obtain r where r: "r \<in> set rs" "p r" by blast
  have inj: "inj_on key (set rs)" using assms(1) by (simp add: unique_column_def distinct_map)
  have same: "x = r" if "x \<in> set rs" and "p x" for x
    using assms(2) [OF that] assms(2) [OF r] by (intro inj_onD [OF inj _ that(1) r(1)]) simp
  have "p x \<longleftrightarrow> key x = key r" if x: "x \<in> set rs" for x
  proof
    show "p x \<Longrightarrow> key x = key r" using same [OF x] by simp
    assume "key x = key r"
    then have "x = r" by (rule inj_onD [OF inj _ x r(1)])
    with r(2) show "p x" by simp
  qed
  then have "filter p rs = filter (\<lambda>x. key x = key r) rs" by (rule filter_cong [OF refl])
  also have "\<dots> = [r]" by (rule unique_filter [OF assms(1) r(1)])
  finally have "one_or_none (filter p rs) = Inr (Some r)" by simp
  from some [OF this r same] show thesis .
next
  case False
  then show thesis by (intro none) (auto simp: one_or_none_None filter_empty_conv)
qed

lemma redeemed_grant_found:
  assumes "valid_redeemed_grant db score user now = Some g"
  shows "g \<in> set (ad_grants db) \<and> sg_score_id g = sc_id score \<and> grant_live now g \<and>
    redeemed_by db (Some user) g"
proof -
  have "g \<in> set (map fst (redeemed_rows db score user))"
      and "case sg_expires_at g of None \<Rightarrow> True | Some t \<Rightarrow> now < t"
    using assms unfolding valid_redeemed_grant_def find_Some_iff by (blast intro: nth_mem)+
  then show ?thesis by (auto simp: redeemed_rows_def grant_live_def redeemed_by_def)
qed

lemma redeemed_grant_none:
  assumes "valid_redeemed_grant db score user now = None"
    and "g \<in> set (ad_grants db)" "sg_score_id g = sc_id score" "redeemed_by db (Some user) g"
  shows "\<not> grant_live now g"
proof
  assume live: "grant_live now g"
  obtain d where "d \<in> set (ad_redemptions db)" "gr_grant_id d = sg_id g" "gr_user_id d = user"
    using assms(4) by (auto simp: redeemed_by_def)
  then have "(g, d) \<in> set (redeemed_rows db score user)"
    using assms(2,3) live by (simp add: redeemed_rows_def grant_live_def)
  then show False
    using assms(1) live by (force simp: valid_redeemed_grant_def find_None_iff grant_live_def)
qed

lemma valid_grant_found:
  "valid_grant sha db score token now = Inr (Some g) \<Longrightarrow>
   g \<in> set (ad_grants db) \<and> sg_score_id g = sc_id score \<and> grant_live now g \<and> sha token = sg_token_hash g"
  by (auto simp: valid_grant_def grant_live_def Let_def split: sum.splits option.splits if_splits
      dest!: one_or_none_filter)

text \<open>With a unique token column the query never fails, and no live grant is missed.\<close>

lemma valid_grant_total:
  assumes "access_db_ok db"
  obtains g where "valid_grant sha db score token now = Inr (Some g)"
  | "valid_grant sha db score token now = Inr None"
    and "\<And>g. g \<in> set (ad_grants db) \<Longrightarrow> sg_score_id g = sc_id score \<Longrightarrow> sg_token_hash g = sha token \<Longrightarrow>
      \<not> grant_live now g"
proof -
  let ?p = "\<lambda>g. sg_score_id g = sc_id score \<and> sg_token_hash g = sha token"
  have u: "unique_column sg_token_hash (ad_grants db)" using assms by (simp add: access_db_ok_def)
  show thesis
  proof (rule unique_query [OF u, of ?p "sha token"])
    show "\<And>g. ?p g \<Longrightarrow> sg_token_hash g = sha token" by simp
  next
    assume "one_or_none (filter ?p (ad_grants db)) = Inr None" and "\<And>g. g \<in> set (ad_grants db) \<Longrightarrow> \<not> ?p g"
    then show thesis by (intro that(2)) (auto simp: valid_grant_def Let_def)
  next
    fix g assume g: "one_or_none (filter ?p (ad_grants db)) = Inr (Some g)"
      and same: "\<And>x. x \<in> set (ad_grants db) \<Longrightarrow> ?p x \<Longrightarrow> x = g"
    have v: "valid_grant sha db score token now = Inr (if grant_live now g then Some g else None)"
      using g by (simp add: valid_grant_def Let_def grant_live_def not_less split: option.split)
    show thesis
    proof (cases "grant_live now g")
      case True with v show thesis by (intro that(1)) simp
    next
      case False with v same show thesis by (intro that(2)) auto
    qed
  qed
qed

lemma share_context_found:
  "share_context db score requested w g = Inr (Some ctx) \<Longrightarrow>
   cx_score ctx = score \<and> cx_origin ctx = Access_SHARE \<and> cx_grant ctx = Some g \<and>
   cx_capabilities ctx = guest_capabilities (sg_allow_download g) (sg_allow_practice g) \<and>
   rv_score_id (cx_revision ctx) = sc_id score \<and> cx_revision ctx \<in> set (ad_revisions db) \<and>
   head_revision_id score = Some (rv_id (cx_revision ctx)) \<and>
   (w = None \<or> rv_id (cx_revision ctx) = rv_id requested)"
  by (auto simp: share_context_def grant_revision_def split: sum.splits option.splits if_splits
      dest!: db_get_Some)

lemma publication_context_found:
  "publication_context db score requested w slug = Inr (Some ctx) \<Longrightarrow>
   \<exists>p \<in> set (ad_publications db). pb_score_id p = sc_id score \<and> public_slug p = slug \<and>
     pb_status p = PUBLISHED \<and> cx_score ctx = score \<and> cx_origin ctx = Access_PUBLICATION \<and>
     cx_capabilities ctx = guest_capabilities (pb_allow_download p) (pb_allow_practice p) \<and>
     cx_revision ctx \<in> set (ad_revisions db) \<and> published_revision_id p = rv_id (cx_revision ctx) \<and>
     (w = None \<or> rv_id (cx_revision ctx) = rv_id requested)"
  by (auto simp: publication_context_def split: sum.splits option.splits if_splits
      dest!: db_get_Some one_or_none_filter)

lemma member_context_found:
  "member_context db score requested user = Inr (Some ctx) \<Longrightarrow>
   \<exists>m. live_member db score (Some user) m \<and> cx_score ctx = score \<and> cx_origin ctx = Access_MEMBERSHIP \<and>
     cx_revision ctx = requested \<and> cx_capabilities ctx = member_capabilities (sm_role m)"
  by (auto simp: member_context_def live_member_def split: sum.splits option.splits dest!: one_or_none_filter)

lemma or_else_Inr: "or_else s r = Inr a \<longleftrightarrow> s = Inr (Some a) \<or> s = Inr None \<and> r = Inr a"
  by (auto simp: or_else_def split: sum.split option.split)

section \<open>What a resolved request says\<close>

definition origin_facts ::
  "(string \<Rightarrow> string) \<Rightarrow> access_db \<Rightarrow> timestamp \<Rightarrow> access_request \<Rightarrow> ScoreRevision \<Rightarrow>
   ScoreAccessContext \<Rightarrow> bool" where
  "origin_facts sha db now rq requested ctx \<longleftrightarrow>
     (case cx_origin ctx of
        Access_OWNER \<Rightarrow> rq_user rq = Some (owner_user_id (cx_score ctx)) \<and> cx_revision ctx = requested \<and>
          cx_capabilities ctx = owner_capabilities
      | Access_MEMBERSHIP \<Rightarrow> (\<exists>m. live_member db (cx_score ctx) (rq_user rq) m \<and>
          cx_capabilities ctx = member_capabilities (sm_role m)) \<and> cx_revision ctx = requested
      | Access_SHARE \<Rightarrow> (\<exists>g. grant_reaches sha db now (cx_score ctx) rq g \<and>
          cx_capabilities ctx = guest_capabilities (sg_allow_download g) (sg_allow_practice g)) \<and>
          head_revision_id (cx_score ctx) = Some (rv_id (cx_revision ctx)) \<and>
          rv_score_id (cx_revision ctx) = sc_id (cx_score ctx)
      | Access_PUBLICATION \<Rightarrow> (\<exists>p. published_under db (cx_score ctx) rq p \<and>
          cx_capabilities ctx = guest_capabilities (pb_allow_download p) (pb_allow_practice p) \<and>
          published_revision_id p = rv_id (cx_revision ctx))) \<and>
     (cx_origin ctx \<in> {Access_SHARE, Access_PUBLICATION} \<longrightarrow> cx_revision ctx \<in> set (ad_revisions db) \<and>
        (rq_revision rq = None \<or> rv_id (cx_revision ctx) = rv_id requested))"

lemma redeemed_facts:
  assumes "rq_user rq = Some user"
    and "redeemed_context db score requested (rq_revision rq) user now = Inr (Some ctx)"
  shows "cx_score ctx = score \<and> origin_facts sha db now rq requested ctx"
proof -
  obtain g where g: "valid_redeemed_grant db score user now = Some g"
      "share_context db score requested (rq_revision rq) g = Inr (Some ctx)"
    using assms(2) by (auto simp: redeemed_context_def split: option.splits)
  from redeemed_grant_found [OF g(1)] share_context_found [OF g(2)] assms(1)
  show ?thesis by (auto simp: origin_facts_def grant_reaches_def)
qed

lemma token_facts:
  assumes "str_truthy (rq_token rq)"
    and "token_context sha db score requested (rq_revision rq) (the (rq_token rq)) now = Inr (Some ctx)"
  shows "cx_score ctx = score \<and> origin_facts sha db now rq requested ctx"
proof -
  obtain g where g: "valid_grant sha db score (the (rq_token rq)) now = Inr (Some g)"
      "share_context db score requested (rq_revision rq) g = Inr (Some ctx)"
    using assms(2) by (auto simp: token_context_def split: sum.splits option.splits)
  from valid_grant_found [OF g(1)] share_context_found [OF g(2)] assms(1)
  show ?thesis by (auto simp: origin_facts_def grant_reaches_def holds_token_def)
qed

lemma slug_facts:
  assumes "str_truthy (rq_slug rq)"
    and "publication_context db score requested (rq_revision rq) (the (rq_slug rq)) = Inr (Some ctx)"
  shows "cx_score ctx = score \<and> origin_facts sha db now rq requested ctx"
proof -
  obtain slug where "rq_slug rq = Some slug" using assms(1) by (cases "rq_slug rq") auto
  with publication_context_found [OF assms(2)] assms(1) show ?thesis
    by (fastforce simp: origin_facts_def published_under_def)
qed

lemma origin_facts_found:
  assumes "resolve_origin sha db now uuid rq score requested = Inr ctx"
  shows "cx_score ctx = score \<and> origin_facts sha db now rq requested ctx"
proof (cases "rq_user rq = Some (owner_user_id score)")
  case True
  with assms show ?thesis by (auto simp: resolve_origin_def origin_facts_def)
next
  case False
  with assms have steps: "or_else (case rq_user rq of None \<Rightarrow> Inr None
                 | Some user \<Rightarrow> member_context db score requested user)
        (or_else (case rq_user rq of None \<Rightarrow> Inr None
                  | Some user \<Rightarrow> redeemed_context db score requested (rq_revision rq) user now)
        (or_else (if str_truthy (rq_token rq)
                  then token_context sha db score requested (rq_revision rq) (the (rq_token rq)) now
                  else Inr None)
        (or_else (if str_truthy (rq_slug rq)
                  then publication_context db score requested (rq_revision rq) (the (rq_slug rq))
                  else Inr None)
        (Inl (unauthorized_exception ''no_access'' [(''score_id'', D_str uuid)]))))) = Inr ctx"
    by (simp add: resolve_origin_def)
  consider user where "rq_user rq = Some user" "member_context db score requested user = Inr (Some ctx)"
    | user where "rq_user rq = Some user"
        "redeemed_context db score requested (rq_revision rq) user now = Inr (Some ctx)"
    | "str_truthy (rq_token rq)"
        "token_context sha db score requested (rq_revision rq) (the (rq_token rq)) now = Inr (Some ctx)"
    | "str_truthy (rq_slug rq)"
        "publication_context db score requested (rq_revision rq) (the (rq_slug rq)) = Inr (Some ctx)"
    using steps unfolding or_else_Inr by (fastforce split: option.splits if_splits)
  then show ?thesis
  proof cases
    case 1
    from member_context_found [OF 1(2)] 1(1) show ?thesis by (auto simp: origin_facts_def)
  qed (simp_all add: redeemed_facts token_facts slug_facts)
qed

lemma resolve_facts:
  assumes "resolve sha db now uuid rq = Inr ctx"
  shows "live_score db uuid (cx_score ctx) \<and>
    (\<exists>requested. access_revision db (cx_score ctx) (rq_revision rq) = Inr requested \<and>
      origin_facts sha db now rq requested ctx)"
proof -
  obtain score requested where "live_score db uuid score"
      and r: "access_revision db score (rq_revision rq) = Inr requested"
      and o: "resolve_origin sha db now uuid rq score requested = Inr ctx"
    using assms
    by (auto simp: resolve_def live_score_def split: sum.splits option.splits dest!: one_or_none_filter)
  with origin_facts_found [OF o] r show ?thesis by auto
qed

section \<open>No step fails on consistent tables\<close>

lemma find_score:
  assumes "access_db_ok db" and "live_score db uuid score"
  shows "one_or_none (filter (\<lambda>s. score_uuid s = uuid \<and> deletion_status s = Score_ACTIVE) (ad_scores db)) =
    Inr (Some score)"
proof -
  let ?p = "\<lambda>s. score_uuid s = uuid \<and> deletion_status s = Score_ACTIVE"
  have u: "unique_column score_uuid (ad_scores db)" using assms(1) by (simp add: access_db_ok_def)
  have m: "score \<in> set (ad_scores db)" "?p score" using assms(2) by (simp_all add: live_score_def)
  show ?thesis
  proof (rule unique_query [OF u, of ?p uuid])
    show "\<And>r. ?p r \<Longrightarrow> score_uuid r = uuid" by simp
    show "(\<And>r. r \<in> set (ad_scores db) \<Longrightarrow> \<not> ?p r) \<Longrightarrow> ?thesis" using m by blast
    show "one_or_none (filter ?p (ad_scores db)) = Inr (Some r) \<Longrightarrow>
        (\<And>x. x \<in> set (ad_scores db) \<Longrightarrow> ?p x \<Longrightarrow> x = r) \<Longrightarrow> ?thesis" for r
      using m by metis
  qed
qed

lemma head_revision:
  assumes "access_db_ok db" and "live_score db uuid score"
  obtains r where "db_get rv_id (ad_revisions db) (head_revision_id score) = Some r"
    and "rv_score_id r = sc_id score" and "access_revision db score None = Inr r"
    and "grant_revision db score = Inr r"
proof -
  obtain r where r: "r \<in> set (ad_revisions db)" "head_revision_id score = Some (rv_id r)" "rv_score_id r = sc_id score"
    using assms by (auto simp: access_db_ok_def live_score_def)
  have "db_get rv_id (ad_revisions db) (head_revision_id score) = Some r"
    using db_get_unique [of rv_id "ad_revisions db" r] assms(1) r by (simp add: access_db_ok_def)
  with r show thesis by (intro that) (simp_all add: access_revision_def grant_revision_def)
qed

lemma member_context_total:
  assumes "access_db_ok db"
  obtains (none) "member_context db score requested user = Inr None"
      and "\<And>m. \<not> live_member db score (Some user) m"
  | (some) m ctx where "member_context db score requested user = Inr (Some ctx)"
      and "cx_capabilities ctx = member_capabilities (sm_role m)"
      and "live_member db score (Some user) m" and "\<And>x. live_member db score (Some user) x \<Longrightarrow> x = m"
proof -
  let ?p = "\<lambda>m. sm_score_id m = sc_id score \<and> sm_user_id m = user \<and> sm_revoked_at m = None"
  have u: "unique_column (\<lambda>m. (sm_score_id m, sm_user_id m)) (ad_memberships db)"
    using assms by (simp add: access_db_ok_def)
  show thesis
  proof (rule unique_query [OF u, of ?p "(sc_id score, user)"])
    show "\<And>r. ?p r \<Longrightarrow> (sm_score_id r, sm_user_id r) = (sc_id score, user)" by simp
  next
    assume "one_or_none (filter ?p (ad_memberships db)) = Inr None"
      and "\<And>r. r \<in> set (ad_memberships db) \<Longrightarrow> \<not> ?p r"
    then show thesis by (intro none) (auto simp: member_context_def live_member_def)
  next
    fix m assume "one_or_none (filter ?p (ad_memberships db)) = Inr (Some m)"
      and "m \<in> set (ad_memberships db)" and "?p m"
      and "\<And>x. x \<in> set (ad_memberships db) \<Longrightarrow> ?p x \<Longrightarrow> x = m"
    note m = this
    show thesis
    proof (rule some [of _ m])
      show "member_context db score requested user = Inr (Some \<lparr>cx_score = score, cx_revision = requested,
          cx_origin = Access_MEMBERSHIP, cx_capabilities = member_capabilities (sm_role m),
          cx_membership = Some m, cx_grant = None, cx_publication = None\<rparr>)"
        by (simp only: member_context_def m(1) sum.case option.case)
      show "live_member db score (Some user) m" using m(2,3) by (simp add: live_member_def)
      show "x = m" if "live_member db score (Some user) x" for x
        using that by (intro m(4)) (simp_all add: live_member_def)
    qed simp
  qed
qed

lemma share_context_total:
  assumes "access_db_ok db" and "live_score db uuid score"
  shows "\<exists>ctx. share_context db score requested None g = Inr (Some ctx) \<and>
    cx_capabilities ctx = guest_capabilities (sg_allow_download g) (sg_allow_practice g)"
proof -
  obtain r where "grant_revision db score = Inr r" using head_revision [OF assms] by blast
  then show ?thesis by (simp add: share_context_def)
qed

lemma publication_context_total:
  assumes "access_db_ok db"
  obtains (none) "publication_context db score requested None slug = Inr None"
      and "\<And>p. p \<in> set (ad_publications db) \<Longrightarrow> pb_score_id p = sc_id score \<Longrightarrow> public_slug p = slug \<Longrightarrow>
        pb_status p \<noteq> PUBLISHED"
  | (some) ctx and p :: ScorePublication where "publication_context db score requested None slug = Inr (Some ctx)"
      and "cx_capabilities ctx = guest_capabilities (pb_allow_download p) (pb_allow_practice p)"
proof -
  let ?p = "\<lambda>p. pb_score_id p = sc_id score \<and> public_slug p = slug \<and> pb_status p = PUBLISHED"
  have u: "unique_column public_slug (ad_publications db)" using assms by (simp add: access_db_ok_def)
  show thesis
  proof (rule unique_query [OF u, of ?p slug])
    show "\<And>r. ?p r \<Longrightarrow> public_slug r = slug" by simp
  next
    assume "one_or_none (filter ?p (ad_publications db)) = Inr None"
      and "\<And>r. r \<in> set (ad_publications db) \<Longrightarrow> \<not> ?p r"
    then show thesis by (intro none) (auto simp: publication_context_def)
  next
    fix p assume p: "one_or_none (filter ?p (ad_publications db)) = Inr (Some p)" "p \<in> set (ad_publications db)"
    then obtain r where "r \<in> set (ad_revisions db)" "published_revision_id p = rv_id r"
      using assms by (auto simp: access_db_ok_def)
    then have "db_get rv_id (ad_revisions db) (Some (published_revision_id p)) = Some r"
      using db_get_unique [of rv_id "ad_revisions db" r] assms by (simp add: access_db_ok_def)
    then have "publication_context db score requested None slug = Inr (Some \<lparr>cx_score = score,
        cx_revision = r, cx_origin = Access_PUBLICATION,
        cx_capabilities = guest_capabilities (pb_allow_download p) (pb_allow_practice p),
        cx_membership = None, cx_grant = None, cx_publication = Some p\<rparr>)"
      by (simp add: publication_context_def p(1))
    then show thesis by (rule some [where p = p]) simp
  qed
qed

text \<open>On consistent tables a request for the current revision is refused only for lack of access.\<close>

lemma resolve_total:
  assumes ok: "access_db_ok db" and live: "live_score db uuid score" and rev: "rq_revision rq = None"
  shows "(\<exists>ctx. resolve sha db now uuid rq = Inr ctx) \<or>
    resolve sha db now uuid rq = Inl (unauthorized_exception ''no_access'' [(''score_id'', D_str uuid)]) \<and>
    \<not> entitled sha db now score rq Act_VIEW"
proof -
  obtain head where head: "access_revision db score None = Inr head" using head_revision [OF ok live] by blast
  have res: "resolve sha db now uuid rq = resolve_origin sha db now uuid rq score head"
    by (simp add: resolve_def find_score [OF ok live] rev head)
  let ?member = "case rq_user rq of None \<Rightarrow> Inr None | Some user \<Rightarrow> member_context db score head user"
  let ?redeemed = "case rq_user rq of None \<Rightarrow> Inr None | Some user \<Rightarrow> redeemed_context db score head None user now"
  let ?token = "if str_truthy (rq_token rq)
    then token_context sha db score head None (the (rq_token rq)) now else Inr None"
  let ?slug = "if str_truthy (rq_slug rq)
    then publication_context db score head None (the (rq_slug rq)) else Inr None"
  have m: "(\<exists>c. ?member = Inr (Some c)) \<or> ?member = Inr None \<and> (\<nexists>m. live_member db score (rq_user rq) m)"
  proof (cases "rq_user rq")
    case None then show ?thesis by (simp add: live_member_def)
  next
    case (Some u)
    show ?thesis
      unfolding Some option.case
      by (rule member_context_total [OF ok, where score = score and requested = head and user = u]) blast+
  qed
  have d: "(\<exists>c. ?redeemed = Inr (Some c)) \<or> ?redeemed = Inr None \<and>
      (\<nexists>g. g \<in> set (ad_grants db) \<and> sg_score_id g = sc_id score \<and> grant_live now g \<and> redeemed_by db (rq_user rq) g)"
  proof (cases "rq_user rq")
    case None then show ?thesis by (simp add: redeemed_by_def)
  next
    case (Some u)
    show ?thesis
    proof (cases "valid_redeemed_grant db score u now")
      case None
      then show ?thesis using redeemed_grant_none [OF None] Some by (simp add: redeemed_context_def) blast
    next
      case g: (Some g)
      then show ?thesis using share_context_total [OF ok live, of head g] Some by (auto simp: redeemed_context_def)
    qed
  qed
  have t: "(\<exists>c. ?token = Inr (Some c)) \<or> ?token = Inr None \<and>
      (\<nexists>g. g \<in> set (ad_grants db) \<and> sg_score_id g = sc_id score \<and> grant_live now g \<and> holds_token sha (rq_token rq) g)"
  proof (rule valid_grant_total [OF ok, where sha = sha and score = score and token = "the (rq_token rq)" and now = now])
    fix g assume "valid_grant sha db score (the (rq_token rq)) now = Inr (Some g)"
    then show ?thesis
      using share_context_total [OF ok live, of head g] by (auto simp: token_context_def holds_token_def)
  next
    assume "valid_grant sha db score (the (rq_token rq)) now = Inr None"
      and "\<And>g. g \<in> set (ad_grants db) \<Longrightarrow> sg_score_id g = sc_id score \<Longrightarrow>
        sg_token_hash g = sha (the (rq_token rq)) \<Longrightarrow> \<not> grant_live now g"
    then show ?thesis by (auto simp: token_context_def holds_token_def)
  qed
  have p: "(\<exists>c. ?slug = Inr (Some c)) \<or> ?slug = Inr None \<and> (\<nexists>p. published_under db score rq p)"
    by (rule publication_context_total [OF ok, where score = score and requested = head and slug = "the (rq_slug rq)"])
       (auto simp: published_under_def)
  show ?thesis
  proof (cases "rq_user rq = Some (owner_user_id score)")
    case True
    then show ?thesis by (simp add: res resolve_origin_def)
  next
    case False
    then show ?thesis
      using m d t p unfolding res resolve_origin_def rev
      by (fastforce simp: guest_entitled_def grant_reaches_def)
  qed
qed

section \<open>Properties\<close>

lemma capability_simps [simp]:
  "capability owner_capabilities action"
  "capability (member_capabilities role) action \<longleftrightarrow>
     action \<in> {Act_VIEW, Act_DOWNLOAD, Act_PRACTICE} \<or> action = Act_EDIT \<and> role = EDITOR"
  "capability (guest_capabilities download practice) action \<longleftrightarrow>
     action = Act_VIEW \<or> action = Act_DOWNLOAD \<and> download \<or> action = Act_PRACTICE \<and> practice"
  by (cases action; simp add: owner_capabilities_def member_capabilities_def guest_capabilities_def)+

declare capability.simps [simp del]

lemma origin_entitled:
  assumes "origin_facts sha db now rq requested ctx" and "capability (cx_capabilities ctx) action"
  shows "entitled sha db now (cx_score ctx) rq action"
proof (cases "cx_origin ctx")
  case Access_OWNER
  with assms show ?thesis by (cases action) (auto simp: origin_facts_def guest_entitled_def)
next
  case Access_MEMBERSHIP
  with assms show ?thesis by (cases action) (auto simp: origin_facts_def guest_entitled_def)
next
  case Access_SHARE
  with assms show ?thesis by (cases action) (auto simp: origin_facts_def guest_entitled_def)
next
  case Access_PUBLICATION
  with assms show ?thesis by (cases action) (auto simp: origin_facts_def guest_entitled_def)
qed

lemma origin_can_view: "origin_facts sha db now rq requested ctx \<Longrightarrow> capability (cx_capabilities ctx) Act_VIEW"
  by (cases "cx_origin ctx") (auto simp: origin_facts_def)

lemma authorize_Inr:
  "authorize sha db now uuid action rq = Inr ctx \<longleftrightarrow>
     resolve sha db now uuid rq = Inr ctx \<and> capability (cx_capabilities ctx) action"
  by (auto simp: authorize_def split: sum.split)

text \<open>Completeness of what the owner and an editor get, whatever else they hold.\<close>

lemma resolved_owner:
  assumes "resolve sha db now uuid rq = Inr ctx" and "rq_user rq = Some (owner_user_id (cx_score ctx))"
  shows "cx_capabilities ctx = owner_capabilities"
proof -
  obtain score requested where "resolve_origin sha db now uuid rq score requested = Inr ctx"
    using assms(1) by (auto simp: resolve_def split: sum.splits option.splits)
  with origin_facts_found [OF this] assms(2) show ?thesis by (auto simp: resolve_origin_def)
qed

lemma resolved_edit:
  assumes "access_db_ok db" and "live_score db uuid score" and "resolve sha db now uuid rq = Inr ctx"
    and "live_member db score (rq_user rq) m" and "sm_role m = EDITOR"
  shows "capability (cx_capabilities ctx) Act_EDIT"
proof -
  obtain requested where o: "resolve_origin sha db now uuid rq score requested = Inr ctx"
    using assms(3) by (auto simp: resolve_def find_score [OF assms(1,2)] split: sum.splits)
  obtain u where u: "rq_user rq = Some u" using assms(4) by (auto simp: live_member_def)
  show ?thesis
  proof (cases "u = owner_user_id score")
    case True
    with o u show ?thesis by (auto simp: resolve_origin_def)
  next
    case False
    show ?thesis
    proof (rule member_context_total [OF assms(1), where score = score and requested = requested and user = u])
      assume "\<And>m. \<not> live_member db score (Some u) m"
      with assms(4) u show ?thesis by simp
    next
      fix m' c assume "member_context db score requested u = Inr (Some c)"
        and c: "cx_capabilities c = member_capabilities (sm_role m')"
        and same: "\<And>x. live_member db score (Some u) x \<Longrightarrow> x = m'"
      with o u False have "ctx = c" by (simp add: resolve_origin_def)
      moreover have "m = m'" using same assms(4) u by simp
      ultimately show ?thesis using c assms(5) by simp
    qed
  qed
qed

text \<open>The revision a caller is given is one of the score, and the one asked for if one was.\<close>

lemma access_revision_found:
  assumes ok: "access_db_ok db" and s: "score \<in> set (ad_scores db)"
    and r: "access_revision db score w = Inr r"
  shows "r \<in> set (ad_revisions db) \<and> rv_score_id r = sc_id score \<and> (str_truthy w \<longrightarrow> w = Some (revision_uuid r))"
proof (cases "str_truthy w")
  case True
  with r show ?thesis
    by (auto simp: access_revision_def Let_def split: sum.splits option.splits dest!: one_or_none_filter)
next
  case False
  obtain h where h: "h \<in> set (ad_revisions db)" "head_revision_id score = Some (rv_id h)" "rv_score_id h = sc_id score"
    using ok s by (auto simp: access_db_ok_def)
  have "db_get rv_id (ad_revisions db) (head_revision_id score) = Some h"
    using db_get_unique [of rv_id "ad_revisions db" h] ok h by (simp add: access_db_ok_def)
  with False r h show ?thesis by (auto simp: access_revision_def Let_def)
qed

lemma published_revision_exists:
  "access_db_ok db \<Longrightarrow> p \<in> set (ad_publications db) \<Longrightarrow>
   \<exists>r \<in> set (ad_revisions db). published_revision_id p = rv_id r \<and> rv_score_id r = pb_score_id p"
  by (simp add: access_db_ok_def)

lemma revision_id_unique:
  assumes "access_db_ok db" and "a \<in> set (ad_revisions db)" and "b \<in> set (ad_revisions db)" and "rv_id a = rv_id b"
  shows "a = b"
  using assms db_get_unique [of rv_id "ad_revisions db"] by (metis access_db_ok_def option.inject)

lemma access_decides:
  assumes "access_db_ok db" and "live_score db uuid score" and "rq_revision rq = None"
    and "action \<noteq> Act_DOWNLOAD" and "action \<noteq> Act_PRACTICE"
  shows "if entitled sha db now score rq action
    then \<exists>ctx. authorize sha db now uuid action rq = Inr ctx \<and> cx_score ctx = score
    else \<exists>e. authorize sha db now uuid action rq = Inl e \<and> exception_status e = 403 \<and>
      exception_code e \<in> {denial_code action, ''no_access''}"
proof -
  have uniq: "s = score" if "live_score db uuid s" for s
    using find_score [OF assms(1,2)] find_score [OF assms(1) that] by simp
  show ?thesis
  proof (cases "\<exists>ctx. resolve sha db now uuid rq = Inr ctx")
    case True
    then obtain ctx where res: "resolve sha db now uuid rq = Inr ctx" by blast
    obtain requested where f: "cx_score ctx = score" "origin_facts sha db now rq requested ctx"
      using resolve_facts [OF res] uniq by blast
    have "entitled sha db now score rq action \<Longrightarrow> capability (cx_capabilities ctx) action"
      using resolved_edit [OF assms(1,2) res] resolved_owner [OF res] origin_can_view [OF f(2)] f(1) assms(4,5)
      by (cases action) (auto)
    with origin_entitled [OF f(2)] f(1) res show ?thesis
      by (auto simp: authorize_def unauthorized_exception_def)
  next
    case False
    with resolve_total [OF assms(1-3), of sha now]
    have r: "resolve sha db now uuid rq = Inl (unauthorized_exception ''no_access'' [(''score_id'', D_str uuid)])"
      and v: "\<not> entitled sha db now score rq Act_VIEW" by auto
    have "\<not> entitled sha db now score rq action" using v assms(4,5) by (cases action) (auto simp: guest_entitled_def)
    with r show ?thesis by (simp add: authorize_def unauthorized_exception_def)
  qed
qed

text \<open>C9. No action is granted that the rules do not grant. Whatever is requested, in whatever way: the score
  is live and has the requested name; deleting, sharing, managing members and publishing are the owner's
  alone; editing needs the owner or a membership with the editor's role that is not revoked; and viewing,
  downloading and practising, for anyone else, need a membership, a grant of this very score that is neither
  revoked nor expired and was redeemed by this user or is named by its token, or the published slug of this
  score, with that right given by the grant or publication itself.\<close>

theorem access_sound:
  assumes "authorize sha db now uuid action rq = Inr ctx"
  shows "live_score db uuid (cx_score ctx) \<and> entitled sha db now (cx_score ctx) rq action"
  using assms resolve_facts [of sha db now uuid rq ctx] origin_entitled by (auto simp: authorize_Inr)

text \<open>A score of user 7; user 9 redeemed a grant to view it, and a second grant allows downloading.\<close>

definition example_view_grant :: ScoreShareGrant where
  "example_view_grant = \<lparr>sg_id = 1, grant_uuid = ''g1'', sg_score_id = 1, sg_token_hash = ''T1'',
     sg_allow_download = False, sg_allow_practice = True, sg_expires_at = Some 100, sg_revoked_at = None,
     sg_created_by_user_id = 7, sg_created_at = 0\<rparr>"

definition example_download_grant :: ScoreShareGrant where
  "example_download_grant = \<lparr>sg_id = 2, grant_uuid = ''g2'', sg_score_id = 1, sg_token_hash = ''T2'',
     sg_allow_download = True, sg_allow_practice = True, sg_expires_at = None, sg_revoked_at = None,
     sg_created_by_user_id = 7, sg_created_at = 0\<rparr>"

definition example_access_db :: access_db where
  "example_access_db = \<lparr>ad_scores = [example_score], ad_revisions = [example_revision],
     ad_memberships = [], ad_invites = [], ad_grants = [example_view_grant, example_download_grant],
     ad_redemptions = [\<lparr>gr_id = 1, gr_grant_id = 1, gr_user_id = 9, gr_created_at = 0\<rparr>],
     ad_publications = []\<rparr>"

definition guest_request :: "int option \<Rightarrow> string option \<Rightarrow> access_request" where
  "guest_request user token = \<lparr>rq_user = user, rq_revision = None, rq_token = token, rq_slug = None\<rparr>"

lemmas example_access_defs = example_access_db_def example_view_grant_def example_download_grant_def
  example_score_def example_revision_def guest_request_def

lemma example_access_ok: "access_db_ok example_access_db"
  by (simp add: access_db_ok_def unique_column_def example_access_defs)

lemma example_live: "live_score example_access_db ''s'' example_score"
  by (simp add: live_score_def example_access_defs)

text \<open>The evaluation of the two requests of the example: for the user who redeemed the first grant, and for
  a visitor who holds the token of the second.\<close>

lemma example_redeemed:
  "valid_redeemed_grant example_access_db example_score 9 50 = Some example_view_grant"
  by (simp add: valid_redeemed_grant_def redeemed_rows_def example_access_defs)

lemma example_origin:
  "access_revision example_access_db example_score None = Inr example_revision"
  "grant_revision example_access_db example_score = Inr example_revision"
  "valid_grant (\<lambda>t. t) example_access_db example_score ''T2'' 50 = Inr (Some example_download_grant)"
  by (simp_all add: access_revision_def grant_revision_def valid_grant_def db_get_def example_access_defs)

lemma example_resolve:
  "\<exists>ctx. resolve (\<lambda>t. t) example_access_db 50 ''s'' (guest_request (Some 9) t) = Inr ctx \<and>
     cx_score ctx = example_score \<and> cx_capabilities ctx = guest_capabilities False True"
  "\<exists>ctx. resolve (\<lambda>t. t) example_access_db 50 ''s'' (guest_request None (Some ''T2'')) = Inr ctx \<and>
     cx_score ctx = example_score \<and> cx_capabilities ctx = guest_capabilities True True"
  by (simp_all add: resolve_def find_score [OF example_access_ok example_live] guest_request_def example_origin
      resolve_origin_def member_context_def redeemed_context_def example_redeemed share_context_def
      token_context_def)
     (simp_all add: example_access_defs)

theorem access_sound_witness:
  "entitled (\<lambda>t. t) example_access_db 50 example_score (guest_request (Some 9) None) Act_PRACTICE"
proof -
  obtain ctx where "resolve (\<lambda>t. t) example_access_db 50 ''s'' (guest_request (Some 9) None) = Inr ctx"
      "cx_score ctx = example_score" "cx_capabilities ctx = guest_capabilities False True"
    using example_resolve(1) by blast
  with access_sound [of "\<lambda>t. t" example_access_db 50 "''s''" Act_PRACTICE "guest_request (Some 9) None" ctx]
  show ?thesis by (simp add: authorize_Inr)
qed



text \<open>What a caller gets to see: the revision belongs to the score; it is the one asked for, if one was; a
  grant shows the head only, and a publication the published revision only.\<close>

theorem access_revision_pinned:
  assumes "access_db_ok db" and "resolve sha db now uuid rq = Inr ctx"
  shows "rv_score_id (cx_revision ctx) = sc_id (cx_score ctx) \<and>
    (str_truthy (rq_revision rq) \<longrightarrow> rq_revision rq = Some (revision_uuid (cx_revision ctx))) \<and>
    (cx_origin ctx = Access_SHARE \<longrightarrow> head_revision_id (cx_score ctx) = Some (rv_id (cx_revision ctx))) \<and>
    (cx_origin ctx = Access_PUBLICATION \<longrightarrow> (\<exists>p. published_under db (cx_score ctx) rq p \<and>
       published_revision_id p = rv_id (cx_revision ctx)))"
proof -
  obtain requested where live: "live_score db uuid (cx_score ctx)"
      and r: "access_revision db (cx_score ctx) (rq_revision rq) = Inr requested"
      and f: "origin_facts sha db now rq requested ctx"
    using resolve_facts [OF assms(2)] by blast
  have req: "requested \<in> set (ad_revisions db) \<and> rv_score_id requested = sc_id (cx_score ctx) \<and>
      (str_truthy (rq_revision rq) \<longrightarrow> rq_revision rq = Some (revision_uuid requested))"
    using live by (intro access_revision_found [OF assms(1) _ r]) (simp add: live_score_def)
  have same: "cx_revision ctx = requested"
    if "rv_id (cx_revision ctx) = rv_id requested" "cx_revision ctx \<in> set (ad_revisions db)"
    using req that by (intro revision_id_unique [OF assms(1)]) simp_all
  have pub: "rv_score_id (cx_revision ctx) = sc_id (cx_score ctx)"
    if p: "published_under db (cx_score ctx) rq p" "published_revision_id p = rv_id (cx_revision ctx)"
      "cx_revision ctx \<in> set (ad_revisions db)" for p
  proof -
    obtain x where x: "x \<in> set (ad_revisions db)" "published_revision_id p = rv_id x" "rv_score_id x = pb_score_id p"
      using published_revision_exists [OF assms(1), of p] p(1) by (auto simp: published_under_def)
    then have "x = cx_revision ctx" using p by (intro revision_id_unique [OF assms(1)]) simp_all
    with x(3) p(1) show ?thesis by (simp add: published_under_def)
  qed
  show ?thesis
    using f req same pub by (cases "cx_origin ctx") (auto simp: origin_facts_def)
qed

theorem access_revision_pinned_witness:
  "\<exists>ctx. resolve (\<lambda>t. t) example_access_db 50 ''s'' (guest_request None (Some ''T2'')) = Inr ctx \<and>
     rv_score_id (cx_revision ctx) = sc_id (cx_score ctx)"
  using example_resolve(2) access_revision_pinned [OF example_access_ok] by blast

text \<open>The first origin that applies decides, also when a later one would give more: a user who redeemed a
  grant without downloads is refused a download with the token of a grant that allows it, while a visitor who
  is not signed in may download with the same token.\<close>

theorem access_first_origin_shadows:
  "(\<exists>ctx. authorize (\<lambda>t. t) example_access_db 50 ''s'' Act_DOWNLOAD (guest_request None (Some ''T2'')) = Inr ctx) \<and>
   authorize (\<lambda>t. t) example_access_db 50 ''s'' Act_DOWNLOAD (guest_request (Some 9) (Some ''T2'')) =
     Inl (unauthorized_exception ''no_download_access'' [(''score_id'', D_str ''s''), (''action'', D_str ''DOWNLOAD'')]) \<and>
   entitled (\<lambda>t. t) example_access_db 50 example_score (guest_request (Some 9) (Some ''T2'')) Act_DOWNLOAD"
proof -
  have "\<exists>ctx. authorize (\<lambda>t. t) example_access_db 50 ''s'' Act_DOWNLOAD (guest_request None (Some ''T2'')) = Inr ctx"
    using example_resolve(2) by (auto simp: authorize_Inr)
  moreover have "authorize (\<lambda>t. t) example_access_db 50 ''s'' Act_DOWNLOAD (guest_request (Some 9) (Some ''T2'')) =
     Inl (unauthorized_exception ''no_download_access'' [(''score_id'', D_str ''s''), (''action'', D_str ''DOWNLOAD'')])"
    using example_resolve(1) [of "Some ''T2''"]
    by (auto simp: authorize_def denial_code_def)
  moreover have "grant_reaches (\<lambda>t. t) example_access_db 50 example_score (guest_request (Some 9) (Some ''T2''))
      example_download_grant"
    by (simp add: grant_reaches_def grant_live_def holds_token_def example_access_defs)
  then have "entitled (\<lambda>t. t) example_access_db 50 example_score (guest_request (Some 9) (Some ''T2'')) Act_DOWNLOAD"
    by (auto simp: guest_entitled_def example_download_grant_def)
  ultimately show ?thesis by blast
qed

end
