(* ===== verification/User_Model.thy ===== *)
theory User_Model
  imports Prelude
begin

text \<open>
  The row of a user, \<open>backend/app/db/models/user.py\<close>, as the services read it. The relationships of the
  class are queries on the other tables and are not stored in the row.
\<close>

record User =
  us_id :: int
  display_name :: "string option"
  us_email :: string
  password_hash :: string
  is_active :: bool
  email_verified_at :: timestamp
  last_login :: "timestamp option"
  password_changed_at :: "timestamp option"
  avatar_url :: "string option"
  us_created_at :: timestamp
  us_updated_at :: timestamp

text \<open>\<open>user.display_name or user.email\<close>.\<close>

definition shown_name :: "User \<Rightarrow> string" where
  "shown_name u = (if str_truthy (display_name u) then the (display_name u) else us_email u)"

definition example_user :: "int \<Rightarrow> string \<Rightarrow> User" where
  "example_user i mail = \<lparr>us_id = i, display_name = None, us_email = mail, password_hash = ''h'',
     is_active = True, email_verified_at = 0, last_login = None, password_changed_at = None,
     avatar_url = None, us_created_at = 0, us_updated_at = 0\<rparr>"

end
