(* ===== verification/Score_Invites.thy ===== *)
theory Score_Invites
  imports Score_Access User_Model Mail_Outbox
begin

text \<open>
  Invitations and memberships: \<open>backend/app/modules/score_invites/rules.py\<close>, \<open>.../repository.py\<close>,
  \<open>.../schemas.py\<close> and \<open>.../service.py\<close>. The state is the tables of the access policy, the users and the
  mail outbox. An operation returns its value or exception together with the tables; on an exception they
  are those the service committed before raising, which only an expired invitation makes different.

  A call reads the clock at several places: \<open>clk n\<close> is the reading at its n-th place. Generated values
  (row ids, uuids, tokens) are arguments. The text of a message (templates with non-ASCII text) is the
  parameter \<open>ie_content\<close> of the environment; who receives what, and when, is modelled. A notification is
  created after the transaction, and what it does is swallowed by \<open>create_event_best_effort\<close>: it is an
  output of the operation.
\<close>

section \<open>Environment and state\<close>

record invite_env =
  ie_sha :: "string \<Rightarrow> string"
  ie_project_name :: string
  ie_frontend_url :: string
  ie_content :: "string \<Rightarrow> string \<Rightarrow> string \<Rightarrow> MembershipRole \<Rightarrow> string \<Rightarrow> string \<times> string \<times> string option"
  ie_request_id :: "string option"
  ie_trace_parent :: "string option"
  ie_trace_state :: "string option"

record collab_db =
  cb_access :: access_db
  cb_users :: "User list"
  cb_mail :: "MailOutbox list"

record InviteCreateRequest =
  ic_email :: string
  ic_role :: MembershipRole
  ic_expires_at :: "timestamp option"
  ic_locale :: string

record NotificationRequest =
  recipient_user_id :: int
  actor_user_id :: int
  nt_type :: string
  nt_resource_id :: string
  nt_body :: string
  nt_dedupe_key :: string

section \<open>Rules\<close>

fun role_rank :: "MembershipRole \<Rightarrow> int" where
  "role_rank VIEWER = 1"
| "role_rank EDITOR = 2"

definition hash_invite_token :: "invite_env \<Rightarrow> string \<Rightarrow> string" where
  "hash_invite_token env token = ie_sha env token"

definition display_invite_status :: "timestamp \<Rightarrow> ScoreInvite \<Rightarrow> InviteStatus" where
  "display_invite_status now invite =
     (if si_status invite = Invite_PENDING \<and>
         (case si_expires_at invite of None \<Rightarrow> False | Some t \<Rightarrow> t \<le> now)
      then Invite_EXPIRED else si_status invite)"

definition can_user_accept_invite :: "timestamp \<Rightarrow> ScoreInvite \<Rightarrow> User option \<Rightarrow> bool" where
  "can_user_accept_invite now invite user =
     (case user of
        None \<Rightarrow> False
      | Some u \<Rightarrow> if display_invite_status now invite \<noteq> Invite_PENDING then False
                 else si_email invite = Some (str_lower (us_email u)))"

text \<open>The address of a request is normalised when the request is read.\<close>

definition normalize_email :: "string \<Rightarrow> string" where
  "normalize_email value = str_lower (str_strip value)"

section \<open>Queries\<close>

definition invite_by_token_hash :: "string \<Rightarrow> collab_db \<Rightarrow> app_exception + ScoreInvite option" where
  "invite_by_token_hash h db = one_or_none (filter (\<lambda>i. si_token_hash i = h) (ad_invites (cb_access db)))"

definition invite_by_uuid :: "string \<Rightarrow> collab_db \<Rightarrow> app_exception + ScoreInvite option" where
  "invite_by_uuid uuid db = one_or_none (filter (\<lambda>i. invite_uuid i = uuid) (ad_invites (cb_access db)))"

definition repository_invites :: "int \<Rightarrow> nat \<Rightarrow> collab_db \<Rightarrow> ScoreInvite list" where
  "repository_invites score limit db =
     select_ordered (\<lambda>i. si_score_id i = score) (\<lambda>i. - si_created_at i) limit (ad_invites (cb_access db))"

definition pending_invites_for_email :: "string \<Rightarrow> collab_db \<Rightarrow> ScoreInvite list" where
  "pending_invites_for_email email db =
     sort_key (\<lambda>i. - si_created_at i)
       (filter (\<lambda>i. si_email i = Some email \<and> si_status i = Invite_PENDING) (ad_invites (cb_access db)))"

definition repository_membership :: "int \<Rightarrow> int \<Rightarrow> collab_db \<Rightarrow> app_exception + ScoreMembership option" where
  "repository_membership score user db =
     one_or_none (filter (\<lambda>m. sm_score_id m = score \<and> sm_user_id m = user) (ad_memberships (cb_access db)))"

definition repository_memberships :: "int \<Rightarrow> nat \<Rightarrow> collab_db \<Rightarrow> ScoreMembership list" where
  "repository_memberships score limit db =
     select_ordered (\<lambda>m. sm_score_id m = score) sm_created_at limit (ad_memberships (cb_access db))"

definition get_user :: "collab_db \<Rightarrow> int \<Rightarrow> User option" where
  "get_user db i = db_get us_id (cb_users db) (Some i)"

definition get_score :: "collab_db \<Rightarrow> int \<Rightarrow> Score option" where
  "get_score db i = db_get sc_id (ad_scores (cb_access db)) (Some i)"

text \<open>Attributes of a loaded row are the row's.\<close>

definition put_invite :: "ScoreInvite \<Rightarrow> collab_db \<Rightarrow> collab_db" where
  "put_invite invite db = db\<lparr>cb_access := (cb_access db)\<lparr>ad_invites :=
     map (\<lambda>i. if si_id i = si_id invite then invite else i) (ad_invites (cb_access db))\<rparr>\<rparr>"

definition put_membership :: "ScoreMembership \<Rightarrow> collab_db \<Rightarrow> collab_db" where
  "put_membership m db = db\<lparr>cb_access := (cb_access db)\<lparr>ad_memberships :=
     map (\<lambda>x. if sm_id x = sm_id m then m else x) (ad_memberships (cb_access db))\<rparr>\<rparr>"

definition add_membership :: "ScoreMembership \<Rightarrow> collab_db \<Rightarrow> collab_db" where
  "add_membership m db = db\<lparr>cb_access := (cb_access db)\<lparr>ad_memberships :=
     ad_memberships (cb_access db) @ [m]\<rparr>\<rparr>"

definition user_request :: "int \<Rightarrow> access_request" where
  "user_request user = \<lparr>rq_user = Some user, rq_revision = None, rq_token = None, rq_slug = None\<rparr>"

definition authorize_members ::
  "invite_env \<Rightarrow> collab_db \<Rightarrow> timestamp \<Rightarrow> string \<Rightarrow> int \<Rightarrow> app_exception + Score" where
  "authorize_members env db now uuid user =
     (case authorize (ie_sha env) (cb_access db) now uuid Act_MANAGE_MEMBERS (user_request user) of
        Inl e \<Rightarrow> Inl e | Inr access \<Rightarrow> Inr (cx_score access))"

section \<open>What is returned\<close>

record InviteActorRead =
  ac_display_name :: "string option"
  ac_email :: string
  ac_avatar_url :: "string option"

record InviteRead =
  ir_invite_id :: string
  ir_email :: "string option"
  ir_role :: MembershipRole
  ir_status :: InviteStatus
  ir_expires_at :: "timestamp option"
  ir_accepted_at :: "timestamp option"
  ir_revoked_at :: "timestamp option"
  ir_declined_at :: "timestamp option"
  ir_created_at :: timestamp
  ir_created_by :: "InviteActorRead option"
  ir_accepted_by :: "InviteActorRead option"

record InviteCreatedRead = InviteRead +
  ir_token :: string

record PendingInviteRead =
  pi_invite_id :: string
  pi_score_id :: string
  pi_score_title :: string
  pi_inviter :: "InviteActorRead option"
  pi_email :: "string option"
  pi_role :: MembershipRole
  pi_status :: InviteStatus
  pi_expires_at :: "timestamp option"
  pi_created_at :: timestamp

record InviteAccessRead =
  ia_invite_id :: string
  ia_score_id :: string
  ia_score_title :: string
  ia_inviter :: "InviteActorRead option"
  ia_email :: "string option"
  ia_role :: MembershipRole
  ia_status :: InviteStatus
  ia_expires_at :: "timestamp option"
  ia_requires_login :: bool
  ia_can_accept :: bool

record InviteAcceptRead =
  ap_score_id :: string
  ap_role :: MembershipRole
  ap_membership_id :: "int option"

record MemberRead =
  mr_membership_id :: int
  mr_display_name :: "string option"
  mr_email :: string
  mr_avatar_url :: "string option"
  mr_role :: MembershipRole
  mr_created_at :: timestamp
  mr_revoked_at :: "timestamp option"

definition invite_actor :: "collab_db \<Rightarrow> int option \<Rightarrow> InviteActorRead option" where
  "invite_actor db user =
     (case user of None \<Rightarrow> None
      | Some i \<Rightarrow> (case get_user db i of None \<Rightarrow> None
                  | Some u \<Rightarrow> Some \<lparr>ac_display_name = display_name u, ac_email = us_email u,
                                   ac_avatar_url = avatar_url u\<rparr>))"

definition invite_read :: "timestamp \<Rightarrow> collab_db \<Rightarrow> ScoreInvite \<Rightarrow> InviteRead" where
  "invite_read now db invite = \<lparr>ir_invite_id = invite_uuid invite, ir_email = si_email invite,
     ir_role = si_role invite, ir_status = display_invite_status now invite,
     ir_expires_at = si_expires_at invite, ir_accepted_at = accepted_at invite,
     ir_revoked_at = si_revoked_at invite, ir_declined_at = declined_at invite,
     ir_created_at = si_created_at invite,
     ir_created_by = invite_actor db (Some (si_created_by_user_id invite)),
     ir_accepted_by = invite_actor db (accepted_by_user_id invite)\<rparr>"

definition pending_invite_read ::
  "timestamp \<Rightarrow> collab_db \<Rightarrow> ScoreInvite \<Rightarrow> app_exception + PendingInviteRead" where
  "pending_invite_read now db invite =
     (case get_score db (si_score_id invite) of
        None \<Rightarrow> Inl (resource_not_found_exception ''score'' None ''score_not_found'')
      | Some score \<Rightarrow> Inr \<lparr>pi_invite_id = invite_uuid invite, pi_score_id = score_uuid score,
          pi_score_title = title score,
          pi_inviter = invite_actor db (Some (si_created_by_user_id invite)),
          pi_email = si_email invite, pi_role = si_role invite,
          pi_status = display_invite_status now invite, pi_expires_at = si_expires_at invite,
          pi_created_at = si_created_at invite\<rparr>)"

definition member_read :: "collab_db \<Rightarrow> ScoreMembership \<Rightarrow> app_exception + MemberRead" where
  "member_read db m =
     (case get_user db (sm_user_id m) of
        None \<Rightarrow> Inl (resource_not_found_exception ''user'' (Some (str_of_int (sm_user_id m))) ''user_not_found'')
      | Some u \<Rightarrow> Inr \<lparr>mr_membership_id = sm_id m, mr_display_name = display_name u,
          mr_email = us_email u, mr_avatar_url = avatar_url u, mr_role = sm_role m,
          mr_created_at = sm_created_at m, mr_revoked_at = sm_revoked_at m\<rparr>)"

section \<open>Creating, revoking and deleting an invitation\<close>

definition invite_url :: "invite_env \<Rightarrow> string \<Rightarrow> string" where
  "invite_url env token =
     rev (dropWhile (\<lambda>c. c = CHR ''/'') (rev (ie_frontend_url env))) @ ''/invite/'' @ token"

definition queue_invite_email ::
  "invite_env \<Rightarrow> string \<Rightarrow> (nat \<Rightarrow> timestamp) \<Rightarrow> ScoreInvite \<Rightarrow> string \<Rightarrow> string \<Rightarrow> string \<Rightarrow> collab_db \<Rightarrow>
   app_exception option \<times> collab_db" where
  "queue_invite_email env mail_uuid clk invite score_title token locale db =
     (if \<not> str_truthy (si_email invite) then (None, db)
      else
        let inviter = invite_actor db (Some (si_created_by_user_id invite));
            inviter_name = (case inviter of
                None \<Rightarrow> ie_project_name env
              | Some a \<Rightarrow> if str_truthy (ac_display_name a) then the (ac_display_name a) else ac_email a);
            (subj, text, html) =
              ie_content env locale inviter_name score_title (si_role invite) (invite_url env token);
            (res, mails) = queue_mail mail_uuid (clk 0) (clk 1) (clk 2) (ie_request_id env)
              (ie_trace_parent env) (ie_trace_state env) ''score.invite''
              (''score-invite:'' @ invite_uuid invite) (the (si_email invite)) subj text html
              (si_expires_at invite) (cb_mail db)
        in (case res of Inl e \<Rightarrow> Some (OrmException e) | Inr _ \<Rightarrow> None, db\<lparr>cb_mail := mails\<rparr>))"

record new_invite_values =
  nv_id :: int
  nv_uuid :: string
  nv_token :: string
  nv_mail_uuid :: string

definition create_invite ::
  "invite_env \<Rightarrow> new_invite_values \<Rightarrow> (nat \<Rightarrow> timestamp) \<Rightarrow> string \<Rightarrow> int \<Rightarrow> InviteCreateRequest \<Rightarrow> collab_db \<Rightarrow>
   (app_exception + InviteCreatedRead) \<times> collab_db" where
  "create_invite env new clk uuid user request db =
     (case authorize_members env db (clk 0) uuid user of
        Inl e \<Rightarrow> (Inl e, db)
      | Inr score \<Rightarrow>
          let invite = \<lparr>si_id = nv_id new, invite_uuid = nv_uuid new, si_score_id = sc_id score,
                si_token_hash = hash_invite_token env (nv_token new), si_email = Some (ic_email request),
                si_role = ic_role request, si_status = Invite_PENDING, si_created_by_user_id = user,
                accepted_by_user_id = None, si_created_at = clk 1, si_expires_at = ic_expires_at request,
                accepted_at = None, si_revoked_at = None, declined_at = None\<rparr>;
              db1 = db\<lparr>cb_access := (cb_access db)\<lparr>ad_invites := ad_invites (cb_access db) @ [invite]\<rparr>\<rparr>
          in (case queue_invite_email env (nv_mail_uuid new) (\<lambda>i. clk (2 + i)) invite (title score)
                     (nv_token new) (ic_locale request) db1 of
                (Some e, _) \<Rightarrow> (Inl e, db)
              | (None, db2) \<Rightarrow>
                  (Inr (InviteRead.extend (invite_read (clk 5) db2 invite) \<lparr>ir_token = nv_token new\<rparr>), db2)))"

definition list_invites ::
  "invite_env \<Rightarrow> (nat \<Rightarrow> timestamp) \<Rightarrow> string \<Rightarrow> int \<Rightarrow> nat \<Rightarrow> collab_db \<Rightarrow> app_exception + InviteRead list" where
  "list_invites env clk uuid user limit db =
     (case authorize_members env db (clk 0) uuid user of
        Inl e \<Rightarrow> Inl e
      | Inr score \<Rightarrow>
          Inr (map (\<lambda>(n, invite). invite_read (clk (1 + n)) db invite)
                 (List.enumerate 0 (repository_invites (sc_id score) limit db))))"

definition managed_invite ::
  "invite_env \<Rightarrow> timestamp \<Rightarrow> string \<Rightarrow> string \<Rightarrow> int \<Rightarrow> collab_db \<Rightarrow> app_exception + ScoreInvite" where
  "managed_invite env now score_id invite_id user db =
     (case authorize_members env db now score_id user of
        Inl e \<Rightarrow> Inl e
      | Inr score \<Rightarrow>
          (case invite_by_uuid invite_id db of
             Inl e \<Rightarrow> Inl e
           | Inr None \<Rightarrow> Inl (resource_not_found_exception ''invite'' (Some invite_id) ''invite_not_found'')
           | Inr (Some invite) \<Rightarrow>
               if si_score_id invite \<noteq> sc_id score
               then Inl (resource_not_found_exception ''invite'' (Some invite_id) ''invite_not_found'')
               else Inr invite))"

definition revoke_invite ::
  "invite_env \<Rightarrow> (nat \<Rightarrow> timestamp) \<Rightarrow> string \<Rightarrow> string \<Rightarrow> int \<Rightarrow> collab_db \<Rightarrow>
   (app_exception + InviteRead) \<times> collab_db" where
  "revoke_invite env clk score_id invite_id user db =
     (case managed_invite env (clk 0) score_id invite_id user db of
        Inl e \<Rightarrow> (Inl e, db)
      | Inr invite \<Rightarrow>
          let invite' = (if si_status invite = Invite_PENDING
                then invite\<lparr>si_status := Invite_REVOKED, si_revoked_at := Some (clk 1)\<rparr> else invite);
              db' = put_invite invite' db
          in (Inr (invite_read (clk 2) db' invite'), db'))"

definition delete_invite ::
  "invite_env \<Rightarrow> timestamp \<Rightarrow> string \<Rightarrow> string \<Rightarrow> int \<Rightarrow> collab_db \<Rightarrow> (app_exception + unit) \<times> collab_db" where
  "delete_invite env now score_id invite_id user db =
     (case managed_invite env now score_id invite_id user db of
        Inl e \<Rightarrow> (Inl e, db)
      | Inr invite \<Rightarrow> (Inr (), db\<lparr>cb_access := (cb_access db)\<lparr>ad_invites :=
          filter (\<lambda>i. si_id i \<noteq> si_id invite) (ad_invites (cb_access db))\<rparr>\<rparr>))"

section \<open>Looking at an invitation and answering it\<close>

text \<open>The checks on the status; the field named in the error is that of the caller.\<close>

definition check_invite_status ::
  "string \<Rightarrow> timestamp \<Rightarrow> ScoreInvite \<Rightarrow> collab_db \<Rightarrow> (app_exception + ScoreInvite) \<times> collab_db" where
  "check_invite_status field now invite db =
     (case display_invite_status now invite of
        Invite_EXPIRED \<Rightarrow> (Inl (validation_exception ''invite_expired'' field []),
                          put_invite (invite\<lparr>si_status := Invite_EXPIRED\<rparr>) db)
      | Invite_REVOKED \<Rightarrow> (Inl (validation_exception ''invite_revoked'' field []), db)
      | Invite_ACCEPTED \<Rightarrow> (Inl (validation_exception ''invite_already_accepted'' field []), db)
      | Invite_DECLINED \<Rightarrow> (Inl (validation_exception ''invite_declined'' field []), db)
      | Invite_PENDING \<Rightarrow> (Inr invite, db))"

definition invite_by_token ::
  "invite_env \<Rightarrow> bool \<Rightarrow> timestamp \<Rightarrow> string \<Rightarrow> collab_db \<Rightarrow> (app_exception + ScoreInvite) \<times> collab_db" where
  "invite_by_token env allow_inactive now token db =
     (case invite_by_token_hash (hash_invite_token env token) db of
        Inl e \<Rightarrow> (Inl e, db)
      | Inr None \<Rightarrow> (Inl (resource_not_found_exception ''invite'' None ''invite_not_found''), db)
      | Inr (Some invite) \<Rightarrow>
          if allow_inactive then (Inr invite, db) else check_invite_status ''token'' now invite db)"

definition active_invite_by_uuid ::
  "timestamp \<Rightarrow> string \<Rightarrow> collab_db \<Rightarrow> (app_exception + ScoreInvite) \<times> collab_db" where
  "active_invite_by_uuid now uuid db =
     (case invite_by_uuid uuid db of
        Inl e \<Rightarrow> (Inl e, db)
      | Inr None \<Rightarrow> (Inl (resource_not_found_exception ''invite'' (Some uuid) ''invite_not_found''), db)
      | Inr (Some invite) \<Rightarrow> check_invite_status ''invite_id'' now invite db)"

definition ensure_invite_target_user ::
  "timestamp \<Rightarrow> ScoreInvite \<Rightarrow> int \<Rightarrow> collab_db \<Rightarrow> app_exception + User" where
  "ensure_invite_target_user now invite user db =
     (case get_user db user of
        None \<Rightarrow> Inl (unauthorized_exception ''no_access'' [])
      | Some u \<Rightarrow> if can_user_accept_invite now invite (Some u) then Inr u
                 else Inl (validation_exception ''invite_email_mismatch'' ''email'' []))"

definition inspect_invite ::
  "invite_env \<Rightarrow> (nat \<Rightarrow> timestamp) \<Rightarrow> string \<Rightarrow> int option \<Rightarrow> collab_db \<Rightarrow> app_exception + InviteAccessRead" where
  "inspect_invite env clk token user db =
     (case fst (invite_by_token env True (clk 0) token db) of
        Inl e \<Rightarrow> Inl e
      | Inr invite \<Rightarrow>
          (case get_score db (si_score_id invite) of
             None \<Rightarrow> Inl (resource_not_found_exception ''score'' None ''score_not_found'')
           | Some score \<Rightarrow>
               let u = (case user of None \<Rightarrow> None | Some i \<Rightarrow> get_user db i) in
               Inr \<lparr>ia_invite_id = invite_uuid invite, ia_score_id = score_uuid score,
                 ia_score_title = title score,
                 ia_inviter = invite_actor db (Some (si_created_by_user_id invite)),
                 ia_email = si_email invite, ia_role = si_role invite,
                 ia_status = display_invite_status (clk 1) invite, ia_expires_at = si_expires_at invite,
                 ia_requires_login = (u = None),
                 ia_can_accept = can_user_accept_invite (clk 0) invite u\<rparr>))"

definition invite_response ::
  "ScoreInvite \<Rightarrow> Score \<Rightarrow> User \<Rightarrow> string \<Rightarrow> string \<Rightarrow> NotificationRequest" where
  "invite_response invite score actor kind action = \<lparr>
     recipient_user_id = si_created_by_user_id invite, actor_user_id = us_id actor, nt_type = kind,
     nt_resource_id = score_uuid score,
     nt_body = shown_name actor @ '' '' @ action @ '' your invite to '' @ title score @ ''.'',
     nt_dedupe_key = kind @ '':'' @ invite_uuid invite @ '':'' @ str_of_int (si_created_by_user_id invite)\<rparr>"

text \<open>The type of the notification of an accepted and of a declined invitation.\<close>

definition invite_accepted_type :: string where "invite_accepted_type = ''score_invite.accepted''"
definition invite_declined_type :: string where "invite_declined_type = ''score_invite.declined''"

text \<open>What accepting does to the membership of the user: a removed member is back, and a role only rises.\<close>

definition renewed_membership :: "ScoreInvite \<Rightarrow> ScoreMembership \<Rightarrow> ScoreMembership" where
  "renewed_membership invite m =
     (let m1 = (if sm_revoked_at m \<noteq> None then m\<lparr>sm_revoked_at := None\<rparr> else m)
      in if role_rank (si_role invite) > role_rank (sm_role m1) then m1\<lparr>sm_role := si_role invite\<rparr> else m1)"

definition accepted_invite :: "int \<Rightarrow> timestamp \<Rightarrow> ScoreInvite \<Rightarrow> ScoreInvite" where
  "accepted_invite user now invite =
     invite\<lparr>si_status := Invite_ACCEPTED, accepted_by_user_id := Some user, accepted_at := Some now\<rparr>"

definition accept_invite_record ::
  "int \<Rightarrow> (nat \<Rightarrow> timestamp) \<Rightarrow> ScoreInvite \<Rightarrow> int \<Rightarrow> collab_db \<Rightarrow>
   (app_exception + InviteAcceptRead \<times> NotificationRequest) \<times> collab_db" where
  "accept_invite_record new_id clk invite user db =
     (case get_user db user of
        None \<Rightarrow> (Inl (unauthorized_exception ''no_access'' []), db)
      | Some u \<Rightarrow>
          if \<not> can_user_accept_invite (clk 0) invite (Some u)
          then (Inl (validation_exception ''invite_email_mismatch'' ''email'' []), db)
          else (case get_score db (si_score_id invite) of
              None \<Rightarrow> (Inl (resource_not_found_exception ''score'' None ''score_not_found''), db)
            | Some score \<Rightarrow>
                let invite' = accepted_invite user (clk 1) invite;
                    note = invite_response invite' score u invite_accepted_type ''accepted''
                in if owner_user_id score = user
                   then (Inr (\<lparr>ap_score_id = score_uuid score, ap_role = EDITOR, ap_membership_id = None\<rparr>, note),
                         put_invite invite' db)
                   else (case repository_membership (si_score_id invite) user db of
                       Inl e \<Rightarrow> (Inl e, db)
                     | Inr found \<Rightarrow>
                         let (m, db1) = (case found of
                               Some m \<Rightarrow> (renewed_membership invite m, put_membership (renewed_membership invite m) db)
                             | None \<Rightarrow>
                                 let m = \<lparr>sm_id = new_id, sm_score_id = si_score_id invite, sm_user_id = user,
                                       sm_role = si_role invite,
                                       sm_created_by_user_id = si_created_by_user_id invite,
                                       sm_created_at = clk 1, sm_revoked_at = None\<rparr>
                                 in (m, add_membership m db))
                         in (Inr (\<lparr>ap_score_id = score_uuid score, ap_role = sm_role m,
                                   ap_membership_id = Some (sm_id m)\<rparr>, note),
                             put_invite invite' db1))))"

definition accept_invite ::
  "invite_env \<Rightarrow> int \<Rightarrow> (nat \<Rightarrow> timestamp) \<Rightarrow> string \<Rightarrow> int \<Rightarrow> collab_db \<Rightarrow>
   (app_exception + InviteAcceptRead \<times> NotificationRequest) \<times> collab_db" where
  "accept_invite env new_id clk token user db =
     (case invite_by_token env False (clk 0) token db of
        (Inl e, db1) \<Rightarrow> (Inl e, db1)
      | (Inr invite, db1) \<Rightarrow> accept_invite_record new_id (\<lambda>i. clk (1 + i)) invite user db1)"

definition list_my_pending_invites ::
  "(nat \<Rightarrow> timestamp) \<Rightarrow> int \<Rightarrow> collab_db \<Rightarrow> app_exception + PendingInviteRead list" where
  "list_my_pending_invites clk user db =
     (case get_user db user of
        None \<Rightarrow> Inl (unauthorized_exception ''no_access'' [])
      | Some u \<Rightarrow>
          foldr (\<lambda>(n, invite) rest.
              if display_invite_status (clk (2 * n)) invite = Invite_PENDING
              then (case pending_invite_read (clk (2 * n + 1)) db invite of
                      Inl e \<Rightarrow> Inl e
                    | Inr read \<Rightarrow> (case rest of Inl e \<Rightarrow> Inl e | Inr reads \<Rightarrow> Inr (read # reads)))
              else rest)
            (List.enumerate 0 (pending_invites_for_email (str_lower (us_email u)) db)) (Inr []))"

definition accept_pending_invite ::
  "int \<Rightarrow> (nat \<Rightarrow> timestamp) \<Rightarrow> string \<Rightarrow> int \<Rightarrow> collab_db \<Rightarrow>
   (app_exception + InviteAcceptRead \<times> NotificationRequest) \<times> collab_db" where
  "accept_pending_invite new_id clk uuid user db =
     (case active_invite_by_uuid (clk 0) uuid db of
        (Inl e, db1) \<Rightarrow> (Inl e, db1)
      | (Inr invite, db1) \<Rightarrow>
          (case ensure_invite_target_user (clk 1) invite user db1 of
             Inl e \<Rightarrow> (Inl e, db1)
           | Inr u \<Rightarrow> accept_invite_record new_id (\<lambda>i. clk (2 + i)) invite user db1))"

definition decline_pending_invite ::
  "(nat \<Rightarrow> timestamp) \<Rightarrow> string \<Rightarrow> int \<Rightarrow> collab_db \<Rightarrow>
   (app_exception + PendingInviteRead \<times> NotificationRequest option) \<times> collab_db" where
  "decline_pending_invite clk uuid user db =
     (case active_invite_by_uuid (clk 0) uuid db of
        (Inl e, db1) \<Rightarrow> (Inl e, db1)
      | (Inr invite, db1) \<Rightarrow>
          (case ensure_invite_target_user (clk 1) invite user db1 of
             Inl e \<Rightarrow> (Inl e, db1)
           | Inr u \<Rightarrow>
               let invite' = invite\<lparr>si_status := Invite_DECLINED, declined_at := Some (clk 2)\<rparr>;
                   db2 = put_invite invite' db1;
                   note = map_option (\<lambda>score. invite_response invite' score u invite_declined_type ''declined'')
                            (get_score db2 (si_score_id invite'))
               in (case pending_invite_read (clk 3) db2 invite' of
                     Inl e \<Rightarrow> (Inl e, db2)
                   | Inr read \<Rightarrow> (Inr (read, note), db2))))"

section \<open>Members\<close>

definition membership_for_score :: "Score \<Rightarrow> int \<Rightarrow> collab_db \<Rightarrow> app_exception + ScoreMembership" where
  "membership_for_score score mid db =
     (case db_get sm_id (ad_memberships (cb_access db)) (Some mid) of
        None \<Rightarrow> Inl (resource_not_found_exception ''score_membership'' (Some (str_of_int mid)) ''membership_not_found'')
      | Some m \<Rightarrow>
          if sm_score_id m \<noteq> sc_id score
          then Inl (resource_not_found_exception ''score_membership'' (Some (str_of_int mid)) ''membership_not_found'')
          else Inr m)"

definition list_members ::
  "invite_env \<Rightarrow> timestamp \<Rightarrow> string \<Rightarrow> int \<Rightarrow> nat \<Rightarrow> collab_db \<Rightarrow> app_exception + MemberRead list" where
  "list_members env now uuid user limit db =
     (case authorize_members env db now uuid user of
        Inl e \<Rightarrow> Inl e
      | Inr score \<Rightarrow>
          foldr (\<lambda>m rest. case member_read db m of
                Inl e \<Rightarrow> Inl e
              | Inr read \<Rightarrow> (case rest of Inl e \<Rightarrow> Inl e | Inr reads \<Rightarrow> Inr (read # reads)))
            (repository_memberships (sc_id score) limit db) (Inr []))"

definition update_member ::
  "invite_env \<Rightarrow> timestamp \<Rightarrow> string \<Rightarrow> int \<Rightarrow> int \<Rightarrow> MembershipRole \<Rightarrow> collab_db \<Rightarrow>
   (app_exception + MemberRead) \<times> collab_db" where
  "update_member env now uuid mid user role db =
     (case authorize_members env db now uuid user of
        Inl e \<Rightarrow> (Inl e, db)
      | Inr score \<Rightarrow>
          (case membership_for_score score mid db of
             Inl e \<Rightarrow> (Inl e, db)
           | Inr m \<Rightarrow>
               let m' = m\<lparr>sm_role := role, sm_revoked_at := None\<rparr>;
                   db' = put_membership m' db
               in (member_read db' m', db')))"

definition remove_member ::
  "invite_env \<Rightarrow> (nat \<Rightarrow> timestamp) \<Rightarrow> string \<Rightarrow> int \<Rightarrow> int \<Rightarrow> collab_db \<Rightarrow>
   (app_exception + MemberRead) \<times> collab_db" where
  "remove_member env clk uuid mid user db =
     (case authorize_members env db (clk 0) uuid user of
        Inl e \<Rightarrow> (Inl e, db)
      | Inr score \<Rightarrow>
          (case membership_for_score score mid db of
             Inl e \<Rightarrow> (Inl e, db)
           | Inr m \<Rightarrow>
               if sm_user_id m = owner_user_id score
               then (Inl (validation_exception ''validation_error'' ''membership_id'' []), db)
               else let m' = m\<lparr>sm_revoked_at := Some (clk 1)\<rparr>;
                        db' = put_membership m' db
                    in (member_read db' m', db')))"

section \<open>What an operation may change\<close>

text \<open>Abstractly: a pending invitation is answered once, invitations come and go, and a membership is
  created for a user who has none or changes its role or its revocation.\<close>

definition answered :: "ScoreInvite \<Rightarrow> ScoreInvite \<Rightarrow> bool" where
  "answered i i' \<longleftrightarrow>
     si_status i = Invite_PENDING \<and>
     (i' = i\<lparr>si_status := Invite_EXPIRED\<rparr> \<or>
      (\<exists>t. i' = i\<lparr>si_status := Invite_REVOKED, si_revoked_at := Some t\<rparr>) \<or>
      (\<exists>t. i' = i\<lparr>si_status := Invite_DECLINED, declined_at := Some t\<rparr>) \<or>
      (\<exists>u t. i' = accepted_invite u t i))"

inductive invite_change :: "collab_db \<Rightarrow> collab_db \<Rightarrow> bool" where
  same_invites: "invite_change db db"
| answer: "i \<in> set (ad_invites (cb_access db)) \<Longrightarrow> answered i i' \<Longrightarrow> invite_change db (put_invite i' db)"
| invite: "si_id i \<notin> si_id ` set (ad_invites (cb_access db)) \<Longrightarrow>
    invite_uuid i \<notin> invite_uuid ` set (ad_invites (cb_access db)) \<Longrightarrow>
    si_token_hash i \<notin> si_token_hash ` set (ad_invites (cb_access db)) \<Longrightarrow> si_status i = Invite_PENDING \<Longrightarrow>
    accepted_by_user_id i = None \<Longrightarrow> accepted_at i = None \<Longrightarrow> si_revoked_at i = None \<Longrightarrow> declined_at i = None \<Longrightarrow>
    invite_change db (db\<lparr>cb_access := (cb_access db)\<lparr>ad_invites := ad_invites (cb_access db) @ [i]\<rparr>, cb_mail := ms\<rparr>)"
| withdraw: "invite_change db (db\<lparr>cb_access := (cb_access db)\<lparr>ad_invites :=
    filter (\<lambda>i. si_id i \<noteq> k) (ad_invites (cb_access db))\<rparr>\<rparr>)"

inductive member_change :: "collab_db \<Rightarrow> collab_db \<Rightarrow> bool" where
  same_members: "member_change db db"
| member: "m \<in> set (ad_memberships (cb_access db)) \<Longrightarrow> sm_id m' = sm_id m \<Longrightarrow> sm_score_id m' = sm_score_id m \<Longrightarrow>
    sm_user_id m' = sm_user_id m \<Longrightarrow> member_change db (put_membership m' db)"
| join: "sm_id m \<notin> sm_id ` set (ad_memberships (cb_access db)) \<Longrightarrow>
    (sm_score_id m, sm_user_id m) \<notin> (\<lambda>x. (sm_score_id x, sm_user_id x)) ` set (ad_memberships (cb_access db)) \<Longrightarrow>
    member_change db (add_membership m db)"

text \<open>The operations, with the uniqueness of what the database and \<open>uuid4\<close>/\<open>token_urlsafe\<close> generate.\<close>

inductive collab_step :: "collab_db \<Rightarrow> collab_db \<Rightarrow> bool" where
  "nv_id new \<notin> si_id ` set (ad_invites (cb_access db)) \<Longrightarrow>
   nv_uuid new \<notin> invite_uuid ` set (ad_invites (cb_access db)) \<Longrightarrow>
   hash_invite_token env (nv_token new) \<notin> si_token_hash ` set (ad_invites (cb_access db)) \<Longrightarrow>
   collab_step db (snd (create_invite env new clk uuid user request db))"
| "collab_step db (snd (revoke_invite env clk score_id invite_id user db))"
| "collab_step db (snd (delete_invite env now score_id invite_id user db))"
| "new_id \<notin> sm_id ` set (ad_memberships (cb_access db)) \<Longrightarrow>
   collab_step db (snd (accept_invite env new_id clk token user db))"
| "new_id \<notin> sm_id ` set (ad_memberships (cb_access db)) \<Longrightarrow>
   collab_step db (snd (accept_pending_invite new_id clk uuid user db))"
| "collab_step db (snd (decline_pending_invite clk uuid user db))"
| "collab_step db (snd (update_member env now uuid mid user role db))"
| "collab_step db (snd (remove_member env clk uuid mid user db))"

definition invite_ok :: "ScoreInvite \<Rightarrow> bool" where
  "invite_ok i \<longleftrightarrow>
     (si_status i = Invite_ACCEPTED \<longleftrightarrow> accepted_at i \<noteq> None) \<and>
     (si_status i = Invite_ACCEPTED \<longleftrightarrow> accepted_by_user_id i \<noteq> None) \<and>
     (si_status i = Invite_REVOKED \<longleftrightarrow> si_revoked_at i \<noteq> None) \<and>
     (si_status i = Invite_DECLINED \<longleftrightarrow> declined_at i \<noteq> None)"

definition collab_ok :: "collab_db \<Rightarrow> bool" where
  "collab_ok db \<longleftrightarrow>
     unique_column si_id (ad_invites (cb_access db)) \<and> unique_column invite_uuid (ad_invites (cb_access db)) \<and>
     unique_column si_token_hash (ad_invites (cb_access db)) \<and>
     unique_column sm_id (ad_memberships (cb_access db)) \<and>
     unique_column (\<lambda>m. (sm_score_id m, sm_user_id m)) (ad_memberships (cb_access db)) \<and>
     (\<forall>i \<in> set (ad_invites (cb_access db)). invite_ok i)"

lemma put_simps [simp]:
  "cb_users (put_invite i db) = cb_users db" "cb_mail (put_invite i db) = cb_mail db"
  "cb_users (put_membership m db) = cb_users db" "cb_mail (put_membership m db) = cb_mail db"
  "cb_users (add_membership m db) = cb_users db" "cb_mail (add_membership m db) = cb_mail db"
  "ad_memberships (cb_access (put_invite i db)) = ad_memberships (cb_access db)"
  "ad_invites (cb_access (put_membership m db)) = ad_invites (cb_access db)"
  "ad_invites (cb_access (add_membership m db)) = ad_invites (cb_access db)"
  "ad_scores (cb_access (put_invite i db)) = ad_scores (cb_access db)"
  "ad_scores (cb_access (put_membership m db)) = ad_scores (cb_access db)"
  "ad_scores (cb_access (add_membership m db)) = ad_scores (cb_access db)"
  "ad_memberships (cb_access (add_membership m db)) = ad_memberships (cb_access db) @ [m]"
  by (simp_all add: put_invite_def put_membership_def add_membership_def)

lemma put_same_invite:
  "collab_ok db \<Longrightarrow> i \<in> set (ad_invites (cb_access db)) \<Longrightarrow> put_invite i db = db"
  using map_row_id [of si_id "ad_invites (cb_access db)" i] by (simp add: put_invite_def collab_ok_def)

lemma answered_fields:
  "answered i i' \<Longrightarrow> si_id i' = si_id i \<and> invite_uuid i' = invite_uuid i \<and> si_token_hash i' = si_token_hash i \<and>
    si_score_id i' = si_score_id i \<and> si_email i' = si_email i \<and> si_role i' = si_role i \<and> si_status i' \<noteq> Invite_PENDING"
  by (auto simp: answered_def accepted_invite_def)

lemma answered_ok: "answered i i' \<Longrightarrow> invite_ok i \<Longrightarrow> invite_ok i'"
  by (auto simp: answered_def accepted_invite_def invite_ok_def)

lemma put_invite_rows:
  assumes "collab_ok db" and "i \<in> set (ad_invites (cb_access db))" and "si_id i' = si_id i"
  shows "set (ad_invites (cb_access (put_invite i' db))) =
    insert i' {x \<in> set (ad_invites (cb_access db)). si_id x \<noteq> si_id i}"
proof -
  have "unique_column si_id (ad_invites (cb_access db))" using assms(1) by (simp add: collab_ok_def)
  from set_write [OF this assms(2,3)] show ?thesis by (simp add: put_invite_def)
qed

lemma put_unique:
  assumes "unique_column key rs" and "unique_column f rs" and "r \<in> set rs" and "key r' = key r" and "f r' = f r"
  shows "unique_column f (map (\<lambda>x. if key x = key r' then r' else x) rs)"
proof -
  have "f (if key x = key r' then r' else x) = f x" if "x \<in> set rs" for x
  proof (cases "key x = key r'")
    case True
    then have "x = r" using assms(1,3,4) that by (auto simp: unique_column_def distinct_map dest: inj_onD)
    with assms(5) show ?thesis by simp
  qed simp
  then have "map f (map (\<lambda>x. if key x = key r' then r' else x) rs) = map f rs" by simp
  with assms(2) show ?thesis by (simp only: unique_column_def)
qed

lemma invite_change_ok:
  assumes "invite_change db db'" and "collab_ok db"
  shows "collab_ok db'"
  using assms
proof cases
  case (answer i i')
  note f = answered_fields [OF answer(3)]
  have "invite_ok x" if "x \<in> set (ad_invites (cb_access db'))" for x
    using that put_invite_rows [OF assms(2) answer(2)] f answered_ok [OF answer(3)] assms(2) answer(1,2)
    by (auto simp: collab_ok_def)
  then show ?thesis
    using assms(2) answer(1,2) f
      put_unique [of si_id "ad_invites (cb_access db)" si_id i i']
      put_unique [of si_id "ad_invites (cb_access db)" invite_uuid i i']
      put_unique [of si_id "ad_invites (cb_access db)" si_token_hash i i']
    by (simp add: collab_ok_def) (simp add: put_invite_def)
next
  case (invite i ms)
  then have "invite_ok i" by (simp add: invite_ok_def)
  with invite show ?thesis using assms(2) by (simp add: collab_ok_def unique_column_def)
next
  case (withdraw k)
  then show ?thesis using assms(2) by (auto simp: collab_ok_def unique_column_def distinct_map_filter)
qed simp

lemma member_change_ok:
  assumes "member_change db db'" and "collab_ok db"
  shows "collab_ok db'"
  using assms
proof cases
  case (member m m')
  then show ?thesis
    using assms(2)
      put_unique [of sm_id "ad_memberships (cb_access db)" sm_id m m']
      put_unique [of sm_id "ad_memberships (cb_access db)" "\<lambda>m. (sm_score_id m, sm_user_id m)" m m']
    by (simp add: collab_ok_def put_membership_def)
next
  case (join m)
  then show ?thesis using assms(2) by (simp add: collab_ok_def unique_column_def)
qed simp

lemma member_change_invites: "member_change db db' \<Longrightarrow> ad_invites (cb_access db') = ad_invites (cb_access db)"
  by (induction rule: member_change.induct) simp_all

section \<open>The operations make such changes only\<close>

lemma invite_by_uuid_found:
  "invite_by_uuid uuid db = Inr (Some i) \<Longrightarrow> i \<in> set (ad_invites (cb_access db)) \<and> invite_uuid i = uuid"
  unfolding invite_by_uuid_def by (drule one_or_none_filter) simp

lemma invite_by_token_hash_found:
  "invite_by_token_hash h db = Inr (Some i) \<Longrightarrow> i \<in> set (ad_invites (cb_access db)) \<and> si_token_hash i = h"
  unfolding invite_by_token_hash_def by (drule one_or_none_filter) simp

lemma managed_invite_found:
  assumes "managed_invite env now score_id invite_id user db = Inr i"
  shows "i \<in> set (ad_invites (cb_access db)) \<and> invite_uuid i = invite_id"
proof -
  have "invite_by_uuid invite_id db = Inr (Some i)"
    using assms by (auto simp: managed_invite_def split: sum.splits option.splits if_splits)
  then show ?thesis by (rule invite_by_uuid_found)
qed

text \<open>Either the invitation can be answered and nothing changed, or there is an error and at most the
  expiry was recorded.\<close>

lemma check_invite_status_cases:
  assumes "check_invite_status field now i db = (res, db1)"
  obtains "res = Inr i" "db1 = db" "display_invite_status now i = Invite_PENDING"
  | e where "res = Inl e" "db1 = db"
  | e where "res = Inl e" "db1 = put_invite (i\<lparr>si_status := Invite_EXPIRED\<rparr>) db"
      "display_invite_status now i = Invite_EXPIRED"
  using assms by (auto simp: check_invite_status_def split: InviteStatus.splits)

lemma display_pending: "display_invite_status now i = Invite_PENDING \<Longrightarrow> si_status i = Invite_PENDING"
  by (simp add: display_invite_status_def split: if_splits)

lemma expired_change:
  assumes "collab_ok db" and "i \<in> set (ad_invites (cb_access db))" and "display_invite_status now i = Invite_EXPIRED"
  shows "invite_change db (put_invite (i\<lparr>si_status := Invite_EXPIRED\<rparr>) db)"
proof (cases "si_status i = Invite_PENDING")
  case True
  then show ?thesis by (intro answer [OF assms(2)]) (simp add: answered_def)
next
  case False
  then have "i\<lparr>si_status := Invite_EXPIRED\<rparr> = i"
    using assms(3) by (simp add: display_invite_status_def split: if_splits)
  then show ?thesis by (simp add: put_same_invite [OF assms(1,2)] same_invites)
qed

lemma check_status_change:
  assumes "collab_ok db" and "i \<in> set (ad_invites (cb_access db))"
    and "check_invite_status field now i db = (res, db1)"
  shows "invite_change db db1"
  using assms(3)
  by (rule check_invite_status_cases) (auto intro: same_invites expired_change [OF assms(1,2)])

lemma invite_by_token_cases:
  assumes "collab_ok db" and "invite_by_token env False now token db = (res, db1)"
  obtains (active) i where "res = Inr i" "db1 = db" "i \<in> set (ad_invites (cb_access db))"
      "si_token_hash i = hash_invite_token env token" "display_invite_status now i = Invite_PENDING"
  | (failed) e where "res = Inl e" "invite_change db db1"
proof (cases "invite_by_token_hash (hash_invite_token env token) db")
  case (Inl e)
  with assms(2) failed [of e] show thesis by (simp add: invite_by_token_def same_invites)
next
  case (Inr x)
  show thesis
  proof (cases x)
    case None
    with Inr assms(2) failed show thesis by (auto simp: invite_by_token_def same_invites)
  next
    case (Some i)
    have i: "i \<in> set (ad_invites (cb_access db))" "si_token_hash i = hash_invite_token env token"
      using invite_by_token_hash_found Inr Some by blast+
    have c: "check_invite_status ''token'' now i db = (res, db1)"
      using assms(2) Inr Some by (simp add: invite_by_token_def)
    note change = check_status_change [OF assms(1) i(1) c]
    from c show thesis
      by (rule check_invite_status_cases) (use i active failed change in \<open>blast+\<close>)
  qed
qed

lemma active_by_uuid_cases:
  assumes "collab_ok db" and "active_invite_by_uuid now uuid db = (res, db1)"
  obtains (active) i where "res = Inr i" "db1 = db" "i \<in> set (ad_invites (cb_access db))"
      "invite_uuid i = uuid" "display_invite_status now i = Invite_PENDING"
  | (failed) e where "res = Inl e" "invite_change db db1"
proof (cases "invite_by_uuid uuid db")
  case (Inl e)
  with assms(2) failed [of e] show thesis by (simp add: active_invite_by_uuid_def same_invites)
next
  case (Inr x)
  show thesis
  proof (cases x)
    case None
    with Inr assms(2) failed show thesis by (auto simp: active_invite_by_uuid_def same_invites)
  next
    case (Some i)
    have i: "i \<in> set (ad_invites (cb_access db))" "invite_uuid i = uuid"
      using invite_by_uuid_found Inr Some by blast+
    have c: "check_invite_status ''invite_id'' now i db = (res, db1)"
      using assms(2) Inr Some by (simp add: active_invite_by_uuid_def)
    note change = check_status_change [OF assms(1) i(1) c]
    from c show thesis
      by (rule check_invite_status_cases) (use i active failed change in \<open>blast+\<close>)
  qed
qed

text \<open>What accepting does, in each case.\<close>

lemma accept_record_cases:
  assumes ok: "collab_ok db" and run: "accept_invite_record new_id clk i user db = (res, db')"
  obtains (error) e where "res = Inl e" "db' = db"
  | (owner) u score r where "res = Inr r" "get_user db user = Some u" "can_user_accept_invite (clk 0) i (Some u)"
      "get_score db (si_score_id i) = Some score" "owner_user_id score = user"
      "db' = put_invite (accepted_invite user (clk 1) i) db"
  | (renewed) u score m r where "res = Inr r" "get_user db user = Some u" "can_user_accept_invite (clk 0) i (Some u)"
      "get_score db (si_score_id i) = Some score" "owner_user_id score \<noteq> user"
      "m \<in> set (ad_memberships (cb_access db))" "sm_score_id m = si_score_id i" "sm_user_id m = user"
      "db' = put_invite (accepted_invite user (clk 1) i) (put_membership (renewed_membership i m) db)"
  | (joined) u score m r where "res = Inr r" "get_user db user = Some u" "can_user_accept_invite (clk 0) i (Some u)"
      "get_score db (si_score_id i) = Some score" "owner_user_id score \<noteq> user"
      "\<And>x. x \<in> set (ad_memberships (cb_access db)) \<Longrightarrow> \<not> (sm_score_id x = si_score_id i \<and> sm_user_id x = user)"
      "m = \<lparr>sm_id = new_id, sm_score_id = si_score_id i, sm_user_id = user, sm_role = si_role i,
            sm_created_by_user_id = si_created_by_user_id i, sm_created_at = clk 1, sm_revoked_at = None\<rparr>"
      "db' = put_invite (accepted_invite user (clk 1) i) (add_membership m db)"
proof (cases "get_user db user")
  case None
  with run error show thesis by (auto simp: accept_invite_record_def)
next
  case (Some u)
  show thesis
  proof (cases "can_user_accept_invite (clk 0) i (Some u)")
    case False
    with run Some error show thesis by (auto simp: accept_invite_record_def)
  next
    case can: True
    show thesis
    proof (cases "get_score db (si_score_id i)")
      case None
      with run Some can error show thesis by (auto simp: accept_invite_record_def)
    next
      case score: (Some score)
      show thesis
      proof (cases "owner_user_id score = user")
        case True
        with run Some can score show thesis by (intro owner) (auto simp: accept_invite_record_def Let_def)
      next
        case False
        show thesis
        proof (cases "repository_membership (si_score_id i) user db")
          case (Inl e)
          with run Some can score False error show thesis by (auto simp: accept_invite_record_def Let_def)
        next
          case (Inr found)
          show thesis
          proof (cases found)
            case None
            have "\<not> (sm_score_id x = si_score_id i \<and> sm_user_id x = user)"
              if "x \<in> set (ad_memberships (cb_access db))" for x
              using one_or_none_empty [OF Inr [unfolded repository_membership_def None] that] .
            with run Some can score False Inr None show thesis
              by (intro joined) (auto simp: accept_invite_record_def Let_def)
          next
            case m: (Some m)
            note one_or_none_filter [OF Inr [unfolded repository_membership_def m]]
            with run Some can score False Inr m show thesis
              by (intro renewed) (auto simp: accept_invite_record_def Let_def)
          qed
        qed
      qed
    qed
  qed
qed

lemma can_accept_pending: "can_user_accept_invite now i (Some u) \<Longrightarrow> si_status i = Invite_PENDING"
  by (auto simp: can_user_accept_invite_def dest: display_pending split: if_splits)

lemma renewed_key [simp]:
  "sm_id (renewed_membership i m) = sm_id m" "sm_score_id (renewed_membership i m) = sm_score_id m"
  "sm_user_id (renewed_membership i m) = sm_user_id m"
  by (simp_all add: renewed_membership_def Let_def)

lemma accept_record_change:
  assumes ok: "collab_ok db" and i: "i \<in> set (ad_invites (cb_access db))"
    and fresh: "new_id \<notin> sm_id ` set (ad_memberships (cb_access db))"
    and run: "accept_invite_record new_id clk i user db = (res, db')"
  shows "\<exists>d. member_change db d \<and> invite_change d db'"
proof -
  have ans: "answered i (accepted_invite user t i)" if "si_status i = Invite_PENDING" for t
    using that by (auto simp: answered_def)
  from ok run show ?thesis
  proof (cases rule: accept_record_cases)
    case error
    then show ?thesis by (auto intro: same_members same_invites)
  next
    case (owner u score)
    have "invite_change db db'"
      unfolding owner(6) by (rule answer [OF i ans [OF can_accept_pending [OF owner(3)]]])
    then show ?thesis by (auto intro: same_members)
  next
    case (renewed u score m)
    have "invite_change (put_membership (renewed_membership i m) db) db'"
      unfolding renewed(9) using i by (intro answer [OF _ ans [OF can_accept_pending [OF renewed(3)]]]) simp
    moreover have "member_change db (put_membership (renewed_membership i m) db)"
      by (rule member [OF renewed(6)]) simp_all
    ultimately show ?thesis by blast
  next
    case (joined u score m)
    have "invite_change (add_membership m db) db'"
      unfolding joined(8) using i by (intro answer [OF _ ans [OF can_accept_pending [OF joined(3)]]]) simp
    moreover have "member_change db (add_membership m db)"
    proof (rule join)
      show "sm_id m \<notin> sm_id ` set (ad_memberships (cb_access db))" using fresh by (simp add: joined(7))
      show "(sm_score_id m, sm_user_id m) \<notin> (\<lambda>x. (sm_score_id x, sm_user_id x)) ` set (ad_memberships (cb_access db))"
      proof
        assume "(sm_score_id m, sm_user_id m) \<in> (\<lambda>x. (sm_score_id x, sm_user_id x)) ` set (ad_memberships (cb_access db))"
        then obtain x where "x \<in> set (ad_memberships (cb_access db))" "sm_score_id x = si_score_id i" "sm_user_id x = user"
          by (auto simp: joined(7))
        with joined(6) show False by blast
      qed
    qed
    ultimately show ?thesis by blast
  qed
qed

lemma queue_email_db:
  "\<exists>ms. snd (queue_invite_email env mu clk i st token loc db) = db\<lparr>cb_mail := ms\<rparr>"
proof (cases "str_truthy (si_email i)")
  case True
  then show ?thesis by (auto simp: queue_invite_email_def Let_def split: prod.splits)
next
  case False
  then have "snd (queue_invite_email env mu clk i st token loc db) = db\<lparr>cb_mail := cb_mail db\<rparr>"
    by (simp add: queue_invite_email_def)
  then show ?thesis ..
qed

lemma collab_step_changes:
  assumes "collab_step db db'" and ok: "collab_ok db"
  shows "\<exists>d. member_change db d \<and> invite_change d db'"
  using assms(1)
proof cases
  case (1 new env clk uuid user request)
  have "invite_change db db'"
  proof (cases "authorize_members env db (clk 0) uuid user")
    case (Inl e)
    then show ?thesis by (simp add: 1 create_invite_def same_invites)
  next
    case (Inr score)
    let ?i = "\<lparr>si_id = nv_id new, invite_uuid = nv_uuid new, si_score_id = sc_id score,
                si_token_hash = hash_invite_token env (nv_token new), si_email = Some (ic_email request),
                si_role = ic_role request, si_status = Invite_PENDING, si_created_by_user_id = user,
                accepted_by_user_id = None, si_created_at = clk 1, si_expires_at = ic_expires_at request,
                accepted_at = None, si_revoked_at = None, declined_at = None\<rparr>"
    let ?db = "db\<lparr>cb_access := (cb_access db)\<lparr>ad_invites := ad_invites (cb_access db) @ [?i]\<rparr>\<rparr>"
    obtain e db2 where q: "queue_invite_email env (nv_mail_uuid new) (\<lambda>i. clk (2 + i)) ?i (title score)
        (nv_token new) (ic_locale request) ?db = (e, db2)" by fastforce
    then obtain ms where ms: "db2 = ?db\<lparr>cb_mail := ms\<rparr>" by (metis queue_email_db snd_conv)
    have "invite_change db (?db\<lparr>cb_mail := ms\<rparr>)" using 1 invite [of ?i db ms] by simp
    with q ms Inr show ?thesis by (cases e) (simp_all add: 1(1) create_invite_def Let_def same_invites)
  qed
  then show ?thesis by (auto intro: same_members)
next
  case (2 env clk score_id invite_id user)
  have "invite_change db db'"
  proof (cases "managed_invite env (clk 0) score_id invite_id user db")
    case (Inr i)
    then have i: "i \<in> set (ad_invites (cb_access db))" using managed_invite_found by blast
    have "si_status i = Invite_PENDING \<Longrightarrow> answered i (i\<lparr>si_status := Invite_REVOKED, si_revoked_at := Some (clk 1)\<rparr>)"
      by (auto simp: answered_def)
    with Inr show ?thesis
      by (auto simp: 2 revoke_invite_def Let_def put_same_invite [OF ok i] same_invites intro: answer [OF i])
  qed (simp add: 2 revoke_invite_def same_invites)
  then show ?thesis by (auto intro: same_members)
next
  case (3 env now score_id invite_id user)
  have "invite_change db db'"
    by (cases "managed_invite env now score_id invite_id user db")
       (simp_all add: 3 delete_invite_def same_invites withdraw)
  then show ?thesis by (auto intro: same_members)
next
  case (4 new_id env clk token user)
  obtain res db1 where t: "invite_by_token env False (clk 0) token db = (res, db1)" by fastforce
  from ok t show ?thesis
  proof (cases rule: invite_by_token_cases)
    case (active i)
    with t accept_record_change [OF ok active(3) 4(2)] show ?thesis
      by (auto simp: 4(1) accept_invite_def) (metis surjective_pairing)
  next
    case (failed e)
    with t show ?thesis by (auto simp: 4(1) accept_invite_def intro: same_members)
  qed
next
  case (5 new_id clk uuid user)
  obtain res db1 where t: "active_invite_by_uuid (clk 0) uuid db = (res, db1)" by fastforce
  from ok t show ?thesis
  proof (cases rule: active_by_uuid_cases)
    case (active i)
    show ?thesis
    proof (cases "ensure_invite_target_user (clk 1) i user db")
      case (Inl e)
      with t active show ?thesis by (auto simp: 5(1) accept_pending_invite_def intro: same_members same_invites)
    next
      case (Inr u)
      obtain r d where run: "accept_invite_record new_id (\<lambda>i. clk (2 + i)) i user db = (r, d)" by fastforce
      have "d = db'" using t active Inr run by (simp add: 5(1) accept_pending_invite_def)
      with accept_record_change [OF ok active(3) 5(2) run] show ?thesis by simp
    qed
  next
    case (failed e)
    with t show ?thesis by (auto simp: 5(1) accept_pending_invite_def intro: same_members)
  qed
next
  case (6 clk uuid user)
  obtain res db1 where t: "active_invite_by_uuid (clk 0) uuid db = (res, db1)" by fastforce
  have "invite_change db db'"
    using ok t
  proof (cases rule: active_by_uuid_cases)
    case (active i)
    have "answered i (i\<lparr>si_status := Invite_DECLINED, declined_at := Some (clk 2)\<rparr>)"
      using display_pending [OF active(5)] by (auto simp: answered_def)
    then have "invite_change db (put_invite (i\<lparr>si_status := Invite_DECLINED, declined_at := Some (clk 2)\<rparr>) db)"
      by (rule answer [OF active(3)])
    with t active show ?thesis
      by (auto simp: 6 decline_pending_invite_def Let_def same_invites split: sum.split)
  next
    case (failed e)
    with t show ?thesis by (simp add: 6 decline_pending_invite_def)
  qed
  then show ?thesis by (auto intro: same_members)
next
  case (7 env now uuid mid user role)
  have "member_change db db'"
    by (auto simp: 7 update_member_def membership_for_score_def same_members Let_def
        split: sum.split option.split if_splits dest!: db_get_Some intro: member)
  then show ?thesis by (auto intro: same_invites)
next
  case (8 env clk uuid mid user)
  have "member_change db db'"
    by (auto simp: 8 remove_member_def membership_for_score_def same_members Let_def
        split: sum.split option.split if_splits dest!: db_get_Some intro: member)
  then show ?thesis by (auto intro: same_invites)
qed

lemma collab_step_ok: "collab_step db db' \<Longrightarrow> collab_ok db \<Longrightarrow> collab_ok db'"
  using collab_step_changes [of db db'] member_change_ok invite_change_ok by blast

lemma collab_run_ok: "collab_step\<^sup>*\<^sup>* db db' \<Longrightarrow> collab_ok db \<Longrightarrow> collab_ok db'"
  by (induction rule: rtranclp_induct) (auto intro: collab_step_ok)

lemma invite_change_row:
  assumes "invite_change db db'" and ok: "collab_ok db"
    and i: "i \<in> set (ad_invites (cb_access db))" and i': "i' \<in> set (ad_invites (cb_access db'))" "si_id i' = si_id i"
  shows "i' = i \<or> answered i i'"
proof -
  have inj: "x = i" if "x \<in> set (ad_invites (cb_access db))" "si_id x = si_id i" for x
    using ok that i by (auto simp: collab_ok_def unique_column_def distinct_map dest: inj_onD)
  from assms(1) show ?thesis
  proof cases
    case (answer j j')
    note f = answered_fields [OF answer(3)]
    show ?thesis
    proof (cases "si_id j = si_id i")
      case True
      then have "j = i" using answer(2) inj by blast
      moreover have "i' = j'"
        using i' put_invite_rows [OF ok answer(2), of j'] f True by (auto simp: answer(1))
      ultimately show ?thesis using answer(3) by simp
    next
      case False
      then have "i' \<in> set (ad_invites (cb_access db))"
        using i' put_invite_rows [OF ok answer(2), of j'] f by (auto simp: answer(1))
      with inj i'(2) show ?thesis by blast
    qed
  qed (use i i' inj in auto)
qed

lemma renewed_live:
  "sm_revoked_at (renewed_membership i m) = None"
  "role_rank (si_role i) \<le> role_rank (sm_role (renewed_membership i m))"
  by (auto simp: renewed_membership_def Let_def)

definition others_than :: "int \<times> int \<Rightarrow> collab_db \<Rightarrow> ScoreMembership set" where
  "others_than k db = {m \<in> set (ad_memberships (cb_access db)). (sm_score_id m, sm_user_id m) \<noteq> k}"

lemma put_membership_rows:
  assumes "collab_ok db" and "m \<in> set (ad_memberships (cb_access db))" and "sm_id m' = sm_id m"
  shows "set (ad_memberships (cb_access (put_membership m' db))) =
    insert m' {x \<in> set (ad_memberships (cb_access db)). sm_id x \<noteq> sm_id m}"
proof -
  have "unique_column sm_id (ad_memberships (cb_access db))" using assms(1) by (simp add: collab_ok_def)
  from set_write [OF this assms(2,3)] show ?thesis by (simp add: put_membership_def)
qed

lemma membership_id_unique:
  "collab_ok db \<Longrightarrow> x \<in> set (ad_memberships (cb_access db)) \<Longrightarrow> m \<in> set (ad_memberships (cb_access db)) \<Longrightarrow>
   sm_id x = sm_id m \<Longrightarrow> x = m"
  by (auto simp: collab_ok_def unique_column_def distinct_map dest: inj_onD)

lemma put_membership_others:
  assumes ok: "collab_ok db" and m: "m \<in> set (ad_memberships (cb_access db))"
    and m': "sm_id m' = sm_id m" "(sm_score_id m', sm_user_id m') = k" "(sm_score_id m, sm_user_id m) = k"
  shows "others_than k (put_membership m' db) = others_than k db"
proof -
  have "x = m" if "x \<in> set (ad_memberships (cb_access db))" "sm_id x = sm_id m" for x
    using membership_id_unique [OF ok that(1) m that(2)] .
  then show ?thesis using m' by (auto simp: others_than_def put_membership_rows [OF ok m m'(1)])
qed

text \<open>A successful accept: the invitation was addressed to the user, who is a live member afterwards.\<close>

lemma accept_record_outcome:
  assumes ok: "collab_ok db" and fresh: "new_id \<notin> sm_id ` set (ad_memberships (cb_access db))"
    and run: "accept_invite_record new_id clk i user db = (Inr res, db')"
  obtains d u score where "member_change db d" and "db' = put_invite (accepted_invite user (clk 1) i) d"
    and "get_user db user = Some u" and "can_user_accept_invite (clk 0) i (Some u)"
    and "get_score db (si_score_id i) = Some score"
    and "others_than (si_score_id i, user) d = others_than (si_score_id i, user) db"
    and "owner_user_id score \<noteq> user \<Longrightarrow> \<exists>m \<in> set (ad_memberships (cb_access d)).
      sm_score_id m = si_score_id i \<and> sm_user_id m = user \<and> sm_revoked_at m = None \<and>
      role_rank (si_role i) \<le> role_rank (sm_role m)"
  using ok run
proof (cases rule: accept_record_cases)
  case (owner u score)
  then show thesis by (intro that [of db u score]) (simp_all add: same_members)
next
  case (renewed u score m)
  let ?m = "renewed_membership i m"
  show thesis
  proof (rule that [OF _ renewed(9) renewed(2-4)])
    show "member_change db (put_membership ?m db)" by (rule member [OF renewed(6)]) simp_all
    show "others_than (si_score_id i, user) (put_membership ?m db) = others_than (si_score_id i, user) db"
      using renewed(7,8) by (intro put_membership_others [OF ok renewed(6)]) simp_all
    have "?m \<in> set (ad_memberships (cb_access (put_membership ?m db)))"
      by (simp add: put_membership_rows [OF ok renewed(6)])
    then show "\<exists>x \<in> set (ad_memberships (cb_access (put_membership ?m db))).
        sm_score_id x = si_score_id i \<and> sm_user_id x = user \<and> sm_revoked_at x = None \<and>
        role_rank (si_role i) \<le> role_rank (sm_role x)"
      using renewed(7,8) renewed_live by (intro bexI [of _ ?m] conjI) simp_all
  qed
next
  case (joined u score m)
  have "(sm_score_id m, sm_user_id m) \<notin> (\<lambda>x. (sm_score_id x, sm_user_id x)) ` set (ad_memberships (cb_access db))"
    using joined(6) by (auto simp: joined(7)) (metis joined(6))
  then have "member_change db (add_membership m db)" using fresh by (intro join) (simp_all add: joined(7))
  then show thesis
    by (rule that [OF _ joined(8) joined(2-4)]) (auto simp: others_than_def joined(7))
qed simp

section \<open>Properties\<close>

text \<open>A score of user 7. User 9, once an editor and removed, is invited again, to view.\<close>

definition example_env :: invite_env where
  "example_env = \<lparr>ie_sha = (\<lambda>t. t), ie_project_name = ''N'', ie_frontend_url = ''http://n/'',
     ie_content = (\<lambda>loc who score role url. (''s'', url, None)), ie_request_id = None,
     ie_trace_parent = None, ie_trace_state = None\<rparr>"

definition example_invite :: ScoreInvite where
  "example_invite = \<lparr>si_id = 1, invite_uuid = ''i'', si_score_id = 1, si_token_hash = ''tok'',
     si_email = Some ''u@x'', si_role = VIEWER, si_status = Invite_PENDING, si_created_by_user_id = 7,
     accepted_by_user_id = None, si_created_at = 0, si_expires_at = Some 100, accepted_at = None,
     si_revoked_at = None, declined_at = None\<rparr>"

definition removed_editor :: ScoreMembership where
  "removed_editor = \<lparr>sm_id = 1, sm_score_id = 1, sm_user_id = 9, sm_role = EDITOR,
     sm_created_by_user_id = 7, sm_created_at = 0, sm_revoked_at = Some 5\<rparr>"

definition example_collab :: collab_db where
  "example_collab = \<lparr>cb_access = example_access_db\<lparr>ad_memberships := [removed_editor],
       ad_invites := [example_invite]\<rparr>,
     cb_users = [example_user 7 ''o@x'', example_user 9 ''U@x''], cb_mail = []\<rparr>"

lemmas example_collab_defs = example_collab_def example_invite_def removed_editor_def example_access_defs

lemma example_collab_ok: "collab_ok example_collab"
  by (simp add: collab_ok_def unique_column_def invite_ok_def example_collab_defs)

lemma example_accept:
  "\<exists>res db'. accept_invite example_env 2 (\<lambda>n. 10) ''tok'' 9 example_collab = (Inr res, db')"
proof -
  have low: "str_lower ''U@x'' = ''u@x''" by code_simp
  have "invite_by_token example_env False 10 ''tok'' example_collab = (Inr example_invite, example_collab)"
    by (simp add: invite_by_token_def invite_by_token_hash_def hash_invite_token_def check_invite_status_def
        display_invite_status_def example_env_def example_collab_defs)
  moreover have "get_user example_collab 9 = Some (example_user 9 ''U@x'')"
    by (simp add: get_user_def db_get_def example_collab_def example_user_def)
  moreover have "can_user_accept_invite 10 example_invite (Some (example_user 9 ''U@x''))"
    by (simp add: can_user_accept_invite_def display_invite_status_def example_invite_def example_user_def low)
  moreover have "get_score example_collab 1 = Some example_score"
    by (simp add: get_score_def db_get_def example_collab_defs)
  moreover have "repository_membership 1 9 example_collab = Inr (Some removed_editor)"
    by (simp add: repository_membership_def example_collab_defs)
  ultimately show ?thesis
    by (simp add: accept_invite_def accept_invite_record_def Let_def example_invite_def example_score_def)
qed

text \<open>C12. An invitation is answered at most once. In every state the service can reach, the answer an
  invitation shows is the one recorded with its time (and person), and an operation leaves each invitation as
  it is, removes it, or answers it if it is pending; an answered invitation is never reopened or answered
  again, whoever calls what.\<close>

theorem invite_answered_once:
  assumes "collab_ok start" and "collab_step\<^sup>*\<^sup>* start db" and "collab_step db db'"
    and "i \<in> set (ad_invites (cb_access db))" and "i' \<in> set (ad_invites (cb_access db'))" and "si_id i' = si_id i"
  shows "invite_ok i \<and> (si_status i \<noteq> Invite_PENDING \<longrightarrow> i' = i) \<and>
    (si_status i = Invite_PENDING \<longrightarrow> i' = i \<or> answered i i')"
proof -
  have ok: "collab_ok db" using assms(1,2) by (rule collab_run_ok [rotated])
  obtain d where d: "member_change db d" "invite_change d db'" using collab_step_changes [OF assms(3) ok] by blast
  have "i' = i \<or> answered i i'"
    using member_change_invites [OF d(1)] assms(4-6)
    by (intro invite_change_row [OF d(2) member_change_ok [OF d(1) ok]]) simp_all
  moreover have "invite_ok i" using ok assms(4) by (simp add: collab_ok_def)
  ultimately show ?thesis by (auto simp: answered_def)
qed

theorem invite_answered_once_witness:
  "\<exists>db'. collab_step example_collab db' \<and> (\<forall>i' \<in> set (ad_invites (cb_access db')). si_id i' = 1 \<longrightarrow>
     i' = example_invite \<or> answered example_invite i')"
proof -
  let ?db = "snd (decline_pending_invite (\<lambda>n. 10) ''i'' 9 example_collab)"
  have step: "collab_step example_collab ?db" by (rule collab_step.intros)
  have "example_invite \<in> set (ad_invites (cb_access example_collab))" by (simp add: example_collab_def)
  from invite_answered_once [OF example_collab_ok rtranclp.rtrancl_refl step this] step show ?thesis
    by (intro exI [of _ ?db]) (auto simp: example_invite_def)
qed

text \<open>C11. Accepting gives exactly what was offered. A successful accept found a pending invitation with the
  token, not expired, addressed to this very user's address; afterwards it is recorded as accepted by the
  user, the user is a live member with at least the offered role (unless the score is the user's own), the
  memberships of everybody else are as before, and a second accept with the token is refused without a
  change.\<close>

theorem invite_accept_outcome:
  assumes "collab_ok db" and "new_id \<notin> sm_id ` set (ad_memberships (cb_access db))"
    and "accept_invite env new_id clk token user db = (Inr res, db')"
  shows "\<exists>i u score. i \<in> set (ad_invites (cb_access db)) \<and> si_token_hash i = hash_invite_token env token \<and>
    display_invite_status (clk 0) i = Invite_PENDING \<and> get_user db user = Some u \<and>
    si_email i = Some (str_lower (us_email u)) \<and> get_score db (si_score_id i) = Some score \<and>
    accepted_invite user (clk 2) i \<in> set (ad_invites (cb_access db')) \<and>
    (owner_user_id score \<noteq> user \<longrightarrow>
      (\<exists>m. live_member (cb_access db') score (Some user) m \<and> role_rank (si_role i) \<le> role_rank (sm_role m))) \<and>
    others_than (si_score_id i, user) db' = others_than (si_score_id i, user) db \<and>
    accept_invite env new_id2 clk2 token user2 db' =
      (Inl (validation_exception ''invite_already_accepted'' ''token'' []), db')"
proof -
  obtain r db1 where t: "invite_by_token env False (clk 0) token db = (r, db1)" by fastforce
  obtain i where i: "r = Inr i" "db1 = db" "i \<in> set (ad_invites (cb_access db))"
      "si_token_hash i = hash_invite_token env token" "display_invite_status (clk 0) i = Invite_PENDING"
    using assms(1) t by (cases rule: invite_by_token_cases) (use assms(3) t in \<open>simp_all add: accept_invite_def\<close>)
  have run: "accept_invite_record new_id (\<lambda>n. clk (1 + n)) i user db = (Inr res, db')"
    using assms(3) t i(1,2) by (simp add: accept_invite_def)
  obtain d u score where d: "member_change db d" "db' = put_invite (accepted_invite user (clk 2) i) d"
    and u: "get_user db user = Some u" "can_user_accept_invite (clk 1) i (Some u)"
      "get_score db (si_score_id i) = Some score"
    and others: "others_than (si_score_id i, user) d = others_than (si_score_id i, user) db"
    and live: "owner_user_id score \<noteq> user \<Longrightarrow> \<exists>m \<in> set (ad_memberships (cb_access d)).
      sm_score_id m = si_score_id i \<and> sm_user_id m = user \<and> sm_revoked_at m = None \<and>
      role_rank (si_role i) \<le> role_rank (sm_role m)"
    by (rule accept_record_outcome [OF assms(1,2) run]) (simp add: numeral_2_eq_2)
  let ?i = "accepted_invite user (clk 2) i"
  have ans: "answered i ?i" using display_pending [OF i(5)] by (auto simp: answered_def)
  have okd: "collab_ok d" using member_change_ok [OF d(1) assms(1)] .
  have id: "i \<in> set (ad_invites (cb_access d))" using i(3) by (simp add: member_change_invites [OF d(1)])
  have ok': "collab_ok db'" using invite_change_ok [OF answer [OF id ans] okd] by (simp add: d(2))
  have mem: "?i \<in> set (ad_invites (cb_access db'))"
    using put_invite_rows [OF okd id, of ?i] by (simp add: d(2) accepted_invite_def)
  have "unique_column si_token_hash (ad_invites (cb_access db'))" using ok' by (simp add: collab_ok_def)
  from unique_filter [OF this mem]
  have "invite_by_token_hash (hash_invite_token env token) db' = Inr (Some ?i)"
    using i(4) by (simp add: invite_by_token_hash_def accepted_invite_def)
  then have again: "accept_invite env new_id2 clk2 token user2 db' =
      (Inl (validation_exception ''invite_already_accepted'' ''token'' []), db')"
    by (simp add: accept_invite_def invite_by_token_def check_invite_status_def display_invite_status_def
        accepted_invite_def)
  have "sc_id score = si_score_id i" using u(3) by (auto simp: get_score_def dest: db_get_Some)
  moreover have "si_email i = Some (str_lower (us_email u))"
    using u(2) by (auto simp: can_user_accept_invite_def split: if_splits)
  moreover have "others_than (si_score_id i, user) db' = others_than (si_score_id i, user) db"
    using others by (simp add: d(2) others_than_def)
  moreover have "owner_user_id score \<noteq> user \<longrightarrow>
      (\<exists>m. live_member (cb_access db') score (Some user) m \<and> role_rank (si_role i) \<le> role_rank (sm_role m))"
    using live \<open>sc_id score = si_score_id i\<close> by (auto simp: live_member_def d(2))
  ultimately show ?thesis using i(3-5) u(1,3) mem again by blast
qed

theorem invite_accept_outcome_witness:
  "\<exists>res db'. accept_invite example_env 2 (\<lambda>n. 10) ''tok'' 9 example_collab = (Inr res, db') \<and>
     accept_invite example_env 3 (\<lambda>n. 20) ''tok'' 9 db' =
       (Inl (validation_exception ''invite_already_accepted'' ''token'' []), db')"
proof -
  obtain res db' where run: "accept_invite example_env 2 (\<lambda>n. 10) ''tok'' 9 example_collab = (Inr res, db')"
    using example_accept by blast
  have "2 \<notin> sm_id ` set (ad_memberships (cb_access example_collab))"
    by (simp add: example_collab_def removed_editor_def)
  from invite_accept_outcome [OF example_collab_ok this run, of 3 "\<lambda>n. 20" 9] run show ?thesis by blast
qed

text \<open>Removing a member takes effect for the access policy: only the owner can do it, the member's row is
  marked with the time, and in the state this leaves any request of the removed user to edit the score is
  refused with 403, at whatever time.\<close>

theorem removed_member_is_refused:
  assumes "collab_ok db" and "access_db_ok (cb_access db)"
    and "remove_member env clk uuid mid user db = (Inr read, db')"
  shows "\<exists>score m. live_score (cb_access db) uuid score \<and> owner_user_id score = user \<and>
    m \<in> set (ad_memberships (cb_access db)) \<and> sm_id m = mid \<and> sm_score_id m = sc_id score \<and>
    m\<lparr>sm_revoked_at := Some (clk 1)\<rparr> \<in> set (ad_memberships (cb_access db')) \<and>
    (\<exists>e. authorize (ie_sha env) (cb_access db') now uuid Act_EDIT (user_request (sm_user_id m)) = Inl e \<and>
       exception_status e = 403)"
proof -
  obtain score m where au: "authorize_members env db (clk 0) uuid user = Inr score"
      and m: "m \<in> set (ad_memberships (cb_access db))" "sm_id m = mid" "sm_score_id m = sc_id score"
        "sm_user_id m \<noteq> owner_user_id score"
      and db': "db' = put_membership (m\<lparr>sm_revoked_at := Some (clk 1)\<rparr>) db"
    using assms(3)
    by (auto simp: remove_member_def membership_for_score_def Let_def split: sum.splits option.splits if_splits
        dest!: db_get_Some)
  let ?m = "m\<lparr>sm_revoked_at := Some (clk 1)\<rparr>"
  have s: "live_score (cb_access db) uuid score" "owner_user_id score = user"
    using au access_sound [of "ie_sha env" "cb_access db" "clk 0" uuid Act_MANAGE_MEMBERS "user_request user"]
    by (auto simp: authorize_members_def user_request_def split: sum.splits)
  have rows: "set (ad_memberships (cb_access db')) = insert ?m {x \<in> set (ad_memberships (cb_access db)). sm_id x \<noteq> sm_id m}"
    unfolding db' by (rule put_membership_rows [OF assms(1) m(1)]) simp
  have ok': "access_db_ok (cb_access db')"
    using assms(2) put_unique [of sm_id "ad_memberships (cb_access db)" sm_id m ?m] m(1)
      put_unique [of sm_id "ad_memberships (cb_access db)" "\<lambda>m. (sm_score_id m, sm_user_id m)" m ?m]
    by (simp add: access_db_ok_def db' put_membership_def del: One_nat_def)
  have live': "live_score (cb_access db') uuid score" using s(1) by (simp add: live_score_def db')
  have "\<not> live_member (cb_access db') score (Some (sm_user_id m)) x" for x
  proof
    assume "live_member (cb_access db') score (Some (sm_user_id m)) x"
    then have x: "x \<in> set (ad_memberships (cb_access db))" "sm_id x \<noteq> sm_id m" "sm_score_id x = sm_score_id m"
        "sm_user_id x = sm_user_id m" using rows m(3) by (auto simp: live_member_def)
    then have "x = m" using assms(1) m(1)
      by (auto simp: collab_ok_def unique_column_def distinct_map dest: inj_onD)
    with x(2) show False by simp
  qed
  then have "\<not> entitled (ie_sha env) (cb_access db') now score (user_request (sm_user_id m)) Act_EDIT"
    using m(4) by (simp add: user_request_def)
  moreover have "rq_revision (user_request (sm_user_id m)) = None" by (simp add: user_request_def)
  ultimately have "\<exists>e. authorize (ie_sha env) (cb_access db') now uuid Act_EDIT (user_request (sm_user_id m)) = Inl e \<and>
       exception_status e = 403"
    using access_decides [OF ok' live', of "user_request (sm_user_id m)" Act_EDIT "ie_sha env" now] by (auto simp del: entitled.simps)
  with s m rows show ?thesis by blast
qed

theorem removed_member_is_refused_witness:
  "\<exists>read db'. remove_member example_env (\<lambda>n. 30) ''s'' 1 7 example_collab = (Inr read, db') \<and>
     (\<exists>e. authorize (\<lambda>t. t) (cb_access db') 40 ''s'' Act_EDIT (user_request 9) = Inl e \<and> exception_status e = 403)"
proof -
  have acc: "access_db_ok (cb_access example_collab)"
    using example_access_ok by (simp add: access_db_ok_def example_collab_def unique_column_def example_access_db_def)
  have live: "live_score (cb_access example_collab) ''s'' example_score"
    by (simp add: live_score_def example_collab_defs)
  have own: "rq_user (user_request 7) = Some (owner_user_id example_score)"
    by (simp add: user_request_def example_score_def)
  have "entitled (ie_sha example_env) (cb_access example_collab) 30 example_score (user_request 7) Act_MANAGE_MEMBERS"
    using own by simp
  with access_decides [OF acc live, of "user_request 7" Act_MANAGE_MEMBERS "ie_sha example_env" 30]
  have "authorize_members example_env example_collab 30 ''s'' 7 = Inr example_score"
    by (auto simp: authorize_members_def user_request_def)
  moreover have "membership_for_score example_score 1 example_collab = Inr removed_editor"
    by (simp add: membership_for_score_def db_get_def example_collab_defs)
  moreover have "sm_user_id removed_editor = 9" "owner_user_id example_score = 7"
    by (simp_all add: removed_editor_def example_score_def)
  moreover have "\<exists>read. member_read (put_membership m example_collab) (removed_editor\<lparr>sm_revoked_at := t\<rparr>) = Inr read" for m t
    by (simp add: member_read_def get_user_def db_get_def removed_editor_def example_collab_def example_user_def)
  ultimately obtain read db' where run: "remove_member example_env (\<lambda>n. 30) ''s'' 1 7 example_collab = (Inr read, db')"
    by (fastforce simp: remove_member_def Let_def)
  obtain m where m: "m \<in> set (ad_memberships (cb_access example_collab))"
      "\<exists>e. authorize (ie_sha example_env) (cb_access db') 40 ''s'' Act_EDIT (user_request (sm_user_id m)) = Inl e \<and>
       exception_status e = 403"
    using removed_member_is_refused [OF example_collab_ok acc run, of 40] by blast
  then have "sm_user_id m = 9" by (simp add: example_collab_def removed_editor_def)
  with m run show ?thesis by (auto simp: example_env_def)
qed

text \<open>A role only rises: whoever was removed as an editor and is invited again as a viewer is an editor
  again as soon as the invitation is accepted, and is entitled to edit, although nothing but viewing was
  offered.\<close>

theorem reinvited_viewer_edits_again:
  assumes "collab_ok db" and "accept_invite env new_id clk token user db = (Inr res, db')"
    and "i \<in> set (ad_invites (cb_access db))" and "si_token_hash i = hash_invite_token env token" and "si_role i = VIEWER"
    and "m \<in> set (ad_memberships (cb_access db))" and "sm_score_id m = si_score_id i" and "sm_user_id m = user"
    and "sm_role m = EDITOR" and "sm_revoked_at m \<noteq> None" and "get_score db (si_score_id i) = Some score"
    and "owner_user_id score \<noteq> user"
  shows "m\<lparr>sm_revoked_at := None\<rparr> \<in> set (ad_memberships (cb_access db')) \<and>
    entitled (ie_sha env) (cb_access db') now score (user_request user) Act_EDIT"
proof -
  have tok: "unique_column si_token_hash (ad_invites (cb_access db))"
    and key: "unique_column (\<lambda>m. (sm_score_id m, sm_user_id m)) (ad_memberships (cb_access db))"
    using assms(1) by (simp_all add: collab_ok_def)
  have "invite_by_token_hash (hash_invite_token env token) db = Inr (Some i)"
    using unique_filter [OF tok assms(3)] assms(4) by (simp add: invite_by_token_hash_def)
  moreover obtain r db1 where c: "check_invite_status ''token'' (clk 0) i db = (r, db1)" by fastforce
  ultimately have "accept_invite_record new_id (\<lambda>n. clk (1 + n)) i user db = (Inr res, db')"
    using assms(2) c
    by (cases rule: check_invite_status_cases [OF c]) (auto simp: accept_invite_def invite_by_token_def)
  moreover have "repository_membership (si_score_id i) user db = Inr (Some m)"
    using unique_filter [OF key assms(6)] assms(7,8) by (simp add: repository_membership_def)
  moreover have renewed: "renewed_membership i m = m\<lparr>sm_revoked_at := None\<rparr>"
    using assms(5,9,10) by (auto simp: renewed_membership_def Let_def)
  ultimately have db': "\<exists>x. db' = put_invite x (put_membership (m\<lparr>sm_revoked_at := None\<rparr>) db)"
    using assms(11,12) by (auto simp: accept_invite_record_def Let_def split: option.splits if_splits)
  then have mem: "m\<lparr>sm_revoked_at := None\<rparr> \<in> set (ad_memberships (cb_access db'))"
    using put_membership_rows [OF assms(1,6), of "m\<lparr>sm_revoked_at := None\<rparr>"] by auto
  moreover have "sc_id score = si_score_id i" using assms(11) by (auto simp: get_score_def dest: db_get_Some)
  then have "live_member (cb_access db') score (Some user) (m\<lparr>sm_revoked_at := None\<rparr>)"
    using mem assms(7,8) by (simp add: live_member_def)
  then have "entitled (ie_sha env) (cb_access db') now score (user_request user) Act_EDIT"
    using assms(9) by (auto simp: user_request_def intro!: exI [of _ "m\<lparr>sm_revoked_at := None\<rparr>"])
  ultimately show ?thesis by blast
qed

theorem reinvited_viewer_edits_again_witness:
  "\<exists>res db'. accept_invite example_env 2 (\<lambda>n. 10) ''tok'' 9 example_collab = (Inr res, db') \<and>
     entitled (ie_sha example_env) (cb_access db') 50 example_score (user_request 9) Act_EDIT"
proof -
  obtain res db' where run: "accept_invite example_env 2 (\<lambda>n. 10) ''tok'' 9 example_collab = (Inr res, db')"
    using example_accept by blast
  have "entitled (ie_sha example_env) (cb_access db') 50 example_score (user_request 9) Act_EDIT"
    using reinvited_viewer_edits_again [OF example_collab_ok run, of example_invite removed_editor example_score 50]
    by (simp add: example_collab_defs hash_invite_token_def example_env_def get_score_def db_get_def)
  with run show ?thesis by blast
qed

end
