(* ===== verification/Library_Folders.thy ===== *)
theory Library_Folders
  imports App_Errors
begin

text \<open>
  The folder tree of a user's library: the row of a folder (\<open>backend/app/db/models/library.py\<close>) and the
  functions of \<open>backend/app/modules/library/folder_tree.py\<close>. The three recursive walks of the source go
  from a folder to its children and return only if no folder is its own ancestor; they are written with
  fuel, \<open>None\<close> standing for a recursion that does not return. One more than the number of folders is
  enough fuel for every walk that returns (\<open>walk_returns\<close>), so it is the fuel the service is given. The
  loop of \<open>folder_level\<close> remembers what it has seen and always ends.
\<close>

record ScoreLibraryFolder =
  lf_id :: int
  folder_uuid :: string
  lf_user_id :: int
  parent_folder_id :: "int option"
  lf_name :: string
  lf_position :: int
  lf_created_at :: timestamp
  lf_updated_at :: timestamp
  lf_deleted_at :: "timestamp option"

section \<open>Walking down\<close>

definition folder_children :: "ScoreLibraryFolder list \<Rightarrow> int \<Rightarrow> int list" where
  "folder_children folders p = map lf_id (filter (\<lambda>f. parent_folder_id f = Some p) folders)"

fun recursive_count :: "nat \<Rightarrow> ScoreLibraryFolder list \<Rightarrow> (int \<Rightarrow> int) \<Rightarrow> int \<Rightarrow> int option" where
  "recursive_count 0 folders direct p = None"
| "recursive_count (Suc n) folders direct p =
     (case those (map (recursive_count n folders direct) (folder_children folders p)) of
        None \<Rightarrow> None | Some totals \<Rightarrow> Some (direct p + sum_list totals))"

fun descendant_visit :: "nat \<Rightarrow> ScoreLibraryFolder list \<Rightarrow> int \<Rightarrow> int list option" where
  "descendant_visit 0 folders p = None"
| "descendant_visit (Suc n) folders p =
     (case those (map (descendant_visit n folders) (folder_children folders p)) of
        None \<Rightarrow> None | Some below \<Rightarrow> Some (folder_children folders p @ concat below))"

fun subtree_height :: "nat \<Rightarrow> ScoreLibraryFolder list \<Rightarrow> int \<Rightarrow> int option" where
  "subtree_height 0 folders p = None"
| "subtree_height (Suc n) folders p =
     (case those (map (subtree_height n folders) (folder_children folders p)) of
        None \<Rightarrow> None | Some hs \<Rightarrow> Some (1 + foldr max hs 0))"

definition walk_fuel :: "ScoreLibraryFolder list \<Rightarrow> nat" where
  "walk_fuel folders = Suc (length folders)"

definition descendant_folder_ids :: "ScoreLibraryFolder list \<Rightarrow> int \<Rightarrow> int set option" where
  "descendant_folder_ids folders p = map_option set (descendant_visit (walk_fuel folders) folders p)"

section \<open>Walking up\<close>

definition folder_by_id :: "ScoreLibraryFolder list \<Rightarrow> int \<Rightarrow> ScoreLibraryFolder option" where
  "folder_by_id folders i = List.find (\<lambda>f. lf_id f = i) (rev folders)"

text \<open>The ids that may still be met; it is what shrinks.\<close>

definition unseen :: "ScoreLibraryFolder list \<Rightarrow> int list \<Rightarrow> int set" where
  "unseen folders seen = lf_id ` set folders - set seen"

lemma folder_by_id_member: "folder_by_id folders i = Some f \<Longrightarrow> f \<in> set folders \<and> lf_id f = i"
  by (auto simp: folder_by_id_def find_Some_iff) (metis nth_mem set_rev length_rev)

function level_loop ::
  "ScoreLibraryFolder list \<Rightarrow> ScoreLibraryFolder option \<Rightarrow> int list \<Rightarrow> int \<Rightarrow> int" where
  "level_loop folders current seen level =
     (case current of
        None \<Rightarrow> level
      | Some f \<Rightarrow>
          (case parent_folder_id f of
             None \<Rightarrow> level
           | Some p \<Rightarrow> if p \<in> set seen then level
                      else level_loop folders (folder_by_id folders p) (p # seen) (level + 1)))"
  by pat_completeness auto

termination
proof (relation "measure (\<lambda>(folders, current, seen, level).
    case current of None \<Rightarrow> 0 | Some f \<Rightarrow> Suc (card (unseen folders seen)))", goal_cases)
  case 1
  then show ?case by simp
next
  case (2 folders current seen level f p)
  show ?case
  proof (cases "folder_by_id folders p")
    case None
    with 2 show ?thesis by simp
  next
    case (Some g)
    then have "p \<in> unseen folders seen" using 2(3) folder_by_id_member by (force simp: unseen_def)
    moreover have "unseen folders (p # seen) = unseen folders seen - {p}" by (auto simp: unseen_def)
    moreover have "finite (unseen folders seen)" by (simp add: unseen_def)
    ultimately have "card (unseen folders (p # seen)) < card (unseen folders seen)"
      by (metis card_Diff1_less)
    with Some 2 show ?thesis by simp
  qed
qed

declare level_loop.simps [simp del]

lemma level_loop_steps:
  "parent_folder_id f = None \<Longrightarrow> level_loop folders (Some f) seen level = level"
  "parent_folder_id f = Some p \<Longrightarrow> p \<notin> set seen \<Longrightarrow> level_loop folders (Some f) seen level =
     level_loop folders (folder_by_id folders p) (p # seen) (level + 1)"
  by (simp_all add: level_loop.simps [of folders "Some f"])

definition folder_level :: "ScoreLibraryFolder list \<Rightarrow> int option \<Rightarrow> int" where
  "folder_level folders folder =
     (case folder of None \<Rightarrow> 0 | Some i \<Rightarrow> level_loop folders (folder_by_id folders i) [i] 1)"

definition folder_uuid_by_id :: "ScoreLibraryFolder list \<Rightarrow> int option \<Rightarrow> string option" where
  "folder_uuid_by_id folders folder =
     (case folder of None \<Rightarrow> None
      | Some i \<Rightarrow> map_option folder_uuid (List.find (\<lambda>f. lf_id f = i) folders))"

section \<open>The tree as it is shown\<close>

record LibraryFolderCounts =
  all_count :: int
  favorite_count :: int
  recent_practice_count :: int
  to_practice_count :: int
  mastered_count :: int
  direct_counts :: "int \<Rightarrow> int"

record LibraryFolderRead =
  fr_folder_id :: string
  fr_parent_folder_id :: "string option"
  fr_name :: string
  fr_position :: int
  fr_direct_count :: int
  fr_recursive_count :: int
  fr_created_at :: timestamp
  fr_updated_at :: timestamp

record LibraryFolderTreeRead =
  ft_all_count :: int
  ft_favorite_count :: int
  ft_recent_practice_count :: int
  ft_to_practice_count :: int
  ft_mastered_count :: int
  ft_folders :: "LibraryFolderRead list"

definition folder_read ::
  "ScoreLibraryFolder list \<Rightarrow> LibraryFolderCounts \<Rightarrow> ScoreLibraryFolder \<Rightarrow> LibraryFolderRead option" where
  "folder_read folders counts f =
     (case recursive_count (walk_fuel folders) folders (direct_counts counts) (lf_id f) of
        None \<Rightarrow> None
      | Some below \<Rightarrow> Some \<lparr>fr_folder_id = folder_uuid f,
          fr_parent_folder_id = folder_uuid_by_id folders (parent_folder_id f), fr_name = lf_name f,
          fr_position = lf_position f, fr_direct_count = direct_counts counts (lf_id f),
          fr_recursive_count = below, fr_created_at = lf_created_at f, fr_updated_at = lf_updated_at f\<rparr>)"

definition build_folder_tree_read ::
  "ScoreLibraryFolder list \<Rightarrow> LibraryFolderCounts \<Rightarrow> LibraryFolderTreeRead option" where
  "build_folder_tree_read folders counts =
     (case those (map (folder_read folders counts) folders) of
        None \<Rightarrow> None
      | Some reads \<Rightarrow> Some \<lparr>ft_all_count = all_count counts, ft_favorite_count = favorite_count counts,
          ft_recent_practice_count = recent_practice_count counts,
          ft_to_practice_count = to_practice_count counts, ft_mastered_count = mastered_count counts,
          ft_folders = reads\<rparr>)"

section \<open>When the walks return\<close>

definition child_rel :: "ScoreLibraryFolder list \<Rightarrow> (int \<times> int) set" where
  "child_rel folders = {(p, c). c \<in> set (folder_children folders p)}"

definition below :: "ScoreLibraryFolder list \<Rightarrow> int \<Rightarrow> int set" where
  "below folders p = {c. (p, c) \<in> (child_rel folders)\<^sup>+}"

fun walks :: "nat \<Rightarrow> ScoreLibraryFolder list \<Rightarrow> int \<Rightarrow> bool" where
  "walks 0 folders p = False"
| "walks (Suc n) folders p = (\<forall>c \<in> set (folder_children folders p). walks n folders c)"

lemma those_Some: "those xs = Some ys \<longleftrightarrow> xs = map Some ys"
  by (induction xs arbitrary: ys) (auto split: option.splits)

lemma those_None: "those xs = None \<longleftrightarrow> None \<in> set xs"
  by (induction xs) (auto split: option.splits)

lemma those_step:
  "(case those (map f cs) of None \<Rightarrow> None | Some ts \<Rightarrow> Some (g ts)) \<noteq> None \<longleftrightarrow> (\<forall>c \<in> set cs. f c \<noteq> None)"
proof (cases "those (map f cs)")
  case None
  then have "None \<in> set (map f cs)" by (simp only: those_None)
  then obtain c where "c \<in> set cs" "f c = None" by force
  with None show ?thesis by auto
next
  case (Some ts)
  then have "None \<notin> set (map f cs)" by (metis option.distinct(1) those_None)
  then have "\<forall>c \<in> set cs. f c \<noteq> None" by force
  with Some show ?thesis by simp
qed

lemma map_Some_mono:
  "map f cs = map Some ts \<Longrightarrow> (\<And>c t. f c = Some t \<Longrightarrow> g c = Some t) \<Longrightarrow> map g cs = map Some ts"
  by (induction cs arbitrary: ts) (auto simp: Cons_eq_map_conv)

lemma map_Some_sets:
  "map f cs = map Some dss \<Longrightarrow> (\<And>c d. f c = Some d \<Longrightarrow> set d = B c) \<Longrightarrow> set (concat dss) = (\<Union>c \<in> set cs. B c)"
proof (induction cs arbitrary: dss)
  case Nil
  then show ?case by simp
next
  case (Cons c cs)
  then obtain d ds where d: "dss = d # ds" "f c = Some d" "map f cs = map Some ds"
    by (auto simp: Cons_eq_map_conv)
  with Cons.IH [OF d(3) Cons.prems(2)] Cons.prems(2) [OF d(2)] show ?case by simp
qed

text \<open>The three walks return together.\<close>

lemma walk_domain:
  "recursive_count n folders direct p \<noteq> None \<longleftrightarrow> walks n folders p"
  "descendant_visit n folders p \<noteq> None \<longleftrightarrow> walks n folders p"
  "subtree_height n folders p \<noteq> None \<longleftrightarrow> walks n folders p"
proof (induction n arbitrary: p)
  case 0
  { case 1 then show ?case by simp next case 2 then show ?case by simp next case 3 then show ?case by simp }
next
  case (Suc n)
  { case 1 then show ?case by (simp only: recursive_count.simps walks.simps those_step Suc(1))
  next case 2 then show ?case by (simp only: descendant_visit.simps walks.simps those_step Suc(2))
  next case 3 then show ?case by (simp only: subtree_height.simps walks.simps those_step Suc(3)) }
qed

lemma walks_mono: "walks n folders p \<Longrightarrow> n \<le> m \<Longrightarrow> walks m folders p"
proof (induction n arbitrary: p m)
  case 0
  then show ?case by simp
next
  case (Suc n)
  then obtain k where "m = Suc k" "n \<le> k" by (cases m) auto
  with Suc show ?case by auto
qed

lemma child_rel_iff: "(p, c) \<in> child_rel folders \<longleftrightarrow> c \<in> set (folder_children folders p)"
  by (simp add: child_rel_def)

lemma below_ids: "below folders p \<subseteq> lf_id ` set folders"
proof
  fix c assume "c \<in> below folders p"
  then obtain q where "(q, c) \<in> child_rel folders" by (auto simp: below_def elim: tranclE)
  then show "c \<in> lf_id ` set folders" by (auto simp: child_rel_def folder_children_def)
qed

lemma below_finite: "finite (below folders p)"
  using below_ids by (rule finite_subset) simp

lemma below_card: "card (below folders p) \<le> length folders"
proof -
  have "card (below folders p) \<le> card (lf_id ` set folders)" by (rule card_mono [OF _ below_ids]) simp
  also have "\<dots> \<le> card (set folders)" by (rule card_image_le) simp
  also have "\<dots> \<le> length folders" by (rule card_length)
  finally show ?thesis .
qed

lemma walks_below:
  assumes "(p, q) \<in> (child_rel folders)\<^sup>+" and "walks n folders p"
  shows "\<exists>m < n. walks m folders q"
  using assms
proof (induction arbitrary: n rule: converse_trancl_induct)
  case (base y)
  then show ?case by (cases n) (auto simp: child_rel_iff)
next
  case (step y z)
  then obtain k where "n = Suc k" "walks k folders z" by (cases n) (auto simp: child_rel_iff)
  with step.IH show ?case using less_SucI by blast
qed

lemma walks_acyclic: "walks n folders p \<Longrightarrow> p \<notin> below folders p"
proof (induction n arbitrary: p rule: less_induct)
  case (less n)
  show ?case
  proof
    assume "p \<in> below folders p"
    then obtain m where "m < n" "walks m folders p"
      using walks_below [OF _ less.prems, of p] by (auto simp: below_def)
    with less.IH \<open>p \<in> below folders p\<close> show False by blast
  qed
qed

lemma child_below:
  assumes "c \<in> set (folder_children folders p)" and "c \<notin> below folders c"
  shows "Suc (card (below folders c)) \<le> card (below folders p)"
proof -
  have "(p, c) \<in> child_rel folders" using assms(1) by (simp add: child_rel_iff)
  then have "insert c (below folders c) \<subseteq> below folders p" by (auto simp: below_def)
  then have "card (insert c (below folders c)) \<le> card (below folders p)"
    by (rule card_mono [OF below_finite])
  with assms(2) show ?thesis by (simp add: below_finite)
qed

text \<open>A walk that returns at all returns with the fuel the service has.\<close>

lemma walks_enough: "walks n folders p \<Longrightarrow> walks (Suc (card (below folders p))) folders p"
proof (induction n arbitrary: p)
  case 0
  then show ?case by simp
next
  case (Suc n)
  have "walks (card (below folders p)) folders c" if "c \<in> set (folder_children folders p)" for c
  proof -
    have "walks n folders c" using Suc.prems that by simp
    from Suc.IH [OF this] child_below [OF that walks_acyclic [OF this]] show ?thesis by (rule walks_mono)
  qed
  then show ?case by simp
qed

lemma walk_returns: "walks n folders p \<Longrightarrow> walks (walk_fuel folders) folders p"
  using walks_enough [of n folders p] below_card [of folders p] walks_mono by (simp add: walk_fuel_def) blast

lemma acyclic_walks:
  assumes "acyclic (child_rel folders)"
  shows "walks (Suc (card (below folders p))) folders p"
proof (induction "card (below folders p)" arbitrary: p rule: less_induct)
  case less
  have "walks (card (below folders p)) folders c" if "c \<in> set (folder_children folders p)" for c
  proof -
    have "c \<notin> below folders c" using assms by (simp add: below_def acyclic_def)
    note lt = child_below [OF that this]
    then have "walks (Suc (card (below folders c))) folders c" by (intro less) simp
    then show ?thesis using lt by (rule walks_mono)
  qed
  then show ?case by simp
qed

text \<open>What the walk collects, and that more fuel does not change what a walk returns.\<close>

lemma descendant_visit_set:
  "descendant_visit n folders p = Some ds \<Longrightarrow> set ds = below folders p"
proof (induction n arbitrary: p ds)
  case 0
  then show ?case by simp
next
  case (Suc n)
  then obtain dss where dss: "map (descendant_visit n folders) (folder_children folders p) = map Some dss"
      and ds: "ds = folder_children folders p @ concat dss"
    by (auto simp: those_Some split: option.splits)
  have step: "below folders p = set (folder_children folders p) \<union>
      (\<Union>c \<in> set (folder_children folders p). below folders c)"
    by (auto simp: below_def child_rel_iff [symmetric] intro: trancl_into_trancl2 elim: converse_tranclE)
  have "set (concat dss) = (\<Union>c \<in> set (folder_children folders p). below folders c)"
    by (rule map_Some_sets [OF dss]) (rule Suc.IH)
  then show ?case by (simp add: ds step del: set_concat)
qed

lemma recursive_count_mono:
  "recursive_count n folders direct p = Some t \<Longrightarrow> n \<le> m \<Longrightarrow> recursive_count m folders direct p = Some t"
proof (induction n arbitrary: p t m)
  case 0
  then show ?case by simp
next
  case (Suc n)
  then obtain k where m: "m = Suc k" "n \<le> k" by (cases m) auto
  from Suc.prems(1) obtain ts where ts: "map (recursive_count n folders direct) (folder_children folders p) = map Some ts"
      "t = direct p + sum_list ts"
    by (auto simp: those_Some split: option.splits)
  have "map (recursive_count k folders direct) (folder_children folders p) = map Some ts"
    by (rule map_Some_mono [OF ts(1)]) (rule Suc.IH [OF _ m(2)])
  then have "those (map (recursive_count k folders direct) (folder_children folders p)) = Some ts"
    by (simp only: those_Some)
  with ts(2) m(1) show ?case by simp
qed

lemma subtree_height_mono:
  "subtree_height n folders p = Some h \<Longrightarrow> n \<le> m \<Longrightarrow> subtree_height m folders p = Some h"
proof (induction n arbitrary: p h m)
  case 0
  then show ?case by simp
next
  case (Suc n)
  then obtain k where m: "m = Suc k" "n \<le> k" by (cases m) auto
  from Suc.prems(1) obtain hs where hs: "map (subtree_height n folders) (folder_children folders p) = map Some hs"
      "h = 1 + foldr max hs 0"
    by (auto simp: those_Some split: option.splits)
  have "map (subtree_height k folders) (folder_children folders p) = map Some hs"
    by (rule map_Some_mono [OF hs(1)]) (rule Suc.IH [OF _ m(2)])
  then have "those (map (subtree_height k folders) (folder_children folders p)) = Some hs"
    by (simp only: those_Some)
  with hs(2) m(1) show ?case by simp
qed

section \<open>Properties\<close>

definition example_folder :: "int \<Rightarrow> int option \<Rightarrow> string \<Rightarrow> ScoreLibraryFolder" where
  "example_folder i parent name = \<lparr>lf_id = i, folder_uuid = name, lf_user_id = 7, parent_folder_id = parent,
     lf_name = name, lf_position = 0, lf_created_at = 0, lf_updated_at = 0, lf_deleted_at = None\<rparr>"



section \<open>Two levels\<close>

text \<open>What the service maintains: every folder is at the top or directly below a top folder.\<close>

definition two_level :: "ScoreLibraryFolder list \<Rightarrow> bool" where
  "two_level folders \<longleftrightarrow> unique_column lf_id folders \<and>
     (\<forall>f \<in> set folders. \<forall>p. parent_folder_id f = Some p \<longrightarrow>
        (\<exists>g \<in> set folders. lf_id g = p \<and> parent_folder_id g = None))"

lemma two_level_parent:
  assumes "two_level folders" and "f \<in> set folders" and "parent_folder_id f = Some p"
  obtains g where "g \<in> set folders" "lf_id g = p" "parent_folder_id g = None"
  using assms by (auto simp: two_level_def)

lemma folder_id_unique:
  "unique_column lf_id folders \<Longrightarrow> f \<in> set folders \<Longrightarrow> g \<in> set folders \<Longrightarrow> lf_id f = lf_id g \<Longrightarrow> f = g"
  by (auto simp: unique_column_def distinct_map dest: inj_onD)

lemma two_level_children:
  assumes "two_level folders" and "c \<in> set (folder_children folders p)"
  shows "folder_children folders c = []"
proof (rule ccontr)
  assume "folder_children folders c \<noteq> []"
  then obtain f where f: "f \<in> set folders" "parent_folder_id f = Some c"
    by (auto simp: folder_children_def filter_empty_conv)
  obtain g where g: "g \<in> set folders" "lf_id g = c" "parent_folder_id g = None"
    using two_level_parent [OF assms(1) f] .
  obtain h where h: "h \<in> set folders" "lf_id h = c" "parent_folder_id h = Some p"
    using assms(2) by (auto simp: folder_children_def)
  have "g = h" using assms(1) g h by (intro folder_id_unique) (simp_all add: two_level_def)
  with g(3) h(3) show False by simp
qed

lemma two_level_walks:
  assumes "two_level folders"
  shows "descendant_folder_ids folders p = Some (set (folder_children folders p))"
    and "subtree_height (walk_fuel folders) folders p = Some (if folder_children folders p = [] then 1 else 2)"
    and "recursive_count (walk_fuel folders) folders direct p =
      Some (direct p + sum_list (map direct (folder_children folders p)))"
proof -
  note leaf = two_level_children [OF assms]
  have w: "walks (walk_fuel folders) folders p"
    using leaf by (intro walk_returns [of 2]) (simp add: numeral_2_eq_2)
  have d: "descendant_visit 1 folders c = Some []" "subtree_height 1 folders c = Some 1"
      "recursive_count 1 folders direct c = Some (direct c)" if "c \<in> set (folder_children folders p)" for c
    using leaf [OF that] by simp_all
  have "descendant_visit 2 folders p = Some (folder_children folders p)"
  proof -
    have "those (map (descendant_visit 1 folders) (folder_children folders p)) =
        Some (map (\<lambda>c. []) (folder_children folders p))"
      using d(1) by (auto simp: those_Some)
    then show ?thesis by (simp add: numeral_2_eq_2)
  qed
  then have ds: "below folders p = set (folder_children folders p)" using descendant_visit_set by metis
  obtain v where "descendant_visit (walk_fuel folders) folders p = Some v" using w walk_domain(2) by blast
  then show "descendant_folder_ids folders p = Some (set (folder_children folders p))"
    using descendant_visit_set ds by (simp add: descendant_folder_ids_def)
  have "subtree_height 2 folders p = Some (if folder_children folders p = [] then 1 else 2)"
  proof -
    have "those (map (subtree_height 1 folders) (folder_children folders p)) =
        Some (map (\<lambda>c. 1) (folder_children folders p))"
      using d(2) by (auto simp: those_Some)
    moreover have "foldr max (map (\<lambda>c. 1 :: int) cs) 0 = (if cs = [] then 0 else 1)" for cs :: "int list"
      by (induction cs) auto
    ultimately show ?thesis by (simp add: numeral_2_eq_2)
  qed
  moreover obtain h where "subtree_height (walk_fuel folders) folders p = Some h" using w walk_domain(3) by blast
  ultimately show "subtree_height (walk_fuel folders) folders p = Some (if folder_children folders p = [] then 1 else 2)"
    using subtree_height_mono by (metis nat_le_linear)
  have "recursive_count 2 folders direct p = Some (direct p + sum_list (map direct (folder_children folders p)))"
  proof -
    have "those (map (recursive_count 1 folders direct) (folder_children folders p)) =
        Some (map direct (folder_children folders p))"
      using d(3) by (auto simp: those_Some)
    then show ?thesis by (simp add: numeral_2_eq_2)
  qed
  moreover obtain t where "recursive_count (walk_fuel folders) folders direct p = Some t" using w walk_domain(1) by blast
  ultimately show "recursive_count (walk_fuel folders) folders direct p =
      Some (direct p + sum_list (map direct (folder_children folders p)))"
    using recursive_count_mono by (metis nat_le_linear)
qed

lemma folder_by_id_unique:
  assumes "unique_column lf_id folders" and "f \<in> set folders"
  shows "folder_by_id folders (lf_id f) = Some f"
proof -
  have "folder_by_id folders (lf_id f) \<noteq> None"
    using assms(2) by (auto simp: folder_by_id_def find_None_iff)
  then obtain g where g: "folder_by_id folders (lf_id f) = Some g" by blast
  from folder_by_id_member [OF g] folder_id_unique [OF assms(1) _ assms(2)] g show ?thesis by simp
qed

lemma two_level_level:
  assumes "two_level folders" and "f \<in> set folders"
  shows "folder_level folders (Some (lf_id f)) = (if parent_folder_id f = None then 1 else 2)"
proof -
  have u: "unique_column lf_id folders" using assms(1) by (simp add: two_level_def)
  note bf = folder_by_id_unique [OF u assms(2)]
  show ?thesis
  proof (cases "parent_folder_id f")
    case None
    then show ?thesis by (simp add: folder_level_def bf level_loop_steps)
  next
    case (Some p)
    obtain g where g: "g \<in> set folders" "lf_id g = p" "parent_folder_id g = None"
      using two_level_parent [OF assms Some] .
    have bg: "folder_by_id folders p = Some g" using folder_by_id_unique [OF u g(1)] g(2) by simp
    have "p \<noteq> lf_id f"
    proof
      assume "p = lf_id f"
      then have "g = f" using g(2) by (intro folder_id_unique [OF u g(1) assms(2)]) simp
      with g(3) Some show False by simp
    qed
    then have "level_loop folders (Some f) [lf_id f] 1 = level_loop folders (Some g) [p, lf_id f] 2"
      using level_loop_steps(2) [OF Some, of "[lf_id f]" folders 1] by (simp add: bg)
    then show ?thesis by (simp add: folder_level_def bf level_loop_steps(1) [OF g(3)] Some)
  qed
qed

end
