(* ===== verification/Library.thy ===== *)
theory Library
  imports Library_Folders Score_Model
begin

text \<open>
  A user's library: the row of an entry (\<open>backend/app/db/models/library.py\<close>), the queries of
  \<open>backend/app/modules/library/repository.py\<close> and the operations of \<open>.../service.py\<close> on folders and entries.
  On an exception the session is rolled back: the tables are as they were, unless the operation had
  committed before. The session flushes before each query, so the steps of an operation see each other's
  changes, and a change that violates a constraint is reported by the next query. The database's collation
  of names is the parameter \<open>collate\<close>; readings of the clock, ids and uuids are arguments.
\<close>

section \<open>Rows and queries\<close>

datatype LibraryEntrySourceType = SELF_ADDED | BOOKMARK

datatype LibraryPracticeState = TO_PRACTICE | IN_PROGRESS | MASTERED

record ScoreLibraryEntry =
  le_id :: int
  entry_uuid :: string
  le_user_id :: int
  le_score_id :: int
  source_type :: LibraryEntrySourceType
  le_folder_id :: "int option"
  is_favorite :: bool
  practice_state :: LibraryPracticeState
  last_practiced_at :: "timestamp option"
  le_created_at :: timestamp
  le_updated_at :: timestamp
  le_deleted_at :: "timestamp option"

record library_db =
  lb_folders :: "ScoreLibraryFolder list"
  lb_entries :: "ScoreLibraryEntry list"
  lb_scores :: "Score list"

datatype FolderDeleteMode = MOVE_CONTENTS_TO_PARENT | MOVE_CONTENTS_TO_ROOT | TRASH_CONTENTS

definition live_folders :: "int \<Rightarrow> library_db \<Rightarrow> ScoreLibraryFolder list" where
  "live_folders user db = filter (\<lambda>f. lf_user_id f = user \<and> lf_deleted_at f = None) (lb_folders db)"

definition folder_by_uuid :: "int \<Rightarrow> string \<Rightarrow> library_db \<Rightarrow> app_exception + ScoreLibraryFolder option" where
  "folder_by_uuid user uuid db =
     one_or_none (filter (\<lambda>f. lf_user_id f = user \<and> folder_uuid f = uuid \<and> lf_deleted_at f = None)
       (lb_folders db))"

definition repository_folders ::
  "(string \<Rightarrow> nat) \<Rightarrow> int \<Rightarrow> library_db \<Rightarrow> ScoreLibraryFolder list" where
  "repository_folders collate user db =
     sort_key lf_position (sort_key (\<lambda>f. collate (lf_name f)) (live_folders user db))"

definition entry_by_uuid :: "int \<Rightarrow> string \<Rightarrow> library_db \<Rightarrow> app_exception + ScoreLibraryEntry option" where
  "entry_by_uuid user uuid db =
     one_or_none (filter (\<lambda>e. le_user_id e = user \<and> entry_uuid e = uuid \<and> le_deleted_at e = None)
       (lb_entries db))"

definition repository_entry ::
  "int \<Rightarrow> int \<Rightarrow> LibraryEntrySourceType \<Rightarrow> library_db \<Rightarrow> app_exception + ScoreLibraryEntry option" where
  "repository_entry user score source db =
     one_or_none (filter (\<lambda>e. le_user_id e = user \<and> le_score_id e = score \<and> source_type e = source \<and>
       le_deleted_at e = None) (lb_entries db))"

text \<open>Its order does not matter: more than one row is an error.\<close>

definition entry_including_deleted ::
  "int \<Rightarrow> int \<Rightarrow> LibraryEntrySourceType \<Rightarrow> library_db \<Rightarrow> app_exception + ScoreLibraryEntry option" where
  "entry_including_deleted user score source db =
     one_or_none (filter (\<lambda>e. le_user_id e = user \<and> le_score_id e = score \<and> source_type e = source)
       (lb_entries db))"

definition score_active :: "library_db \<Rightarrow> int \<Rightarrow> bool" where
  "score_active db i \<longleftrightarrow> (\<exists>s \<in> set (lb_scores db). sc_id s = i \<and> deletion_status s = Score_ACTIVE)"

definition shown_entry :: "int \<Rightarrow> library_db \<Rightarrow> ScoreLibraryEntry \<Rightarrow> bool" where
  "shown_entry user db e \<longleftrightarrow> le_user_id e = user \<and> le_deleted_at e = None \<and> score_active db (le_score_id e)"

definition count_entries :: "(ScoreLibraryEntry \<Rightarrow> bool) \<Rightarrow> library_db \<Rightarrow> int" where
  "count_entries p db = int (length (filter p (lb_entries db)))"

definition repository_counts :: "int \<Rightarrow> library_db \<Rightarrow> LibraryFolderCounts" where
  "repository_counts user db = \<lparr>
     all_count = count_entries (shown_entry user db) db,
     favorite_count = count_entries (\<lambda>e. shown_entry user db e \<and> is_favorite e) db,
     recent_practice_count = count_entries (\<lambda>e. shown_entry user db e \<and> last_practiced_at e \<noteq> None) db,
     to_practice_count = count_entries (\<lambda>e. shown_entry user db e \<and> practice_state e = TO_PRACTICE) db,
     mastered_count = count_entries (\<lambda>e. shown_entry user db e \<and> practice_state e = MASTERED) db,
     direct_counts = (\<lambda>i. count_entries (\<lambda>e. shown_entry user db e \<and> le_folder_id e = Some i) db)\<rparr>"

definition entries_in_folder_ids :: "int \<Rightarrow> int set \<Rightarrow> library_db \<Rightarrow> ScoreLibraryEntry list" where
  "entries_in_folder_ids user ids db =
     filter (\<lambda>e. le_user_id e = user \<and> le_deleted_at e = None \<and>
       (case le_folder_id e of None \<Rightarrow> False | Some i \<Rightarrow> i \<in> ids)) (lb_entries db)"

text \<open>The unique index on the names of live folders; rows whose parent is null never conflict, as null is
  not equal to null.\<close>

definition folder_name_clash :: "library_db \<Rightarrow> ScoreLibraryFolder \<Rightarrow> bool" where
  "folder_name_clash db f \<longleftrightarrow>
     lf_deleted_at f = None \<and> parent_folder_id f \<noteq> None \<and>
     (\<exists>g \<in> set (lb_folders db). lf_id g \<noteq> lf_id f \<and> lf_deleted_at g = None \<and> lf_user_id g = lf_user_id f \<and>
        parent_folder_id g = parent_folder_id f \<and> lf_name g = lf_name f)"

definition put_folder :: "ScoreLibraryFolder \<Rightarrow> library_db \<Rightarrow> library_db" where
  "put_folder f db = db\<lparr>lb_folders := map (\<lambda>x. if lf_id x = lf_id f then f else x) (lb_folders db)\<rparr>"

definition put_entry :: "ScoreLibraryEntry \<Rightarrow> library_db \<Rightarrow> library_db" where
  "put_entry e db = db\<lparr>lb_entries := map (\<lambda>x. if le_id x = le_id e then e else x) (lb_entries db)\<rparr>"

section \<open>Folders\<close>

definition MAX_FOLDER_LEVEL :: int where "MAX_FOLDER_LEVEL = 2"

text \<open>A recursion that does not return ends with Python's \<open>RecursionError\<close>.\<close>

definition returned :: "'a option \<Rightarrow> app_exception + 'a" where
  "returned x = (case x of None \<Rightarrow> Inl RecursionError | Some a \<Rightarrow> Inr a)"

definition folder_tree ::
  "(string \<Rightarrow> nat) \<Rightarrow> int \<Rightarrow> library_db \<Rightarrow> app_exception + LibraryFolderTreeRead" where
  "folder_tree collate user db =
     returned (build_folder_tree_read (repository_folders collate user db) (repository_counts user db))"

definition optional_folder ::
  "int \<Rightarrow> string option \<Rightarrow> library_db \<Rightarrow> app_exception + ScoreLibraryFolder option" where
  "optional_folder user uuid db =
     (case uuid of
        None \<Rightarrow> Inr None
      | Some u \<Rightarrow>
          (case folder_by_uuid user u db of
             Inl e \<Rightarrow> Inl e
           | Inr None \<Rightarrow> Inl (resource_not_found_exception ''library_folder'' (Some u) ''resource_not_found'')
           | Inr (Some f) \<Rightarrow> Inr (Some f)))"

definition folder_read_of ::
  "(string \<Rightarrow> nat) \<Rightarrow> int \<Rightarrow> string \<Rightarrow> library_db \<Rightarrow> app_exception + LibraryFolderRead" where
  "folder_read_of collate user uuid db =
     (case folder_tree collate user db of
        Inl e \<Rightarrow> Inl e
      | Inr tree \<Rightarrow>
          (case List.find (\<lambda>f. fr_folder_id f = uuid) (ft_folders tree) of
             None \<Rightarrow> Inl (resource_not_found_exception ''library_folder'' (Some uuid) ''resource_not_found'')
           | Some f \<Rightarrow> Inr f))"

definition create_folder ::
  "(string \<Rightarrow> nat) \<Rightarrow> int \<Rightarrow> string \<Rightarrow> timestamp \<Rightarrow> int \<Rightarrow> string \<Rightarrow> string option \<Rightarrow> library_db \<Rightarrow>
   (app_exception + LibraryFolderRead) \<times> library_db" where
  "create_folder collate new_id new_uuid now user name parent_uuid db =
     (case optional_folder user parent_uuid db of
        Inl e \<Rightarrow> (Inl e, db)
      | Inr parent \<Rightarrow>
          let parent_id = map_option lf_id parent in
          if folder_level (repository_folders collate user db) parent_id + 1 > MAX_FOLDER_LEVEL
          then (Inl (validation_exception ''validation_error'' ''parent_folder_id'' []), db)
          else
            let folder = \<lparr>lf_id = new_id, folder_uuid = new_uuid, lf_user_id = user,
                  parent_folder_id = parent_id, lf_name = name, lf_position = 0, lf_created_at = now,
                  lf_updated_at = now, lf_deleted_at = None\<rparr>
            in if folder_name_clash db folder
               then (Inl (resource_already_exists_exception ''library_folder''), db)
               else let db' = db\<lparr>lb_folders := lb_folders db @ [folder]\<rparr>
                    in (folder_read_of collate user new_uuid db', db'))"

record LibraryFolderUpdateRequest =
  uf_name :: "string option"
  uf_position :: "int option"
  uf_parent_set :: bool
  uf_parent :: "string option"

text \<open>The new name and position; then the new parent. The query for the parent flushes the former.\<close>

definition renamed_folder :: "LibraryFolderUpdateRequest \<Rightarrow> ScoreLibraryFolder \<Rightarrow> ScoreLibraryFolder" where
  "renamed_folder request f =
     (let f1 = (case uf_name request of None \<Rightarrow> f | Some n \<Rightarrow> f\<lparr>lf_name := n\<rparr>)
      in case uf_position request of None \<Rightarrow> f1 | Some p \<Rightarrow> f1\<lparr>lf_position := p\<rparr>)"

definition moved_folder ::
  "(string \<Rightarrow> nat) \<Rightarrow> int \<Rightarrow> LibraryFolderUpdateRequest \<Rightarrow> ScoreLibraryFolder \<Rightarrow> library_db \<Rightarrow>
   app_exception + ScoreLibraryFolder" where
  "moved_folder collate user request f db =
     (let f1 = renamed_folder request f;
          folders = repository_folders collate user db
      in if \<not> uf_parent_set request then Inr f1
         else if uf_parent request \<noteq> None \<and> folder_name_clash db f1 then Inl (OrmException IntegrityError)
         else case optional_folder user (uf_parent request) (put_folder f1 db) of
             Inl e \<Rightarrow> Inl e
           | Inr parent \<Rightarrow>
               let parent_id = map_option lf_id parent in
               (case returned (descendant_folder_ids folders (lf_id f)) of
                  Inl e \<Rightarrow> if parent_id = Some (lf_id f)
                           then Inl (validation_exception ''validation_error'' ''parent_folder_id'' [])
                           else Inl e
                | Inr ids \<Rightarrow>
                    if parent_id = Some (lf_id f) \<or> parent_id \<in> Some ` ids
                    then Inl (validation_exception ''validation_error'' ''parent_folder_id'' [])
                    else (case returned (subtree_height (walk_fuel folders) folders (lf_id f)) of
                        Inl e \<Rightarrow> Inl e
                      | Inr h \<Rightarrow>
                          if folder_level folders parent_id + h > MAX_FOLDER_LEVEL
                          then Inl (validation_exception ''validation_error'' ''parent_folder_id'' [])
                          else Inr (f1\<lparr>parent_folder_id := parent_id\<rparr>))))"

definition update_folder ::
  "(string \<Rightarrow> nat) \<Rightarrow> timestamp \<Rightarrow> int \<Rightarrow> string \<Rightarrow> LibraryFolderUpdateRequest \<Rightarrow> library_db \<Rightarrow>
   (app_exception + LibraryFolderRead) \<times> library_db" where
  "update_folder collate now user uuid request db =
     (case folder_by_uuid user uuid db of
        Inl e \<Rightarrow> (Inl e, db)
      | Inr None \<Rightarrow> (Inl (resource_not_found_exception ''library_folder'' (Some uuid) ''resource_not_found''), db)
      | Inr (Some f) \<Rightarrow>
          (case moved_folder collate user request f db of
             Inl e \<Rightarrow> (Inl e, db)
           | Inr f1 \<Rightarrow>
               let f2 = f1\<lparr>lf_updated_at := now\<rparr> in
               if folder_name_clash db f2
               then (Inl (resource_already_exists_exception ''library_folder''), db)
               else let db' = put_folder f2 db in (folder_read_of collate user (folder_uuid f2) db', db')))"

definition delete_folder ::
  "(string \<Rightarrow> nat) \<Rightarrow> timestamp \<Rightarrow> int \<Rightarrow> string \<Rightarrow> FolderDeleteMode \<Rightarrow> library_db \<Rightarrow>
   (app_exception + unit) \<times> library_db" where
  "delete_folder collate now user uuid mode db =
     (case folder_by_uuid user uuid db of
        Inl e \<Rightarrow> (Inl e, db)
      | Inr None \<Rightarrow> (Inl (resource_not_found_exception ''library_folder'' (Some uuid) ''resource_not_found''), db)
      | Inr (Some folder) \<Rightarrow>
          let folders = repository_folders collate user db in
          (case returned (descendant_folder_ids folders (lf_id folder)) of
             Inl e \<Rightarrow> (Inl e, db)
           | Inr descendants \<Rightarrow>
               let affected = insert (lf_id folder) descendants;
                   target = (if mode = MOVE_CONTENTS_TO_PARENT then parent_folder_id folder else None);
                   in_affected = (\<lambda>e. e \<in> set (entries_in_folder_ids user affected db))
               in (Inr (), db\<lparr>
                     lb_folders := map (\<lambda>f. if f \<in> set folders \<and> lf_id f \<in> affected
                       then f\<lparr>lf_deleted_at := Some now, lf_updated_at := now\<rparr> else f) (lb_folders db),
                     lb_entries := map (\<lambda>e. if in_affected e
                       then (if mode = TRASH_CONTENTS then e\<lparr>le_deleted_at := Some now, le_updated_at := now\<rparr>
                             else e\<lparr>le_folder_id := target, le_updated_at := now\<rparr>)
                       else e) (lb_entries db)\<rparr>)))"

section \<open>Entries\<close>

text \<open>\<open>ensure_entry\<close>: the row of the source, revived if it was removed; the caller commits.\<close>

definition revived_entry :: "timestamp \<Rightarrow> bool \<Rightarrow> ScoreLibraryEntry \<Rightarrow> ScoreLibraryEntry" where
  "revived_entry now favorite e =
     (let e1 = (if le_deleted_at e \<noteq> None
                then e\<lparr>le_deleted_at := None, le_folder_id := None, practice_state := TO_PRACTICE,
                       last_practiced_at := None\<rparr> else e);
          e2 = (if favorite \<and> \<not> is_favorite e1 then e1\<lparr>is_favorite := True\<rparr> else e1)
      in e2\<lparr>le_updated_at := now\<rparr>)"

definition ensure_entry ::
  "int \<times> string \<Rightarrow> timestamp \<Rightarrow> int \<Rightarrow> int \<Rightarrow> LibraryEntrySourceType \<Rightarrow> bool \<Rightarrow> library_db \<Rightarrow>
   (app_exception + ScoreLibraryEntry) \<times> library_db" where
  "ensure_entry new now user score source favorite db =
     (case entry_including_deleted user score source db of
        Inl e \<Rightarrow> (Inl e, db)
      | Inr (Some entry) \<Rightarrow>
          let entry' = revived_entry now favorite entry in (Inr entry', put_entry entry' db)
      | Inr None \<Rightarrow>
          let entry = \<lparr>le_id = fst new, entry_uuid = snd new, le_user_id = user, le_score_id = score,
                source_type = source, le_folder_id = None, is_favorite = favorite,
                practice_state = TO_PRACTICE, last_practiced_at = None, le_created_at = now,
                le_updated_at = now, le_deleted_at = None\<rparr>
          in (Inr entry, db\<lparr>lb_entries := lb_entries db @ [entry]\<rparr>))"

text \<open>The loops over entry ids: what is not the user's live entry is skipped. \<open>f n\<close> is what is done to the
  entry found for the n-th id.\<close>

fun for_entries ::
  "(nat \<Rightarrow> ScoreLibraryEntry \<Rightarrow> ScoreLibraryEntry) \<Rightarrow> nat \<Rightarrow> int \<Rightarrow> string list \<Rightarrow> int \<Rightarrow> library_db \<Rightarrow>
   (app_exception + int) \<times> library_db" where
  "for_entries f n user [] done_count db = (Inr done_count, db)"
| "for_entries f n user (u # us) done_count db =
     (case entry_by_uuid user u db of
        Inl e \<Rightarrow> (Inl e, db)
      | Inr None \<Rightarrow> for_entries f (Suc n) user us done_count db
      | Inr (Some entry) \<Rightarrow> for_entries f (Suc n) user us (done_count + 1) (put_entry (f n entry) db))"

text \<open>An exception in the loop rolls everything back.\<close>

definition rolled_back :: "'s \<Rightarrow> (app_exception + 'a) \<times> 's \<Rightarrow> (app_exception + 'a) \<times> 's" where
  "rolled_back db result = (case result of (Inl e, _) \<Rightarrow> (Inl e, db) | (Inr a, db') \<Rightarrow> (Inr a, db'))"

definition batch_move ::
  "(nat \<Rightarrow> timestamp) \<Rightarrow> int \<Rightarrow> string list \<Rightarrow> string option \<Rightarrow> library_db \<Rightarrow>
   (app_exception + int) \<times> library_db" where
  "batch_move clk user entry_ids target db =
     (case optional_folder user target db of
        Inl e \<Rightarrow> (Inl e, db)
      | Inr folder \<Rightarrow>
          rolled_back db (for_entries
            (\<lambda>n e. e\<lparr>le_folder_id := map_option lf_id folder, le_updated_at := clk n\<rparr>) 0 user entry_ids 0 db))"

definition batch_update_entries ::
  "timestamp \<Rightarrow> int \<Rightarrow> string list \<Rightarrow> bool \<Rightarrow> bool \<Rightarrow> LibraryPracticeState option \<Rightarrow> library_db \<Rightarrow>
   (app_exception + int) \<times> library_db" where
  "batch_update_entries now user entry_ids favorite trash practice db =
     rolled_back db (for_entries (\<lambda>n e.
       let e1 = (if favorite then e\<lparr>is_favorite := True\<rparr> else e);
           e2 = (if trash then e1\<lparr>le_deleted_at := Some now\<rparr> else e1);
           e3 = (case practice of None \<Rightarrow> e2 | Some p \<Rightarrow> e2\<lparr>practice_state := p\<rparr>)
       in e3\<lparr>le_updated_at := now\<rparr>) 0 user entry_ids 0 db)"

definition batch_set_favorite ::
  "timestamp \<Rightarrow> int \<Rightarrow> string list \<Rightarrow> library_db \<Rightarrow> (app_exception + int) \<times> library_db" where
  "batch_set_favorite now user entry_ids db = batch_update_entries now user entry_ids True False None db"

definition batch_trash ::
  "timestamp \<Rightarrow> int \<Rightarrow> string list \<Rightarrow> library_db \<Rightarrow> (app_exception + int) \<times> library_db" where
  "batch_trash now user entry_ids db = batch_update_entries now user entry_ids False True None db"

definition batch_set_practice_state ::
  "timestamp \<Rightarrow> int \<Rightarrow> string list \<Rightarrow> LibraryPracticeState \<Rightarrow> library_db \<Rightarrow> (app_exception + int) \<times> library_db" where
  "batch_set_practice_state now user entry_ids practice db =
     batch_update_entries now user entry_ids False False (Some practice) db"

text \<open>\<open>score_repository.get\<close> finds active scores.\<close>

definition active_score :: "string \<Rightarrow> library_db \<Rightarrow> app_exception + Score option" where
  "active_score uuid db =
     one_or_none (filter (\<lambda>s. score_uuid s = uuid \<and> deletion_status s = Score_ACTIVE) (lb_scores db))"

fun add_owned_scores ::
  "(nat \<Rightarrow> int \<times> string) \<Rightarrow> (nat \<Rightarrow> timestamp) \<Rightarrow> nat \<Rightarrow> int \<Rightarrow> string list \<Rightarrow> int \<Rightarrow> library_db \<Rightarrow>
   (app_exception + int) \<times> library_db" where
  "add_owned_scores new clk n user [] changed db = (Inr changed, db)"
| "add_owned_scores new clk n user (u # us) changed db =
     (case active_score u db of
        Inl e \<Rightarrow> (Inl e, db)
      | Inr None \<Rightarrow> add_owned_scores new clk (Suc n) user us changed db
      | Inr (Some score) \<Rightarrow>
          if owner_user_id score \<noteq> user then add_owned_scores new clk (Suc n) user us changed db
          else (case repository_entry user (sc_id score) SELF_ADDED db of
              Inl e \<Rightarrow> (Inl e, db)
            | Inr active \<Rightarrow>
                (case ensure_entry (new n) (clk n) user (sc_id score) SELF_ADDED False db of
                   (Inl e, db1) \<Rightarrow> (Inl e, db1)
                 | (Inr _, db1) \<Rightarrow>
                     add_owned_scores new clk (Suc n) user us
                       (if active = None then changed + 1 else changed) db1)))"

definition batch_add_owned_scores ::
  "(nat \<Rightarrow> int \<times> string) \<Rightarrow> (nat \<Rightarrow> timestamp) \<Rightarrow> int \<Rightarrow> string list \<Rightarrow> library_db \<Rightarrow>
   (app_exception + int) \<times> library_db" where
  "batch_add_owned_scores new clk user score_ids db =
     rolled_back db (add_owned_scores new clk 0 user score_ids 0 db)"

text \<open>\<open>update_entry\<close> up to the description it returns, which is that of the entry and its score.\<close>

definition update_entry ::
  "timestamp \<Rightarrow> int \<Rightarrow> string \<Rightarrow> LibraryPracticeState option \<Rightarrow> bool option \<Rightarrow> library_db \<Rightarrow>
   (app_exception + ScoreLibraryEntry) \<times> library_db" where
  "update_entry now user uuid practice favorite db =
     (case entry_by_uuid user uuid db of
        Inl e \<Rightarrow> (Inl e, db)
      | Inr None \<Rightarrow> (Inl (resource_not_found_exception ''library_entry'' (Some uuid) ''resource_not_found''), db)
      | Inr (Some entry) \<Rightarrow>
          let e1 = (case practice of None \<Rightarrow> entry | Some p \<Rightarrow> entry\<lparr>practice_state := p\<rparr>);
              e2 = (case favorite of None \<Rightarrow> e1 | Some b \<Rightarrow> e1\<lparr>is_favorite := b\<rparr>);
              e3 = e2\<lparr>le_updated_at := now\<rparr>;
              db' = put_entry e3 db
          in (case db_get sc_id (lb_scores db') (Some (le_score_id e3)) of
                None \<Rightarrow> (Inl (resource_not_found_exception ''score'' (Some (str_of_int (le_score_id e3)))
                            ''resource_not_found''), db')
              | Some score \<Rightarrow>
                  if deletion_status score \<noteq> Score_ACTIVE
                  then (Inl (resource_not_found_exception ''score'' (Some (str_of_int (le_score_id e3)))
                            ''resource_not_found''), db')
                  else (Inr e3, db')))"

definition mark_practiced :: "timestamp \<Rightarrow> int \<Rightarrow> int \<Rightarrow> library_db \<Rightarrow> library_db" where
  "mark_practiced now user score db = db\<lparr>lb_entries := map (\<lambda>e.
     if le_user_id e = user \<and> le_score_id e = score \<and> le_deleted_at e = None
     then e\<lparr>last_practiced_at := Some now,
            practice_state := (if practice_state e = TO_PRACTICE then IN_PROGRESS else practice_state e),
            le_updated_at := now\<rparr>
     else e) (lb_entries db)\<rparr>"

section \<open>The shape of a library\<close>

text \<open>For each user the live folders form two levels, a live entry is in a live folder of its user or in
  none, and there is one row for each user, score and source.\<close>

definition entry_key :: "ScoreLibraryEntry \<Rightarrow> int \<times> int \<times> LibraryEntrySourceType" where
  "entry_key e = (le_user_id e, le_score_id e, source_type e)"

definition entry_filed :: "library_db \<Rightarrow> ScoreLibraryEntry \<Rightarrow> bool" where
  "entry_filed db e \<longleftrightarrow>
     le_deleted_at e = None \<longrightarrow>
     (case le_folder_id e of None \<Rightarrow> True | Some i \<Rightarrow> i \<in> lf_id ` set (live_folders (le_user_id e) db))"

definition library_ok :: "library_db \<Rightarrow> bool" where
  "library_ok db \<longleftrightarrow>
     unique_column lf_id (lb_folders db) \<and> unique_column folder_uuid (lb_folders db) \<and>
     unique_column le_id (lb_entries db) \<and> unique_column entry_uuid (lb_entries db) \<and>
     unique_column entry_key (lb_entries db) \<and>
     (\<forall>user. two_level (live_folders user db)) \<and> (\<forall>e \<in> set (lb_entries db). entry_filed db e)"

lemma library_okD:
  assumes "library_ok db"
  shows "unique_column lf_id (lb_folders db)" "unique_column folder_uuid (lb_folders db)"
    "unique_column le_id (lb_entries db)" "unique_column entry_uuid (lb_entries db)"
    "unique_column entry_key (lb_entries db)" "two_level (live_folders user db)"
    "e \<in> set (lb_entries db) \<Longrightarrow> entry_filed db e"
  using assms by (simp_all add: library_ok_def)

lemma live_folders_iff:
  "f \<in> set (live_folders user db) \<longleftrightarrow>
     f \<in> set (lb_folders db) \<and> lf_user_id f = user \<and> lf_deleted_at f = None"
  by (auto simp: live_folders_def)

lemma repository_folders_set: "set (repository_folders collate user db) = set (live_folders user db)"
  by (simp add: repository_folders_def)

lemma unique_sort: "unique_column key (sort_key f xs) = unique_column key xs"
  by (simp add: unique_column_def distinct_map)

lemma repository_two_level: "two_level (repository_folders collate user db) = two_level (live_folders user db)"
  by (simp add: two_level_def repository_folders_set) (simp add: repository_folders_def unique_sort)

lemma children_set:
  "set (folder_children (repository_folders collate user db) p) = set (folder_children (live_folders user db) p)"
  by (auto simp: folder_children_def repository_folders_set)

lemma children_iff:
  "c \<in> set (folder_children fs p) \<longleftrightarrow> (\<exists>f \<in> set fs. lf_id f = c \<and> parent_folder_id f = Some p)"
  by (auto simp: folder_children_def)

text \<open>A folder found by its uuid is a live one of the user.\<close>

lemma folder_by_uuid_found:
  "folder_by_uuid user uuid db = Inr (Some f) \<Longrightarrow> f \<in> set (live_folders user db) \<and> folder_uuid f = uuid"
  by (auto simp: folder_by_uuid_def one_or_none_Some filter_eq_Cons_iff live_folders_iff)

lemma optional_folder_found:
  assumes "optional_folder user uuid db = Inr parent"
  shows "(case parent of None \<Rightarrow> uuid = None | Some f \<Rightarrow> f \<in> set (live_folders user db))"
  using assms
  by (auto simp: optional_folder_def split: option.splits sum.splits dest: folder_by_uuid_found)

section \<open>Changing one folder\<close>

lemma live_put:
  assumes u: "unique_column lf_id (lb_folders db)" and f: "f \<in> set (live_folders user db)"
    and f': "lf_id f' = lf_id f" "lf_user_id f' = user" "lf_deleted_at f' = None"
  shows "live_folders v (put_folder f' db) =
    map (\<lambda>x. if lf_id x = lf_id f' then f' else x) (live_folders v db)"
proof -
  have "(lf_user_id (if lf_id x = lf_id f' then f' else x) = v \<and>
      lf_deleted_at (if lf_id x = lf_id f' then f' else x) = None) = (lf_user_id x = v \<and> lf_deleted_at x = None)"
    if "x \<in> set (lb_folders db)" for x
  proof (cases "lf_id x = lf_id f'")
    case True
    then have "x = f" using folder_id_unique [OF u that] f f'(1) by (simp add: live_folders_iff)
    then show ?thesis using f f' by (simp add: live_folders_iff)
  qed simp
  then show ?thesis
    by (simp add: live_folders_def put_folder_def filter_map o_def cong: filter_cong)
qed

lemma two_level_put:
  assumes tl: "two_level fs" and f: "f \<in> set fs" and id: "lf_id f' = lf_id f"
    and parent: "parent_folder_id f' = parent_folder_id f \<or> parent_folder_id f' = None \<or>
      (folder_children fs (lf_id f) = [] \<and>
       (\<exists>g \<in> set fs. parent_folder_id f' = Some (lf_id g) \<and> parent_folder_id g = None \<and> lf_id g \<noteq> lf_id f))"
  shows "two_level (map (\<lambda>x. if lf_id x = lf_id f' then f' else x) fs)"
proof -
  let ?fs = "map (\<lambda>x. if lf_id x = lf_id f' then f' else x) fs"
  have u: "unique_column lf_id fs" using tl by (simp add: two_level_def)
  have set_eq: "set ?fs = insert f' {x \<in> set fs. lf_id x \<noteq> lf_id f}"
    using set_write [OF u f id] by simp
  have no_children: "folder_children fs (lf_id f) = []" if pf: "parent_folder_id f \<noteq> None"
  proof -
    obtain p where "parent_folder_id f = Some p" using pf by blast
    then have "lf_id f \<in> set (folder_children fs p)" using f by (auto simp: children_iff)
    then show ?thesis by (rule two_level_children [OF tl])
  qed
  have root: "parent_folder_id f' = None" if "h \<in> set fs" "parent_folder_id h = Some (lf_id f)" for h
  proof -
    have "lf_id h \<in> set (folder_children fs (lf_id f))" using that by (auto simp: children_iff)
    then have "folder_children fs (lf_id f) \<noteq> []" by auto
    then have "parent_folder_id f = None" using no_children by blast
    with parent \<open>folder_children fs (lf_id f) \<noteq> []\<close> show ?thesis by auto
  qed
  have "\<exists>g \<in> set ?fs. lf_id g = p \<and> parent_folder_id g = None"
    if h: "h \<in> set ?fs" "parent_folder_id h = Some p" for h p
  proof (cases "h = f'")
    case True
    have "\<exists>g \<in> set fs. lf_id g = p \<and> parent_folder_id g = None \<and> lf_id g \<noteq> lf_id f"
    proof (cases "parent_folder_id f' = parent_folder_id f")
      case same: True
      then have pf: "parent_folder_id f = Some p" using True h(2) by simp
      obtain g where g: "g \<in> set fs" "lf_id g = p" "parent_folder_id g = None"
        using two_level_parent [OF tl f pf] .
      moreover have "lf_id g \<noteq> lf_id f" using folder_id_unique [OF u g(1) f] g(3) pf by auto
      ultimately show ?thesis by blast
    next
      case False
      then show ?thesis using parent True h(2) by auto
    qed
    then obtain g where "g \<in> set fs" "lf_id g = p" "parent_folder_id g = None" "lf_id g \<noteq> lf_id f" by blast
    then show ?thesis unfolding set_eq by blast
  next
    case False
    then have hf: "h \<in> set fs" "lf_id h \<noteq> lf_id f" using h(1) unfolding set_eq by auto
    obtain g where g: "g \<in> set fs" "lf_id g = p" "parent_folder_id g = None"
      using two_level_parent [OF tl hf(1) h(2)] .
    show ?thesis
    proof (cases "lf_id g = lf_id f")
      case True
      then have "parent_folder_id h = Some (lf_id f)" using h(2) g(2) by simp
      with root [OF hf(1)] id g(2) True show ?thesis unfolding set_eq by auto
    next
      case False
      with g show ?thesis unfolding set_eq by blast
    qed
  qed
  moreover have "unique_column lf_id ?fs" using u by (simp only: unique_write)
  ultimately show ?thesis by (simp add: two_level_def)
qed

lemma renamed_fields [simp]:
  "lf_id (renamed_folder r f) = lf_id f" "folder_uuid (renamed_folder r f) = folder_uuid f"
  "lf_user_id (renamed_folder r f) = lf_user_id f" "parent_folder_id (renamed_folder r f) = parent_folder_id f"
  "lf_deleted_at (renamed_folder r f) = lf_deleted_at f"
  by (simp_all add: renamed_folder_def Let_def split: option.split)

text \<open>The new parent a move may give: none, or a top folder other than the folder, which then has no
  children.\<close>

lemma moved_folder_parent:
  assumes ok: "library_ok db" and f: "f \<in> set (live_folders user db)"
    and run: "moved_folder collate user request f db = Inr f1"
  shows "(\<exists>p. f1 = (renamed_folder request f)\<lparr>parent_folder_id := p\<rparr>) \<and>
    (parent_folder_id f1 = parent_folder_id f \<or> parent_folder_id f1 = None \<or>
      (folder_children (live_folders user db) (lf_id f) = [] \<and>
       (\<exists>g \<in> set (live_folders user db). parent_folder_id f1 = Some (lf_id g) \<and> parent_folder_id g = None \<and>
          lf_id g \<noteq> lf_id f)))"
proof (cases "uf_parent_set request")
  case False
  then have f1: "f1 = renamed_folder request f" using run by (simp add: moved_folder_def Let_def)
  then have "f1 = (renamed_folder request f)\<lparr>parent_folder_id := parent_folder_id f1\<rparr>" by simp
  with f1 show ?thesis by (metis renamed_fields(4))
next
  case True
  let ?r = "repository_folders collate user db" and ?f = "renamed_folder request f"
  have tl: "two_level ?r" using library_okD(6) [OF ok] by (simp add: repository_two_level)
  obtain parent where parent: "optional_folder user (uf_parent request) (put_folder ?f db) = Inr parent"
    using run True by (auto simp: moved_folder_def Let_def split: if_splits sum.splits)
  have res: "f1 = ?f\<lparr>parent_folder_id := map_option lf_id parent\<rparr>"
    and other: "map_option lf_id parent \<noteq> Some (lf_id f)"
    and level: "folder_level ?r (map_option lf_id parent) +
        (if folder_children ?r (lf_id f) = [] then 1 else 2) \<le> 2"
    using run True parent
    by (auto simp: moved_folder_def Let_def two_level_walks [OF tl] returned_def MAX_FOLDER_LEVEL_def
        split: if_splits)
  show ?thesis
  proof (cases parent)
    case None
    with res show ?thesis by auto
  next
    case (Some g)
    have "g \<in> set (live_folders user (put_folder ?f db))"
      using optional_folder_found [OF parent] Some by simp
    moreover have "live_folders user (put_folder ?f db) =
        map (\<lambda>x. if lf_id x = lf_id ?f then ?f else x) (live_folders user db)"
      using f by (intro live_put [OF library_okD(1) [OF ok] f]) (simp_all add: live_folders_iff)
    ultimately have "g \<in> set (map (\<lambda>x. if lf_id x = lf_id ?f then ?f else x) (live_folders user db))"
      by metis
    then have g: "g \<in> set (live_folders user db)" "lf_id g \<noteq> lf_id f" using other Some by auto
    then have "folder_level ?r (Some (lf_id g)) = (if parent_folder_id g = None then 1 else 2)"
      using two_level_level [OF tl, of g] by (simp add: repository_folders_set)
    with level Some have "parent_folder_id g = None" "folder_children ?r (lf_id f) = []"
      by (auto split: if_splits)
    moreover from this(2) have "folder_children (live_folders user db) (lf_id f) = []"
      using children_set [of collate user db "lf_id f"] by simp
    ultimately show ?thesis using res Some g by auto
  qed
qed

end
