(* ===== verification/Library_Invariant.thy ===== *)
theory Library_Invariant
  imports Library
begin

text \<open>
  What the operations of \<^theory_text>\<open>Library\<close> keep: the folders of every user form two levels, a live entry is
  filed in a live folder of its user or in none, and ids, uuids and the user, score and source of an entry
  are unique. Every operation is a step of \<open>library_step\<close>, with fresh ids and uuids; the scores, which other
  modules write, may change in any way between two steps.
\<close>

section \<open>Entries\<close>

lemma unique_columnD: "unique_column key rs \<Longrightarrow> x \<in> set rs \<Longrightarrow> y \<in> set rs \<Longrightarrow> key x = key y \<Longrightarrow> x = y"
  by (auto simp: unique_column_def distinct_map dest: inj_onD)

lemma live_folders_entries [simp]:
  "live_folders user (db\<lparr>lb_entries := es\<rparr>) = live_folders user db"
  "live_folders user (put_entry e db) = live_folders user db"
  by (simp_all add: live_folders_def put_entry_def)

lemma entry_filed_entries [simp]:
  "entry_filed (db\<lparr>lb_entries := es\<rparr>) e = entry_filed db e"
  "entry_filed (put_entry e' db) e = entry_filed db e"
  by (simp_all add: entry_filed_def split: option.split)

text \<open>What an update of an entry leaves alone.\<close>

definition same_entry :: "ScoreLibraryEntry \<Rightarrow> ScoreLibraryEntry \<Rightarrow> bool" where
  "same_entry e e' \<longleftrightarrow> le_id e' = le_id e \<and> entry_uuid e' = entry_uuid e \<and> entry_key e' = entry_key e"

lemma entries_kept:
  assumes ok: "library_ok db"
    and same: "\<And>e. e \<in> set (lb_entries db) \<Longrightarrow> same_entry e (g e) \<and> entry_filed db (g e)"
  shows "library_ok (db\<lparr>lb_entries := map g (lb_entries db)\<rparr>)"
proof -
  have "unique_column le_id (map g (lb_entries db))" "unique_column entry_uuid (map g (lb_entries db))"
    "unique_column entry_key (map g (lb_entries db))"
    using same library_okD(3-5) [OF ok] by (simp_all add: unique_column_def same_entry_def cong: map_cong)
  moreover have "\<forall>e \<in> set (map g (lb_entries db)). entry_filed db e" using same by auto
  ultimately show ?thesis using ok by (simp add: library_ok_def)
qed

lemma put_entry_ok:
  assumes ok: "library_ok db" and e: "e \<in> set (lb_entries db)"
    and same: "same_entry e e'" and filed: "entry_filed db e'"
  shows "library_ok (put_entry e' db)"
  unfolding put_entry_def
proof (rule entries_kept [OF ok])
  fix x assume x: "x \<in> set (lb_entries db)"
  have "x = e" if "le_id x = le_id e'"
    using unique_columnD [OF library_okD(3) [OF ok] x e] that same by (simp add: same_entry_def)
  then show "same_entry x (if le_id x = le_id e' then e' else x) \<and>
      entry_filed db (if le_id x = le_id e' then e' else x)"
    using same filed library_okD(7) [OF ok x] by (auto simp: same_entry_def)
qed

lemma entry_by_uuid_found:
  "entry_by_uuid user u db = Inr (Some e) \<Longrightarrow>
   e \<in> set (lb_entries db) \<and> le_user_id e = user \<and> entry_uuid e = u \<and> le_deleted_at e = None"
  by (auto simp: entry_by_uuid_def one_or_none_Some filter_eq_Cons_iff)

lemma entry_including_deleted_found:
  "entry_including_deleted user score source db = Inr (Some e) \<Longrightarrow>
   e \<in> set (lb_entries db) \<and> entry_key e = (user, score, source)"
  by (auto simp: entry_including_deleted_def one_or_none_Some filter_eq_Cons_iff entry_key_def)

lemma for_entries_ok:
  assumes "library_ok db"
    and same: "\<And>n e. same_entry e (f n e)"
    and filed: "\<And>n e. le_user_id e = user \<Longrightarrow> entry_filed db e \<Longrightarrow> entry_filed db (f n e)"
  shows "library_ok (snd (for_entries f n user us done_count db))"
  using assms(1) filed
proof (induction us arbitrary: n done_count db)
  case Nil
  then show ?case by simp
next
  case (Cons u us)
  show ?case
  proof (cases "entry_by_uuid user u db")
    case (Inl e)
    with Cons.prems(1) show ?thesis by simp
  next
    case (Inr found)
    show ?thesis
    proof (cases found)
      case None
      with Inr Cons.IH [OF Cons.prems] show ?thesis by simp
    next
      case (Some e)
      with Inr have e: "e \<in> set (lb_entries db)" "le_user_id e = user" using entry_by_uuid_found by auto
      have "library_ok (put_entry (f n e) db)"
        by (rule put_entry_ok [OF Cons.prems(1) e(1) same])
          (rule Cons.prems(2) [OF e(2) library_okD(7) [OF Cons.prems(1) e(1)]])
      then have "library_ok (snd (for_entries f (Suc n) user us (done_count + 1) (put_entry (f n e) db)))"
        by (rule Cons.IH) (simp add: Cons.prems(2))
      with Inr Some show ?thesis by simp
    qed
  qed
qed

lemma rolled_back_ok: "library_ok db \<Longrightarrow> library_ok (snd r) \<Longrightarrow> library_ok (snd (rolled_back db r))"
  by (cases r) (auto simp: rolled_back_def split: sum.split)

text \<open>The loops over entry ids.\<close>

lemma batch_update_ok: "library_ok db \<Longrightarrow> library_ok (snd (batch_update_entries now user ids favorite trash practice db))"
  unfolding batch_update_entries_def Let_def
  by (intro rolled_back_ok for_entries_ok)
    (auto simp: same_entry_def entry_key_def entry_filed_def split: option.splits)

lemma batch_move_ok:
  assumes ok: "library_ok db"
  shows "library_ok (snd (batch_move clk user ids target db))"
proof (cases "optional_folder user target db")
  case (Inl e)
  with ok show ?thesis by (simp add: batch_move_def)
next
  case (Inr folder)
  have target: "i \<in> lf_id ` set (live_folders user db)" if "map_option lf_id folder = Some i" for i
    using optional_folder_found [OF Inr] that by (cases folder) auto
  have "library_ok (snd (for_entries
      (\<lambda>n e. e\<lparr>le_folder_id := map_option lf_id folder, le_updated_at := clk n\<rparr>) 0 user ids 0 db))"
    by (intro for_entries_ok [OF ok])
      (auto simp: same_entry_def entry_key_def entry_filed_def target split: option.split)
  with ok Inr show ?thesis by (simp add: batch_move_def rolled_back_ok)
qed

lemma entry_filed_same:
  "entry_filed db e \<Longrightarrow> le_user_id e' = le_user_id e \<and> le_deleted_at e' = le_deleted_at e \<and>
   le_folder_id e' = le_folder_id e \<Longrightarrow> entry_filed db e'"
  by (auto simp: entry_filed_def split: option.splits)

lemma update_entry_ok:
  assumes ok: "library_ok db"
  shows "library_ok (snd (update_entry now user uuid practice favorite db))"
proof (cases "entry_by_uuid user uuid db")
  case (Inl e)
  with ok show ?thesis by (simp add: update_entry_def)
next
  case (Inr found)
  show ?thesis
  proof (cases found)
    case None
    with ok Inr show ?thesis by (simp add: update_entry_def)
  next
    case (Some e)
    with Inr have e: "e \<in> set (lb_entries db)" using entry_by_uuid_found by blast
    let ?e1 = "case practice of None \<Rightarrow> e | Some p \<Rightarrow> e\<lparr>practice_state := p\<rparr>"
    let ?e3 = "(case favorite of None \<Rightarrow> ?e1 | Some b \<Rightarrow> ?e1\<lparr>is_favorite := b\<rparr>)\<lparr>le_updated_at := now\<rparr>"
    have e3: "same_entry e ?e3 \<and> le_user_id ?e3 = le_user_id e \<and> le_deleted_at ?e3 = le_deleted_at e \<and>
        le_folder_id ?e3 = le_folder_id e"
      by (cases practice; cases favorite) (simp_all add: same_entry_def entry_key_def)
    have "library_ok (put_entry ?e3 db)"
      by (rule put_entry_ok [OF ok e e3 [THEN conjunct1]
          entry_filed_same [OF library_okD(7) [OF ok e] e3 [THEN conjunct2]]])
    with Inr Some show ?thesis
      by (simp add: update_entry_def Let_def split: option.split)
  qed
qed

lemma mark_practiced_ok: "library_ok db \<Longrightarrow> library_ok (mark_practiced now user score db)"
  unfolding mark_practiced_def
  by (rule entries_kept, assumption)
    (auto simp: same_entry_def entry_key_def entry_filed_def dest: library_okD(7) split: option.splits)

section \<open>New entries\<close>

definition fresh_entry :: "int \<times> string \<Rightarrow> library_db \<Rightarrow> bool" where
  "fresh_entry new db \<longleftrightarrow> fst new \<notin> le_id ` set (lb_entries db) \<and> snd new \<notin> entry_uuid ` set (lb_entries db)"

lemma entry_added_ok:
  assumes ok: "library_ok db" and fresh: "fresh_entry (le_id e, entry_uuid e) db"
    and key: "entry_key e \<notin> entry_key ` set (lb_entries db)" and filed: "le_folder_id e = None"
  shows "library_ok (db\<lparr>lb_entries := lb_entries db @ [e]\<rparr>)"
proof -
  have "entry_filed db e" using filed by (simp add: entry_filed_def)
  then have "\<forall>x \<in> set (lb_entries db @ [e]). entry_filed db x" using library_okD(7) [OF ok] by auto
  then show ?thesis using ok fresh key by (simp add: library_ok_def unique_column_def fresh_entry_def)
qed

lemma revived_same: "same_entry e (revived_entry now favorite e)"
  by (simp add: same_entry_def entry_key_def revived_entry_def Let_def)

lemma revived_filed: "entry_filed db e \<Longrightarrow> entry_filed db (revived_entry now favorite e)"
  by (auto simp: entry_filed_def revived_entry_def Let_def split: option.splits)

lemma ensure_entry_ok:
  assumes ok: "library_ok db" and fresh: "fresh_entry new db"
  shows "library_ok (snd (ensure_entry new now user score source favorite db))"
proof (cases "entry_including_deleted user score source db")
  case (Inl e)
  with ok show ?thesis by (simp add: ensure_entry_def)
next
  case (Inr found)
  show ?thesis
  proof (cases found)
    case None
    with Inr have "(user, score, source) \<notin> entry_key ` set (lb_entries db)"
      by (auto simp: entry_including_deleted_def one_or_none_Some entry_key_def filter_empty_conv one_or_none_None)
    with Inr None fresh show ?thesis
      by (simp add: ensure_entry_def Let_def entry_added_ok [OF ok] entry_key_def)
  next
    case (Some e)
    with Inr have e: "e \<in> set (lb_entries db)" using entry_including_deleted_found by blast
    show ?thesis
      using put_entry_ok [OF ok e revived_same revived_filed [OF library_okD(7) [OF ok e]]] Inr Some
      by (simp add: ensure_entry_def Let_def)
  qed
qed

lemma ensure_entry_entries:
  "le_id ` set (lb_entries (snd (ensure_entry new now user score source favorite db)))
     \<subseteq> insert (fst new) (le_id ` set (lb_entries db))"
  "library_ok db \<Longrightarrow> entry_uuid ` set (lb_entries (snd (ensure_entry new now user score source favorite db)))
     \<subseteq> insert (snd new) (entry_uuid ` set (lb_entries db))"
  by (auto simp: ensure_entry_def Let_def put_entry_def revived_entry_def split: sum.split option.split
      dest: entry_including_deleted_found)

definition fresh_entries :: "(nat \<Rightarrow> int \<times> string) \<Rightarrow> nat \<Rightarrow> library_db \<Rightarrow> bool" where
  "fresh_entries new n db \<longleftrightarrow>
     inj (\<lambda>m. fst (new m)) \<and> inj (\<lambda>m. snd (new m)) \<and> (\<forall>m \<ge> n. fresh_entry (new m) db)"

lemma fresh_entries_Suc: "fresh_entries new n db \<Longrightarrow> fresh_entries new (Suc n) db"
  by (simp add: fresh_entries_def)

lemma fresh_entries_step:
  assumes "library_ok db" and fresh: "fresh_entries new n db"
  shows "fresh_entries new (Suc n) (snd (ensure_entry (new n) now user score source favorite db))"
proof -
  have "fst (new m) \<noteq> fst (new n)" "snd (new m) \<noteq> snd (new n)" if "Suc n \<le> m" for m
    using fresh that by (auto simp: fresh_entries_def dest: injD)
  then show ?thesis
    using assms ensure_entry_entries(1) [of "new n" now user score source favorite db]
      ensure_entry_entries(2) [OF assms(1), of "new n" now user score source favorite]
    unfolding fresh_entries_def fresh_entry_def by (meson Suc_leD insertE subsetD)
qed

lemma add_owned_scores_ok:
  "library_ok db \<Longrightarrow> fresh_entries new n db \<Longrightarrow> library_ok (snd (add_owned_scores new clk n user us changed db))"
proof (induction us arbitrary: n changed db)
  case Nil
  then show ?case by simp
next
  case (Cons u us)
  note skip = Cons.IH [OF Cons.prems(1) fresh_entries_Suc [OF Cons.prems(2)]]
  show ?case
  proof (cases "active_score u db")
    case (Inl e)
    with Cons.prems show ?thesis by simp
  next
    case (Inr found)
    show ?thesis
    proof (cases found)
      case None
      with Inr skip show ?thesis by simp
    next
      case (Some score)
      let ?r = "ensure_entry (new n) (clk n) user (sc_id score) SELF_ADDED False db"
      have ok: "library_ok (snd ?r)"
        using Cons.prems by (intro ensure_entry_ok) (simp_all add: fresh_entries_def)
      note step = Cons.IH [OF ok fresh_entries_step [OF Cons.prems]]
      show ?thesis
        using Inr Some skip step ok Cons.prems(1)
        by (cases ?r) (auto split: sum.split)
    qed
  qed
qed

lemma batch_add_owned_scores_ok:
  "library_ok db \<Longrightarrow> fresh_entries new 0 db \<Longrightarrow> library_ok (snd (batch_add_owned_scores new clk user ids db))"
  by (simp add: batch_add_owned_scores_def rolled_back_ok add_owned_scores_ok)

section \<open>Folders\<close>

lemma two_level_add:
  assumes "two_level fs" and "lf_id f \<notin> lf_id ` set fs"
    and "parent_folder_id f = None \<or> (\<exists>g \<in> set fs. parent_folder_id f = Some (lf_id g) \<and> parent_folder_id g = None)"
  shows "two_level (fs @ [f])"
  using assms by (fastforce simp: two_level_def unique_column_def)

lemma live_folders_add:
  "live_folders v (db\<lparr>lb_folders := lb_folders db @ [f]\<rparr>) =
     live_folders v db @ (if lf_user_id f = v \<and> lf_deleted_at f = None then [f] else [])"
  by (simp add: live_folders_def)

lemma entry_filed_mono:
  assumes "entry_filed db e" and "set (map lf_id (live_folders (le_user_id e) db)) \<subseteq>
    set (map lf_id (live_folders (le_user_id e) db'))"
  shows "entry_filed db' e"
  using assms by (auto simp: entry_filed_def split: option.splits)

lemma folder_added_ok:
  assumes ok: "library_ok db" and fresh: "lf_id f \<notin> lf_id ` set (lb_folders db)"
      "folder_uuid f \<notin> folder_uuid ` set (lb_folders db)"
    and parent: "parent_folder_id f = None \<or> (\<exists>g \<in> set (live_folders (lf_user_id f) db).
      parent_folder_id f = Some (lf_id g) \<and> parent_folder_id g = None)"
  shows "library_ok (db\<lparr>lb_folders := lb_folders db @ [f]\<rparr>)"
proof -
  have "lf_id f \<notin> lf_id ` set (live_folders v db)" for v using fresh(1) by (auto simp: live_folders_iff)
  then have "two_level (live_folders v (db\<lparr>lb_folders := lb_folders db @ [f]\<rparr>))" for v
    using library_okD(6) [OF ok, of v] parent by (auto simp: live_folders_add intro!: two_level_add)
  moreover have "entry_filed (db\<lparr>lb_folders := lb_folders db @ [f]\<rparr>) e" if "e \<in> set (lb_entries db)" for e
    by (rule entry_filed_mono [OF library_okD(7) [OF ok that]]) (auto simp: live_folders_add)
  ultimately show ?thesis using ok fresh by (simp add: library_ok_def unique_column_def)
qed

lemma create_folder_ok:
  assumes ok: "library_ok db" and fresh: "new_id \<notin> lf_id ` set (lb_folders db)"
    "new_uuid \<notin> folder_uuid ` set (lb_folders db)"
  shows "library_ok (snd (create_folder collate new_id new_uuid now user name parent_uuid db))"
proof (cases "optional_folder user parent_uuid db")
  case (Inl e)
  with ok show ?thesis by (simp add: create_folder_def)
next
  case (Inr parent)
  let ?f = "\<lparr>lf_id = new_id, folder_uuid = new_uuid, lf_user_id = user,
      parent_folder_id = map_option lf_id parent, lf_name = name, lf_position = 0, lf_created_at = now,
      lf_updated_at = now, lf_deleted_at = None\<rparr>"
  have "library_ok (db\<lparr>lb_folders := lb_folders db @ [?f]\<rparr>)"
    if level: "\<not> folder_level (repository_folders collate user db) (map_option lf_id parent) + 1 > MAX_FOLDER_LEVEL"
  proof (rule folder_added_ok [OF ok])
    have tl: "two_level (repository_folders collate user db)"
      using library_okD(6) [OF ok] by (simp add: repository_two_level)
    show "parent_folder_id ?f = None \<or> (\<exists>g \<in> set (live_folders (lf_user_id ?f) db).
      parent_folder_id ?f = Some (lf_id g) \<and> parent_folder_id g = None)"
    proof (cases parent)
      case (Some g)
      then have g: "g \<in> set (live_folders user db)" using optional_folder_found [OF Inr] by simp
      then have "parent_folder_id g = None"
        using level Some two_level_level [OF tl, of g]
        by (auto simp: repository_folders_set MAX_FOLDER_LEVEL_def split: if_splits)
      with g Some show ?thesis by auto
    qed simp
  qed (use fresh in simp_all)
  with Inr ok show ?thesis by (simp add: create_folder_def Let_def)
qed

lemma put_folder_ok:
  assumes ok: "library_ok db" and f: "f \<in> set (live_folders user db)"
    and f': "lf_id f' = lf_id f" "folder_uuid f' = folder_uuid f" "lf_user_id f' = user" "lf_deleted_at f' = None"
    and parent: "parent_folder_id f' = parent_folder_id f \<or> parent_folder_id f' = None \<or>
      (folder_children (live_folders user db) (lf_id f) = [] \<and>
       (\<exists>g \<in> set (live_folders user db). parent_folder_id f' = Some (lf_id g) \<and> parent_folder_id g = None \<and>
          lf_id g \<noteq> lf_id f))"
  shows "library_ok (put_folder f' db)"
proof -
  note live = live_put [OF library_okD(1) [OF ok] f f'(1,3,4)]
  have fin: "f \<in> set (lb_folders db)" using f by (simp add: live_folders_iff)
  have uuids: "map folder_uuid (map (\<lambda>x. if lf_id x = lf_id f' then f' else x) (lb_folders db)) =
      map folder_uuid (lb_folders db)"
    using unique_columnD [OF library_okD(1) [OF ok] _ fin] f'(1,2) by auto
  have ids: "map lf_id (map (\<lambda>x. if lf_id x = lf_id f' then f' else x) fs) = map lf_id fs" for fs by simp
  have tl: "two_level (live_folders v (put_folder f' db))" for v
  proof (cases "v = user")
    case True
    then show ?thesis using two_level_put [OF library_okD(6) [OF ok] f f'(1) parent] by (simp add: live)
  next
    case False
    have "live_folders v (put_folder f' db) = live_folders v db"
      unfolding live
    proof (rule map_idI)
      fix x assume x: "x \<in> set (live_folders v db)"
      have "x = f" if "lf_id x = lf_id f'"
        using unique_columnD [OF library_okD(1) [OF ok] _ fin, of x] x that f'(1) by (simp add: live_folders_iff)
      with x f False show "(if lf_id x = lf_id f' then f' else x) = x" by (auto simp: live_folders_iff)
    qed
    then show ?thesis using library_okD(6) [OF ok] by simp
  qed
  have "entry_filed (put_folder f' db) e" if "e \<in> set (lb_entries db)" for e
    by (rule entry_filed_mono [OF library_okD(7) [OF ok that]]) (simp only: live ids subset_refl)
  moreover have "unique_column lf_id (lb_folders (put_folder f' db))"
    "unique_column folder_uuid (lb_folders (put_folder f' db))"
    using library_okD(1,2) [OF ok] ids uuids
    by (simp_all add: unique_column_def put_folder_def del: map_map)
  moreover have "lb_entries (put_folder f' db) = lb_entries db" by (simp add: put_folder_def)
  ultimately show ?thesis using tl library_okD(3-5) [OF ok] by (simp add: library_ok_def)
qed

lemma update_folder_ok:
  assumes ok: "library_ok db"
  shows "library_ok (snd (update_folder collate now user uuid request db))"
proof (cases "folder_by_uuid user uuid db")
  case (Inl e)
  with ok show ?thesis by (simp add: update_folder_def)
next
  case (Inr found)
  show ?thesis
  proof (cases found)
    case None
    with Inr ok show ?thesis by (simp add: update_folder_def)
  next
    case (Some f)
    then have f: "f \<in> set (live_folders user db)" using folder_by_uuid_found Inr by blast
    show ?thesis
    proof (cases "moved_folder collate user request f db")
      case Inl
      with Inr Some ok show ?thesis by (simp add: update_folder_def)
    next
      case (Inr f1)
      note m = moved_folder_parent [OF ok f Inr]
      then obtain p where f1: "f1 = (renamed_folder request f)\<lparr>parent_folder_id := p\<rparr>" by blast
      have "library_ok (put_folder (f1\<lparr>lf_updated_at := now\<rparr>) db)"
        using m f f1 by (intro put_folder_ok [OF ok f]) (simp_all add: live_folders_iff)
      with Inr \<open>folder_by_uuid user uuid db = Inr found\<close> Some ok show ?thesis
        by (simp add: update_folder_def Let_def)
    qed
  qed
qed

section \<open>Removing a folder\<close>

definition removed_folders :: "int \<Rightarrow> ScoreLibraryFolder \<Rightarrow> library_db \<Rightarrow> int set" where
  "removed_folders user folder db =
     insert (lf_id folder) (set (folder_children (live_folders user db) (lf_id folder)))"

text \<open>What becomes of an entry.\<close>

definition cleared_entry ::
  "timestamp \<Rightarrow> int \<Rightarrow> int set \<Rightarrow> int option \<Rightarrow> FolderDeleteMode \<Rightarrow> ScoreLibraryEntry \<Rightarrow> ScoreLibraryEntry" where
  "cleared_entry now user ids target mode e =
     (if le_user_id e = user \<and> le_deleted_at e = None \<and> le_folder_id e \<in> Some ` ids
      then (if mode = TRASH_CONTENTS then e\<lparr>le_deleted_at := Some now, le_updated_at := now\<rparr>
            else e\<lparr>le_folder_id := target, le_updated_at := now\<rparr>)
      else e)"

definition move_target :: "FolderDeleteMode \<Rightarrow> ScoreLibraryFolder \<Rightarrow> int option" where
  "move_target mode folder = (if mode = MOVE_CONTENTS_TO_PARENT then parent_folder_id folder else None)"

lemma in_folder_ids:
  "e \<in> set (lb_entries db) \<Longrightarrow> (e \<in> set (entries_in_folder_ids user ids db)) \<longleftrightarrow>
     le_user_id e = user \<and> le_deleted_at e = None \<and> le_folder_id e \<in> Some ` ids"
  by (cases "le_folder_id e") (auto simp: entries_in_folder_ids_def)

definition folders_removed :: "timestamp \<Rightarrow> int \<Rightarrow> int set \<Rightarrow> library_db \<Rightarrow> library_db" where
  "folders_removed now user ids db = db\<lparr>lb_folders := map (\<lambda>f. if f \<in> set (live_folders user db) \<and> lf_id f \<in> ids
       then f\<lparr>lf_deleted_at := Some now, lf_updated_at := now\<rparr> else f) (lb_folders db)\<rparr>"

lemma delete_folder_run:
  assumes ok: "library_ok db" and found: "folder_by_uuid user uuid db = Inr (Some folder)"
  shows "delete_folder collate now user uuid mode db =
    (Inr (), (folders_removed now user (removed_folders user folder db) db)\<lparr>
       lb_entries := map (cleared_entry now user (removed_folders user folder db) (move_target mode folder) mode)
         (lb_entries db)\<rparr>)"
proof -
  have tl: "two_level (repository_folders collate user db)"
    using library_okD(6) [OF ok] by (simp add: repository_two_level)
  have ids: "descendant_folder_ids (repository_folders collate user db) (lf_id folder) =
      Some (set (folder_children (live_folders user db) (lf_id folder)))"
    by (simp add: two_level_walks(1) [OF tl] children_set)
  show ?thesis
    by (simp add: delete_folder_def found ids returned_def Let_def repository_folders_set in_folder_ids
        removed_folders_def [symmetric] move_target_def [symmetric] cleared_entry_def folders_removed_def
        cong: map_cong)
qed

lemma removed_live:
  "live_folders v (folders_removed now user ids db) =
     filter (\<lambda>f. \<not> (v = user \<and> lf_id f \<in> ids)) (live_folders v db)"
proof -
  let ?c = "\<lambda>f. f \<in> set (live_folders user db) \<and> lf_id f \<in> ids"
  have "filter (\<lambda>f. lf_user_id f = v \<and> lf_deleted_at f = None)
      (map (\<lambda>f. if ?c f then f\<lparr>lf_deleted_at := Some now, lf_updated_at := now\<rparr> else f) fs) =
    filter (\<lambda>f. lf_user_id f = v \<and> lf_deleted_at f = None \<and> \<not> (v = user \<and> lf_id f \<in> ids)) fs"
    if "set fs \<subseteq> set (lb_folders db)" for fs
    using that by (induction fs) (auto simp: live_folders_iff)
  from this [of "lb_folders db"] show ?thesis by (simp add: live_folders_def folders_removed_def)
qed

lemma folders_removed_simps [simp]:
  "lb_entries (folders_removed now user ids db) = lb_entries db"
  "lb_scores (folders_removed now user ids db) = lb_scores db"
  "unique_column lf_id (lb_folders (folders_removed now user ids db)) = unique_column lf_id (lb_folders db)"
  "unique_column folder_uuid (lb_folders (folders_removed now user ids db)) =
     unique_column folder_uuid (lb_folders db)"
proof -
  have "map key (lb_folders (folders_removed now user ids db)) = map key (lb_folders db)"
    if "\<And>f. key (f\<lparr>lf_deleted_at := Some now, lf_updated_at := now\<rparr>) = key f"
    for key :: "ScoreLibraryFolder \<Rightarrow> 'k"
    using that by (simp add: folders_removed_def)
  note keys = this
  show "unique_column lf_id (lb_folders (folders_removed now user ids db)) = unique_column lf_id (lb_folders db)"
    unfolding unique_column_def by (subst keys) simp_all
  show "unique_column folder_uuid (lb_folders (folders_removed now user ids db)) =
      unique_column folder_uuid (lb_folders db)"
    unfolding unique_column_def by (subst keys) simp_all
qed (simp_all add: folders_removed_def)

lemma two_level_removed:
  assumes tl: "two_level fs" and folder: "folder \<in> set fs"
    and ids: "ids = insert (lf_id folder) (set (folder_children fs (lf_id folder)))"
  shows "two_level (filter (\<lambda>f. lf_id f \<notin> ids) fs)"
proof -
  have u: "unique_column lf_id fs" using tl by (simp add: two_level_def)
  have "\<exists>g \<in> set fs. lf_id g \<notin> ids \<and> lf_id g = p \<and> parent_folder_id g = None"
    if f: "f \<in> set fs" "lf_id f \<notin> ids" "parent_folder_id f = Some p" for f p
  proof -
    obtain g where g: "g \<in> set fs" "lf_id g = p" "parent_folder_id g = None"
      using two_level_parent [OF tl f(1,3)] .
    have "lf_id f \<in> set (folder_children fs p)" using f by (auto simp: children_iff)
    then have "p \<noteq> lf_id folder" using f(2) ids by auto
    moreover have "p \<notin> set (folder_children fs (lf_id folder))"
      using two_level_children [OF tl, of p] \<open>lf_id f \<in> set (folder_children fs p)\<close> by force
    ultimately show ?thesis using g ids by auto
  qed
  moreover have "unique_column lf_id (filter (\<lambda>f. lf_id f \<notin> ids) fs)"
    using u by (simp add: unique_column_def distinct_map inj_on_def)
  ultimately show ?thesis by (fastforce simp: two_level_def)
qed

lemma removed_target:
  assumes ok: "library_ok db" and folder: "folder \<in> set (live_folders user db)"
    and target: "move_target mode folder = Some p"
  shows "p \<in> lf_id ` set (live_folders user db)" and "p \<notin> removed_folders user folder db"
proof -
  let ?fs = "live_folders user db"
  have tl: "two_level ?fs" using library_okD(6) [OF ok] .
  have pf: "parent_folder_id folder = Some p" using target by (simp add: move_target_def split: if_splits)
  obtain g where g: "g \<in> set ?fs" "lf_id g = p" "parent_folder_id g = None"
    using two_level_parent [OF tl folder pf] .
  then show "p \<in> lf_id ` set ?fs" by blast
  have "lf_id folder \<in> set (folder_children ?fs p)" using folder pf by (auto simp: children_iff)
  moreover from two_level_children [OF tl this] have "folder_children ?fs (lf_id folder) = []" .
  ultimately show "p \<notin> removed_folders user folder db"
    by (auto simp: removed_folders_def)
qed

lemma cleared_fields [simp]:
  "le_user_id (cleared_entry now user ids target mode e) = le_user_id e"
  "le_score_id (cleared_entry now user ids target mode e) = le_score_id e"
  "le_id (cleared_entry now user ids target mode e) = le_id e"
  "entry_uuid (cleared_entry now user ids target mode e) = entry_uuid e"
  "entry_key (cleared_entry now user ids target mode e) = entry_key e"
  by (simp_all add: cleared_entry_def entry_key_def)

text \<open>Nothing is filed in what was removed.\<close>

lemma cleared_filed:
  assumes ok: "library_ok db" and folder: "folder \<in> set (live_folders user db)" and e: "e \<in> set (lb_entries db)"
    and ids: "ids = removed_folders user folder db"
  shows "entry_filed (folders_removed now user ids db)
    (cleared_entry now user ids (move_target mode folder) mode e)"
proof (cases "le_user_id e = user \<and> le_deleted_at e = None \<and> le_folder_id e \<in> Some ` ids")
  case True
  then show ?thesis
    using removed_target [OF ok folder, of mode]
    by (auto simp: entry_filed_def cleared_entry_def removed_live ids split: option.split)
next
  case False
  then have "cleared_entry now user ids (move_target mode folder) mode e = e"
    unfolding cleared_entry_def by (rule if_not_P)
  moreover have "entry_filed (folders_removed now user ids db) e"
    using False library_okD(7) [OF ok e] by (auto simp: entry_filed_def removed_live split: option.splits)
  ultimately show ?thesis by simp
qed

lemma delete_folder_ok:
  assumes ok: "library_ok db"
  shows "library_ok (snd (delete_folder collate now user uuid mode db))"
proof (cases "\<exists>folder. folder_by_uuid user uuid db = Inr (Some folder)")
  case False
  then show ?thesis using ok by (auto simp: delete_folder_def split: sum.split option.split)
next
  case True
  then obtain folder where by_uuid: "folder_by_uuid user uuid db = Inr (Some folder)" by blast
  then have folder: "folder \<in> set (live_folders user db)" using folder_by_uuid_found by blast
  let ?ids = "removed_folders user folder db"
  let ?db = "folders_removed now user ?ids db"
  have "two_level (live_folders v ?db)" for v
    using library_okD(6) [OF ok] two_level_removed [OF library_okD(6) [OF ok] folder removed_folders_def]
    by (cases "v = user") (simp_all add: removed_live)
  then have "library_ok (?db\<lparr>lb_entries := map (cleared_entry now user ?ids (move_target mode folder) mode)
      (lb_entries db)\<rparr>)"
    using library_okD(1-5) [OF ok] cleared_filed [OF ok folder _ refl, of _ now mode]
    by (simp add: library_ok_def unique_column_def [of entry_key] unique_column_def [of le_id]
        unique_column_def [of entry_uuid] o_def)
  then show ?thesis by (simp add: delete_folder_run [OF ok by_uuid])
qed

section \<open>Every library that can be reached\<close>

inductive library_step :: "(string \<Rightarrow> nat) \<Rightarrow> library_db \<Rightarrow> library_db \<Rightarrow> bool" for collate where
  folder_created: "new_id \<notin> lf_id ` set (lb_folders db) \<Longrightarrow> new_uuid \<notin> folder_uuid ` set (lb_folders db) \<Longrightarrow>
    library_step collate db (snd (create_folder collate new_id new_uuid now user name parent_uuid db))"
| folder_updated: "library_step collate db (snd (update_folder collate now user uuid request db))"
| folder_deleted: "library_step collate db (snd (delete_folder collate now user uuid mode db))"
| entry_ensured: "fresh_entry new db \<Longrightarrow>
    library_step collate db (snd (ensure_entry new now user score source favorite db))"
| owned_added: "fresh_entries new 0 db \<Longrightarrow>
    library_step collate db (snd (batch_add_owned_scores new clk user ids db))"
| entries_moved: "library_step collate db (snd (batch_move clk user ids target db))"
| entries_favorite: "library_step collate db (snd (batch_set_favorite now user ids db))"
| entries_trashed: "library_step collate db (snd (batch_trash now user ids db))"
| entries_practice: "library_step collate db (snd (batch_set_practice_state now user ids practice db))"
| entry_updated: "library_step collate db (snd (update_entry now user uuid practice_opt favorite_opt db))"
| practiced: "library_step collate db (mark_practiced now user score db)"
| scores_changed: "library_step collate db (db\<lparr>lb_scores := scores\<rparr>)"

inductive library_reachable :: "(string \<Rightarrow> nat) \<Rightarrow> library_db \<Rightarrow> bool" for collate where
  empty_library: "library_reachable collate \<lparr>lb_folders = [], lb_entries = [], lb_scores = scores\<rparr>"
| next_library: "library_reachable collate db \<Longrightarrow> library_step collate db db' \<Longrightarrow> library_reachable collate db'"

lemma scores_changed_ok: "library_ok (db\<lparr>lb_scores := scores\<rparr>) = library_ok db"
proof -
  have "live_folders user (db\<lparr>lb_scores := scores\<rparr>) = live_folders user db" for user
    by (simp add: live_folders_def)
  then have "entry_filed (db\<lparr>lb_scores := scores\<rparr>) e = entry_filed db e" for e
    by (simp add: entry_filed_def split: option.split)
  then show ?thesis by (simp add: library_ok_def \<open>\<And>user. live_folders user (db\<lparr>lb_scores := scores\<rparr>) = live_folders user db\<close>)
qed

lemma library_step_ok: "library_step collate db db' \<Longrightarrow> library_ok db \<Longrightarrow> library_ok db'"
  by (induction rule: library_step.induct)
    (simp_all add: create_folder_ok update_folder_ok delete_folder_ok ensure_entry_ok batch_add_owned_scores_ok
      batch_move_ok batch_set_favorite_def batch_trash_def batch_set_practice_state_def batch_update_ok
      update_entry_ok mark_practiced_ok scores_changed_ok)

lemma library_reachable_ok: "library_reachable collate db \<Longrightarrow> library_ok db"
proof (induction rule: library_reachable.induct)
  case (empty_library scores)
  show ?case by (simp add: library_ok_def unique_column_def two_level_def live_folders_def)
next
  case (next_library db db')
  then show ?case by (blast intro: library_step_ok)
qed

section \<open>Counting\<close>

lemma count_groups:
  assumes "finite K"
  shows "(\<Sum>k \<in> K. count_entries (\<lambda>e. P e \<and> g e = k) db) = count_entries (\<lambda>e. P e \<and> g e \<in> K) db"
proof -
  have "(\<Sum>k \<in> K. int (length (filter (\<lambda>e. P e \<and> g e = k) es))) = int (length (filter (\<lambda>e. P e \<and> g e \<in> K) es))"
    for es
  proof (induction es)
    case Nil
    then show ?case by simp
  next
    case (Cons e es)
    have "(\<Sum>k \<in> K. int (length (filter (\<lambda>e. P e \<and> g e = k) (e # es)))) =
        (\<Sum>k \<in> K. (if P e \<and> g e = k then 1 else 0) + int (length (filter (\<lambda>e. P e \<and> g e = k) es)))"
      by (rule sum.cong) simp_all
    also have "\<dots> = (\<Sum>k \<in> K. if P e \<and> g e = k then 1 else 0) + int (length (filter (\<lambda>e. P e \<and> g e \<in> K) es))"
      by (simp only: sum.distrib Cons.IH)
    also have "(\<Sum>k \<in> K. if P e \<and> g e = k then 1 else (0 :: int)) = (if P e \<and> g e \<in> K then 1 else 0)"
      using assms by (cases "P e") simp_all
    finally show ?case by simp
  qed
  then show ?thesis by (simp add: count_entries_def)
qed

lemma count_split:
  "count_entries P db = count_entries (\<lambda>e. P e \<and> Q e) db + count_entries (\<lambda>e. P e \<and> \<not> Q e) db"
proof -
  have "length (filter P es) = length (filter (\<lambda>e. P e \<and> Q e) es) + length (filter (\<lambda>e. P e \<and> \<not> Q e) es)" for es
    by (induction es) auto
  then show ?thesis by (simp add: count_entries_def)
qed

lemma count_cong: "(\<And>e. e \<in> set (lb_entries db) \<Longrightarrow> P e = Q e) \<Longrightarrow> count_entries P db = count_entries Q db"
  by (simp add: count_entries_def cong: filter_cong)

text \<open>In two levels, what the top folders hold with their children is what all folders hold.\<close>

lemma two_level_distinct: "two_level fs \<Longrightarrow> distinct fs \<and> inj_on lf_id (set fs)"
  by (simp add: two_level_def unique_column_def distinct_map)

lemma children_sum:
  fixes d :: "int \<Rightarrow> int"
  assumes "two_level fs"
  shows "sum_list (map d (folder_children fs p)) = (\<Sum>f | f \<in> set fs \<and> parent_folder_id f = Some p. d (lf_id f))"
proof -
  have "distinct (filter (\<lambda>f. parent_folder_id f = Some p) fs)" using two_level_distinct [OF assms] by simp
  then show ?thesis
    by (simp add: folder_children_def o_def sum_list_distinct_conv_sum_set)
qed

lemma two_level_sum:
  fixes d :: "int \<Rightarrow> int"
  assumes tl: "two_level fs"
  shows "sum_list (map (\<lambda>f. d (lf_id f) + sum_list (map d (folder_children fs (lf_id f))))
      (filter (\<lambda>f. parent_folder_id f = None) fs)) = (\<Sum>f \<in> set fs. d (lf_id f))"
proof -
  let ?top = "{f \<in> set fs. parent_folder_id f = None}" and ?sub = "{f \<in> set fs. parent_folder_id f \<noteq> None}"
  let ?d = "\<lambda>f. d (lf_id f)" and ?key = "\<lambda>f. Some (lf_id f)"
  have inj: "inj_on ?key ?top" using two_level_distinct [OF tl] by (auto simp: inj_on_def)
  have "parent_folder_id ` ?sub \<subseteq> ?key ` ?top"
  proof
    fix p assume "p \<in> parent_folder_id ` ?sub"
    then obtain f i where f: "f \<in> set fs" "p = Some i" "parent_folder_id f = Some i" by auto
    obtain g where "g \<in> set fs" "lf_id g = i" "parent_folder_id g = None" using two_level_parent [OF tl f(1,3)] .
    with f(2) show "p \<in> ?key ` ?top" by auto
  qed
  then have "(\<Sum>f \<in> ?sub. ?d f) = (\<Sum>p \<in> ?key ` ?top. \<Sum>f | f \<in> ?sub \<and> parent_folder_id f = p. ?d f)"
    by (intro sum.group [symmetric]) simp_all
  also have "\<dots> = (\<Sum>g \<in> ?top. \<Sum>f | f \<in> ?sub \<and> parent_folder_id f = Some (lf_id g). ?d f)"
    by (simp add: sum.reindex [OF inj])
  also have "\<dots> = (\<Sum>g \<in> ?top. sum_list (map d (folder_children fs (lf_id g))))"
    by (rule sum.cong [OF refl]) (auto simp: children_sum [OF tl] intro: sum.cong)
  finally have sub: "(\<Sum>f \<in> ?sub. ?d f) = (\<Sum>g \<in> ?top. sum_list (map d (folder_children fs (lf_id g))))" .
  have dis: "distinct (filter (\<lambda>f. parent_folder_id f = None) fs)" using two_level_distinct [OF tl] by simp
  have "set fs = ?top \<union> ?sub" by auto
  then have "(\<Sum>f \<in> set fs. ?d f) = (\<Sum>f \<in> ?top \<union> ?sub. ?d f)" by (rule arg_cong)
  also have "\<dots> = (\<Sum>f \<in> ?top. ?d f) + (\<Sum>f \<in> ?sub. ?d f)" by (rule sum.union_disjoint) auto
  finally show ?thesis
    by (simp only: sub sum.distrib [symmetric] sum_list_distinct_conv_sum_set [OF dis]) simp
qed

section \<open>The tree that is shown\<close>

definition shown_folder :: "ScoreLibraryFolder list \<Rightarrow> LibraryFolderCounts \<Rightarrow> ScoreLibraryFolder \<Rightarrow> LibraryFolderRead" where
  "shown_folder fs counts f = \<lparr>fr_folder_id = folder_uuid f,
     fr_parent_folder_id = folder_uuid_by_id fs (parent_folder_id f), fr_name = lf_name f,
     fr_position = lf_position f, fr_direct_count = direct_counts counts (lf_id f),
     fr_recursive_count = direct_counts counts (lf_id f) +
       sum_list (map (direct_counts counts) (folder_children fs (lf_id f))),
     fr_created_at = lf_created_at f, fr_updated_at = lf_updated_at f\<rparr>"

lemma folder_tree_run:
  assumes ok: "library_ok db"
  shows "folder_tree collate user db =
    (let fs = repository_folders collate user db; counts = repository_counts user db
     in Inr \<lparr>ft_all_count = all_count counts, ft_favorite_count = favorite_count counts,
          ft_recent_practice_count = recent_practice_count counts,
          ft_to_practice_count = to_practice_count counts, ft_mastered_count = mastered_count counts,
          ft_folders = map (shown_folder fs counts) fs\<rparr>)"
proof -
  let ?fs = "repository_folders collate user db" and ?c = "repository_counts user db"
  have tl: "two_level ?fs" using library_okD(6) [OF ok] by (simp add: repository_two_level)
  have "folder_read ?fs ?c f = Some (shown_folder ?fs ?c f)" for f
    by (simp add: folder_read_def two_level_walks(3) [OF tl] shown_folder_def)
  then have "those (map (folder_read ?fs ?c) ?fs) = Some (map (shown_folder ?fs ?c) ?fs)"
    by (simp add: those_Some)
  then show ?thesis by (simp add: folder_tree_def build_folder_tree_read_def returned_def Let_def)
qed

lemma folder_tree_shown:
  assumes "library_ok db"
  obtains tree where "folder_tree collate user db = Inr tree"
    "ft_all_count tree = count_entries (shown_entry user db) db"
    "ft_folders tree = map (shown_folder (repository_folders collate user db) (repository_counts user db))
       (repository_folders collate user db)"
  using folder_tree_run [OF assms, of collate user] by (simp add: Let_def repository_counts_def)

lemma shown_top:
  assumes "two_level fs" and "f \<in> set fs"
  shows "(fr_parent_folder_id (shown_folder fs counts f) = None) = (parent_folder_id f = None)"
proof (cases "parent_folder_id f")
  case None
  then show ?thesis by (simp add: shown_folder_def folder_uuid_by_id_def)
next
  case (Some p)
  obtain g where "g \<in> set fs" "lf_id g = p" using two_level_parent [OF assms Some] .
  then have "List.find (\<lambda>f. lf_id f = p) fs \<noteq> None" by (auto simp: find_None_iff)
  with Some show ?thesis by (simp add: shown_folder_def folder_uuid_by_id_def)
qed

text \<open>How many entries are shown after a folder was removed.\<close>

lemma count_removed:
  assumes "db' = (folders_removed now user ids db)\<lparr>
    lb_entries := map (cleared_entry now user ids target mode) (lb_entries db)\<rparr>"
  shows "count_entries (shown_entry user db') db' = count_entries (shown_entry user db) db -
    (if mode = TRASH_CONTENTS
     then count_entries (\<lambda>e. shown_entry user db e \<and> le_folder_id e \<in> Some ` ids) db else 0)"
proof -
  have "count_entries (shown_entry user db') db' =
      count_entries (\<lambda>e. shown_entry user db' (cleared_entry now user ids target mode e)) db"
    by (simp add: assms count_entries_def filter_map o_def)
  also have "\<dots> = count_entries (\<lambda>e. shown_entry user db e \<and>
      \<not> (mode = TRASH_CONTENTS \<and> le_folder_id e \<in> Some ` ids)) db"
    by (rule count_cong) (auto simp: shown_entry_def score_active_def assms cleared_entry_def)
  finally show ?thesis
    using count_split [of "shown_entry user db" db "\<lambda>e. mode = TRASH_CONTENTS \<and> le_folder_id e \<in> Some ` ids"]
    by (simp add: count_entries_def)
qed

text \<open>A folder's recursive count is the number of shown entries in it and its children.\<close>

lemma recursive_count_shown:
  assumes ok: "library_ok db" and folder: "folder \<in> set (live_folders user db)"
  shows "fr_recursive_count (shown_folder (repository_folders collate user db) (repository_counts user db) folder) =
    count_entries (\<lambda>e. shown_entry user db e \<and> le_folder_id e \<in> Some ` removed_folders user folder db) db"
proof -
  let ?fs = "repository_folders collate user db" and ?d = "direct_counts (repository_counts user db)"
  let ?children = "folder_children ?fs (lf_id folder)"
  have tl: "two_level ?fs" using library_okD(6) [OF ok] by (simp add: repository_two_level)
  have "distinct ?children"
    using two_level_distinct [OF tl] by (auto simp: folder_children_def distinct_map inj_on_def)
  moreover have "lf_id folder \<notin> set ?children"
    using two_level_children [OF tl, of "lf_id folder" "lf_id folder"] by auto
  ultimately have "?d (lf_id folder) + sum_list (map ?d ?children) = sum ?d (insert (lf_id folder) (set ?children))"
    by (simp add: sum_list_distinct_conv_sum_set)
  also have "\<dots> = sum ?d (removed_folders user folder db)"
    by (simp add: removed_folders_def children_set)
  also have "\<dots> = (\<Sum>k \<in> Some ` removed_folders user folder db.
      count_entries (\<lambda>e. shown_entry user db e \<and> le_folder_id e = k) db)"
    by (subst sum.reindex) (simp_all add: repository_counts_def)
  also have "\<dots> = count_entries (\<lambda>e. shown_entry user db e \<and> le_folder_id e \<in> Some ` removed_folders user folder db) db"
    by (rule count_groups) (simp add: removed_folders_def)
  finally show ?thesis by (simp add: shown_folder_def)
qed

section \<open>Properties\<close>

text \<open>A library in which a folder was made, a score was added and then filed in the folder.\<close>

definition filed_score :: Score where
  "filed_score = example_score\<lparr>sc_id := 3\<rparr>"

definition filed_folder :: ScoreLibraryFolder where
  "filed_folder = \<lparr>lf_id = 1, folder_uuid = ''f'', lf_user_id = 7, parent_folder_id = None, lf_name = ''Etudes'',
     lf_position = 0, lf_created_at = 5, lf_updated_at = 5, lf_deleted_at = None\<rparr>"

definition filed_entry :: "int option \<Rightarrow> timestamp \<Rightarrow> ScoreLibraryEntry" where
  "filed_entry folder t = \<lparr>le_id = 1, entry_uuid = ''e'', le_user_id = 7, le_score_id = 3, source_type = SELF_ADDED,
     le_folder_id = folder, is_favorite = False, practice_state = TO_PRACTICE, last_practiced_at = None,
     le_created_at = 6, le_updated_at = t, le_deleted_at = None\<rparr>"

definition filed_library :: library_db where
  "filed_library = \<lparr>lb_folders = [filed_folder], lb_entries = [filed_entry (Some 1) 8], lb_scores = [filed_score]\<rparr>"

lemmas filed_defs = filed_folder_def filed_entry_def filed_score_def example_score_def

lemma filed_library_reachable: "library_reachable length filed_library"
proof -
  let ?db0 = "\<lparr>lb_folders = [], lb_entries = [], lb_scores = [filed_score]\<rparr>"
  let ?db1 = "\<lparr>lb_folders = [filed_folder], lb_entries = [], lb_scores = [filed_score]\<rparr>"
  let ?db2 = "\<lparr>lb_folders = [filed_folder], lb_entries = [filed_entry None 6], lb_scores = [filed_score]\<rparr>"
  have 1: "library_reachable length ?db1"
  proof -
    have "snd (create_folder length 1 ''f'' 5 7 ''Etudes'' None ?db0) = ?db1"
      by (simp add: create_folder_def optional_folder_def folder_level_def MAX_FOLDER_LEVEL_def folder_name_clash_def
          filed_defs Let_def)
    moreover have "library_step length ?db0 (snd (create_folder length 1 ''f'' 5 7 ''Etudes'' None ?db0))"
      by (rule folder_created) simp_all
    ultimately show ?thesis using empty_library next_library by metis
  qed
  have 2: "library_reachable length ?db2"
  proof -
    have "snd (ensure_entry (1, ''e'') 6 7 3 SELF_ADDED False ?db1) = ?db2"
      by (simp add: ensure_entry_def entry_including_deleted_def filed_defs Let_def)
    moreover have "library_step length ?db1 (snd (ensure_entry (1, ''e'') 6 7 3 SELF_ADDED False ?db1))"
      by (rule entry_ensured) (simp add: fresh_entry_def)
    ultimately show ?thesis using 1 next_library by metis
  qed
  have "snd (batch_move (\<lambda>n. 8) 7 [''e''] (Some ''f'') ?db2) = filed_library"
    by (simp add: batch_move_def optional_folder_def folder_by_uuid_def entry_by_uuid_def rolled_back_def
        put_entry_def filed_defs filed_library_def)
  moreover have "library_step length ?db2 (snd (batch_move (\<lambda>n. 8) 7 [''e''] (Some ''f'') ?db2))"
    by (rule entries_moved)
  ultimately show ?thesis using 2 next_library by metis
qed



text \<open>The counts of the tree add up: the recursive counts of the top folders, together with the shown
  entries that are in no folder, are the count of all entries.\<close>

theorem folder_counts_add_up:
  assumes "library_reachable collate db"
  shows "\<exists>tree. folder_tree collate user db = Inr tree \<and>
    ft_all_count tree =
      sum_list (map fr_recursive_count (filter (\<lambda>f. fr_parent_folder_id f = None) (ft_folders tree))) +
      count_entries (\<lambda>e. shown_entry user db e \<and> le_folder_id e = None) db"
proof -
  note ok = library_reachable_ok [OF assms]
  let ?fs = "repository_folders collate user db" and ?c = "repository_counts user db"
  let ?ids = "(\<lambda>f. Some (lf_id f)) ` set ?fs"
  have tl: "two_level ?fs" using library_okD(6) [OF ok] by (simp add: repository_two_level)
  have tops: "filter (\<lambda>f. fr_parent_folder_id f = None) (map (shown_folder ?fs ?c) ?fs) =
      map (shown_folder ?fs ?c) (filter (\<lambda>f. parent_folder_id f = None) ?fs)"
    using shown_top [OF tl] by (simp add: filter_map o_def cong: filter_cong)
  have "sum_list (map fr_recursive_count (map (shown_folder ?fs ?c) (filter (\<lambda>f. parent_folder_id f = None) ?fs))) =
      (\<Sum>f \<in> set ?fs. direct_counts ?c (lf_id f))"
    unfolding two_level_sum [OF tl, symmetric] by (simp add: o_def shown_folder_def)
  also have "\<dots> = (\<Sum>k \<in> ?ids. count_entries (\<lambda>e. shown_entry user db e \<and> le_folder_id e = k) db)"
    using two_level_distinct [OF tl] by (subst sum.reindex) (auto simp: inj_on_def repository_counts_def)
  also have "\<dots> = count_entries (\<lambda>e. shown_entry user db e \<and> le_folder_id e \<in> ?ids) db"
    by (rule count_groups) simp
  also have "\<dots> = count_entries (\<lambda>e. shown_entry user db e \<and> \<not> le_folder_id e = None) db"
  proof (rule count_cong)
    fix e assume "e \<in> set (lb_entries db)"
    from library_okD(7) [OF ok this]
    show "(shown_entry user db e \<and> le_folder_id e \<in> ?ids) = (shown_entry user db e \<and> \<not> le_folder_id e = None)"
      by (auto simp: entry_filed_def shown_entry_def repository_folders_set)
  qed
  finally show ?thesis
    using count_split [of "shown_entry user db" db "\<lambda>e. le_folder_id e = None"]
    by (simp add: folder_tree_run [OF ok] Let_def tops) (simp add: repository_counts_def)
qed

theorem folder_counts_add_up_witness:
  "\<exists>tree. folder_tree length 7 filed_library = Inr tree \<and> ft_all_count tree = 1 \<and>
     ft_all_count tree =
       sum_list (map fr_recursive_count (filter (\<lambda>f. fr_parent_folder_id f = None) (ft_folders tree)))"
proof -
  have "count_entries (\<lambda>e. shown_entry 7 filed_library e \<and> le_folder_id e = None) filed_library = 0"
    by (simp add: count_entries_def filed_library_def filed_entry_def)
  moreover have "ft_all_count tree = 1" if "folder_tree length 7 filed_library = Inr tree" for tree
    using that folder_tree_run [OF library_reachable_ok [OF filed_library_reachable], of length 7]
    by (auto simp: Let_def repository_counts_def count_entries_def shown_entry_def score_active_def filed_library_def
        filed_defs)
  ultimately show ?thesis using folder_counts_add_up [OF filed_library_reachable, of 7] by auto
qed

text \<open>C14. Deleting a folder never fails on a folder that is there and never loses an entry it should keep. The
  folder is gone afterwards and the tree can be shown. Unless the contents are to be trashed, every entry is
  as live as it was, in its folder or in the target, and the count of all entries is the same; if they are,
  that count goes down by exactly the recursive count the folder was shown with.\<close>

theorem folder_removed_outcome:
  assumes reach: "library_reachable collate db" and found: "folder_by_uuid user uuid db = Inr (Some folder)"
  shows "\<exists>db' tree tree' read. delete_folder collate now user uuid mode db = (Inr (), db') \<and>
    folder_tree collate user db = Inr tree \<and> folder_tree collate user db' = Inr tree' \<and>
    folder_by_uuid user uuid db' = Inr None \<and>
    read \<in> set (ft_folders tree) \<and> fr_folder_id read = uuid \<and>
    ft_all_count tree' = ft_all_count tree - (if mode = TRASH_CONTENTS then fr_recursive_count read else 0) \<and>
    (mode \<noteq> TRASH_CONTENTS \<longrightarrow> (\<forall>e \<in> set (lb_entries db). \<exists>e' \<in> set (lb_entries db').
       le_id e' = le_id e \<and> le_deleted_at e' = le_deleted_at e \<and>
       (le_folder_id e' = le_folder_id e \<or>
        le_folder_id e' = (if mode = MOVE_CONTENTS_TO_PARENT then parent_folder_id folder else None))))"
proof -
  note ok = library_reachable_ok [OF reach]
  have folder: "folder \<in> set (live_folders user db)" and uuid: "folder_uuid folder = uuid"
    using folder_by_uuid_found [OF found] by auto
  let ?ids = "removed_folders user folder db"
  let ?clear = "cleared_entry now user ?ids (move_target mode folder) mode"
  let ?db' = "(folders_removed now user ?ids db)\<lparr>lb_entries := map ?clear (lb_entries db)\<rparr>"
  let ?read = "shown_folder (repository_folders collate user db) (repository_counts user db) folder"
  note run = delete_folder_run [OF ok found, of collate now mode]
  have ok': "library_ok ?db'" using delete_folder_ok [OF ok, of collate now user uuid mode] by (simp add: run)
  have "\<not> (\<exists>f \<in> set (live_folders user ?db'). folder_uuid f = uuid)"
    using unique_columnD [OF library_okD(2) [OF ok], of _ folder] uuid folder
    by (auto simp: removed_live live_folders_iff removed_folders_def)
  then have "folder_by_uuid user uuid ?db' = Inr None"
    by (auto simp: folder_by_uuid_def one_or_none_None filter_empty_conv live_folders_iff)
  moreover have "count_entries (shown_entry user ?db') ?db' = count_entries (shown_entry user db) db -
      (if mode = TRASH_CONTENTS then fr_recursive_count ?read else 0)"
    by (simp only: count_removed [OF refl] recursive_count_shown [OF ok folder])
  moreover have "\<exists>e' \<in> set (lb_entries ?db'). le_id e' = le_id e \<and> le_deleted_at e' = le_deleted_at e \<and>
       (le_folder_id e' = le_folder_id e \<or>
        le_folder_id e' = (if mode = MOVE_CONTENTS_TO_PARENT then parent_folder_id folder else None))"
    if "mode \<noteq> TRASH_CONTENTS" "e \<in> set (lb_entries db)" for e
    using that by (intro bexI [of _ "?clear e"]) (auto simp: cleared_entry_def move_target_def)
  moreover have "fr_folder_id ?read = uuid" using uuid by (simp add: shown_folder_def)
  moreover obtain tree where tree: "folder_tree collate user db = Inr tree"
      "ft_all_count tree = count_entries (shown_entry user db) db"
      "ft_folders tree = map (shown_folder (repository_folders collate user db) (repository_counts user db))
         (repository_folders collate user db)"
    using folder_tree_shown [OF ok] .
  moreover from tree(3) folder have "?read \<in> set (ft_folders tree)" by (simp add: repository_folders_set)
  moreover obtain tree' where "folder_tree collate user ?db' = Inr tree'"
      "ft_all_count tree' = count_entries (shown_entry user ?db') ?db'"
    using folder_tree_shown [OF ok'] .
  ultimately show ?thesis
    by (intro exI [of _ ?db'] exI [of _ tree] exI [of _ tree'] exI [of _ ?read] conjI run impI ballI) simp_all
qed

theorem folder_removed_outcome_witness:
  "\<exists>db' tree'. delete_folder length 9 7 ''f'' TRASH_CONTENTS filed_library = (Inr (), db') \<and>
     folder_tree length 7 db' = Inr tree' \<and> folder_by_uuid 7 ''f'' db' = Inr None"
proof -
  have "folder_by_uuid 7 ''f'' filed_library = Inr (Some filed_folder)"
    by (simp add: folder_by_uuid_def filed_library_def filed_folder_def)
  from folder_removed_outcome [OF filed_library_reachable this, of 9 TRASH_CONTENTS] show ?thesis by blast
qed

text \<open>A folder can always be created at the top, whatever its name: also when the user has a live top folder
  of that name, which the unique index does not forbid as it compares a parent that is null.\<close>

theorem top_folder_names_repeat:
  assumes reach: "library_reachable collate db"
    and fresh: "new_id \<notin> lf_id ` set (lb_folders db)" "new_uuid \<notin> folder_uuid ` set (lb_folders db)"
  shows "\<exists>read db'. create_folder collate new_id new_uuid now user name None db = (Inr read, db') \<and>
    fr_name read = name \<and> fr_parent_folder_id read = None \<and>
    length (live_folders user db') = Suc (length (live_folders user db))"
proof -
  let ?f = "\<lparr>lf_id = new_id, folder_uuid = new_uuid, lf_user_id = user, parent_folder_id = None, lf_name = name,
    lf_position = 0, lf_created_at = now, lf_updated_at = now, lf_deleted_at = None\<rparr>"
  let ?db = "db\<lparr>lb_folders := lb_folders db @ [?f]\<rparr>"
  let ?fs = "repository_folders collate user ?db" and ?c = "repository_counts user ?db"
  have ok: "library_ok ?db" using folder_added_ok [OF library_reachable_ok [OF reach], of ?f] fresh by simp
  obtain tree where tree: "folder_tree collate user ?db = Inr tree" "ft_folders tree = map (shown_folder ?fs ?c) ?fs"
    using folder_tree_shown [OF ok] .
  have "?f \<in> set ?fs" by (simp add: repository_folders_set live_folders_iff)
  then have "\<exists>f \<in> set ?fs. folder_uuid f = new_uuid" by (rule bexI [rotated]) simp
  then have "List.find (\<lambda>r. fr_folder_id r = new_uuid) (ft_folders tree) \<noteq> None"
    by (auto simp: tree(2) find_None_iff shown_folder_def)
  then obtain read where read: "List.find (\<lambda>r. fr_folder_id r = new_uuid) (ft_folders tree) = Some read" by blast
  then have "read \<in> set (ft_folders tree)" "fr_folder_id read = new_uuid"
    unfolding find_Some_iff by auto
  then obtain g where "g \<in> set ?fs" "read = shown_folder ?fs ?c g" "fr_folder_id read = new_uuid"
    unfolding tree(2) set_map by blast
  moreover from this have "g = ?f"
    using library_okD(2) [OF ok] by (intro unique_columnD [of folder_uuid "lb_folders ?db"])
      (simp_all add: repository_folders_set live_folders_iff shown_folder_def)
  ultimately have "fr_name read = name \<and> fr_parent_folder_id read = None"
    by (simp add: shown_folder_def folder_uuid_by_id_def)
  moreover have "create_folder collate new_id new_uuid now user name None db = (Inr read, ?db)"
    by (simp add: create_folder_def optional_folder_def folder_level_def MAX_FOLDER_LEVEL_def folder_name_clash_def
        Let_def folder_read_of_def tree(1) read)
  ultimately show ?thesis by (simp add: live_folders_add)
qed

theorem top_folder_names_repeat_witness:
  "\<exists>read db'. create_folder length 2 ''g'' 9 7 ''Etudes'' None filed_library = (Inr read, db') \<and>
     fr_name read = ''Etudes'' \<and> lf_name filed_folder = ''Etudes''"
proof -
  have "2 \<notin> lf_id ` set (lb_folders filed_library)" "''g'' \<notin> folder_uuid ` set (lb_folders filed_library)"
    by (simp_all add: filed_library_def filed_folder_def)
  from top_folder_names_repeat [OF filed_library_reachable this, of 9 7 "''Etudes''"] show ?thesis
    by (auto simp: filed_folder_def)
qed

end
