(* ===== verification/Py_Collections.thy ===== *)
theory Py_Collections
  imports Prelude Complex_Main "HOL-Library.List_Lexorder" "HOL-Library.Product_Lexorder" "HOL-Library.Char_ord"
begin

text \<open>
  The parts of Python that the practice engines are written in: insertion-ordered dictionaries used to
  group and to remove duplicates, tuples compared lexicographically, and floats.

  A finite \<open>float\<close> is a rational number. An arithmetic operation on floats gives the float nearest to the exact
  result, so it is the exact operation followed by \<open>nearest\<close>, which is a parameter; \<open>float_repr\<close> is \<open>str\<close> of a
  float, \<open>float_sqrt\<close> is \<open>math.sqrt\<close> \<open>float_half_power\<close> is
  \<open>x ** 0.5\<close> and \<open>float_sum\<close> is \<open>sum\<close> of a list of floats (which compensates rounding since Python 3.12). Infinities and NaN do not occur: all values come from note arrays and counters.
\<close>

section \<open>Floats\<close>

record float_ops =
  nearest :: "rat \<Rightarrow> rat"
  float_repr :: "rat \<Rightarrow> string"
  float_sqrt :: "rat \<Rightarrow> rat"
  float_half_power :: "rat \<Rightarrow> rat"
  float_sum :: "rat list \<Rightarrow> rat"

definition fl_add :: "'a float_ops_scheme \<Rightarrow> rat \<Rightarrow> rat \<Rightarrow> rat" where "fl_add fl x y = nearest fl (x + y)"
definition fl_sub :: "'a float_ops_scheme \<Rightarrow> rat \<Rightarrow> rat \<Rightarrow> rat" where "fl_sub fl x y = nearest fl (x - y)"
definition fl_mul :: "'a float_ops_scheme \<Rightarrow> rat \<Rightarrow> rat \<Rightarrow> rat" where "fl_mul fl x y = nearest fl (x * y)"
definition fl_div :: "'a float_ops_scheme \<Rightarrow> rat \<Rightarrow> rat \<Rightarrow> rat" where "fl_div fl x y = nearest fl (x / y)"

text \<open>\<open>round(x, n)\<close> rounds the exact value to \<open>n\<close> decimals, a tie to the even digit, and gives the float nearest
  to that; \<open>int(x)\<close> cuts off.\<close>

definition round_half_even :: "rat \<Rightarrow> int" where
  "round_half_even x =
     (let f = \<lfloor>x\<rfloor>; d = x - of_int f
      in if d < 1 / 2 then f else if d > 1 / 2 then f + 1 else if even f then f else f + 1)"

definition py_round :: "'a float_ops_scheme \<Rightarrow> nat \<Rightarrow> rat \<Rightarrow> rat" where
  "py_round fl n x = nearest fl (of_int (round_half_even (x * 10 ^ n)) / 10 ^ n)"

definition py_trunc :: "rat \<Rightarrow> int" where
  "py_trunc x = (if 0 \<le> x then \<lfloor>x\<rfloor> else \<lceil>x\<rceil>)"

lemma round_half_even_mono: "x \<le> y \<Longrightarrow> round_half_even x \<le> round_half_even y"
proof -
  assume le: "x \<le> y"
  have bound: "\<lfloor>z\<rfloor> \<le> round_half_even z \<and> round_half_even z \<le> \<lfloor>z\<rfloor> + 1" for z
    by (simp add: round_half_even_def Let_def)
  show ?thesis
  proof (cases "\<lfloor>x\<rfloor> = \<lfloor>y\<rfloor>")
    case True
    then show ?thesis using le by (auto simp: round_half_even_def Let_def)
  next
    case False
    then have "\<lfloor>x\<rfloor> + 1 \<le> \<lfloor>y\<rfloor>" using floor_mono [OF le] by linarith
    with bound [of x] bound [of y] show ?thesis by linarith
  qed
qed

lemma py_trunc_mono: "x \<le> y \<Longrightarrow> py_trunc x \<le> py_trunc y"
proof -
  assume le: "x \<le> y"
  consider "0 \<le> x" "0 \<le> y" | "x < 0" "0 \<le> y" | "x < 0" "y < 0" using le by linarith
  then show ?thesis
  proof cases
    case 1
    with le show ?thesis by (simp add: py_trunc_def floor_mono)
  next
    case 2
    then have "\<lceil>x\<rceil> \<le> 0" by (simp add: ceiling_le_iff)
    moreover have "0 \<le> \<lfloor>y\<rfloor>" using 2 by simp
    ultimately have "\<lceil>x\<rceil> \<le> \<lfloor>y\<rfloor>" by linarith
    then show ?thesis using 2 by (simp add: py_trunc_def)
  next
    case 3
    with le show ?thesis by (simp add: py_trunc_def ceiling_mono)
  qed
qed

section \<open>Dictionaries\<close>

text \<open>\<open>dict.fromkeys(xs)\<close>: the first occurrences, in order.\<close>

definition fromkeys :: "'a list \<Rightarrow> 'a list" where
  "fromkeys xs = rev (remdups (rev xs))"

text \<open>\<open>d.setdefault(k, []).append(v)\<close>, and the dictionary it builds from a list.\<close>

fun dict_append :: "'k \<Rightarrow> 'v \<Rightarrow> ('k \<times> 'v list) list \<Rightarrow> ('k \<times> 'v list) list" where
  "dict_append k v [] = [(k, [v])]"
| "dict_append k v ((k', vs) # d) = (if k' = k then (k', vs @ [v]) # d else (k', vs) # dict_append k v d)"

definition group_into :: "('x \<Rightarrow> 'k) \<Rightarrow> 'x list \<Rightarrow> ('k \<times> 'x list) list" where
  "group_into key xs = foldl (\<lambda>d x. dict_append (key x) x d) [] xs"

lemma fromkeys_simps [simp]: "fromkeys [] = []" "set (fromkeys xs) = set xs" "distinct (fromkeys xs)"
  "fromkeys xs = [] \<longleftrightarrow> xs = []"
  by (simp_all add: fromkeys_def)

lemma fromkeys_snoc: "fromkeys (xs @ [x]) = (if x \<in> set xs then fromkeys xs else fromkeys xs @ [x])"
  by (simp add: fromkeys_def)

lemma fromkeys_distinct: "distinct xs \<Longrightarrow> fromkeys xs = xs"
  by (simp add: fromkeys_def distinct_remdups_id)

lemma dict_append_map:
  assumes "distinct ks"
  shows "dict_append k v (map (\<lambda>i. (i, f i)) ks) =
    (if k \<in> set ks then map (\<lambda>i. (i, if i = k then f i @ [v] else f i)) ks
     else map (\<lambda>i. (i, f i)) ks @ [(k, [v])])"
  using assms by (induction ks) auto

text \<open>Grouping: one entry for each key, in the order of first occurrence, with its elements in their order.\<close>

lemma group_into_eq: "group_into key xs = map (\<lambda>k. (k, filter (\<lambda>x. key x = k) xs)) (fromkeys (map key xs))"
proof (induction xs rule: rev_induct)
  case Nil
  then show ?case by (simp add: group_into_def)
next
  case (snoc x xs)
  have "group_into key (xs @ [x]) = dict_append (key x) x (group_into key xs)" by (simp add: group_into_def)
  also have "\<dots> = map (\<lambda>k. (k, filter (\<lambda>x. key x = k) (xs @ [x]))) (fromkeys (map key (xs @ [x])))"
    by (auto simp: snoc dict_append_map fromkeys_snoc filter_empty_conv image_iff)
  finally show ?case .
qed

lemma group_into_keys [simp]: "map fst (group_into key xs) = fromkeys (map key xs)"
  by (simp add: group_into_eq o_def)

lemma group_into_member: "(k, ys) \<in> set (group_into key xs) \<longleftrightarrow> k \<in> key ` set xs \<and> ys = filter (\<lambda>x. key x = k) xs"
  by (auto simp: group_into_eq)

text \<open>A dictionary built from pairs: the last value of a key wins, the first position stays; looking a key up.\<close>

definition dict_of :: "('x \<Rightarrow> 'k) \<Rightarrow> 'x list \<Rightarrow> 'k \<Rightarrow> 'x option" where
  "dict_of key xs k = List.find (\<lambda>x. key x = k) (rev xs)"

lemma dict_of_Some: "dict_of key xs k = Some x \<Longrightarrow> x \<in> set xs \<and> key x = k"
  by (auto simp: dict_of_def find_Some_iff) (metis length_rev nth_mem set_rev)

lemma dict_of_unique:
  assumes "unique_column key xs" and "x \<in> set xs"
  shows "dict_of key xs (key x) = Some x"
proof -
  have "dict_of key xs (key x) \<noteq> None" using assms(2) by (auto simp: dict_of_def find_None_iff)
  then obtain y where y: "dict_of key xs (key x) = Some y" by blast
  with dict_of_Some [OF y] assms have "y = x" by (auto simp: unique_column_def distinct_map dest: inj_onD)
  with y show ?thesis by simp
qed

end
