(* ===== verification/Practice_Timeline.thy ===== *)
theory Practice_Timeline
  imports Py_Collections
begin

text \<open>
  The timeline of a score that a practice session follows,
  \<open>backend/app/processing/engines/practice_alignment/score_timeline.py\<close>: from the note array of the score and
  its MusicXML to events, entry groups, expected groups and attack steps. The note array (made by partitura)
  and the parsed XML tree are inputs, SHA-1 and the parsing of numbers are parameters. A \<open>ValueError\<close> and the
  other exceptions of the practice engines are values of \<open>practice_error\<close>.
\<close>

datatype practice_error =
  ValueError string
| RuntimeError string
| PracticeScopeTargetNotFound string
| PracticeScopeInvalidRange
| KeyError string

record practice_env = float_ops +
  sha1_hex :: "string \<Rightarrow> string"
  parse_float :: "string \<Rightarrow> rat option"
  parse_int :: "string \<Rightarrow> int option"

text \<open>A comprehension whose elements may raise.\<close>

fun traverse :: "('a \<Rightarrow> 'e + 'b) \<Rightarrow> 'a list \<Rightarrow> 'e + 'b list" where
  "traverse f [] = Inr []"
| "traverse f (x # xs) =
     (case f x of Inl e \<Rightarrow> Inl e
      | Inr y \<Rightarrow> (case traverse f xs of Inl e \<Rightarrow> Inl e | Inr ys \<Rightarrow> Inr (y # ys)))"

section \<open>Rows and results\<close>

record NoteRow =
  nr_onset_beat :: rat
  nr_duration_beat :: rat
  nr_pitch :: int
  nr_id :: string
  nr_voice :: string

record NoteArray =
  na_names :: "string list"
  na_rows :: "NoteRow list"

record MusicXmlNoteMetadata =
  md_staff_id :: string
  md_voice_id :: string
  md_measure_number :: string
  md_semantic_locator :: string
  md_tie_types :: "string list"

record TimelineNote =
  tl_note :: NoteRow
  tl_metadata :: "MusicXmlNoteMetadata option"

record PracticeScoreEvent =
  ev_id :: string
  ev_onset_beat :: rat
  ev_duration_beats :: rat
  ev_pitches :: "string list"
  ev_render_note_ids :: "string list"
  ev_measure_numbers :: "string list"
  ev_staff_ids :: "string list"
  ev_voice_ids :: "string list"
  ev_tie_types :: "string list"
  ev_playable :: bool
  ev_entry_candidate :: bool

record PracticeEntryGroup =
  eg_id :: string
  eg_onset_beat :: rat
  eg_event_ids :: "string list"
  eg_render_note_ids :: "string list"
  eg_entry_candidate :: bool

record ExpectedPracticeNote =
  en_id :: string
  en_event_id :: string
  en_pitch :: string
  en_render_note_id :: string
  en_measure_numbers :: "string list"

record ExpectedPracticeStrikeTarget =
  st_id :: string
  st_pitch :: string
  st_expected_notes :: "ExpectedPracticeNote list"
  st_event_ids :: "string list"
  st_render_note_ids :: "string list"
  st_measure_numbers :: "string list"

record ExpectedPracticeGroup =
  xg_id :: string
  xg_onset_beat :: rat
  xg_event_ids :: "string list"
  xg_expected_notes :: "ExpectedPracticeNote list"
  xg_strike_targets :: "ExpectedPracticeStrikeTarget list"
  xg_render_note_ids :: "string list"
  xg_pitches :: "string list"
  xg_measure_numbers :: "string list"
  xg_staff_ids :: "string list"
  xg_voice_ids :: "string list"

record PracticeStepNote =
  sn_id :: string
  sn_event_id :: string
  sn_pitch :: string
  sn_render_note_id :: string
  sn_measure_numbers :: "string list"
  sn_staff_ids :: "string list"
  sn_voice_ids :: "string list"

record PracticeAttackTarget =
  at_id :: string
  at_pitch :: string
  at_notes :: "PracticeStepNote list"
  at_event_ids :: "string list"
  at_render_note_ids :: "string list"
  at_measure_numbers :: "string list"

record PracticeAttackStep =
  as_id :: string
  as_onset_beat :: rat
  as_event_ids :: "string list"
  as_attack_targets :: "PracticeAttackTarget list"
  as_continuation :: "PracticeStepNote list"
  as_render_note_ids :: "string list"
  as_measure_numbers :: "string list"
  as_staff_ids :: "string list"
  as_voice_ids :: "string list"

datatype MeterSource = MUSICXML | DEFAULT_4_4

record PracticeMeterSegment =
  ms_start_beat :: rat
  ms_numerator :: int
  ms_denominator :: int
  ms_source :: MeterSource

record PracticeScoreTimeline =
  tm_events :: "PracticeScoreEvent list"
  tm_entry_groups :: "PracticeEntryGroup list"
  tm_first_playable_event_id :: "string option"
  tm_first_playable_beat :: "rat option"
  tm_end_beat :: rat
  tm_meter_segments :: "PracticeMeterSegment list"

section \<open>Names and identifiers\<close>

definition round_beat :: "'a float_ops_scheme \<Rightarrow> rat \<Rightarrow> rat" where
  "round_beat fl x = py_round fl 6 x"

definition MIDI_PITCH_CLASSES :: "string list" where
  "MIDI_PITCH_CLASSES =
     [''C'', ''C#'', ''D'', ''D#'', ''E'', ''F'', ''F#'', ''G'', ''G#'', ''A'', ''A#'', ''B'']"

definition midi_pitch_name :: "int \<Rightarrow> string" where
  "midi_pitch_name pitch = MIDI_PITCH_CLASSES ! nat (pitch mod 12) @ str_of_int (pitch div 12 - 1)"

definition safe_char :: "char \<Rightarrow> bool" where
  "safe_char c =
     (let n = (of_char c :: nat)
      in (65 \<le> n \<and> n \<le> 90) \<or> (97 \<le> n \<and> n \<le> 122) \<or> (48 \<le> n \<and> n \<le> 57) \<or>
         c = CHR ''_'' \<or> c = CHR ''.'' \<or> c = CHR ''-'')"

text \<open>Each run of other characters becomes one underscore; \<open>in_run\<close> says that one is being replaced.\<close>

fun replace_runs :: "bool \<Rightarrow> string \<Rightarrow> string" where
  "replace_runs in_run [] = []"
| "replace_runs in_run (c # cs) =
     (if safe_char c then c # replace_runs False cs
      else if in_run then replace_runs True cs else CHR ''_'' # replace_runs True cs)"

definition safe_id :: "string \<Rightarrow> string" where
  "safe_id value = strip_char (CHR ''_'') (replace_runs False value)"

fun py_join :: "string \<Rightarrow> string list \<Rightarrow> string" where
  "py_join sep [] = []"
| "py_join sep [x] = x"
| "py_join sep (x # y # xs) = x @ sep @ py_join sep (y # xs)"

definition digest_of :: "practice_env \<Rightarrow> string list \<Rightarrow> string" where
  "digest_of env parts = take 12 (sha1_hex env (py_join ''|'' parts))"

definition stable_event_id :: "practice_env \<Rightarrow> nat \<Rightarrow> rat \<Rightarrow> rat \<Rightarrow> string \<Rightarrow> string \<Rightarrow> string \<Rightarrow> string" where
  "stable_event_id env index onset_beat duration_beats voice_id staff_id semantic_locator =
     py_join ''-'' (filter (\<lambda>part. part \<noteq> []) [''event'', safe_id (float_repr env onset_beat),
       safe_id (float_repr env duration_beats), safe_id staff_id, safe_id voice_id,
       safe_id (if semantic_locator \<noteq> [] then semantic_locator else CHR ''i'' # str_of_int (int index))])"

definition stable_entry_group_id :: "practice_env \<Rightarrow> rat \<Rightarrow> string list \<Rightarrow> string" where
  "stable_entry_group_id env onset_beat event_ids =
     ''entry-'' @ safe_id (float_repr env onset_beat) @ ''-'' @
       digest_of env (float_repr env onset_beat # event_ids)"

definition stable_attack_step_id :: "practice_env \<Rightarrow> rat \<Rightarrow> string list \<Rightarrow> string" where
  "stable_attack_step_id env onset_beat event_ids =
     ''attack-'' @ safe_id (float_repr env onset_beat) @ ''-'' @
       digest_of env (float_repr env onset_beat # event_ids)"

definition stable_attack_target_id :: "practice_env \<Rightarrow> string \<Rightarrow> string \<Rightarrow> string list \<Rightarrow> string" where
  "stable_attack_target_id env step_id pitch event_ids =
     step_id @ '':target:'' @ safe_id pitch @ '':'' @ digest_of env (step_id # pitch # event_ids)"

section \<open>Events\<close>

definition is_tie_continuation :: "MusicXmlNoteMetadata option \<Rightarrow> bool" where
  "is_tie_continuation metadata =
     (case metadata of None \<Rightarrow> False | Some m \<Rightarrow> ''stop'' \<in> set (md_tie_types m))"

definition voice_id_of :: "string list \<Rightarrow> NoteRow \<Rightarrow> MusicXmlNoteMetadata option \<Rightarrow> string" where
  "voice_id_of names note metadata =
     (let fallback = (if ''voice'' \<in> set names then nr_voice note else [])
      in case metadata of
           None \<Rightarrow> fallback
         | Some m \<Rightarrow> if md_voice_id m \<noteq> [] then md_voice_id m else fallback)"

type_synonym event_key = "rat \<times> rat \<times> string \<times> string \<times> bool"

definition event_key_of :: "practice_env \<Rightarrow> string list \<Rightarrow> TimelineNote \<Rightarrow> event_key" where
  "event_key_of env names item =
     (round_beat env (nr_onset_beat (tl_note item)), round_beat env (nr_duration_beat (tl_note item)),
      voice_id_of names (tl_note item) (tl_metadata item),
      (case tl_metadata item of None \<Rightarrow> [] | Some m \<Rightarrow> md_staff_id m),
      is_tie_continuation (tl_metadata item))"

fun event_sort_key :: "event_key \<Rightarrow> rat \<times> string \<times> string \<times> rat \<times> bool" where
  "event_sort_key (onset_beat, duration_beats, voice_id, staff_id, tie) =
     (onset_beat, staff_id, voice_id, duration_beats, tie)"

definition event_semantic_locator :: "nat \<Rightarrow> TimelineNote list \<Rightarrow> string" where
  "event_semantic_locator index notes =
     (case List.find (\<lambda>m. md_semantic_locator m \<noteq> []) (List.map_filter tl_metadata notes) of
        None \<Rightarrow> CHR ''i'' # str_of_int (int index) | Some m \<Rightarrow> md_semantic_locator m)"

fun event_from_notes :: "practice_env \<Rightarrow> nat \<Rightarrow> event_key \<Rightarrow> TimelineNote list \<Rightarrow> PracticeScoreEvent" where
  "event_from_notes env index (onset_beat, duration_beats, voice_id, staff_id, tie) notes =
     (let metadatas = List.map_filter tl_metadata notes in
      \<lparr>ev_id = stable_event_id env index onset_beat duration_beats voice_id staff_id
                 (event_semantic_locator index notes),
       ev_onset_beat = onset_beat, ev_duration_beats = duration_beats,
       ev_pitches = map (\<lambda>item. midi_pitch_name (nr_pitch (tl_note item))) notes,
       ev_render_note_ids = map (\<lambda>item. nr_id (tl_note item)) notes,
       ev_measure_numbers = fromkeys (filter (\<lambda>n. n \<noteq> []) (map md_measure_number metadatas)),
       ev_staff_ids = (if staff_id = [] then [] else [staff_id]),
       ev_voice_ids = (if voice_id = [] then [] else [voice_id]),
       ev_tie_types = fromkeys (concat (map md_tie_types metadatas)),
       ev_playable = True,
       ev_entry_candidate = list_ex (\<lambda>item. \<not> is_tie_continuation (tl_metadata item)) notes\<rparr>)"

definition build_entry_groups :: "practice_env \<Rightarrow> PracticeScoreEvent list \<Rightarrow> PracticeEntryGroup list" where
  "build_entry_groups env events =
     map (\<lambda>(onset_beat, events_at_beat).
        \<lparr>eg_id = stable_entry_group_id env onset_beat (map ev_id events_at_beat), eg_onset_beat = onset_beat,
         eg_event_ids = map ev_id events_at_beat,
         eg_render_note_ids = fromkeys (concat (map ev_render_note_ids events_at_beat)),
         eg_entry_candidate = True\<rparr>)
       (sort_key fst (group_into ev_onset_beat (filter ev_entry_candidate events)))"

definition empty_timeline :: PracticeScoreTimeline where
  "empty_timeline = \<lparr>tm_events = [], tm_entry_groups = [], tm_first_playable_event_id = None,
     tm_first_playable_beat = None, tm_end_beat = 0, tm_meter_segments = []\<rparr>"

definition timeline_events ::
  "practice_env \<Rightarrow> (string \<Rightarrow> MusicXmlNoteMetadata option) \<Rightarrow> NoteArray \<Rightarrow> PracticeScoreEvent list" where
  "timeline_events env metadata note_array =
     (let items = map (\<lambda>note. \<lparr>tl_note = note, tl_metadata = metadata (nr_id note)\<rparr>) (na_rows note_array);
          grouped = sort_key (\<lambda>item. event_sort_key (fst item))
            (group_into (event_key_of env (na_names note_array)) items)
      in map (\<lambda>(index, key, notes). event_from_notes env index key notes) (List.enumerate 0 grouped))"

definition timeline_from_note_array ::
  "practice_env \<Rightarrow> (string \<Rightarrow> MusicXmlNoteMetadata option) \<Rightarrow> PracticeMeterSegment list \<Rightarrow> NoteArray \<Rightarrow>
   PracticeScoreTimeline" where
  "timeline_from_note_array env metadata segments note_array =
     (if \<not> {''onset_beat'', ''duration_beat'', ''pitch'', ''id''} \<subseteq> set (na_names note_array)
      then empty_timeline
      else
        let events = timeline_events env metadata note_array;
            first_playable = List.find ev_playable events;
            ends = map (\<lambda>e. fl_add env (ev_onset_beat e) (ev_duration_beats e)) (filter ev_playable events)
        in \<lparr>tm_events = events, tm_entry_groups = build_entry_groups env events,
            tm_first_playable_event_id = map_option ev_id first_playable,
            tm_first_playable_beat = map_option ev_onset_beat first_playable,
            tm_end_beat = round_beat env (if ends = [] then 0 else Max (set ends)),
            tm_meter_segments = segments\<rparr>)"

section \<open>Expected groups\<close>

definition expected_notes_for_event :: "PracticeScoreEvent \<Rightarrow> practice_error + ExpectedPracticeNote list" where
  "expected_notes_for_event event =
     (if length (ev_pitches event) \<noteq> length (ev_render_note_ids event)
      then Inl (ValueError ''Practice score event pitch/render-note identity mismatch.'')
      else Inr (map (\<lambda>(pitch, render_note_id).
          \<lparr>en_id = ev_id event @ '':'' @ render_note_id, en_event_id = ev_id event, en_pitch = pitch,
           en_render_note_id = render_note_id, en_measure_numbers = ev_measure_numbers event\<rparr>)
        (zip (ev_pitches event) (ev_render_note_ids event))))"

definition strike_targets_for_expected_notes ::
  "string \<Rightarrow> ExpectedPracticeNote list \<Rightarrow> ExpectedPracticeStrikeTarget list" where
  "strike_targets_for_expected_notes group_id expected_notes =
     map (\<lambda>(pitch, notes).
        \<lparr>st_id = group_id @ '':strike:'' @ safe_id pitch, st_pitch = pitch, st_expected_notes = notes,
         st_event_ids = fromkeys (map en_event_id notes),
         st_render_note_ids = fromkeys (map en_render_note_id notes),
         st_measure_numbers = fromkeys (concat (map en_measure_numbers notes))\<rparr>)
       (group_into en_pitch expected_notes)"

definition entry_group_for_id :: "PracticeScoreTimeline \<Rightarrow> string \<Rightarrow> PracticeEntryGroup option" where
  "entry_group_for_id timeline group_id = List.find (\<lambda>g. eg_id g = group_id) (tm_entry_groups timeline)"

definition expected_group_for_entry ::
  "PracticeScoreTimeline \<Rightarrow> string \<Rightarrow> practice_error + ExpectedPracticeGroup option" where
  "expected_group_for_entry timeline group_id =
     (case entry_group_for_id timeline group_id of
        None \<Rightarrow> Inr None
      | Some found \<Rightarrow>
          if \<not> eg_entry_candidate found then Inr None
          else
            let events = filter ev_entry_candidate
                  (List.map_filter (dict_of ev_id (tm_events timeline)) (eg_event_ids found))
            in if events = [] then Inr None
               else (case traverse expected_notes_for_event events of
                   Inl e \<Rightarrow> Inl e
                 | Inr noteses \<Rightarrow>
                     let expected_notes = concat noteses;
                         strike_targets = strike_targets_for_expected_notes (eg_id found) expected_notes
                     in Inr (Some \<lparr>xg_id = eg_id found, xg_onset_beat = eg_onset_beat found,
                          xg_event_ids = map ev_id events, xg_expected_notes = expected_notes,
                          xg_strike_targets = strike_targets,
                          xg_render_note_ids = fromkeys (map en_render_note_id expected_notes),
                          xg_pitches = map st_pitch strike_targets,
                          xg_measure_numbers = fromkeys (concat (map ev_measure_numbers events)),
                          xg_staff_ids = fromkeys (concat (map ev_staff_ids events)),
                          xg_voice_ids = fromkeys (concat (map ev_voice_ids events))\<rparr>)))"

definition expected_practice_groups ::
  "PracticeScoreTimeline \<Rightarrow> practice_error + ExpectedPracticeGroup list" where
  "expected_practice_groups timeline =
     (case traverse (\<lambda>g. expected_group_for_entry timeline (eg_id g)) (tm_entry_groups timeline) of
        Inl e \<Rightarrow> Inl e | Inr groups \<Rightarrow> Inr (List.map_filter (\<lambda>g. g) groups))"

section \<open>Attack steps\<close>

definition step_notes_for_event :: "PracticeScoreEvent \<Rightarrow> practice_error + PracticeStepNote list" where
  "step_notes_for_event event =
     (if length (ev_pitches event) \<noteq> length (ev_render_note_ids event)
      then Inl (ValueError ''Practice score event pitch/render-note identity mismatch.'')
      else Inr (map (\<lambda>(pitch, render_note_id).
          \<lparr>sn_id = ev_id event @ '':'' @ render_note_id, sn_event_id = ev_id event, sn_pitch = pitch,
           sn_render_note_id = render_note_id, sn_measure_numbers = ev_measure_numbers event,
           sn_staff_ids = ev_staff_ids event, sn_voice_ids = ev_voice_ids event\<rparr>)
        (zip (ev_pitches event) (ev_render_note_ids event))))"

definition attack_targets_for_step_notes ::
  "practice_env \<Rightarrow> PracticeStepNote list \<Rightarrow> string \<Rightarrow> PracticeAttackTarget list" where
  "attack_targets_for_step_notes env notes step_id =
     map (\<lambda>(pitch, pitch_notes).
        \<lparr>at_id = stable_attack_target_id env step_id pitch (map sn_event_id pitch_notes), at_pitch = pitch,
         at_notes = pitch_notes, at_event_ids = fromkeys (map sn_event_id pitch_notes),
         at_render_note_ids = fromkeys (map sn_render_note_id pitch_notes),
         at_measure_numbers = fromkeys (concat (map sn_measure_numbers pitch_notes))\<rparr>)
       (group_into sn_pitch notes)"

definition onset_sort_key :: "PracticeScoreEvent \<Rightarrow> string list \<times> string list \<times> rat \<times> string" where
  "onset_sort_key e = (ev_staff_ids e, ev_voice_ids e, ev_duration_beats e, ev_id e)"

text \<open>The step of the events at one onset; none if no note is struck there.\<close>

definition attack_step_at ::
  "practice_env \<Rightarrow> rat \<times> PracticeScoreEvent list \<Rightarrow> practice_error + PracticeAttackStep option" where
  "attack_step_at env onset =
     (let onset_beat = fst onset; onset_events = sort_key onset_sort_key (snd onset) in
      case traverse step_notes_for_event (filter ev_entry_candidate onset_events) of
        Inl e \<Rightarrow> Inl e
      | Inr attacks \<Rightarrow>
          if concat attacks = [] then Inr None
          else
            let attack_notes = concat attacks; event_ids = map ev_id onset_events;
                step_id = stable_attack_step_id env onset_beat event_ids
            in (case traverse step_notes_for_event (filter (\<lambda>e. \<not> ev_entry_candidate e) onset_events) of
                  Inl e \<Rightarrow> Inl e
                | Inr continuations \<Rightarrow>
                    let continuation = concat continuations; notes = attack_notes @ continuation
                    in Inr (Some \<lparr>as_id = step_id, as_onset_beat = onset_beat, as_event_ids = event_ids,
                         as_attack_targets = attack_targets_for_step_notes env attack_notes step_id,
                         as_continuation = continuation,
                         as_render_note_ids = fromkeys (map sn_render_note_id notes),
                         as_measure_numbers = fromkeys (concat (map sn_measure_numbers notes)),
                         as_staff_ids = fromkeys (concat (map sn_staff_ids notes)),
                         as_voice_ids = fromkeys (concat (map sn_voice_ids notes))\<rparr>)))"

definition build_practice_attack_steps ::
  "practice_env \<Rightarrow> PracticeScoreEvent list \<Rightarrow> practice_error + PracticeAttackStep list" where
  "build_practice_attack_steps env events =
     (case traverse (attack_step_at env) (sort_key fst (group_into ev_onset_beat events)) of
        Inl e \<Rightarrow> Inl e | Inr steps \<Rightarrow> Inr (List.map_filter (\<lambda>s. s) steps))"

section \<open>Looking up\<close>

definition entry_group_at_or_near ::
  "practice_env \<Rightarrow> PracticeScoreTimeline \<Rightarrow> rat \<Rightarrow> PracticeEntryGroup option" where
  "entry_group_at_or_near env timeline beat =
     (if tm_entry_groups timeline = [] then None
      else Some (arg_min_list (\<lambda>g. \<bar>fl_sub env (eg_onset_beat g) beat\<bar>) (tm_entry_groups timeline)))"

definition playable_onset_beats :: "PracticeScoreTimeline \<Rightarrow> rat list" where
  "playable_onset_beats timeline =
     map eg_onset_beat (filter eg_entry_candidate (tm_entry_groups timeline))"

text \<open>Following a tie from an event to the next one of the same pitch, staff and voice.\<close>

definition same_staff_voice :: "PracticeScoreEvent \<Rightarrow> PracticeScoreEvent \<Rightarrow> bool" where
  "same_staff_voice e f \<longleftrightarrow> ev_staff_ids e = ev_staff_ids f \<and> ev_voice_ids e = ev_voice_ids f"

definition event_end :: "practice_env \<Rightarrow> PracticeScoreEvent \<Rightarrow> rat" where
  "event_end env e = fl_add env (ev_onset_beat e) (ev_duration_beats e)"

definition next_tie_continuation ::
  "practice_env \<Rightarrow> PracticeScoreEvent \<Rightarrow> string \<Rightarrow> PracticeScoreEvent list \<Rightarrow> string list \<Rightarrow>
   PracticeScoreEvent option" where
  "next_tie_continuation env event pitch events visited =
     (let candidates = filter (\<lambda>c. ev_id c \<notin> set visited \<and> ev_onset_beat c \<ge> ev_onset_beat event \<and>
            ev_onset_beat c \<le> event_end env event \<and> ''stop'' \<in> set (ev_tie_types c) \<and>
            pitch \<in> set (ev_pitches c) \<and> same_staff_voice event c) events
      in if candidates = [] then None else Some (arg_min_list ev_onset_beat candidates))"

lemma next_tie_continuation_member:
  "next_tie_continuation env event pitch events visited = Some c \<Longrightarrow> c \<in> set events \<and> ev_id c \<notin> set visited"
  using arg_min_list_in [of "filter (\<lambda>c. ev_id c \<notin> set visited \<and> ev_onset_beat c \<ge> ev_onset_beat event \<and>
            ev_onset_beat c \<le> event_end env event \<and> ''stop'' \<in> set (ev_tie_types c) \<and>
            pitch \<in> set (ev_pitches c) \<and> same_staff_voice event c) events" ev_onset_beat]
  by (auto simp: next_tie_continuation_def Let_def split: if_splits)

function tie_loop ::
  "practice_env \<Rightarrow> string \<Rightarrow> PracticeScoreEvent list \<Rightarrow> PracticeScoreEvent \<Rightarrow> string list \<Rightarrow> rat \<Rightarrow> rat" where
  "tie_loop env pitch events current visited end_beat =
     (if ''start'' \<notin> set (ev_tie_types current) then end_beat
      else (case next_tie_continuation env current pitch events visited of
              None \<Rightarrow> end_beat
            | Some c \<Rightarrow> tie_loop env pitch events c (ev_id c # visited) (max end_beat (event_end env c))))"
  by pat_completeness auto

termination
proof (relation "measure (\<lambda>(env, pitch, events, current, visited, end_beat).
    card (ev_id ` set events - set visited))", goal_cases)
  case 1
  then show ?case by simp
next
  case (2 env pitch events current visited end_beat c)
  then have c: "c \<in> set events" "ev_id c \<notin> set visited" using next_tie_continuation_member by blast+
  then have "ev_id c \<in> ev_id ` set events - set visited" by blast
  moreover have "ev_id ` set events - set (ev_id c # visited) = (ev_id ` set events - set visited) - {ev_id c}"
    by auto
  moreover have "finite (ev_id ` set events - set visited)" by simp
  ultimately show ?case by (simp only: in_measure case_prod_conv card_Diff1_less)
qed

declare tie_loop.simps [simp del]

definition tied_pitch_sounding_end_beat ::
  "practice_env \<Rightarrow> PracticeScoreEvent \<Rightarrow> string \<Rightarrow> PracticeScoreEvent list \<Rightarrow> rat" where
  "tied_pitch_sounding_end_beat env event pitch events =
     round_beat env (tie_loop env pitch events event [ev_id event] (event_end env event))"

definition event_sounding_end_beat :: "practice_env \<Rightarrow> PracticeScoreEvent \<Rightarrow> PracticeScoreEvent list \<Rightarrow> rat" where
  "event_sounding_end_beat env event events =
     (if ''start'' \<notin> set (ev_tie_types event) then round_beat env (event_end env event)
      else round_beat env (foldl max (event_end env event)
        (map (\<lambda>pitch. tied_pitch_sounding_end_beat env event pitch events) (ev_pitches event))))"

definition entry_group_end_beat :: "practice_env \<Rightarrow> PracticeScoreTimeline \<Rightarrow> string \<Rightarrow> rat option" where
  "entry_group_end_beat env timeline group_id =
     (case entry_group_for_id timeline group_id of
        None \<Rightarrow> None
      | Some found \<Rightarrow>
          let ends = map (\<lambda>e. event_sounding_end_beat env e (tm_events timeline))
                (List.map_filter (dict_of ev_id (tm_events timeline)) (eg_event_ids found))
          in if ends = [] then None else Some (round_beat env (Max (set ends))))"

end
