(* ===== verification/Practice_Musicxml.thy ===== *)
theory Practice_Musicxml
  imports Practice_Timeline
begin

text \<open>
  What \<open>score_timeline.py\<close> reads from the MusicXML of a score: the metadata of the notes and the segments of
  constant meter. A parsed XML element is an \<open>xml\<close> tree; a missing path or a file that cannot be parsed is
  \<open>None\<close>.
\<close>

datatype xml = Element (xml_tag: string) (xml_attrs: "(string \<times> string) list") (xml_text: "string option")
  (xml_children: "xml list")

definition xml_get :: "xml \<Rightarrow> string \<Rightarrow> string option" where
  "xml_get element name = map_of (xml_attrs element) name"

text \<open>\<open>tag.rsplit("}", 1)[-1]\<close>\<close>

definition local_name :: "string \<Rightarrow> string" where
  "local_name tag = rev (takeWhile (\<lambda>c. c \<noteq> CHR ''}'') (rev tag))"

definition direct_children_by_local_name :: "xml \<Rightarrow> string \<Rightarrow> xml list" where
  "direct_children_by_local_name element name =
     filter (\<lambda>child. local_name (xml_tag child) = name) (xml_children element)"

text \<open>\<open>element.find("{*}name")\<close> finds the first child of that local name.\<close>

definition xml_find :: "xml \<Rightarrow> string \<Rightarrow> xml option" where
  "xml_find element name = List.find (\<lambda>child. local_name (xml_tag child) = name) (xml_children element)"

definition child_text :: "xml \<Rightarrow> string \<Rightarrow> string" where
  "child_text parent name =
     (case xml_find parent name of
        None \<Rightarrow> []
      | Some child \<Rightarrow> (case xml_text child of None \<Rightarrow> [] | Some t \<Rightarrow> str_strip t))"

section \<open>Notes\<close>

definition tie_types_of :: "xml \<Rightarrow> string list" where
  "tie_types_of element =
     filter (\<lambda>t. t \<noteq> []) (map (\<lambda>tie. str_strip (case xml_get tie ''type'' of None \<Rightarrow> [] | Some t \<Rightarrow> t))
       (direct_children_by_local_name element ''tie''))"

definition semantic_locator_of :: "nat \<Rightarrow> nat \<Rightarrow> nat \<Rightarrow> string" where
  "semantic_locator_of part_index measure_index selectable_index =
     CHR ''p'' # str_of_int (int part_index) @ ''-m'' @ str_of_int (int measure_index) @ ''-e'' @
       str_of_int (int selectable_index)"

fun measure_metadata ::
  "nat \<Rightarrow> nat \<Rightarrow> string \<Rightarrow> nat \<Rightarrow> xml list \<Rightarrow> (string \<times> MusicXmlNoteMetadata) list" where
  "measure_metadata part_index measure_index measure_number selectable_index [] = []"
| "measure_metadata part_index measure_index measure_number selectable_index (element # elements) =
     (let tag = local_name (xml_tag element) in
      if tag \<notin> {''note'', ''forward''}
      then measure_metadata part_index measure_index measure_number selectable_index elements
      else
        let rest = measure_metadata part_index measure_index measure_number (Suc selectable_index) elements in
        if tag \<noteq> ''note'' then rest
        else (case xml_get element ''id'' of
            None \<Rightarrow> rest
          | Some note_id \<Rightarrow>
              if note_id = [] then rest
              else (note_id, \<lparr>md_staff_id = child_text element ''staff'', md_voice_id = child_text element ''voice'',
                md_measure_number = measure_number,
                md_semantic_locator = semantic_locator_of part_index measure_index (Suc selectable_index),
                md_tie_types = tie_types_of element\<rparr>) # rest))"

definition musicxml_note_metadata :: "xml option \<Rightarrow> string \<Rightarrow> MusicXmlNoteMetadata option" where
  "musicxml_note_metadata document note_id =
     (case document of
        None \<Rightarrow> None
      | Some score \<Rightarrow> map_option snd (dict_of fst
          (concat (map (\<lambda>(part_index, part).
             concat (map (\<lambda>(measure_index, bar).
               measure_metadata part_index measure_index
                 (case xml_get bar ''number'' of None \<Rightarrow> [] | Some n \<Rightarrow> n) 0 (xml_children bar))
               (List.enumerate 1 (direct_children_by_local_name part ''measure''))))
             (List.enumerate 1 (direct_children_by_local_name score ''part'')))) note_id))"

section \<open>Meters\<close>

definition positive_float_or_default :: "practice_env \<Rightarrow> string \<Rightarrow> rat \<Rightarrow> rat" where
  "positive_float_or_default env value fallback =
     (case parse_float env value of None \<Rightarrow> fallback | Some x \<Rightarrow> if x > 0 then x else fallback)"

definition positive_int_or_default :: "practice_env \<Rightarrow> string \<Rightarrow> int \<Rightarrow> int" where
  "positive_int_or_default env value fallback =
     (case parse_int env value of None \<Rightarrow> fallback | Some x \<Rightarrow> if x > 0 then x else fallback)"

definition measure_duration_beats :: "practice_env \<Rightarrow> PracticeMeterSegment \<Rightarrow> rat" where
  "measure_duration_beats env segment =
     round_beat env (fl_div env (fl_mul env (of_int (ms_numerator segment)) 4) (of_int (ms_denominator segment)))"

definition count_in_pulses :: "PracticeMeterSegment \<Rightarrow> int" where
  "count_in_pulses segment = ms_numerator segment"

definition default_meter_segment :: PracticeMeterSegment where
  "default_meter_segment = \<lparr>ms_start_beat = 0, ms_numerator = 4, ms_denominator = 4, ms_source = DEFAULT_4_4\<rparr>"

definition duration_beats_of :: "practice_env \<Rightarrow> xml \<Rightarrow> rat \<Rightarrow> rat" where
  "duration_beats_of env element divisions =
     (let duration = positive_float_or_default env (child_text element ''duration'') 0 in
      if duration \<le> 0 \<or> divisions \<le> 0 then 0 else round_beat env (fl_div env duration divisions))"

record meter_scan =
  mt_divisions :: rat
  mt_measure_duration :: rat
  mt_measure_start :: rat
  mt_segments :: "PracticeMeterSegment list"
  mt_cursor :: rat
  mt_extent :: rat

definition scan_attributes :: "practice_env \<Rightarrow> xml \<Rightarrow> meter_scan \<Rightarrow> meter_scan" where
  "scan_attributes env element st =
     (let divisions_text = child_text element ''divisions'';
          st1 = (if divisions_text = [] then st
                 else st\<lparr>mt_divisions := positive_float_or_default env divisions_text (mt_divisions st)\<rparr>)
      in case xml_find element ''time'' of
           None \<Rightarrow> st1
         | Some time \<Rightarrow>
             let numerator = positive_int_or_default env (child_text time ''beats'') 0;
                 denominator = positive_int_or_default env (child_text time ''beat-type'') 0
             in if numerator > 0 \<and> denominator > 0
                then let meter = \<lparr>ms_start_beat = round_beat env (mt_measure_start st1), ms_numerator = numerator,
                       ms_denominator = denominator, ms_source = MUSICXML\<rparr>
                     in st1\<lparr>mt_measure_duration := measure_duration_beats env meter,
                            mt_segments := mt_segments st1 @ [meter]\<rparr>
                else st1)"

definition scan_element :: "practice_env \<Rightarrow> meter_scan \<Rightarrow> xml \<Rightarrow> meter_scan" where
  "scan_element env st element =
     (let tag = local_name (xml_tag element) in
      if tag = ''attributes'' then scan_attributes env element st
      else if tag \<in> {''note'', ''forward''}
      then let cursor = fl_add env (mt_cursor st) (duration_beats_of env element (mt_divisions st))
           in st\<lparr>mt_cursor := cursor, mt_extent := max (mt_extent st) cursor\<rparr>
      else if tag = ''backup''
      then st\<lparr>mt_cursor := max 0 (fl_sub env (mt_cursor st) (duration_beats_of env element (mt_divisions st)))\<rparr>
      else st)"

definition scan_measure :: "practice_env \<Rightarrow> meter_scan \<Rightarrow> xml \<Rightarrow> meter_scan" where
  "scan_measure env st bar =
     (let st1 = foldl (scan_element env) (st\<lparr>mt_cursor := 0, mt_extent := 0\<rparr>) (xml_children bar)
      in st1\<lparr>mt_measure_start := fl_add env (mt_measure_start st1)
           (if mt_extent st1 > 0 then mt_extent st1 else mt_measure_duration st1)\<rparr>)"

definition musicxml_meter_segments :: "practice_env \<Rightarrow> xml option \<Rightarrow> PracticeMeterSegment list" where
  "musicxml_meter_segments env document =
     (case document of
        None \<Rightarrow> []
      | Some score \<Rightarrow>
          (case direct_children_by_local_name score ''part'' of
             [] \<Rightarrow> []
           | first_part # _ \<Rightarrow>
               let st = foldl (scan_measure env)
                     \<lparr>mt_divisions = 1, mt_measure_duration = measure_duration_beats env default_meter_segment,
                      mt_measure_start = 0, mt_segments = [], mt_cursor = 0, mt_extent = 0\<rparr>
                     (direct_children_by_local_name first_part ''measure'');
                   segments = mt_segments st
               in List.map_filter (dict_of ms_start_beat segments)
                    (sort (fromkeys (map ms_start_beat segments)))))"

text \<open>\<open>meter_at\<close>: the last segment in order that starts at or before the beat; the loop stops at the first
  that starts later.\<close>

fun active_segment :: "rat \<Rightarrow> PracticeMeterSegment \<Rightarrow> PracticeMeterSegment list \<Rightarrow> PracticeMeterSegment" where
  "active_segment bounded active [] = active"
| "active_segment bounded active (segment # segments) =
     (if ms_start_beat segment > bounded then active else active_segment bounded segment segments)"

definition meter_at :: "PracticeScoreTimeline \<Rightarrow> rat \<Rightarrow> PracticeMeterSegment" where
  "meter_at timeline beat =
     (case tm_meter_segments timeline of
        [] \<Rightarrow> default_meter_segment
      | first # _ \<Rightarrow> active_segment (max 0 beat) first (tm_meter_segments timeline))"

definition count_in_duration_beats_at :: "practice_env \<Rightarrow> PracticeScoreTimeline \<Rightarrow> rat \<Rightarrow> rat" where
  "count_in_duration_beats_at env timeline beat = measure_duration_beats env (meter_at timeline beat)"

definition count_in_pulses_at :: "PracticeScoreTimeline \<Rightarrow> rat \<Rightarrow> int" where
  "count_in_pulses_at timeline beat = count_in_pulses (meter_at timeline beat)"

text \<open>The timeline of a score.\<close>

definition score_timeline :: "practice_env \<Rightarrow> xml option \<Rightarrow> NoteArray \<Rightarrow> PracticeScoreTimeline" where
  "score_timeline env document note_array =
     timeline_from_note_array env (musicxml_note_metadata document) (musicxml_meter_segments env document) note_array"

end
