(* ===== verification/Follow_Policy.thy ===== *)
theory Follow_Policy
  imports Practice_Timeline
begin

text \<open>
  How a practice session that waits for each note moves on: the evaluation of what was played against the
  expected group (\<open>expected_event_evaluator.py\<close>) and the policy that keeps the current position
  (\<open>follow_policy.py\<close>), both in \<open>backend/app/processing/engines/practice_alignment\<close>. The policy object is
  its state; a method that moves returns the new state.
\<close>

section \<open>Evaluation\<close>

datatype EvaluationResult = MATCH | PARTIAL | MISMATCH | UNCERTAIN | SKIPPED

datatype ObservationSource = AUDIO | MIDI | SYNTHETIC

record EvaluatorEvidence =
  observed_pitches :: "string list"
  ee_confidence :: rat
  ee_source :: ObservationSource
  ee_onset_beat :: "rat option"
  ee_alignment_beat :: "rat option"

record PracticeEventEvaluation =
  pe_expected_group_id :: string
  pe_result :: EvaluationResult
  matched_pitches :: "string list"
  missing_pitches :: "string list"
  extra_pitches :: "string list"
  pe_confidence :: rat
  evaluator_version :: string

record ExpectedEventEvaluator =
  confidence_threshold :: rat
  version_name :: string

definition evaluation_of ::
  "ExpectedEventEvaluator \<Rightarrow> ExpectedPracticeGroup \<Rightarrow> EvaluationResult \<Rightarrow> string list \<Rightarrow> string list \<Rightarrow>
   string list \<Rightarrow> rat \<Rightarrow> PracticeEventEvaluation" where
  "evaluation_of evaluator expected result matched missing extra confidence =
     \<lparr>pe_expected_group_id = xg_id expected, pe_result = result, matched_pitches = matched,
      missing_pitches = missing, extra_pitches = extra, pe_confidence = confidence,
      evaluator_version = version_name evaluator\<rparr>"

definition evaluate ::
  "ExpectedEventEvaluator \<Rightarrow> ExpectedPracticeGroup \<Rightarrow> EvaluatorEvidence \<Rightarrow> PracticeEventEvaluation" where
  "evaluate evaluator expected evidence =
     (let expected_pitches = fromkeys (xg_pitches expected); observed = fromkeys (observed_pitches evidence) in
      if expected_pitches = [] \<or> observed = [] \<or> ee_confidence evidence < confidence_threshold evaluator
      then evaluation_of evaluator expected UNCERTAIN [] expected_pitches [] (ee_confidence evidence)
      else
        let matched = filter (\<lambda>p. p \<in> set observed) expected_pitches;
            missing = filter (\<lambda>p. p \<notin> set observed) expected_pitches;
            extra = filter (\<lambda>p. p \<notin> set expected_pitches) observed;
            result = (if missing = [] \<and> extra = [] then MATCH
                      else if matched \<noteq> [] \<and> extra = [] then PARTIAL else MISMATCH)
        in evaluation_of evaluator expected result matched missing extra (ee_confidence evidence))"

section \<open>Decisions\<close>

datatype AlignmentAction = Advance | Hold | Wait | Skip

datatype AlignmentReason =
  stable_match | partial_match | insufficient_input | entry_mismatch | low_alignment_confidence |
  holding_position | reacquiring | large_jump | practice_paused | practice_finished | connection_closed |
  user_skipped

datatype PracticeExperienceState =
  waiting_for_input | listening | following | partially_matched | heard_but_uncertain |
  possible_wrong_note | recovering | lost | paused | skipped

record PracticeDisplayAnchor =
  an_beat :: rat
  an_event_id :: string
  an_group_id :: string
  an_render_note_ids :: "string list"

record PracticeConfidenceSummary =
  cs_visual :: rat
  cs_alignment :: rat
  cs_audio :: rat
  cs_continuity :: rat
  cs_validation :: rat
  cs_input_policy :: rat

text \<open>The keys of a decision that are added when an attempt's outcome is attached.\<close>

datatype AttemptLifecycleState = Pending | Resolved

record AttemptDecisionKeys =
  ad_attempt_state :: AttemptLifecycleState
  ad_attempt_id :: string
  ad_attempt_sequence :: int
  ad_attempt_started_at_ms :: int
  ad_attempt_resolved_at_ms :: "int option"
  ad_evaluator_version :: string
  ad_policy_profile_version :: string
  ad_evaluation_result :: EvaluationResult
  ad_matched_pitches :: "string list"
  ad_missing_pitches :: "string list"
  ad_extra_pitches :: "string list"

record AlignmentDecision =
  de_action :: AlignmentAction
  de_reason :: AlignmentReason
  de_experience_state :: PracticeExperienceState
  de_display_anchor :: "PracticeDisplayAnchor option"
  de_confidence_summary :: PracticeConfidenceSummary
  de_attempt :: "AttemptDecisionKeys option"

definition decision_of ::
  "AlignmentAction \<Rightarrow> AlignmentReason \<Rightarrow> PracticeExperienceState \<Rightarrow> PracticeDisplayAnchor option \<Rightarrow>
   PracticeConfidenceSummary \<Rightarrow> AlignmentDecision" where
  "decision_of action reason state anchor summary =
     \<lparr>de_action = action, de_reason = reason, de_experience_state = state, de_display_anchor = anchor,
      de_confidence_summary = summary, de_attempt = None\<rparr>"

definition anchor_from_expected_group :: "'a float_ops_scheme \<Rightarrow> ExpectedPracticeGroup \<Rightarrow> PracticeDisplayAnchor" where
  "anchor_from_expected_group fl g =
     \<lparr>an_beat = py_round fl 3 (xg_onset_beat g),
      an_event_id = (case xg_event_ids g of [] \<Rightarrow> xg_id g | e # _ \<Rightarrow> e),
      an_group_id = xg_id g, an_render_note_ids = xg_render_note_ids g\<rparr>"

section \<open>The policy\<close>

record FollowPolicy =
  fp_expected_groups :: "ExpectedPracticeGroup list"
  fp_attack_steps :: "PracticeAttackStep list"
  fp_evaluator :: ExpectedEventEvaluator
  fp_start_index :: int
  fp_end_index :: int
  fp_current_index :: int

text \<open>The constructor's check that the groups and the steps of the timeline are the same in order.\<close>

fun pair_mismatch :: "(ExpectedPracticeGroup \<times> PracticeAttackStep) list \<Rightarrow> practice_error option" where
  "pair_mismatch [] = None"
| "pair_mismatch ((g, step) # pairs) =
     (if xg_onset_beat g \<noteq> as_onset_beat step
      then Some (ValueError ''Expected practice group and practice attack step onset mismatch'')
      else if set (xg_pitches g) \<noteq> set (map at_pitch (as_attack_targets step))
      then Some (ValueError ''Expected practice group pitches and practice attack target pitches mismatch'')
      else pair_mismatch pairs)"

definition validate_attack_step_pairing ::
  "ExpectedPracticeGroup list \<Rightarrow> PracticeAttackStep list \<Rightarrow> practice_error option" where
  "validate_attack_step_pairing groups steps =
     (if length groups \<noteq> length steps
      then Some (ValueError ''Expected practice groups and practice attack steps must have the same length.'')
      else pair_mismatch (zip groups steps))"

fun group_index_from :: "int \<Rightarrow> string \<Rightarrow> ExpectedPracticeGroup list \<Rightarrow> int option" where
  "group_index_from i group_id [] = None"
| "group_index_from i group_id (g # gs) =
     (if xg_id g = group_id then Some i else group_index_from (i + 1) group_id gs)"

definition group_index :: "ExpectedPracticeGroup list \<Rightarrow> string \<Rightarrow> practice_error + int" where
  "group_index groups group_id =
     (case group_index_from 0 group_id groups of
        None \<Rightarrow> Inl (PracticeScopeTargetNotFound group_id) | Some i \<Rightarrow> Inr i)"

definition start_index :: "ExpectedPracticeGroup list \<Rightarrow> string option \<Rightarrow> practice_error + int" where
  "start_index groups group_id = (case group_id of None \<Rightarrow> Inr 0 | Some g \<Rightarrow> group_index groups g)"

definition end_index :: "ExpectedPracticeGroup list \<Rightarrow> string option \<Rightarrow> practice_error + int" where
  "end_index groups group_id =
     (case group_id of None \<Rightarrow> Inr (int (length groups) - 1) | Some g \<Rightarrow> group_index groups g)"

definition WAIT_FOR_NOTE_CONFIDENCE :: rat where "WAIT_FOR_NOTE_CONFIDENCE = 3 / 4"

definition expected_event_evaluator :: "rat \<Rightarrow> ExpectedEventEvaluator" where
  "expected_event_evaluator threshold = \<lparr>confidence_threshold = threshold, version_name = ''expected-event-v1''\<rparr>"

definition new_follow_policy ::
  "practice_env \<Rightarrow> PracticeScoreTimeline \<Rightarrow> string option \<Rightarrow> string option \<Rightarrow> practice_error + FollowPolicy" where
  "new_follow_policy env timeline start_group end_group =
     (case expected_practice_groups timeline of
        Inl e \<Rightarrow> Inl e
      | Inr groups \<Rightarrow>
          (case build_practice_attack_steps env (tm_events timeline) of
             Inl e \<Rightarrow> Inl e
           | Inr steps \<Rightarrow>
               (case validate_attack_step_pairing groups steps of
                  Some e \<Rightarrow> Inl e
                | None \<Rightarrow>
                    (case start_index groups start_group of
                       Inl e \<Rightarrow> Inl e
                     | Inr s \<Rightarrow>
                         (case end_index groups end_group of
                            Inl e \<Rightarrow> Inl e
                          | Inr t \<Rightarrow>
                              if t < s then Inl PracticeScopeInvalidRange
                              else Inr \<lparr>fp_expected_groups = groups, fp_attack_steps = steps,
                                fp_evaluator = expected_event_evaluator WAIT_FOR_NOTE_CONFIDENCE,
                                fp_start_index = s, fp_end_index = t, fp_current_index = s\<rparr>)))))"

definition follow_policy_for_progression ::
  "practice_env \<Rightarrow> PracticeScoreTimeline \<Rightarrow> string \<Rightarrow> string option \<Rightarrow> string option \<Rightarrow>
   practice_error + FollowPolicy" where
  "follow_policy_for_progression env timeline progression_mode start_group end_group =
     (if progression_mode = ''WAIT_FOR_NOTE'' then new_follow_policy env timeline start_group end_group
      else Inl (ValueError (''Unsupported progression mode for live following: '' @ progression_mode)))"

definition current_expected_group :: "FollowPolicy \<Rightarrow> ExpectedPracticeGroup option" where
  "current_expected_group p =
     (if fp_current_index p > fp_end_index p then None
      else if fp_current_index p \<ge> int (length (fp_expected_groups p)) then None
      else Some (fp_expected_groups p ! nat (fp_current_index p)))"

definition current_attack_step :: "FollowPolicy \<Rightarrow> PracticeAttackStep option" where
  "current_attack_step p =
     (if fp_current_index p > fp_end_index p then None
      else if fp_current_index p \<ge> int (length (fp_attack_steps p)) then None
      else Some (fp_attack_steps p ! nat (fp_current_index p)))"

definition scope_start_beat :: "FollowPolicy \<Rightarrow> rat option" where
  "scope_start_beat p =
     (if fp_expected_groups p = [] then None
      else Some (xg_onset_beat (fp_expected_groups p ! nat (fp_start_index p))))"

definition scope_end_beat :: "FollowPolicy \<Rightarrow> rat option" where
  "scope_end_beat p =
     (if fp_expected_groups p = [] then None
      else Some (xg_onset_beat (fp_expected_groups p ! nat (fp_end_index p))))"

definition no_groups_left :: practice_error where
  "no_groups_left = ValueError ''Wait For Note policy has no remaining expected groups.''"

definition evaluate_evidence :: "FollowPolicy \<Rightarrow> EvaluatorEvidence \<Rightarrow> practice_error + PracticeEventEvaluation" where
  "evaluate_evidence p evidence =
     (case current_expected_group p of
        None \<Rightarrow> Inl no_groups_left | Some g \<Rightarrow> Inr (evaluate (fp_evaluator p) g evidence))"

text \<open>\<open>decide\<close>: the update is given by its state, whether audio is active, and its confidence summary.\<close>

definition decide ::
  "'a float_ops_scheme \<Rightarrow> FollowPolicy \<Rightarrow> string \<Rightarrow> bool \<Rightarrow> PracticeConfidenceSummary \<Rightarrow> AlignmentDecision" where
  "decide fl p match_state audio_active summary =
     (case current_expected_group p of
        None \<Rightarrow> decision_of Hold stable_match following None summary
      | Some g \<Rightarrow>
          let anchor = Some (anchor_from_expected_group fl g) in
          if match_state = ''lost'' then decision_of Hold reacquiring lost anchor summary
          else if \<not> audio_active \<or> match_state \<in> {''holding_decay'', ''no_input''}
          then decision_of Wait insufficient_input waiting_for_input anchor summary
          else decision_of Wait insufficient_input listening anchor summary)"

text \<open>The anchor shown after the position moved on from a group: the next one, or that group at the end.\<close>

definition moved_anchor :: "'a float_ops_scheme \<Rightarrow> FollowPolicy \<Rightarrow> ExpectedPracticeGroup \<Rightarrow> PracticeDisplayAnchor" where
  "moved_anchor fl p' g =
     (case current_expected_group p' of
        Some n \<Rightarrow> anchor_from_expected_group fl n | None \<Rightarrow> anchor_from_expected_group fl g)"

definition decide_evaluation ::
  "'a float_ops_scheme \<Rightarrow> FollowPolicy \<Rightarrow> EvaluatorEvidence \<Rightarrow> PracticeEventEvaluation \<Rightarrow>
   (practice_error + AlignmentDecision) \<times> FollowPolicy" where
  "decide_evaluation fl p evidence evaluation =
     (case current_expected_group p of
        None \<Rightarrow> (Inl no_groups_left, p)
      | Some g \<Rightarrow>
          let confidence = py_round fl 3 (ee_confidence evidence);
              summary = \<lparr>cs_visual = confidence,
                cs_alignment = (if ee_alignment_beat evidence \<noteq> None then py_round fl 3 1 else confidence),
                cs_audio = (if ee_source evidence = AUDIO then confidence else py_round fl 3 1),
                cs_continuity = 1, cs_validation = confidence, cs_input_policy = confidence\<rparr>;
              anchor = Some (anchor_from_expected_group fl g)
          in case pe_result evaluation of
               MATCH \<Rightarrow>
                 let p' = p\<lparr>fp_current_index := fp_current_index p + 1\<rparr>
                 in (Inr (decision_of Advance stable_match following (Some (moved_anchor fl p' g)) summary), p')
             | UNCERTAIN \<Rightarrow>
                 (Inr (decision_of Wait low_alignment_confidence heard_but_uncertain anchor summary), p)
             | PARTIAL \<Rightarrow> (Inr (decision_of Wait partial_match partially_matched anchor summary), p)
             | _ \<Rightarrow> (Inr (decision_of Hold entry_mismatch possible_wrong_note anchor summary), p))"

definition policy_reset :: "FollowPolicy \<Rightarrow> FollowPolicy" where
  "policy_reset p = p\<lparr>fp_current_index := fp_start_index p\<rparr>"

definition full_confidence :: PracticeConfidenceSummary where
  "full_confidence = \<lparr>cs_visual = 1, cs_alignment = 1, cs_audio = 1, cs_continuity = 1, cs_validation = 1,
     cs_input_policy = 1\<rparr>"

definition skip_current_group ::
  "'a float_ops_scheme \<Rightarrow> FollowPolicy \<Rightarrow> (practice_error + AlignmentDecision) \<times> FollowPolicy" where
  "skip_current_group fl p =
     (case current_expected_group p of
        None \<Rightarrow> (Inl no_groups_left, p)
      | Some g \<Rightarrow>
          let p' = p\<lparr>fp_current_index := fp_current_index p + 1\<rparr>
          in (Inr (decision_of Skip user_skipped skipped (Some (moved_anchor fl p' g)) full_confidence), p'))"

end
