(* ===== verification/Practice_Attempts.thy ===== *)
theory Practice_Attempts
  imports Follow_Policy
begin

text \<open>
  The attempts of a practice session: their identity and life (\<open>attempt_lifecycle.py\<close>), the outcomes made of
  them and the buffer of resolved ones (\<open>attempt_assembler.py\<close>), and the update that an engine returns
  (\<open>contracts.py\<close>, \<open>alignment_metrics.py\<close>), all in
  \<open>backend/app/processing/engines/practice_alignment\<close>. A fresh attempt id (\<open>uuid4\<close>) is an argument.
\<close>

section \<open>Life of an attempt\<close>

record PracticeAttemptSnapshot =
  sp_attempt_id :: string
  sp_attempt_sequence :: int
  sp_expected_group_id :: string
  sp_started_at_ms :: int
  sp_state :: AttemptLifecycleState
  sp_resolved_at_ms :: "int option"

record PracticeAttemptLifecycle =
  next_sequence :: int
  current_attempt :: "PracticeAttemptSnapshot option"

definition new_lifecycle :: PracticeAttemptLifecycle where
  "new_lifecycle = \<lparr>next_sequence = 1, current_attempt = None\<rparr>"

definition attempt_pending :: "PracticeAttemptLifecycle \<Rightarrow> bool" where
  "attempt_pending lc \<longleftrightarrow> (\<exists>s. current_attempt lc = Some s \<and> sp_state s = Pending)"

definition attempt_begin :: "string \<Rightarrow> string \<Rightarrow> int \<Rightarrow> PracticeAttemptLifecycle \<Rightarrow> PracticeAttemptLifecycle" where
  "attempt_begin new_id group_id timestamp_ms lc =
     (case current_attempt lc of
        Some s \<Rightarrow>
          if sp_state s = Pending then lc
          else \<lparr>next_sequence = next_sequence lc + 1,
                current_attempt = Some \<lparr>sp_attempt_id = new_id, sp_attempt_sequence = next_sequence lc,
                  sp_expected_group_id = group_id, sp_started_at_ms = timestamp_ms, sp_state = Pending,
                  sp_resolved_at_ms = None\<rparr>\<rparr>
      | None \<Rightarrow>
          \<lparr>next_sequence = next_sequence lc + 1,
           current_attempt = Some \<lparr>sp_attempt_id = new_id, sp_attempt_sequence = next_sequence lc,
             sp_expected_group_id = group_id, sp_started_at_ms = timestamp_ms, sp_state = Pending,
             sp_resolved_at_ms = None\<rparr>\<rparr>)"

definition resolved_snapshot :: "int \<Rightarrow> PracticeAttemptSnapshot \<Rightarrow> PracticeAttemptSnapshot" where
  "resolved_snapshot timestamp_ms s =
     (if sp_state s = Resolved then s else s\<lparr>sp_state := Resolved, sp_resolved_at_ms := Some timestamp_ms\<rparr>)"

definition attempt_resolve :: "int \<Rightarrow> PracticeAttemptLifecycle \<Rightarrow> PracticeAttemptLifecycle" where
  "attempt_resolve timestamp_ms lc =
     lc\<lparr>current_attempt := map_option (resolved_snapshot timestamp_ms) (current_attempt lc)\<rparr>"

definition clear_current :: "PracticeAttemptLifecycle \<Rightarrow> PracticeAttemptLifecycle" where
  "clear_current lc = lc\<lparr>current_attempt := None\<rparr>"

section \<open>Outcomes\<close>

record PracticeAttemptOutcome =
  oc_snapshot :: PracticeAttemptSnapshot
  oc_evaluation :: PracticeEventEvaluation
  oc_policy_profile_version :: string

definition outcome_of :: "PracticeEventEvaluation \<Rightarrow> PracticeAttemptLifecycle \<Rightarrow> PracticeAttemptOutcome option" where
  "outcome_of evaluation lc =
     map_option (\<lambda>s. \<lparr>oc_snapshot = s, oc_evaluation = evaluation, oc_policy_profile_version = ''wait-for-note-v1''\<rparr>)
       (current_attempt lc)"

text \<open>\<open>pending\<close> and \<open>resolve\<close> of the assembler.\<close>

definition assembler_pending :: "PracticeEventEvaluation \<Rightarrow> PracticeAttemptLifecycle \<Rightarrow> PracticeAttemptOutcome option" where
  "assembler_pending evaluation lc = outcome_of evaluation lc"

definition assembler_resolve ::
  "PracticeEventEvaluation \<Rightarrow> int \<Rightarrow> PracticeAttemptLifecycle \<Rightarrow>
   PracticeAttemptOutcome option \<times> PracticeAttemptLifecycle" where
  "assembler_resolve evaluation timestamp_ms lc =
     (let lc' = attempt_resolve timestamp_ms lc in (outcome_of evaluation lc', lc'))"

definition attach_attempt_outcome :: "AlignmentDecision \<Rightarrow> PracticeAttemptOutcome option \<Rightarrow> AlignmentDecision" where
  "attach_attempt_outcome decision outcome =
     (case outcome of
        None \<Rightarrow> decision
      | Some oc \<Rightarrow>
          let s = oc_snapshot oc; ev = oc_evaluation oc
          in decision\<lparr>de_attempt := Some \<lparr>ad_attempt_state = sp_state s, ad_attempt_id = sp_attempt_id s,
               ad_attempt_sequence = sp_attempt_sequence s, ad_attempt_started_at_ms = sp_started_at_ms s,
               ad_attempt_resolved_at_ms = sp_resolved_at_ms s, ad_evaluator_version = evaluator_version ev,
               ad_policy_profile_version = oc_policy_profile_version oc, ad_evaluation_result = pe_result ev,
               ad_matched_pitches = matched_pitches ev, ad_missing_pitches = missing_pitches ev,
               ad_extra_pitches = extra_pitches ev\<rparr>\<rparr>)"

record ResolvedPracticeAttempt =
  ra_outcome :: PracticeAttemptOutcome
  ra_action :: AlignmentAction
  ra_resolution_reason :: AlignmentReason
  ra_experience_state :: PracticeExperienceState
  ra_display_anchor :: PracticeDisplayAnchor
  ra_measure_numbers :: "string list"
  ra_beat_position :: rat
  ra_confidence :: rat
  ra_timestamp_ms :: int
  ra_validation_confidence :: rat
  ra_input_policy_confidence :: rat

definition resolved_attempt_from_outcome ::
  "PracticeAttemptOutcome option \<Rightarrow> AlignmentDecision \<Rightarrow> PracticeDisplayAnchor \<Rightarrow> string list \<Rightarrow> rat \<Rightarrow> int \<Rightarrow>
   rat \<Rightarrow> rat \<Rightarrow> ResolvedPracticeAttempt option" where
  "resolved_attempt_from_outcome outcome decision anchor measure_numbers confidence timestamp_ms validation
     input_policy =
     (case outcome of
        None \<Rightarrow> None
      | Some oc \<Rightarrow>
          if sp_state (oc_snapshot oc) \<noteq> Resolved then None
          else Some \<lparr>ra_outcome = oc, ra_action = de_action decision, ra_resolution_reason = de_reason decision,
                 ra_experience_state = de_experience_state decision, ra_display_anchor = anchor,
                 ra_measure_numbers = measure_numbers, ra_beat_position = an_beat anchor,
                 ra_confidence = confidence, ra_timestamp_ms = timestamp_ms, ra_validation_confidence = validation,
                 ra_input_policy_confidence = input_policy\<rparr>)"

section \<open>Updates\<close>

record InputHealth =
  ih_available :: bool
  ih_level :: string
  ih_noise :: string
  ih_confidence :: rat

record AlignmentUpdate =
  au_beat_position :: rat
  au_confidence :: rat
  au_alignment_confidence :: rat
  au_audio_confidence :: rat
  au_continuity_confidence :: rat
  au_visual_confidence :: rat
  au_timestamp_ms :: int
  au_scope_completed :: bool
  au_completion_reason :: "string option"
  au_audio_active :: bool
  au_input_rms :: rat
  au_input_peak :: rat
  au_input_health :: InputHealth
  au_match_state :: string
  au_feature_confidence :: rat
  au_beat_delta :: "rat option"
  au_stream_state :: string
  au_frame_class :: string
  au_gate_reason :: string
  au_queue_decision :: string
  au_tonal_signal :: bool
  au_onset_signal :: bool
  au_spectral_flatness :: rat
  au_peak_prominence :: rat
  au_spectral_flux :: rat
  au_alignment_state :: string
  au_continuity_state :: string
  au_beat_velocity :: "rat option"
  au_validation_confidence :: rat
  au_input_weight :: rat
  au_input_policy_confidence :: rat
  au_decision :: AlignmentDecision

definition good_input_health :: InputHealth where
  "good_input_health = \<lparr>ih_available = True, ih_level = ''good'', ih_noise = ''good'', ih_confidence = 1\<rparr>"

definition completion_reason_of :: "bool \<Rightarrow> string option" where
  "completion_reason_of scope_completed = (if scope_completed then Some ''FINAL_EXPECTED_GROUP_MATCHED'' else None)"

text \<open>Appending to the buffer what an update resolved for a group.\<close>

definition append_for_expected_group ::
  "'a float_ops_scheme \<Rightarrow> PracticeAttemptOutcome option \<Rightarrow> AlignmentUpdate \<Rightarrow> ExpectedPracticeGroup \<Rightarrow>
   ResolvedPracticeAttempt list \<Rightarrow> ResolvedPracticeAttempt list" where
  "append_for_expected_group fl outcome update g buffer =
     (case resolved_attempt_from_outcome outcome (au_decision update) (anchor_from_expected_group fl g)
             (xg_measure_numbers g) (au_confidence update) (au_timestamp_ms update)
             (au_validation_confidence update) (au_input_policy_confidence update) of
        None \<Rightarrow> buffer | Some attempt \<Rightarrow> buffer @ [attempt])"

section \<open>Continuity\<close>

definition continuity_state :: "rat option \<Rightarrow> string" where
  "continuity_state beat_delta =
     (case beat_delta of
        None \<Rightarrow> ''initial''
      | Some d \<Rightarrow> if d < - (1 / 2) then ''rollback''
                  else if d < - (3602879701896397 / 36028797018963968) then ''minor_rollback''
                  else if d > 8 then ''large_jump'' else if d > 4 then ''jump'' else ''stable'')"

definition beat_velocity :: "'a float_ops_scheme \<Rightarrow> rat option \<Rightarrow> int \<Rightarrow> int option \<Rightarrow> rat option" where
  "beat_velocity fl beat_delta timestamp_ms previous_timestamp_ms =
     (case beat_delta of
        None \<Rightarrow> None
      | Some d \<Rightarrow>
          (case previous_timestamp_ms of
             None \<Rightarrow> None
           | Some previous \<Rightarrow>
               let elapsed_seconds = fl_div fl (of_int (timestamp_ms - previous)) 1000 in
               if elapsed_seconds \<le> 0 then None else Some (py_round fl 3 (fl_div fl d elapsed_seconds))))"

end
