(* ===== verification/Midi_Engine.thy ===== *)
theory Midi_Engine
  imports Practice_Attempts
begin

text \<open>
  The engine of a practice session played on a MIDI keyboard,
  \<open>backend/app/processing/engines/practice_alignment/midi_live.py\<close>. The engine object is its state; a call
  returns its result (an exception, no update, or an update) and the state it leaves, which is also the state
  after an exception. The set of held notes is a set of integers.
\<close>

record MidiEngine =
  me_score_end_beat :: rat
  me_policy :: FollowPolicy
  active_notes :: "int set"
  me_lifecycle :: PracticeAttemptLifecycle
  pending_outcome :: "PracticeAttemptOutcome option"
  pending_update :: "AlignmentUpdate option"
  me_resolved_attempts :: "ResolvedPracticeAttempt list"
  last_alignment :: "AlignmentUpdate option"
  last_timestamp_ms :: int
  me_closed :: bool

definition new_midi_engine ::
  "practice_env \<Rightarrow> PracticeScoreTimeline \<Rightarrow> string \<Rightarrow> string \<Rightarrow> string option \<Rightarrow> string option \<Rightarrow>
   practice_error + MidiEngine" where
  "new_midi_engine env timeline progression_mode input_source start_group end_group =
     (if input_source \<noteq> ''MIDI'' then Inl (RuntimeError ''MidiPracticeEngine requires MIDI input.'')
      else if progression_mode \<noteq> ''WAIT_FOR_NOTE''
      then Inl (RuntimeError ''MIDI practice currently supports WAIT_FOR_NOTE sessions.'')
      else if tm_first_playable_beat timeline = None
      then Inl (RuntimeError ''Practice score timeline contains no playable events.'')
      else (case follow_policy_for_progression env timeline progression_mode start_group end_group of
          Inl e \<Rightarrow> Inl e
        | Inr policy \<Rightarrow> Inr \<lparr>me_score_end_beat = tm_end_beat timeline, me_policy = policy, active_notes = {},
            me_lifecycle = new_lifecycle, pending_outcome = None, pending_update = None,
            me_resolved_attempts = [], last_alignment = None, last_timestamp_ms = 0, me_closed = False\<rparr>))"

text \<open>The update of a note, a skip or a completed scope.\<close>

definition midi_update ::
  "'a float_ops_scheme \<Rightarrow> rat \<Rightarrow> rat \<Rightarrow> int \<Rightarrow> bool \<Rightarrow> bool \<Rightarrow> string \<Rightarrow> string \<Rightarrow> string \<Rightarrow> rat \<Rightarrow> AlignmentDecision \<Rightarrow>
   AlignmentUpdate" where
  "midi_update fl beat confidence timestamp_ms completed active stream gate state weight decision =
     \<lparr>au_beat_position = py_round fl 3 beat, au_confidence = confidence, au_alignment_confidence = 1,
      au_audio_confidence = 1, au_continuity_confidence = 1, au_visual_confidence = confidence,
      au_timestamp_ms = timestamp_ms, au_scope_completed = completed,
      au_completion_reason = completion_reason_of completed, au_audio_active = active, au_input_rms = 0,
      au_input_peak = 0, au_input_health = good_input_health, au_match_state = ''matched'',
      au_feature_confidence = confidence, au_beat_delta = None, au_stream_state = stream,
      au_frame_class = ''unknown'', au_gate_reason = gate, au_queue_decision = gate, au_tonal_signal = active,
      au_onset_signal = active, au_spectral_flatness = 0, au_peak_prominence = 0, au_spectral_flux = 0,
      au_alignment_state = state, au_continuity_state = ''stable'', au_beat_velocity = None,
      au_validation_confidence = confidence, au_input_weight = weight, au_input_policy_confidence = 1,
      au_decision = decision\<rparr>"

definition midi_completed_update :: "'a float_ops_scheme \<Rightarrow> MidiEngine \<Rightarrow> AlignmentUpdate" where
  "midi_completed_update fl st =
     midi_update fl (me_score_end_beat st) 1 (last_timestamp_ms st) True True ''following'' ''midi_completed''
       ''matched'' 1 (decide fl (me_policy st) ''matched'' True full_confidence)"

text \<open>Where the display is after a decision for a group.\<close>

definition beat_after :: "ExpectedPracticeGroup \<Rightarrow> AlignmentDecision \<Rightarrow> rat" where
  "beat_after g decision =
     (case de_display_anchor decision of None \<Rightarrow> xg_onset_beat g | Some anchor \<Rightarrow> an_beat anchor)"

text \<open>\<open>_resolved_attempt_update\<close>: the pending update of an attempt that ended without a match.\<close>

definition resolved_attempt_update ::
  "'a float_ops_scheme \<Rightarrow> AlignmentUpdate \<Rightarrow> int \<Rightarrow> AlignmentReason option \<Rightarrow> MidiEngine \<Rightarrow>
   AlignmentUpdate \<times> MidiEngine" where
  "resolved_attempt_update fl update timestamp_ms reason st =
     (let decision = (case reason of None \<Rightarrow> au_decision update
            | Some r \<Rightarrow> (au_decision update)\<lparr>de_action := Hold, de_reason := r\<rparr>);
          (outcome, lc) = (case pending_outcome st of
              None \<Rightarrow> (None, me_lifecycle st)
            | Some oc \<Rightarrow> assembler_resolve (oc_evaluation oc) timestamp_ms (me_lifecycle st));
          resolved = update\<lparr>au_decision := attach_attempt_outcome decision outcome, au_timestamp_ms := timestamp_ms\<rparr>;
          buffer = (case current_expected_group (me_policy st) of
              None \<Rightarrow> me_resolved_attempts st
            | Some g \<Rightarrow> append_for_expected_group fl outcome resolved g (me_resolved_attempts st))
      in (resolved, st\<lparr>me_lifecycle := lc, me_resolved_attempts := buffer\<rparr>))"

definition midi_note_off ::
  "'a float_ops_scheme \<Rightarrow> int \<Rightarrow> int \<Rightarrow> MidiEngine \<Rightarrow> (practice_error + AlignmentUpdate option) \<times> MidiEngine" where
  "midi_note_off fl note_number timestamp_ms st =
     (let st1 = st\<lparr>active_notes := active_notes st - {note_number}\<rparr> in
      case pending_update st1 of
        None \<Rightarrow> (Inr None, st1)
      | Some update \<Rightarrow>
          if active_notes st1 \<noteq> {} then (Inr None, st1)
          else
            let (resolved, st2) = resolved_attempt_update fl update timestamp_ms None st1
            in (Inr (Some resolved), st2\<lparr>pending_update := None, last_alignment := Some resolved\<rparr>))"

definition midi_evidence :: "ExpectedPracticeGroup \<Rightarrow> int set \<Rightarrow> EvaluatorEvidence" where
  "midi_evidence g notes = \<lparr>observed_pitches = map midi_pitch_name (sorted_list_of_set notes), ee_confidence = 1,
     ee_source = MIDI, ee_onset_beat = Some (xg_onset_beat g), ee_alignment_beat = None\<rparr>"

definition midi_note_on ::
  "'a float_ops_scheme \<Rightarrow> string \<Rightarrow> int \<Rightarrow> int \<Rightarrow> MidiEngine \<Rightarrow>
   (practice_error + AlignmentUpdate option) \<times> MidiEngine" where
  "midi_note_on fl new_id note_number timestamp_ms st =
     (case current_expected_group (me_policy st) of
        None \<Rightarrow> (Inr (Some (midi_completed_update fl st)), st)
      | Some g \<Rightarrow>
          let lc1 = (if active_notes st = {} then attempt_begin new_id (xg_id g) timestamp_ms (me_lifecycle st)
                     else me_lifecycle st);
              st1 = st\<lparr>me_lifecycle := lc1, active_notes := insert note_number (active_notes st)\<rparr>;
              evidence = midi_evidence g (active_notes st1)
          in (case evaluate_evidence (me_policy st1) evidence of
                Inl e \<Rightarrow> (Inl e, st1)
              | Inr evaluation \<Rightarrow>
                  let (outcome, lc2) = (if pe_result evaluation = MATCH then assembler_resolve evaluation timestamp_ms lc1
                          else (assembler_pending evaluation lc1, lc1));
                      st2 = st1\<lparr>me_lifecycle := lc2\<rparr>
                  in (case decide_evaluation fl (me_policy st2) evidence evaluation of
                        (Inl e, p) \<Rightarrow> (Inl e, st2\<lparr>me_policy := p\<rparr>)
                      | (Inr decision0, p) \<Rightarrow>
                          let st3 = st2\<lparr>me_policy := p\<rparr>;
                              st4 = (if de_action decision0 = Advance
                                     then st3\<lparr>active_notes := {}, pending_update := None, pending_outcome := None\<rparr>
                                     else st3);
                              decision = attach_attempt_outcome decision0 outcome;
                              update = midi_update fl (beat_after g decision) (py_round fl 3 (pe_confidence evaluation))
                                timestamp_ms (current_expected_group p = None) True ''following'' ''midi_event''
                                ''matched'' 1 decision
                          in (case de_attempt decision of
                                None \<Rightarrow> (Inl (KeyError ''attempt_state''), st4)
                              | Some keys \<Rightarrow>
                                  let st5 = (if ad_attempt_state keys = Pending
                                        then st4\<lparr>pending_update := Some update, pending_outcome := outcome\<rparr> else st4)
                                  in (Inr (Some update), st5\<lparr>
                                        me_resolved_attempts :=
                                          append_for_expected_group fl outcome update g (me_resolved_attempts st5),
                                        last_alignment := Some update\<rparr>)))))"

definition midi_ingest_event ::
  "'a float_ops_scheme \<Rightarrow> string \<Rightarrow> bool \<Rightarrow> int \<Rightarrow> int \<Rightarrow> int \<Rightarrow> MidiEngine \<Rightarrow>
   (practice_error + AlignmentUpdate option) \<times> MidiEngine" where
  "midi_ingest_event fl new_id is_note_on note_number velocity timestamp_ms st =
     (if me_closed st then (Inl (RuntimeError ''MIDI practice engine is closed.''), st)
      else if note_number < 0 \<or> note_number > 127
      then (Inl (RuntimeError ''MIDI note_number must be between 0 and 127.''), st)
      else if velocity < 0 \<or> velocity > 127
      then (Inl (RuntimeError ''MIDI velocity must be between 0 and 127.''), st)
      else
        let st1 = st\<lparr>last_timestamp_ms := timestamp_ms\<rparr>
        in if \<not> is_note_on \<or> velocity = 0 then midi_note_off fl note_number timestamp_ms st1
           else midi_note_on fl new_id note_number timestamp_ms st1)"

definition midi_reset_input_buffer :: "MidiEngine \<Rightarrow> MidiEngine" where
  "midi_reset_input_buffer st = st\<lparr>active_notes := {}, me_lifecycle := clear_current (me_lifecycle st),
     pending_outcome := None, pending_update := None\<rparr>"

definition skip_evaluation :: "ExpectedPracticeGroup \<Rightarrow> PracticeEventEvaluation" where
  "skip_evaluation g = \<lparr>pe_expected_group_id = xg_id g, pe_result = SKIPPED, matched_pitches = [],
     missing_pitches = xg_pitches g, extra_pitches = [], pe_confidence = 1, evaluator_version = ''user-skip-v1''\<rparr>"

definition midi_skip_current_expected_group ::
  "'a float_ops_scheme \<Rightarrow> string \<Rightarrow> MidiEngine \<Rightarrow> (practice_error + AlignmentUpdate option) \<times> MidiEngine" where
  "midi_skip_current_expected_group fl new_id st =
     (if me_closed st then (Inl (RuntimeError ''MIDI practice engine is closed.''), st)
      else case current_expected_group (me_policy st) of
        None \<Rightarrow> (Inr (Some (midi_completed_update fl st)), st)
      | Some g \<Rightarrow>
          let st1 = midi_reset_input_buffer st;
              timestamp_ms = last_timestamp_ms st1;
              (outcome, lc) = assembler_resolve (skip_evaluation g) timestamp_ms
                (attempt_begin new_id (xg_id g) timestamp_ms (me_lifecycle st1));
              st2 = st1\<lparr>me_lifecycle := lc\<rparr>
          in (case skip_current_group fl (me_policy st2) of
                (Inl e, p) \<Rightarrow> (Inl e, st2\<lparr>me_policy := p\<rparr>)
              | (Inr decision0, p) \<Rightarrow>
                  let decision = attach_attempt_outcome decision0 outcome;
                      update = midi_update fl (beat_after g decision) 1 timestamp_ms (current_expected_group p = None)
                        False ''skipped'' ''user_skipped'' ''skipped'' 0 decision
                  in (Inr (Some update), st2\<lparr>me_policy := p,
                        me_resolved_attempts := append_for_expected_group fl outcome update g (me_resolved_attempts st2),
                        last_alignment := Some update\<rparr>)))"

definition midi_drain_resolved_practice_attempts :: "MidiEngine \<Rightarrow> ResolvedPracticeAttempt list \<times> MidiEngine" where
  "midi_drain_resolved_practice_attempts st = (me_resolved_attempts st, st\<lparr>me_resolved_attempts := []\<rparr>)"

definition midi_finalize_pending_practice_attempt ::
  "'a float_ops_scheme \<Rightarrow> AlignmentReason \<Rightarrow> MidiEngine \<Rightarrow> ResolvedPracticeAttempt list \<times> MidiEngine" where
  "midi_finalize_pending_practice_attempt fl reason st =
     (case pending_update st of
        None \<Rightarrow> midi_drain_resolved_practice_attempts (midi_reset_input_buffer st)
      | Some update \<Rightarrow>
          let (resolved, st1) = resolved_attempt_update fl update (last_timestamp_ms st) (Some reason) st
          in midi_drain_resolved_practice_attempts (st1\<lparr>pending_update := None, pending_outcome := None,
               active_notes := {}, me_lifecycle := clear_current (me_lifecycle st1), last_alignment := Some resolved\<rparr>))"

definition midi_close :: "'a float_ops_scheme \<Rightarrow> MidiEngine \<Rightarrow> MidiEngine" where
  "midi_close fl st = snd (midi_finalize_pending_practice_attempt fl connection_closed (st\<lparr>me_closed := True\<rparr>))"

end
