(* ===== verification/Midi_Names.thy ===== *)
theory Midi_Names
  imports Practice_Timeline
begin

text \<open>
  The names of the notes of a MIDI keyboard (\<open>_midi_pitch_name\<close> of \<open>score_timeline.py\<close> and of \<open>midi_live.py\<close>,
  which are the same function) are different for different notes, so that comparing sets of names compares
  sets of keys.
\<close>

definition midi_notes :: "int set" where
  "midi_notes = {0..127}"

lemma midi_names_distinct: "distinct (map midi_pitch_name [0..127])"
  by code_simp

lemma midi_names_inj: "inj_on midi_pitch_name midi_notes"
  using midi_names_distinct by (simp add: distinct_map midi_notes_def)

lemma midi_names_eq:
  "A \<subseteq> midi_notes \<Longrightarrow> B \<subseteq> midi_notes \<Longrightarrow> midi_pitch_name ` A = midi_pitch_name ` B \<longleftrightarrow> A = B"
  using midi_names_inj by (simp add: inj_on_image_eq_iff)

end
