(* ===== verification/Practice_Pairing.thy ===== *)
theory Practice_Pairing
  imports Follow_Policy
begin

text \<open>
  The groups of notes a player is expected to strike and the attack steps a microphone verifier listens for are
  computed by two separate routines of \<open>score_timeline.py\<close>, and the follow policy refuses a score on which they
  differ. Here both are compared with one description over the events, so that they agree on every timeline
  made from a note array.
\<close>

section \<open>Lists\<close>

lemma traverse_Inr: "(\<And>x. x \<in> set xs \<Longrightarrow> f x = Inr (g x)) \<Longrightarrow> traverse f xs = Inr (map g xs)"
  by (induction xs) auto

lemma map_filter_Some: "(\<And>x. x \<in> set xs \<Longrightarrow> f x = Some (g x)) \<Longrightarrow> List.map_filter f xs = map g xs"
  by (induction xs) (auto simp: map_filter_simps)

lemma map_filter_if: "List.map_filter (\<lambda>x. if P x then Some (g x) else None) xs = map g (filter P xs)"
  by (induction xs) (auto simp: map_filter_simps)

lemma map_filter_ident: "List.map_filter (\<lambda>x. x) (map f xs) = List.map_filter f xs"
  by (induction xs) (auto simp: map_filter_simps split: option.split)

lemma enumerate_member: "(i, x) \<in> set (List.enumerate n xs) \<Longrightarrow> x \<in> set xs"
  by (auto simp: in_set_enumerate_eq intro: nth_mem)

lemma insort_map: "insort_key fst (x, f x) (map (\<lambda>k. (k, f k)) ks) = map (\<lambda>k. (k, f k)) (insort x ks)"
  by (induction ks) auto

lemma sort_grouped:
  fixes key :: "'x \<Rightarrow> 'k :: linorder"
  shows "sort_key fst (group_into key xs) =
    map (\<lambda>k. (k, filter (\<lambda>x. key x = k) xs)) (sort (fromkeys (map key xs)))"
proof -
  have "sort_key fst (map (\<lambda>k. (k, f k)) ks) = map (\<lambda>k. (k, f k)) (sort ks)" for f :: "'k :: linorder \<Rightarrow> 'x list" and ks
    by (induction ks) (auto simp: insort_map)
  then show ?thesis by (simp add: group_into_eq)
qed

lemma sorted_onsets_filter:
  "filter (\<lambda>k. \<exists>x \<in> set xs. key x = k \<and> P x) (sort (fromkeys (map key xs))) =
   sort (fromkeys (map key (filter P xs)))"
  by (rule sorted_distinct_set_unique) (auto simp: sorted_filter [of "\<lambda>x. x", simplified] image_iff, metis)

lemma list_find_unique: "unique_column key xs \<Longrightarrow> x \<in> set xs \<Longrightarrow> List.find (\<lambda>y. key y = key x) xs = Some x"
proof -
  assume u: "unique_column key xs" and x: "x \<in> set xs"
  have "List.find (\<lambda>y. key y = key x) xs \<noteq> None" using x by (auto simp: find_None_iff)
  then obtain y where "List.find (\<lambda>y. key y = key x) xs = Some y" by blast
  moreover from this have "y \<in> set xs" "key y = key x" by (auto simp: find_Some_iff)
  moreover from this u x have "y = x" by (auto simp: unique_column_def distinct_map dest: inj_onD)
  ultimately show ?thesis by simp
qed

section \<open>Events\<close>

text \<open>What every event of a note array satisfies.\<close>

definition event_ok :: "PracticeScoreEvent \<Rightarrow> bool" where
  "event_ok e \<longleftrightarrow> ev_pitches e \<noteq> [] \<and> length (ev_pitches e) = length (ev_render_note_ids e)"

lemma event_from_notes_ok: "items \<noteq> [] \<Longrightarrow> event_ok (event_from_notes env index key items)"
  by (cases key) (simp add: event_ok_def Let_def)

lemma timeline_event_ok:
  assumes "e \<in> set (timeline_events env metadata note_array)"
  shows "event_ok e"
proof -
  let ?groups = "group_into (event_key_of env (na_names note_array))
    (map (\<lambda>note. \<lparr>tl_note = note, tl_metadata = metadata (nr_id note)\<rparr>) (na_rows note_array))"
  obtain i key items where e: "e = event_from_notes env i key items"
      and "(i, key, items) \<in> set (List.enumerate 0 (sort_key (\<lambda>item. event_sort_key (fst item)) ?groups))"
    using assms by (auto simp: timeline_events_def Let_def)
  then have "(key, items) \<in> set ?groups"
    by (auto dest: enumerate_member)
  then have "items \<noteq> []" by (auto simp: group_into_member filter_empty_conv)
  then show ?thesis unfolding e by (rule event_from_notes_ok)
qed

definition event_notes :: "PracticeScoreEvent \<Rightarrow> ExpectedPracticeNote list" where
  "event_notes e = map (\<lambda>(pitch, i). \<lparr>en_id = ev_id e @ '':'' @ i, en_event_id = ev_id e, en_pitch = pitch,
     en_render_note_id = i, en_measure_numbers = ev_measure_numbers e\<rparr>)
     (zip (ev_pitches e) (ev_render_note_ids e))"

definition event_step_notes :: "PracticeScoreEvent \<Rightarrow> PracticeStepNote list" where
  "event_step_notes e = map (\<lambda>(pitch, i). \<lparr>sn_id = ev_id e @ '':'' @ i, sn_event_id = ev_id e, sn_pitch = pitch,
     sn_render_note_id = i, sn_measure_numbers = ev_measure_numbers e, sn_staff_ids = ev_staff_ids e,
     sn_voice_ids = ev_voice_ids e\<rparr>)
     (zip (ev_pitches e) (ev_render_note_ids e))"

lemma notes_of_event:
  assumes "event_ok e"
  shows "expected_notes_for_event e = Inr (event_notes e)" and "step_notes_for_event e = Inr (event_step_notes e)"
    and "map en_pitch (event_notes e) = ev_pitches e" and "map sn_pitch (event_step_notes e) = ev_pitches e"
    and "event_step_notes e \<noteq> []"
proof -
  have len: "length (ev_pitches e) = length (ev_render_note_ids e)" using assms by (simp add: event_ok_def)
  show "expected_notes_for_event e = Inr (event_notes e)" "step_notes_for_event e = Inr (event_step_notes e)"
    using len by (simp_all add: expected_notes_for_event_def step_notes_for_event_def event_notes_def event_step_notes_def)
  have "map fst (zip (ev_pitches e) (ev_render_note_ids e)) = ev_pitches e" using len by simp
  then show pitches: "map en_pitch (event_notes e) = ev_pitches e" "map sn_pitch (event_step_notes e) = ev_pitches e"
    by (simp_all add: event_notes_def event_step_notes_def o_def case_prod_beta)
  then show "event_step_notes e \<noteq> []" using assms by (auto simp: event_ok_def)
qed

text \<open>The onsets at which something is struck, and what is struck there.\<close>

definition struck_onsets :: "PracticeScoreEvent list \<Rightarrow> rat list" where
  "struck_onsets events = sort (fromkeys (map ev_onset_beat (filter ev_entry_candidate events)))"

definition struck_at :: "PracticeScoreEvent list \<Rightarrow> rat \<Rightarrow> PracticeScoreEvent list" where
  "struck_at events onset = filter (\<lambda>e. ev_onset_beat e = onset) (filter ev_entry_candidate events)"

definition pitches_at :: "PracticeScoreEvent list \<Rightarrow> rat \<Rightarrow> string set" where
  "pitches_at events onset =
     (\<Union>e \<in> {e \<in> set events. ev_entry_candidate e \<and> ev_onset_beat e = onset}. set (ev_pitches e))"

lemma struck_onsets_facts [simp]: "sorted (struck_onsets events)" "distinct (struck_onsets events)"
  by (simp_all add: struck_onsets_def)

lemma struck_onsets_set:
  "set (struck_onsets events) = ev_onset_beat ` {e \<in> set events. ev_entry_candidate e}"
  by (simp_all add: struck_onsets_def)

section \<open>The two routines\<close>

lemma dict_events:
  assumes "unique_column ev_id events" and "set es \<subseteq> set events"
  shows "List.map_filter (dict_of ev_id events) (map ev_id es) = es"
  using assms(2) by (induction es) (auto simp: map_filter_simps dict_of_unique [OF assms(1)])

lemma build_entry_groups_eq:
  "build_entry_groups env events = map (\<lambda>onset.
     \<lparr>eg_id = stable_entry_group_id env onset (map ev_id (struck_at events onset)), eg_onset_beat = onset,
      eg_event_ids = map ev_id (struck_at events onset),
      eg_render_note_ids = fromkeys (concat (map ev_render_note_ids (struck_at events onset))),
      eg_entry_candidate = True\<rparr>) (struck_onsets events)"
  by (simp add: build_entry_groups_def sort_grouped struck_onsets_def struck_at_def)

lemma struck_at_facts:
  "set (struck_at events onset) = {e \<in> set events. ev_entry_candidate e \<and> ev_onset_beat e = onset}"
  "filter ev_entry_candidate (struck_at events onset) = struck_at events onset"
  "onset \<in> set (struck_onsets events) \<Longrightarrow> struck_at events onset \<noteq> []"
  by (auto simp: struck_at_def filter_empty_conv struck_onsets_set intro: filter_cong)

text \<open>The group expected at an onset.\<close>

lemma expected_groups_run:
  assumes ok: "\<And>e. e \<in> set events \<Longrightarrow> event_ok e" and ids: "unique_column ev_id events"
    and timeline: "tm_events timeline = events" "tm_entry_groups timeline = build_entry_groups env events"
    and group_ids: "unique_column eg_id (tm_entry_groups timeline)"
  shows "\<exists>f. expected_practice_groups timeline = Inr (map f (struck_onsets events)) \<and>
    (\<forall>onset \<in> set (struck_onsets events).
       xg_onset_beat (f onset) = onset \<and> set (xg_pitches (f onset)) = pitches_at events onset \<and>
       distinct (xg_pitches (f onset)) \<and>
       xg_id (f onset) = stable_entry_group_id env onset (map ev_id (struck_at events onset)) \<and>
       xg_event_ids (f onset) = map ev_id (struck_at events onset))"
proof -
  define mk where "mk onset = \<lparr>eg_id = stable_entry_group_id env onset (map ev_id (struck_at events onset)),
      eg_onset_beat = onset, eg_event_ids = map ev_id (struck_at events onset),
      eg_render_note_ids = fromkeys (concat (map ev_render_note_ids (struck_at events onset))),
      eg_entry_candidate = True\<rparr>" for onset
  have groups: "tm_entry_groups timeline = map mk (struck_onsets events)"
    by (simp add: timeline(2) build_entry_groups_eq mk_def)
  define f where "f onset = (let es = struck_at events onset; xs = concat (map event_notes es);
      ts = strike_targets_for_expected_notes (eg_id (mk onset)) xs in
      \<lparr>xg_id = eg_id (mk onset), xg_onset_beat = onset, xg_event_ids = map ev_id es, xg_expected_notes = xs,
       xg_strike_targets = ts, xg_render_note_ids = fromkeys (map en_render_note_id xs),
       xg_pitches = map st_pitch ts, xg_measure_numbers = fromkeys (concat (map ev_measure_numbers es)),
       xg_staff_ids = fromkeys (concat (map ev_staff_ids es)),
       xg_voice_ids = fromkeys (concat (map ev_voice_ids es))\<rparr>)" for onset
  have run: "expected_group_for_entry timeline (eg_id (mk onset)) = Inr (Some (f onset))"
    if onset: "onset \<in> set (struck_onsets events)" for onset
  proof -
    have "entry_group_for_id timeline (eg_id (mk onset)) = Some (mk onset)"
      unfolding entry_group_for_id_def by (rule list_find_unique [OF group_ids]) (use onset groups in simp)
    moreover have "List.map_filter (dict_of ev_id (tm_events timeline)) (eg_event_ids (mk onset)) = struck_at events onset"
      unfolding timeline(1) mk_def by (simp, rule dict_events [OF ids]) (auto simp: struck_at_facts)
    moreover have "traverse expected_notes_for_event (struck_at events onset) = Inr (map event_notes (struck_at events onset))"
      by (rule traverse_Inr) (use ok in \<open>auto simp: struck_at_facts notes_of_event(1)\<close>)
    ultimately show ?thesis
      using struck_at_facts(3) [OF onset]
      by (simp add: expected_group_for_entry_def f_def Let_def struck_at_facts(2)) (simp add: mk_def)
  qed
  have "traverse (\<lambda>g. expected_group_for_entry timeline (eg_id g)) (tm_entry_groups timeline) =
      Inr (map (\<lambda>g. Some (f (eg_onset_beat g))) (tm_entry_groups timeline))"
  proof (rule traverse_Inr)
    fix g assume "g \<in> set (tm_entry_groups timeline)"
    then obtain onset where "onset \<in> set (struck_onsets events)" "g = mk onset"
      unfolding groups set_map by blast
    then show "expected_group_for_entry timeline (eg_id g) = Inr (Some (f (eg_onset_beat g)))"
      using run by (simp add: mk_def)
  qed
  then have "expected_practice_groups timeline = Inr (map f (struck_onsets events))"
    by (simp add: expected_practice_groups_def groups o_def map_filter_ident map_filter_Some) (simp add: mk_def)
  moreover have "set (xg_pitches (f onset)) = pitches_at events onset" "distinct (xg_pitches (f onset))"
    if "onset \<in> set (struck_onsets events)" for onset
  proof -
    have "set (map en_pitch (concat (map event_notes (struck_at events onset)))) =
        (\<Union>e \<in> set (struck_at events onset). set (map en_pitch (event_notes e)))" by auto
    also have "\<dots> = (\<Union>e \<in> set (struck_at events onset). set (ev_pitches e))"
      by (rule SUP_cong [OF refl]) (use ok in \<open>simp add: struck_at_facts notes_of_event(3)\<close>)
    finally have "en_pitch ` set (concat (map event_notes (struck_at events onset))) = pitches_at events onset"
      by (simp only: set_map pitches_at_def struck_at_facts(1))
    moreover have "xg_pitches (f onset) =
        fromkeys (map en_pitch (concat (map event_notes (struck_at events onset))))"
      by (simp add: f_def Let_def strike_targets_for_expected_notes_def group_into_eq o_def)
    ultimately show "set (xg_pitches (f onset)) = pitches_at events onset" "distinct (xg_pitches (f onset))"
      by simp_all
  qed
  ultimately show ?thesis
    by (intro exI [of _ f]) (simp add: f_def mk_def Let_def)
qed

text \<open>The attack step at an onset.\<close>

lemma attack_steps_run:
  assumes ok: "\<And>e. e \<in> set events \<Longrightarrow> event_ok e"
  shows "\<exists>f. build_practice_attack_steps env events = Inr (map f (struck_onsets events)) \<and>
    (\<forall>onset \<in> set (struck_onsets events).
       as_onset_beat (f onset) = onset \<and>
       set (map at_pitch (as_attack_targets (f onset))) = pitches_at events onset)"
proof -
  define es where "es onset = sort_key onset_sort_key (filter (\<lambda>e. ev_onset_beat e = onset) events)" for onset
  define attacks where "attacks onset = concat (map event_step_notes (filter ev_entry_candidate (es onset)))" for onset
  define rest where "rest onset = concat (map event_step_notes (filter (\<lambda>e. \<not> ev_entry_candidate e) (es onset)))"
    for onset
  define f where "f onset = (let ids = map ev_id (es onset); step_id = stable_attack_step_id env onset ids;
      xs = attacks onset @ rest onset in
      \<lparr>as_id = step_id, as_onset_beat = onset, as_event_ids = ids,
       as_attack_targets = attack_targets_for_step_notes env (attacks onset) step_id,
       as_continuation = rest onset, as_render_note_ids = fromkeys (map sn_render_note_id xs),
       as_measure_numbers = fromkeys (concat (map sn_measure_numbers xs)),
       as_staff_ids = fromkeys (concat (map sn_staff_ids xs)),
       as_voice_ids = fromkeys (concat (map sn_voice_ids xs))\<rparr>)" for onset
  have es_set: "set (es onset) = {e \<in> set events. ev_onset_beat e = onset}" for onset by (simp add: es_def)
  have tr: "traverse step_notes_for_event (filter Q (es onset)) = Inr (map event_step_notes (filter Q (es onset)))"
    for Q onset
    by (rule traverse_Inr) (use ok es_set in \<open>simp add: notes_of_event(2)\<close>)
  have struck: "attacks onset \<noteq> [] \<longleftrightarrow> (\<exists>e \<in> set events. ev_onset_beat e = onset \<and> ev_entry_candidate e)" for onset
    using ok notes_of_event(5) by (auto simp: attacks_def es_set)
  have "attack_step_at env (onset, filter (\<lambda>e. ev_onset_beat e = onset) events) =
      Inr (if attacks onset \<noteq> [] then Some (f onset) else None)" for onset
    by (simp add: attack_step_at_def es_def [symmetric] tr f_def Let_def) (simp add: attacks_def rest_def)
  then have "traverse (attack_step_at env) (sort_key fst (group_into ev_onset_beat events)) =
      Inr (map (\<lambda>p. if attacks (fst p) \<noteq> [] then Some (f (fst p)) else None)
        (sort_key fst (group_into ev_onset_beat events)))"
    by (intro traverse_Inr) (auto simp: sort_grouped)
  then have "build_practice_attack_steps env events =
      Inr (List.map_filter (\<lambda>onset. if attacks onset \<noteq> [] then Some (f onset) else None)
        (sort (fromkeys (map ev_onset_beat events))))"
    by (simp add: build_practice_attack_steps_def sort_grouped o_def map_filter_ident cong: if_cong)
  also have "\<dots> = Inr (map f (struck_onsets events))"
    by (simp add: map_filter_if struck sorted_onsets_filter struck_onsets_def)
  finally have "build_practice_attack_steps env events = Inr (map f (struck_onsets events))" .
  moreover have "set (map at_pitch (as_attack_targets (f onset))) = pitches_at events onset" for onset
  proof -
    have "set (map at_pitch (as_attack_targets (f onset))) = sn_pitch ` set (attacks onset)"
      by (simp add: f_def Let_def attack_targets_for_step_notes_def group_into_eq o_def)
    also have "\<dots> = (\<Union>e \<in> set (filter ev_entry_candidate (es onset)). set (map sn_pitch (event_step_notes e)))"
      by (auto simp: attacks_def)
    also have "\<dots> = (\<Union>e \<in> set (filter ev_entry_candidate (es onset)). set (ev_pitches e))"
      by (rule SUP_cong [OF refl]) (use ok es_set in \<open>simp add: notes_of_event(4)\<close>)
    also have "\<dots> = pitches_at events onset" by (auto simp: pitches_at_def es_set)
    finally show ?thesis .
  qed
  moreover have "as_onset_beat (f onset) = onset" for onset by (simp add: f_def Let_def)
  ultimately show ?thesis by blast
qed

lemma pair_mismatch_maps:
  "(\<And>x. x \<in> set xs \<Longrightarrow> xg_onset_beat (f x) = as_onset_beat (g x) \<and>
      set (xg_pitches (f x)) = set (map at_pitch (as_attack_targets (g x)))) \<Longrightarrow>
   validate_attack_step_pairing (map f xs) (map g xs) = None"
  unfolding validate_attack_step_pairing_def by (induction xs) auto

section \<open>Identifiers of groups\<close>

text \<open>The id of a group contains its onset, and the digest at its end has always the same length.\<close>

lemma entry_group_id_inj:
  assumes sha: "\<And>x. length (sha1_hex env x) = 40"
    and eq: "stable_entry_group_id env a xs = stable_entry_group_id env b ys"
  shows "safe_id (float_repr env a) = safe_id (float_repr env b)"
proof -
  have len: "length (digest_of env parts) = 12" for parts by (simp add: digest_of_def sha)
  have "safe_id (float_repr env a) @ (CHR ''-'' # digest_of env (float_repr env a # xs)) =
      safe_id (float_repr env b) @ (CHR ''-'' # digest_of env (float_repr env b # ys))"
    using eq by (simp add: stable_entry_group_id_def)
  then show ?thesis by (subst (asm) append_eq_append_conv) (simp_all add: len)
qed

lemma entry_groups_unique:
  assumes sha: "\<And>x. length (sha1_hex env x) = 40"
    and repr: "inj_on (\<lambda>x. safe_id (float_repr env x)) (ev_onset_beat ` set events)"
  shows "unique_column eg_id (build_entry_groups env events)"
proof -
  have "inj_on (\<lambda>onset. stable_entry_group_id env onset (map ev_id (struck_at events onset)))
      (set (struck_onsets events))"
  proof (rule inj_onI)
    fix a b assume ab: "a \<in> set (struck_onsets events)" "b \<in> set (struck_onsets events)"
      and eq: "stable_entry_group_id env a (map ev_id (struck_at events a)) =
        stable_entry_group_id env b (map ev_id (struck_at events b))"
    from ab have "a \<in> ev_onset_beat ` set events" "b \<in> ev_onset_beat ` set events"
      by (auto simp: struck_onsets_set)
    with entry_group_id_inj [OF sha eq] repr show "a = b" by (auto dest: inj_onD)
  qed
  then show ?thesis by (simp add: unique_column_def build_entry_groups_eq o_def distinct_map)
qed

section \<open>Properties\<close>


text \<open>A score of two chords, one of them with a held note.\<close>

definition demo_env :: practice_env where
  "demo_env = \<lparr>nearest = (\<lambda>x. x), float_repr = (\<lambda>x. str_of_int \<lfloor>x\<rfloor>), float_sqrt = (\<lambda>x. x), float_half_power = (\<lambda>x. x), float_sum = sum_list, sha1_hex = (\<lambda>s. replicate 40 (CHR ''0'')),
     parse_float = (\<lambda>s. None), parse_int = (\<lambda>s. None)\<rparr>"

definition demo_metadata :: "string \<Rightarrow> MusicXmlNoteMetadata option" where
  "demo_metadata note_id = (if note_id = ''n3''
     then Some \<lparr>md_staff_id = [], md_voice_id = [], md_measure_number = ''1'', md_semantic_locator = ''p1-m1-e3'',
       md_tie_types = [''stop'']\<rparr> else None)"

definition demo_notes :: NoteArray where
  "demo_notes = \<lparr>na_names = [''onset_beat'', ''duration_beat'', ''pitch'', ''id''], na_rows =
     [\<lparr>nr_onset_beat = 0, nr_duration_beat = 1, nr_pitch = 60, nr_id = ''n1'', nr_voice = []\<rparr>,
      \<lparr>nr_onset_beat = 0, nr_duration_beat = 1, nr_pitch = 64, nr_id = ''n2'', nr_voice = []\<rparr>,
      \<lparr>nr_onset_beat = 1, nr_duration_beat = 1, nr_pitch = 60, nr_id = ''n3'', nr_voice = []\<rparr>,
      \<lparr>nr_onset_beat = 1, nr_duration_beat = 1, nr_pitch = 67, nr_id = ''n4'', nr_voice = []\<rparr>]\<rparr>"

definition demo_timeline :: PracticeScoreTimeline where
  "demo_timeline = timeline_from_note_array demo_env demo_metadata [] demo_notes"

lemma demo_timeline_ids:
  "map ev_id (tm_events demo_timeline) = [''event-0-1-i0'', ''event-1-1-i1'', ''event-1-1-p1-m1-e3'']"
  by code_simp

lemma demo_timeline_onsets: "map ev_onset_beat (tm_events demo_timeline) = [0, 1, 1]"
  by code_simp

lemma demo_struck_onsets: "struck_onsets (tm_events demo_timeline) = [0, 1]"
  by code_simp


end
