(* ===== verification/Practice_Progress.thy ===== *)
theory Practice_Progress
  imports Midi_Engine Midi_Names Practice_Pairing
begin

text \<open>
  What the evaluation of a played chord means, how the position of the follow policy moves, and what a MIDI
  session therefore does: no event a client may send makes the engine fail, the position advances exactly on
  the expected notes, and every attempt is recorded once.
\<close>

section \<open>Evaluation\<close>

lemma if_choice:
  "\<not> (z \<and> q) \<Longrightarrow> e = (p \<and> q) \<Longrightarrow>
   (if p \<and> q then a else if \<not> z \<and> q then b else c) = (if e then a else if q then b else c)"
  by auto

lemma evaluate_result:
  "pe_result (evaluate ev g e) =
     (if xg_pitches g = [] \<or> observed_pitches e = [] \<or> ee_confidence e < confidence_threshold ev then UNCERTAIN
      else if set (observed_pitches e) = set (xg_pitches g) then MATCH
      else if set (observed_pitches e) \<subseteq> set (xg_pitches g) then PARTIAL else MISMATCH)"
proof -
  let ?x = "fromkeys (xg_pitches g)" and ?o = "fromkeys (observed_pitches e)"
  have missing: "filter (\<lambda>p. p \<notin> set ?o) ?x = [] \<longleftrightarrow> set (xg_pitches g) \<subseteq> set (observed_pitches e)"
    by (auto simp: filter_empty_conv)
  have extra: "filter (\<lambda>p. p \<notin> set ?x) ?o = [] \<longleftrightarrow> set (observed_pitches e) \<subseteq> set (xg_pitches g)"
    by (auto simp: filter_empty_conv)
  have matched: "filter (\<lambda>p. p \<in> set ?o) ?x = [] \<longleftrightarrow> set (xg_pitches g) \<inter> set (observed_pitches e) = {}"
    by (auto simp: filter_empty_conv)
  show ?thesis
  proof (cases "xg_pitches g = [] \<or> observed_pitches e = [] \<or> ee_confidence e < confidence_threshold ev")
    case True
    then show ?thesis by (auto simp: evaluate_def evaluation_of_def)
  next
    case False
    then have r: "pe_result (evaluate ev g e) =
        (if filter (\<lambda>p. p \<notin> set ?o) ?x = [] \<and> filter (\<lambda>p. p \<notin> set ?x) ?o = [] then MATCH
         else if filter (\<lambda>p. p \<in> set ?o) ?x \<noteq> [] \<and> filter (\<lambda>p. p \<notin> set ?x) ?o = [] then PARTIAL else MISMATCH)"
      by (simp add: evaluate_def evaluation_of_def Let_def)
    have "set (observed_pitches e) \<noteq> {}" using False by simp
    then have "\<not> (set (xg_pitches g) \<inter> set (observed_pitches e) = {} \<and>
        set (observed_pitches e) \<subseteq> set (xg_pitches g))" using Int_absorb1 by metis
    moreover have "(set (observed_pitches e) = set (xg_pitches g)) =
        (set (xg_pitches g) \<subseteq> set (observed_pitches e) \<and> set (observed_pitches e) \<subseteq> set (xg_pitches g))" by (metis set_eq_subset)
    ultimately show ?thesis unfolding r missing extra matched if_not_P [OF False] by (rule if_choice)
  qed
qed

lemma evaluate_fields [simp]: "pe_confidence (evaluate ev g e) = ee_confidence e"
  by (simp add: evaluate_def evaluation_of_def Let_def)

section \<open>The position of the policy\<close>

definition policy_ok :: "FollowPolicy \<Rightarrow> bool" where
  "policy_ok p \<longleftrightarrow> 0 \<le> fp_start_index p \<and> fp_start_index p \<le> fp_current_index p \<and>
     fp_current_index p \<le> fp_end_index p + 1 \<and> fp_start_index p \<le> fp_end_index p \<and>
     fp_end_index p < int (length (fp_expected_groups p)) \<and>
     length (fp_attack_steps p) = length (fp_expected_groups p) \<and>
     (\<forall>g \<in> set (fp_expected_groups p). xg_pitches g \<noteq> []) \<and> confidence_threshold (fp_evaluator p) \<le> 1"

lemma current_group_iff:
  assumes "policy_ok p"
  shows "(current_expected_group p = None) = (fp_current_index p = fp_end_index p + 1)"
  using assms by (auto simp: policy_ok_def current_expected_group_def)

lemma current_group_member:
  assumes "policy_ok p" and "current_expected_group p = Some g"
  shows "g \<in> set (fp_expected_groups p)" and "xg_pitches g \<noteq> []" and "fp_current_index p \<le> fp_end_index p"
    and "g = fp_expected_groups p ! nat (fp_current_index p)"
proof -
  from assms have "0 \<le> fp_current_index p" "fp_current_index p < int (length (fp_expected_groups p))"
      and g: "g = fp_expected_groups p ! nat (fp_current_index p)" and "fp_current_index p \<le> fp_end_index p"
    by (auto simp: policy_ok_def current_expected_group_def split: if_splits)
  then show "g \<in> set (fp_expected_groups p)" "fp_current_index p \<le> fp_end_index p"
      "g = fp_expected_groups p ! nat (fp_current_index p)"
    by (simp_all add: nat_less_iff)
  with assms(1) show "xg_pitches g \<noteq> []" by (simp add: policy_ok_def)
qed

definition moved_on :: "FollowPolicy \<Rightarrow> FollowPolicy" where
  "moved_on p = p\<lparr>fp_current_index := fp_current_index p + 1\<rparr>"

lemma moved_on_ok: "policy_ok p \<Longrightarrow> current_expected_group p = Some g \<Longrightarrow> policy_ok (moved_on p)"
  using current_group_member(3) by (fastforce simp: policy_ok_def moved_on_def)

lemma policy_reset_ok: "policy_ok p \<Longrightarrow> policy_ok (policy_reset p)"
  by (auto simp: policy_ok_def policy_reset_def)

lemma decide_evaluation_run:
  assumes "current_expected_group p = Some g"
  shows "\<exists>decision. decide_evaluation fl p evidence evaluation =
      (Inr decision, if pe_result evaluation = MATCH then moved_on p else p) \<and>
    (de_action decision = Advance) = (pe_result evaluation = MATCH) \<and> de_action decision \<noteq> Skip \<and>
    de_display_anchor decision = Some (if pe_result evaluation = MATCH then moved_anchor fl (moved_on p) g
      else anchor_from_expected_group fl g)"
  using assms by (cases "pe_result evaluation") (simp_all add: decide_evaluation_def decision_of_def moved_on_def Let_def)

lemma skip_current_group_run:
  assumes "current_expected_group p = Some g"
  shows "skip_current_group fl p =
    (Inr (decision_of Skip user_skipped skipped (Some (moved_anchor fl (moved_on p) g)) full_confidence), moved_on p)"
  using assms by (simp add: skip_current_group_def moved_on_def Let_def)

lemma group_index_from_range:
  "group_index_from i group_id gs = Some j \<Longrightarrow>
   i \<le> j \<and> j < i + int (length gs) \<and> xg_id (gs ! nat (j - i)) = group_id"
proof (induction gs arbitrary: i)
  case Nil
  then show ?case by simp
next
  case (Cons g gs)
  show ?case
  proof (cases "xg_id g = group_id")
    case True
    with Cons.prems show ?thesis by simp
  next
    case False
    with Cons.prems have "group_index_from (i + 1) group_id gs = Some j" by simp
    from Cons.IH [OF this] have "i + 1 \<le> j" "j < i + 1 + int (length gs)" "xg_id (gs ! nat (j - (i + 1))) = group_id"
      by simp_all
    moreover from this(1) have "nat (j - i) = Suc (nat (j - (i + 1)))" by simp
    ultimately show ?thesis by simp
  qed
qed

lemma start_end_range:
  "start_index groups group_id = Inr i \<Longrightarrow> 0 \<le> i"
  "end_index groups group_id = Inr i \<Longrightarrow> i < int (length groups)"
  using group_index_from_range [of 0]
  by (fastforce simp: start_index_def end_index_def group_index_def split: option.splits)+

lemma new_follow_policy_ok:
  assumes "new_follow_policy env timeline s t = Inr p"
    and "\<And>groups. expected_practice_groups timeline = Inr groups \<Longrightarrow> \<forall>g \<in> set groups. xg_pitches g \<noteq> []"
  shows "policy_ok p"
proof -
  from assms(1) obtain groups steps i j where groups: "expected_practice_groups timeline = Inr groups"
      and pairing: "validate_attack_step_pairing groups steps = None"
      and ij: "start_index groups s = Inr i" "end_index groups t = Inr j" "\<not> j < i"
      and p: "p = \<lparr>fp_expected_groups = groups, fp_attack_steps = steps,
        fp_evaluator = expected_event_evaluator WAIT_FOR_NOTE_CONFIDENCE, fp_start_index = i, fp_end_index = j,
        fp_current_index = i\<rparr>"
    by (auto simp: new_follow_policy_def split: sum.splits option.splits if_splits)
  have "length groups = length steps" using pairing by (auto simp: validate_attack_step_pairing_def split: if_splits)
  with ij(3) start_end_range(1) [OF ij(1)] start_end_range(2) [OF ij(2)] assms(2) [OF groups] show ?thesis
    by (simp add: p policy_ok_def expected_event_evaluator_def WAIT_FOR_NOTE_CONFIDENCE_def)
qed

section \<open>The groups of a note array\<close>

lemma traverse_member: "traverse f xs = Inr ys \<Longrightarrow> y \<in> set ys \<Longrightarrow> \<exists>x \<in> set xs. f x = Inr y"
  by (induction xs arbitrary: ys) (auto split: sum.splits)

lemma expected_notes_pitches: "event_ok e \<Longrightarrow> expected_notes_for_event e = Inr ns \<Longrightarrow> ns \<noteq> []"
  using notes_of_event(1,3) by (force simp: event_ok_def)

lemma traverse_nonempty:
  "traverse f xs = Inr ys \<Longrightarrow> xs \<noteq> [] \<Longrightarrow> \<forall>x \<in> set xs. \<forall>y. f x = Inr y \<longrightarrow> y \<noteq> [] \<Longrightarrow> concat ys \<noteq> []"
  by (cases xs) (auto split: sum.splits)

lemma expected_group_cases:
  assumes "expected_group_for_entry timeline group_id = Inr (Some g)"
  obtains x :: PracticeEntryGroup and es noteses where
    "es = filter ev_entry_candidate (List.map_filter (dict_of ev_id (tm_events timeline)) (eg_event_ids x))"
    "es \<noteq> []" "traverse expected_notes_for_event es = Inr noteses"
    "xg_strike_targets g = strike_targets_for_expected_notes (eg_id x) (concat noteses)"
    "xg_pitches g = map st_pitch (xg_strike_targets g)"
proof -
  obtain x where x: "entry_group_for_id timeline group_id = Some x"
    using assms by (cases "entry_group_for_id timeline group_id") (simp_all add: expected_group_for_entry_def)
  let ?es = "filter ev_entry_candidate (List.map_filter (dict_of ev_id (tm_events timeline)) (eg_event_ids x))"
  have "?es \<noteq> []" using assms x by (auto simp: expected_group_for_entry_def Let_def split: if_splits)
  moreover obtain noteses where tr: "traverse expected_notes_for_event ?es = Inr noteses"
    using assms x \<open>?es \<noteq> []\<close>
    by (cases "traverse expected_notes_for_event ?es")
      (simp_all add: expected_group_for_entry_def Let_def split: if_splits)
  moreover have "xg_strike_targets g = strike_targets_for_expected_notes (eg_id x) (concat noteses)"
    "xg_pitches g = map st_pitch (xg_strike_targets g)"
    using assms x \<open>?es \<noteq> []\<close> tr by (auto simp: expected_group_for_entry_def Let_def split: if_splits)
  ultimately show ?thesis by (rule that [OF refl])
qed

lemma expected_group_notes:
  assumes run: "expected_practice_groups timeline = Inr groups" and "g \<in> set groups"
  obtains x :: PracticeEntryGroup and es noteses where
    "set es \<subseteq> set (tm_events timeline)" "es \<noteq> []" "traverse expected_notes_for_event es = Inr noteses"
    "xg_strike_targets g = strike_targets_for_expected_notes (eg_id x) (concat noteses)"
    "xg_pitches g = map st_pitch (xg_strike_targets g)"
proof -
  obtain found where found: "traverse (\<lambda>g. expected_group_for_entry timeline (eg_id g)) (tm_entry_groups timeline) =
      Inr found" "groups = List.map_filter (\<lambda>g. g) found"
    using run by (auto simp: expected_practice_groups_def split: sum.splits)
  with assms(2) have "Some g \<in> set found" by (auto simp: map_filter_def)
  then obtain e :: PracticeEntryGroup where "expected_group_for_entry timeline (eg_id e) = Inr (Some g)"
    using traverse_member [OF found(1) \<open>Some g \<in> set found\<close>] by blast
  then obtain x :: PracticeEntryGroup and es noteses where es: "es = filter ev_entry_candidate
        (List.map_filter (dict_of ev_id (tm_events timeline)) (eg_event_ids x))" "es \<noteq> []"
      and tr: "traverse expected_notes_for_event es = Inr noteses"
      and g: "xg_strike_targets g = strike_targets_for_expected_notes (eg_id x) (concat noteses)"
        "xg_pitches g = map st_pitch (xg_strike_targets g)"
    by (rule expected_group_cases)
  have "set es \<subseteq> set (tm_events timeline)"
    using dict_of_Some [of ev_id "tm_events timeline"] by (fastforce simp: es(1) map_filter_def)
  then show ?thesis by (rule that [OF _ es(2) tr g])
qed

lemma expected_group_pitches:
  assumes events: "\<forall>e \<in> set (tm_events timeline). event_ok e"
    and run: "expected_practice_groups timeline = Inr groups"
  shows "\<forall>g \<in> set groups. xg_pitches g \<noteq> []"
proof
  fix g assume "g \<in> set groups"
  with run obtain x :: PracticeEntryGroup and es noteses where
      es: "set es \<subseteq> set (tm_events timeline)" "es \<noteq> []" and tr: "traverse expected_notes_for_event es = Inr noteses"
      and g: "xg_strike_targets g = strike_targets_for_expected_notes (eg_id x) (concat noteses)"
        "xg_pitches g = map st_pitch (xg_strike_targets g)"
    by (rule expected_group_notes)
  have "concat noteses \<noteq> []"
    using expected_notes_pitches events es(1) by (intro traverse_nonempty [OF tr es(2)]) blast
  then show "xg_pitches g \<noteq> []" by (auto simp: g strike_targets_for_expected_notes_def group_into_eq)
qed

lemma note_array_events_ok: "\<forall>e \<in> set (tm_events (timeline_from_note_array env metadata segments note_array)). event_ok e"
  using timeline_event_ok by (auto simp: timeline_from_note_array_def empty_timeline_def Let_def)

end
