(* ===== verification/Midi_Session.thy ===== *)
theory Midi_Session
  imports Practice_Progress
begin

text \<open>
  A whole MIDI practice session: the invariant that every call of the engine keeps, from which it follows that
  the engine never fails on an event it accepts, that it moves on exactly when the held notes are the expected
  ones, and that the attempts it records are numbered in increasing order, each of them once.
\<close>

section \<open>Attempts\<close>

definition attempt_number :: "ResolvedPracticeAttempt \<Rightarrow> int" where
  "attempt_number a = sp_attempt_sequence (oc_snapshot (ra_outcome a))"

definition attempts_ok :: "PracticeAttemptLifecycle \<Rightarrow> ResolvedPracticeAttempt list \<Rightarrow> bool" where
  "attempts_ok lc buffer \<longleftrightarrow> sorted_wrt (<) (map attempt_number buffer) \<and>
     (\<forall>a \<in> set buffer. attempt_number a < next_sequence lc \<and> sp_state (oc_snapshot (ra_outcome a)) = Resolved) \<and>
     (\<forall>s. current_attempt lc = Some s \<longrightarrow> sp_attempt_sequence s < next_sequence lc \<and>
        (sp_state s = Pending \<longrightarrow> (\<forall>a \<in> set buffer. attempt_number a < sp_attempt_sequence s)))"

lemma attempts_new: "attempts_ok new_lifecycle []"
  by (simp add: attempts_ok_def new_lifecycle_def)

lemma attempts_drained: "attempts_ok lc buffer \<Longrightarrow> attempts_ok lc []"
  by (simp add: attempts_ok_def)

lemma attempts_cleared: "attempts_ok lc buffer \<Longrightarrow> attempts_ok (clear_current lc) buffer"
  by (simp add: attempts_ok_def clear_current_def)

lemma attempt_begin_pending: "attempt_pending (attempt_begin new_id group_id t lc)"
  by (auto simp: attempt_begin_def attempt_pending_def split: option.split)

lemma attempt_begin_ok:
  assumes "attempts_ok lc buffer"
  shows "attempts_ok (attempt_begin new_id group_id t lc) buffer"
proof (cases "attempt_pending lc")
  case True
  then have "attempt_begin new_id group_id t lc = lc"
    by (auto simp: attempt_begin_def attempt_pending_def)
  with assms show ?thesis by simp
next
  case False
  then have "attempt_begin new_id group_id t lc = \<lparr>next_sequence = next_sequence lc + 1,
      current_attempt = Some \<lparr>sp_attempt_id = new_id, sp_attempt_sequence = next_sequence lc,
        sp_expected_group_id = group_id, sp_started_at_ms = t, sp_state = Pending, sp_resolved_at_ms = None\<rparr>\<rparr>"
    by (auto simp: attempt_begin_def attempt_pending_def split: option.split)
  with assms show ?thesis by (auto simp: attempts_ok_def)
qed

text \<open>Resolving a pending attempt records it; an outcome that is still pending is not recorded.\<close>

lemma assembler_resolve_ok:
  assumes ok: "attempts_ok lc buffer" and pending: "attempt_pending lc"
  obtains oc lc' where "assembler_resolve evaluation t lc = (Some oc, lc')"
    and "sp_state (oc_snapshot oc) = Resolved" and "oc_evaluation oc = evaluation"
    and "oc_snapshot oc = resolved_snapshot t (the (current_attempt lc))"
    and "\<And>update g. attempts_ok lc' (append_for_expected_group fl (Some oc) update g buffer)"
    and "\<And>update g. \<exists>a. append_for_expected_group fl (Some oc) update g buffer = buffer @ [a] \<and> ra_outcome a = oc \<and>
        ra_action a = de_action (au_decision update) \<and> ra_display_anchor a = anchor_from_expected_group fl g"
    and "current_attempt lc' = Some (oc_snapshot oc)"
proof -
  from pending obtain s where s: "current_attempt lc = Some s" "sp_state s = Pending"
    by (auto simp: attempt_pending_def)
  let ?oc = "\<lparr>oc_snapshot = resolved_snapshot t s, oc_evaluation = evaluation,
    oc_policy_profile_version = ''wait-for-note-v1''\<rparr>"
  let ?lc = "lc\<lparr>current_attempt := Some (resolved_snapshot t s)\<rparr>"
  have "assembler_resolve evaluation t lc = (Some ?oc, ?lc)"
    using s by (simp add: assembler_resolve_def attempt_resolve_def outcome_of_def Let_def)
  moreover have resolved: "sp_state (oc_snapshot ?oc) = Resolved" using s by (simp add: resolved_snapshot_def)
  moreover have rec: "\<exists>a. append_for_expected_group fl (Some ?oc) update g buffer = buffer @ [a] \<and> ra_outcome a = ?oc \<and>
      ra_action a = de_action (au_decision update) \<and> ra_display_anchor a = anchor_from_expected_group fl g"
    for update g
    using resolved by (simp add: append_for_expected_group_def resolved_attempt_from_outcome_def)
  moreover have "attempts_ok ?lc (append_for_expected_group fl (Some ?oc) update g buffer)" for update g
  proof -
    obtain a where a: "append_for_expected_group fl (Some ?oc) update g buffer = buffer @ [a]" "ra_outcome a = ?oc"
      using rec by blast
    have "attempt_number a = sp_attempt_sequence s" using a(2) s by (simp add: attempt_number_def resolved_snapshot_def)
    then show ?thesis unfolding a(1) using ok s resolved a(2)
      by (auto simp: attempts_ok_def sorted_wrt_append resolved_snapshot_def)
  qed
  ultimately show ?thesis using that [of ?oc ?lc] s by simp
qed

lemma append_pending: "sp_state (oc_snapshot oc) \<noteq> Resolved \<Longrightarrow>
    append_for_expected_group fl (Some oc) update g buffer = buffer"
  by (simp add: append_for_expected_group_def resolved_attempt_from_outcome_def)

lemma attach_keys: "\<exists>keys. de_attempt (attach_attempt_outcome decision (Some oc)) = Some keys \<and>
    ad_attempt_state keys = sp_state (oc_snapshot oc)"
  by (simp add: attach_attempt_outcome_def Let_def)

lemma attach_fields [simp]:
  "de_action (attach_attempt_outcome decision outcome) = de_action decision"
  "de_display_anchor (attach_attempt_outcome decision outcome) = de_display_anchor decision"
  by (simp_all add: attach_attempt_outcome_def Let_def split: option.split)

section \<open>The invariant\<close>

definition midi_ok :: "MidiEngine \<Rightarrow> bool" where
  "midi_ok st \<longleftrightarrow> policy_ok (me_policy st) \<and> active_notes st \<subseteq> midi_notes \<and>
     (active_notes st \<noteq> {} \<longrightarrow> attempt_pending (me_lifecycle st) \<and> current_expected_group (me_policy st) \<noteq> None) \<and>
     (pending_update st \<noteq> None \<longrightarrow> active_notes st \<noteq> {} \<and> pending_outcome st \<noteq> None) \<and>
     attempts_ok (me_lifecycle st) (me_resolved_attempts st)"

lemma midi_okD:
  assumes "midi_ok st"
  shows "policy_ok (me_policy st)" "active_notes st \<subseteq> midi_notes"
    "active_notes st \<noteq> {} \<Longrightarrow> attempt_pending (me_lifecycle st)"
    "active_notes st \<noteq> {} \<Longrightarrow> current_expected_group (me_policy st) \<noteq> None"
    "pending_update st \<noteq> None \<Longrightarrow> active_notes st \<noteq> {}"
    "pending_update st \<noteq> None \<Longrightarrow> pending_outcome st \<noteq> None"
    "attempts_ok (me_lifecycle st) (me_resolved_attempts st)"
  using assms by (auto simp: midi_ok_def)

definition chord_matches :: "ExpectedPracticeGroup \<Rightarrow> int set \<Rightarrow> bool" where
  "chord_matches g held \<longleftrightarrow> midi_pitch_name ` held = set (xg_pitches g)"

lemma midi_evaluate_match:
  assumes p: "policy_ok p" and g: "current_expected_group p = Some g" and held: "finite held" "held \<noteq> {}"
  shows "(pe_result (evaluate (fp_evaluator p) g (midi_evidence g held)) = MATCH) = chord_matches g held"
proof -
  have "\<not> ee_confidence (midi_evidence g held) < confidence_threshold (fp_evaluator p)"
    using p by (simp add: policy_ok_def midi_evidence_def)
  moreover have "observed_pitches (midi_evidence g held) \<noteq> []"
    "set (observed_pitches (midi_evidence g held)) = midi_pitch_name ` held"
    using held by (simp_all add: midi_evidence_def)
  ultimately show ?thesis using current_group_member(2) [OF p g] by (simp add: evaluate_result chord_matches_def)
qed

text \<open>What playing a note does.\<close>

lemma midi_note_on_run:
  assumes ok: "midi_ok st" and g: "current_expected_group (me_policy st) = Some g" and n: "n \<in> midi_notes"
  shows "\<exists>update st'. midi_note_on fl new_id n t st = (Inr (Some update), st') \<and> midi_ok st' \<and>
    me_closed st' = me_closed st \<and>
    (let held = insert n (active_notes st) in
     (if chord_matches g held
      then me_policy st' = moved_on (me_policy st) \<and> active_notes st' = {} \<and>
        (\<exists>a. me_resolved_attempts st' = me_resolved_attempts st @ [a] \<and> ra_action a = Advance \<and>
           an_group_id (ra_display_anchor a) = xg_id g)
      else me_policy st' = me_policy st \<and> active_notes st' = held \<and>
        me_resolved_attempts st' = me_resolved_attempts st))"
proof -
  let ?p = "me_policy st" and ?held = "insert n (active_notes st)"
  have p: "policy_ok ?p" using midi_okD(1) [OF ok] .
  have fin: "finite ?held" using midi_okD(2) [OF ok] by (simp add: midi_notes_def finite_subset)
  define lc where "lc = (if active_notes st = {} then attempt_begin new_id (xg_id g) t (me_lifecycle st) else me_lifecycle st)"
  have lc: "attempts_ok lc (me_resolved_attempts st)" "attempt_pending lc"
    using midi_okD(3,7) [OF ok] attempt_begin_ok attempt_begin_pending by (auto simp: lc_def)
  let ?ev = "midi_evidence g ?held"
  let ?evaluation = "evaluate (fp_evaluator ?p) g ?ev"
  have ev: "evaluate_evidence ?p ?ev = Inr ?evaluation" using g by (simp add: evaluate_evidence_def)
  have match: "(pe_result ?evaluation = MATCH) = chord_matches g ?held"
    by (rule midi_evaluate_match [OF p g fin]) simp
  obtain decision where decision: "decide_evaluation fl ?p ?ev ?evaluation =
        (Inr decision, if pe_result ?evaluation = MATCH then moved_on ?p else ?p)"
      "(de_action decision = Advance) = (pe_result ?evaluation = MATCH)"
    using decide_evaluation_run [OF g] by blast
  show ?thesis
  proof (cases "chord_matches g ?held")
    case True
    obtain oc lc' where oc: "assembler_resolve ?evaluation t lc = (Some oc, lc')" "sp_state (oc_snapshot oc) = Resolved"
        "\<And>update h. attempts_ok lc' (append_for_expected_group fl (Some oc) update h (me_resolved_attempts st))"
        "\<And>update h. \<exists>a. append_for_expected_group fl (Some oc) update h (me_resolved_attempts st) =
           me_resolved_attempts st @ [a] \<and> ra_outcome a = oc \<and> ra_action a = de_action (au_decision update) \<and>
           ra_display_anchor a = anchor_from_expected_group fl h"
      by (rule assembler_resolve_ok [OF lc]) blast
    define dec where "dec = attach_attempt_outcome decision (Some oc)"
    obtain keys where keys: "de_attempt dec = Some keys" "ad_attempt_state keys = Resolved"
      using attach_keys oc(2) unfolding dec_def by metis
    define u where "u = midi_update fl (beat_after g dec) (py_round fl 3 (pe_confidence ?evaluation)) t
      (current_expected_group (moved_on ?p) = None) True ''following'' ''midi_event'' ''matched'' 1 dec"
    obtain a where a: "append_for_expected_group fl (Some oc) u g (me_resolved_attempts st) = me_resolved_attempts st @ [a]"
        "ra_action a = de_action (au_decision u)" "ra_display_anchor a = anchor_from_expected_group fl g"
      using oc(4) by blast
    have act: "ra_action a = Advance" using a(2) decision(2) match True by (simp add: u_def midi_update_def dec_def)
    let ?st = "st\<lparr>me_lifecycle := lc', active_notes := {}, me_policy := moved_on ?p, pending_update := None,
      pending_outcome := None, me_resolved_attempts := me_resolved_attempts st @ [a], last_alignment := Some u\<rparr>"
    have "midi_note_on fl new_id n t st = (Inr (Some u), ?st)"
      using True match decision
      by (simp add: midi_note_on_def g lc_def [symmetric] ev oc(1,2) dec_def [symmetric] u_def [symmetric] keys Let_def
          a(1) del: evaluate_fields)
    moreover have "midi_ok ?st"
      using moved_on_ok [OF p g] oc(3) [of u g] a(1) by (simp add: midi_ok_def)
    moreover have "an_group_id (ra_display_anchor a) = xg_id g" by (simp add: a(3) anchor_from_expected_group_def)
    ultimately show ?thesis using True act by (intro exI [of _ u] exI [of _ ?st]) simp
  next
    case False
    obtain s where s: "current_attempt lc = Some s" "sp_state s = Pending" using lc(2) by (auto simp: attempt_pending_def)
    define oc where "oc = \<lparr>oc_snapshot = s, oc_evaluation = ?evaluation, oc_policy_profile_version = ''wait-for-note-v1''\<rparr>"
    have oc: "assembler_pending ?evaluation lc = Some oc" "sp_state (oc_snapshot oc) \<noteq> Resolved"
      using s by (simp_all add: assembler_pending_def outcome_of_def oc_def)
    obtain keys where keys: "de_attempt (attach_attempt_outcome decision (Some oc)) = Some keys"
        "ad_attempt_state keys = Pending"
      using attach_keys [of decision oc] s(2) by (auto simp: oc_def)
    show ?thesis
      using False match decision p g lc n midi_okD(2) [OF ok]
      by (auto simp: midi_note_on_def lc_def [symmetric] ev oc(1) append_pending [OF oc(2)] keys Let_def midi_ok_def)
  qed
qed

text \<open>The other calls.\<close>

lemma resolved_attempt_update_ok:
  assumes lc: "attempts_ok (me_lifecycle st) (me_resolved_attempts st)" "attempt_pending (me_lifecycle st)"
    and out: "pending_outcome st \<noteq> None"
    and run: "resolved_attempt_update fl update t reason st = (resolved, st')"
  shows "\<exists>lc' buffer. st' = st\<lparr>me_lifecycle := lc', me_resolved_attempts := buffer\<rparr> \<and> attempts_ok lc' buffer"
proof -
  obtain oc where oc: "pending_outcome st = Some oc" using out by blast
  obtain oc' lc' where r: "assembler_resolve (oc_evaluation oc) t (me_lifecycle st) = (Some oc', lc')"
      "\<And>update h. attempts_ok lc' (append_for_expected_group fl (Some oc') update h (me_resolved_attempts st))"
      "sp_state (oc_snapshot oc') = Resolved" "current_attempt lc' = Some (oc_snapshot oc')"
    by (rule assembler_resolve_ok [OF lc]) blast
  have "attempts_ok lc' (me_resolved_attempts st)"
  proof -
    have "next_sequence lc' = next_sequence (me_lifecycle st)"
      using r(1) by (auto simp: assembler_resolve_def attempt_resolve_def Let_def)
    moreover have "sp_attempt_sequence (oc_snapshot oc') < next_sequence (me_lifecycle st)"
      using r(1) lc by (auto simp: assembler_resolve_def attempt_resolve_def outcome_of_def resolved_snapshot_def
          attempts_ok_def Let_def)
    ultimately show ?thesis using lc(1) r(3,4) by (auto simp: attempts_ok_def)
  qed
  moreover define resolved' where "resolved' = update\<lparr>au_decision := attach_attempt_outcome
      (case reason of None \<Rightarrow> au_decision update | Some r \<Rightarrow> (au_decision update)\<lparr>de_action := Hold, de_reason := r\<rparr>)
      (Some oc'), au_timestamp_ms := t\<rparr>"
  moreover define buffer where "buffer = (case current_expected_group (me_policy st) of
      None \<Rightarrow> me_resolved_attempts st
    | Some g \<Rightarrow> append_for_expected_group fl (Some oc') resolved' g (me_resolved_attempts st))"
  moreover have "st' = st\<lparr>me_lifecycle := lc', me_resolved_attempts := buffer\<rparr>"
    using run oc r(1) by (auto simp: resolved_attempt_update_def buffer_def resolved'_def Let_def split: option.split)
  ultimately show ?thesis
    using r(2) by (intro exI [of _ lc'] exI [of _ buffer]) (simp split: option.split)
qed

lemma midi_note_off_ok:
  assumes ok: "midi_ok st"
  shows "\<exists>r st'. midi_note_off fl n t st = (Inr r, st') \<and> midi_ok st' \<and> me_policy st' = me_policy st \<and>
    active_notes st' = active_notes st - {n} \<and> me_closed st' = me_closed st"
proof -
  let ?st1 = "st\<lparr>active_notes := active_notes st - {n}\<rparr>"
  show ?thesis
  proof (cases "pending_update st \<noteq> None \<and> active_notes st - {n} = {}")
    case False
    have "midi_ok ?st1"
      using midi_okD [OF ok] False by (auto simp: midi_ok_def)
    with False show ?thesis by (auto simp: midi_note_off_def Let_def split: option.split)
  next
    case True
    then obtain update where u: "pending_update st = Some update" by blast
    have lc: "attempts_ok (me_lifecycle ?st1) (me_resolved_attempts ?st1)" "attempt_pending (me_lifecycle ?st1)"
      and out: "pending_outcome ?st1 \<noteq> None"
      using midi_okD [OF ok] True by auto
    obtain resolved st2 where run: "resolved_attempt_update fl update t None ?st1 = (resolved, st2)" by fastforce
    obtain lc' buffer where st2: "st2 = ?st1\<lparr>me_lifecycle := lc', me_resolved_attempts := buffer\<rparr>" "attempts_ok lc' buffer"
      using resolved_attempt_update_ok [OF lc out run] by blast
    have "midi_note_off fl n t st = (Inr (Some resolved), st2\<lparr>pending_update := None, last_alignment := Some resolved\<rparr>)"
      using True u run by (simp add: midi_note_off_def Let_def)
    moreover have "midi_ok (st2\<lparr>pending_update := None, last_alignment := Some resolved\<rparr>)"
      using True st2 midi_okD(1,2) [OF ok] by (auto simp: midi_ok_def)
    ultimately show ?thesis using st2 by simp
  qed
qed

lemma midi_timestamp_ok: "midi_ok (st\<lparr>last_timestamp_ms := t\<rparr>) = midi_ok st"
  by (simp add: midi_ok_def)

lemma midi_reset_ok: "midi_ok st \<Longrightarrow> midi_ok (midi_reset_input_buffer st)"
  by (simp add: midi_ok_def midi_reset_input_buffer_def attempts_cleared)

lemma midi_drain_ok: "midi_ok st \<Longrightarrow> midi_ok (snd (midi_drain_resolved_practice_attempts st))"
  using attempts_drained by (auto simp: midi_ok_def midi_drain_resolved_practice_attempts_def)

lemma midi_skip_run:
  assumes ok: "midi_ok st" and open_st: "\<not> me_closed st"
  shows "\<exists>update st'. midi_skip_current_expected_group fl new_id st = (Inr (Some update), st') \<and> midi_ok st' \<and>
    me_closed st' = me_closed st \<and>
    (case current_expected_group (me_policy st) of
       None \<Rightarrow> st' = st
     | Some g \<Rightarrow> me_policy st' = moved_on (me_policy st) \<and> active_notes st' = {} \<and>
         (\<exists>a. me_resolved_attempts st' = me_resolved_attempts st @ [a] \<and> ra_action a = Skip \<and>
            an_group_id (ra_display_anchor a) = xg_id g))"
proof (cases "current_expected_group (me_policy st)")
  case None
  with ok open_st show ?thesis by (simp add: midi_skip_current_expected_group_def)
next
  case (Some g)
  let ?st1 = "midi_reset_input_buffer st"
  have "attempts_ok (me_lifecycle ?st1) (me_resolved_attempts ?st1)" using midi_okD(7) [OF midi_reset_ok [OF ok]] .
  note lc = attempt_begin_ok [OF this, of new_id "xg_id g" "last_timestamp_ms ?st1"]
  obtain oc lc' where oc: "assembler_resolve (skip_evaluation g) (last_timestamp_ms ?st1)
        (attempt_begin new_id (xg_id g) (last_timestamp_ms ?st1) (me_lifecycle ?st1)) = (Some oc, lc')"
      "\<And>update h. attempts_ok lc' (append_for_expected_group fl (Some oc) update h (me_resolved_attempts ?st1))"
      "\<And>update h. \<exists>a. append_for_expected_group fl (Some oc) update h (me_resolved_attempts ?st1) =
         me_resolved_attempts ?st1 @ [a] \<and> ra_outcome a = oc \<and> ra_action a = de_action (au_decision update) \<and>
         ra_display_anchor a = anchor_from_expected_group fl h"
    by (rule assembler_resolve_ok [OF lc attempt_begin_pending]) blast
  define dec where "dec = attach_attempt_outcome (decision_of Skip user_skipped skipped
      (Some (moved_anchor fl (moved_on (me_policy st)) g)) full_confidence) (Some oc)"
  define u where "u = midi_update fl (beat_after g dec) 1 (last_timestamp_ms ?st1)
      (current_expected_group (moved_on (me_policy st)) = None) False ''skipped'' ''user_skipped'' ''skipped'' 0 dec"
  obtain a where a: "append_for_expected_group fl (Some oc) u g (me_resolved_attempts ?st1) = me_resolved_attempts ?st1 @ [a]"
      "ra_action a = de_action (au_decision u)" "ra_display_anchor a = anchor_from_expected_group fl g"
    using oc(3) by blast
  have act: "ra_action a = Skip" "an_group_id (ra_display_anchor a) = xg_id g"
    using a(2,3) by (simp_all add: u_def midi_update_def dec_def decision_of_def anchor_from_expected_group_def)
  let ?st = "?st1\<lparr>me_lifecycle := lc', me_policy := moved_on (me_policy st),
    me_resolved_attempts := me_resolved_attempts st @ [a], last_alignment := Some u\<rparr>"
  have fields: "me_policy ?st1 = me_policy st" "me_resolved_attempts ?st1 = me_resolved_attempts st"
    "active_notes ?st1 = {}" "pending_update ?st1 = None" "me_closed ?st1 = me_closed st"
    by (simp_all add: midi_reset_input_buffer_def)
  have "midi_skip_current_expected_group fl new_id st = (Inr (Some u), ?st)"
    using open_st Some skip_current_group_run [OF Some, of fl] oc(1) a(1)
    by (simp add: midi_skip_current_expected_group_def Let_def fields dec_def [symmetric] u_def [symmetric])
  moreover have "midi_ok ?st"
    using moved_on_ok [OF midi_okD(1) [OF ok] Some] oc(2) [of u g] a(1) by (simp add: midi_ok_def fields)
  ultimately show ?thesis using Some act fields by (intro exI [of _ u] exI [of _ ?st]) simp
qed

lemma midi_finalize_ok:
  assumes ok: "midi_ok st"
  shows "midi_ok (snd (midi_finalize_pending_practice_attempt fl reason st))"
proof (cases "pending_update st")
  case None
  with ok show ?thesis by (simp add: midi_finalize_pending_practice_attempt_def midi_drain_ok midi_reset_ok)
next
  case (Some update)
  have lc: "attempts_ok (me_lifecycle st) (me_resolved_attempts st)" "attempt_pending (me_lifecycle st)"
    and out: "pending_outcome st \<noteq> None" and pol: "policy_ok (me_policy st)"
    using midi_okD [OF ok] Some by auto
  obtain resolved st1 where run: "resolved_attempt_update fl update (last_timestamp_ms st) (Some reason) st = (resolved, st1)"
    by fastforce
  obtain lc' buffer where "st1 = st\<lparr>me_lifecycle := lc', me_resolved_attempts := buffer\<rparr>" "attempts_ok lc' buffer"
    using resolved_attempt_update_ok [OF lc out run] by blast
  then show ?thesis
    using Some run pol attempts_drained [OF attempts_cleared, of lc' buffer]
    by (simp add: midi_finalize_pending_practice_attempt_def midi_drain_resolved_practice_attempts_def midi_ok_def)
qed

lemma midi_close_ok: "midi_ok st \<Longrightarrow> midi_ok (midi_close fl st)"
  unfolding midi_close_def by (rule midi_finalize_ok) (simp add: midi_ok_def)

lemma midi_ingest_ok:
  assumes ok: "midi_ok st"
  shows "midi_ok (snd (midi_ingest_event fl new_id is_on n v t st))"
    and "\<not> me_closed st \<Longrightarrow> 0 \<le> n \<Longrightarrow> n \<le> 127 \<Longrightarrow> 0 \<le> v \<Longrightarrow> v \<le> 127 \<Longrightarrow>
      \<exists>r. fst (midi_ingest_event fl new_id is_on n v t st) = Inr r"
proof -
  let ?st = "st\<lparr>last_timestamp_ms := t\<rparr>"
  have ok': "midi_ok ?st" using ok by (simp add: midi_timestamp_ok)
  have on: "midi_ok (snd (midi_note_on fl new_id n t ?st)) \<and> (\<exists>r. fst (midi_note_on fl new_id n t ?st) = Inr r)"
    if "n \<in> midi_notes"
  proof (cases "current_expected_group (me_policy ?st)")
    case None
    then show ?thesis using ok' by (simp add: midi_note_on_def)
  next
    case (Some g)
    show ?thesis using midi_note_on_run [OF ok' Some that, of fl new_id t] by (metis fst_conv snd_conv)
  qed
  have off: "midi_ok (snd (midi_note_off fl n t ?st)) \<and> (\<exists>r. fst (midi_note_off fl n t ?st) = Inr r)"
    using midi_note_off_ok [OF ok', of fl n t] by (metis fst_conv snd_conv)
  show "midi_ok (snd (midi_ingest_event fl new_id is_on n v t st))"
    using ok on off by (auto simp: midi_ingest_event_def Let_def midi_notes_def)
  show "\<exists>r. fst (midi_ingest_event fl new_id is_on n v t st) = Inr r"
    if "\<not> me_closed st" "0 \<le> n" "n \<le> 127" "0 \<le> v" "v \<le> 127"
    using that on off by (auto simp: midi_ingest_event_def Let_def midi_notes_def)
qed

section \<open>Sessions\<close>

lemma new_midi_engine_ok:
  assumes "new_midi_engine env timeline mode source s t = Inr st" and "\<forall>e \<in> set (tm_events timeline). event_ok e"
  shows "midi_ok st" and "\<not> me_closed st" and "active_notes st = {}" and "me_resolved_attempts st = []"
proof -
  from assms(1) obtain p where p: "new_follow_policy env timeline s t = Inr p"
      and st: "st = \<lparr>me_score_end_beat = tm_end_beat timeline, me_policy = p, active_notes = {},
            me_lifecycle = new_lifecycle, pending_outcome = None, pending_update = None,
            me_resolved_attempts = [], last_alignment = None, last_timestamp_ms = 0, me_closed = False\<rparr>"
    by (auto simp: new_midi_engine_def follow_policy_for_progression_def split: if_splits sum.splits)
  have "policy_ok p" by (rule new_follow_policy_ok [OF p expected_group_pitches [OF assms(2)]])
  then show "midi_ok st" "\<not> me_closed st" "active_notes st = {}" "me_resolved_attempts st = []"
    by (simp_all add: st midi_ok_def attempts_new)
qed

text \<open>A session on a score: the engine and what is done to it.\<close>

inductive midi_session :: "practice_env \<Rightarrow> PracticeScoreTimeline \<Rightarrow> MidiEngine \<Rightarrow> bool" for env timeline where
  started: "new_midi_engine env timeline mode source s t = Inr st \<Longrightarrow> midi_session env timeline st"
| event: "midi_session env timeline st \<Longrightarrow>
    midi_session env timeline (snd (midi_ingest_event env new_id is_on n v time st))"
| skip: "midi_session env timeline st \<Longrightarrow>
    midi_session env timeline (snd (midi_skip_current_expected_group env new_id st))"
| reset: "midi_session env timeline st \<Longrightarrow> midi_session env timeline (midi_reset_input_buffer st)"
| drain: "midi_session env timeline st \<Longrightarrow>
    midi_session env timeline (snd (midi_drain_resolved_practice_attempts st))"
| finalize: "midi_session env timeline st \<Longrightarrow>
    midi_session env timeline (snd (midi_finalize_pending_practice_attempt env reason st))"
| close: "midi_session env timeline st \<Longrightarrow> midi_session env timeline (midi_close env st)"

lemma midi_skip_ok: "midi_ok st \<Longrightarrow> midi_ok (snd (midi_skip_current_expected_group fl new_id st))"
proof (cases "me_closed st")
  case True
  then show "midi_ok st \<Longrightarrow> ?thesis" by (simp add: midi_skip_current_expected_group_def)
next
  case False
  then show "midi_ok st \<Longrightarrow> ?thesis" using midi_skip_run by (metis snd_conv)
qed

lemma midi_session_ok:
  assumes "midi_session env timeline st" and "\<forall>e \<in> set (tm_events timeline). event_ok e"
  shows "midi_ok st"
  using assms(1)
  by (induction rule: midi_session.induct)
    (simp_all add: new_midi_engine_ok [OF _ assms(2)] midi_ingest_ok midi_skip_ok midi_reset_ok midi_drain_ok
      midi_finalize_ok midi_close_ok)

section \<open>Playing chords\<close>

definition play_note :: "practice_env \<Rightarrow> string \<Rightarrow> int \<Rightarrow> int \<Rightarrow> MidiEngine \<Rightarrow> int \<Rightarrow> MidiEngine" where
  "play_note env new_id velocity time st n = snd (midi_ingest_event env new_id True n velocity time st)"

definition play_chord :: "practice_env \<Rightarrow> string \<Rightarrow> int \<Rightarrow> int \<Rightarrow> MidiEngine \<Rightarrow> int list \<Rightarrow> MidiEngine" where
  "play_chord env new_id velocity time st ks = foldl (play_note env new_id velocity time) st ks"

lemma play_note_run:
  assumes ok: "midi_ok st" and open_st: "\<not> me_closed st" and v: "0 < v" "v \<le> 127" and n: "n \<in> midi_notes"
    and g: "current_expected_group (me_policy st) = Some g"
  shows "midi_ok (play_note env new_id v t st n)" "\<not> me_closed (play_note env new_id v t st n)"
    "chord_matches g (insert n (active_notes st)) \<Longrightarrow>
       me_policy (play_note env new_id v t st n) = moved_on (me_policy st) \<and>
       active_notes (play_note env new_id v t st n) = {} \<and>
       (\<exists>a. me_resolved_attempts (play_note env new_id v t st n) = me_resolved_attempts st @ [a] \<and>
          ra_action a = Advance \<and> an_group_id (ra_display_anchor a) = xg_id g)"
    "\<not> chord_matches g (insert n (active_notes st)) \<Longrightarrow>
       me_policy (play_note env new_id v t st n) = me_policy st \<and>
       active_notes (play_note env new_id v t st n) = insert n (active_notes st) \<and>
       me_resolved_attempts (play_note env new_id v t st n) = me_resolved_attempts st"
proof -
  let ?st = "st\<lparr>last_timestamp_ms := t\<rparr>"
  have "play_note env new_id v t st n = snd (midi_note_on env new_id n t ?st)"
    using open_st v n by (simp add: play_note_def midi_ingest_event_def midi_notes_def)
  moreover obtain u st' where "midi_note_on env new_id n t ?st = (Inr (Some u), st')" "midi_ok st'"
      "me_closed st' = me_closed ?st"
      "let held = insert n (active_notes ?st) in
       (if chord_matches g held
        then me_policy st' = moved_on (me_policy ?st) \<and> active_notes st' = {} \<and>
          (\<exists>a. me_resolved_attempts st' = me_resolved_attempts ?st @ [a] \<and> ra_action a = Advance \<and>
             an_group_id (ra_display_anchor a) = xg_id g)
        else me_policy st' = me_policy ?st \<and> active_notes st' = held \<and>
          me_resolved_attempts st' = me_resolved_attempts ?st)"
    using midi_note_on_run [of ?st g n env new_id t] ok g n by (auto simp: midi_timestamp_ok)
  ultimately show "midi_ok (play_note env new_id v t st n)" "\<not> me_closed (play_note env new_id v t st n)"
    "chord_matches g (insert n (active_notes st)) \<Longrightarrow>
       me_policy (play_note env new_id v t st n) = moved_on (me_policy st) \<and>
       active_notes (play_note env new_id v t st n) = {} \<and>
       (\<exists>a. me_resolved_attempts (play_note env new_id v t st n) = me_resolved_attempts st @ [a] \<and>
          ra_action a = Advance \<and> an_group_id (ra_display_anchor a) = xg_id g)"
    "\<not> chord_matches g (insert n (active_notes st)) \<Longrightarrow>
       me_policy (play_note env new_id v t st n) = me_policy st \<and>
       active_notes (play_note env new_id v t st n) = insert n (active_notes st) \<and>
       me_resolved_attempts (play_note env new_id v t st n) = me_resolved_attempts st"
    using open_st by (simp_all add: Let_def)
qed

definition chord_for :: "ExpectedPracticeGroup \<Rightarrow> int list \<Rightarrow> bool" where
  "chord_for g ks \<longleftrightarrow> distinct ks \<and> set ks \<subseteq> midi_notes \<and> chord_matches g (set ks)"

lemma play_rest_of_chord:
  assumes ok: "midi_ok st" and open_st: "\<not> me_closed st" and v: "0 < v" "v \<le> 127"
    and g: "current_expected_group (me_policy st) = Some g"
    and chord: "chord_for g (xs @ ys)" and held: "active_notes st = set xs" and ys: "ys \<noteq> []"
  shows "midi_ok (play_chord env new_id v t st ys)" "\<not> me_closed (play_chord env new_id v t st ys)"
    "me_policy (play_chord env new_id v t st ys) = moved_on (me_policy st)"
    "active_notes (play_chord env new_id v t st ys) = {}"
    "\<exists>a. me_resolved_attempts (play_chord env new_id v t st ys) = me_resolved_attempts st @ [a] \<and>
       ra_action a = Advance \<and> an_group_id (ra_display_anchor a) = xg_id g"
  using assms
proof (atomize (full), induction ys arbitrary: st xs)
  case Nil
  then show ?case by simp
next
  case (Cons y ys)
  let ?st = "play_note env new_id v t st y"
  from Cons.prems have n: "y \<in> midi_notes" by (simp add: chord_for_def)
  note run = play_note_run [OF Cons.prems(1-4) n Cons.prems(5), of env new_id t]
  have fold: "play_chord env new_id v t st (y # ys) = play_chord env new_id v t ?st ys" by (simp add: play_chord_def)
  show ?case
  proof (cases "ys = []")
    case True
    then have "chord_matches g (insert y (active_notes st))" using Cons.prems by (simp add: chord_for_def)
    with run True show ?thesis by (simp add: fold) (simp add: play_chord_def)
  next
    case False
    have "insert y (active_notes st) \<noteq> set (xs @ y # ys)"
      using False Cons.prems by (cases ys) (auto simp: chord_for_def)
    then have "\<not> chord_matches g (insert y (active_notes st))"
      using Cons.prems(6,7) midi_names_eq [of "insert y (active_notes st)" "set (xs @ y # ys)"]
      by (auto simp: chord_for_def chord_matches_def)
    note st = run(4) [OF this]
    have "midi_ok ?st" "\<not> me_closed ?st" using run by simp_all
    moreover have "current_expected_group (me_policy ?st) = Some g" using st Cons.prems(5) by simp
    moreover have "chord_for g ((xs @ [y]) @ ys)" "active_notes ?st = set (xs @ [y])" using st Cons.prems by simp_all
    ultimately show ?thesis using Cons.IH [of ?st "xs @ [y]"] v False st by (simp add: fold)
  qed
qed

lemma chord_not_empty: "policy_ok p \<Longrightarrow> current_expected_group p = Some g \<Longrightarrow> chord_for g ks \<Longrightarrow> ks \<noteq> []"
  using current_group_member(2) by (auto simp: chord_for_def chord_matches_def)

text \<open>All chords of a scope, one after the other.\<close>

lemma play_chords:
  assumes "midi_ok st" and "\<not> me_closed st" and v: "0 < v" "v \<le> 127" and "active_notes st = {}"
    and "int (length chords) = fp_end_index (me_policy st) + 1 - fp_current_index (me_policy st)"
    and "\<forall>i < length chords. chord_for
      (fp_expected_groups (me_policy st) ! (nat (fp_current_index (me_policy st)) + i)) (chords ! i)"
  shows "current_expected_group (me_policy (foldl (play_chord env new_id v t) st chords)) = None \<and>
    (\<exists>as. me_resolved_attempts (foldl (play_chord env new_id v t) st chords) = me_resolved_attempts st @ as \<and>
       map ra_action as = replicate (length chords) Advance \<and>
       map (\<lambda>a. an_group_id (ra_display_anchor a)) as = map xg_id (take (length chords)
         (drop (nat (fp_current_index (me_policy st))) (fp_expected_groups (me_policy st)))))"
  using assms
proof (induction chords arbitrary: st)
  case Nil
  then have "current_expected_group (me_policy st) = None"
    using current_group_iff [OF midi_okD(1)] by simp
  then show ?case by simp
next
  case (Cons ks chords)
  let ?p = "me_policy st" and ?st = "play_chord env new_id v t st ks"
  have p: "policy_ok ?p" using midi_okD(1) [OF Cons.prems(1)] .
  have "current_expected_group ?p \<noteq> None" using current_group_iff [OF p] Cons.prems(6) by simp
  then obtain g where g: "current_expected_group ?p = Some g" by blast
  have idx: "0 \<le> fp_current_index ?p" "fp_current_index ?p < int (length (fp_expected_groups ?p))"
    using p Cons.prems(6) by (auto simp: policy_ok_def)
  have gi: "g = fp_expected_groups ?p ! nat (fp_current_index ?p)" using current_group_member(4) [OF p g] .
  have chord: "chord_for g ([] @ ks)" using spec [OF Cons.prems(7), of 0] by (simp add: gi)
  have ks: "ks \<noteq> []" using chord_not_empty [OF p g] chord by simp
  note run = play_rest_of_chord [OF Cons.prems(1,2) v g chord _ ks, of env new_id t]
  have st: "midi_ok ?st" "\<not> me_closed ?st" "me_policy ?st = moved_on ?p" "active_notes ?st = {}"
    using run Cons.prems(5) by simp_all
  obtain a where a: "me_resolved_attempts ?st = me_resolved_attempts st @ [a]" "ra_action a = Advance"
      "an_group_id (ra_display_anchor a) = xg_id g"
    using run(5) Cons.prems(5) by auto
  have cur: "nat (fp_current_index (me_policy ?st)) = Suc (nat (fp_current_index ?p))"
    using idx st(3) by (simp add: moved_on_def nat_add_distrib)
  have "\<forall>i < length chords. chord_for
      (fp_expected_groups (me_policy ?st) ! (nat (fp_current_index (me_policy ?st)) + i)) (chords ! i)"
  proof (intro allI impI)
    fix i assume "i < length chords"
    then show "chord_for (fp_expected_groups (me_policy ?st) ! (nat (fp_current_index (me_policy ?st)) + i)) (chords ! i)"
      using spec [OF Cons.prems(7), of "Suc i"] by (simp only: cur) (simp add: st(3) moved_on_def)
  qed
  moreover have "int (length chords) = fp_end_index (me_policy ?st) + 1 - fp_current_index (me_policy ?st)"
    using Cons.prems(6) st(3) by (simp add: moved_on_def)
  ultimately obtain as where as: "current_expected_group (me_policy (foldl (play_chord env new_id v t) ?st chords)) = None"
      "me_resolved_attempts (foldl (play_chord env new_id v t) ?st chords) = me_resolved_attempts ?st @ as"
      "map ra_action as = replicate (length chords) Advance"
      "map (\<lambda>a. an_group_id (ra_display_anchor a)) as = map xg_id (take (length chords)
         (drop (nat (fp_current_index (me_policy ?st))) (fp_expected_groups (me_policy ?st))))"
    using Cons.IH [OF st(1,2) v st(4)] by blast
  have "drop (nat (fp_current_index ?p)) (fp_expected_groups ?p) =
      g # drop (Suc (nat (fp_current_index ?p))) (fp_expected_groups ?p)"
    using idx gi by (simp add: Cons_nth_drop_Suc nat_less_iff)
  then show ?case
    using as a by (intro conjI exI [of _ "a # as"]) (simp_all only: cur, simp_all add: st(3) moved_on_def)
qed

section \<open>Properties\<close>

definition demo_engine :: MidiEngine where
  "demo_engine = (case new_midi_engine demo_env demo_timeline ''WAIT_FOR_NOTE'' ''MIDI'' None None of
     Inr st \<Rightarrow> st | Inl e \<Rightarrow> undefined)"

lemma demo_engine_new: "new_midi_engine demo_env demo_timeline ''WAIT_FOR_NOTE'' ''MIDI'' None None = Inr demo_engine"
proof -
  have "\<not> isl (new_midi_engine demo_env demo_timeline ''WAIT_FOR_NOTE'' ''MIDI'' None None)" by code_simp
  then show ?thesis by (cases "new_midi_engine demo_env demo_timeline ''WAIT_FOR_NOTE'' ''MIDI'' None None")
    (auto simp: demo_engine_def)
qed

lemma demo_session: "midi_session demo_env demo_timeline demo_engine"
  by (rule started [OF demo_engine_new])

lemma demo_timeline_session:
  "midi_session demo_env (timeline_from_note_array demo_env demo_metadata [] demo_notes) demo_engine"
  using demo_session by (simp add: demo_timeline_def)

lemma demo_events_ok: "\<forall>e \<in> set (tm_events demo_timeline). event_ok e"
  unfolding demo_timeline_def by (rule note_array_events_ok)

lemma demo_engine_fields:
  "\<not> me_closed demo_engine" "active_notes demo_engine = {}" "me_resolved_attempts demo_engine = []"
  "midi_ok demo_engine"
  using new_midi_engine_ok [OF demo_engine_new demo_events_ok] by simp_all

lemma demo_engine_groups:
  "map xg_pitches (fp_expected_groups (me_policy demo_engine)) = [[''C4'', ''E4''], [''G4'']]"
  "fp_current_index (me_policy demo_engine) = 0" "fp_end_index (me_policy demo_engine) = 1"
  by code_simp+

lemma demo_names: "midi_pitch_name 60 = ''C4''" "midi_pitch_name 64 = ''E4''" "midi_pitch_name 67 = ''G4''"
  by code_simp+

text \<open>C20. A session on any note array never fails: whatever notes, skips, resets, drains, finalizations and
  closing came before, an engine that is open answers every event with a valid note and velocity and every
  skip without an exception, and the attempts it holds for the client are all resolved and have strictly
  increasing numbers, so that none is recorded twice.\<close>

theorem midi_session_never_fails:
  assumes session: "midi_session env (timeline_from_note_array env metadata segments note_array) st"
    and open_st: "\<not> me_closed st"
    and valid: "0 \<le> n" "n \<le> 127" "0 \<le> v" "v \<le> 127"
  shows "(\<exists>r. fst (midi_ingest_event env new_id is_on n v t st) = Inr r) \<and>
    (\<exists>r. fst (midi_skip_current_expected_group env new_id st) = Inr r) \<and>
    sorted_wrt (<) (map attempt_number (me_resolved_attempts st)) \<and>
    (\<forall>a \<in> set (me_resolved_attempts st). sp_state (oc_snapshot (ra_outcome a)) = Resolved)"
proof (intro conjI)
  have ok: "midi_ok st" by (rule midi_session_ok [OF session note_array_events_ok])
  show "\<exists>r. fst (midi_ingest_event env new_id is_on n v t st) = Inr r" by (rule midi_ingest_ok(2) [OF ok open_st valid])
  show "\<exists>r. fst (midi_skip_current_expected_group env new_id st) = Inr r"
    using midi_skip_run [OF ok open_st, of env new_id] by (metis fst_conv)
  show "sorted_wrt (<) (map attempt_number (me_resolved_attempts st))"
    "\<forall>a \<in> set (me_resolved_attempts st). sp_state (oc_snapshot (ra_outcome a)) = Resolved"
    using midi_okD(7) [OF ok] by (simp_all add: attempts_ok_def)
qed

theorem midi_session_never_fails_witness:
  "\<exists>r. fst (midi_ingest_event demo_env ''a'' True 60 64 10 demo_engine) = Inr r"
  using midi_session_never_fails [OF demo_timeline_session demo_engine_fields(1), of 60 64 "''a''" True 10] by simp

text \<open>C21. A MIDI session moves on exactly when the keys held are the keys of the expected chord. With \<open>keys\<close> the
  keys whose names are expected, a key that completes them moves the position on by one group, lets go of all
  keys and records one attempt, for that group; any other key, missing or wrong, is added to the keys held
  and neither moves the position nor records anything.\<close>

theorem midi_moves_on_exactly:
  assumes session: "midi_session env (timeline_from_note_array env metadata segments note_array) st"
    and open_st: "\<not> me_closed st" and g: "current_expected_group (me_policy st) = Some g"
    and valid: "0 \<le> n" "n \<le> 127" "0 < v" "v \<le> 127"
    and keys: "keys \<subseteq> {0..127}" "midi_pitch_name ` keys = set (xg_pitches g)"
  shows "\<exists>st'. snd (midi_ingest_event env new_id True n v t st) = st' \<and>
    (if insert n (active_notes st) = keys
     then fp_current_index (me_policy st') = fp_current_index (me_policy st) + 1 \<and> active_notes st' = {} \<and>
       (\<exists>a. me_resolved_attempts st' = me_resolved_attempts st @ [a] \<and> ra_action a = Advance \<and>
          an_group_id (ra_display_anchor a) = xg_id g)
     else me_policy st' = me_policy st \<and> active_notes st' = insert n (active_notes st) \<and>
       me_resolved_attempts st' = me_resolved_attempts st)"
proof -
  have ok: "midi_ok st" by (rule midi_session_ok [OF session note_array_events_ok])
  have n: "n \<in> midi_notes" using valid by (simp add: midi_notes_def)
  have "insert n (active_notes st) \<subseteq> midi_notes" using n midi_okD(2) [OF ok] by simp
  then have "chord_matches g (insert n (active_notes st)) = (insert n (active_notes st) = keys)"
    using keys(1) midi_names_eq [of "insert n (active_notes st)" keys]
    by (simp add: chord_matches_def midi_notes_def flip: keys(2))
  with play_note_run [OF ok open_st valid(3,4) n g, of env new_id t] show ?thesis
    by (auto simp: play_note_def moved_on_def)
qed

lemma demo_current_group:
  "\<exists>g. current_expected_group (me_policy demo_engine) = Some g \<and> xg_pitches g = [''C4'', ''E4'']"
proof -
  have "length (fp_expected_groups (me_policy demo_engine)) = 2"
    using arg_cong [OF demo_engine_groups(1), of length] by simp
  moreover from this have "xg_pitches (fp_expected_groups (me_policy demo_engine) ! 0) = [''C4'', ''E4'']"
    using demo_engine_groups(1) by (metis nth_Cons_0 nth_map zero_less_numeral)
  ultimately show ?thesis by (simp add: current_expected_group_def demo_engine_groups)
qed

theorem midi_moves_on_exactly_witness:
  "active_notes (snd (midi_ingest_event demo_env ''a'' True 60 64 10 demo_engine)) = {60} \<and>
   me_policy (snd (midi_ingest_event demo_env ''a'' True 60 64 10 demo_engine)) = me_policy demo_engine"
proof -
  obtain g where g: "current_expected_group (me_policy demo_engine) = Some g" "xg_pitches g = [''C4'', ''E4'']"
    using demo_current_group by blast
  have "midi_pitch_name ` {60, 64} = set (xg_pitches g)" by (simp add: g(2) demo_names)
  from midi_moves_on_exactly [OF demo_timeline_session demo_engine_fields(1) g(1) _ _ _ _ _ this, of 60 64 "''a''" 10]
  show ?thesis by (simp add: demo_engine_fields(2))
qed

text \<open>C22. A player who plays the chords of the scope one after the other reaches its end. From any state of a
  session in which no key is held, playing the keys of each group that is left, in any order within a chord,
  completes the scope, and records exactly one attempt for each of these groups, in their order, all of them
  advancing.\<close>

theorem midi_scope_completes:
  assumes session: "midi_session env (timeline_from_note_array env metadata segments note_array) st"
    and open_st: "\<not> me_closed st" and idle: "active_notes st = {}" and velocity: "0 < v" "v \<le> 127"
    and all: "int (length chords) = fp_end_index (me_policy st) + 1 - fp_current_index (me_policy st)"
    and chords: "\<forall>i < length chords. distinct (chords ! i) \<and> set (chords ! i) \<subseteq> {0..127} \<and>
      midi_pitch_name ` set (chords ! i) =
        set (xg_pitches (fp_expected_groups (me_policy st) ! (nat (fp_current_index (me_policy st)) + i)))"
  shows "current_expected_group (me_policy (foldl (play_chord env new_id v t) st chords)) = None \<and>
    (\<exists>as. me_resolved_attempts (foldl (play_chord env new_id v t) st chords) = me_resolved_attempts st @ as \<and>
       map ra_action as = replicate (length chords) Advance \<and>
       map (\<lambda>a. an_group_id (ra_display_anchor a)) as = map xg_id (take (length chords)
         (drop (nat (fp_current_index (me_policy st))) (fp_expected_groups (me_policy st)))))"
  by (rule play_chords [OF midi_session_ok [OF session note_array_events_ok] open_st velocity idle all])
    (use chords in \<open>simp add: chord_for_def chord_matches_def midi_notes_def\<close>)

theorem midi_scope_completes_witness:
  "current_expected_group
     (me_policy (foldl (play_chord demo_env ''a'' 64 10) demo_engine [[64, 60], [67]])) = None"
proof -
  have len: "length (fp_expected_groups (me_policy demo_engine)) = 2"
    using arg_cong [OF demo_engine_groups(1), of length] by simp
  then have pitches: "xg_pitches (fp_expected_groups (me_policy demo_engine) ! i) = [[''C4'', ''E4''], [''G4'']] ! i"
    if "i < 2" for i
    using that demo_engine_groups(1) by (metis nth_map)
  have "\<forall>i < length [[64, 60], [67 :: int]]. distinct ([[64, 60], [67 :: int]] ! i) \<and>
      set ([[64, 60], [67 :: int]] ! i) \<subseteq> {0..127} \<and> midi_pitch_name ` set ([[64, 60], [67]] ! i) =
        set (xg_pitches (fp_expected_groups (me_policy demo_engine) !
          (nat (fp_current_index (me_policy demo_engine)) + i)))"
    by (auto simp: less_Suc_eq pitches demo_engine_groups demo_names)
  then show ?thesis
    using midi_scope_completes [OF demo_timeline_session demo_engine_fields(1,2), of 64 "[[64, 60], [67]]" "''a''" 10]
    by (simp add: demo_engine_groups)
qed

end
