(* ===== verification/Step_Engine.thy ===== *)
theory Step_Engine
  imports Midi_Engine "HOL-Library.Word"
begin

text \<open>
  The engine of a practice session played into a microphone,
  \<open>backend/app/processing/engines/practice_alignment/step_practice_engine.py\<close>, and the contract of its verifier,
  \<open>step_microphone_verifier.py\<close>. The verifier is not part of the engine: what it answers to a chunk of audio
  for a target is an argument. Audio is a list of bytes, 16-bit little-endian samples.
\<close>

section \<open>The verifier's contract\<close>

record StepVerifierTarget =
  tv_step_id :: string
  tv_attack_pitches :: "string list"
  tv_continuation_pitches :: "string list"
  tv_activation_generation :: int

record StepVerifierEvent =
  ve_pitch :: string
  ve_event_sample_index :: int
  ve_event_time_seconds :: rat
  ve_onset_score :: rat
  ve_frame_score :: rat

record StepVerifierObservation =
  ob_step_id :: string
  ob_observed_attack_pitches :: "string list"
  ob_confidence :: rat
  ob_activation_generation :: int
  ob_events :: "StepVerifierEvent list"
  ob_decision_sample_index :: "int option"
  ob_decision_time_seconds :: "rat option"

definition step_verifier_target_from_attack_step :: "PracticeAttackStep \<Rightarrow> int \<Rightarrow> StepVerifierTarget" where
  "step_verifier_target_from_attack_step step generation =
     \<lparr>tv_step_id = as_id step, tv_attack_pitches = map at_pitch (as_attack_targets step),
      tv_continuation_pitches = map sn_pitch (as_continuation step), tv_activation_generation = generation\<rparr>"

section \<open>The level of the audio\<close>

fun pcm_samples :: "8 word list \<Rightarrow> int list" where
  "pcm_samples (lo # hi # bytes) = sint (word_cat hi lo :: 16 word) # pcm_samples bytes"
| "pcm_samples bytes = []"

definition pcm_s16le_level :: "'a float_ops_scheme \<Rightarrow> 8 word list \<Rightarrow> rat \<times> rat" where
  "pcm_s16le_level fl chunk =
     (let samples = pcm_samples chunk in
      if samples = [] then (0, 0)
      else
        let step = (\<lambda>(squares, peak) sample.
              let normalized = \<bar>fl_div fl (of_int sample) 32768\<bar>
              in (fl_add fl squares (fl_mul fl normalized normalized), max peak normalized));
            (squares, peak) = foldl step (0, 0) samples
        in (float_sqrt fl (fl_div fl squares (of_nat (length samples))), peak))"

section \<open>State\<close>

datatype VerificationProvider = SERVER | BROWSER_LOCAL

record StepEngine =
  se_sample_rate :: int
  se_channels :: int
  se_provider :: VerificationProvider
  se_total_bytes :: int
  se_closed :: bool
  se_audio_received :: bool
  se_last_input_rms :: rat
  se_last_input_peak :: rat
  se_last_beat_position :: "rat option"
  se_last_alignment_timestamp_ms :: "int option"
  se_lifecycle :: PracticeAttemptLifecycle
  se_resolved_attempts :: "ResolvedPracticeAttempt list"
  se_last_observation :: "StepVerifierObservation option"
  se_generation :: int
  se_score_end_beat :: rat
  se_policy :: FollowPolicy

definition new_step_engine ::
  "practice_env \<Rightarrow> PracticeScoreTimeline \<Rightarrow> int \<Rightarrow> int \<Rightarrow> string \<Rightarrow> string \<Rightarrow> string \<Rightarrow> string \<Rightarrow> string \<Rightarrow>
   string option \<Rightarrow> string option \<Rightarrow> bool \<Rightarrow> VerificationProvider \<Rightarrow> practice_error + StepEngine" where
  "new_step_engine env timeline sample_rate channels frame_format progression_mode realtime_guidance
     evaluation_profile input_source start_group end_group has_verifier provider =
     (if input_source \<noteq> ''MICROPHONE''
      then Inl (RuntimeError ''STEP practice sessions currently require MICROPHONE input.'')
      else if channels \<noteq> 1 then Inl (RuntimeError ''STEP practice sessions require mono audio.'')
      else if frame_format \<noteq> ''pcm_s16le''
      then Inl (RuntimeError ''STEP practice sessions require pcm_s16le audio.'')
      else if progression_mode \<noteq> ''WAIT_FOR_NOTE''
      then Inl (RuntimeError ''STEP practice sessions require WAIT_FOR_NOTE progression.'')
      else if realtime_guidance \<noteq> ''GUIDED'' \<or> evaluation_profile \<noteq> ''LEARNING''
      then Inl (RuntimeError ''STEP practice sessions require canonical learning config.'')
      else if provider = SERVER \<and> \<not> has_verifier
      then Inl (RuntimeError (''STEP microphone runtime requires a StepMicrophoneVerifier. '' @
        ''Legacy acoustic fallback is disabled.''))
      else if provider = BROWSER_LOCAL \<and> has_verifier
      then Inl (RuntimeError ''STEP microphone runtime must use exactly one acoustic verification provider.'')
      else if tm_first_playable_beat timeline = None
      then Inl (RuntimeError ''Practice score timeline contains no playable events.'')
      else (case follow_policy_for_progression env timeline progression_mode start_group end_group of
          Inl e \<Rightarrow> Inl e
        | Inr policy \<Rightarrow> Inr \<lparr>se_sample_rate = sample_rate, se_channels = channels, se_provider = provider,
            se_total_bytes = 0, se_closed = False, se_audio_received = False, se_last_input_rms = 0,
            se_last_input_peak = 0, se_last_beat_position = None, se_last_alignment_timestamp_ms = None,
            se_lifecycle = new_lifecycle, se_resolved_attempts = [], se_last_observation = None,
            se_generation = 1, se_score_end_beat = tm_end_beat timeline, se_policy = policy\<rparr>))"

definition step_timestamp_ms :: "'a float_ops_scheme \<Rightarrow> StepEngine \<Rightarrow> int" where
  "step_timestamp_ms fl st =
     (let frame_width = max (se_channels st * 2) 1;
          total_samples = fl_div fl (of_int (se_total_bytes st)) (of_int frame_width)
      in py_trunc (fl_mul fl (fl_div fl total_samples (of_int (max (se_sample_rate st) 1))) 1000))"

text \<open>The floats 0.999 and 0.0001.\<close>

definition clipping_peak :: rat where "clipping_peak = 8998192055486251 / 9007199254740992"

definition quiet_rms :: rat where "quiet_rms = 7378697629483821 / 73786976294838206464"

definition step_input_health :: "StepEngine \<Rightarrow> InputHealth" where
  "step_input_health st =
     (if \<not> se_audio_received st
      then \<lparr>ih_available = False, ih_level = ''too_quiet'', ih_noise = ''good'', ih_confidence = 0\<rparr>
      else if se_last_input_peak st \<ge> clipping_peak
      then \<lparr>ih_available = True, ih_level = ''clipping'', ih_noise = ''good'', ih_confidence = 1\<rparr>
      else if se_last_input_rms st \<le> quiet_rms
      then \<lparr>ih_available = True, ih_level = ''too_quiet'', ih_noise = ''good'', ih_confidence = 1 / 2\<rparr>
      else good_input_health)"

section \<open>Updates\<close>

text \<open>\<open>_alignment_update\<close>: the last position and time are remembered.\<close>

definition step_alignment_update ::
  "'a float_ops_scheme \<Rightarrow> rat \<Rightarrow> rat \<Rightarrow> bool \<Rightarrow> AlignmentDecision \<Rightarrow> bool \<Rightarrow> string \<Rightarrow> string \<Rightarrow> bool \<Rightarrow> string \<Rightarrow>
   rat \<Rightarrow> StepEngine \<Rightarrow> AlignmentUpdate \<times> StepEngine" where
  "step_alignment_update fl beat confidence completed decision active stream gate signals state weight st =
     (let timestamp_ms = step_timestamp_ms fl st;
          beat_delta = map_option (\<lambda>previous. py_round fl 3 (fl_sub fl beat previous)) (se_last_beat_position st);
          rounded = py_round fl 3 confidence
      in (\<lparr>au_beat_position = py_round fl 3 beat, au_confidence = rounded, au_alignment_confidence = rounded,
           au_audio_confidence = rounded, au_continuity_confidence = 1, au_visual_confidence = rounded,
           au_timestamp_ms = timestamp_ms, au_scope_completed = completed,
           au_completion_reason = completion_reason_of completed, au_audio_active = active,
           au_input_rms = py_round fl 5 (se_last_input_rms st), au_input_peak = py_round fl 5 (se_last_input_peak st),
           au_input_health = step_input_health st, au_match_state = ''matched'', au_feature_confidence = rounded,
           au_beat_delta = beat_delta, au_stream_state = stream, au_frame_class = ''step_verifier'',
           au_gate_reason = gate, au_queue_decision = gate, au_tonal_signal = signals, au_onset_signal = signals,
           au_spectral_flatness = 0, au_peak_prominence = 0, au_spectral_flux = 0, au_alignment_state = state,
           au_continuity_state = continuity_state beat_delta,
           au_beat_velocity = beat_velocity fl beat_delta timestamp_ms (se_last_alignment_timestamp_ms st),
           au_validation_confidence = rounded, au_input_weight = py_round fl 3 weight,
           au_input_policy_confidence = rounded, au_decision = decision\<rparr>,
          st\<lparr>se_last_beat_position := Some beat, se_last_alignment_timestamp_ms := Some timestamp_ms\<rparr>))"

definition step_completed_update :: "'a float_ops_scheme \<Rightarrow> StepEngine \<Rightarrow> AlignmentUpdate \<times> StepEngine" where
  "step_completed_update fl st =
     step_alignment_update fl (se_score_end_beat st) 1 True (decide fl (se_policy st) ''matched'' True full_confidence)
       True ''following'' ''step_completed'' False ''matched'' 0 st"

definition is_current_observation :: "StepVerifierObservation \<Rightarrow> PracticeAttackStep \<Rightarrow> StepEngine \<Rightarrow> bool" where
  "is_current_observation ob step st \<longleftrightarrow>
     ob_step_id ob = as_id step \<and> ob_activation_generation ob = se_generation st \<and>
     set (ob_observed_attack_pitches ob) = set (map at_pitch (as_attack_targets step))"

text \<open>What is common to an accepted observation and a skip once the policy has decided: the next activation, the
  outcome in the decision, the update and the attempt recorded.\<close>

definition step_moved ::
  "'a float_ops_scheme \<Rightarrow> ExpectedPracticeGroup \<Rightarrow> PracticeAttemptOutcome option \<Rightarrow> AlignmentDecision \<Rightarrow> rat \<Rightarrow>
   bool \<Rightarrow> string \<Rightarrow> string \<Rightarrow> string \<Rightarrow> rat \<Rightarrow> StepEngine \<Rightarrow> AlignmentUpdate \<times> StepEngine" where
  "step_moved fl g outcome decision0 confidence active stream gate state weight st =
     (let st1 = st\<lparr>se_generation := se_generation st + 1\<rparr>;
          decision = attach_attempt_outcome decision0 outcome;
          (update, st2) = step_alignment_update fl (beat_after g decision) confidence
            (current_expected_group (se_policy st1) = None) decision active stream gate active state weight st1
      in (update, st2\<lparr>se_resolved_attempts :=
            append_for_expected_group fl outcome update g (se_resolved_attempts st2)\<rparr>))"

definition match_evaluation :: "ExpectedPracticeGroup \<Rightarrow> StepVerifierObservation \<Rightarrow> PracticeEventEvaluation" where
  "match_evaluation g ob = \<lparr>pe_expected_group_id = xg_id g, pe_result = MATCH,
     matched_pitches = ob_observed_attack_pitches ob, missing_pitches = [], extra_pitches = [],
     pe_confidence = ob_confidence ob, evaluator_version = ''step-microphone-verifier-v1''\<rparr>"

definition accepted_observation_update ::
  "'a float_ops_scheme \<Rightarrow> string \<Rightarrow> StepVerifierObservation \<Rightarrow> ExpectedPracticeGroup \<Rightarrow> StepEngine \<Rightarrow>
   (practice_error + AlignmentUpdate option) \<times> StepEngine" where
  "accepted_observation_update fl new_id ob g st =
     (let timestamp_ms = step_timestamp_ms fl st;
          evaluation = match_evaluation g ob;
          (outcome, lc) = assembler_resolve evaluation timestamp_ms
            (attempt_begin new_id (xg_id g) timestamp_ms (se_lifecycle st));
          st1 = st\<lparr>se_lifecycle := lc\<rparr>;
          evidence = \<lparr>observed_pitches = ob_observed_attack_pitches ob, ee_confidence = ob_confidence ob,
            ee_source = AUDIO, ee_onset_beat = Some (xg_onset_beat g), ee_alignment_beat = Some (xg_onset_beat g)\<rparr>
      in case decide_evaluation fl (se_policy st1) evidence evaluation of
           (Inl e, p) \<Rightarrow> (Inl e, st1\<lparr>se_policy := p\<rparr>)
         | (Inr decision, p) \<Rightarrow>
             let (update, st2) = step_moved fl g outcome decision (ob_confidence ob) True ''following''
                   ''step_microphone_verifier_match'' ''matched'' 1 (st1\<lparr>se_policy := p\<rparr>)
             in (Inr (Some update), st2))"

section \<open>Calls\<close>

definition step_ingest_audio ::
  "'a float_ops_scheme \<Rightarrow> string \<Rightarrow> (StepVerifierTarget \<Rightarrow> StepVerifierObservation option) \<Rightarrow> 8 word list \<Rightarrow>
   StepEngine \<Rightarrow> (practice_error + AlignmentUpdate option) \<times> StepEngine" where
  "step_ingest_audio fl new_id observe chunk st =
     (if se_closed st then (Inl (RuntimeError ''STEP practice engine is closed.''), st)
      else if chunk = [] then (Inr None, st)
      else
        let (rms, peak) = pcm_s16le_level fl chunk;
            st1 = st\<lparr>se_total_bytes := se_total_bytes st + int (length chunk), se_audio_received := True,
              se_last_input_rms := rms, se_last_input_peak := peak\<rparr>
        in case (current_expected_group (se_policy st1), current_attack_step (se_policy st1)) of
             (Some g, Some step) \<Rightarrow>
               if se_provider st1 \<noteq> SERVER then (Inr None, st1)
               else (case observe (step_verifier_target_from_attack_step step (se_generation st1)) of
                   None \<Rightarrow> (Inr None, st1)
                 | Some ob \<Rightarrow>
                     let st2 = st1\<lparr>se_last_observation := Some ob\<rparr>
                     in if is_current_observation ob step st2 then accepted_observation_update fl new_id ob g st2
                        else (Inr None, st2))
           | _ \<Rightarrow> let (update, st2) = step_completed_update fl st1 in (Inr (Some update), st2))"

definition step_ingest_observation ::
  "'a float_ops_scheme \<Rightarrow> string \<Rightarrow> StepVerifierObservation \<Rightarrow> StepEngine \<Rightarrow>
   (practice_error + AlignmentUpdate option) \<times> StepEngine" where
  "step_ingest_observation fl new_id ob st =
     (if se_closed st then (Inl (RuntimeError ''STEP practice engine is closed.''), st)
      else if se_provider st \<noteq> BROWSER_LOCAL then (Inr None, st)
      else case (current_expected_group (se_policy st), current_attack_step (se_policy st)) of
          (Some g, Some step) \<Rightarrow>
            let st1 = st\<lparr>se_last_observation := Some ob\<rparr>
            in if is_current_observation ob step st1 then accepted_observation_update fl new_id ob g st1
               else (Inr None, st1)
        | _ \<Rightarrow> let (update, st1) = step_completed_update fl st in (Inr (Some update), st1))"

definition step_ingest_midi_event :: "StepEngine \<Rightarrow> (practice_error + AlignmentUpdate option) \<times> StepEngine" where
  "step_ingest_midi_event st =
     (Inl (RuntimeError ''Microphone STEP practice sessions do not accept MIDI events.''), st)"

definition step_reset_input_buffer :: "StepEngine \<Rightarrow> StepEngine" where
  "step_reset_input_buffer st = st\<lparr>se_policy := policy_reset (se_policy st), se_lifecycle := new_lifecycle,
     se_last_observation := None, se_last_beat_position := None, se_last_alignment_timestamp_ms := None,
     se_generation := se_generation st + 1\<rparr>"

definition step_clear_verifier_session :: "StepEngine \<Rightarrow> StepEngine" where
  "step_clear_verifier_session st = st\<lparr>se_last_observation := None, se_lifecycle := clear_current (se_lifecycle st)\<rparr>"

definition step_skip_current_expected_group ::
  "'a float_ops_scheme \<Rightarrow> string \<Rightarrow> StepEngine \<Rightarrow> (practice_error + AlignmentUpdate option) \<times> StepEngine" where
  "step_skip_current_expected_group fl new_id st =
     (if se_closed st then (Inl (RuntimeError ''STEP practice engine is closed.''), st)
      else case current_expected_group (se_policy st) of
        None \<Rightarrow> let (update, st1) = step_completed_update fl st in (Inr (Some update), st1)
      | Some g \<Rightarrow>
          let st1 = step_clear_verifier_session st;
              timestamp_ms = step_timestamp_ms fl st1;
              (outcome, lc) = assembler_resolve (skip_evaluation g) timestamp_ms
                (attempt_begin new_id (xg_id g) timestamp_ms (se_lifecycle st1));
              st2 = st1\<lparr>se_lifecycle := lc\<rparr>
          in (case skip_current_group fl (se_policy st2) of
                (Inl e, p) \<Rightarrow> (Inl e, st2\<lparr>se_policy := p\<rparr>)
              | (Inr decision, p) \<Rightarrow>
                  let (update, st3) = step_moved fl g outcome decision 1 False ''skipped'' ''user_skipped'' ''skipped'' 0
                        (st2\<lparr>se_policy := p\<rparr>)
                  in (Inr (Some update), st3)))"

definition step_drain_resolved_practice_attempts :: "StepEngine \<Rightarrow> ResolvedPracticeAttempt list \<times> StepEngine" where
  "step_drain_resolved_practice_attempts st = (se_resolved_attempts st, st\<lparr>se_resolved_attempts := []\<rparr>)"

definition drain_step_microphone_verifier_observations ::
  "StepEngine \<Rightarrow> StepVerifierObservation list \<times> StepEngine" where
  "drain_step_microphone_verifier_observations st =
     ((case se_last_observation st of None \<Rightarrow> [] | Some ob \<Rightarrow> [ob]), st\<lparr>se_last_observation := None\<rparr>)"

definition current_step_verifier_target :: "StepEngine \<Rightarrow> StepVerifierTarget option" where
  "current_step_verifier_target st =
     map_option (\<lambda>step. step_verifier_target_from_attack_step step (se_generation st)) (current_attack_step (se_policy st))"

definition step_finalize_pending_practice_attempt :: "StepEngine \<Rightarrow> ResolvedPracticeAttempt list \<times> StepEngine" where
  "step_finalize_pending_practice_attempt st =
     step_drain_resolved_practice_attempts (step_clear_verifier_session st)"

definition step_close :: "StepEngine \<Rightarrow> StepEngine" where
  "step_close st = (if se_closed st then st else st\<lparr>se_closed := True\<rparr>)"

end
