(* ===== verification/Step_Session.thy ===== *)
theory Step_Session
  imports Step_Engine Practice_Progress
begin

text \<open>
  A whole STEP session: which observations of the verifier move the session on, that none of them counts twice,
  that no call fails while the engine is open, and that the times of its updates never go back.
\<close>

section \<open>The invariant\<close>

definition step_ok :: "StepEngine \<Rightarrow> bool" where
  "step_ok st \<longleftrightarrow> policy_ok (se_policy st) \<and> \<not> attempt_pending (se_lifecycle st) \<and>
     validate_attack_step_pairing (fp_expected_groups (se_policy st)) (fp_attack_steps (se_policy st)) = None"

lemma begin_fresh: "\<not> attempt_pending lc \<Longrightarrow> attempt_begin new_id group_id t lc =
    \<lparr>next_sequence = next_sequence lc + 1,
     current_attempt = Some \<lparr>sp_attempt_id = new_id, sp_attempt_sequence = next_sequence lc,
       sp_expected_group_id = group_id, sp_started_at_ms = t, sp_state = Pending, sp_resolved_at_ms = None\<rparr>\<rparr>"
  by (auto simp: attempt_begin_def attempt_pending_def split: option.split)

text \<open>What an attempt that is begun and resolved at once leaves.\<close>

definition fresh_outcome :: "string \<Rightarrow> string \<Rightarrow> int \<Rightarrow> int \<Rightarrow> PracticeEventEvaluation \<Rightarrow> PracticeAttemptOutcome" where
  "fresh_outcome new_id group_id number t evaluation =
     \<lparr>oc_snapshot = \<lparr>sp_attempt_id = new_id, sp_attempt_sequence = number, sp_expected_group_id = group_id,
        sp_started_at_ms = t, sp_state = Resolved, sp_resolved_at_ms = Some t\<rparr>,
      oc_evaluation = evaluation, oc_policy_profile_version = ''wait-for-note-v1''\<rparr>"

lemma resolve_fresh: "\<not> attempt_pending lc \<Longrightarrow>
    assembler_resolve evaluation t (attempt_begin new_id group_id t lc) =
      (Some (fresh_outcome new_id group_id (next_sequence lc) t evaluation),
       \<lparr>next_sequence = next_sequence lc + 1,
        current_attempt = Some (oc_snapshot (fresh_outcome new_id group_id (next_sequence lc) t evaluation))\<rparr>)"
  by (simp add: begin_fresh assembler_resolve_def attempt_resolve_def resolved_snapshot_def outcome_of_def
      fresh_outcome_def Let_def)

lemma fresh_outcome_fields [simp]:
  "sp_state (oc_snapshot (fresh_outcome new_id group_id n t ev)) = Resolved"
  "oc_evaluation (fresh_outcome new_id group_id n t ev) = ev"
  "sp_started_at_ms (oc_snapshot (fresh_outcome new_id group_id n t ev)) = t"
  "sp_expected_group_id (oc_snapshot (fresh_outcome new_id group_id n t ev)) = group_id"
  "sp_resolved_at_ms (oc_snapshot (fresh_outcome new_id group_id n t ev)) = Some t"
  by (simp_all add: fresh_outcome_def)

lemma step_timestamp_fields: "se_total_bytes st' = se_total_bytes st \<Longrightarrow> se_channels st' = se_channels st \<Longrightarrow>
    se_sample_rate st' = se_sample_rate st \<Longrightarrow> step_timestamp_ms fl st' = step_timestamp_ms fl st"
  by (simp add: step_timestamp_ms_def)

text \<open>The part of the state that no call but audio changes.\<close>

definition same_stream :: "StepEngine \<Rightarrow> StepEngine \<Rightarrow> bool" where
  "same_stream st st' \<longleftrightarrow> se_total_bytes st' = se_total_bytes st \<and> se_channels st' = se_channels st \<and>
     se_sample_rate st' = se_sample_rate st \<and> se_provider st' = se_provider st \<and> se_closed st' = se_closed st"

lemma same_stream_refl [simp]: "same_stream st st" by (simp add: same_stream_def)

lemma step_alignment_update_run: "\<exists>update st'. step_alignment_update fl beat confidence completed decision active stream
      gate signals state weight st = (update, st') \<and> au_timestamp_ms update = step_timestamp_ms fl st \<and>
    au_scope_completed update = completed \<and> au_decision update = decision \<and> same_stream st st' \<and>
    se_policy st' = se_policy st \<and> se_lifecycle st' = se_lifecycle st \<and> se_generation st' = se_generation st \<and>
    se_resolved_attempts st' = se_resolved_attempts st"
  by (simp add: step_alignment_update_def same_stream_def Let_def)

lemma step_completed_run:
  assumes "current_expected_group (se_policy st) = None"
  shows "\<exists>update st'. step_completed_update fl st = (update, st') \<and> au_timestamp_ms update = step_timestamp_ms fl st \<and>
    au_scope_completed update \<and> de_action (au_decision update) = Hold \<and> same_stream st st' \<and>
    se_policy st' = se_policy st \<and> se_lifecycle st' = se_lifecycle st \<and> se_generation st' = se_generation st \<and>
    se_resolved_attempts st' = se_resolved_attempts st"
  using assms
  by (simp add: step_completed_update_def step_alignment_update_def same_stream_def decide_def decision_of_def Let_def)

text \<open>An accepted observation or a skip, once the policy decided.\<close>

lemma step_moved_run: "\<exists>update st' a. step_moved fl g (Some (fresh_outcome new_id group_id n t ev)) decision confidence
      active stream gate state weight st = (update, st') \<and> au_timestamp_ms update = step_timestamp_ms fl st \<and>
    au_scope_completed update = (current_expected_group (se_policy st) = None) \<and>
    de_action (au_decision update) = de_action decision \<and> same_stream st st' \<and> se_policy st' = se_policy st \<and>
    se_lifecycle st' = se_lifecycle st \<and> se_generation st' = se_generation st + 1 \<and>
    se_resolved_attempts st' = se_resolved_attempts st @ [a] \<and> ra_outcome a = fresh_outcome new_id group_id n t ev \<and>
    ra_action a = de_action decision \<and> ra_timestamp_ms a = step_timestamp_ms fl st"
proof -
  have act: "de_action (attach_attempt_outcome decision oc) = de_action decision" for oc
    by (simp add: attach_attempt_outcome_def Let_def split: option.split)
  have ts: "step_timestamp_ms fl (st\<lparr>se_generation := k\<rparr>) = step_timestamp_ms fl st" for k
    by (rule step_timestamp_fields) simp_all
  show ?thesis
    by (simp add: step_moved_def step_alignment_update_def append_for_expected_group_def
        resolved_attempt_from_outcome_def same_stream_def act ts Let_def)
qed

text \<open>What it means that an engine moved on from the group \<open>g\<close> with the given evaluation.\<close>

definition moved_with :: "'a float_ops_scheme \<Rightarrow> ExpectedPracticeGroup \<Rightarrow> PracticeEventEvaluation \<Rightarrow> AlignmentAction \<Rightarrow>
   StepEngine \<Rightarrow> AlignmentUpdate \<Rightarrow> StepEngine \<Rightarrow> bool" where
  "moved_with fl g evaluation action st update st' \<longleftrightarrow>
     same_stream st st' \<and> se_policy st' = moved_on (se_policy st) \<and> se_generation st' = se_generation st + 1 \<and>
     \<not> attempt_pending (se_lifecycle st') \<and>
     au_timestamp_ms update = step_timestamp_ms fl st \<and> de_action (au_decision update) = action \<and>
     au_scope_completed update = (current_expected_group (moved_on (se_policy st)) = None) \<and>
     (\<exists>a. se_resolved_attempts st' = se_resolved_attempts st @ [a] \<and> ra_action a = action \<and>
        oc_evaluation (ra_outcome a) = evaluation \<and> sp_state (oc_snapshot (ra_outcome a)) = Resolved \<and>
        sp_expected_group_id (oc_snapshot (ra_outcome a)) = xg_id g \<and>
        ra_timestamp_ms a = step_timestamp_ms fl st)"

lemma resolved_not_pending: "sp_state s = Resolved \<Longrightarrow> \<not> attempt_pending \<lparr>next_sequence = n, current_attempt = Some s\<rparr>"
  by (simp add: attempt_pending_def)

lemma accepted_observation_run:
  assumes ok: "step_ok st" and g: "current_expected_group (se_policy st) = Some g"
  shows "\<exists>update st'. accepted_observation_update fl new_id ob g st = (Inr (Some update), st') \<and>
    moved_with fl g (match_evaluation g ob) Advance st update st'"
proof -
  let ?ev = "match_evaluation g ob" and ?t = "step_timestamp_ms fl st"
  let ?oc = "fresh_outcome new_id (xg_id g) (next_sequence (se_lifecycle st)) ?t ?ev"
  define st1 where "st1 = st\<lparr>se_lifecycle := \<lparr>next_sequence = next_sequence (se_lifecycle st) + 1,
    current_attempt = Some (oc_snapshot ?oc)\<rparr>\<rparr>"
  define st2 where "st2 = st1\<lparr>se_policy := moved_on (se_policy st)\<rparr>"
  define evidence where "evidence = \<lparr>observed_pitches = ob_observed_attack_pitches ob, ee_confidence = ob_confidence ob,
    ee_source = AUDIO, ee_onset_beat = Some (xg_onset_beat g), ee_alignment_beat = Some (xg_onset_beat g)\<rparr>"
  have "\<not> attempt_pending (se_lifecycle st)" using ok by (simp add: step_ok_def)
  note resolved = resolve_fresh [OF this, of ?ev ?t new_id "xg_id g"]
  have policy1: "se_policy st1 = se_policy st" by (simp add: st1_def)
  have "pe_result ?ev = MATCH" by (simp add: match_evaluation_def)
  with decide_evaluation_run [OF g, of fl evidence ?ev] obtain d where
    d: "decide_evaluation fl (se_policy st) evidence ?ev = (Inr d, moved_on (se_policy st))" "de_action d = Advance"
    by auto
  from step_moved_run [of fl g new_id "xg_id g" "next_sequence (se_lifecycle st)" ?t ?ev d "ob_confidence ob" True
      "''following''" "''step_microphone_verifier_match''" "''matched''" 1 st2]
  obtain update st' a where moved: "step_moved fl g (Some ?oc) d (ob_confidence ob) True ''following''
        ''step_microphone_verifier_match'' ''matched'' 1 st2 = (update, st')"
    and r: "au_timestamp_ms update = step_timestamp_ms fl st2"
      "au_scope_completed update = (current_expected_group (se_policy st2) = None)"
      "de_action (au_decision update) = de_action d" "same_stream st2 st'" "se_policy st' = se_policy st2"
      "se_lifecycle st' = se_lifecycle st2" "se_generation st' = se_generation st2 + 1"
      "se_resolved_attempts st' = se_resolved_attempts st2 @ [a]" "ra_outcome a = ?oc"
      "ra_action a = de_action d" "ra_timestamp_ms a = step_timestamp_ms fl st2" by metis
  have run: "accepted_observation_update fl new_id ob g st = (Inr (Some update), st')"
    using d(1) moved
    by (simp add: accepted_observation_update_def resolved Let_def policy1 st1_def [symmetric]
        evidence_def [symmetric] st2_def [symmetric])
  have "step_timestamp_ms fl st2 = ?t" by (rule step_timestamp_fields) (simp_all add: st2_def st1_def)
  with r d(2) have "moved_with fl g ?ev Advance st update st'"
    by (simp add: moved_with_def same_stream_def st2_def st1_def resolved_not_pending)
  with run show ?thesis by blast
qed

lemma step_skip_run:
  assumes ok: "step_ok st" and "\<not> se_closed st" and g: "current_expected_group (se_policy st) = Some g"
  shows "\<exists>update st'. step_skip_current_expected_group fl new_id st = (Inr (Some update), st') \<and>
    moved_with fl g (skip_evaluation g) Skip st update st'"
proof -
  let ?ev = "skip_evaluation g" and ?t = "step_timestamp_ms fl st" and ?lc = "clear_current (se_lifecycle st)"
  let ?oc = "fresh_outcome new_id (xg_id g) (next_sequence ?lc) ?t ?ev"
  define st1 where "st1 = (step_clear_verifier_session st)\<lparr>se_lifecycle := \<lparr>next_sequence = next_sequence ?lc + 1,
    current_attempt = Some (oc_snapshot ?oc)\<rparr>\<rparr>"
  define st2 where "st2 = st1\<lparr>se_policy := moved_on (se_policy st)\<rparr>"
  have "\<not> attempt_pending ?lc" by (simp add: clear_current_def attempt_pending_def)
  note resolved = resolve_fresh [OF this, of ?ev ?t new_id "xg_id g"]
  have policy0: "se_policy (step_clear_verifier_session st) = se_policy st" by (simp add: step_clear_verifier_session_def)
  have t0: "step_timestamp_ms fl (step_clear_verifier_session st) = ?t"
    by (rule step_timestamp_fields) (simp_all add: step_clear_verifier_session_def)
  have lc0: "se_lifecycle (step_clear_verifier_session st) = ?lc" by (simp add: step_clear_verifier_session_def)
  obtain d where d: "skip_current_group fl (se_policy st) = (Inr d, moved_on (se_policy st))" "de_action d = Skip"
    using skip_current_group_run [OF g, of fl] by (simp add: decision_of_def)
  from step_moved_run [of fl g new_id "xg_id g" "next_sequence ?lc" ?t ?ev d 1 False "''skipped''" "''user_skipped''"
      "''skipped''" 0 st2]
  obtain update st' a where moved: "step_moved fl g (Some ?oc) d 1 False ''skipped'' ''user_skipped'' ''skipped'' 0 st2
        = (update, st')"
    and r: "au_timestamp_ms update = step_timestamp_ms fl st2"
      "au_scope_completed update = (current_expected_group (se_policy st2) = None)"
      "de_action (au_decision update) = de_action d" "same_stream st2 st'" "se_policy st' = se_policy st2"
      "se_lifecycle st' = se_lifecycle st2" "se_generation st' = se_generation st2 + 1"
      "se_resolved_attempts st' = se_resolved_attempts st2 @ [a]" "ra_outcome a = ?oc"
      "ra_action a = de_action d" "ra_timestamp_ms a = step_timestamp_ms fl st2" by metis
  have run: "step_skip_current_expected_group fl new_id st = (Inr (Some update), st')"
    using d(1) moved assms(2) g unfolding st1_def st2_def
    by (simp add: step_skip_current_expected_group_def t0 lc0 resolved Let_def policy0)
  have "step_timestamp_ms fl st2 = ?t"
    by (rule step_timestamp_fields) (simp_all add: st2_def st1_def step_clear_verifier_session_def)
  with r d(2) have "moved_with fl g ?ev Skip st update st'"
    by (simp add: moved_with_def same_stream_def st2_def st1_def step_clear_verifier_session_def resolved_not_pending)
  with run show ?thesis by blast
qed

section \<open>Every call\<close>

definition updates_of :: "practice_error + AlignmentUpdate option \<Rightarrow> AlignmentUpdate list" where
  "updates_of r = (case r of Inr (Some update) \<Rightarrow> [update] | _ \<Rightarrow> [])"

text \<open>The calls made on an engine, with the updates they returned.\<close>

inductive step_run :: "practice_env \<Rightarrow> StepEngine \<Rightarrow> AlignmentUpdate list \<Rightarrow> StepEngine \<Rightarrow> bool" for fl st where
  Run_start: "step_run fl st [] st"
| Run_audio: "step_run fl st us st1 \<Longrightarrow> step_ingest_audio fl new_id observe chunk st1 = (r, st2) \<Longrightarrow>
    step_run fl st (us @ updates_of r) st2"
| Run_observation: "step_run fl st us st1 \<Longrightarrow> step_ingest_observation fl new_id ob st1 = (r, st2) \<Longrightarrow>
    step_run fl st (us @ updates_of r) st2"
| Run_midi: "step_run fl st us st1 \<Longrightarrow> step_ingest_midi_event st1 = (r, st2) \<Longrightarrow> step_run fl st (us @ updates_of r) st2"
| Run_skip: "step_run fl st us st1 \<Longrightarrow> step_skip_current_expected_group fl new_id st1 = (r, st2) \<Longrightarrow>
    step_run fl st (us @ updates_of r) st2"
| Run_reset: "step_run fl st us st1 \<Longrightarrow> step_run fl st us (step_reset_input_buffer st1)"
| Run_drain: "step_run fl st us st1 \<Longrightarrow> step_run fl st us (snd (step_drain_resolved_practice_attempts st1))"
| Run_observations: "step_run fl st us st1 \<Longrightarrow> step_run fl st us (snd (drain_step_microphone_verifier_observations st1))"
| Run_finalize: "step_run fl st us st1 \<Longrightarrow> step_run fl st us (snd (step_finalize_pending_practice_attempt st1))"
| Run_close: "step_run fl st us st1 \<Longrightarrow> step_run fl st us (step_close st1)"

text \<open>The engine after a chunk was counted and measured.\<close>

definition heard :: "'a float_ops_scheme \<Rightarrow> 8 word list \<Rightarrow> StepEngine \<Rightarrow> StepEngine" where
  "heard fl chunk st = st\<lparr>se_total_bytes := se_total_bytes st + int (length chunk), se_audio_received := True,
     se_last_input_rms := fst (pcm_s16le_level fl chunk), se_last_input_peak := snd (pcm_s16le_level fl chunk)\<rparr>"

lemma heard_fields [simp]:
  "se_policy (heard fl chunk st) = se_policy st" "se_lifecycle (heard fl chunk st) = se_lifecycle st"
  "se_generation (heard fl chunk st) = se_generation st" "se_provider (heard fl chunk st) = se_provider st"
  "se_closed (heard fl chunk st) = se_closed st" "se_channels (heard fl chunk st) = se_channels st"
  "se_sample_rate (heard fl chunk st) = se_sample_rate st"
  "se_total_bytes (heard fl chunk st) = se_total_bytes st + int (length chunk)"
  "se_resolved_attempts (heard fl chunk st) = se_resolved_attempts st"
  by (simp_all add: heard_def)

lemma step_ok_heard [simp]: "step_ok (heard fl chunk st) = step_ok st"
  by (simp add: step_ok_def)

lemma step_ok_observed [simp]: "step_ok (st\<lparr>se_last_observation := x\<rparr>) = step_ok st"
  by (simp add: step_ok_def)

lemma moved_with_ok:
  assumes "step_ok st" and "current_expected_group (se_policy st) = Some g"
    and "moved_with fl g evaluation action st update st'"
  shows "step_ok st'"
proof -
  have "policy_ok (moved_on (se_policy st))" using assms(1,2) by (auto simp: step_ok_def intro: moved_on_ok)
  with assms(1,3) show ?thesis by (simp add: step_ok_def moved_with_def moved_on_def)
qed

lemma observed_group:
  assumes ok: "step_ok st" and "current_expected_group (se_policy st) = Some g"
  obtains step where "current_attack_step (se_policy st) = Some step"
    and "set (map at_pitch (as_attack_targets step)) = set (xg_pitches g)"
proof -
  let ?p = "se_policy st" and ?i = "nat (fp_current_index (se_policy st))"
  have p: "policy_ok ?p" using ok by (simp add: step_ok_def)
  have len: "length (fp_attack_steps ?p) = length (fp_expected_groups ?p)" and i: "?i < length (fp_expected_groups ?p)"
    and nonneg: "0 \<le> fp_current_index ?p" and le: "fp_current_index ?p \<le> fp_end_index ?p"
    and g: "g = fp_expected_groups ?p ! ?i"
    using p current_group_member [OF p assms(2)] by (auto simp: policy_ok_def)
  have "current_attack_step ?p = Some (fp_attack_steps ?p ! ?i)"
    using i le len nonneg by (simp add: current_attack_step_def)
  moreover have "pair_mismatch gs = None \<Longrightarrow> (a, b) \<in> set gs \<Longrightarrow>
      set (map at_pitch (as_attack_targets b)) = set (xg_pitches a)" for gs a b
    by (induction gs rule: pair_mismatch.induct) (auto split: if_splits)
  moreover have "pair_mismatch (zip (fp_expected_groups ?p) (fp_attack_steps ?p)) = None"
    using ok by (auto simp: step_ok_def validate_attack_step_pairing_def split: if_splits)
  moreover have "(g, fp_attack_steps ?p ! ?i) \<in> set (zip (fp_expected_groups ?p) (fp_attack_steps ?p))"
    using i len unfolding g set_zip by auto
  ultimately show ?thesis using that by blast
qed

text \<open>What an observation does, given that the engine moves on exactly for the current one.\<close>

definition observation_taken :: "'a float_ops_scheme \<Rightarrow> StepVerifierObservation \<Rightarrow> ExpectedPracticeGroup \<Rightarrow> string \<Rightarrow>
   StepEngine \<Rightarrow> (practice_error + AlignmentUpdate option) \<times> StepEngine \<Rightarrow> bool" where
  "observation_taken fl ob g step_id st result \<longleftrightarrow>
     (if ob_step_id ob = step_id \<and> ob_activation_generation ob = se_generation st \<and>
         set (ob_observed_attack_pitches ob) = set (xg_pitches g)
      then \<exists>update st'. result = (Inr (Some update), st') \<and>
        moved_with fl g (match_evaluation g ob) Advance (st\<lparr>se_last_observation := Some ob\<rparr>) update st'
      else result = (Inr None, st\<lparr>se_last_observation := Some ob\<rparr>))"

lemma observation_run:
  assumes ok: "step_ok st" and g: "current_expected_group (se_policy st) = Some g"
    and step: "current_attack_step (se_policy st) = Some step"
    and pitches: "set (map at_pitch (as_attack_targets step)) = set (xg_pitches g)"
  shows "observation_taken fl ob g (as_id step) st
    (if is_current_observation ob step (st\<lparr>se_last_observation := Some ob\<rparr>)
     then accepted_observation_update fl new_id ob g (st\<lparr>se_last_observation := Some ob\<rparr>)
     else (Inr None, st\<lparr>se_last_observation := Some ob\<rparr>))"
proof -
  have "step_ok (st\<lparr>se_last_observation := Some ob\<rparr>)"
    "current_expected_group (se_policy (st\<lparr>se_last_observation := Some ob\<rparr>)) = Some g"
    using ok g by (simp_all add: step_ok_def)
  from accepted_observation_run [OF this, of fl new_id ob] pitches show ?thesis
    by (auto simp: observation_taken_def is_current_observation_def)
qed

text \<open>Every call either moves the engine on from the current group or leaves its position alone.\<close>

definition stays :: "StepEngine \<Rightarrow> StepEngine \<Rightarrow> bool" where
  "stays st st' \<longleftrightarrow> se_policy st' = se_policy st \<and> se_generation st' = se_generation st \<and>
     se_channels st' = se_channels st \<and> se_sample_rate st' = se_sample_rate st \<and>
     se_provider st' = se_provider st \<and> se_total_bytes st \<le> se_total_bytes st' \<and>
     (attempt_pending (se_lifecycle st') \<longrightarrow> attempt_pending (se_lifecycle st))"

lemma stays_ok: "stays st st' \<Longrightarrow> step_ok st \<Longrightarrow> step_ok st'"
  by (auto simp: stays_def step_ok_def)

text \<open>What every call does to a good engine: it stays good, nothing goes back, and what it returns carries its time.\<close>

definition call_ok :: "'a float_ops_scheme \<Rightarrow> StepEngine \<Rightarrow> AlignmentUpdate list \<Rightarrow> StepEngine \<Rightarrow> bool" where
  "call_ok fl st us st' \<longleftrightarrow> step_ok st' \<and> se_generation st \<le> se_generation st' \<and>
     se_channels st' = se_channels st \<and> se_sample_rate st' = se_sample_rate st \<and>
     se_provider st' = se_provider st \<and> se_total_bytes st \<le> se_total_bytes st' \<and> length us \<le> 1 \<and>
     (\<forall>u \<in> set us. au_timestamp_ms u = step_timestamp_ms fl st')"

lemma stays_call: "step_ok st \<Longrightarrow> stays st st' \<Longrightarrow> call_ok fl st [] st'"
  using stays_ok by (simp add: call_ok_def stays_def)

lemma moved_call:
  assumes "step_ok st" and "current_expected_group (se_policy st) = Some g"
    and moved: "moved_with fl g evaluation action st update st'"
  shows "call_ok fl st [update] st'"
proof -
  have "step_timestamp_ms fl st' = step_timestamp_ms fl st"
    using moved by (auto simp: moved_with_def same_stream_def intro: step_timestamp_fields)
  with moved moved_with_ok [OF assms] show ?thesis by (auto simp: call_ok_def moved_with_def same_stream_def)
qed

lemma completed_call:
  assumes "step_ok st" and "current_expected_group (se_policy st) = None"
  shows "\<exists>update st'. step_completed_update fl st = (update, st') \<and> call_ok fl st [update] st' \<and>
    au_scope_completed update \<and> se_policy st' = se_policy st"
proof -
  obtain update st' where r: "step_completed_update fl st = (update, st')" "au_timestamp_ms update = step_timestamp_ms fl st"
      "au_scope_completed update" "same_stream st st'" "se_policy st' = se_policy st" "se_lifecycle st' = se_lifecycle st"
      "se_generation st' = se_generation st"
    using step_completed_run [OF assms(2), of fl] by metis
  then have "step_timestamp_ms fl st' = step_timestamp_ms fl st"
    by (auto simp: same_stream_def intro: step_timestamp_fields)
  with r assms(1) show ?thesis by (simp add: call_ok_def step_ok_def same_stream_def)
qed

lemma observation_call:
  assumes "step_ok st" and "current_expected_group (se_policy st) = Some g"
    and "observation_taken fl ob g step_id st (r, st')"
  shows "(\<exists>out. r = Inr out) \<and> call_ok fl st (updates_of r) st'"
proof (cases "ob_step_id ob = step_id \<and> ob_activation_generation ob = se_generation st \<and>
    set (ob_observed_attack_pitches ob) = set (xg_pitches g)")
  case True
  with assms(3) obtain update where r: "r = Inr (Some update)"
      and moved: "moved_with fl g (match_evaluation g ob) Advance (st\<lparr>se_last_observation := Some ob\<rparr>) update st'"
    by (auto simp: observation_taken_def)
  have "call_ok fl (st\<lparr>se_last_observation := Some ob\<rparr>) [update] st'"
    using moved_call [OF _ _ moved] assms(1,2) by simp
  then show ?thesis by (simp add: r updates_of_def call_ok_def)
next
  case False
  with assms(3) have "r = Inr None" "st' = st\<lparr>se_last_observation := Some ob\<rparr>" by (auto simp: observation_taken_def)
  then show ?thesis using assms(1) by (simp add: updates_of_def call_ok_def)
qed

lemma ingest_observation_run:
  assumes "step_ok st" and "\<not> se_closed st" and "se_provider st = BROWSER_LOCAL"
    and g: "current_expected_group (se_policy st) = Some g" and step: "current_attack_step (se_policy st) = Some step"
  shows "observation_taken fl ob g (as_id step) st (step_ingest_observation fl new_id ob st)"
proof -
  obtain step' where "current_attack_step (se_policy st) = Some step'"
      and "set (map at_pitch (as_attack_targets step')) = set (xg_pitches g)"
    by (rule observed_group [OF assms(1) g])
  then have pitches: "set (map at_pitch (as_attack_targets step)) = set (xg_pitches g)" using step by simp
  show ?thesis using observation_run [OF assms(1) g step pitches, of fl ob new_id] assms
    by (simp add: step_ingest_observation_def Let_def)
qed

lemma ingest_audio_run:
  assumes "step_ok st" and "\<not> se_closed st" and "se_provider st = SERVER" and "chunk \<noteq> []"
    and g: "current_expected_group (se_policy st) = Some g" and step: "current_attack_step (se_policy st) = Some step"
  shows "(case observe (step_verifier_target_from_attack_step step (se_generation st)) of
      None \<Rightarrow> step_ingest_audio fl new_id observe chunk st = (Inr None, heard fl chunk st)
    | Some ob \<Rightarrow> observation_taken fl ob g (as_id step) (heard fl chunk st) (step_ingest_audio fl new_id observe chunk st))"
proof -
  obtain step' where "current_attack_step (se_policy st) = Some step'"
      and "set (map at_pitch (as_attack_targets step')) = set (xg_pitches g)"
    by (rule observed_group [OF assms(1) g])
  then have pitches: "set (map at_pitch (as_attack_targets step)) = set (xg_pitches g)" using step by simp
  have run: "step_ingest_audio fl new_id observe chunk st =
    (case observe (step_verifier_target_from_attack_step step (se_generation st)) of
       None \<Rightarrow> (Inr None, heard fl chunk st)
     | Some ob \<Rightarrow>
         if is_current_observation ob step ((heard fl chunk st)\<lparr>se_last_observation := Some ob\<rparr>)
         then accepted_observation_update fl new_id ob g ((heard fl chunk st)\<lparr>se_last_observation := Some ob\<rparr>)
         else (Inr None, (heard fl chunk st)\<lparr>se_last_observation := Some ob\<rparr>))"
    using assms by (cases "observe (step_verifier_target_from_attack_step step (se_generation st))")
      (simp_all add: step_ingest_audio_def heard_def Let_def case_prod_beta)
  have "observation_taken fl ob g (as_id step) (heard fl chunk st)
    (if is_current_observation ob step ((heard fl chunk st)\<lparr>se_last_observation := Some ob\<rparr>)
     then accepted_observation_update fl new_id ob g ((heard fl chunk st)\<lparr>se_last_observation := Some ob\<rparr>)
     else (Inr None, (heard fl chunk st)\<lparr>se_last_observation := Some ob\<rparr>))" for ob
    by (rule observation_run [OF _ _ _ pitches]) (use assms(1) g step in simp_all)
  then show ?thesis unfolding run by (cases "observe (step_verifier_target_from_attack_step step (se_generation st))")
      simp_all
qed

lemma ingest_audio_call:
  assumes "step_ok st" and "\<not> se_closed st" and "step_ingest_audio fl new_id observe chunk st = (r, st')"
  shows "(\<exists>out. r = Inr out) \<and> call_ok fl st (updates_of r) st'"
proof (cases "chunk = []")
  case True
  with assms show ?thesis by (auto simp: step_ingest_audio_def call_ok_def updates_of_def)
next
  case nonempty: False
  have ok: "step_ok (heard fl chunk st)" using assms(1) by simp
  have from_heard: "call_ok fl (heard fl chunk st) us st' \<Longrightarrow> call_ok fl st us st'" for us
    by (auto simp: call_ok_def)
  show ?thesis
  proof (cases "current_expected_group (se_policy st)")
    case None
    then have "step_ingest_audio fl new_id observe chunk st =
        (let (update, st2) = step_completed_update fl (heard fl chunk st) in (Inr (Some update), st2))"
      using assms(2) nonempty by (simp add: step_ingest_audio_def heard_def Let_def case_prod_beta)
    with completed_call [OF ok, of fl] None assms(3) from_heard show ?thesis by (auto simp: updates_of_def)
  next
    case (Some g)
    obtain step where step: "current_attack_step (se_policy st) = Some step"
      by (rule observed_group [OF assms(1) Some])
    show ?thesis
    proof (cases "se_provider st = SERVER")
      case True
      note run = ingest_audio_run [OF assms(1,2) True nonempty Some step, where observe = observe and fl = fl and new_id = new_id]
      have g': "current_expected_group (se_policy (heard fl chunk st)) = Some g" using Some by simp
      show ?thesis
      proof (cases "observe (step_verifier_target_from_attack_step step (se_generation st))")
        case None
        with run assms(1,3) show ?thesis by (auto simp: call_ok_def updates_of_def)
      next
        case (Some ob)
        with run assms(3) have "observation_taken fl ob g (as_id step) (heard fl chunk st) (r, st')" by simp
        from observation_call [OF ok g' this] from_heard show ?thesis by blast
      qed
    next
      case False
      with assms Some step nonempty show ?thesis
        by (auto simp: step_ingest_audio_def call_ok_def updates_of_def step_ok_def Let_def case_prod_beta)
    qed
  qed
qed

lemma ingest_observation_call:
  assumes "step_ok st" and "\<not> se_closed st" and "step_ingest_observation fl new_id ob st = (r, st')"
  shows "(\<exists>out. r = Inr out) \<and> call_ok fl st (updates_of r) st'"
proof (cases "se_provider st = BROWSER_LOCAL")
  case False
  with assms show ?thesis by (auto simp: step_ingest_observation_def call_ok_def updates_of_def)
next
  case True
  show ?thesis
  proof (cases "current_expected_group (se_policy st)")
    case None
    with True assms(2) have "step_ingest_observation fl new_id ob st =
        (let (update, st1) = step_completed_update fl st in (Inr (Some update), st1))"
      by (simp add: step_ingest_observation_def)
    with completed_call [OF assms(1), of fl] None assms(3) show ?thesis by (auto simp: updates_of_def)
  next
    case (Some g)
    obtain step where "current_attack_step (se_policy st) = Some step" by (rule observed_group [OF assms(1) Some])
    from ingest_observation_run [OF assms(1,2) True Some this, of fl ob new_id] assms(3)
      observation_call [OF assms(1) Some] show ?thesis by metis
  qed
qed

lemma skip_call:
  assumes "step_ok st" and "\<not> se_closed st" and "step_skip_current_expected_group fl new_id st = (r, st')"
  shows "(\<exists>out. r = Inr out) \<and> call_ok fl st (updates_of r) st'"
proof (cases "current_expected_group (se_policy st)")
  case None
  with assms(2) have "step_skip_current_expected_group fl new_id st =
      (let (update, st1) = step_completed_update fl st in (Inr (Some update), st1))"
    by (simp add: step_skip_current_expected_group_def)
  with completed_call [OF assms(1), of fl] None assms(3) show ?thesis by (auto simp: updates_of_def)
next
  case (Some g)
  from step_skip_run [OF assms(1,2) Some, of fl new_id] assms(3) moved_call [OF assms(1) Some]
  show ?thesis by (auto simp: updates_of_def)
qed

text \<open>A closed engine refuses what is given to it; the other calls never fail.\<close>

lemma closed_calls:
  assumes "se_closed st"
  shows "step_ingest_audio fl new_id observe chunk st = (Inl (RuntimeError ''STEP practice engine is closed.''), st)"
    "step_ingest_observation fl new_id ob st = (Inl (RuntimeError ''STEP practice engine is closed.''), st)"
    "step_skip_current_expected_group fl new_id st = (Inl (RuntimeError ''STEP practice engine is closed.''), st)"
  using assms by (simp_all add: step_ingest_audio_def step_ingest_observation_def step_skip_current_expected_group_def)

lemma nothing_returned: "step_ok st \<Longrightarrow> call_ok fl st (updates_of (Inl e)) st"
  by (simp add: call_ok_def updates_of_def)

lemma quiet_calls:
  assumes "step_ok st"
  shows "call_ok fl st [] (step_reset_input_buffer st)"
    "call_ok fl st [] (snd (step_drain_resolved_practice_attempts st))"
    "call_ok fl st [] (snd (drain_step_microphone_verifier_observations st))"
    "call_ok fl st [] (snd (step_finalize_pending_practice_attempt st))"
    "call_ok fl st [] (step_close st)"
  using assms policy_reset_ok
  by (auto simp: call_ok_def step_ok_def step_reset_input_buffer_def policy_reset_def attempt_pending_def
      new_lifecycle_def step_drain_resolved_practice_attempts_def drain_step_microphone_verifier_observations_def
      step_finalize_pending_practice_attempt_def step_clear_verifier_session_def clear_current_def step_close_def)

text \<open>Induction over the calls of a run, whichever they are.\<close>

lemma step_run_rule [consumes 2, case_names start call]:
  assumes run: "step_run fl st us st'" and ok: "step_ok st" and start: "P [] st"
    and call: "\<And>us st1 vs st2. P us st1 \<Longrightarrow> step_ok st1 \<Longrightarrow> call_ok fl st1 vs st2 \<Longrightarrow> P (us @ vs) st2"
  shows "step_ok st' \<and> P us st'"
proof -
  have next_call: "step_ok st2 \<and> P (us @ vs) st2" if "step_ok st1 \<and> P us st1" "call_ok fl st1 vs st2" for us st1 vs st2
    using call [of us st1 vs st2] that by (simp add: call_ok_def [of fl st1 vs st2])
  from run show ?thesis
  proof (induction rule: step_run.induct)
    case Run_start
    then show ?case using ok start by simp
  next
    case (Run_audio us st1 new_id observe chunk r st2)
    have "call_ok fl st1 (updates_of r) st2"
      using ingest_audio_call closed_calls(1) nothing_returned Run_audio by (metis prod.inject)
    with Run_audio next_call show ?case by blast
  next
    case (Run_observation us st1 new_id ob r st2)
    have "call_ok fl st1 (updates_of r) st2"
      using ingest_observation_call closed_calls(2) nothing_returned Run_observation by (metis prod.inject)
    with Run_observation next_call show ?case by blast
  next
    case (Run_skip us st1 new_id r st2)
    have "call_ok fl st1 (updates_of r) st2"
      using skip_call closed_calls(3) nothing_returned Run_skip by (metis prod.inject)
    with Run_skip next_call show ?case by blast
  next
    case (Run_midi us st1 r st2)
    then have "call_ok fl st1 (updates_of r) st2"
      using nothing_returned by (auto simp: step_ingest_midi_event_def)
    with Run_midi next_call show ?case by blast
  next
    case (Run_reset us st1)
    then show ?case using next_call [of st1 us "[]"] quiet_calls(1) [of st1 fl] by simp
  next
    case (Run_drain us st1)
    then show ?case using next_call [of st1 us "[]"] quiet_calls(2) [of st1 fl] by simp
  next
    case (Run_observations us st1)
    then show ?case using next_call [of st1 us "[]"] quiet_calls(3) [of st1 fl] by simp
  next
    case (Run_finalize us st1)
    then show ?case using next_call [of st1 us "[]"] quiet_calls(4) [of st1 fl] by simp
  next
    case (Run_close us st1)
    then show ?case using next_call [of st1 us "[]"] quiet_calls(5) [of st1 fl] by simp
  qed
qed

lemma step_run_calls:
  assumes "step_run fl st us st'" and "step_ok st"
  shows "step_ok st' \<and> se_generation st \<le> se_generation st'"
  using assms by (induction rule: step_run_rule) (auto simp: call_ok_def)

section \<open>Sessions\<close>

text \<open>A session on a score: an engine made for its timeline and what was done to it since.\<close>

inductive step_session :: "practice_env \<Rightarrow> PracticeScoreTimeline \<Rightarrow> StepEngine \<Rightarrow> bool" for env timeline where
  Session: "new_step_engine env timeline sample_rate channels frame_format mode guidance profile source s t
      has_verifier provider = Inr st0 \<Longrightarrow> step_run env st0 us st \<Longrightarrow> step_session env timeline st"

lemma new_step_engine_ok:
  assumes "new_step_engine env timeline sample_rate channels frame_format mode guidance profile source s t
      has_verifier provider = Inr st" and "\<forall>e \<in> set (tm_events timeline). event_ok e"
  shows "step_ok st" and "\<not> se_closed st" and "se_provider st = provider"
proof -
  from assms(1) obtain p where p: "new_follow_policy env timeline s t = Inr p" and st: "se_policy st = p"
      "se_lifecycle st = new_lifecycle" "se_closed st = False" "se_provider st = provider"
    by (auto simp: new_step_engine_def follow_policy_for_progression_def split: if_splits sum.splits)
  have "policy_ok p" by (rule new_follow_policy_ok [OF p expected_group_pitches [OF assms(2)]])
  moreover have "validate_attack_step_pairing (fp_expected_groups p) (fp_attack_steps p) = None"
    using p by (auto simp: new_follow_policy_def split: sum.splits option.splits if_splits)
  ultimately show "step_ok st" by (simp add: step_ok_def st new_lifecycle_def attempt_pending_def)
  show "\<not> se_closed st" "se_provider st = provider" by (simp_all add: st)
qed

lemma step_session_ok:
  assumes "step_session env timeline st" and "\<forall>e \<in> set (tm_events timeline). event_ok e"
  shows "step_ok st"
  using assms(1)
proof (cases rule: step_session.cases)
  case Session
  show ?thesis using step_run_calls [OF Session(2) new_step_engine_ok(1) [OF Session(1) assms(2)]] by simp
qed

section \<open>Time\<close>

lemma step_timestamp_mono:
  assumes mono: "mono (nearest fl)" and "se_channels st' = se_channels st" "se_sample_rate st' = se_sample_rate st"
    and bytes: "se_total_bytes st \<le> se_total_bytes st'"
  shows "step_timestamp_ms fl st \<le> step_timestamp_ms fl st'"
proof -
  have div: "fl_div fl x d \<le> fl_div fl y d" if "x \<le> y" "0 < d" for x y d
    using that monoD [OF mono] divide_right_mono [of x y d] by (simp add: fl_div_def)
  have mul: "fl_mul fl x 1000 \<le> fl_mul fl y 1000" if "x \<le> y" for x y
    using that monoD [OF mono] by (simp add: fl_mul_def)
  have "rat_of_int (se_total_bytes st) \<le> rat_of_int (se_total_bytes st')" using bytes by simp
  then show ?thesis unfolding step_timestamp_ms_def Let_def assms(2,3)
    by (intro py_trunc_mono mul div) (simp_all add: max_def)
qed

lemma time_kept:
  assumes mono: "mono (nearest fl)" and times: "sorted (map au_timestamp_ms us)"
    and last: "\<forall>u \<in> set us. au_timestamp_ms u \<le> step_timestamp_ms fl st" and call: "call_ok fl st vs st'"
  shows "sorted (map au_timestamp_ms (us @ vs)) \<and>
    (\<forall>u \<in> set (us @ vs). au_timestamp_ms u \<le> step_timestamp_ms fl st')"
proof -
  have le: "step_timestamp_ms fl st \<le> step_timestamp_ms fl st'"
    using call by (intro step_timestamp_mono [OF mono]) (simp_all add: call_ok_def)
  have "vs = [] \<or> (\<exists>v. vs = [v] \<and> au_timestamp_ms v = step_timestamp_ms fl st')"
    using call by (cases vs) (auto simp: call_ok_def)
  with times last le show ?thesis by (fastforce simp: sorted_append)
qed

lemma step_run_times:
  assumes "mono (nearest fl)" and "step_run fl st us st'" and "step_ok st"
  shows "sorted (map au_timestamp_ms us)"
proof -
  from assms(2,3) have "step_ok st' \<and> sorted (map au_timestamp_ms us) \<and>
      (\<forall>u \<in> set us. au_timestamp_ms u \<le> step_timestamp_ms fl st')"
  proof (induction rule: step_run_rule)
    case start
    then show ?case by simp
  next
    case (call us st1 vs st2)
    then show ?case using time_kept [OF assms(1), of us st1 vs st2] by simp
  qed
  then show ?thesis by simp
qed

section \<open>Properties\<close>

definition demo_step_engine :: "VerificationProvider \<Rightarrow> StepEngine" where
  "demo_step_engine provider = (case new_step_engine demo_env demo_timeline 16000 1 ''pcm_s16le'' ''WAIT_FOR_NOTE''
     ''GUIDED'' ''LEARNING'' ''MICROPHONE'' None None (provider = SERVER) provider of Inr st \<Rightarrow> st | Inl e \<Rightarrow> undefined)"

lemma demo_step_engine_new: "new_step_engine demo_env demo_timeline 16000 1 ''pcm_s16le'' ''WAIT_FOR_NOTE''
    ''GUIDED'' ''LEARNING'' ''MICROPHONE'' None None (provider = SERVER) provider = Inr (demo_step_engine provider)"
proof -
  have good: "\<not> isl (new_step_engine demo_env demo_timeline 16000 1 ''pcm_s16le'' ''WAIT_FOR_NOTE''
    ''GUIDED'' ''LEARNING'' ''MICROPHONE'' None None (provider = SERVER) provider)"
  proof (cases provider)
    case SERVER
    show ?thesis unfolding SERVER by code_simp
  next
    case BROWSER_LOCAL
    show ?thesis unfolding BROWSER_LOCAL by code_simp
  qed
  from good show ?thesis by (cases "new_step_engine demo_env demo_timeline 16000 1 ''pcm_s16le'' ''WAIT_FOR_NOTE''
    ''GUIDED'' ''LEARNING'' ''MICROPHONE'' None None (provider = SERVER) provider") (auto simp: demo_step_engine_def)
qed

lemma demo_step_session:
  "step_session demo_env (timeline_from_note_array demo_env demo_metadata [] demo_notes) (demo_step_engine provider)"
  using Session [OF demo_step_engine_new Run_start] by (simp add: demo_timeline_def)

lemma demo_step_engine_fields:
  "step_ok (demo_step_engine provider)" "\<not> se_closed (demo_step_engine provider)"
  "se_provider (demo_step_engine provider) = provider"
  using new_step_engine_ok [OF demo_step_engine_new, OF note_array_events_ok [of demo_env demo_metadata "[]" demo_notes,
    folded demo_timeline_def]] by simp_all

definition demo_observation :: StepVerifierObservation where
  "demo_observation = (let step = the (current_attack_step (se_policy (demo_step_engine BROWSER_LOCAL))) in
     \<lparr>ob_step_id = as_id step, ob_observed_attack_pitches = map at_pitch (as_attack_targets step), ob_confidence = 1,
      ob_activation_generation = 1, ob_events = [], ob_decision_sample_index = None, ob_decision_time_seconds = None\<rparr>)"

lemma demo_step_position:
  "fp_current_index (se_policy (demo_step_engine BROWSER_LOCAL)) = 0"
  "current_attack_step (se_policy (demo_step_engine BROWSER_LOCAL)) \<noteq> None"
  "map xg_pitches (fp_expected_groups (se_policy (demo_step_engine BROWSER_LOCAL))) = [[''C4'', ''E4''], [''G4'']]"
  "fp_end_index (se_policy (demo_step_engine BROWSER_LOCAL)) = 1"
  "se_generation (demo_step_engine BROWSER_LOCAL) = 1"
  by code_simp+

text \<open>C23. A STEP session moves on for the current observation only. In any session on a note array that waits for an
  expected group, with the verifier in the browser, an observation is taken when it names the current step and the
  current activation and observed exactly the pitches of the group: then the position moves on by one group, a new
  activation begins, and one attempt, matched, is recorded for that group. Any other observation is remembered and
  changes nothing. With the verifier on the server the same holds of what the verifier answers to a chunk of audio,
  and the verifier is asked about the current step and activation.\<close>

theorem step_accepts_exactly_current:
  assumes session: "step_session env (timeline_from_note_array env metadata segments note_array) st"
    and open_st: "\<not> se_closed st" and g: "current_expected_group (se_policy st) = Some g" and chunk: "chunk \<noteq> []"
  shows "\<exists>target. current_step_verifier_target st = Some target \<and> set (tv_attack_pitches target) = set (xg_pitches g) \<and>
    (se_provider st = BROWSER_LOCAL \<longrightarrow>
       observation_taken env ob g (tv_step_id target) st (step_ingest_observation env new_id ob st)) \<and>
    (se_provider st = SERVER \<longrightarrow>
       (case observe target of
          None \<Rightarrow> step_ingest_audio env new_id observe chunk st = (Inr None, heard env chunk st)
        | Some heard_ob \<Rightarrow> observation_taken env heard_ob g (tv_step_id target) (heard env chunk st)
            (step_ingest_audio env new_id observe chunk st)))"
proof -
  have ok: "step_ok st" by (rule step_session_ok [OF session note_array_events_ok])
  obtain step where step: "current_attack_step (se_policy st) = Some step"
      and pitches: "set (map at_pitch (as_attack_targets step)) = set (xg_pitches g)"
    by (rule observed_group [OF ok g])
  let ?target = "step_verifier_target_from_attack_step step (se_generation st)"
  have target: "tv_step_id ?target = as_id step" "tv_attack_pitches ?target = map at_pitch (as_attack_targets step)"
    by (simp_all add: step_verifier_target_from_attack_step_def)
  have "current_step_verifier_target st = Some ?target" by (simp add: current_step_verifier_target_def step)
  with target pitches ingest_observation_run [OF ok open_st _ g step, of env ob new_id]
    ingest_audio_run [OF ok open_st _ chunk g step, where fl = env and observe = observe and new_id = new_id] show ?thesis
    by (intro exI [of _ ?target]) (simp cong: option.case_cong)
qed

lemma demo_step_group: "\<exists>g. current_expected_group (se_policy (demo_step_engine BROWSER_LOCAL)) = Some g"
proof -
  have "length (fp_expected_groups (se_policy (demo_step_engine BROWSER_LOCAL))) = 2"
    using arg_cong [OF demo_step_position(3), of length] by simp
  then show ?thesis by (simp add: current_expected_group_def demo_step_position)
qed

theorem step_accepts_exactly_current_witness:
  "let st = demo_step_engine BROWSER_LOCAL; stale = demo_observation\<lparr>ob_activation_generation := 2\<rparr>
   in step_ingest_observation demo_env ''a'' stale st = (Inr None, st\<lparr>se_last_observation := Some stale\<rparr>)"
proof -
  obtain g where g: "current_expected_group (se_policy (demo_step_engine BROWSER_LOCAL)) = Some g"
    using demo_step_group by blast
  from step_accepts_exactly_current [OF demo_step_session demo_step_engine_fields(2) g, of "[0]"
      "demo_observation\<lparr>ob_activation_generation := 2\<rparr>" "''a''" "\<lambda>_. None"]
  show ?thesis
    by (auto simp: demo_step_engine_fields(3) observation_taken_def demo_step_position(5))
qed

text \<open>No observation counts twice. When an observation was accepted, so that the session moved on, then whatever
  is done to the engine afterwards, be it a reset to the start of the scope, a skip or other observations, giving the
  same observation again never moves the session: its position, its activation and its recorded attempts stay as they
  are.\<close>

theorem step_observation_counts_once:
  assumes session: "step_session env (timeline_from_note_array env metadata segments note_array) st"
    and taken: "fp_current_index (se_policy (snd (step_ingest_observation env new_id ob st))) \<noteq>
      fp_current_index (se_policy st)"
    and later: "step_run env (snd (step_ingest_observation env new_id ob st)) us st'"
  shows "se_policy (snd (step_ingest_observation env new_id' ob st')) = se_policy st' \<and>
    se_generation (snd (step_ingest_observation env new_id' ob st')) = se_generation st' \<and>
    se_resolved_attempts (snd (step_ingest_observation env new_id' ob st')) = se_resolved_attempts st'"
proof -
  have ok: "step_ok st" by (rule step_session_ok [OF session note_array_events_ok])
  have open_st: "\<not> se_closed st" "se_provider st = BROWSER_LOCAL"
    using taken by (auto simp: step_ingest_observation_def split: if_splits)
  let ?st1 = "snd (step_ingest_observation env new_id ob st)"
  have "ob_activation_generation ob < se_generation ?st1 \<and> step_ok ?st1"
  proof (cases "current_expected_group (se_policy st)")
    case None
    obtain u s where "step_completed_update env st = (u, s)" "se_policy s = se_policy st"
      using completed_call [OF ok None, of env] by blast
    with taken None open_st show ?thesis by (simp add: step_ingest_observation_def)
  next
    case (Some g)
    obtain step where "current_attack_step (se_policy st) = Some step" by (rule observed_group [OF ok Some])
    note run = ingest_observation_run [OF ok open_st Some this, of env ob new_id]
    then obtain u where gen: "ob_activation_generation ob = se_generation st" and moved: "moved_with env g
        (match_evaluation g ob) Advance (st\<lparr>se_last_observation := Some ob\<rparr>) u ?st1"
      using taken by (auto simp: observation_taken_def split: if_splits)
    have "se_generation ?st1 = se_generation st + 1" using moved by (simp add: moved_with_def)
    moreover have "step_ok ?st1" by (rule moved_with_ok [OF _ _ moved]) (simp_all add: ok Some)
    ultimately show ?thesis using gen by simp
  qed
  with step_run_calls [OF later] have ok': "step_ok st'" and old: "ob_activation_generation ob < se_generation st'" by auto
  show ?thesis
  proof (cases "se_closed st' \<or> se_provider st' \<noteq> BROWSER_LOCAL")
    case True
    then show ?thesis by (auto simp: step_ingest_observation_def)
  next
    case False
    then have open': "\<not> se_closed st'" "se_provider st' = BROWSER_LOCAL" by simp_all
    show ?thesis
    proof (cases "current_expected_group (se_policy st')")
      case None
      from step_completed_run [OF this, of env] None open' show ?thesis by (auto simp: step_ingest_observation_def)
    next
      case (Some g)
      obtain step where "current_attack_step (se_policy st') = Some step" by (rule observed_group [OF ok' Some])
      from ingest_observation_run [OF ok' open' Some this, of env ob new_id'] old show ?thesis
        by (simp add: observation_taken_def)
    qed
  qed
qed

lemma demo_observation_taken:
  "fp_current_index (se_policy (snd (step_ingest_observation demo_env ''a'' demo_observation
     (demo_step_engine BROWSER_LOCAL)))) = 1"
  by code_simp

theorem step_observation_counts_once_witness:
  "let st = snd (step_ingest_observation demo_env ''a'' demo_observation (demo_step_engine BROWSER_LOCAL))
   in se_policy (snd (step_ingest_observation demo_env ''b'' demo_observation (step_reset_input_buffer st))) =
     se_policy (step_reset_input_buffer st)"
  using step_observation_counts_once [OF demo_step_session, of "''a''" demo_observation BROWSER_LOCAL,
      OF _ Run_reset [OF Run_start], of "''b''"] demo_observation_taken
  by (simp add: demo_step_position)



end
