(* ===== verification/Py_Json.thy ===== *)
theory Py_Json
  imports Py_Collections
begin

text \<open>
  JSON values and \<open>int(s, base)\<close> of Python. A text column that only \<open>json.dumps\<close> writes holds the value that
  \<open>json.loads\<close> reads from it.
\<close>

section \<open>Values\<close>

datatype json_value =
  JS_null | JS_bool bool | JS_int int | JS_float rat | JS_string string | JS_list "json_value list"
| JS_object "(string \<times> json_value) list"

text \<open>\<open>d.get(key)\<close>: the last entry of a key is its value.\<close>

fun js_get :: "string \<Rightarrow> (string \<times> json_value) list \<Rightarrow> json_value option" where
  "js_get key [] = None"
| "js_get key ((k, v) # d) = (case js_get key d of Some w \<Rightarrow> Some w | None \<Rightarrow> if k = key then Some v else None)"

definition js_optional :: "('a \<Rightarrow> json_value) \<Rightarrow> 'a option \<Rightarrow> json_value" where
  "js_optional f x = (case x of None \<Rightarrow> JS_null | Some v \<Rightarrow> f v)"

definition js_strings :: "string list \<Rightarrow> json_value" where
  "js_strings xs = JS_list (map JS_string xs)"

section \<open>Integers from text\<close>

definition digit_value :: "nat \<Rightarrow> char \<Rightarrow> nat option" where
  "digit_value base c =
     (let n = (of_char c :: nat);
          v = (if 48 \<le> n \<and> n \<le> 57 then Some (n - 48)
               else if 65 \<le> n \<and> n \<le> 90 then Some (n - 55)
               else if 97 \<le> n \<and> n \<le> 122 then Some (n - 87) else None)
      in case v of None \<Rightarrow> None | Some d \<Rightarrow> if d < base then Some d else None)"

text \<open>Digits, with a single underscore allowed between two of them.\<close>

fun digits_value :: "nat \<Rightarrow> nat \<Rightarrow> string \<Rightarrow> nat option" where
  "digits_value base acc [] = None"
| "digits_value base acc [c] = map_option (\<lambda>d. acc * base + d) (digit_value base c)"
| "digits_value base acc (c # c' # cs) =
     (case digit_value base c of
        None \<Rightarrow> None
      | Some d \<Rightarrow> if c' = CHR ''_'' then digits_value base (acc * base + d) cs
                  else digits_value base (acc * base + d) (c' # cs))"

definition without_hex_prefix :: "string \<Rightarrow> string" where
  "without_hex_prefix s =
     (if length s \<ge> 2 \<and> s ! 0 = CHR ''0'' \<and> s ! 1 \<in> {CHR ''x'', CHR ''X''}
      then (let rest = drop 2 s in if rest \<noteq> [] \<and> hd rest = CHR ''_'' then tl rest else rest) else s)"

definition py_int :: "nat \<Rightarrow> string \<Rightarrow> int option" where
  "py_int base text =
     (let s = str_strip text;
          (sign, body) = (case s of
              [] \<Rightarrow> (1, [])
            | c # cs \<Rightarrow> if c = CHR ''-'' then (-1, cs) else if c = CHR ''+'' then (1, cs) else (1, s))
      in map_option (\<lambda>n. sign * int n) (digits_value base 0 (if base = 16 then without_hex_prefix body else body)))"

lemma py_int_examples: "py_int 10 ''12'' = Some 12" "py_int 10 ''-1_0 '' = Some (-10)" "py_int 10 ''1a'' = None"
  "py_int 16 ''0xFf'' = Some 255" "py_int 10 '''' = None" "py_int 10 ''1__0'' = None"
  by code_simp+

end
