(* ===== verification/Practice_Model.thy ===== *)
theory Practice_Model
  imports Score_Access Py_Json
begin

text \<open>
  The rows of practice sessions, attempts and replay artifacts and their enumerations,
  \<open>backend/app/db/models/practice.py\<close>. A text column that holds JSON is the value it denotes.
\<close>

datatype PracticeSessionState = Session_CREATED | Session_STREAMING | Session_PAUSED | Session_FINISHED | Session_FAILED

datatype PracticeSessionSummaryStatus = Summary_NOT_REQUESTED | Summary_PENDING | Summary_READY | Summary_FAILED

datatype PracticeSessionCompletionReason = SCOPE_COMPLETED | STOPPED_BY_USER

datatype PracticeProgressionMode = WAIT_FOR_NOTE | CONTINUOUS

datatype PracticeRealtimeGuidance = STATUS_ONLY | GUIDED

datatype PracticeEvaluationProfile = LEARNING | PERFORMANCE

datatype PracticeInputSource = Input_MICROPHONE | Input_MIDI

datatype PracticeStepMicrophoneVerificationProvider = Verify_SERVER | Verify_BROWSER_LOCAL

datatype PracticeReplayArtifactKind = AUDIO_RECORDING | MIDI_EVENTS

datatype PracticeAttemptResult =
  Result_MATCH | Result_PARTIAL | Result_MISMATCH | Result_UNCERTAIN | Result_SKIPPED | Result_OTHER

datatype PracticeAttemptCompletionStatus = Attempt_COMPLETED | Attempt_INTERRUPTED

datatype PracticeAttemptResolutionReason =
  Reason_stable_match | Reason_partial_match | Reason_entry_mismatch | Reason_low_alignment_confidence |
  Reason_holding_position | Reason_reacquiring | Reason_large_jump | Reason_insufficient_input |
  Reason_practice_paused | Reason_practice_finished | Reason_connection_closed | Reason_user_skipped

text \<open>The values of the enumerations that the summaries show.\<close>

fun session_state_value :: "PracticeSessionState \<Rightarrow> string" where
  "session_state_value Session_CREATED = ''CREATED''"
| "session_state_value Session_STREAMING = ''STREAMING''"
| "session_state_value Session_PAUSED = ''PAUSED''"
| "session_state_value Session_FINISHED = ''FINISHED''"
| "session_state_value Session_FAILED = ''FAILED''"

fun completion_reason_value :: "PracticeSessionCompletionReason \<Rightarrow> string" where
  "completion_reason_value SCOPE_COMPLETED = ''SCOPE_COMPLETED''"
| "completion_reason_value STOPPED_BY_USER = ''STOPPED_BY_USER''"

fun input_source_value :: "PracticeInputSource \<Rightarrow> string" where
  "input_source_value Input_MICROPHONE = ''MICROPHONE''"
| "input_source_value Input_MIDI = ''MIDI''"

fun attempt_result_value :: "PracticeAttemptResult \<Rightarrow> string" where
  "attempt_result_value Result_MATCH = ''MATCH''"
| "attempt_result_value Result_PARTIAL = ''PARTIAL''"
| "attempt_result_value Result_MISMATCH = ''MISMATCH''"
| "attempt_result_value Result_UNCERTAIN = ''UNCERTAIN''"
| "attempt_result_value Result_SKIPPED = ''SKIPPED''"
| "attempt_result_value Result_OTHER = ''OTHER''"

record PracticeSession =
  ps_id :: "int option"
  ps_session_uuid :: string
  ps_score_id :: int
  ps_revision_id :: int
  ps_access_origin :: AccessOrigin
  ps_share_grant_id :: "int option"
  ps_user_id :: "int option"
  ps_state :: PracticeSessionState
  ps_progression_mode :: PracticeProgressionMode
  ps_realtime_guidance :: PracticeRealtimeGuidance
  ps_evaluation_profile :: PracticeEvaluationProfile
  ps_input_source :: PracticeInputSource
  ps_provider :: "PracticeStepMicrophoneVerificationProvider option"
  ps_sample_rate :: int
  ps_channels :: int
  ps_frame_format :: string
  ps_scope_start_group :: "string option"
  ps_scope_end_group :: "string option"
  ps_scope_start_measure :: "string option"
  ps_scope_end_measure :: "string option"
  ps_started_at :: "timestamp option"
  ps_finished_at :: "timestamp option"
  ps_last_beat_position :: "rat option"
  ps_last_confidence :: "rat option"
  ps_audio_path :: "string option"
  ps_completion_reason :: "PracticeSessionCompletionReason option"
  ps_summary_status :: PracticeSessionSummaryStatus
  ps_summary_payload :: "json_value option"
  ps_error :: "string option"
  ps_created_at :: timestamp
  ps_updated_at :: timestamp

record PracticeAttempt =
  pa_id :: "int option"
  pa_session_id :: int
  pa_attempt_index :: int
  pa_attempt_uid :: string
  pa_started_at_ms :: "int option"
  pa_resolved_at_ms :: "int option"
  pa_expected_group_id :: "string option"
  pa_event_id :: "string option"
  pa_beat_position :: rat
  pa_render_note_ids :: "json_value option"
  pa_measure_numbers :: "json_value option"
  pa_result :: PracticeAttemptResult
  pa_action :: string
  pa_completion_status :: PracticeAttemptCompletionStatus
  pa_resolution_reason :: PracticeAttemptResolutionReason
  pa_experience_state :: string
  pa_input_source :: PracticeInputSource
  pa_evidence_profile :: string
  pa_correctness_scope :: string
  pa_evaluator_version :: "string option"
  pa_policy_profile_version :: "string option"
  pa_confidence :: rat
  pa_validation_confidence :: "rat option"
  pa_input_policy_confidence :: "rat option"
  pa_timestamp_ms :: int
  pa_created_at :: timestamp

record PracticeReplayArtifact =
  ra_id :: "int option"
  ra_artifact_uuid :: string
  ra_session_id :: int
  ra_kind :: PracticeReplayArtifactKind
  ra_input_source :: PracticeInputSource
  ra_storage_backend :: string
  ra_object_key :: string
  ra_content_type :: string
  ra_byte_size :: int
  ra_checksum_sha256 :: string
  ra_duration_ms :: int
  ra_timebase_version :: int
  ra_format_version :: int
  ra_created_at :: timestamp

end
