(* ===== verification/Performance_Timeline.thy ===== *)
theory Performance_Timeline
  imports Practice_Musicxml
begin

text \<open>
  The fixed timeline of a performance, \<open>backend/app/processing/performance/timeline.py\<close>: tempo segments in beats
  and in milliseconds, the scope that is performed, and its projection. Beats and milliseconds are floats.
\<close>

section \<open>Errors and rows\<close>

datatype performance_error =
  PerformanceTimelineError string
| PerformanceScopeTargetNotFound string
| PerformanceScopeInvalidRange string
| PerformanceClockError string
| PerformanceValueError string
| PerformanceRuntimeError string
| Score_timeline_error practice_error

definition DEFAULT_PERFORMANCE_TEMPO_BPM :: rat where "DEFAULT_PERFORMANCE_TEMPO_BPM = 120"

record TempoSegment =
  ts_start_beat :: rat
  ts_bpm :: rat

record PerformanceTimelineSegment =
  sg_start_beat :: rat
  sg_end_beat :: rat
  sg_start_time_ms :: rat
  sg_bpm :: rat

record PerformanceTimelineProjectionSegment =
  pj_start_performance_time_ms :: rat
  pj_end_performance_time_ms :: rat
  pj_start_beat :: rat
  pj_end_beat :: rat

record PerformanceTimelineProjection =
  pt_scope_start_beat :: rat
  pt_scope_terminal_beat :: rat
  pt_segments :: "PerformanceTimelineProjectionSegment list"

record ResolvedPerformanceScope =
  sc_start_group_id :: "string option"
  sc_end_group_id :: "string option"
  sc_start_beat :: rat
  sc_terminal_beat :: rat
  sc_nominal_start_time_ms :: rat
  sc_nominal_end_time_ms :: rat

record PerformanceTimeline =
  pl_end_beat :: rat
  pl_segments :: "PerformanceTimelineSegment list"

definition beats_to_ms :: "'a float_ops_scheme \<Rightarrow> rat \<Rightarrow> rat \<Rightarrow> rat" where
  "beats_to_ms fl beats bpm = fl_div fl (fl_mul fl beats 60000) bpm"

definition ms_to_beats :: "'a float_ops_scheme \<Rightarrow> rat \<Rightarrow> rat \<Rightarrow> rat" where
  "ms_to_beats fl milliseconds bpm = fl_div fl (fl_mul fl milliseconds bpm) 60000"

definition end_time_ms :: "'a float_ops_scheme \<Rightarrow> PerformanceTimelineSegment \<Rightarrow> rat" where
  "end_time_ms fl s =
     fl_add fl (sg_start_time_ms s) (beats_to_ms fl (fl_sub fl (sg_end_beat s) (sg_start_beat s)) (sg_bpm s))"

definition scope_duration_ms :: "'a float_ops_scheme \<Rightarrow> ResolvedPerformanceScope \<Rightarrow> rat" where
  "scope_duration_ms fl scope = max 0 (fl_sub fl (sc_nominal_end_time_ms scope) (sc_nominal_start_time_ms scope))"

section \<open>Segments\<close>

text \<open>\<open>_normalized_tempo_segments\<close>: a dictionary by rounded beat, in which a later segment replaces an earlier one,
  read in the order of its keys.\<close>

definition merged_tempo :: "TempoSegment list \<Rightarrow> rat \<Rightarrow> TempoSegment" where
  "merged_tempo merged beat =
     (case dict_of ts_start_beat merged beat of
        Some segment \<Rightarrow> segment
      | None \<Rightarrow> \<lparr>ts_start_beat = 0, ts_bpm = DEFAULT_PERFORMANCE_TEMPO_BPM\<rparr>)"

definition normalized_tempo_segments ::
  "'a float_ops_scheme \<Rightarrow> TempoSegment list \<Rightarrow> performance_error + TempoSegment list" where
  "normalized_tempo_segments fl tempo_segments =
     (let valid_segments = sort_key ts_start_beat tempo_segments in
      if \<exists>segment \<in> set valid_segments. ts_bpm segment \<le> 0
      then Inl (PerformanceTimelineError ''Tempo BPM must be positive.'')
      else
        let merged = map (\<lambda>segment. \<lparr>ts_start_beat = round_beat fl (ts_start_beat segment), ts_bpm = ts_bpm segment\<rparr>)
              (filter (\<lambda>segment. ts_start_beat segment \<ge> 0) valid_segments)
        in Inr (map (merged_tempo merged) (sort (remdups (0 # map ts_start_beat merged)))))"

primrec timeline_segments ::
  "'a float_ops_scheme \<Rightarrow> rat \<Rightarrow> rat \<Rightarrow> TempoSegment list \<Rightarrow> PerformanceTimelineSegment list" where
  "timeline_segments fl end_beat current_time_ms [] = []"
| "timeline_segments fl end_beat current_time_ms (tempo # tempos) =
     (let next_start = (case tempos of [] \<Rightarrow> end_beat | next # _ \<Rightarrow> ts_start_beat next);
          segment_start = min (max (ts_start_beat tempo) 0) end_beat;
          segment_end = min (max next_start segment_start) end_beat
      in if segment_end \<le> segment_start then timeline_segments fl end_beat current_time_ms tempos
         else
           let segment = \<lparr>sg_start_beat = round_beat fl segment_start, sg_end_beat = round_beat fl segment_end,
                 sg_start_time_ms = current_time_ms, sg_bpm = ts_bpm tempo\<rparr>
           in segment # timeline_segments fl end_beat (end_time_ms fl segment) tempos)"

definition performance_timeline ::
  "'a float_ops_scheme \<Rightarrow> PracticeScoreTimeline \<Rightarrow> TempoSegment list \<Rightarrow> performance_error + PerformanceTimeline" where
  "performance_timeline fl timeline tempo_segments =
     (let end_beat = round_beat fl (tm_end_beat timeline) in
      if end_beat \<le> 0 then Inr \<lparr>pl_end_beat = 0, pl_segments = []\<rparr>
      else case normalized_tempo_segments fl tempo_segments of
          Inl e \<Rightarrow> Inl e
        | Inr tempos \<Rightarrow> Inr \<lparr>pl_end_beat = end_beat, pl_segments = timeline_segments fl end_beat 0 tempos\<rparr>)"

section \<open>Queries\<close>

text \<open>A segment is looked up in order; the last one when none has the point. The segments are not empty.\<close>

definition segment_for_beat :: "PerformanceTimeline \<Rightarrow> rat \<Rightarrow> PerformanceTimelineSegment" where
  "segment_for_beat pl beat =
     (case List.find (\<lambda>s. sg_start_beat s \<le> beat \<and> beat < sg_end_beat s) (pl_segments pl) of
        Some s \<Rightarrow> s | None \<Rightarrow> last (pl_segments pl))"

definition segment_for_time_ms :: "'a float_ops_scheme \<Rightarrow> PerformanceTimeline \<Rightarrow> rat \<Rightarrow> PerformanceTimelineSegment" where
  "segment_for_time_ms fl pl time_ms =
     (case List.find (\<lambda>s. sg_start_time_ms s \<le> time_ms \<and> time_ms < end_time_ms fl s) (pl_segments pl) of
        Some s \<Rightarrow> s | None \<Rightarrow> last (pl_segments pl))"

definition nominal_duration_ms :: "'a float_ops_scheme \<Rightarrow> PerformanceTimeline \<Rightarrow> rat" where
  "nominal_duration_ms fl pl = (if pl_segments pl = [] then 0 else end_time_ms fl (last (pl_segments pl)))"

definition beat_to_time_ms :: "'a float_ops_scheme \<Rightarrow> PerformanceTimeline \<Rightarrow> rat \<Rightarrow> rat" where
  "beat_to_time_ms fl pl beat =
     (if pl_segments pl = [] then 0
      else
        let bounded = min (max beat 0) (pl_end_beat pl); s = segment_for_beat pl bounded
        in fl_add fl (sg_start_time_ms s) (beats_to_ms fl (fl_sub fl bounded (sg_start_beat s)) (sg_bpm s)))"

definition time_ms_to_beat :: "'a float_ops_scheme \<Rightarrow> PerformanceTimeline \<Rightarrow> rat \<Rightarrow> rat" where
  "time_ms_to_beat fl pl time_ms =
     (if pl_segments pl = [] then 0
      else
        let bounded = min (max time_ms 0) (nominal_duration_ms fl pl); s = segment_for_time_ms fl pl bounded;
            elapsed_ms = fl_sub fl bounded (sg_start_time_ms s)
        in round_beat fl (fl_add fl (sg_start_beat s) (ms_to_beats fl elapsed_ms (sg_bpm s))))"

definition bpm_at_beat :: "PerformanceTimeline \<Rightarrow> rat \<Rightarrow> rat" where
  "bpm_at_beat pl beat =
     (if pl_segments pl = [] then DEFAULT_PERFORMANCE_TEMPO_BPM
      else sg_bpm (segment_for_beat pl (min (max beat 0) (pl_end_beat pl))))"

definition projection_segment ::
  "'a float_ops_scheme \<Rightarrow> PerformanceTimeline \<Rightarrow> ResolvedPerformanceScope \<Rightarrow> PerformanceTimelineSegment \<Rightarrow>
   PerformanceTimelineProjectionSegment option" where
  "projection_segment fl pl scope s =
     (let start_beat = max (sg_start_beat s) (sc_start_beat scope);
          end_beat = min (sg_end_beat s) (sc_terminal_beat scope)
      in if end_beat \<le> start_beat then None
         else
           let start_time_ms = fl_sub fl (beat_to_time_ms fl pl start_beat) (sc_nominal_start_time_ms scope);
               end_time = fl_sub fl (beat_to_time_ms fl pl end_beat) (sc_nominal_start_time_ms scope)
           in Some \<lparr>pj_start_performance_time_ms = max 0 start_time_ms,
                pj_end_performance_time_ms = min (scope_duration_ms fl scope) end_time,
                pj_start_beat = round_beat fl start_beat, pj_end_beat = round_beat fl end_beat\<rparr>)"

definition projection_for_scope ::
  "'a float_ops_scheme \<Rightarrow> PerformanceTimeline \<Rightarrow> ResolvedPerformanceScope \<Rightarrow> PerformanceTimelineProjection" where
  "projection_for_scope fl pl scope =
     \<lparr>pt_scope_start_beat = sc_start_beat scope, pt_scope_terminal_beat = sc_terminal_beat scope,
      pt_segments = (if scope_duration_ms fl scope \<le> 0 then []
        else List.map_filter (projection_segment fl pl scope) (pl_segments pl))\<rparr>"

section \<open>Scopes\<close>

fun scope_group_index_from :: "nat \<Rightarrow> string \<Rightarrow> ExpectedPracticeGroup list \<Rightarrow> performance_error + nat" where
  "scope_group_index_from i group_id [] = Inl (PerformanceScopeTargetNotFound group_id)"
| "scope_group_index_from i group_id (g # gs) =
     (if xg_id g = group_id then Inr i else scope_group_index_from (i + 1) group_id gs)"

definition given_id :: "string option \<Rightarrow> string option" where
  "given_id group_id = (case group_id of Some i \<Rightarrow> if i = [] then None else Some i | None \<Rightarrow> None)"

definition scope_index :: "ExpectedPracticeGroup list \<Rightarrow> string option \<Rightarrow> nat \<Rightarrow> performance_error + nat" where
  "scope_index groups group_id otherwise =
     (case given_id group_id of None \<Rightarrow> Inr otherwise | Some i \<Rightarrow> scope_group_index_from 0 i groups)"

definition scope_terminal ::
  "practice_env \<Rightarrow> PracticeScoreTimeline \<Rightarrow> ExpectedPracticeGroup \<Rightarrow> string option \<Rightarrow> performance_error + rat" where
  "scope_terminal env timeline end_group end_id =
     (case end_id of
        None \<Rightarrow> Inr (tm_end_beat timeline)
      | Some _ \<Rightarrow>
          (case entry_group_end_beat env timeline (xg_id end_group) of
             None \<Rightarrow> Inl (PerformanceScopeTargetNotFound (xg_id end_group)) | Some beat \<Rightarrow> Inr beat))"

definition resolve_scope ::
  "practice_env \<Rightarrow> PerformanceTimeline \<Rightarrow> PracticeScoreTimeline \<Rightarrow> string option \<Rightarrow> string option \<Rightarrow>
   performance_error + ResolvedPerformanceScope" where
  "resolve_scope env pl timeline start_id end_id =
     (case expected_practice_groups timeline of
        Inl e \<Rightarrow> Inl (Score_timeline_error e)
      | Inr [] \<Rightarrow> Inl (PerformanceScopeInvalidRange ''Performance scope requires playable groups.'')
      | Inr groups \<Rightarrow>
          (case scope_index groups start_id 0 of
             Inl e \<Rightarrow> Inl e
           | Inr start_index \<Rightarrow>
               (case scope_index groups end_id (length groups - 1) of
                  Inl e \<Rightarrow> Inl e
                | Inr end_index \<Rightarrow>
                    if end_index < start_index
                    then Inl (PerformanceScopeInvalidRange
                      ''Performance scope end target must not be before the start target.'')
                    else
                      let start_group = groups ! start_index; end_group = groups ! end_index
                      in case scope_terminal env timeline end_group end_id of
                           Inl e \<Rightarrow> Inl e
                         | Inr terminal \<Rightarrow>
                             let terminal_beat = min (round_beat env terminal) (pl_end_beat pl);
                                 start_beat = round_beat env (xg_onset_beat start_group)
                             in if terminal_beat < start_beat
                                then Inl (PerformanceScopeInvalidRange
                                  ''Performance scope terminal beat must not be before its start beat.'')
                                else Inr \<lparr>
                                  sc_start_group_id = (if given_id start_id = None then None else Some (xg_id start_group)),
                                  sc_end_group_id = (if given_id end_id = None then None else Some (xg_id end_group)),
                                  sc_start_beat = start_beat, sc_terminal_beat = terminal_beat,
                                  sc_nominal_start_time_ms = beat_to_time_ms env pl start_beat,
                                  sc_nominal_end_time_ms = beat_to_time_ms env pl terminal_beat\<rparr>)))"

end
