(* ===== verification/Performance_Evidence.thy ===== *)
theory Performance_Evidence
  imports Practice_Model Performance_Timeline Step_Engine "HOL-Library.AList"
begin

text \<open>
  The evidence of a performance, \<open>backend/app/processing/performance/evidence.py\<close>: observations on the time of
  the session, the recorder that makes them of MIDI events and audio, outcomes, and the metrics of a summary. A
  constructor of the code that validates its fields is a function that may refuse.
\<close>

section \<open>Observations and outcomes\<close>

text \<open>The floats 0.01, 0.05 and 0.98.\<close>

definition CONFIDENT_OBSERVATION_THRESHOLD :: rat where "CONFIDENT_OBSERVATION_THRESHOLD = 3 / 4"
definition MICROPHONE_ACTIVE_RMS_FLOOR :: rat where
  "MICROPHONE_ACTIVE_RMS_FLOOR = 5764607523034235 / 576460752303423488"
definition MICROPHONE_CONFIDENT_RMS :: rat where "MICROPHONE_CONFIDENT_RMS = 3602879701896397 / 72057594037927936"
definition MICROPHONE_CLIPPING_PEAK :: rat where "MICROPHONE_CLIPPING_PEAK = 2206763817411543 / 2251799813685248"

datatype PerformanceExpectedEventResult = Event_MATCH | Event_PARTIAL | Event_MISMATCH | Event_UNCERTAIN | NOT_OBSERVED

datatype PerformanceExpectedStrikeResult = MATCHED | MISSING | UNCONFIRMED

definition checked_midi_pitch_name :: "int \<Rightarrow> performance_error + string" where
  "checked_midi_pitch_name note_number =
     (if note_number < 0 \<or> note_number > 127
      then Inl (PerformanceValueError ''MIDI note number must be between 0 and 127.'')
      else Inr (midi_pitch_name note_number))"

record PerformanceObservation =
  po_source :: PracticeInputSource
  po_session_time_ms :: int
  po_performance_time_ms :: rat
  po_duration_ms :: int
  po_active :: bool
  po_analyzable :: bool
  po_confidence :: rat
  po_observed_pitches :: "string list"

definition check_observation :: "PerformanceObservation \<Rightarrow> performance_error + PerformanceObservation" where
  "check_observation ob =
     (if po_session_time_ms ob < 0
      then Inl (PerformanceValueError ''Performance observation session time must be non-negative.'')
      else if po_performance_time_ms ob < 0
      then Inl (PerformanceValueError ''Performance observation time must be non-negative.'')
      else if po_duration_ms ob \<le> 0
      then Inl (PerformanceValueError ''Performance observation duration must be positive.'')
      else if \<not> (0 \<le> po_confidence ob \<and> po_confidence ob \<le> 1)
      then Inl (PerformanceValueError ''Performance observation confidence must be between 0 and 1.'')
      else Inr ob)"

record PerformanceExpectedStrikeOutcome =
  so_strike_id :: string
  so_pitch :: string
  so_render_note_ids :: "string list"
  so_result :: PerformanceExpectedStrikeResult

definition check_strike_outcome ::
  "PerformanceExpectedStrikeOutcome \<Rightarrow> performance_error + PerformanceExpectedStrikeOutcome" where
  "check_strike_outcome s =
     (if so_strike_id s = []
      then Inl (PerformanceValueError ''Performance expected-strike outcome requires a strike id.'')
      else if so_pitch s = []
      then Inl (PerformanceValueError ''Performance expected-strike outcome requires a pitch.'')
      else if so_render_note_ids s = []
      then Inl (PerformanceValueError ''Performance expected-strike outcome requires render note ids.'')
      else Inr s)"

record PerformanceExpectedEventOutcome =
  eo_expected_group_id :: string
  eo_performance_time_ms :: rat
  eo_result :: PerformanceExpectedEventResult
  eo_confidence :: rat
  eo_source :: PracticeInputSource
  eo_expected_strike_outcomes :: "PerformanceExpectedStrikeOutcome list"
  eo_unexpected_pitches :: "string list"
  eo_render_note_ids :: "string list"
  eo_measure_numbers :: "string list"
  eo_timing_offset_ms :: "rat option"

definition check_event_outcome ::
  "PerformanceExpectedEventOutcome \<Rightarrow> performance_error + PerformanceExpectedEventOutcome" where
  "check_event_outcome out =
     (if eo_expected_group_id out = []
      then Inl (PerformanceValueError ''Performance expected-event outcome requires an expected group id.'')
      else if eo_performance_time_ms out < 0
      then Inl (PerformanceValueError ''Performance expected-event outcome time must be non-negative.'')
      else if \<not> (0 \<le> eo_confidence out \<and> eo_confidence out \<le> 1)
      then Inl (PerformanceValueError ''Performance expected-event outcome confidence must be between 0 and 1.'')
      else Inr out)"

section \<open>The recorder\<close>

type_synonym open_note = "int \<times> rat \<times> string"

record PerformanceEvidenceRecorder =
  er_source :: PracticeInputSource
  er_sample_rate :: int
  er_channels :: int
  er_active_midi_notes :: "(int \<times> open_note) list"
  er_observations :: "PerformanceObservation list"

definition new_evidence_recorder ::
  "PracticeInputSource \<Rightarrow> int \<Rightarrow> int \<Rightarrow> performance_error + PerformanceEvidenceRecorder" where
  "new_evidence_recorder source sample_rate channels =
     (if sample_rate \<le> 0 then Inl (PerformanceValueError ''Performance evidence sample rate must be positive.'')
      else if channels \<le> 0 then Inl (PerformanceValueError ''Performance evidence channels must be positive.'')
      else Inr \<lparr>er_source = source, er_sample_rate = sample_rate, er_channels = channels,
        er_active_midi_notes = [], er_observations = []\<rparr>)"

text \<open>\<open>_pcm_s16le_signal\<close>: the number of samples, their root mean square and their peak.\<close>

definition pcm_s16le_signal :: "'a float_ops_scheme \<Rightarrow> 8 word list \<Rightarrow> nat \<times> rat \<times> rat" where
  "pcm_s16le_signal fl chunk =
     (let samples = pcm_samples chunk in
      if samples = [] then (0, 0, 0)
      else
        let step = (\<lambda>(square_sum, peak) sample.
              let normalized = fl_div fl (of_int \<bar>sample\<bar>) 32768
              in (fl_add fl square_sum (fl_mul fl normalized normalized), max peak normalized));
            (square_sum, peak) = foldl step (0, 0) samples
        in (length samples, float_half_power fl (fl_div fl square_sum (of_nat (length samples))), peak))"

definition record_audio_chunk ::
  "'a float_ops_scheme \<Rightarrow> 8 word list \<Rightarrow> int \<Rightarrow> rat \<Rightarrow> PerformanceEvidenceRecorder \<Rightarrow>
   (performance_error + PerformanceObservation option) \<times> PerformanceEvidenceRecorder" where
  "record_audio_chunk fl chunk session_time_ms performance_time_ms er =
     (if er_source er \<noteq> Input_MICROPHONE
      then (Inl (PerformanceRuntimeError ''Audio chunks require a microphone Performance evidence recorder.''), er)
      else if chunk = [] then (Inr None, er)
      else
        let (sample_count, rms, peak) = pcm_s16le_signal fl chunk;
            frame_count = fl_div fl (of_nat sample_count) (of_int (er_channels er));
            duration_ms = max 1 (round_half_even
              (fl_mul fl (fl_div fl frame_count (nearest fl (of_int (er_sample_rate er)))) 1000));
            active = (rms \<ge> MICROPHONE_ACTIVE_RMS_FLOOR);
            analyzable = (active \<and> peak < MICROPHONE_CLIPPING_PEAK);
            confidence = (if \<not> active then 0 else min 1 (fl_div fl rms MICROPHONE_CONFIDENT_RMS))
        in case check_observation \<lparr>po_source = Input_MICROPHONE, po_session_time_ms = session_time_ms,
               po_performance_time_ms = performance_time_ms, po_duration_ms = duration_ms, po_active = active,
               po_analyzable = analyzable, po_confidence = confidence, po_observed_pitches = []\<rparr> of
             Inl e \<Rightarrow> (Inl e, er)
           | Inr ob \<Rightarrow> (Inr (Some ob), er\<lparr>er_observations := er_observations er @ [ob]\<rparr>))"

definition midi_observation :: "int \<Rightarrow> open_note \<Rightarrow> performance_error + PerformanceObservation" where
  "midi_observation session_time_ms started =
     (case started of (started_at_ms, started_performance_time_ms, pitch) \<Rightarrow>
        check_observation \<lparr>po_source = Input_MIDI, po_session_time_ms = started_at_ms,
          po_performance_time_ms = started_performance_time_ms,
          po_duration_ms = max 1 (session_time_ms - started_at_ms), po_active = True, po_analyzable = True,
          po_confidence = 1, po_observed_pitches = [pitch]\<rparr>)"

definition record_midi_event ::
  "string \<Rightarrow> int \<Rightarrow> int \<Rightarrow> int \<Rightarrow> rat \<Rightarrow> PerformanceEvidenceRecorder \<Rightarrow>
   (performance_error + PerformanceObservation option) \<times> PerformanceEvidenceRecorder" where
  "record_midi_event event_type note_number velocity session_time_ms performance_time_ms er =
     (if er_source er \<noteq> Input_MIDI
      then (Inl (PerformanceRuntimeError ''MIDI events require a MIDI Performance evidence recorder.''), er)
      else if velocity < 0 \<or> velocity > 127
      then (Inl (PerformanceValueError ''MIDI velocity must be between 0 and 127.''), er)
      else if event_type = ''note_on'' \<and> velocity > 0
      then (case checked_midi_pitch_name note_number of
          Inl e \<Rightarrow> (Inl e, er)
        | Inr pitch \<Rightarrow> (Inr None, er\<lparr>er_active_midi_notes :=
            AList.update note_number (session_time_ms, performance_time_ms, pitch) (er_active_midi_notes er)\<rparr>))
      else if event_type \<notin> {''note_off'', ''note_on''}
      then (Inl (PerformanceValueError ''Unsupported MIDI event type.''), er)
      else (case map_of (er_active_midi_notes er) note_number of
          None \<Rightarrow> (Inr None, er)
        | Some started \<Rightarrow>
            let er1 = er\<lparr>er_active_midi_notes := AList.delete note_number (er_active_midi_notes er)\<rparr>
            in case midi_observation session_time_ms started of
                 Inl e \<Rightarrow> (Inl e, er1)
               | Inr ob \<Rightarrow> (Inr (Some ob), er1\<lparr>er_observations := er_observations er1 @ [ob]\<rparr>)))"

fun finish_notes ::
  "int \<Rightarrow> int list \<Rightarrow> PerformanceEvidenceRecorder \<Rightarrow>
   (performance_error + PerformanceObservation list) \<times> PerformanceEvidenceRecorder" where
  "finish_notes session_time_ms [] er = (Inr [], er\<lparr>er_active_midi_notes := []\<rparr>)"
| "finish_notes session_time_ms (note # notes) er =
     (case map_of (er_active_midi_notes er) note of
        None \<Rightarrow> finish_notes session_time_ms notes er
      | Some started \<Rightarrow>
          (case midi_observation session_time_ms started of
             Inl e \<Rightarrow> (Inl e, er)
           | Inr ob \<Rightarrow>
               (case finish_notes session_time_ms notes (er\<lparr>er_observations := er_observations er @ [ob]\<rparr>) of
                  (Inl e, er') \<Rightarrow> (Inl e, er') | (Inr obs, er') \<Rightarrow> (Inr (ob # obs), er'))))"

definition finish_open_midi_notes ::
  "int \<Rightarrow> PerformanceEvidenceRecorder \<Rightarrow>
   (performance_error + PerformanceObservation list) \<times> PerformanceEvidenceRecorder" where
  "finish_open_midi_notes session_time_ms er =
     (if er_source er \<noteq> Input_MIDI then (Inr [], er)
      else finish_notes session_time_ms (sort (map fst (er_active_midi_notes er))) er)"

section \<open>Summaries\<close>

record PerformanceSummaryAccumulator =
  pm_completion_reason :: "PracticeSessionCompletionReason option"
  pm_input_source :: PracticeInputSource
  pm_scope_kind :: string
  pm_active_duration_ms :: "int option"
  pm_observations :: "PerformanceObservation list"
  pm_outcomes :: "PerformanceExpectedEventOutcome list"

definition scope_kind :: "PracticeSession \<Rightarrow> string" where
  "scope_kind session =
     (if str_truthy (ps_scope_start_group session) \<or> str_truthy (ps_scope_end_group session)
      then ''SELECTED_RANGE'' else ''FULL_PIECE'')"

text \<open>\<open>timedelta.total_seconds()\<close> is the float nearest to the microseconds divided by a million.\<close>

definition session_duration_ms :: "'a float_ops_scheme \<Rightarrow> PracticeSession \<Rightarrow> int option" where
  "session_duration_ms fl session =
     (case (ps_started_at session, ps_finished_at session) of
        (Some started, Some finished) \<Rightarrow>
          Some (round_half_even (fl_mul fl (max 0 (fl_div fl (of_int (finished - started)) 1000000)) 1000))
      | _ \<Rightarrow> None)"

definition summary_from_session ::
  "'a float_ops_scheme \<Rightarrow> PracticeSession \<Rightarrow> PerformanceObservation list \<Rightarrow> PerformanceExpectedEventOutcome list \<Rightarrow>
   PerformanceSummaryAccumulator" where
  "summary_from_session fl session observations outcomes =
     \<lparr>pm_completion_reason = ps_completion_reason session, pm_input_source = ps_input_source session,
      pm_scope_kind = scope_kind session, pm_active_duration_ms = session_duration_ms fl session,
      pm_observations = observations, pm_outcomes = outcomes\<rparr>"

definition add_observation ::
  "PerformanceObservation \<Rightarrow> PerformanceSummaryAccumulator \<Rightarrow> performance_error + PerformanceSummaryAccumulator" where
  "add_observation ob pm =
     (if po_source ob \<noteq> pm_input_source pm
      then Inl (PerformanceValueError ''Performance observation source must match the practice input source.'')
      else Inr (pm\<lparr>pm_observations := pm_observations pm @ [ob]\<rparr>))"

definition add_outcome ::
  "PerformanceExpectedEventOutcome \<Rightarrow> PerformanceSummaryAccumulator \<Rightarrow>
   performance_error + PerformanceSummaryAccumulator" where
  "add_outcome out pm =
     (if eo_source out \<noteq> pm_input_source pm
      then Inl (PerformanceValueError ''Performance expected-event outcome source must match the practice input source.'')
      else Inr (pm\<lparr>pm_outcomes := pm_outcomes pm @ [out]\<rparr>))"

definition seconds_of :: "'a float_ops_scheme \<Rightarrow> int option \<Rightarrow> rat option" where
  "seconds_of fl duration_ms = map_option (\<lambda>d. py_round fl 3 (fl_div fl (of_int (max d 0)) 1000)) duration_ms"

definition coverage_of :: "'a float_ops_scheme \<Rightarrow> int \<Rightarrow> int option \<Rightarrow> rat option" where
  "coverage_of fl numerator_ms denominator_ms =
     (case denominator_ms of
        None \<Rightarrow> None
      | Some d \<Rightarrow>
          if d \<le> 0 then Some 0
          else Some (py_round fl 3 (min (max (fl_div fl (of_int numerator_ms) (of_int d)) 0) 1)))"

definition outcome_count ::
  "PerformanceExpectedEventOutcome list \<Rightarrow> PerformanceExpectedEventResult \<Rightarrow> nat" where
  "outcome_count outcomes result = length (filter (\<lambda>out. eo_result out = result) outcomes)"

definition rounded_average :: "'a float_ops_scheme \<Rightarrow> rat list \<Rightarrow> rat option" where
  "rounded_average fl items =
     (if items = [] then None
      else Some (py_round fl 3 (fl_div fl (float_sum fl items) (of_nat (length items)))))"

record PerformanceMetrics =
  mt_completion_reason :: "string option"
  mt_scope_kind :: string
  mt_input_source :: string
  mt_active_duration_seconds :: "rat option"
  mt_observed_duration_seconds :: "rat option"
  mt_input_activity_coverage :: "rat option"
  mt_analyzable_coverage :: "rat option"
  mt_confident_coverage :: "rat option"
  mt_uncertain_coverage :: "rat option"
  mt_expected_outcome_count :: nat
  mt_matched :: nat
  mt_partial :: nat
  mt_mismatched :: nat
  mt_uncertain :: nat
  mt_not_observed :: nat
  mt_average_timing_offset_ms :: "rat option"
  mt_average_absolute_timing_offset_ms :: "rat option"

definition total_duration :: "(PerformanceObservation \<Rightarrow> bool) \<Rightarrow> PerformanceObservation list \<Rightarrow> int" where
  "total_duration chosen observations = sum_list (map po_duration_ms (filter chosen observations))"

definition performance_metrics ::
  "'a float_ops_scheme \<Rightarrow> PerformanceSummaryAccumulator \<Rightarrow> PerformanceMetrics" where
  "performance_metrics fl pm =
     (let obs = pm_observations pm; outs = pm_outcomes pm; active = pm_active_duration_ms pm;
          confident = (\<lambda>ob. po_active ob \<and> po_analyzable ob \<and> po_confidence ob \<ge> CONFIDENT_OBSERVATION_THRESHOLD);
          unsure = (\<lambda>ob. po_active ob \<and> (\<not> po_analyzable ob \<or> po_confidence ob < CONFIDENT_OBSERVATION_THRESHOLD));
          timing_offsets = List.map_filter eo_timing_offset_ms outs
      in \<lparr>mt_completion_reason = map_option completion_reason_value (pm_completion_reason pm),
          mt_scope_kind = pm_scope_kind pm, mt_input_source = input_source_value (pm_input_source pm),
          mt_active_duration_seconds = seconds_of fl active,
          mt_observed_duration_seconds = seconds_of fl (Some (total_duration (\<lambda>_. True) obs)),
          mt_input_activity_coverage = coverage_of fl (total_duration po_active obs) active,
          mt_analyzable_coverage = coverage_of fl (total_duration po_analyzable obs) active,
          mt_confident_coverage = coverage_of fl (total_duration confident obs) active,
          mt_uncertain_coverage = coverage_of fl (total_duration unsure obs) active,
          mt_expected_outcome_count = length outs,
          mt_matched = outcome_count outs Event_MATCH, mt_partial = outcome_count outs Event_PARTIAL,
          mt_mismatched = outcome_count outs Event_MISMATCH, mt_uncertain = outcome_count outs Event_UNCERTAIN,
          mt_not_observed = outcome_count outs NOT_OBSERVED,
          mt_average_timing_offset_ms = rounded_average fl timing_offsets,
          mt_average_absolute_timing_offset_ms = rounded_average fl (map abs timing_offsets)\<rparr>)"

end
