(* ===== verification/Performance_Clock.thy ===== *)
theory Performance_Clock
  imports Performance_Timeline
begin

text \<open>
  The clock of a performance, \<open>backend/app/processing/performance/clock.py\<close>: a state machine over readings of a
  wall clock in integer milliseconds. A method that raises has changed what it changed before the exception, so
  it returns the state also then.
\<close>

datatype PerformanceClockState = READY | COUNT_IN | RUNNING | PAUSED | ENDED

record PerformanceClockSnapshot =
  cn_state :: PerformanceClockState
  cn_now_ms :: int
  cn_musical_beat :: rat
  cn_performance_elapsed_ms :: rat
  cn_count_in_remaining_ms :: rat
  cn_count_in_remaining_pulses :: rat
  cn_scope_completed :: bool

record PerformanceClock =
  ck_timeline :: PerformanceTimeline
  ck_scope :: ResolvedPerformanceScope
  ck_speed_ratio :: rat
  ck_count_in_pulses :: rat
  ck_count_in_ms :: rat
  ck_state :: PerformanceClockState
  ck_started_at_ms :: "int option"
  ck_pause_started_at_ms :: "int option"
  ck_paused_duration_ms :: rat
  ck_state_before_pause :: PerformanceClockState

definition count_in_duration_ms ::
  "'a float_ops_scheme \<Rightarrow> PerformanceTimeline \<Rightarrow> ResolvedPerformanceScope \<Rightarrow> rat \<Rightarrow> rat \<Rightarrow> rat" where
  "count_in_duration_ms fl pl scope speed_ratio count_in_duration_beats =
     fl_div fl (fl_div fl (fl_mul fl count_in_duration_beats 60000) (bpm_at_beat pl (sc_start_beat scope))) speed_ratio"

definition new_performance_clock ::
  "'a float_ops_scheme \<Rightarrow> PerformanceTimeline \<Rightarrow> ResolvedPerformanceScope \<Rightarrow> rat \<Rightarrow> rat \<Rightarrow> rat \<Rightarrow>
   performance_error + PerformanceClock" where
  "new_performance_clock fl pl scope speed_ratio count_in_duration_beats pulses =
     (if speed_ratio \<le> 0 then Inl (PerformanceClockError ''Performance speed ratio must be positive.'')
      else if count_in_duration_beats < 0
      then Inl (PerformanceClockError ''Performance count-in duration must not be negative.'')
      else if pulses < 0 then Inl (PerformanceClockError ''Performance count-in pulses must not be negative.'')
      else Inr \<lparr>ck_timeline = pl, ck_scope = scope, ck_speed_ratio = speed_ratio, ck_count_in_pulses = pulses,
        ck_count_in_ms = count_in_duration_ms fl pl scope speed_ratio count_in_duration_beats, ck_state = READY,
        ck_started_at_ms = None, ck_pause_started_at_ms = None, ck_paused_duration_ms = 0,
        ck_state_before_pause = READY\<rparr>)"

definition paused_from_running :: "PerformanceClock \<Rightarrow> bool" where
  "paused_from_running clock \<longleftrightarrow> ck_state clock = PAUSED \<and> ck_state_before_pause clock = RUNNING"

section \<open>Elapsed time\<close>

text \<open>An integer that meets a float is converted first; \<open>max(0.0, n)\<close> of an integer compares exactly.\<close>

definition active_elapsed_ms :: "'a float_ops_scheme \<Rightarrow> PerformanceClock \<Rightarrow> int \<Rightarrow> rat" where
  "active_elapsed_ms fl clock now_ms =
     (case ck_started_at_ms clock of
        None \<Rightarrow> 0
      | Some started \<Rightarrow>
          let pause_elapsed = (case ck_pause_started_at_ms clock of
                None \<Rightarrow> 0
              | Some paused_at \<Rightarrow> if ck_state clock = PAUSED then max 0 (of_int (now_ms - paused_at)) else 0)
          in max 0 (fl_sub fl (fl_sub fl (nearest fl (of_int (now_ms - started))) (ck_paused_duration_ms clock))
               (nearest fl pause_elapsed)))"

definition performance_elapsed_ms :: "'a float_ops_scheme \<Rightarrow> PerformanceClock \<Rightarrow> rat \<Rightarrow> rat" where
  "performance_elapsed_ms fl clock active =
     min (fl_mul fl (max 0 (fl_sub fl active (ck_count_in_ms clock))) (ck_speed_ratio clock))
       (scope_duration_ms fl (ck_scope clock))"

definition musical_beat :: "'a float_ops_scheme \<Rightarrow> PerformanceClock \<Rightarrow> rat \<Rightarrow> rat" where
  "musical_beat fl clock elapsed =
     (if elapsed \<ge> scope_duration_ms fl (ck_scope clock) then sc_terminal_beat (ck_scope clock)
      else time_ms_to_beat fl (ck_timeline clock) (fl_add fl (sc_nominal_start_time_ms (ck_scope clock)) elapsed))"

definition count_in_remaining_ms :: "'a float_ops_scheme \<Rightarrow> PerformanceClock \<Rightarrow> rat \<Rightarrow> rat" where
  "count_in_remaining_ms fl clock active = max 0 (fl_sub fl (ck_count_in_ms clock) active)"

definition count_in_remaining_pulses :: "'a float_ops_scheme \<Rightarrow> PerformanceClock \<Rightarrow> rat \<Rightarrow> rat" where
  "count_in_remaining_pulses fl clock active =
     (if ck_count_in_pulses clock \<le> 0 \<or> ck_count_in_ms clock \<le> 0 then 0
      else max 0 (fl_mul fl (ck_count_in_pulses clock)
        (fl_div fl (count_in_remaining_ms fl clock active) (ck_count_in_ms clock))))"

definition resolved_active_state :: "'a float_ops_scheme \<Rightarrow> PerformanceClock \<Rightarrow> rat \<Rightarrow> PerformanceClockState" where
  "resolved_active_state fl clock active =
     (if ck_state clock = PAUSED then PAUSED
      else if active < ck_count_in_ms clock then COUNT_IN
      else if performance_elapsed_ms fl clock active \<ge> scope_duration_ms fl (ck_scope clock) then ENDED
      else RUNNING)"

section \<open>Calls\<close>

text \<open>\<open>_advance_to\<close>: the active time, and the state it leads to.\<close>

definition advance_to :: "'a float_ops_scheme \<Rightarrow> int \<Rightarrow> PerformanceClock \<Rightarrow> rat \<times> PerformanceClock" where
  "advance_to fl now_ms clock =
     (if ck_state clock = READY then (0, clock)
      else
        let active = active_elapsed_ms fl clock now_ms in
        if ck_state clock = PAUSED then (active, clock)
        else
          let next_state = resolved_active_state fl clock active
          in (active, if next_state \<in> {RUNNING, ENDED} then clock\<lparr>ck_state := next_state\<rparr> else clock))"

definition snapshot_of :: "'a float_ops_scheme \<Rightarrow> int \<Rightarrow> rat \<Rightarrow> PerformanceClock \<Rightarrow> PerformanceClockSnapshot" where
  "snapshot_of fl now_ms active clock =
     (let elapsed = performance_elapsed_ms fl clock active in
      \<lparr>cn_state = ck_state clock, cn_now_ms = now_ms, cn_musical_beat = musical_beat fl clock elapsed,
       cn_performance_elapsed_ms = elapsed, cn_count_in_remaining_ms = count_in_remaining_ms fl clock active,
       cn_count_in_remaining_pulses = count_in_remaining_pulses fl clock active,
       cn_scope_completed = (ck_state clock = ENDED)\<rparr>)"

definition clock_snapshot :: "'a float_ops_scheme \<Rightarrow> int \<Rightarrow> PerformanceClock \<Rightarrow> PerformanceClockSnapshot \<times> PerformanceClock" where
  "clock_snapshot fl now_ms clock =
     (let (active, clock') = advance_to fl now_ms clock in (snapshot_of fl now_ms active clock', clock'))"

definition clock_start ::
  "'a float_ops_scheme \<Rightarrow> int \<Rightarrow> PerformanceClock \<Rightarrow> (performance_error + PerformanceClockSnapshot) \<times> PerformanceClock" where
  "clock_start fl now_ms clock =
     (if ck_state clock \<noteq> READY
      then (Inl (PerformanceClockError ''Performance clock can only start from READY.''), clock)
      else
        let clock1 = clock\<lparr>ck_started_at_ms := Some now_ms,
              ck_state := (if ck_count_in_ms clock > 0 then COUNT_IN else RUNNING)\<rparr>;
            (snapshot, clock2) = clock_snapshot fl now_ms clock1
        in (Inr snapshot, clock2))"

definition clock_pause ::
  "'a float_ops_scheme \<Rightarrow> int \<Rightarrow> PerformanceClock \<Rightarrow> (performance_error + PerformanceClockSnapshot) \<times> PerformanceClock" where
  "clock_pause fl now_ms clock =
     (let (_, clock1) = advance_to fl now_ms clock in
      if ck_state clock1 \<notin> {COUNT_IN, RUNNING}
      then (Inl (PerformanceClockError ''Performance clock can only pause while active.''), clock1)
      else
        let clock2 = clock1\<lparr>ck_state_before_pause := ck_state clock1, ck_state := PAUSED,
              ck_pause_started_at_ms := Some now_ms\<rparr>;
            (snapshot, clock3) = clock_snapshot fl now_ms clock2
        in (Inr snapshot, clock3))"

definition clock_resume ::
  "'a float_ops_scheme \<Rightarrow> int \<Rightarrow> PerformanceClock \<Rightarrow> (performance_error + PerformanceClockSnapshot) \<times> PerformanceClock" where
  "clock_resume fl now_ms clock =
     (case ck_pause_started_at_ms clock of
        None \<Rightarrow> (Inl (PerformanceClockError ''Performance clock can only resume from PAUSED.''), clock)
      | Some paused_at \<Rightarrow>
          if ck_state clock \<noteq> PAUSED
          then (Inl (PerformanceClockError ''Performance clock can only resume from PAUSED.''), clock)
          else
            let clock1 = clock\<lparr>ck_paused_duration_ms := fl_add fl (ck_paused_duration_ms clock)
                    (nearest fl (max 0 (of_int (now_ms - paused_at)))),
                  ck_pause_started_at_ms := None, ck_state := ck_state_before_pause clock\<rparr>;
                (snapshot, clock2) = clock_snapshot fl now_ms clock1
            in (Inr snapshot, clock2))"

end
