(* ===== verification/Performance_Evaluator.thy ===== *)
theory Performance_Evaluator
  imports Performance_Evidence Performance_Clock
begin

text \<open>
  The evaluation of a performance played on a MIDI keyboard, \<open>backend/app/processing/performance/evaluator.py\<close>:
  each observation goes to the nearest expected event, and an event is judged by the gesture that was played for
  it, the observations close to the first one. The runtime that composes timeline, scope, clock and evaluator is
  \<open>runtime.py\<close>.
\<close>

section \<open>Expected events\<close>

definition DEFAULT_MIDI_EVENT_ASSIGNMENT_WINDOW_MS :: rat where "DEFAULT_MIDI_EVENT_ASSIGNMENT_WINDOW_MS = 250"
definition DEFAULT_MIDI_CHORD_SIMULTANEITY_WINDOW_MS :: rat where "DEFAULT_MIDI_CHORD_SIMULTANEITY_WINDOW_MS = 120"

record ExpectedPerformanceEvent =
  xe_expected_group :: ExpectedPracticeGroup
  xe_performance_time_ms :: rat

fun event_group_index :: "nat \<Rightarrow> string \<Rightarrow> ExpectedPracticeGroup list \<Rightarrow> performance_error + nat" where
  "event_group_index i group_id [] = Inl (PerformanceValueError (''Performance scope target not found: '' @ group_id))"
| "event_group_index i group_id (g # gs) =
     (if xg_id g = group_id then Inr i else event_group_index (i + 1) group_id gs)"

definition event_index :: "ExpectedPracticeGroup list \<Rightarrow> string option \<Rightarrow> nat \<Rightarrow> performance_error + nat" where
  "event_index groups group_id otherwise =
     (case given_id group_id of None \<Rightarrow> Inr otherwise | Some i \<Rightarrow> event_group_index 0 i groups)"

definition expected_events_for_scope ::
  "'a float_ops_scheme \<Rightarrow> PracticeScoreTimeline \<Rightarrow> PerformanceTimeline \<Rightarrow> ResolvedPerformanceScope \<Rightarrow>
   performance_error + ExpectedPerformanceEvent list" where
  "expected_events_for_scope fl timeline pl scope =
     (case expected_practice_groups timeline of
        Inl e \<Rightarrow> Inl (Score_timeline_error e)
      | Inr [] \<Rightarrow> Inr []
      | Inr groups \<Rightarrow>
          (case event_index groups (sc_start_group_id scope) 0 of
             Inl e \<Rightarrow> Inl e
           | Inr i \<Rightarrow>
               (case event_index groups (sc_end_group_id scope) (length groups - 1) of
                  Inl e \<Rightarrow> Inl e
                | Inr j \<Rightarrow>
                    Inr (map (\<lambda>g. \<lparr>xe_expected_group = g, xe_performance_time_ms =
                        fl_sub fl (beat_to_time_ms fl pl (xg_onset_beat g)) (sc_nominal_start_time_ms scope)\<rparr>)
                      (drop i (take (j + 1) groups))))))"

section \<open>Assignment\<close>

definition time_distance :: "'a float_ops_scheme \<Rightarrow> PerformanceObservation \<Rightarrow> ExpectedPerformanceEvent \<Rightarrow> rat" where
  "time_distance fl ob event = \<bar>fl_sub fl (xe_performance_time_ms event) (po_performance_time_ms ob)\<bar>"

text \<open>\<open>min(events, key=...)\<close> is the first of the smallest.\<close>

fun min_by :: "('x \<Rightarrow> rat) \<Rightarrow> 'x \<Rightarrow> 'x list \<Rightarrow> 'x" where
  "min_by key best [] = best"
| "min_by key best (x # xs) = min_by key (if key x < key best then x else best) xs"

definition nearest_event ::
  "'a float_ops_scheme \<Rightarrow> rat \<Rightarrow> ExpectedPerformanceEvent list \<Rightarrow> PerformanceObservation \<Rightarrow>
   ExpectedPerformanceEvent option" where
  "nearest_event fl window events ob =
     (case events of
        [] \<Rightarrow> None
      | e # es \<Rightarrow>
          let found = min_by (time_distance fl ob) e es
          in if time_distance fl ob found > window then None else Some found)"

definition usable_observation :: "PerformanceObservation \<Rightarrow> bool" where
  "usable_observation ob \<longleftrightarrow> po_active ob \<and> po_analyzable ob \<and> po_observed_pitches ob \<noteq> []"

text \<open>The list that the code keeps for a group id: the observations whose nearest event is of that group.\<close>

definition assigned_observations ::
  "'a float_ops_scheme \<Rightarrow> rat \<Rightarrow> ExpectedPerformanceEvent list \<Rightarrow> PerformanceObservation list \<Rightarrow> string \<Rightarrow>
   PerformanceObservation list" where
  "assigned_observations fl window events observations group_id =
     filter (\<lambda>ob. usable_observation ob \<and>
       map_option (\<lambda>e. xg_id (xe_expected_group e)) (nearest_event fl window events ob) = Some group_id) observations"

section \<open>Judging an event\<close>

definition split_chord_gesture ::
  "'a float_ops_scheme \<Rightarrow> rat \<Rightarrow> PerformanceObservation list \<Rightarrow>
   PerformanceObservation list \<times> PerformanceObservation list" where
  "split_chord_gesture fl window observations =
     (case sort_key po_performance_time_ms observations of
        [] \<Rightarrow> ([], [])
      | first # rest \<Rightarrow>
          partition (\<lambda>ob. fl_sub fl (po_performance_time_ms ob) (po_performance_time_ms first) \<le> window) (first # rest))"

definition observed_pitches_of :: "PerformanceObservation list \<Rightarrow> string list" where
  "observed_pitches_of observations = concat (map po_observed_pitches observations)"

definition event_pitches :: "ExpectedPerformanceEvent \<Rightarrow> string list" where
  "event_pitches event = map st_pitch (xg_strike_targets (xe_expected_group event))"

definition strike_outcome ::
  "ExpectedPracticeStrikeTarget \<Rightarrow> PerformanceExpectedStrikeResult \<Rightarrow> performance_error + PerformanceExpectedStrikeOutcome" where
  "strike_outcome strike result = check_strike_outcome \<lparr>so_strike_id = st_id strike, so_pitch = st_pitch strike,
     so_render_note_ids = st_render_note_ids strike, so_result = result\<rparr>"

definition strike_result :: "string list \<Rightarrow> string list \<Rightarrow> string \<Rightarrow> PerformanceExpectedStrikeResult" where
  "strike_result observed unconfirmed pitch =
     (if pitch \<in> set observed then MATCHED else if pitch \<in> set unconfirmed then UNCONFIRMED else MISSING)"

definition expected_strike_outcomes ::
  "ExpectedPerformanceEvent \<Rightarrow> string list \<Rightarrow> string list \<Rightarrow> performance_error + PerformanceExpectedStrikeOutcome list" where
  "expected_strike_outcomes event observed unconfirmed =
     traverse (\<lambda>strike. strike_outcome strike (strike_result observed unconfirmed (st_pitch strike)))
       (xg_strike_targets (xe_expected_group event))"

fun unexpected_pitches_from :: "string list \<Rightarrow> string list \<Rightarrow> string list \<Rightarrow> string list" where
  "unexpected_pitches_from expected seen [] = []"
| "unexpected_pitches_from expected seen (p # ps) =
     (if p \<notin> set expected \<or> p \<in> set seen then p # unexpected_pitches_from expected seen ps
      else unexpected_pitches_from expected (p # seen) ps)"

definition unexpected_pitches :: "ExpectedPerformanceEvent \<Rightarrow> string list \<Rightarrow> string list" where
  "unexpected_pitches event observed = unexpected_pitches_from (event_pitches event) [] observed"

record NonGesturePitchClassification =
  ng_unconfirmed :: "string list"
  ng_unexpected :: "string list"

definition classify_non_gesture_pitches ::
  "ExpectedPerformanceEvent \<Rightarrow> string list \<Rightarrow> string list \<Rightarrow> NonGesturePitchClassification" where
  "classify_non_gesture_pitches event observed matched =
     (let stray = (\<lambda>p. p \<notin> set (event_pitches event) \<or> p \<in> set matched)
      in \<lparr>ng_unconfirmed = fromkeys (filter (\<lambda>p. \<not> stray p) observed), ng_unexpected = filter stray observed\<rparr>)"

definition plain_average :: "'a float_ops_scheme \<Rightarrow> rat list \<Rightarrow> rat" where
  "plain_average fl items = (if items = [] then 0 else fl_div fl (float_sum fl items) (of_nat (length items)))"

definition not_observed_outcome :: "ExpectedPerformanceEvent \<Rightarrow> performance_error + PerformanceExpectedEventOutcome" where
  "not_observed_outcome event =
     (case traverse (\<lambda>strike. strike_outcome strike UNCONFIRMED) (xg_strike_targets (xe_expected_group event)) of
        Inl e \<Rightarrow> Inl e
      | Inr strikes \<Rightarrow> check_event_outcome \<lparr>eo_expected_group_id = xg_id (xe_expected_group event),
          eo_performance_time_ms = xe_performance_time_ms event, eo_result = NOT_OBSERVED, eo_confidence = 0,
          eo_source = Input_MIDI, eo_expected_strike_outcomes = strikes, eo_unexpected_pitches = [],
          eo_render_note_ids = xg_render_note_ids (xe_expected_group event),
          eo_measure_numbers = xg_measure_numbers (xe_expected_group event), eo_timing_offset_ms = None\<rparr>)"

definition event_result :: "PerformanceExpectedStrikeOutcome list \<Rightarrow> string list \<Rightarrow> PerformanceExpectedEventResult" where
  "event_result strikes unexpected =
     (if (\<forall>s \<in> set strikes. so_result s = MATCHED) \<and> unexpected = [] then Event_MATCH
      else if (\<exists>s \<in> set strikes. so_result s = MATCHED) \<and> unexpected = [] then Event_PARTIAL
      else Event_MISMATCH)"

definition outcome_for_event ::
  "'a float_ops_scheme \<Rightarrow> rat \<Rightarrow> ExpectedPerformanceEvent \<Rightarrow> PerformanceObservation list \<Rightarrow>
   performance_error + PerformanceExpectedEventOutcome" where
  "outcome_for_event fl window event observations =
     (if observations = [] then not_observed_outcome event
      else
        let (gesture, others) = split_chord_gesture fl window observations;
            observed = observed_pitches_of gesture;
            non_gesture = classify_non_gesture_pitches event (observed_pitches_of others) observed
        in case expected_strike_outcomes event observed (ng_unconfirmed non_gesture) of
             Inl e \<Rightarrow> Inl e
           | Inr strikes \<Rightarrow>
               let unexpected = unexpected_pitches event observed @ ng_unexpected non_gesture;
                   timing_offset_ms = plain_average fl
                     (map (\<lambda>ob. fl_sub fl (po_performance_time_ms ob) (xe_performance_time_ms event)) gesture);
                   confidence = plain_average fl (map po_confidence gesture)
               in check_event_outcome \<lparr>eo_expected_group_id = xg_id (xe_expected_group event),
                    eo_performance_time_ms = xe_performance_time_ms event,
                    eo_result = event_result strikes unexpected, eo_confidence = py_round fl 3 confidence,
                    eo_source = Input_MIDI, eo_expected_strike_outcomes = strikes,
                    eo_unexpected_pitches = unexpected,
                    eo_render_note_ids = xg_render_note_ids (xe_expected_group event),
                    eo_measure_numbers = xg_measure_numbers (xe_expected_group event),
                    eo_timing_offset_ms = Some (py_round fl 3 timing_offset_ms)\<rparr>)"

section \<open>The evaluator\<close>

record PerformanceExpectedEventEvaluator =
  ev_events :: "ExpectedPerformanceEvent list"
  ev_assignment_window_ms :: rat
  ev_simultaneity_window_ms :: rat

definition new_performance_evaluator ::
  "'a float_ops_scheme \<Rightarrow> PracticeScoreTimeline \<Rightarrow> PerformanceTimeline \<Rightarrow> ResolvedPerformanceScope \<Rightarrow> rat \<Rightarrow> rat \<Rightarrow>
   performance_error + PerformanceExpectedEventEvaluator" where
  "new_performance_evaluator fl timeline pl scope assignment_window simultaneity_window =
     (if assignment_window \<le> 0
      then Inl (PerformanceValueError ''MIDI event assignment window must be positive.'')
      else if simultaneity_window \<le> 0
      then Inl (PerformanceValueError ''MIDI chord simultaneity window must be positive.'')
      else case expected_events_for_scope fl timeline pl scope of
          Inl e \<Rightarrow> Inl e
        | Inr events \<Rightarrow> Inr \<lparr>ev_events = events, ev_assignment_window_ms = assignment_window,
            ev_simultaneity_window_ms = simultaneity_window\<rparr>)"

definition evaluate_midi ::
  "'a float_ops_scheme \<Rightarrow> PerformanceExpectedEventEvaluator \<Rightarrow> PerformanceObservation list \<Rightarrow>
   performance_error + PerformanceExpectedEventOutcome list" where
  "evaluate_midi fl evaluator observations =
     (if ev_events evaluator = [] then Inr []
      else if \<exists>ob \<in> set observations. po_source ob \<noteq> Input_MIDI
      then Inl (PerformanceValueError ''MIDI Performance evaluation requires MIDI observations.'')
      else traverse (\<lambda>event. outcome_for_event fl (ev_simultaneity_window_ms evaluator) event
          (assigned_observations fl (ev_assignment_window_ms evaluator) (ev_events evaluator) observations
            (xg_id (xe_expected_group event)))) (ev_events evaluator))"

section \<open>The runtime\<close>

record PerformanceClockSync =
  sy_state :: PerformanceClockState
  sy_musical_beat :: rat
  sy_performance_time_ms :: rat
  sy_count_in_remaining_ms :: rat
  sy_count_in_remaining_pulses :: rat
  sy_scope_completed :: bool
  sy_scope_start_group_id :: "string option"
  sy_scope_end_group_id :: "string option"
  sy_scope_start_beat :: rat
  sy_scope_terminal_beat :: rat
  sy_nominal_scope_duration_ms :: rat
  sy_speed_ratio :: rat

record PerformanceRuntime =
  rt_score_timeline :: PracticeScoreTimeline
  rt_timeline :: PerformanceTimeline
  rt_scope :: ResolvedPerformanceScope
  rt_speed_ratio :: rat
  rt_clock :: PerformanceClock

definition new_performance_runtime ::
  "practice_env \<Rightarrow> PracticeScoreTimeline \<Rightarrow> TempoSegment list \<Rightarrow> string option \<Rightarrow> string option \<Rightarrow> rat \<Rightarrow>
   rat option \<Rightarrow> rat option \<Rightarrow> performance_error + PerformanceRuntime" where
  "new_performance_runtime env timeline tempo_segments start_id end_id speed_ratio beats pulses =
     (case performance_timeline env timeline tempo_segments of
        Inl e \<Rightarrow> Inl e
      | Inr pl \<Rightarrow>
          (case resolve_scope env pl timeline start_id end_id of
             Inl e \<Rightarrow> Inl e
           | Inr scope \<Rightarrow>
               let count_in_beats = (case beats of None \<Rightarrow> count_in_duration_beats_at env timeline (sc_start_beat scope)
                     | Some b \<Rightarrow> b);
                   count_in = (case pulses of None \<Rightarrow> of_int (count_in_pulses_at timeline (sc_start_beat scope))
                     | Some p \<Rightarrow> p)
               in case new_performance_clock env pl scope speed_ratio count_in_beats count_in of
                    Inl e \<Rightarrow> Inl e
                  | Inr clock \<Rightarrow> Inr \<lparr>rt_score_timeline = timeline, rt_timeline = pl, rt_scope = scope,
                      rt_speed_ratio = speed_ratio, rt_clock = clock\<rparr>))"

definition to_sync :: "'a float_ops_scheme \<Rightarrow> PerformanceRuntime \<Rightarrow> PerformanceClockSnapshot \<Rightarrow> PerformanceClockSync" where
  "to_sync fl rt snapshot =
     \<lparr>sy_state = cn_state snapshot, sy_musical_beat = cn_musical_beat snapshot,
      sy_performance_time_ms = cn_performance_elapsed_ms snapshot,
      sy_count_in_remaining_ms = cn_count_in_remaining_ms snapshot,
      sy_count_in_remaining_pulses = cn_count_in_remaining_pulses snapshot,
      sy_scope_completed = cn_scope_completed snapshot, sy_scope_start_group_id = sc_start_group_id (rt_scope rt),
      sy_scope_end_group_id = sc_end_group_id (rt_scope rt), sy_scope_start_beat = sc_start_beat (rt_scope rt),
      sy_scope_terminal_beat = sc_terminal_beat (rt_scope rt),
      sy_nominal_scope_duration_ms = scope_duration_ms fl (rt_scope rt), sy_speed_ratio = rt_speed_ratio rt\<rparr>"

text \<open>A call of the clock through the runtime.\<close>

definition runtime_call ::
  "'a float_ops_scheme \<Rightarrow> (PerformanceClock \<Rightarrow> (performance_error + PerformanceClockSnapshot) \<times> PerformanceClock) \<Rightarrow>
   PerformanceRuntime \<Rightarrow> (performance_error + PerformanceClockSync) \<times> PerformanceRuntime" where
  "runtime_call fl call rt =
     (case call (rt_clock rt) of
        (Inl e, clock) \<Rightarrow> (Inl e, rt\<lparr>rt_clock := clock\<rparr>)
      | (Inr snapshot, clock) \<Rightarrow> (Inr (to_sync fl rt snapshot), rt\<lparr>rt_clock := clock\<rparr>))"

definition runtime_start ::
  "'a float_ops_scheme \<Rightarrow> int \<Rightarrow> PerformanceRuntime \<Rightarrow> (performance_error + PerformanceClockSync) \<times> PerformanceRuntime" where
  "runtime_start fl now_ms = runtime_call fl (clock_start fl now_ms)"

definition runtime_pause ::
  "'a float_ops_scheme \<Rightarrow> int \<Rightarrow> PerformanceRuntime \<Rightarrow> (performance_error + PerformanceClockSync) \<times> PerformanceRuntime" where
  "runtime_pause fl now_ms = runtime_call fl (clock_pause fl now_ms)"

definition runtime_resume ::
  "'a float_ops_scheme \<Rightarrow> int \<Rightarrow> PerformanceRuntime \<Rightarrow> (performance_error + PerformanceClockSync) \<times> PerformanceRuntime" where
  "runtime_resume fl now_ms = runtime_call fl (clock_resume fl now_ms)"

definition runtime_sync :: "'a float_ops_scheme \<Rightarrow> int \<Rightarrow> PerformanceRuntime \<Rightarrow> PerformanceClockSync \<times> PerformanceRuntime" where
  "runtime_sync fl now_ms rt =
     (let (snapshot, clock) = clock_snapshot fl now_ms (rt_clock rt) in (to_sync fl rt snapshot, rt\<lparr>rt_clock := clock\<rparr>))"

definition performance_time_for_active_time ::
  "'a float_ops_scheme \<Rightarrow> PerformanceRuntime \<Rightarrow> int \<Rightarrow> performance_error + rat" where
  "performance_time_for_active_time fl rt active_time_ms =
     (if active_time_ms < 0
      then Inl (PerformanceValueError ''Performance session active time must be non-negative.'')
      else Inr (min (fl_mul fl (max 0 (fl_sub fl (nearest fl (of_int active_time_ms)) (ck_count_in_ms (rt_clock rt))))
          (rt_speed_ratio rt)) (scope_duration_ms fl (rt_scope rt))))"

definition count_in_for_beat :: "practice_env \<Rightarrow> PerformanceRuntime \<Rightarrow> rat \<Rightarrow> rat \<times> rat" where
  "count_in_for_beat env rt beat =
     (fl_div env (fl_div env (fl_mul env (count_in_duration_beats_at env (rt_score_timeline rt) beat) 60000)
        (bpm_at_beat (rt_timeline rt) beat)) (rt_speed_ratio rt),
      of_int (count_in_pulses_at (rt_score_timeline rt) beat))"

definition timeline_projection :: "'a float_ops_scheme \<Rightarrow> PerformanceRuntime \<Rightarrow> PerformanceTimelineProjection" where
  "timeline_projection fl rt = projection_for_scope fl (rt_timeline rt) (rt_scope rt)"

definition evaluate_expected_event_outcomes ::
  "'a float_ops_scheme \<Rightarrow> PerformanceRuntime \<Rightarrow> PracticeInputSource \<Rightarrow> PerformanceObservation list \<Rightarrow>
   performance_error + PerformanceExpectedEventOutcome list" where
  "evaluate_expected_event_outcomes fl rt source observations =
     (if source \<noteq> Input_MIDI then Inr []
      else case new_performance_evaluator fl (rt_score_timeline rt) (rt_timeline rt) (rt_scope rt)
             DEFAULT_MIDI_EVENT_ASSIGNMENT_WINDOW_MS DEFAULT_MIDI_CHORD_SIMULTANEITY_WINDOW_MS of
          Inl e \<Rightarrow> Inl e
        | Inr evaluator \<Rightarrow> evaluate_midi fl evaluator observations)"

end
