(* ===== verification/Performance_Clock_Run.thy ===== *)
theory Performance_Clock_Run
  imports Performance_Clock
begin

text \<open>
  The clock of a performance implements a stopwatch: an abstract record of the time that was not paused. Wall
  clock readings are integers below 2 to the power of 53, which a float holds exactly.
\<close>

section \<open>The stopwatch\<close>

record stopwatch =
  sw_started :: bool
  sw_total :: int
  sw_since :: "int option"

definition new_stopwatch :: stopwatch where
  "new_stopwatch = \<lparr>sw_started = False, sw_total = 0, sw_since = None\<rparr>"

definition sw_time :: "stopwatch \<Rightarrow> int \<Rightarrow> int" where
  "sw_time sw t = (case sw_since sw of None \<Rightarrow> sw_total sw | Some since \<Rightarrow> sw_total sw + (t - since))"

definition sw_start :: "int \<Rightarrow> stopwatch \<Rightarrow> stopwatch" where
  "sw_start t sw = sw\<lparr>sw_started := True, sw_since := Some t\<rparr>"

definition sw_pause :: "int \<Rightarrow> stopwatch \<Rightarrow> stopwatch" where
  "sw_pause t sw = sw\<lparr>sw_total := sw_time sw t, sw_since := None\<rparr>"

text \<open>The state and the snapshot that belong to a stopwatch.\<close>

definition stopwatch_state :: "'a float_ops_scheme \<Rightarrow> PerformanceClock \<Rightarrow> stopwatch \<Rightarrow> int \<Rightarrow> PerformanceClockState" where
  "stopwatch_state fl c sw t =
     (if \<not> sw_started sw then READY
      else if sw_since sw = None then PAUSED
      else if of_int (sw_time sw t) < ck_count_in_ms c then COUNT_IN
      else if scope_duration_ms fl (ck_scope c) \<le> performance_elapsed_ms fl c (of_int (sw_time sw t)) then ENDED
      else RUNNING)"

definition stopwatch_snapshot :: "'a float_ops_scheme \<Rightarrow> PerformanceClock \<Rightarrow> stopwatch \<Rightarrow> int \<Rightarrow> PerformanceClockSnapshot" where
  "stopwatch_snapshot fl c sw t =
     snapshot_of fl t (of_int (sw_time sw t)) (c\<lparr>ck_state := stopwatch_state fl c sw t\<rparr>)"

section \<open>Floats and integers\<close>

definition float_integers :: "'a float_ops_scheme \<Rightarrow> bool" where
  "float_integers fl \<longleftrightarrow> mono (nearest fl) \<and> (\<forall>k :: int. \<bar>k\<bar> \<le> 2 ^ 53 \<longrightarrow> nearest fl (of_int k) = of_int k)"

lemma float_integer: "float_integers fl \<Longrightarrow> 0 \<le> k \<Longrightarrow> k \<le> 2 ^ 53 \<Longrightarrow> nearest fl (of_int k) = of_int k"
  by (simp add: float_integers_def)

lemma elapsed_mono:
  assumes fl: "float_integers fl" and "0 < ck_speed_ratio c" and "x \<le> y"
  shows "performance_elapsed_ms fl c x \<le> performance_elapsed_ms fl c y"
proof -
  have near: "a \<le> b \<Longrightarrow> nearest fl a \<le> nearest fl b" for a b using fl by (simp add: float_integers_def monoD)
  have "max 0 (fl_sub fl x (ck_count_in_ms c)) \<le> max 0 (fl_sub fl y (ck_count_in_ms c))"
    using assms(3) by (intro max.mono order.refl) (simp add: fl_sub_def near)
  then have "fl_mul fl (max 0 (fl_sub fl x (ck_count_in_ms c))) (ck_speed_ratio c) \<le>
      fl_mul fl (max 0 (fl_sub fl y (ck_count_in_ms c))) (ck_speed_ratio c)"
    unfolding fl_mul_def using assms(2) by (intro near mult_right_mono) simp_all
  then show ?thesis unfolding performance_elapsed_ms_def by (intro min.mono order.refl)
qed

text \<open>Changes of the calls' bookkeeping leave the elapsed time of a given active time.\<close>

lemma elapsed_fields: "ck_count_in_ms c' = ck_count_in_ms c \<Longrightarrow> ck_speed_ratio c' = ck_speed_ratio c \<Longrightarrow>
    ck_scope c' = ck_scope c \<Longrightarrow> performance_elapsed_ms fl c' = performance_elapsed_ms fl c"
  by (simp add: performance_elapsed_ms_def fun_eq_iff)

lemma elapsed_updates [simp]:
  "performance_elapsed_ms fl (c\<lparr>ck_state := s\<rparr>) = performance_elapsed_ms fl c"
  "performance_elapsed_ms fl (c\<lparr>ck_started_at_ms := t\<rparr>) = performance_elapsed_ms fl c"
  "performance_elapsed_ms fl (c\<lparr>ck_pause_started_at_ms := t\<rparr>) = performance_elapsed_ms fl c"
  "performance_elapsed_ms fl (c\<lparr>ck_paused_duration_ms := d\<rparr>) = performance_elapsed_ms fl c"
  "performance_elapsed_ms fl (c\<lparr>ck_state_before_pause := s\<rparr>) = performance_elapsed_ms fl c"
  by (rule elapsed_fields; simp)+

section \<open>The relation between clock and stopwatch\<close>

definition clock_inv :: "'a float_ops_scheme \<Rightarrow> PerformanceClock \<Rightarrow> stopwatch \<Rightarrow> int \<Rightarrow> bool" where
  "clock_inv fl c sw t \<longleftrightarrow> 0 < ck_speed_ratio c \<and> 0 \<le> t \<and>
     (case ck_started_at_ms c of
        None \<Rightarrow> ck_state c = READY \<and> sw = new_stopwatch \<and> ck_pause_started_at_ms c = None \<and> ck_paused_duration_ms c = 0
      | Some s0 \<Rightarrow> sw_started sw \<and> 0 \<le> s0 \<and>
          (\<exists>P \<ge> 0. ck_paused_duration_ms c = of_int P \<and>
            (if ck_state c = PAUSED
             then sw_since sw = None \<and> 0 \<le> sw_total sw \<and>
               ck_pause_started_at_ms c = Some (s0 + P + sw_total sw) \<and> s0 + P + sw_total sw \<le> t \<and>
               ck_state_before_pause c \<in> {COUNT_IN, RUNNING} \<and>
               (ck_state_before_pause c = RUNNING \<longrightarrow> ck_count_in_ms c \<le> of_int (sw_total sw))
             else ck_state c \<noteq> READY \<and> ck_pause_started_at_ms c = None \<and>
               sw_since sw = Some (s0 + P + sw_total sw) \<and> s0 + P + sw_total sw \<le> t \<and> 0 \<le> sw_total sw \<and>
               (ck_state c \<in> {RUNNING, ENDED} \<longrightarrow> ck_count_in_ms c \<le> of_int (sw_time sw t)) \<and>
               (ck_state c = ENDED \<longrightarrow>
                  scope_duration_ms fl (ck_scope c) \<le> performance_elapsed_ms fl c (of_int (sw_time sw t))))))"

lemma active_elapsed:
  assumes fl: "float_integers fl" and inv: "clock_inv fl c sw t" and t': "t \<le> t'" "t' \<le> 2 ^ 53"
    and started: "ck_started_at_ms c = Some s0"
  shows "active_elapsed_ms fl c t' = of_int (sw_time sw t')" and "0 \<le> sw_time sw t'"
proof -
  obtain P where P: "0 \<le> P" "ck_paused_duration_ms c = of_int P" and s0: "0 \<le> s0"
    and cases: "if ck_state c = PAUSED
      then sw_since sw = None \<and> 0 \<le> sw_total sw \<and>
        ck_pause_started_at_ms c = Some (s0 + P + sw_total sw) \<and> s0 + P + sw_total sw \<le> t
      else ck_pause_started_at_ms c = None \<and> sw_since sw = Some (s0 + P + sw_total sw) \<and>
        s0 + P + sw_total sw \<le> t \<and> 0 \<le> sw_total sw"
    using inv started by (auto simp: clock_inv_def split: if_splits)
  have int: "nearest fl (of_int k) = of_int k" if "0 \<le> k" "k \<le> t'" for k
    using that t'(2) by (intro float_integer [OF fl]) simp_all
  have sub: "fl_sub fl (of_int a) (of_int b) = of_int (a - b)" if "b \<le> a" "a - b \<le> t'" for a b :: int
    using int [of "a - b"] that by (simp add: fl_sub_def)
  show "0 \<le> sw_time sw t'" using cases P t' s0 by (auto simp: sw_time_def split: if_splits)
  show "active_elapsed_ms fl c t' = of_int (sw_time sw t')"
  proof (cases "ck_state c = PAUSED")
    case True
    with cases have pause: "ck_pause_started_at_ms c = Some (s0 + P + sw_total sw)" "sw_since sw = None"
        "0 \<le> sw_total sw" "s0 + P + sw_total sw \<le> t" by auto
    then have "nearest fl (max 0 (of_int (t' - (s0 + P + sw_total sw)))) = of_int (t' - (s0 + P + sw_total sw))"
      using int [of "t' - (s0 + P + sw_total sw)"] t' s0 P by (simp add: max_def)
    moreover have "nearest fl (of_int (t' - s0)) = of_int (t' - s0)" using pause t' s0 P by (intro int) simp_all
    moreover have "fl_sub fl (of_int (t' - s0)) (of_int P) = of_int (t' - s0 - P)" using pause t' s0 P by (intro sub) simp_all
    moreover have "fl_sub fl (of_int (t' - s0 - P)) (of_int (t' - (s0 + P + sw_total sw))) =
        of_int (t' - s0 - P - (t' - (s0 + P + sw_total sw)))" using pause t' s0 P by (intro sub) simp_all
    ultimately show ?thesis using pause P(2) True started by (simp add: active_elapsed_ms_def sw_time_def)
  next
    case False
    with cases have run: "ck_pause_started_at_ms c = None" "sw_since sw = Some (s0 + P + sw_total sw)"
        "0 \<le> sw_total sw" "s0 + P + sw_total sw \<le> t" by auto
    have "nearest fl (of_int (t' - s0)) = of_int (t' - s0)" using run t' s0 P by (intro int) simp_all
    moreover have "fl_sub fl (of_int (t' - s0)) (of_int P) = of_int (t' - s0 - P)" using run t' s0 P by (intro sub) simp_all
    moreover have "fl_sub fl (of_int (t' - s0 - P)) (of_int 0) = of_int (t' - s0 - P - 0)"
      using run t' s0 P by (intro sub) simp_all
    moreover have "nearest fl 0 = 0" using int [of 0] t' s0 P run by simp
    ultimately show ?thesis using run P s0 t' started
      by (simp add: active_elapsed_ms_def sw_time_def)
  qed
qed

lemma state_unchanged: "ck_state c = s \<Longrightarrow> c\<lparr>ck_state := s\<rparr> = c"
  by simp

text \<open>Advancing a clock gives the active time of the stopwatch and puts it into the state of the stopwatch.\<close>

lemma advance_run:
  assumes fl: "float_integers fl" and inv: "clock_inv fl c sw t" and t': "t \<le> t'" "t' \<le> 2 ^ 53"
  shows "advance_to fl t' c = (of_int (sw_time sw t'), c\<lparr>ck_state := stopwatch_state fl c sw t'\<rparr>)"
    and "clock_inv fl (c\<lparr>ck_state := stopwatch_state fl c sw t'\<rparr>) sw t'"
proof -
  have "advance_to fl t' c = (of_int (sw_time sw t'), c\<lparr>ck_state := stopwatch_state fl c sw t'\<rparr>) \<and>
    clock_inv fl (c\<lparr>ck_state := stopwatch_state fl c sw t'\<rparr>) sw t'"
  proof (cases "ck_started_at_ms c")
    case None
    with inv have ready: "ck_state c = READY" "sw = new_stopwatch" by (simp_all add: clock_inv_def)
    then have "stopwatch_state fl c sw t' = READY" "sw_time sw t' = 0"
      by (simp_all add: stopwatch_state_def new_stopwatch_def sw_time_def)
    with None inv ready t' show ?thesis by (simp add: advance_to_def clock_inv_def)
  next
    case (Some s0)
    note active = active_elapsed [OF fl inv t' Some]
    from inv Some obtain P where P: "0 \<le> P" "ck_paused_duration_ms c = of_int P" "0 \<le> s0" "sw_started sw"
        "0 < ck_speed_ratio c" "0 \<le> t"
      and cases: "if ck_state c = PAUSED
        then sw_since sw = None \<and> 0 \<le> sw_total sw \<and> ck_pause_started_at_ms c = Some (s0 + P + sw_total sw) \<and>
          s0 + P + sw_total sw \<le> t \<and> ck_state_before_pause c \<in> {COUNT_IN, RUNNING} \<and>
          (ck_state_before_pause c = RUNNING \<longrightarrow> ck_count_in_ms c \<le> of_int (sw_total sw))
        else ck_state c \<noteq> READY \<and> ck_pause_started_at_ms c = None \<and>
          sw_since sw = Some (s0 + P + sw_total sw) \<and> s0 + P + sw_total sw \<le> t \<and> 0 \<le> sw_total sw \<and>
          (ck_state c \<in> {RUNNING, ENDED} \<longrightarrow> ck_count_in_ms c \<le> of_int (sw_time sw t))"
      by (auto simp: clock_inv_def split: if_splits)
    show ?thesis
    proof (cases "ck_state c = PAUSED")
      case True
      then have "stopwatch_state fl c sw t' = PAUSED" using P cases by (simp add: stopwatch_state_def)
      moreover have "clock_inv fl c sw t'" using inv t' Some True by (auto simp: clock_inv_def)
      ultimately show ?thesis using active True by (simp add: advance_to_def Let_def state_unchanged)
    next
      case False
      with cases have run: "ck_state c \<noteq> READY" "ck_pause_started_at_ms c = None"
          "sw_since sw = Some (s0 + P + sw_total sw)" "s0 + P + sw_total sw \<le> t" "0 \<le> sw_total sw"
          "ck_state c \<in> {RUNNING, ENDED} \<Longrightarrow> ck_count_in_ms c \<le> of_int (sw_time sw t)" by auto
      let ?s = "stopwatch_state fl c sw t'"
      have s: "?s = resolved_active_state fl c (of_int (sw_time sw t'))" "?s \<in> {COUNT_IN, RUNNING, ENDED}"
        using False P run by (simp_all add: stopwatch_state_def resolved_active_state_def)
      have "sw_time sw t \<le> sw_time sw t'" using run t' by (simp add: sw_time_def)
      then have "rat_of_int (sw_time sw t) \<le> of_int (sw_time sw t')" by simp
      then have "ck_state c = COUNT_IN" if "?s = COUNT_IN"
        using that run(1,6) False s(2) by (cases "ck_state c") (auto simp: stopwatch_state_def split: if_splits)
      then have "advance_to fl t' c = (of_int (sw_time sw t'), c\<lparr>ck_state := ?s\<rparr>)"
        using run(1) False s active by (auto simp: advance_to_def Let_def)
      moreover have "clock_inv fl (c\<lparr>ck_state := ?s\<rparr>) sw t'"
        using P run t' Some s(2) by (auto simp: clock_inv_def stopwatch_state_def split: if_splits)
      ultimately show ?thesis by blast
    qed
  qed
  then show "advance_to fl t' c = (of_int (sw_time sw t'), c\<lparr>ck_state := stopwatch_state fl c sw t'\<rparr>)"
    "clock_inv fl (c\<lparr>ck_state := stopwatch_state fl c sw t'\<rparr>) sw t'" by blast+
qed

lemma snapshot_run:
  assumes "float_integers fl" and "clock_inv fl c sw t" and "t \<le> t'" "t' \<le> 2 ^ 53"
  shows "clock_snapshot fl t' c = (stopwatch_snapshot fl c sw t', c\<lparr>ck_state := stopwatch_state fl c sw t'\<rparr>)"
  using advance_run(1) [OF assms] by (simp add: clock_snapshot_def stopwatch_snapshot_def)

section \<open>Calls\<close>

text \<open>What no call changes, and what depends on nothing else.\<close>

definition same_clock :: "PerformanceClock \<Rightarrow> PerformanceClock \<Rightarrow> bool" where
  "same_clock c c' \<longleftrightarrow> ck_timeline c' = ck_timeline c \<and> ck_scope c' = ck_scope c \<and>
     ck_speed_ratio c' = ck_speed_ratio c \<and> ck_count_in_pulses c' = ck_count_in_pulses c \<and>
     ck_count_in_ms c' = ck_count_in_ms c"

lemma same_clock_refl [simp]: "same_clock c c" by (simp add: same_clock_def)

lemma same_clock_trans: "same_clock a b \<Longrightarrow> same_clock b c \<Longrightarrow> same_clock a c" by (simp add: same_clock_def)

lemma same_clock_elapsed: "same_clock c c' \<Longrightarrow> performance_elapsed_ms fl c' = performance_elapsed_ms fl c"
  by (rule elapsed_fields) (simp_all add: same_clock_def)

lemma same_clock_state:
  assumes "same_clock c c'"
  shows "stopwatch_state fl c' sw t = stopwatch_state fl c sw t"
proof -
  have e: "performance_elapsed_ms fl c' = performance_elapsed_ms fl c" by (rule same_clock_elapsed [OF assms])
  have f: "ck_scope c' = ck_scope c" "ck_count_in_ms c' = ck_count_in_ms c" using assms by (simp_all add: same_clock_def)
  show ?thesis by (simp add: stopwatch_state_def e f)
qed

lemma same_clock_snapshot:
  assumes "same_clock c c'"
  shows "stopwatch_snapshot fl c' = stopwatch_snapshot fl c"
proof (intro ext)
  fix sw t
  have e: "performance_elapsed_ms fl c' = performance_elapsed_ms fl c" by (rule same_clock_elapsed [OF assms])
  have s: "stopwatch_state fl c' sw t = stopwatch_state fl c sw t" by (simp add: same_clock_state [OF assms])
  have f: "ck_timeline c' = ck_timeline c" "ck_scope c' = ck_scope c" "ck_count_in_pulses c' = ck_count_in_pulses c"
      "ck_count_in_ms c' = ck_count_in_ms c" using assms by (simp_all add: same_clock_def)
  show "stopwatch_snapshot fl c' sw t = stopwatch_snapshot fl c sw t"
    by (simp add: stopwatch_snapshot_def snapshot_of_def e s f musical_beat_def count_in_remaining_ms_def
        count_in_remaining_pulses_def Let_def)
qed

lemma start_run:
  assumes fl: "float_integers fl" and inv: "clock_inv fl c sw t" and t': "t \<le> t'" "t' \<le> 2 ^ 53"
  shows "if sw_started sw then \<exists>e. clock_start fl t' c = (Inl e, c)
    else \<exists>c'. clock_start fl t' c = (Inr (stopwatch_snapshot fl c (sw_start t' sw) t'), c') \<and>
      clock_inv fl c' (sw_start t' sw) t' \<and> same_clock c c'"
proof (cases "sw_started sw")
  case True
  then have "ck_state c \<noteq> READY" using inv
    by (auto simp: clock_inv_def new_stopwatch_def split: option.splits if_splits)
  then show ?thesis using True by (simp add: clock_start_def)
next
  case False
  with inv have c: "ck_started_at_ms c = None" "ck_state c = READY" "sw = new_stopwatch"
      "ck_pause_started_at_ms c = None" "ck_paused_duration_ms c = 0" "0 < ck_speed_ratio c" "0 \<le> t"
    by (auto simp: clock_inv_def split: option.splits)
  define c1 where "c1 = c\<lparr>ck_started_at_ms := Some t',
    ck_state := (if ck_count_in_ms c > 0 then COUNT_IN else RUNNING)\<rparr>"
  have same: "same_clock c c1" by (simp add: same_clock_def c1_def)
  have "clock_inv fl c1 (sw_start t' sw) t'"
    using c t' by (auto simp: clock_inv_def c1_def sw_start_def new_stopwatch_def sw_time_def intro!: exI [of _ "0 :: int"])
  from snapshot_run [OF fl this order.refl t'(2)] advance_run(2) [OF fl this order.refl t'(2)]
  show ?thesis using False c(2) same
    by (simp add: clock_start_def Let_def c1_def [symmetric] same_clock_snapshot [OF same])
      (simp add: same_clock_def)
qed

lemma pause_run:
  assumes fl: "float_integers fl" and inv: "clock_inv fl c sw t" and t': "t \<le> t'" "t' \<le> 2 ^ 53"
  shows "if stopwatch_state fl c sw t' \<in> {COUNT_IN, RUNNING}
    then \<exists>c'. clock_pause fl t' c = (Inr (stopwatch_snapshot fl c (sw_pause t' sw) t'), c') \<and>
      clock_inv fl c' (sw_pause t' sw) t' \<and> same_clock c c'
    else \<exists>e. clock_pause fl t' c = (Inl e, c\<lparr>ck_state := stopwatch_state fl c sw t'\<rparr>)"
proof (cases "stopwatch_state fl c sw t' \<in> {COUNT_IN, RUNNING}")
  case False
  then show ?thesis by (simp add: clock_pause_def advance_run(1) [OF fl inv t'])
next
  case True
  let ?s = "stopwatch_state fl c sw t'"
  define c1 where "c1 = c\<lparr>ck_state := ?s\<rparr>"
  define c2 where "c2 = c1\<lparr>ck_state_before_pause := ?s, ck_state := PAUSED, ck_pause_started_at_ms := Some t'\<rparr>"
  have same: "same_clock c c2" by (simp add: same_clock_def c2_def c1_def)
  have inv1: "clock_inv fl c1 sw t'" unfolding c1_def by (rule advance_run(2) [OF fl inv t'])
  have s1: "ck_state c1 = ?s" by (simp add: c1_def)
  have "sw_started sw" "sw_since sw \<noteq> None" using True by (auto simp: stopwatch_state_def split: if_splits)
  with inv1 obtain s0 P where c1: "ck_started_at_ms c1 = Some s0" "0 \<le> s0" "0 \<le> P" "ck_paused_duration_ms c1 = of_int P"
      "sw_since sw = Some (s0 + P + sw_total sw)" "s0 + P + sw_total sw \<le> t'" "0 \<le> sw_total sw" "0 < ck_speed_ratio c1"
      "?s = RUNNING \<longrightarrow> ck_count_in_ms c1 \<le> of_int (sw_time sw t')" "0 \<le> t'"
    using True s1 by (auto simp: clock_inv_def new_stopwatch_def split: option.splits if_splits)
  have time: "sw_time sw t' = t' - s0 - P" using c1(5) by (simp add: sw_time_def)
  have "clock_inv fl c2 (sw_pause t' sw) t'"
    using True c1 time \<open>sw_started sw\<close>
    by (auto simp: clock_inv_def c2_def sw_pause_def c1_def intro!: exI [of _ P])
  from snapshot_run [OF fl this order.refl t'(2)] advance_run(2) [OF fl this order.refl t'(2)]
  show ?thesis using True same s1
    by (simp add: clock_pause_def advance_run(1) [OF fl inv t'] c1_def [symmetric] Let_def)
      (simp add: c2_def [symmetric] same_clock_snapshot [OF same] same_clock_def)
qed

lemma resume_run:
  assumes fl: "float_integers fl" and inv: "clock_inv fl c sw t" and t': "t \<le> t'" "t' \<le> 2 ^ 53"
  shows "if sw_started sw \<and> sw_since sw = None
    then \<exists>c'. clock_resume fl t' c = (Inr (stopwatch_snapshot fl c (sw_start t' sw) t'), c') \<and>
      clock_inv fl c' (sw_start t' sw) t' \<and> same_clock c c'
    else \<exists>e. clock_resume fl t' c = (Inl e, c)"
proof (cases "sw_started sw \<and> sw_since sw = None")
  case False
  then show ?thesis using inv
    by (auto simp: clock_inv_def clock_resume_def new_stopwatch_def split: option.splits if_splits)
next
  case True
  with inv obtain s0 P where c: "ck_started_at_ms c = Some s0" "0 \<le> s0" "0 \<le> P" "ck_paused_duration_ms c = of_int P"
      "ck_state c = PAUSED" "0 \<le> sw_total sw" "ck_pause_started_at_ms c = Some (s0 + P + sw_total sw)"
      "s0 + P + sw_total sw \<le> t" "ck_state_before_pause c \<in> {COUNT_IN, RUNNING}"
      "ck_state_before_pause c = RUNNING \<longrightarrow> ck_count_in_ms c \<le> of_int (sw_total sw)" "0 < ck_speed_ratio c" "0 \<le> t"
    by (auto simp: clock_inv_def new_stopwatch_def split: option.splits if_splits)
  let ?q = "t' - (s0 + P + sw_total sw)"
  have q: "0 \<le> ?q" "P + ?q \<le> 2 ^ 53" using c t' by simp_all
  have "fl_add fl (of_int P) (nearest fl (max 0 (of_int ?q))) = nearest fl (of_int P + nearest fl (of_int ?q))"
    using q by (simp add: fl_add_def max_def)
  also have "\<dots> = nearest fl (of_int (P + ?q))" using float_integer [OF fl q(1)] q c(3) by simp
  also have "\<dots> = of_int (P + ?q)" using q c(3) by (intro float_integer [OF fl]) simp_all
  finally have dur: "fl_add fl (of_int P) (nearest fl (max 0 (of_int ?q))) = of_int (P + ?q)" .
  define c1 where "c1 = c\<lparr>ck_paused_duration_ms := fl_add fl (of_int P) (nearest fl (max 0 (of_int ?q))),
    ck_pause_started_at_ms := None, ck_state := ck_state_before_pause c\<rparr>"
  have same: "same_clock c c1" by (simp add: same_clock_def c1_def)
  have "clock_inv fl c1 (sw_start t' sw) t'"
    using c t' q unfolding c1_def dur
    by (auto simp: clock_inv_def sw_start_def sw_time_def intro!: exI [of _ "P + ?q"])
  from snapshot_run [OF fl this order.refl t'(2)] advance_run(2) [OF fl this order.refl t'(2)]
  have inv1: "clock_inv fl (c1\<lparr>ck_state := stopwatch_state fl c1 (sw_start t' sw) t'\<rparr>) (sw_start t' sw) t'"
    and snap: "clock_snapshot fl t' c1 = (stopwatch_snapshot fl c1 (sw_start t' sw) t',
      c1\<lparr>ck_state := stopwatch_state fl c1 (sw_start t' sw) t'\<rparr>)" by simp_all
  have "clock_resume fl t' c = (let (snapshot, c2) = clock_snapshot fl t' c1 in (Inr snapshot, c2))"
    using c by (simp add: clock_resume_def c1_def Let_def)
  then have "clock_resume fl t' c = (Inr (stopwatch_snapshot fl c (sw_start t' sw) t'),
      c1\<lparr>ck_state := stopwatch_state fl c1 (sw_start t' sw) t'\<rparr>)"
    by (simp add: snap same_clock_snapshot [OF same])
  moreover have "same_clock c (c1\<lparr>ck_state := stopwatch_state fl c1 (sw_start t' sw) t'\<rparr>)"
    using same by (simp add: same_clock_def)
  ultimately show ?thesis using True inv1 by auto
qed

section \<open>Runs\<close>

text \<open>Calls on a clock at times that do not go back, with the stopwatch beside it. A call that is refused leaves the
  stopwatch alone.\<close>

inductive clock_run :: "'a float_ops_scheme \<Rightarrow> PerformanceClock \<Rightarrow> stopwatch \<Rightarrow> int \<Rightarrow> PerformanceClock \<Rightarrow> stopwatch \<Rightarrow> int \<Rightarrow> bool"
  for fl c0 sw0 t0 where
  Begin: "clock_run fl c0 sw0 t0 c0 sw0 t0"
| Look: "clock_run fl c0 sw0 t0 c sw t \<Longrightarrow> t \<le> t' \<Longrightarrow> t' \<le> 2 ^ 53 \<Longrightarrow>
    clock_run fl c0 sw0 t0 (snd (clock_snapshot fl t' c)) sw t'"
| Start: "clock_run fl c0 sw0 t0 c sw t \<Longrightarrow> t \<le> t' \<Longrightarrow> t' \<le> 2 ^ 53 \<Longrightarrow> clock_start fl t' c = (r, c') \<Longrightarrow>
    clock_run fl c0 sw0 t0 c' (case r of Inl _ \<Rightarrow> sw | Inr _ \<Rightarrow> sw_start t' sw) t'"
| Pause: "clock_run fl c0 sw0 t0 c sw t \<Longrightarrow> t \<le> t' \<Longrightarrow> t' \<le> 2 ^ 53 \<Longrightarrow> clock_pause fl t' c = (r, c') \<Longrightarrow>
    clock_run fl c0 sw0 t0 c' (case r of Inl _ \<Rightarrow> sw | Inr _ \<Rightarrow> sw_pause t' sw) t'"
| Resume: "clock_run fl c0 sw0 t0 c sw t \<Longrightarrow> t \<le> t' \<Longrightarrow> t' \<le> 2 ^ 53 \<Longrightarrow> clock_resume fl t' c = (r, c') \<Longrightarrow>
    clock_run fl c0 sw0 t0 c' (case r of Inl _ \<Rightarrow> sw | Inr _ \<Rightarrow> sw_start t' sw) t'"

definition clock_ok :: "'a float_ops_scheme \<Rightarrow> PerformanceClock \<Rightarrow> PerformanceClock \<Rightarrow> stopwatch \<Rightarrow> int \<Rightarrow> bool" where
  "clock_ok fl c0 c sw t \<longleftrightarrow> clock_inv fl c sw t \<and> same_clock c0 c"

lemma sw_time_step: "t \<le> t' \<Longrightarrow> sw_time sw t \<le> sw_time sw t'"
  by (auto simp: sw_time_def split: option.split)

lemma clock_inv_later:
  assumes fl: "float_integers fl" and inv: "clock_inv fl c sw t" and t': "t \<le> t'"
  shows "clock_inv fl c sw t'"
proof -
  have le: "rat_of_int (sw_time sw t) \<le> of_int (sw_time sw t')" using sw_time_step [OF t'] by simp
  moreover have "performance_elapsed_ms fl c (of_int (sw_time sw t)) \<le> performance_elapsed_ms fl c (of_int (sw_time sw t'))"
    using inv by (intro elapsed_mono [OF fl _ le]) (simp add: clock_inv_def)
  ultimately have up: "ck_count_in_ms c \<le> of_int (sw_time sw t) \<Longrightarrow> ck_count_in_ms c \<le> of_int (sw_time sw t')"
      "d \<le> performance_elapsed_ms fl c (of_int (sw_time sw t)) \<Longrightarrow>
        d \<le> performance_elapsed_ms fl c (of_int (sw_time sw t'))" for d
    by (blast intro: order.trans)+
  show ?thesis
  proof (cases "ck_started_at_ms c")
    case None
    with inv t' show ?thesis by (simp add: clock_inv_def)
  next
    case (Some s0)
    have later: "s \<le> t \<Longrightarrow> s \<le> t'" for s using t' by simp
    show ?thesis
    proof (cases "ck_state c = PAUSED")
      case True
      with inv Some later show ?thesis by (fastforce simp: clock_inv_def)
    next
      case False
      with inv Some show ?thesis using later up by (simp add: clock_inv_def) blast
    qed
  qed
qed

lemma ended_later:
  assumes fl: "float_integers fl" and "0 < ck_speed_ratio c" and t': "t \<le> t'" and "stopwatch_state fl c sw t = ENDED"
  shows "stopwatch_state fl c sw t' = ENDED"
proof -
  have le: "rat_of_int (sw_time sw t) \<le> of_int (sw_time sw t')" using sw_time_step [OF t'] by simp
  with elapsed_mono [OF fl assms(2) le] assms(4) show ?thesis by (auto simp: stopwatch_state_def split: if_splits)
qed

lemma sw_time_pause [simp]: "sw_time (sw_pause t sw) t = sw_time sw t"
  by (simp add: sw_pause_def sw_time_def)

lemma sw_time_start: "sw_since sw = None \<Longrightarrow> sw_time (sw_start t sw) t = sw_time sw t"
  by (simp add: sw_start_def sw_time_def)

lemma never_started: "clock_inv fl c sw t \<Longrightarrow> \<not> sw_started sw \<Longrightarrow> sw_since sw = None"
  by (auto simp: clock_inv_def new_stopwatch_def split: option.splits if_splits)

lemma clock_run_ok:
  assumes fl: "float_integers fl" and run: "clock_run fl c0 sw0 t0 c sw t" and inv: "clock_inv fl c0 sw0 t0"
  shows "clock_ok fl c0 c sw t \<and> sw_time sw0 t0 \<le> sw_time sw t \<and> t0 \<le> t"
  using run
proof (induction rule: clock_run.induct)
  case Begin
  then show ?case using inv by (simp add: clock_ok_def)
next
  case (Look c sw t t')
  then have c: "clock_inv fl c sw t" "same_clock c0 c" by (simp_all add: clock_ok_def)
  have "same_clock c (c\<lparr>ck_state := stopwatch_state fl c sw t'\<rparr>)" by (simp add: same_clock_def)
  with Look c same_clock_trans show ?case
    using sw_time_step [of t t' sw] advance_run(2) [OF fl c(1) Look.hyps(2,3)]
    by (auto simp: clock_ok_def snapshot_run [OF fl c(1) Look.hyps(2,3)])
next
  case (Start c sw t t' r c')
  then have c: "clock_inv fl c sw t" "same_clock c0 c" by (simp_all add: clock_ok_def)
  show ?case
  proof (cases "sw_started sw")
    case True
    with start_run [OF fl c(1) Start.hyps(2,3)] Start.hyps(4) obtain e where e: "r = Inl e" "c' = c" by auto
    have "clock_inv fl c sw t'" by (rule clock_inv_later [OF fl c(1) Start.hyps(2)])
    with e c Start sw_time_step [of t t' sw] show ?thesis by (auto simp: clock_ok_def)
  next
    case False
    with start_run [OF fl c(1) Start.hyps(2,3)] Start.hyps(4) obtain s where
      "r = Inr s" "clock_inv fl c' (sw_start t' sw) t'" "same_clock c c'" by auto
    with Start c same_clock_trans sw_time_start [OF never_started [OF c(1) False], of t'] sw_time_step [of t t' sw]
    show ?thesis by (auto simp: clock_ok_def)
  qed
next
  case (Pause c sw t t' r c')
  then have c: "clock_inv fl c sw t" "same_clock c0 c" by (simp_all add: clock_ok_def)
  have upd: "same_clock c (c\<lparr>ck_state := s\<rparr>)" for s by (simp add: same_clock_def)
  show ?case
  proof (cases "stopwatch_state fl c sw t' \<in> {COUNT_IN, RUNNING}")
    case True
    with pause_run [OF fl c(1) Pause.hyps(2,3)] Pause.hyps(4) obtain s where
      "r = Inr s" "clock_inv fl c' (sw_pause t' sw) t'" "same_clock c c'" by auto
    with Pause c same_clock_trans sw_time_step [of t t' sw] show ?thesis by (auto simp: clock_ok_def)
  next
    case False
    with pause_run [OF fl c(1) Pause.hyps(2,3)] Pause.hyps(4) obtain e where
      "r = Inl e" "c' = c\<lparr>ck_state := stopwatch_state fl c sw t'\<rparr>" by auto
    with Pause c upd same_clock_trans sw_time_step [of t t' sw] advance_run(2) [OF fl c(1) Pause.hyps(2,3)]
    show ?thesis by (auto simp: clock_ok_def)
  qed
next
  case (Resume c sw t t' r c')
  then have c: "clock_inv fl c sw t" "same_clock c0 c" by (simp_all add: clock_ok_def)
  show ?case
  proof (cases "sw_started sw \<and> sw_since sw = None")
    case True
    with resume_run [OF fl c(1) Resume.hyps(2,3)] Resume.hyps(4) obtain s where
      "r = Inr s" "clock_inv fl c' (sw_start t' sw) t'" "same_clock c c'" by auto
    with True Resume c same_clock_trans sw_time_start [of sw t'] sw_time_step [of t t' sw]
    show ?thesis by (auto simp: clock_ok_def)
  next
    case False
    with resume_run [OF fl c(1) Resume.hyps(2,3)] Resume.hyps(4) obtain e where "r = Inl e" "c' = c" by auto
    with c Resume clock_inv_later [OF fl c(1) Resume.hyps(2)] sw_time_step [of t t' sw]
    show ?thesis by (auto simp: clock_ok_def)
  qed
qed

lemma new_clock_ok:
  assumes "new_performance_clock fl pl scope speed beats pulses = Inr c" and "0 \<le> t"
  shows "clock_inv fl c new_stopwatch t"
  using assms by (auto simp: new_performance_clock_def clock_inv_def split: if_splits)

text \<open>A scope that has ended stays so: the clock cannot be paused or started any more.\<close>

lemma clock_run_ended:
  assumes fl: "float_integers fl" and run: "clock_run fl c0 sw0 t0 c sw t" and inv: "clock_inv fl c0 sw0 t0"
    and ended: "stopwatch_state fl c0 sw0 t0 = ENDED"
  shows "stopwatch_state fl c0 sw t = ENDED"
proof -
  have speed: "0 < ck_speed_ratio c0" using inv by (simp add: clock_inv_def)
  have ok: "clock_inv fl c sw t \<and> (\<forall>t'. stopwatch_state fl c sw t' = stopwatch_state fl c0 sw t')"
    if "clock_run fl c0 sw0 t0 c sw t" for c sw t
    using clock_run_ok [OF fl that inv] same_clock_state by (auto simp: clock_ok_def)
  have flags: "sw_started sw \<and> sw_since sw \<noteq> None" if "stopwatch_state fl c0 sw t = ENDED" for sw t
    using that by (auto simp: stopwatch_state_def split: if_splits)
  from run show ?thesis
  proof (induction rule: clock_run.induct)
    case Begin
    then show ?case by (rule ended)
  next
    case (Look c sw t t')
    then show ?case using ended_later [OF fl speed] by blast
  next
    case (Start c sw t t' r c')
    then obtain e where "r = Inl e"
      using start_run [OF fl conjunct1 [OF ok [OF Start.hyps(1)]] Start.hyps(2,3)] flags by auto
    with Start show ?case using ended_later [OF fl speed] by auto
  next
    case (Pause c sw t t' r c')
    then have "stopwatch_state fl c0 sw t' = ENDED" using ended_later [OF fl speed] by blast
    moreover from this obtain e where "r = Inl e"
      using pause_run [OF fl conjunct1 [OF ok [OF Pause.hyps(1)]] Pause.hyps(2,3)] ok [OF Pause.hyps(1)] Pause.hyps(4)
      by auto
    ultimately show ?case by simp
  next
    case (Resume c sw t t' r c')
    then obtain e where "r = Inl e"
      using resume_run [OF fl conjunct1 [OF ok [OF Resume.hyps(1)]] Resume.hyps(2,3)] flags by auto
    with Resume show ?case using ended_later [OF fl speed] by auto
  qed
qed

section \<open>Properties\<close>

definition demo_clock :: PerformanceClock where
  "demo_clock = \<lparr>ck_timeline = \<lparr>pl_end_beat = 4, pl_segments =
       [\<lparr>sg_start_beat = 0, sg_end_beat = 4, sg_start_time_ms = 0, sg_bpm = 120\<rparr>]\<rparr>,
     ck_scope = \<lparr>sc_start_group_id = None, sc_end_group_id = None, sc_start_beat = 0, sc_terminal_beat = 4,
       sc_nominal_start_time_ms = 0, sc_nominal_end_time_ms = 2000\<rparr>,
     ck_speed_ratio = 1, ck_count_in_pulses = 2, ck_count_in_ms = 1000, ck_state = READY, ck_started_at_ms = None,
     ck_pause_started_at_ms = None, ck_paused_duration_ms = 0, ck_state_before_pause = READY\<rparr>"

definition exact_floats :: float_ops where
  "exact_floats = \<lparr>nearest = (\<lambda>x. x), float_repr = (\<lambda>_. []), float_sqrt = (\<lambda>x. x),
     float_half_power = (\<lambda>x. x), float_sum = sum_list\<rparr>"

lemma exact_float_integers: "float_integers exact_floats"
  by (simp add: float_integers_def exact_floats_def mono_def)

lemma demo_clock_new:
  "new_performance_clock exact_floats (ck_timeline demo_clock) (ck_scope demo_clock) 1 2 2 = Inr demo_clock"
  by (simp add: new_performance_clock_def demo_clock_def count_in_duration_ms_def bpm_at_beat_def segment_for_beat_def
      fl_div_def fl_mul_def exact_floats_def)

text \<open>C27. The clock of a performance is a stopwatch. After any calls on a new clock, at times that never go back and
  that a float holds exactly, however the calls were answered: what the clock shows at a later time is the snapshot
  that belongs to the time that was not paused; it starts once, pauses exactly while it counts in or runs, resumes
  exactly when paused, shows the same snapshot at once, and refuses otherwise. Pausing, even often, loses no time and
  adds none.\<close>

theorem clock_is_stopwatch:
  assumes new: "new_performance_clock fl pl scope speed beats pulses = Inr c0"
    and run: "clock_run fl c0 new_stopwatch 0 c sw t"
    and floats: "float_integers fl" and later: "t \<le> t'" "t' \<le> 2 ^ 53"
  shows "fst (clock_snapshot fl t' c) = stopwatch_snapshot fl c0 sw t' \<and>
    (if sw_started sw then \<exists>e. fst (clock_start fl t' c) = Inl e
     else fst (clock_start fl t' c) = Inr (stopwatch_snapshot fl c0 (sw_start t' sw) t')) \<and>
    (if stopwatch_state fl c0 sw t' \<in> {COUNT_IN, RUNNING}
     then fst (clock_pause fl t' c) = Inr (stopwatch_snapshot fl c0 (sw_pause t' sw) t')
     else \<exists>e. fst (clock_pause fl t' c) = Inl e) \<and>
    (if sw_started sw \<and> sw_since sw = None
     then fst (clock_resume fl t' c) = Inr (stopwatch_snapshot fl c0 (sw_start t' sw) t')
     else \<exists>e. fst (clock_resume fl t' c) = Inl e)"
proof -
  have "clock_inv fl c0 new_stopwatch 0" by (rule new_clock_ok [OF new]) simp
  from clock_run_ok [OF floats run this] have inv: "clock_inv fl c sw t" and same: "same_clock c0 c"
    by (simp_all add: clock_ok_def)
  note eqs = same_clock_snapshot [OF same] same_clock_state [OF same]
  show ?thesis
    using snapshot_run [OF floats inv later] start_run [OF floats inv later] pause_run [OF floats inv later]
      resume_run [OF floats inv later]
    by (auto simp: eqs split: if_splits)
qed

theorem clock_is_stopwatch_witness:
  "fst (clock_start exact_floats 5 demo_clock) =
     Inr (stopwatch_snapshot exact_floats demo_clock (sw_start 5 new_stopwatch) 5)"
  using clock_is_stopwatch [OF demo_clock_new Begin exact_float_integers, of 5] by (simp add: new_stopwatch_def)

lemma snapshot_fields [simp]:
  "cn_performance_elapsed_ms (stopwatch_snapshot fl c sw t) = performance_elapsed_ms fl c (of_int (sw_time sw t))"
  "cn_scope_completed (stopwatch_snapshot fl c sw t) = (stopwatch_state fl c sw t = ENDED)"
  "cn_state (stopwatch_snapshot fl c sw t) = stopwatch_state fl c sw t"
  by (simp_all add: stopwatch_snapshot_def snapshot_of_def Let_def)

lemma paused_snapshot: "sw_since sw = None \<Longrightarrow>
    stopwatch_snapshot fl c sw t' = (stopwatch_snapshot fl c sw t)\<lparr>cn_now_ms := t'\<rparr>"
  by (simp add: stopwatch_snapshot_def snapshot_of_def stopwatch_state_def sw_time_def Let_def)

text \<open>A performance does not go back and does not pass its end. Between any two looks at a clock, with any calls at
  times that do not go back in between, the time performed does not decrease and stays within the scope; a scope that
  was completed stays completed; and while a clock is paused it shows the same time and beat whenever one looks.\<close>

theorem clock_never_goes_back:
  assumes new: "new_performance_clock fl pl scope speed beats pulses = Inr c0"
    and run: "clock_run fl c0 new_stopwatch 0 c1 sw1 t1" "clock_run fl c1 sw1 t1 c2 sw2 t2"
    and floats: "float_integers fl" and last: "t2 \<le> 2 ^ 53"
  shows "cn_performance_elapsed_ms (fst (clock_snapshot fl t1 c1)) \<le> cn_performance_elapsed_ms (fst (clock_snapshot fl t2 c2)) \<and>
    cn_performance_elapsed_ms (fst (clock_snapshot fl t2 c2)) \<le> scope_duration_ms fl scope \<and>
    (cn_scope_completed (fst (clock_snapshot fl t1 c1)) \<longrightarrow> cn_scope_completed (fst (clock_snapshot fl t2 c2))) \<and>
    (cn_state (fst (clock_snapshot fl t1 c1)) = PAUSED \<longrightarrow>
       (\<forall>t \<in> {t1..2 ^ 53}. fst (clock_snapshot fl t c1) = (fst (clock_snapshot fl t1 c1))\<lparr>cn_now_ms := t\<rparr>))"
proof -
  have inv0: "clock_inv fl c0 new_stopwatch 0" by (rule new_clock_ok [OF new]) simp
  have inv1: "clock_inv fl c1 sw1 t1" and same1: "same_clock c0 c1"
    using clock_run_ok [OF floats run(1) inv0] by (simp_all add: clock_ok_def)
  have inv2: "clock_inv fl c2 sw2 t2" and same2: "same_clock c1 c2" and time: "sw_time sw1 t1 \<le> sw_time sw2 t2"
      and le: "t1 \<le> t2"
    using clock_run_ok [OF floats run(2) inv1] by (simp_all add: clock_ok_def)
  have t1: "t1 \<le> 2 ^ 53" using le last by simp
  have look1: "fst (clock_snapshot fl t c1) = stopwatch_snapshot fl c1 sw1 t" if "t \<in> {t1..2 ^ 53}" for t
    using snapshot_run [OF floats inv1, of t] that by simp
  have look2: "fst (clock_snapshot fl t2 c2) = stopwatch_snapshot fl c1 sw2 t2"
    using snapshot_run [OF floats inv2 order.refl last] by (simp add: same_clock_snapshot [OF same2])
  have "rat_of_int (sw_time sw1 t1) \<le> of_int (sw_time sw2 t2)" using time by simp
  then have "performance_elapsed_ms fl c1 (of_int (sw_time sw1 t1)) \<le> performance_elapsed_ms fl c1 (of_int (sw_time sw2 t2))"
    using inv1 by (intro elapsed_mono [OF floats]) (simp_all add: clock_inv_def)
  then have mono: "cn_performance_elapsed_ms (fst (clock_snapshot fl t1 c1)) \<le>
      cn_performance_elapsed_ms (fst (clock_snapshot fl t2 c2))" using look1 [of t1] t1 by (simp add: look2)
  have "ck_scope c1 = scope"
    using new same1 by (auto simp: same_clock_def new_performance_clock_def split: if_splits)
  then have bound: "cn_performance_elapsed_ms (fst (clock_snapshot fl t2 c2)) \<le> scope_duration_ms fl scope"
    by (simp add: look2 performance_elapsed_ms_def)
  have paused: "sw_since sw1 = None" if "stopwatch_state fl c1 sw1 t1 = PAUSED"
    using that by (auto simp: stopwatch_state_def split: if_splits)
  have state1: "cn_state (fst (clock_snapshot fl t1 c1)) = stopwatch_state fl c1 sw1 t1"
    using look1 [of t1] t1 by simp
  have "fst (clock_snapshot fl t c1) = (fst (clock_snapshot fl t1 c1))\<lparr>cn_now_ms := t\<rparr>"
    if "cn_state (fst (clock_snapshot fl t1 c1)) = PAUSED" "t \<in> {t1..2 ^ 53}" for t
    using look1 [OF that(2)] look1 [of t1] t1 paused_snapshot [OF paused, of fl c1 t] that(1) state1 by simp
  moreover have "cn_scope_completed (fst (clock_snapshot fl t2 c2))" if "cn_scope_completed (fst (clock_snapshot fl t1 c1))"
    using clock_run_ended [OF floats run(2) inv1] that look1 [of t1] t1 by (simp add: look2)
  ultimately show ?thesis using mono bound by blast
qed

lemma demo_looked: "clock_run exact_floats demo_clock new_stopwatch 0
    (snd (clock_snapshot exact_floats 7 demo_clock)) new_stopwatch 7"
  by (rule Look [OF Begin]) simp_all

theorem clock_never_goes_back_witness:
  "cn_performance_elapsed_ms
     (fst (clock_snapshot exact_floats 7 (snd (clock_snapshot exact_floats 7 demo_clock)))) \<le>
     scope_duration_ms exact_floats (ck_scope demo_clock)"
  using clock_never_goes_back [OF demo_clock_new demo_looked Begin exact_float_integers] by simp

end
