(* ===== verification/Performance_Time.thy ===== *)
theory Performance_Time
  imports Performance_Clock_Run
begin

text \<open>
  The two axes of a performance timeline: its segments tile the beats from 0 to the end without a gap, in beats and
  in milliseconds, so the time of a beat never decreases along the score and stays within the duration of the piece.
\<close>

section \<open>Rounding\<close>

text \<open>What is used of floats: rounding is monotone, a float and a decimal that was rounded are not rounded again, and
  integers up to 2 to the power of 53 are floats.\<close>

definition float_rounding :: "'a float_ops_scheme \<Rightarrow> bool" where
  "float_rounding fl \<longleftrightarrow> float_integers fl \<and> (\<forall>x. nearest fl (nearest fl x) = nearest fl x) \<and>
     (\<forall>x. round_beat fl (round_beat fl x) = round_beat fl x)"

lemma exact_float_rounding: "float_rounding exact_floats"
proof -
  have "round_half_even (of_int k) = k" for k :: int by (simp add: round_half_even_def Let_def)
  then show ?thesis using exact_float_integers
    by (simp add: float_rounding_def round_beat_def py_round_def exact_floats_def)
qed

lemma near_mono: "float_rounding fl \<Longrightarrow> x \<le> y \<Longrightarrow> nearest fl x \<le> nearest fl y"
  by (simp add: float_rounding_def float_integers_def monoD)

lemma near_zero: "float_rounding fl \<Longrightarrow> nearest fl 0 = 0"
  using float_integer [of fl 0] by (simp add: float_rounding_def)

lemma near_int: "float_rounding fl \<Longrightarrow> 0 \<le> k \<Longrightarrow> k \<le> 2 ^ 53 \<Longrightarrow> nearest fl (of_int k) = of_int k"
  by (simp add: float_rounding_def float_integer)

lemma near_nonneg: "float_rounding fl \<Longrightarrow> 0 \<le> x \<Longrightarrow> 0 \<le> nearest fl x"
  using near_mono [of fl 0 x] near_zero [of fl] by simp

lemma round_beat_mono: "float_rounding fl \<Longrightarrow> x \<le> y \<Longrightarrow> round_beat fl x \<le> round_beat fl y"
  unfolding round_beat_def py_round_def by (intro near_mono divide_right_mono) (auto intro!: round_half_even_mono)

lemma round_beat_zero: "float_rounding fl \<Longrightarrow> round_beat fl 0 = 0"
  using near_zero [of fl] by (simp add: round_beat_def py_round_def round_half_even_def Let_def)

lemma round_beat_idem: "float_rounding fl \<Longrightarrow> round_beat fl (round_beat fl x) = round_beat fl x"
  by (simp add: float_rounding_def)

text \<open>Durations are non-negative and monotone; adding one never goes below the start.\<close>

lemma beats_to_ms_mono:
  assumes fl: "float_rounding fl" and "0 < bpm" and "x \<le> y"
  shows "beats_to_ms fl x bpm \<le> beats_to_ms fl y bpm"
  unfolding beats_to_ms_def fl_div_def fl_mul_def
  using assms(2,3) by (intro near_mono [OF fl] divide_right_mono mult_right_mono) simp_all

lemma beats_to_ms_nonneg: "float_rounding fl \<Longrightarrow> 0 < bpm \<Longrightarrow> 0 \<le> x \<Longrightarrow> 0 \<le> beats_to_ms fl x bpm"
  using beats_to_ms_mono [of fl bpm 0 x] near_zero [of fl] by (simp add: beats_to_ms_def fl_div_def fl_mul_def)

text \<open>The time of a beat in a segment.\<close>

definition time_in :: "'a float_ops_scheme \<Rightarrow> PerformanceTimelineSegment \<Rightarrow> rat \<Rightarrow> rat" where
  "time_in fl s beat = fl_add fl (sg_start_time_ms s) (beats_to_ms fl (fl_sub fl beat (sg_start_beat s)) (sg_bpm s))"

lemma end_time_in: "end_time_ms fl s = time_in fl s (sg_end_beat s)"
  by (simp add: end_time_ms_def time_in_def)

lemma time_in_mono: "float_rounding fl \<Longrightarrow> 0 < sg_bpm s \<Longrightarrow> a \<le> b \<Longrightarrow> time_in fl s a \<le> time_in fl s b"
  unfolding time_in_def fl_add_def fl_sub_def
  by (intro near_mono add_left_mono beats_to_ms_mono) simp_all

lemma time_in_start:
  assumes "float_rounding fl" and "0 < sg_bpm s" and "sg_start_beat s \<le> b"
    and "nearest fl (sg_start_time_ms s) = sg_start_time_ms s"
  shows "sg_start_time_ms s \<le> time_in fl s b"
proof -
  have "0 \<le> beats_to_ms fl (fl_sub fl b (sg_start_beat s)) (sg_bpm s)"
    using assms by (intro beats_to_ms_nonneg) (simp_all add: fl_sub_def near_nonneg)
  then have "nearest fl (sg_start_time_ms s) \<le> time_in fl s b"
    unfolding time_in_def fl_add_def by (intro near_mono [OF assms(1)]) simp
  with assms(4) show ?thesis by simp
qed

section \<open>Tiles\<close>

text \<open>Segments that follow each other without a gap from a beat and a time on to an end.\<close>

fun tiles :: "'a float_ops_scheme \<Rightarrow> rat \<Rightarrow> rat \<Rightarrow> rat \<Rightarrow> PerformanceTimelineSegment list \<Rightarrow> bool" where
  "tiles fl beat time_ms end_beat [] = False"
| "tiles fl beat time_ms end_beat (s # segments) \<longleftrightarrow> sg_start_beat s = beat \<and> sg_start_time_ms s = time_ms \<and>
     nearest fl time_ms = time_ms \<and> 0 < sg_bpm s \<and> beat \<le> sg_end_beat s \<and>
     (if segments = [] then sg_end_beat s = end_beat
      else tiles fl (sg_end_beat s) (end_time_ms fl s) end_beat segments)"

lemma tiles_end: "tiles fl beat t e segments \<Longrightarrow> beat \<le> e"
  by (induction segments arbitrary: beat t) (auto split: if_splits intro: order.trans)

text \<open>The segment found for a beat, in a list of tiles.\<close>

definition tile_for :: "PerformanceTimelineSegment list \<Rightarrow> rat \<Rightarrow> PerformanceTimelineSegment" where
  "tile_for segments beat =
     (case List.find (\<lambda>s. sg_start_beat s \<le> beat \<and> beat < sg_end_beat s) segments of
        Some s \<Rightarrow> s | None \<Rightarrow> last segments)"

lemma tile_for_Cons: "tile_for (s # segments) b =
    (if sg_start_beat s \<le> b \<and> b < sg_end_beat s \<or> segments = [] then s else tile_for segments b)"
  by (auto simp: tile_for_def split: option.splits)

lemma tiles_time_start:
  assumes fl: "float_rounding fl" and "tiles fl beat t e segments" and "beat \<le> b"
  shows "t \<le> time_in fl (tile_for segments b) b"
  using assms(2,3)
proof (induction segments arbitrary: beat t)
  case Nil
  then show ?case by simp
next
  case (Cons s segments)
  then have s: "sg_start_beat s = beat" "sg_start_time_ms s = t" "nearest fl t = t" "0 < sg_bpm s" "beat \<le> sg_end_beat s"
    by simp_all
  show ?case
  proof (cases "b < sg_end_beat s \<or> segments = []")
    case True
    then have "tile_for (s # segments) b = s" using Cons.prems s by (auto simp: tile_for_Cons)
    then show ?thesis using time_in_start [OF fl s(4), of b] s Cons.prems(2) by simp
  next
    case False
    then have "tiles fl (sg_end_beat s) (end_time_ms fl s) e segments" "sg_end_beat s \<le> b"
      using Cons.prems(1) by auto
    from Cons.IH [OF this] have "end_time_ms fl s \<le> time_in fl (tile_for segments b) b" .
    moreover have "t \<le> end_time_ms fl s" using time_in_start [OF fl s(4), of "sg_end_beat s"] s by (simp add: end_time_in)
    ultimately show ?thesis using False by (simp add: tile_for_Cons)
  qed
qed

lemma tiles_time_mono:
  assumes fl: "float_rounding fl" and "tiles fl beat t e segments" and "beat \<le> a" and ab: "a \<le> b"
  shows "time_in fl (tile_for segments a) a \<le> time_in fl (tile_for segments b) b"
  using assms(2,3)
proof (induction segments arbitrary: beat t)
  case Nil
  then show ?case by simp
next
  case (Cons s segments)
  then have s: "sg_start_beat s = beat" "sg_start_time_ms s = t" "nearest fl t = t" "0 < sg_bpm s" "beat \<le> sg_end_beat s"
    by simp_all
  consider "segments = []" | "segments \<noteq> []" "b < sg_end_beat s" | "segments \<noteq> []" "a < sg_end_beat s" "sg_end_beat s \<le> b"
    | "segments \<noteq> []" "sg_end_beat s \<le> a" using ab by linarith
  then show ?case
  proof cases
    case 1
    then show ?thesis using time_in_mono [OF fl s(4) ab] by (simp add: tile_for_Cons)
  next
    case 2
    then show ?thesis using time_in_mono [OF fl s(4) ab] s Cons.prems(2) ab by (simp add: tile_for_Cons)
  next
    case 3
    then have "tiles fl (sg_end_beat s) (end_time_ms fl s) e segments" using Cons.prems(1) by simp
    from tiles_time_start [OF fl this 3(3)]
    have "end_time_ms fl s \<le> time_in fl (tile_for (s # segments) b) b" using 3 by (simp add: tile_for_Cons)
    moreover have "time_in fl (tile_for (s # segments) a) a \<le> end_time_ms fl s"
      using 3 s Cons.prems(2) time_in_mono [OF fl s(4), of a "sg_end_beat s"] by (simp add: tile_for_Cons end_time_in)
    ultimately show ?thesis by simp
  next
    case 4
    then have "tiles fl (sg_end_beat s) (end_time_ms fl s) e segments" using Cons.prems(1) by simp
    from Cons.IH [OF this 4(2)] show ?thesis using 4 ab by (simp add: tile_for_Cons)
  qed
qed

lemma tiles_last_end:
  assumes "tiles fl beat t e segments"
  shows "sg_end_beat (last segments) = e"
  using assms by (induction segments arbitrary: beat t) (auto split: if_splits)

lemma tiles_at_end:
  assumes "tiles fl beat t e segments"
  shows "time_in fl (tile_for segments e) e = end_time_ms fl (last segments)"
proof -
  have le: "sg_end_beat s \<le> e" if "s \<in> set segments" for s
    using assms that by (induction segments arbitrary: beat t) (auto split: if_splits dest: tiles_end)
  have "List.find (\<lambda>s. sg_start_beat s \<le> e \<and> e < sg_end_beat s) segments = None"
    using le by (auto simp: find_None_iff not_less)
  then show ?thesis using tiles_last_end [OF assms] by (simp add: tile_for_def end_time_in)
qed

section \<open>The segments of a timeline\<close>

text \<open>Tempo changes as the code normalises them: rounded, strictly increasing, all positive.\<close>

fun tempo_list :: "'a float_ops_scheme \<Rightarrow> rat \<Rightarrow> TempoSegment list \<Rightarrow> bool" where
  "tempo_list fl beat [] = True"
| "tempo_list fl beat (t # ts) \<longleftrightarrow> beat \<le> ts_start_beat t \<and> 0 < ts_bpm t \<and> 0 \<le> ts_start_beat t \<and>
     round_beat fl (ts_start_beat t) = ts_start_beat t \<and> (ts \<noteq> [] \<longrightarrow> ts_start_beat t < ts_start_beat (hd ts)) \<and>
     tempo_list fl (ts_start_beat t) ts"

lemma late_tempos: "tempo_list fl beat ts \<Longrightarrow> end_beat \<le> beat \<Longrightarrow> timeline_segments fl end_beat time_ms ts = []"
proof (induction ts arbitrary: beat)
  case Nil
  then show ?case by simp
next
  case (Cons t ts)
  then have le: "end_beat \<le> ts_start_beat t" and rest: "tempo_list fl (ts_start_beat t) ts" by simp_all
  have "timeline_segments fl end_beat time_ms ts = []" by (rule Cons.IH [OF rest le])
  moreover have "min (max (ts_start_beat t) 0) end_beat = end_beat" using le by (simp add: max_def min_def)
  ultimately show ?case by (simp add: Let_def)
qed

lemma timeline_segments_tile:
  assumes fl: "float_rounding fl" and end_beat: "round_beat fl end_beat = end_beat"
  shows "tempo_list fl beat (t # ts) \<Longrightarrow> ts_start_beat t < end_beat \<Longrightarrow> nearest fl time_ms = time_ms \<Longrightarrow>
    tiles fl (ts_start_beat t) time_ms end_beat (timeline_segments fl end_beat time_ms (t # ts))"
proof (induction ts arbitrary: t beat time_ms)
  case Nil
  let ?b = "ts_start_beat t"
  have start: "min (max ?b 0) end_beat = ?b" "min (max end_beat ?b) end_beat = end_beat" using Nil by simp_all
  show ?case unfolding timeline_segments.simps Let_def list.case start using Nil end_beat by simp
next
  case (Cons n ts)
  let ?b = "ts_start_beat t" and ?n = "ts_start_beat n"
  have facts: "0 < ts_bpm t" "round_beat fl ?b = ?b" "?b < ?n" "tempo_list fl ?b (n # ts)" "0 \<le> ?b"
    using Cons.prems(1) by simp_all
  have start: "min (max ?b 0) end_beat = ?b" using facts Cons.prems(2) by simp
  have near: "nearest fl (end_time_ms fl s) = end_time_ms fl s" for s
    using fl by (simp add: end_time_ms_def fl_add_def float_rounding_def)
  show ?case
  proof (cases "?n < end_beat")
    case True
    then have "min (max ?n ?b) end_beat = ?n" using facts by simp
    moreover have "round_beat fl ?n = ?n" using facts(4) by simp
    moreover note Cons.IH [OF facts(4) True near]
    moreover have "timeline_segments fl end_beat (end_time_ms fl s) (n # ts) \<noteq> []" for s
      using Cons.IH [OF facts(4) True near, of s]
      by (cases "timeline_segments fl end_beat (end_time_ms fl s) (n # ts)") simp_all
    ultimately show ?thesis
      unfolding timeline_segments.simps(2) [of fl end_beat time_ms t] Let_def list.case start
      using facts Cons.prems(3) by (simp del: timeline_segments.simps)
  next
    case False
    then have "min (max ?n ?b) end_beat = end_beat" using facts Cons.prems(2) by simp
    moreover have "timeline_segments fl end_beat x (n # ts) = []" for x
    proof (rule late_tempos)
      show "tempo_list fl ?n (n # ts)" using facts(4) by simp
      show "end_beat \<le> ?n" using False by simp
    qed
    ultimately show ?thesis
      unfolding timeline_segments.simps(2) [of fl end_beat time_ms t] Let_def list.case start
      using facts Cons.prems end_beat by simp
  qed
qed

lemma normalized_tempos:
  assumes fl: "float_rounding fl" and "normalized_tempo_segments fl tempo_segments = Inr ts"
  obtains t rest where "ts = t # rest" and "ts_start_beat t = 0" and "tempo_list fl 0 ts"
proof -
  define merged where "merged = map (\<lambda>s. \<lparr>ts_start_beat = round_beat fl (ts_start_beat s), ts_bpm = ts_bpm s\<rparr>)
    (filter (\<lambda>s. ts_start_beat s \<ge> 0) (sort_key ts_start_beat tempo_segments))"
  define keys where "keys = sort (remdups (0 # map ts_start_beat merged))"
  have bpm: "\<not> (\<exists>s \<in> set (sort_key ts_start_beat tempo_segments). ts_bpm s \<le> 0)"
  proof
    assume "\<exists>s \<in> set (sort_key ts_start_beat tempo_segments). ts_bpm s \<le> 0"
    then have "normalized_tempo_segments fl tempo_segments =
        Inl (PerformanceTimelineError ''Tempo BPM must be positive.'')"
      unfolding normalized_tempo_segments_def Let_def by (rule if_P)
    with assms(2) show False by simp
  qed
  have ts: "ts = map (merged_tempo merged) keys"
    using assms(2) unfolding normalized_tempo_segments_def Let_def if_not_P [OF bpm] merged_def [symmetric]
      keys_def [symmetric] by simp
  have set_keys: "set keys = insert 0 (ts_start_beat ` set merged)" by (auto simp: keys_def)
  have key: "0 \<le> k \<and> round_beat fl k = k" if "k \<in> set keys" for k
  proof -
    have "k = 0 \<or> (\<exists>x \<ge> 0. k = round_beat fl x)" using that unfolding set_keys by (auto simp: merged_def)
    then show ?thesis
      using round_beat_mono [OF fl, of 0] round_beat_zero [OF fl] round_beat_idem [OF fl] by (metis order.refl)
  qed
  have fields: "ts_start_beat (merged_tempo merged k) = k \<and> 0 < ts_bpm (merged_tempo merged k)" if "k \<in> set keys" for k
  proof (cases "dict_of ts_start_beat merged k")
    case None
    then have "k \<notin> ts_start_beat ` set merged" by (auto simp: dict_of_def find_None_iff)
    with that have "k = 0" unfolding set_keys by simp
    with None show ?thesis by (simp add: merged_tempo_def DEFAULT_PERFORMANCE_TEMPO_BPM_def)
  next
    case (Some s)
    with dict_of_Some [OF Some] bpm show ?thesis by (auto simp: merged_tempo_def merged_def not_le)
  qed
  have sorted: "sorted_wrt (<) keys" by (simp add: keys_def strict_sorted_iff)
  have list: "tempo_list fl b (map (merged_tempo merged) ks)"
    if "set ks \<subseteq> set keys" "sorted_wrt (<) ks" "\<forall>k \<in> set ks. b \<le> k" for b ks
    using that
  proof (induction ks arbitrary: b)
    case Nil
    then show ?case by simp
  next
    case (Cons k ks)
    then have k: "k \<in> set keys" and ks: "set ks \<subseteq> set keys" "sorted_wrt (<) ks" "\<forall>j \<in> set ks. k < j" by simp_all
    have "tempo_list fl k (map (merged_tempo merged) ks)" using Cons.IH [OF ks(1,2), of k] ks(3) by (simp add: less_imp_le)
    moreover have "ks \<noteq> [] \<longrightarrow> k < ts_start_beat (hd (map (merged_tempo merged) ks))"
      using ks fields by (cases ks) auto
    ultimately show ?case using fields [OF k] key [OF k] Cons.prems(3) by simp
  qed
  have "0 \<in> set keys" by (simp add: keys_def)
  then obtain k ks where keys: "keys = k # ks" by (cases keys) auto
  have "k = 0" using \<open>0 \<in> set keys\<close> sorted key [of k] by (auto simp: keys)
  show ?thesis
  proof (rule that)
    show "ts = merged_tempo merged k # map (merged_tempo merged) ks" by (simp add: ts keys)
    show "ts_start_beat (merged_tempo merged k) = 0" using fields [of k] \<open>k = 0\<close> by (simp add: keys)
    show "tempo_list fl 0 ts" unfolding ts by (rule list) (use sorted key in auto)
  qed
qed

text \<open>A timeline is empty, or its segments tile it.\<close>

lemma performance_timeline_tiles:
  assumes fl: "float_rounding fl" and "performance_timeline fl timeline tempo_segments = Inr pl"
  shows "pl_segments pl = [] \<or> 0 < pl_end_beat pl \<and> tiles fl 0 0 (pl_end_beat pl) (pl_segments pl)"
proof (cases "round_beat fl (tm_end_beat timeline) \<le> 0")
  case True
  with assms(2) show ?thesis by (auto simp: performance_timeline_def)
next
  case False
  let ?e = "round_beat fl (tm_end_beat timeline)"
  obtain ts where ts: "normalized_tempo_segments fl tempo_segments = Inr ts"
      and pl: "pl = \<lparr>pl_end_beat = ?e, pl_segments = timeline_segments fl ?e 0 ts\<rparr>"
    using assms(2) False by (auto simp: performance_timeline_def Let_def split: sum.splits)
  obtain t rest where t: "ts = t # rest" "ts_start_beat t = 0" "tempo_list fl 0 ts" by (rule normalized_tempos [OF fl ts])
  have "tiles fl (ts_start_beat t) 0 ?e (timeline_segments fl ?e 0 (t # rest))"
  proof (rule timeline_segments_tile [OF fl round_beat_idem [OF fl]])
    show "tempo_list fl 0 (t # rest)" using t by simp
    show "ts_start_beat t < ?e" using t False by simp
    show "nearest fl 0 = 0" by (rule near_zero [OF fl])
  qed
  then show ?thesis using False t by (simp add: pl)
qed

lemma beat_to_time_tile:
  assumes "pl_segments pl \<noteq> []"
  shows "beat_to_time_ms fl pl b =
    time_in fl (tile_for (pl_segments pl) (min (max b 0) (pl_end_beat pl))) (min (max b 0) (pl_end_beat pl))"
  using assms by (simp add: beat_to_time_ms_def segment_for_beat_def tile_for_def time_in_def Let_def)

lemma beat_to_time_mono:
  assumes fl: "float_rounding fl" and pl: "performance_timeline fl timeline tempo_segments = Inr pl" and le: "a \<le> b"
  shows "0 \<le> beat_to_time_ms fl pl a" and "beat_to_time_ms fl pl a \<le> beat_to_time_ms fl pl b"
    and "beat_to_time_ms fl pl b \<le> nominal_duration_ms fl pl"
proof -
  consider "pl_segments pl = []" | "pl_segments pl \<noteq> []" "0 < pl_end_beat pl" "tiles fl 0 0 (pl_end_beat pl) (pl_segments pl)"
    using performance_timeline_tiles [OF fl pl] by blast
  then have "0 \<le> beat_to_time_ms fl pl a \<and> beat_to_time_ms fl pl a \<le> beat_to_time_ms fl pl b \<and>
    beat_to_time_ms fl pl b \<le> nominal_duration_ms fl pl"
  proof cases
    case 1
    then show ?thesis by (simp add: beat_to_time_ms_def nominal_duration_ms_def)
  next
    case 2
    define x where "x = min (max a 0) (pl_end_beat pl)"
    define y where "y = min (max b 0) (pl_end_beat pl)"
    have "0 \<le> x" unfolding x_def using 2(2) by (intro min.boundedI max.cobounded2) simp
    have "0 \<le> y" unfolding y_def using 2(2) by (intro min.boundedI max.cobounded2) simp
    have "x \<le> y" unfolding x_def y_def using le by (intro min.mono max.mono order.refl)
    have "y \<le> pl_end_beat pl" unfolding y_def by (rule min.cobounded2)
    have times: "beat_to_time_ms fl pl a = time_in fl (tile_for (pl_segments pl) x) x"
      "beat_to_time_ms fl pl b = time_in fl (tile_for (pl_segments pl) y) y"
      "nominal_duration_ms fl pl = time_in fl (tile_for (pl_segments pl) (pl_end_beat pl)) (pl_end_beat pl)"
      by (simp_all only: beat_to_time_tile [OF 2(1)] x_def y_def tiles_at_end [OF 2(3)] nominal_duration_ms_def
          2(1) if_False)
    show ?thesis unfolding times
      using tiles_time_start [OF fl 2(3) \<open>0 \<le> x\<close>] tiles_time_mono [OF fl 2(3) \<open>0 \<le> x\<close> \<open>x \<le> y\<close>]
        tiles_time_mono [OF fl 2(3) \<open>0 \<le> y\<close> \<open>y \<le> pl_end_beat pl\<close>] by blast
  qed
  then show "0 \<le> beat_to_time_ms fl pl a" and "beat_to_time_ms fl pl a \<le> beat_to_time_ms fl pl b"
    and "beat_to_time_ms fl pl b \<le> nominal_duration_ms fl pl" by blast+
qed

end
