(* ===== verification/Performance_Judgement.thy ===== *)
theory Performance_Judgement
  imports Performance_Evaluator Performance_Time Practice_Progress "HOL-Library.Multiset"
begin

text \<open>
  What the evaluation of a performance means: the result of an expected event is a function of the set of notes played
  for it and of when the first of them was played; and no observation that the recorder can make, on the timeline of
  any note array, makes the evaluation fail.
\<close>

section \<open>The judgement of one event\<close>

definition earliest :: "PerformanceObservation list \<Rightarrow> rat" where
  "earliest obs = Min (set (map po_performance_time_ms obs))"

definition in_gesture :: "'a float_ops_scheme \<Rightarrow> rat \<Rightarrow> PerformanceObservation list \<Rightarrow> PerformanceObservation \<Rightarrow> bool" where
  "in_gesture fl window obs ob \<longleftrightarrow> fl_sub fl (po_performance_time_ms ob) (earliest obs) \<le> window"

text \<open>Exactly the expected pitches, each once and none late; or some of them, each once, and nothing else but other
  expected pitches played late; or anything else.\<close>

definition judged_result ::
  "'a float_ops_scheme \<Rightarrow> rat \<Rightarrow> string list \<Rightarrow> PerformanceObservation list \<Rightarrow> PerformanceExpectedEventResult" where
  "judged_result fl window expected obs =
     (let gesture = filter (in_gesture fl window obs) obs; late = filter (\<lambda>ob. \<not> in_gesture fl window obs ob) obs;
          played = observed_pitches_of gesture
      in if obs = [] then NOT_OBSERVED
         else if late = [] \<and> mset played = mset expected then Event_MATCH
         else if distinct played \<and> set played \<subset> set expected \<and>
           set (observed_pitches_of late) \<subseteq> set expected - set played then Event_PARTIAL
         else Event_MISMATCH)"

lemma unexpected_from_Nil: "unexpected_pitches_from expected seen ps = [] \<longleftrightarrow>
    distinct ps \<and> set ps \<subseteq> set expected \<and> set ps \<inter> set seen = {}"
  by (induction ps arbitrary: seen) auto

lemma observed_pitches_set: "set (observed_pitches_of obs) = (\<Union>ob \<in> set obs. set (po_observed_pitches ob))"
  by (auto simp: observed_pitches_of_def)

lemma observed_pitches_mset: "mset obs = mset obs' \<Longrightarrow> mset (observed_pitches_of obs) = mset (observed_pitches_of obs')"
proof -
  have eq: "mset (observed_pitches_of obs) = (\<Sum>ob \<in># mset obs. mset (po_observed_pitches ob))" for obs
    by (induction obs) (simp_all add: observed_pitches_of_def)
  show "mset obs = mset obs' \<Longrightarrow> ?thesis" by (simp add: eq)
qed

lemma split_gesture:
  assumes "obs \<noteq> []"
  shows "split_chord_gesture fl window obs = (filter (in_gesture fl window obs) (sort_key po_performance_time_ms obs),
    filter (\<lambda>ob. \<not> in_gesture fl window obs ob) (sort_key po_performance_time_ms obs))"
proof -
  have "length (sort_key po_performance_time_ms obs) \<noteq> 0" using assms by simp
  then obtain first rest where sorted: "sort_key po_performance_time_ms obs = first # rest"
    by (metis length_0_conv neq_Nil_conv)
  have set: "set obs = set (first # rest)" using arg_cong [OF sorted, of set] by simp
  have "\<forall>ob \<in> set rest. po_performance_time_ms first \<le> po_performance_time_ms ob"
    using sorted_sort_key [of po_performance_time_ms obs] by (simp add: sorted)
  then have "earliest obs = po_performance_time_ms first"
    unfolding earliest_def set_map set by (intro Min_eqI) auto
  then show ?thesis
    by (simp add: split_chord_gesture_def sorted in_gesture_def [abs_def] o_def)
qed

lemma earliest_in_gesture:
  assumes fl: "float_rounding fl" and window: "0 \<le> window" and "obs \<noteq> []"
  obtains ob where "ob \<in> set obs" "in_gesture fl window obs ob"
proof -
  have "earliest obs \<in> set (map po_performance_time_ms obs)" unfolding earliest_def using assms(3) by (intro Min_in) auto
  then obtain ob where ob: "ob \<in> set obs" "po_performance_time_ms ob = earliest obs" by auto
  then show ?thesis using window near_zero [OF fl] by (intro that [OF ob(1)]) (simp add: in_gesture_def fl_sub_def)
qed

lemma strikes_run:
  assumes "expected_strike_outcomes event observed unconfirmed = Inr strikes"
  shows "map so_result strikes = map (strike_result observed unconfirmed) (event_pitches event)"
proof -
  have "traverse (\<lambda>s. strike_outcome s (strike_result observed unconfirmed (st_pitch s))) ts = Inr strikes \<Longrightarrow>
      map so_result strikes = map (\<lambda>s. strike_result observed unconfirmed (st_pitch s)) ts" for ts
    by (induction ts arbitrary: strikes)
      (auto simp: strike_outcome_def check_strike_outcome_def split: sum.splits if_splits)
  with assms show ?thesis by (simp add: expected_strike_outcomes_def event_pitches_def)
qed

lemma all_any_map: "map f xs = map g ys \<Longrightarrow> (\<forall>x \<in> set xs. f x = c) = (\<forall>y \<in> set ys. g y = c)"
  "map f xs = map g ys \<Longrightarrow> (\<exists>x \<in> set xs. f x = c) = (\<exists>y \<in> set ys. g y = c)"
  by (metis (mono_tags) image_iff list.set_map)+

lemma exact_sets: "E \<subseteq> P \<and> d \<and> P \<subseteq> E \<and> L \<subseteq> E - P \<longleftrightarrow> L = {} \<and> d \<and> P = E"
  by (cases "P = E") auto

lemma partial_sets: "P \<noteq> {} \<Longrightarrow> \<not> (L = {} \<and> d \<and> P = E) \<Longrightarrow>
    (E \<inter> P \<noteq> {} \<and> d \<and> P \<subseteq> E \<and> L \<subseteq> E - P) = (d \<and> P \<subset> E \<and> L \<subseteq> E - P)"
  by (cases "P = E"; cases d) auto

lemma outcome_for_event_result:
  assumes fl: "float_rounding fl" and window: "0 \<le> window"
    and run: "outcome_for_event fl window event obs = Inr out"
    and expected: "distinct (event_pitches event)" and usable: "\<forall>ob \<in> set obs. po_observed_pitches ob \<noteq> []"
  shows "eo_result out = judged_result fl window (event_pitches event) obs"
    and "eo_expected_group_id out = xg_id (xe_expected_group event)"
proof -
  have "eo_result out = judged_result fl window (event_pitches event) obs \<and>
    eo_expected_group_id out = xg_id (xe_expected_group event)"
  proof (cases "obs = []")
    case True
    with run show ?thesis
      by (auto simp: outcome_for_event_def not_observed_outcome_def judged_result_def check_event_outcome_def
          split: sum.splits if_splits)
  next
    case False
    define gesture where "gesture = filter (in_gesture fl window obs) (sort_key po_performance_time_ms obs)"
    define late where "late = filter (\<lambda>ob. \<not> in_gesture fl window obs ob) (sort_key po_performance_time_ms obs)"
    define E where "E = event_pitches event"
    define P where "P = observed_pitches_of gesture"
    define L where "L = observed_pitches_of late"
    define ng where "ng = classify_non_gesture_pitches event L P"
    have split: "split_chord_gesture fl window obs = (gesture, late)"
      using split_gesture [OF False] by (simp add: gesture_def late_def)
    obtain strikes where strikes: "expected_strike_outcomes event P (ng_unconfirmed ng) = Inr strikes"
      and out: "eo_result out = event_result strikes (unexpected_pitches event P @ ng_unexpected ng)"
        "eo_expected_group_id out = xg_id (xe_expected_group event)"
      using run False split
      by (auto simp: outcome_for_event_def P_def [symmetric] L_def [symmetric] ng_def [symmetric] Let_def
          check_event_outcome_def split: sum.splits if_splits)
    have unexpected: "unexpected_pitches event P @ ng_unexpected ng = [] \<longleftrightarrow>
        distinct P \<and> set P \<subseteq> set E \<and> set L \<subseteq> set E - set P"
      by (auto simp: unexpected_pitches_def unexpected_from_Nil ng_def classify_non_gesture_pitches_def E_def
          filter_empty_conv Let_def)
    have all: "(\<forall>s \<in> set strikes. so_result s = MATCHED) = (set E \<subseteq> set P)"
      unfolding all_any_map(1) [OF strikes_run [OF strikes]] by (auto simp: strike_result_def E_def)
    have any: "(\<exists>s \<in> set strikes. so_result s = MATCHED) = (set E \<inter> set P \<noteq> {})"
      unfolding all_any_map(2) [OF strikes_run [OF strikes]] by (auto simp: strike_result_def E_def)
    have gesture': "mset gesture = mset (filter (in_gesture fl window obs) obs)"
      and late': "mset late = mset (filter (\<lambda>ob. \<not> in_gesture fl window obs ob) obs)"
      by (simp_all add: gesture_def late_def)
    have P': "mset P = mset (observed_pitches_of (filter (in_gesture fl window obs) obs))"
      unfolding P_def by (rule observed_pitches_mset [OF gesture'])
    have L': "set L = set (observed_pitches_of (filter (\<lambda>ob. \<not> in_gesture fl window obs ob) obs))"
      unfolding L_def using mset_eq_setD [OF late'] by (simp add: observed_pitches_set)
    have late_Nil: "late = [] \<longleftrightarrow> set L = {}"
      using usable by (auto simp: L_def observed_pitches_set late_def filter_empty_conv)
    have late_Nil': "filter (\<lambda>ob. \<not> in_gesture fl window obs ob) obs = [] \<longleftrightarrow> set L = {}"
      using late_Nil late' by (metis mset_zero_iff)
    obtain ob where ob: "ob \<in> set obs" "in_gesture fl window obs ob"
      by (rule earliest_in_gesture [OF fl window False])
    then have "ob \<in> set gesture" by (simp add: gesture_def)
    then have nonempty: "set P \<noteq> {}" using usable ob(1) unfolding P_def observed_pitches_set by fastforce
    have same: "mset P = mset E \<longleftrightarrow> distinct P \<and> set P = set E"
      using expected by (metis E_def mset_eq_imp_distinct_iff set_eq_iff_mset_eq_distinct mset_eq_setD)
    have spec: "judged_result fl window E obs =
      (if set L = {} \<and> mset P = mset E then Event_MATCH
       else if distinct P \<and> set P \<subset> set E \<and> set L \<subseteq> set E - set P then Event_PARTIAL else Event_MISMATCH)"
      using False P' mset_eq_setD [OF P'] mset_eq_imp_distinct_iff [OF P']
      by (simp add: judged_result_def late_Nil' L' [symmetric] Let_def)
    have "event_result strikes (unexpected_pitches event P @ ng_unexpected ng) =
        (if set E \<subseteq> set P \<and> distinct P \<and> set P \<subseteq> set E \<and> set L \<subseteq> set E - set P then Event_MATCH
         else if set E \<inter> set P \<noteq> {} \<and> distinct P \<and> set P \<subseteq> set E \<and> set L \<subseteq> set E - set P then Event_PARTIAL
         else Event_MISMATCH)"
      unfolding event_result_def all any unexpected by simp
    also have "\<dots> = judged_result fl window E obs"
    proof (cases "set L = {} \<and> mset P = mset E")
      case True
      then show ?thesis unfolding spec exact_sets same [symmetric] by (simp only: True if_True simp_thms)
    next
      case False
      have "(set E \<inter> set P \<noteq> {} \<and> distinct P \<and> set P \<subseteq> set E \<and> set L \<subseteq> set E - set P) =
          (distinct P \<and> set P \<subset> set E \<and> set L \<subseteq> set E - set P)"
        using False unfolding same by (rule partial_sets [OF nonempty])
      then show ?thesis unfolding spec exact_sets same [symmetric] by (simp only: False if_False)
    qed
    finally show ?thesis using out by (simp add: E_def)
  qed
  then show "eo_result out = judged_result fl window (event_pitches event) obs"
    "eo_expected_group_id out = xg_id (xe_expected_group event)" by blast+
qed

end
