(* ===== verification/Performance_Run.thy ===== *)
theory Performance_Run
  imports Performance_Judgement
begin

text \<open>
  The evaluation of a performance never fails: on the timeline of a note array, the expected events of a resolved
  scope are in order and their outcomes are well formed, whatever notes were recorded.
\<close>

section \<open>The groups of a note array\<close>

definition group_ok :: "ExpectedPracticeGroup \<Rightarrow> bool" where
  "group_ok g \<longleftrightarrow> distinct (map st_pitch (xg_strike_targets g)) \<and>
     (\<forall>s \<in> set (xg_strike_targets g). st_id s \<noteq> [] \<and> st_pitch s \<noteq> [] \<and> st_render_note_ids s \<noteq> [])"

lemma strike_targets_ok:
  assumes "\<forall>x \<in> set xs. en_pitch x \<noteq> []"
  shows "distinct (map st_pitch (strike_targets_for_expected_notes i xs))"
    and "s \<in> set (strike_targets_for_expected_notes i xs) \<Longrightarrow>
      st_id s \<noteq> [] \<and> st_pitch s \<noteq> [] \<and> st_render_note_ids s \<noteq> []"
proof -
  have "map st_pitch (strike_targets_for_expected_notes i xs) = fromkeys (map en_pitch xs)"
    by (simp add: strike_targets_for_expected_notes_def group_into_eq o_def)
  then show "distinct (map st_pitch (strike_targets_for_expected_notes i xs))" by simp
next
  assume "s \<in> set (strike_targets_for_expected_notes i xs)"
  then obtain p where "p \<in> en_pitch ` set xs" "st_pitch s = p" "st_id s = i @ '':strike:'' @ safe_id p"
      "st_render_note_ids s = fromkeys (map en_render_note_id (filter (\<lambda>x. en_pitch x = p) xs))"
    by (auto simp: strike_targets_for_expected_notes_def group_into_member)
  then show "st_id s \<noteq> [] \<and> st_pitch s \<noteq> [] \<and> st_render_note_ids s \<noteq> []"
    using assms by (auto simp: filter_empty_conv)
qed

lemma midi_pitch_name_nonempty: "midi_pitch_name p \<noteq> []"
proof -
  have "x \<noteq> []" if "x \<in> set MIDI_PITCH_CLASSES" for x
    using that by (auto simp: MIDI_PITCH_CLASSES_def)
  moreover have "nat (p mod 12) < length MIDI_PITCH_CLASSES"
    using pos_mod_bound [of 12 p] by (simp add: MIDI_PITCH_CLASSES_def)
  ultimately show ?thesis unfolding midi_pitch_name_def by (meson append_is_Nil_conv nth_mem)
qed

lemma note_array_pitches:
  assumes "e \<in> set (tm_events (timeline_from_note_array env metadata segments note_array))"
  shows "\<forall>p \<in> set (ev_pitches e). p \<noteq> []" and "\<exists>x. ev_onset_beat e = round_beat env x"
proof -
  have "e \<in> set (timeline_events env metadata note_array)"
    using assms by (auto simp: timeline_from_note_array_def empty_timeline_def Let_def split: if_splits)
  then obtain i key items where e: "e = event_from_notes env i key items"
      and "key \<in> event_key_of env (na_names note_array) `
        set (map (\<lambda>note. \<lparr>tl_note = note, tl_metadata = metadata (nr_id note)\<rparr>) (na_rows note_array))"
    by (auto simp: timeline_events_def Let_def group_into_member dest!: enumerate_member)
  then show "\<forall>p \<in> set (ev_pitches e). p \<noteq> []" "\<exists>x. ev_onset_beat e = round_beat env x"
    by (auto simp: e event_key_of_def Let_def midi_pitch_name_nonempty midi_pitch_name_nonempty [symmetric])
qed

lemma note_array_groups:
  assumes timeline: "timeline = timeline_from_note_array env metadata segments note_array"
    and run: "expected_practice_groups timeline = Inr groups"
  shows "\<forall>g \<in> set groups. group_ok g"
proof
  fix g assume "g \<in> set groups"
  with run obtain x :: PracticeEntryGroup and es noteses where
      es: "set es \<subseteq> set (tm_events timeline)" and tr: "traverse expected_notes_for_event es = Inr noteses"
      and g: "xg_strike_targets g = strike_targets_for_expected_notes (eg_id x) (concat noteses)"
    by (rule expected_group_notes)
  have "en_pitch n \<noteq> []" if n: "n \<in> set (concat noteses)" for n
  proof -
    from n obtain ns where "ns \<in> set noteses" "n \<in> set ns" by auto
    with traverse_member [OF tr] obtain e where e: "e \<in> set es" "expected_notes_for_event e = Inr ns" by blast
    with \<open>n \<in> set ns\<close> have "en_pitch n \<in> set (ev_pitches e)"
      by (auto simp: expected_notes_for_event_def split: if_splits elim!: in_set_zipE)
    moreover have "e \<in> set (tm_events timeline)" using e(1) es by blast
    ultimately show ?thesis using note_array_pitches(1) unfolding timeline by blast
  qed
  then show "group_ok g" using strike_targets_ok [of "concat noteses"] by (simp add: group_ok_def g)
qed

text \<open>What is assumed of \<open>repr\<close> and of SHA-1 for the ids of a timeline to be different.\<close>

definition ids_differ :: "practice_env \<Rightarrow> PracticeScoreTimeline \<Rightarrow> bool" where
  "ids_differ env timeline \<longleftrightarrow> unique_column ev_id (tm_events timeline) \<and> (\<forall>x. length (sha1_hex env x) = 40) \<and>
     inj_on (\<lambda>x. safe_id (float_repr env x)) (ev_onset_beat ` set (tm_events timeline))"

lemma note_array_onsets:
  assumes fl: "float_rounding env" and timeline: "timeline = timeline_from_note_array env metadata segments note_array"
    and ids: "ids_differ env timeline" and run: "expected_practice_groups timeline = Inr groups"
  shows "sorted (map xg_onset_beat groups)"
    and "\<forall>g \<in> set groups. round_beat env (xg_onset_beat g) = xg_onset_beat g \<and> xg_id g \<noteq> []"
proof -
  let ?events = "tm_events timeline"
  have ok: "event_ok e" if "e \<in> set ?events" for e using that note_array_events_ok unfolding timeline by blast
  have groups: "tm_entry_groups timeline = build_entry_groups env ?events"
    by (simp add: timeline timeline_from_note_array_def empty_timeline_def Let_def build_entry_groups_def group_into_def)
  have unique: "unique_column eg_id (tm_entry_groups timeline)"
    unfolding groups using ids by (intro entry_groups_unique) (auto simp: ids_differ_def)
  obtain f where f: "groups = map f (struck_onsets ?events)"
      "\<forall>onset \<in> set (struck_onsets ?events). xg_onset_beat (f onset) = onset \<and>
         xg_id (f onset) = stable_entry_group_id env onset (map ev_id (struck_at ?events onset))"
    using expected_groups_run [OF ok _ refl groups unique] ids run by (auto simp: ids_differ_def)
  have "map xg_onset_beat groups = struck_onsets ?events"
    using f by (simp add: o_def cong: map_cong)
  then show "sorted (map xg_onset_beat groups)" by simp
  show "\<forall>g \<in> set groups. round_beat env (xg_onset_beat g) = xg_onset_beat g \<and> xg_id g \<noteq> []"
  proof
    fix g assume "g \<in> set groups"
    then obtain onset where onset: "onset \<in> set (struck_onsets ?events)" "g = f onset" using f(1) by auto
    then obtain e where "e \<in> set ?events" "onset = ev_onset_beat e" by (auto simp: struck_onsets_set)
    then have "round_beat env onset = onset" using note_array_pitches(2) round_beat_idem [OF fl] unfolding timeline by metis
    then show "round_beat env (xg_onset_beat g) = xg_onset_beat g \<and> xg_id g \<noteq> []"
      using bspec [OF f(2) onset(1)] onset(2) by (simp add: stable_entry_group_id_def)
  qed
qed

section \<open>The events of a scope\<close>

lemma scope_group_index_run:
  assumes "scope_group_index_from i group_id gs = Inr j"
  shows "event_group_index i group_id gs = Inr j" and "i \<le> j" and "j < i + length gs" and "xg_id (gs ! (j - i)) = group_id"
proof -
  have "event_group_index i group_id gs = Inr j \<and> i \<le> j \<and> j < i + length gs \<and> xg_id (gs ! (j - i)) = group_id"
    using assms
  proof (induction gs arbitrary: i)
    case Nil
    then show ?case by simp
  next
    case (Cons g gs)
    show ?case
    proof (cases "xg_id g = group_id")
      case True
      then show ?thesis using Cons.prems by auto
    next
      case False
      then have "scope_group_index_from (i + 1) group_id gs = Inr j" using Cons.prems by simp
      from Cons.IH [OF this] False show ?thesis by (auto simp: nth_Cons' Suc_diff_le)
    qed
  qed
  then show "event_group_index i group_id gs = Inr j" and "i \<le> j" and "j < i + length gs"
    and "xg_id (gs ! (j - i)) = group_id" by blast+
qed

lemma given_id_self [simp]: "given_id (given_id i) = given_id i"
  by (auto simp: given_id_def split: option.splits)

lemma given_id_nonempty: "given_id i = Some x \<Longrightarrow> x \<noteq> []"
  by (auto simp: given_id_def split: option.splits if_splits)

text \<open>The index that the scope found is the one that the evaluator finds for the scope.\<close>

lemma scope_index_again:
  assumes "scope_index gs i k = Inr j" and "k < length gs"
  shows "event_index gs (if given_id i = None then None else Some (xg_id (gs ! j))) k = Inr j" and "j < length gs"
proof -
  have "event_index gs (if given_id i = None then None else Some (xg_id (gs ! j))) k = Inr j \<and> j < length gs"
  proof (cases "given_id i")
    case None
    then show ?thesis using assms by (simp add: scope_index_def event_index_def given_id_def)
  next
    case (Some x)
    then have run: "scope_group_index_from 0 x gs = Inr j" using assms by (simp add: scope_index_def)
    have "xg_id (gs ! j) = x" using scope_group_index_run(4) [OF run] by simp
    moreover have "given_id (Some x) = Some x" using given_id_nonempty [OF Some] by (simp add: given_id_def)
    ultimately show ?thesis using Some scope_group_index_run(1,3) [OF run] by (simp add: event_index_def)
  qed
  then show "event_index gs (if given_id i = None then None else Some (xg_id (gs ! j))) k = Inr j" and "j < length gs"
    by blast+
qed

lemma resolve_scope_run:
  assumes "resolve_scope env pl timeline start_id end_id = Inr scope"
  obtains groups i j where "expected_practice_groups timeline = Inr groups" "i \<le> j" "j < length groups"
    "event_index groups (sc_start_group_id scope) 0 = Inr i"
    "event_index groups (sc_end_group_id scope) (length groups - 1) = Inr j"
    "sc_nominal_start_time_ms scope = beat_to_time_ms env pl (round_beat env (xg_onset_beat (groups ! i)))"
proof -
  obtain groups where groups: "expected_practice_groups timeline = Inr groups" "groups \<noteq> []"
    using assms by (auto simp: resolve_scope_def split: sum.splits list.splits)
  then obtain i j where i: "scope_index groups start_id 0 = Inr i"
      and j: "scope_index groups end_id (length groups - 1) = Inr j" and ij: "i \<le> j"
    using assms by (auto simp: resolve_scope_def split: sum.splits list.splits if_splits)
  from i j ij groups assms have
    scope: "sc_start_group_id scope = (if given_id start_id = None then None else Some (xg_id (groups ! i)))"
      "sc_end_group_id scope = (if given_id end_id = None then None else Some (xg_id (groups ! j)))"
      "sc_nominal_start_time_ms scope = beat_to_time_ms env pl (round_beat env (xg_onset_beat (groups ! i)))"
    by (auto simp: resolve_scope_def Let_def neq_Nil_conv split: sum.splits if_splits)
  show ?thesis
  proof (rule that [OF groups(1) ij])
    show "event_index groups (sc_start_group_id scope) 0 = Inr i"
      unfolding scope(1) by (rule scope_index_again(1) [OF i]) (use groups(2) in simp)
    show "event_index groups (sc_end_group_id scope) (length groups - 1) = Inr j"
      unfolding scope(2) by (rule scope_index_again(1) [OF j]) (use groups(2) in simp)
    show "j < length groups" by (rule scope_index_again(2) [OF j]) (use groups(2) in simp)
  qed (rule scope(3))
qed

definition event_fits :: "ExpectedPerformanceEvent \<Rightarrow> bool" where
  "event_fits event \<longleftrightarrow> group_ok (xe_expected_group event) \<and> xg_id (xe_expected_group event) \<noteq> [] \<and>
     0 \<le> xe_performance_time_ms event"

lemma scope_events:
  assumes fl: "float_rounding env" and timeline: "timeline = timeline_from_note_array env metadata segments note_array"
    and ids: "ids_differ env timeline" and pl: "performance_timeline env timeline tempo_segments = Inr pl"
    and scope: "resolve_scope env pl timeline start_id end_id = Inr scope"
  shows "\<exists>events. expected_events_for_scope env timeline pl scope = Inr events \<and> (\<forall>event \<in> set events. event_fits event)"
proof -
  obtain groups i j where run: "expected_practice_groups timeline = Inr groups" and ij: "i \<le> j" "j < length groups"
      and index: "event_index groups (sc_start_group_id scope) 0 = Inr i"
        "event_index groups (sc_end_group_id scope) (length groups - 1) = Inr j"
      and start: "sc_nominal_start_time_ms scope = beat_to_time_ms env pl (round_beat env (xg_onset_beat (groups ! i)))"
    by (rule resolve_scope_run [OF scope])
  note onsets = note_array_onsets [OF fl timeline ids run]
  let ?event = "\<lambda>g. \<lparr>xe_expected_group = g, xe_performance_time_ms =
      fl_sub env (beat_to_time_ms env pl (xg_onset_beat g)) (sc_nominal_start_time_ms scope)\<rparr>"
  have "expected_events_for_scope env timeline pl scope = Inr (map ?event (drop i (take (j + 1) groups)))"
    using run ij index by (cases groups) (simp_all add: expected_events_for_scope_def)
  moreover have "event_fits (?event g)" if g: "g \<in> set (drop i (take (j + 1) groups))" for g
  proof -
    obtain n where n: "n < length (drop i (take (j + 1) groups))" "g = drop i (take (j + 1) groups) ! n"
      using g unfolding in_set_conv_nth by blast
    then have k: "i \<le> i + n" "i + n < length groups" "g = groups ! (i + n)" using ij by simp_all
    have "round_beat env (xg_onset_beat (groups ! i)) = xg_onset_beat (groups ! i)" using onsets(2) ij by simp
    moreover have "xg_onset_beat (groups ! i) \<le> xg_onset_beat g"
      using sorted_nth_mono [OF onsets(1) k(1)] k by simp
    ultimately have "sc_nominal_start_time_ms scope \<le> beat_to_time_ms env pl (xg_onset_beat g)"
      using beat_to_time_mono(2) [OF fl pl] start by simp
    then have "0 \<le> xe_performance_time_ms (?event g)" by (simp add: fl_sub_def near_nonneg [OF fl])
    moreover have "g \<in> set groups" using k by simp
    ultimately show ?thesis using note_array_groups [OF timeline run] onsets(2) by (simp add: event_fits_def)
  qed
  ultimately show ?thesis by auto
qed

section \<open>Outcomes\<close>

lemma strike_outcome_run: "st_id s \<noteq> [] \<and> st_pitch s \<noteq> [] \<and> st_render_note_ids s \<noteq> [] \<Longrightarrow>
    strike_outcome s result = Inr \<lparr>so_strike_id = st_id s, so_pitch = st_pitch s,
      so_render_note_ids = st_render_note_ids s, so_result = result\<rparr>"
  by (simp add: strike_outcome_def check_strike_outcome_def)

lemma event_strikes:
  assumes "event_fits event"
  shows "\<exists>strikes. traverse (\<lambda>s. strike_outcome s (f s)) (xg_strike_targets (xe_expected_group event)) = Inr strikes"
proof -
  have "traverse (\<lambda>s. strike_outcome s (f s)) (xg_strike_targets (xe_expected_group event)) =
      Inr (map (\<lambda>s. \<lparr>so_strike_id = st_id s, so_pitch = st_pitch s, so_render_note_ids = st_render_note_ids s,
        so_result = f s\<rparr>) (xg_strike_targets (xe_expected_group event)))"
    by (rule traverse_Inr, rule strike_outcome_run) (use assms in \<open>simp add: event_fits_def group_ok_def\<close>)
  then show ?thesis by blast
qed

text \<open>\<open>sum\<close> of a few floats 1 is exact.\<close>

definition float_counts :: "'a float_ops_scheme \<Rightarrow> bool" where
  "float_counts fl \<longleftrightarrow> (\<forall>n. n \<le> 2 ^ 53 \<longrightarrow> float_sum fl (replicate n 1) = of_nat n)"

lemma average_of_ones:
  assumes fl: "float_rounding fl" and sum: "float_counts fl" and "\<forall>x \<in> set xs. x = 1" and "xs \<noteq> []" and "length xs \<le> 2 ^ 53"
  shows "plain_average fl xs = 1"
proof -
  have "xs = replicate (length xs) 1" using assms(3) by (simp add: replicate_length_same)
  then have "float_sum fl xs = of_nat (length xs)" using sum assms(5) unfolding float_counts_def by metis
  then show ?thesis using assms(4) near_int [OF fl, of 1] by (simp add: plain_average_def fl_div_def)
qed

lemma outcome_for_event_runs:
  assumes fl: "float_rounding fl" and sum: "float_counts fl" and event: "event_fits event"
    and obs: "\<forall>ob \<in> set obs. po_confidence ob = 1" and few: "length obs \<le> 2 ^ 53" and window: "0 \<le> window"
  shows "\<exists>out. outcome_for_event fl window event obs = Inr out"
proof (cases "obs = []")
  case True
  then show ?thesis using event_strikes [OF event, of "\<lambda>_. UNCONFIRMED"] event
    by (auto simp: outcome_for_event_def not_observed_outcome_def check_event_outcome_def event_fits_def)
next
  case False
  define gesture where "gesture = filter (in_gesture fl window obs) (sort_key po_performance_time_ms obs)"
  define late where "late = filter (\<lambda>ob. \<not> in_gesture fl window obs ob) (sort_key po_performance_time_ms obs)"
  have split: "split_chord_gesture fl window obs = (gesture, late)"
    using split_gesture [OF False] by (simp add: gesture_def late_def)
  obtain ob where ob: "ob \<in> set obs" "in_gesture fl window obs ob"
    by (rule earliest_in_gesture [OF fl window False])
  then have "gesture \<noteq> []" by (auto simp: gesture_def filter_empty_conv)
  moreover have "length gesture \<le> 2 ^ 53"
    using few length_filter_le [of "in_gesture fl window obs" "sort_key po_performance_time_ms obs"]
    by (simp add: gesture_def)
  ultimately have "plain_average fl (map po_confidence gesture) = 1"
    using obs by (intro average_of_ones [OF fl sum]) (auto simp: gesture_def)
  moreover have "py_round fl 3 1 = 1" using near_int [OF fl, of 1] by (simp add: py_round_def round_half_even_def)
  moreover obtain strikes where "expected_strike_outcomes event (observed_pitches_of gesture)
      (ng_unconfirmed (classify_non_gesture_pitches event (observed_pitches_of late) (observed_pitches_of gesture))) = Inr strikes"
    unfolding expected_strike_outcomes_def by (metis event_strikes [OF event])
  ultimately show ?thesis
    using False event by (simp add: outcome_for_event_def split Let_def check_event_outcome_def event_fits_def)
qed

section \<open>The recorder\<close>

definition midi_taken :: "PerformanceObservation \<Rightarrow> bool" where
  "midi_taken ob \<longleftrightarrow> po_source ob = Input_MIDI \<and> po_active ob \<and> po_analyzable ob \<and> po_confidence ob = 1 \<and>
     length (po_observed_pitches ob) = 1 \<and> 0 \<le> po_session_time_ms ob \<and> 0 \<le> po_performance_time_ms ob \<and>
     1 \<le> po_duration_ms ob"

definition recorded_ok :: "PerformanceEvidenceRecorder \<Rightarrow> bool" where
  "recorded_ok er \<longleftrightarrow> (\<forall>ob \<in> set (er_observations er). midi_taken ob)"

lemma midi_observation_taken: "midi_observation t started = Inr ob \<Longrightarrow> midi_taken ob"
  by (cases started) (auto simp: midi_observation_def check_observation_def midi_taken_def split: if_splits)

text \<open>The calls that a session makes on its recorder.\<close>

datatype recorder_call = Record_event string int int int rat | Finish_open int

fun recorder_step :: "recorder_call \<Rightarrow> PerformanceEvidenceRecorder \<Rightarrow> PerformanceEvidenceRecorder" where
  "recorder_step (Record_event event_type note velocity session_time performance_time) er =
     snd (record_midi_event event_type note velocity session_time performance_time er)"
| "recorder_step (Finish_open session_time) er = snd (finish_open_midi_notes session_time er)"

lemma finish_notes_ok: "recorded_ok er \<Longrightarrow> recorded_ok (snd (finish_notes t ns er))"
proof (induction t ns er rule: finish_notes.induct)
  case (1 t er)
  then show ?case by (simp add: recorded_ok_def)
next
  case (2 t key ns er)
  show ?case
  proof (cases "map_of (er_active_midi_notes er) key")
    case None
    with 2 show ?thesis by simp
  next
    case (Some started)
    show ?thesis
    proof (cases "midi_observation t started")
      case (Inl e)
      with Some 2(3) show ?thesis by simp
    next
      case (Inr ob)
      have "recorded_ok (er\<lparr>er_observations := er_observations er @ [ob]\<rparr>)"
        using 2(3) midi_observation_taken [OF Inr] by (simp add: recorded_ok_def)
      from 2(2) [OF Some Inr this] Some Inr show ?thesis by (auto split: prod.split sum.split)
    qed
  qed
qed

lemma record_midi_event_ok: "recorded_ok er \<Longrightarrow> recorded_ok (snd (record_midi_event k n v t p er))"
  by (auto simp: record_midi_event_def Let_def recorded_ok_def dest: midi_observation_taken split: sum.split option.split)

lemma recorder_step_ok: "recorded_ok er \<Longrightarrow> recorded_ok (recorder_step call er)"
  by (cases call) (simp_all add: record_midi_event_ok finish_open_midi_notes_def finish_notes_ok)

lemma recorder_run_ok: "recorded_ok er \<Longrightarrow> recorded_ok (foldl (\<lambda>er call. recorder_step call er) er calls)"
  by (induction calls arbitrary: er) (simp_all add: recorder_step_ok)

lemma new_recorder_ok: "new_evidence_recorder source rate channels = Inr er \<Longrightarrow> recorded_ok er"
  by (auto simp: new_evidence_recorder_def recorded_ok_def split: if_splits)

section \<open>Properties\<close>

lemma new_runtime_run:
  assumes "new_performance_runtime env timeline tempo_segments start_id end_id speed_ratio beats pulses = Inr rt"
  shows "performance_timeline env timeline tempo_segments = Inr (rt_timeline rt)"
    and "resolve_scope env (rt_timeline rt) timeline start_id end_id = Inr (rt_scope rt)"
    and "rt_score_timeline rt = timeline"
  using assms by (auto simp: new_performance_runtime_def Let_def split: sum.splits)

text \<open>C25. Evaluating a performance never fails. On the timeline of a note array whose identifiers differ, for every
  scope and speed that a runtime can be made for, whatever MIDI events the recorder was given and whichever of them it
  refused, the evaluation of what it recorded returns one outcome for each expected event of the scope, in
  order: no constructor of the code refuses a value that the evaluator computes.\<close>

theorem performance_evaluation_never_fails:
  assumes fl: "float_rounding env" and sum: "float_counts env"
    and timeline: "timeline = timeline_from_note_array env metadata segments note_array"
    and ids: "ids_differ env timeline"
    and rt: "new_performance_runtime env timeline tempo_segments start_id end_id speed_ratio beats pulses = Inr rt"
    and er: "new_evidence_recorder Input_MIDI rate channels = Inr er"
    and obs: "obs = er_observations (foldl (\<lambda>er call. recorder_step call er) er calls)" and few: "length obs \<le> 2 ^ 53"
  shows "\<exists>events outs. expected_events_for_scope env timeline (rt_timeline rt) (rt_scope rt) = Inr events \<and>
    evaluate_expected_event_outcomes env rt Input_MIDI obs = Inr outs \<and>
    map eo_expected_group_id outs = map (\<lambda>e. xg_id (xe_expected_group e)) events"
proof -
  note run = new_runtime_run [OF rt]
  obtain events where events: "expected_events_for_scope env timeline (rt_timeline rt) (rt_scope rt) = Inr events"
      and fits: "\<forall>event \<in> set events. event_fits event"
    using scope_events [OF fl timeline ids run(1,2)] by blast
  have taken: "\<forall>ob \<in> set obs. midi_taken ob"
    using recorder_run_ok [OF new_recorder_ok [OF er]] by (simp add: obs recorded_ok_def)
  define assigned where "assigned event = assigned_observations env DEFAULT_MIDI_EVENT_ASSIGNMENT_WINDOW_MS events obs
    (xg_id (xe_expected_group event))" for event :: ExpectedPerformanceEvent
  define judge where "judge event = outcome_for_event env DEFAULT_MIDI_CHORD_SIMULTANEITY_WINDOW_MS event (assigned event)"
    for event
  have judge: "\<exists>out. judge event = Inr out \<and> eo_expected_group_id out = xg_id (xe_expected_group event)"
    if "event \<in> set events" for event
  proof -
    have fits': "event_fits event" using fits that by blast
    have sub: "\<forall>ob \<in> set (assigned event). po_confidence ob = 1 \<and> po_observed_pitches ob \<noteq> []"
      "length (assigned event) \<le> 2 ^ 53"
      using taken few le_trans [OF length_filter_le few] by (auto simp: assigned_def assigned_observations_def midi_taken_def)
    obtain out where out: "judge event = Inr out"
      unfolding judge_def
      using outcome_for_event_runs [OF fl sum fits', of "assigned event" DEFAULT_MIDI_CHORD_SIMULTANEITY_WINDOW_MS] sub
      by (auto simp: DEFAULT_MIDI_CHORD_SIMULTANEITY_WINDOW_MS_def)
    moreover have "eo_expected_group_id out = xg_id (xe_expected_group event)"
      using out fits' sub unfolding judge_def
      by (intro outcome_for_event_result(2) [OF fl])
        (auto simp: event_fits_def group_ok_def event_pitches_def DEFAULT_MIDI_CHORD_SIMULTANEITY_WINDOW_MS_def)
    ultimately show ?thesis by blast
  qed
  then obtain f where f: "\<And>event. event \<in> set events \<Longrightarrow> judge event = Inr (f event)"
      "\<And>event. event \<in> set events \<Longrightarrow> eo_expected_group_id (f event) = xg_id (xe_expected_group event)" by metis
  have "traverse judge events = Inr (map f events)" by (rule traverse_Inr [OF f(1)])
  moreover have "evaluate_expected_event_outcomes env rt Input_MIDI obs = traverse judge events"
    using events run(3) taken
    by (auto simp: evaluate_expected_event_outcomes_def new_performance_evaluator_def evaluate_midi_def midi_taken_def
        DEFAULT_MIDI_EVENT_ASSIGNMENT_WINDOW_MS_def DEFAULT_MIDI_CHORD_SIMULTANEITY_WINDOW_MS_def judge_def [abs_def]
        assigned_def)
  moreover have "map eo_expected_group_id (map f events) = map (\<lambda>e. xg_id (xe_expected_group e)) events"
    using f(2) by simp
  ultimately show ?thesis using events by metis
qed

text \<open>C26. How a performance is judged. On the timeline of a note array the evaluation gives one outcome for each expected
  event, in order, and its result is a function of the observations assigned to the event: none, and the event was
  not observed; exactly the expected pitches, each once and all within the window of the first, and it is a
  match; some of them each once, with nothing but other expected pitches played later, and it is a partial match; in
  every other case it is a mismatch.\<close>

theorem performance_judged_exactly:
  assumes fl: "float_rounding env" and timeline: "timeline = timeline_from_note_array env metadata segments note_array"
    and evaluator: "new_performance_evaluator env timeline pl scope assignment_window simultaneity_window = Inr evaluator"
    and run: "evaluate_midi env evaluator obs = Inr outs"
  shows "map eo_result outs = map (\<lambda>event. judged_result env simultaneity_window (event_pitches event)
    (assigned_observations env assignment_window (ev_events evaluator) obs (xg_id (xe_expected_group event))))
    (ev_events evaluator)"
proof -
  define events where "events = ev_events evaluator"
  have ev: "expected_events_for_scope env timeline pl scope = Inr events" "ev_simultaneity_window_ms evaluator = simultaneity_window"
      "ev_assignment_window_ms evaluator = assignment_window" and window: "0 \<le> simultaneity_window"
    using evaluator by (auto simp: new_performance_evaluator_def events_def split: if_splits sum.splits)
  have distinct: "distinct (event_pitches event)" if event: "event \<in> set events" for event
  proof -
    have "\<exists>groups. expected_practice_groups timeline = Inr groups \<and> xe_expected_group event \<in> set groups"
      using ev(1) event by (auto simp: expected_events_for_scope_def split: sum.splits list.splits
          dest!: in_set_dropD in_set_takeD)
    with note_array_groups [OF timeline] show ?thesis by (auto simp: group_ok_def event_pitches_def)
  qed
  let ?assigned = "\<lambda>event :: ExpectedPerformanceEvent. assigned_observations env assignment_window events obs
    (xg_id (xe_expected_group event))"
  have tr: "traverse (\<lambda>event. outcome_for_event env simultaneity_window event (?assigned event)) events = Inr outs"
    using run by (auto simp: evaluate_midi_def ev events_def [symmetric] split: if_splits)
  have "map eo_result outs' = map (\<lambda>event. judged_result env simultaneity_window (event_pitches event) (?assigned event)) es"
    if "traverse (\<lambda>event. outcome_for_event env simultaneity_window event (?assigned event)) es = Inr outs'"
      "set es \<subseteq> set events" for es outs'
    using that
  proof (induction es arbitrary: outs')
    case Nil
    then show ?case by simp
  next
    case (Cons e es)
    then obtain out rest where out: "outcome_for_event env simultaneity_window e (?assigned e) = Inr out"
        and rest: "traverse (\<lambda>event. outcome_for_event env simultaneity_window event (?assigned event)) es = Inr rest"
        and outs': "outs' = out # rest" by (auto split: sum.splits)
    have "eo_result out = judged_result env simultaneity_window (event_pitches e) (?assigned e)"
      by (rule outcome_for_event_result(1) [OF fl window out])
        (use distinct Cons.prems(2) in \<open>auto simp: assigned_observations_def usable_observation_def\<close>)
    with Cons.IH [OF rest] Cons.prems(2) show ?case by (simp add: outs')
  qed
  from this [OF tr order.refl] show ?thesis by (simp add: events_def)
qed

section \<open>A performance\<close>

lemma demo_rounding: "float_rounding demo_env" "float_counts demo_env"
proof -
  have "round_half_even (of_int k) = k" for k :: int by (simp add: round_half_even_def Let_def)
  then show "float_rounding demo_env"
    by (simp add: float_rounding_def float_integers_def mono_def round_beat_def py_round_def demo_env_def)
  show "float_counts demo_env" by (simp add: float_counts_def demo_env_def sum_list_replicate)
qed

definition demo_calls :: "recorder_call list" where
  "demo_calls = [Record_event ''note_on'' 60 80 1000 0, Record_event ''note_on'' 64 80 1040 40,
     Record_event ''note_off'' 60 0 1400 400, Record_event ''note_on'' 67 80 1500 500, Finish_open 1900]"

definition demo_recorder :: PerformanceEvidenceRecorder where
  "demo_recorder = \<lparr>er_source = Input_MIDI, er_sample_rate = 16000, er_channels = 1, er_active_midi_notes = [],
     er_observations = []\<rparr>"

abbreviation demo_played :: "PerformanceObservation list" where
  "demo_played \<equiv> er_observations (foldl (\<lambda>er call. recorder_step call er) demo_recorder demo_calls)"

lemma demo_ids_differ: "ids_differ demo_env demo_timeline"
proof -
  have "ev_onset_beat ` set (tm_events demo_timeline) = {0, 1}"
    using arg_cong [OF demo_timeline_onsets, of set] by auto
  moreover have "safe_id (float_repr demo_env 0) = ''0''" "safe_id (float_repr demo_env 1) = ''1''" by code_simp+
  ultimately show ?thesis
    by (simp add: ids_differ_def unique_column_def demo_timeline_ids inj_on_def) (simp add: demo_env_def)
qed

lemma demo_judged:
  "case new_performance_runtime demo_env demo_timeline [] None None 1 None None of
     Inl e \<Rightarrow> False
   | Inr rt \<Rightarrow>
       (case evaluate_expected_event_outcomes demo_env rt Input_MIDI demo_played of
          Inl e \<Rightarrow> False | Inr outs \<Rightarrow> map eo_result outs = [Event_MATCH, Event_MATCH])"
  by code_simp

lemma demo_runtime:
  obtains rt outs where "new_performance_runtime demo_env demo_timeline [] None None 1 None None = Inr rt"
    "evaluate_expected_event_outcomes demo_env rt Input_MIDI demo_played = Inr outs"
    "map eo_result outs = [Event_MATCH, Event_MATCH]"
  using demo_judged by (auto split: sum.splits)

theorem performance_evaluation_never_fails_witness:
  "\<exists>rt events outs. new_performance_runtime demo_env demo_timeline [] None None 1 None None = Inr rt \<and>
     expected_events_for_scope demo_env demo_timeline (rt_timeline rt) (rt_scope rt) = Inr events \<and>
     evaluate_expected_event_outcomes demo_env rt Input_MIDI demo_played = Inr outs \<and>
     map eo_expected_group_id outs = map (\<lambda>e. xg_id (xe_expected_group e)) events"
proof -
  obtain rt where rt: "new_performance_runtime demo_env demo_timeline [] None None 1 None None = Inr rt"
    by (rule demo_runtime)
  have er: "new_evidence_recorder Input_MIDI 16000 1 = Inr demo_recorder"
    by (simp add: new_evidence_recorder_def demo_recorder_def)
  have "length demo_played = 3" by code_simp
  then have "length demo_played \<le> 2 ^ 53" by simp
  from performance_evaluation_never_fails [OF demo_rounding demo_timeline_def demo_ids_differ rt er refl this] rt
  show ?thesis by blast
qed

theorem performance_judged_exactly_witness:
  "\<exists>pl scope evaluator outs. new_performance_evaluator demo_env demo_timeline pl scope 250 120 = Inr evaluator \<and>
     evaluate_midi demo_env evaluator demo_played = Inr outs \<and> map eo_result outs = [Event_MATCH, Event_MATCH] \<and>
     map eo_result outs = map (\<lambda>event. judged_result demo_env 120 (event_pitches event)
       (assigned_observations demo_env 250 (ev_events evaluator) demo_played (xg_id (xe_expected_group event))))
       (ev_events evaluator)"
proof -
  obtain rt outs where rt: "new_performance_runtime demo_env demo_timeline [] None None 1 None None = Inr rt"
      and outs: "evaluate_expected_event_outcomes demo_env rt Input_MIDI demo_played = Inr outs"
        "map eo_result outs = [Event_MATCH, Event_MATCH]"
    by (rule demo_runtime)
  then obtain evaluator where evaluator:
      "new_performance_evaluator demo_env demo_timeline (rt_timeline rt) (rt_scope rt) 250 120 = Inr evaluator"
      "evaluate_midi demo_env evaluator demo_played = Inr outs"
    by (auto simp: evaluate_expected_event_outcomes_def new_runtime_run(3) [OF rt]
        DEFAULT_MIDI_EVENT_ASSIGNMENT_WINDOW_MS_def DEFAULT_MIDI_CHORD_SIMULTANEITY_WINDOW_MS_def split: sum.splits)
  show ?thesis
    by (intro exI conjI) (rule evaluator(1), rule evaluator(2), rule outs(2),
      rule performance_judged_exactly [OF demo_rounding(1) demo_timeline_def evaluator])
qed

text \<open>C28. The time axis of a performance. The time of a beat never decreases along the score and stays between 0 and the
  duration of the piece, whatever the tempo changes; a beat before the first one has time 0.\<close>

theorem performance_time_bounds:
  assumes "float_rounding env" and "performance_timeline env timeline tempo_segments = Inr pl" and "a \<le> b"
  shows "0 \<le> beat_to_time_ms env pl a \<and> beat_to_time_ms env pl a \<le> beat_to_time_ms env pl b \<and>
    beat_to_time_ms env pl b \<le> nominal_duration_ms env pl \<and> (a \<le> 0 \<longrightarrow> beat_to_time_ms env pl a = beat_to_time_ms env pl 0)"
proof -
  have "a \<le> 0 \<Longrightarrow> max a 0 = max 0 0" by simp
  then have "a \<le> 0 \<longrightarrow> beat_to_time_ms env pl a = beat_to_time_ms env pl 0" unfolding beat_to_time_ms_def by simp
  with beat_to_time_mono [OF assms] show ?thesis by blast
qed

theorem performance_time_bounds_witness:
  "\<exists>pl. performance_timeline demo_env demo_timeline [\<lparr>ts_start_beat = 1, ts_bpm = 60\<rparr>] = Inr pl \<and>
     beat_to_time_ms demo_env pl (-1) = beat_to_time_ms demo_env pl 0 \<and>
     beat_to_time_ms demo_env pl (-1) \<le> beat_to_time_ms demo_env pl (1 / 2)"
proof -
  have "case performance_timeline demo_env demo_timeline [\<lparr>ts_start_beat = 1, ts_bpm = 60\<rparr>] of Inl _ \<Rightarrow> False | Inr _ \<Rightarrow> True"
    by code_simp
  then obtain pl where pl: "performance_timeline demo_env demo_timeline [\<lparr>ts_start_beat = 1, ts_bpm = 60\<rparr>] = Inr pl"
    by (auto split: sum.splits)
  have "(-1 :: rat) \<le> 1 / 2" by simp
  from performance_time_bounds [OF demo_rounding(1) pl this] pl show ?thesis by auto
qed

end
