(* ===== verification/Session_Runtime.thy ===== *)
theory Session_Runtime
  imports Step_Engine Performance_Evaluator
begin

text \<open>
  The runtimes of the active practice sessions, \<open>backend/app/processing/realtime/session_runtime.py\<close> and
  \<open>audio_buffer.py\<close>: a STEP or MIDI session around an alignment engine, a performance session around the performance
  runtime and the evidence recorder, and the registry that builds and keeps them. Reading a score is
  outside: \<open>score\<close> is the timeline that \<open>practice_score_timeline_from_musicxml\<close> returns, or its exception. A call
  returns its result and the state it leaves, also after an exception.
\<close>

section \<open>Exceptions\<close>

text \<open>Which exceptions \<open>except RuntimeError\<close> catches, and \<open>str(exc)\<close>.\<close>

fun is_runtime_error :: "performance_error \<Rightarrow> bool" where
  "is_runtime_error (PerformanceClockError s) = True"
| "is_runtime_error (PerformanceRuntimeError s) = True"
| "is_runtime_error (Score_timeline_error (RuntimeError s)) = True"
| "is_runtime_error e = False"

fun practice_error_text :: "practice_error \<Rightarrow> string" where
  "practice_error_text (ValueError s) = s"
| "practice_error_text (RuntimeError s) = s"
| "practice_error_text (PracticeScopeTargetNotFound g) = ''Unknown scoped practice start expected group: '' @ g"
| "practice_error_text PracticeScopeInvalidRange = ''Scoped practice end target must not be before the start target.''"
| "practice_error_text (KeyError s) = s"

fun error_text :: "performance_error \<Rightarrow> string" where
  "error_text (PerformanceTimelineError s) = s"
| "error_text (PerformanceScopeTargetNotFound g) = ''Practice scope target not found: '' @ g"
| "error_text (PerformanceScopeInvalidRange s) = s"
| "error_text (PerformanceClockError s) = s"
| "error_text (PerformanceValueError s) = s"
| "error_text (PerformanceRuntimeError s) = s"
| "error_text (Score_timeline_error e) = practice_error_text e"

section \<open>The audio buffer\<close>

definition max_chunks :: nat where "max_chunks = 512"

text \<open>A \<open>deque\<close> with \<open>maxlen\<close>: the oldest chunk makes room.\<close>

definition buffer_append :: "8 word list \<Rightarrow> 8 word list list \<Rightarrow> 8 word list list" where
  "buffer_append chunk chunks =
     (if chunk = [] then chunks
      else let longer = chunks @ [chunk] in drop (length longer - max_chunks) longer)"

definition buffer_pop_all :: "8 word list list \<Rightarrow> 8 word list list \<times> 8 word list list" where
  "buffer_pop_all chunks = (chunks, [])"

section \<open>Engines\<close>

datatype AlignmentEngine = Engine_MIDI MidiEngine | Engine_STEP StepEngine

record session_config =
  cf_session_id :: string
  cf_task_id :: string
  cf_state :: string
  cf_sample_rate :: int
  cf_channels :: int
  cf_frame_format :: string
  cf_progression_mode :: string
  cf_realtime_guidance :: string
  cf_evaluation_profile :: string
  cf_input_source :: string
  cf_start_expected_group_id :: "string option"
  cf_end_expected_group_id :: "string option"
  cf_runtime_kind :: string
  cf_websocket :: "int option"

definition no_playable_events :: practice_error where
  "no_playable_events = RuntimeError ''Practice score timeline contains no playable events.''"

text \<open>A constructor checks its arguments, then reads the score, then looks at what it read: when the score cannot be
  read, its exception comes after those of the arguments.\<close>

definition with_score ::
  "practice_error + PracticeScoreTimeline \<Rightarrow> (PracticeScoreTimeline \<Rightarrow> practice_error + 'e) \<Rightarrow> practice_error + 'e" where
  "with_score score build =
     (case score of
        Inr timeline \<Rightarrow> build timeline
      | Inl e \<Rightarrow> (case build empty_timeline of
          Inl c \<Rightarrow> if c = no_playable_events then Inl e else Inl c | Inr _ \<Rightarrow> Inl e))"

definition build_alignment_engine ::
  "practice_env \<Rightarrow> practice_error + PracticeScoreTimeline \<Rightarrow> bool \<Rightarrow> VerificationProvider option \<Rightarrow>
   'b session_config_scheme \<Rightarrow> practice_error + AlignmentEngine" where
  "build_alignment_engine env score has_factory requested cf =
     (if cf_input_source cf = ''MIDI''
      then (case with_score score (\<lambda>timeline. new_midi_engine env timeline (cf_progression_mode cf) (cf_input_source cf)
              (cf_start_expected_group_id cf) (cf_end_expected_group_id cf)) of
          Inl e \<Rightarrow> Inl e | Inr engine \<Rightarrow> Inr (Engine_MIDI engine))
      else
        let provider = (case requested of Some p \<Rightarrow> Some p | None \<Rightarrow> if has_factory then Some SERVER else None)
        in case provider of
             None \<Rightarrow> Inl (RuntimeError
               ''STEP_BY_STEP microphone runtime requires an explicit StepMicrophoneVerifier provider.'')
           | Some p \<Rightarrow>
               if p = BROWSER_LOCAL \<and> has_factory
               then Inl (RuntimeError
                 ''STEP_BY_STEP microphone runtime must use exactly one acoustic verification provider.'')
               else if p = SERVER \<and> \<not> has_factory
               then Inl (RuntimeError (''STEP_BY_STEP microphone runtime requires a StepMicrophoneVerifier. '' @
                 ''Configure a step_microphone_verifier_factory; legacy acoustic fallback is disabled.''))
               else (case with_score score (\<lambda>timeline. new_step_engine env timeline (cf_sample_rate cf)
                       (cf_channels cf) (cf_frame_format cf) (cf_progression_mode cf) (cf_realtime_guidance cf)
                       (cf_evaluation_profile cf) (cf_input_source cf) (cf_start_expected_group_id cf)
                       (cf_end_expected_group_id cf) (p = SERVER) p) of
                   Inl e \<Rightarrow> Inl e | Inr engine \<Rightarrow> Inr (Engine_STEP engine)))"

section \<open>Calls of an engine\<close>

type_synonym engine_answer = "(practice_error + AlignmentUpdate option) \<times> AlignmentEngine"

definition of_midi :: "(practice_error + AlignmentUpdate option) \<times> MidiEngine \<Rightarrow> engine_answer" where
  "of_midi r = (fst r, Engine_MIDI (snd r))"

definition of_step :: "(practice_error + AlignmentUpdate option) \<times> StepEngine \<Rightarrow> engine_answer" where
  "of_step r = (fst r, Engine_STEP (snd r))"

fun engine_ingest_audio ::
  "'a float_ops_scheme \<Rightarrow> string \<Rightarrow> (StepVerifierTarget \<Rightarrow> StepVerifierObservation option) \<Rightarrow> 8 word list \<Rightarrow>
   AlignmentEngine \<Rightarrow> engine_answer" where
  "engine_ingest_audio fl new_id observe chunk (Engine_MIDI st) =
     (Inl (RuntimeError ''MIDI practice sessions do not accept audio chunks.''), Engine_MIDI st)"
| "engine_ingest_audio fl new_id observe chunk (Engine_STEP st) = of_step (step_ingest_audio fl new_id observe chunk st)"

fun engine_ingest_midi_event ::
  "'a float_ops_scheme \<Rightarrow> string \<Rightarrow> bool \<Rightarrow> int \<Rightarrow> int \<Rightarrow> int \<Rightarrow> AlignmentEngine \<Rightarrow> engine_answer" where
  "engine_ingest_midi_event fl new_id is_note_on note_number velocity timestamp_ms (Engine_MIDI st) =
     of_midi (midi_ingest_event fl new_id is_note_on note_number velocity timestamp_ms st)"
| "engine_ingest_midi_event fl new_id is_note_on note_number velocity timestamp_ms (Engine_STEP st) =
     of_step (step_ingest_midi_event st)"

fun engine_skip :: "'a float_ops_scheme \<Rightarrow> string \<Rightarrow> AlignmentEngine \<Rightarrow> engine_answer" where
  "engine_skip fl new_id (Engine_MIDI st) = of_midi (midi_skip_current_expected_group fl new_id st)"
| "engine_skip fl new_id (Engine_STEP st) = of_step (step_skip_current_expected_group fl new_id st)"

fun engine_drain :: "AlignmentEngine \<Rightarrow> ResolvedPracticeAttempt list \<times> AlignmentEngine" where
  "engine_drain (Engine_MIDI st) = apsnd Engine_MIDI (midi_drain_resolved_practice_attempts st)"
| "engine_drain (Engine_STEP st) = apsnd Engine_STEP (step_drain_resolved_practice_attempts st)"

fun engine_finalize ::
  "'a float_ops_scheme \<Rightarrow> AlignmentReason \<Rightarrow> AlignmentEngine \<Rightarrow> ResolvedPracticeAttempt list \<times> AlignmentEngine" where
  "engine_finalize fl reason (Engine_MIDI st) = apsnd Engine_MIDI (midi_finalize_pending_practice_attempt fl reason st)"
| "engine_finalize fl reason (Engine_STEP st) = apsnd Engine_STEP (step_finalize_pending_practice_attempt st)"

fun engine_reset_input_buffer :: "AlignmentEngine \<Rightarrow> AlignmentEngine" where
  "engine_reset_input_buffer (Engine_MIDI st) = Engine_MIDI (midi_reset_input_buffer st)"
| "engine_reset_input_buffer (Engine_STEP st) = Engine_STEP (step_reset_input_buffer st)"

fun engine_close :: "'a float_ops_scheme \<Rightarrow> AlignmentEngine \<Rightarrow> AlignmentEngine" where
  "engine_close fl (Engine_MIDI st) = Engine_MIDI (midi_close fl st)"
| "engine_close fl (Engine_STEP st) = Engine_STEP (step_close st)"

fun engine_is_ready :: "AlignmentEngine \<Rightarrow> bool" where
  "engine_is_ready (Engine_MIDI st) = True"
| "engine_is_ready (Engine_STEP st) = (\<not> se_closed st)"

fun engine_input_health :: "AlignmentEngine \<Rightarrow> InputHealth" where
  "engine_input_health (Engine_MIDI st) = good_input_health"
| "engine_input_health (Engine_STEP st) = step_input_health st"

text \<open>\<open>getattr(engine, "verification_provider", None)\<close>.\<close>

fun engine_provider :: "AlignmentEngine \<Rightarrow> VerificationProvider option" where
  "engine_provider (Engine_MIDI st) = None"
| "engine_provider (Engine_STEP st) = Some (se_provider st)"

section \<open>A STEP session\<close>

record PracticeSessionRuntime = session_config +
  sr_audio_buffer :: "8 word list list"
  sr_engine :: AlignmentEngine
  sr_last_alignment :: "AlignmentUpdate option"
  sr_pending_alignment_updates :: int
  sr_is_ready_for_performance :: bool
  sr_pending_ready_notification :: bool

type_synonym step_answer = "(practice_error + AlignmentUpdate option) \<times> PracticeSessionRuntime"

text \<open>An alignment that an engine returned is remembered and counted.\<close>

definition took_alignment :: "PracticeSessionRuntime \<Rightarrow> engine_answer \<Rightarrow> step_answer" where
  "took_alignment sr answer =
     (case answer of
        (Inl e, engine) \<Rightarrow> (Inl e, sr\<lparr>sr_engine := engine\<rparr>)
      | (Inr None, engine) \<Rightarrow> (Inr None, sr\<lparr>sr_engine := engine\<rparr>)
      | (Inr (Some alignment), engine) \<Rightarrow>
          (Inr (Some alignment), sr\<lparr>sr_engine := engine, sr_last_alignment := Some alignment,
             sr_pending_alignment_updates := sr_pending_alignment_updates sr + 1\<rparr>))"

definition step_process_audio_chunk ::
  "'a float_ops_scheme \<Rightarrow> string \<Rightarrow> (StepVerifierTarget \<Rightarrow> StepVerifierObservation option) \<Rightarrow> 8 word list \<Rightarrow>
   PracticeSessionRuntime \<Rightarrow> step_answer" where
  "step_process_audio_chunk fl new_id observe chunk sr =
     (if cf_input_source sr \<noteq> ''MICROPHONE''
      then (Inl (RuntimeError ''This practice session does not accept audio input.''), sr)
      else
        let sr1 = sr\<lparr>sr_audio_buffer := buffer_append chunk (sr_audio_buffer sr)\<rparr>;
            (result, engine) = engine_ingest_audio fl new_id observe chunk (sr_engine sr1)
        in case result of
             Inl e \<Rightarrow> (Inl e, sr1\<lparr>sr_engine := engine\<rparr>)
           | Inr alignment \<Rightarrow>
               let sr2 = (if \<not> sr_is_ready_for_performance sr1 \<and> engine_is_ready engine
                     then sr1\<lparr>sr_is_ready_for_performance := True, sr_pending_ready_notification := True\<rparr> else sr1)
               in took_alignment sr2 (Inr alignment, engine))"

definition step_process_midi_event ::
  "'a float_ops_scheme \<Rightarrow> string \<Rightarrow> bool \<Rightarrow> int \<Rightarrow> int \<Rightarrow> int \<Rightarrow> PracticeSessionRuntime \<Rightarrow> step_answer" where
  "step_process_midi_event fl new_id is_note_on note_number velocity timestamp_ms sr =
     (if cf_input_source sr \<noteq> ''MIDI''
      then (Inl (RuntimeError ''This practice session does not accept MIDI input.''), sr)
      else took_alignment sr
        (engine_ingest_midi_event fl new_id is_note_on note_number velocity timestamp_ms (sr_engine sr)))"

definition step_process_observation ::
  "'a float_ops_scheme \<Rightarrow> string \<Rightarrow> StepVerifierObservation \<Rightarrow> PracticeSessionRuntime \<Rightarrow> step_answer" where
  "step_process_observation fl new_id observation sr =
     (case sr_engine sr of
        Engine_MIDI st \<Rightarrow> (Inl (RuntimeError ''This practice session does not accept verifier observations.''), sr)
      | Engine_STEP st \<Rightarrow> took_alignment sr (of_step (step_ingest_observation fl new_id observation st)))"

definition runtime_verifier_target :: "PracticeSessionRuntime \<Rightarrow> StepVerifierTarget option" where
  "runtime_verifier_target sr =
     (case sr_engine sr of Engine_MIDI st \<Rightarrow> None | Engine_STEP st \<Rightarrow> current_step_verifier_target st)"

definition publishes_step_verifier_targets :: "PracticeSessionRuntime \<Rightarrow> bool" where
  "publishes_step_verifier_targets sr \<longleftrightarrow> engine_provider (sr_engine sr) = Some BROWSER_LOCAL"

definition accepts_binary_audio :: "PracticeSessionRuntime \<Rightarrow> bool" where
  "accepts_binary_audio sr \<longleftrightarrow> engine_provider (sr_engine sr) \<noteq> Some BROWSER_LOCAL"

definition consume_ready_notification :: "PracticeSessionRuntime \<Rightarrow> bool \<times> PracticeSessionRuntime" where
  "consume_ready_notification sr =
     (if \<not> sr_pending_ready_notification sr then (False, sr) else (True, sr\<lparr>sr_pending_ready_notification := False\<rparr>))"

definition runtime_drain :: "PracticeSessionRuntime \<Rightarrow> ResolvedPracticeAttempt list \<times> PracticeSessionRuntime" where
  "runtime_drain sr = (let (attempts, engine) = engine_drain (sr_engine sr) in (attempts, sr\<lparr>sr_engine := engine\<rparr>))"

definition runtime_finalize ::
  "'a float_ops_scheme \<Rightarrow> AlignmentReason \<Rightarrow> PracticeSessionRuntime \<Rightarrow>
   ResolvedPracticeAttempt list \<times> PracticeSessionRuntime" where
  "runtime_finalize fl reason sr =
     (let (attempts, engine) = engine_finalize fl reason (sr_engine sr) in (attempts, sr\<lparr>sr_engine := engine\<rparr>))"

definition runtime_skip :: "'a float_ops_scheme \<Rightarrow> string \<Rightarrow> PracticeSessionRuntime \<Rightarrow> step_answer" where
  "runtime_skip fl new_id sr = took_alignment sr (engine_skip fl new_id (sr_engine sr))"

definition runtime_reset_input_buffer :: "PracticeSessionRuntime \<Rightarrow> PracticeSessionRuntime" where
  "runtime_reset_input_buffer sr =
     sr\<lparr>sr_audio_buffer := [], sr_engine := engine_reset_input_buffer (sr_engine sr)\<rparr>"

definition is_scope_completed :: "PracticeSessionRuntime \<Rightarrow> bool" where
  "is_scope_completed sr \<longleftrightarrow> (case sr_last_alignment sr of None \<Rightarrow> False | Some a \<Rightarrow> au_scope_completed a)"

definition should_persist_alignment :: "PracticeSessionRuntime \<Rightarrow> bool" where
  "should_persist_alignment sr \<longleftrightarrow> sr_last_alignment sr \<noteq> None \<and> sr_pending_alignment_updates sr \<ge> 5"

definition mark_alignment_persisted :: "PracticeSessionRuntime \<Rightarrow> PracticeSessionRuntime" where
  "mark_alignment_persisted sr = sr\<lparr>sr_pending_alignment_updates := 0\<rparr>"

definition step_runtime_close :: "'a float_ops_scheme \<Rightarrow> PracticeSessionRuntime \<Rightarrow> PracticeSessionRuntime" where
  "step_runtime_close fl sr = sr\<lparr>sr_audio_buffer := [], sr_engine := engine_close fl (sr_engine sr)\<rparr>"

section \<open>A performance session\<close>

record PerformanceSessionRuntime = session_config +
  pr_performance_runtime :: PerformanceRuntime
  pr_evidence_recorder :: PerformanceEvidenceRecorder
  pr_resume_count_in_started_at_ms :: "int option"
  pr_resume_count_in_duration_ms :: rat
  pr_resume_count_in_pulses :: rat

type_synonym sync_answer = "(performance_error + PerformanceClockSync) \<times> PerformanceSessionRuntime"

text \<open>A call of the performance runtime.\<close>

definition on_performance ::
  "(PerformanceRuntime \<Rightarrow> (performance_error + PerformanceClockSync) \<times> PerformanceRuntime) \<Rightarrow>
   PerformanceSessionRuntime \<Rightarrow> sync_answer" where
  "on_performance call pr =
     (let (result, rt) = call (pr_performance_runtime pr) in (result, pr\<lparr>pr_performance_runtime := rt\<rparr>))"

definition performance_runtime_sync ::
  "'a float_ops_scheme \<Rightarrow> int \<Rightarrow> PerformanceSessionRuntime \<Rightarrow> PerformanceClockSync \<times> PerformanceSessionRuntime" where
  "performance_runtime_sync fl now_ms pr =
     (let (sync, rt) = runtime_sync fl now_ms (pr_performance_runtime pr) in (sync, pr\<lparr>pr_performance_runtime := rt\<rparr>))"

definition no_resume_count_in :: "PerformanceSessionRuntime \<Rightarrow> PerformanceSessionRuntime" where
  "no_resume_count_in pr = pr\<lparr>pr_resume_count_in_started_at_ms := None, pr_resume_count_in_duration_ms := 0,
     pr_resume_count_in_pulses := 0\<rparr>"

definition start_performance :: "'a float_ops_scheme \<Rightarrow> int \<Rightarrow> PerformanceSessionRuntime \<Rightarrow> sync_answer" where
  "start_performance fl now_ms = on_performance (runtime_start fl now_ms)"

definition pause_performance :: "'a float_ops_scheme \<Rightarrow> int \<Rightarrow> PerformanceSessionRuntime \<Rightarrow> sync_answer" where
  "pause_performance fl now_ms pr =
     (if pr_resume_count_in_started_at_ms pr \<noteq> None
      then let (sync, pr') = performance_runtime_sync fl now_ms (no_resume_count_in pr) in (Inr sync, pr')
      else on_performance (runtime_pause fl now_ms) pr)"

text \<open>How long a count-in has lasted.\<close>

definition count_in_elapsed_ms :: "int \<Rightarrow> int option \<Rightarrow> int" where
  "count_in_elapsed_ms now_ms started = (case started of None \<Rightarrow> 0 | Some s \<Rightarrow> max 0 (now_ms - s))"

definition resume_count_in_sync ::
  "'a float_ops_scheme \<Rightarrow> int \<Rightarrow> PerformanceClockSync \<Rightarrow> PerformanceSessionRuntime \<Rightarrow> PerformanceClockSync" where
  "resume_count_in_sync fl now_ms paused_sync pr =
     (let elapsed_ms = nearest fl (of_int (count_in_elapsed_ms now_ms (pr_resume_count_in_started_at_ms pr)));
          duration = pr_resume_count_in_duration_ms pr;
          remaining_ms = max 0 (fl_sub fl duration elapsed_ms);
          remaining_pulses = (if duration \<le> 0 then 0
            else fl_div fl (fl_mul fl (pr_resume_count_in_pulses pr) remaining_ms) duration)
      in paused_sync\<lparr>sy_state := COUNT_IN, sy_count_in_remaining_ms := remaining_ms,
           sy_count_in_remaining_pulses := remaining_pulses, sy_scope_completed := False\<rparr>)"

definition resume_performance :: "practice_env \<Rightarrow> int \<Rightarrow> PerformanceSessionRuntime \<Rightarrow> sync_answer" where
  "resume_performance env now_ms pr =
     (if \<not> paused_from_running (rt_clock (pr_performance_runtime pr))
      then on_performance (runtime_resume env now_ms) pr
      else
        let (paused_sync, pr1) = performance_runtime_sync env now_ms pr;
            (duration_ms, pulses) = count_in_for_beat env (pr_performance_runtime pr1) (sy_musical_beat paused_sync)
        in if duration_ms \<le> 0 \<or> pulses \<le> 0 then on_performance (runtime_resume env now_ms) pr1
           else
             let pr2 = pr1\<lparr>pr_resume_count_in_started_at_ms := Some now_ms,
                   pr_resume_count_in_duration_ms := duration_ms, pr_resume_count_in_pulses := pulses\<rparr>
             in (Inr (resume_count_in_sync env now_ms paused_sync pr2), pr2))"

definition performance_sync :: "'a float_ops_scheme \<Rightarrow> int \<Rightarrow> PerformanceSessionRuntime \<Rightarrow> sync_answer" where
  "performance_sync fl now_ms pr =
     (case pr_resume_count_in_started_at_ms pr of
        None \<Rightarrow> let (sync, pr1) = performance_runtime_sync fl now_ms pr in (Inr sync, pr1)
      | Some started \<Rightarrow>
          let (paused_sync, pr1) = performance_runtime_sync fl now_ms pr
          in if of_int (count_in_elapsed_ms now_ms (Some started)) < pr_resume_count_in_duration_ms pr1
             then (Inr (resume_count_in_sync fl now_ms paused_sync pr1), pr1)
             else on_performance (runtime_resume fl now_ms) (no_resume_count_in pr1))"

definition performance_timeline_projection ::
  "'a float_ops_scheme \<Rightarrow> PerformanceSessionRuntime \<Rightarrow> PerformanceTimelineProjection" where
  "performance_timeline_projection fl pr = timeline_projection fl (pr_performance_runtime pr)"

definition performance_observations :: "PerformanceSessionRuntime \<Rightarrow> PerformanceObservation list" where
  "performance_observations pr = er_observations (pr_evidence_recorder pr)"

type_synonym observation_answer = "(performance_error + PerformanceObservation option) \<times> PerformanceSessionRuntime"

text \<open>Evidence counts while the clock runs.\<close>

definition record_while_running ::
  "'a float_ops_scheme \<Rightarrow> int \<Rightarrow>
   (rat \<Rightarrow> PerformanceEvidenceRecorder \<Rightarrow> (performance_error + PerformanceObservation option) \<times> PerformanceEvidenceRecorder) \<Rightarrow>
   PerformanceSessionRuntime \<Rightarrow> observation_answer" where
  "record_while_running fl now_ms recorded pr =
     (case performance_sync fl now_ms pr of
        (Inl e, pr1) \<Rightarrow> (Inl e, pr1)
      | (Inr sync, pr1) \<Rightarrow>
          if sy_state sync \<noteq> RUNNING then (Inr None, pr1)
          else let (result, er) = recorded (sy_performance_time_ms sync) (pr_evidence_recorder pr1)
               in (result, pr1\<lparr>pr_evidence_recorder := er\<rparr>))"

definition performance_process_audio_chunk ::
  "'a float_ops_scheme \<Rightarrow> 8 word list \<Rightarrow> int \<Rightarrow> PerformanceSessionRuntime \<Rightarrow> observation_answer" where
  "performance_process_audio_chunk fl chunk now_ms pr =
     (if cf_input_source pr \<noteq> ''MICROPHONE''
      then (Inl (PerformanceRuntimeError ''This performance session does not accept audio input.''), pr)
      else record_while_running fl now_ms (record_audio_chunk fl chunk now_ms) pr)"

definition performance_process_midi_event ::
  "'a float_ops_scheme \<Rightarrow> string \<Rightarrow> int \<Rightarrow> int \<Rightarrow> int \<Rightarrow> PerformanceSessionRuntime \<Rightarrow> observation_answer" where
  "performance_process_midi_event fl event_type note_number velocity input_session_time_ms pr =
     (if cf_input_source pr \<noteq> ''MIDI''
      then (Inl (PerformanceRuntimeError ''This performance session does not accept MIDI input.''), pr)
      else record_while_running fl input_session_time_ms
        (record_midi_event event_type note_number velocity input_session_time_ms) pr)"

definition finalize_performance_observations ::
  "'a float_ops_scheme \<Rightarrow> int \<Rightarrow> PerformanceSessionRuntime \<Rightarrow>
   (performance_error + PerformanceObservation list) \<times> PerformanceSessionRuntime" where
  "finalize_performance_observations fl now_ms pr =
     (case performance_sync fl now_ms pr of
        (Inl e, pr1) \<Rightarrow> (Inl e, pr1)
      | (Inr sync, pr1) \<Rightarrow>
          let (result, er) = finish_open_midi_notes now_ms (pr_evidence_recorder pr1)
          in (result, pr1\<lparr>pr_evidence_recorder := er\<rparr>))"

definition input_source_named :: "string \<Rightarrow> performance_error + PracticeInputSource" where
  "input_source_named name =
     (if name = ''MIDI'' then Inr Input_MIDI else if name = ''MICROPHONE'' then Inr Input_MICROPHONE
      else Inl (PerformanceValueError (name @ '' is not a valid PerformanceObservationSource'')))"

definition evaluate_session :: "'a float_ops_scheme \<Rightarrow> PerformanceSessionRuntime \<Rightarrow>
   performance_error + PerformanceExpectedEventOutcome list" where
  "evaluate_session fl pr =
     (case input_source_named (cf_input_source pr) of
        Inl e \<Rightarrow> Inl e
      | Inr source \<Rightarrow>
          evaluate_expected_event_outcomes fl (pr_performance_runtime pr) source (performance_observations pr))"

section \<open>The registry\<close>

datatype PracticeRuntime = Step_runtime PracticeSessionRuntime | Performance_runtime PerformanceSessionRuntime

type_synonym runtime_registry = "(string \<times> PracticeRuntime) list"

fun runtime_config :: "PracticeRuntime \<Rightarrow> session_config" where
  "runtime_config (Step_runtime sr) = session_config.truncate sr"
| "runtime_config (Performance_runtime pr) = session_config.truncate pr"

fun set_runtime_state :: "string \<Rightarrow> PracticeRuntime \<Rightarrow> PracticeRuntime" where
  "set_runtime_state state (Step_runtime sr) = Step_runtime (sr\<lparr>cf_state := state\<rparr>)"
| "set_runtime_state state (Performance_runtime pr) = Performance_runtime (pr\<lparr>cf_state := state\<rparr>)"

definition build_performance_runtime ::
  "practice_env \<Rightarrow> practice_error + PracticeScoreTimeline \<Rightarrow> string option \<Rightarrow> string option \<Rightarrow>
   performance_error + PerformanceRuntime" where
  "build_performance_runtime env score start_id end_id =
     (case score of
        Inl e \<Rightarrow> Inl (Score_timeline_error e)
      | Inr timeline \<Rightarrow> new_performance_runtime env timeline [] start_id end_id 1 None None)"

definition new_performance_session ::
  "practice_env \<Rightarrow> practice_error + PracticeScoreTimeline \<Rightarrow> session_config \<Rightarrow>
   performance_error + PerformanceSessionRuntime" where
  "new_performance_session env score cf =
     (case build_performance_runtime env score (cf_start_expected_group_id cf) (cf_end_expected_group_id cf) of
        Inl e \<Rightarrow> Inl e
      | Inr rt \<Rightarrow>
          (case input_source_named (cf_input_source cf) of
             Inl e \<Rightarrow> Inl e
           | Inr source \<Rightarrow>
               (case new_evidence_recorder source (cf_sample_rate cf) (cf_channels cf) of
                  Inl e \<Rightarrow> Inl e
                | Inr er \<Rightarrow> Inr (session_config.extend cf
                    (PerformanceSessionRuntime.fields rt er None 0 0)))))"

definition new_step_session ::
  "practice_env \<Rightarrow> practice_error + PracticeScoreTimeline \<Rightarrow> bool \<Rightarrow> VerificationProvider option \<Rightarrow> session_config \<Rightarrow>
   performance_error + PracticeSessionRuntime" where
  "new_step_session env score has_factory provider cf =
     (case build_alignment_engine env score has_factory provider cf of
        Inl e \<Rightarrow> Inl (Score_timeline_error e)
      | Inr engine \<Rightarrow> Inr (session_config.extend cf (PracticeSessionRuntime.fields [] engine None 0 True True)))"

definition put_runtime :: "string \<Rightarrow> PracticeRuntime \<Rightarrow> runtime_registry \<Rightarrow> runtime_registry" where
  "put_runtime session_id runtime registry = AList.update session_id runtime registry"

definition register_runtime ::
  "practice_env \<Rightarrow> practice_error + PracticeScoreTimeline \<Rightarrow> bool \<Rightarrow> VerificationProvider option \<Rightarrow> session_config \<Rightarrow>
   runtime_registry \<Rightarrow> (performance_error + PracticeRuntime) \<times> runtime_registry" where
  "register_runtime env score has_factory provider cf registry =
     (let built = (if cf_runtime_kind cf = ''FIXED_CLOCK_PERFORMANCE''
            then if cf_progression_mode cf \<noteq> ''CONTINUOUS'' \<or> cf_realtime_guidance cf \<noteq> ''STATUS_ONLY'' \<or>
                 cf_evaluation_profile cf \<noteq> ''PERFORMANCE''
              then Inl (PerformanceRuntimeError
                ''Fixed-clock performance runtime requires canonical Performance config.'')
              else map_sum id Performance_runtime (new_performance_session env score cf)
            else if cf_runtime_kind cf \<noteq> ''STEP_BY_STEP''
            then Inl (PerformanceRuntimeError (''Unsupported practice runtime kind: '' @ cf_runtime_kind cf))
            else if cf_progression_mode cf \<noteq> ''WAIT_FOR_NOTE'' \<or> cf_realtime_guidance cf \<noteq> ''GUIDED'' \<or>
              cf_evaluation_profile cf \<noteq> ''LEARNING''
            then Inl (PerformanceRuntimeError ''Step-by-step runtime requires canonical learning config.'')
            else map_sum id Step_runtime (new_step_session env score has_factory provider cf))
      in case built of
           Inl e \<Rightarrow> (Inl e, registry)
         | Inr runtime \<Rightarrow> (Inr runtime, put_runtime (cf_session_id cf) runtime registry))"

definition get_runtime :: "string \<Rightarrow> runtime_registry \<Rightarrow> PracticeRuntime option" where
  "get_runtime session_id registry = map_of registry session_id"

text \<open>What is released is closed; nothing else refers to it.\<close>

fun close_runtime :: "'a float_ops_scheme \<Rightarrow> PracticeRuntime \<Rightarrow> PracticeRuntime" where
  "close_runtime fl (Step_runtime sr) = Step_runtime (step_runtime_close fl sr)"
| "close_runtime fl (Performance_runtime pr) = Performance_runtime pr"

definition release_runtime ::
  "'a float_ops_scheme \<Rightarrow> string \<Rightarrow> runtime_registry \<Rightarrow> PracticeRuntime option \<times> runtime_registry" where
  "release_runtime fl session_id registry =
     (map_option (close_runtime fl) (get_runtime session_id registry), AList.delete session_id registry)"

lemma registry_lookup [simp]:
  "get_runtime i (put_runtime j runtime registry) = (if i = j then Some runtime else get_runtime i registry)"
  "get_runtime i (snd (release_runtime fl j registry)) = (if i = j then None else get_runtime i registry)"
  by (simp_all add: get_runtime_def put_runtime_def release_runtime_def update_conv' delete_conv')

end
