(* ===== verification/Practice_Summary.thy ===== *)
theory Practice_Summary
  imports Performance_Evidence
begin

text \<open>
  The summary of a practice session, \<open>backend/app/processing/reports/practice_session_summary.py\<close> with the scoring
  policy \<open>practice_scoring_policy.py\<close>: what a session's attempts, or the outcomes of a performance, amount to, as the
  JSON value that the service stores.
\<close>

section \<open>Scoring policy\<close>

definition PRACTICE_SESSION_SUMMARY_SCORING_POLICY_VERSION :: string where
  "PRACTICE_SESSION_SUMMARY_SCORING_POLICY_VERSION = ''practice-session-summary-scoring-v1''"

definition is_scorable_attempt :: "PracticeAttempt \<Rightarrow> bool" where
  "is_scorable_attempt a \<longleftrightarrow> pa_completion_status a = Attempt_COMPLETED \<and> pa_result a \<noteq> Result_SKIPPED"

definition completed_target_count :: "(string \<times> PracticeAttempt list) list \<Rightarrow> nat" where
  "completed_target_count by_target =
     length (filter (\<lambda>(target, attempts). list_ex (\<lambda>a. pa_result a = Result_MATCH) attempts) by_target)"

section \<open>Targets\<close>

record SummaryTarget =
  tg_expected_group_id :: string
  tg_measure_numbers :: "string list"
  tg_render_note_ids :: "string list"
  tg_confirmed_correct_render_note_ids :: "string list"
  tg_confirmed_error_render_note_ids :: "string list"
  tg_missing_pitches :: "string list"
  tg_unexpected_pitches :: "string list"
  tg_attempt_count :: nat
  tg_scorable_attempt_count :: nat
  tg_interrupted_attempt_count :: nat
  tg_skipped_attempt_count :: nat
  tg_matched_attempt_count :: nat
  tg_partial_attempt_count :: nat
  tg_mismatch_attempt_count :: nat
  tg_completed :: bool
  tg_completion_status :: string
  tg_last_result :: string
  tg_last_confidence :: rat

definition attempt_target_id :: "PracticeAttempt \<Rightarrow> string" where
  "attempt_target_id a =
     (case pa_expected_group_id a of
        Some g \<Rightarrow> if g = [] then ''attempt:'' @ str_of_int (pa_attempt_index a) else g
      | None \<Rightarrow> ''attempt:'' @ str_of_int (pa_attempt_index a))"

definition attempts_by_target :: "PracticeAttempt list \<Rightarrow> (string \<times> PracticeAttempt list) list" where
  "attempts_by_target attempts = group_into attempt_target_id attempts"

text \<open>\<open>str(item)\<close> of an item that is not a string does not occur: the service writes lists of strings.\<close>

definition json_string_list :: "json_value option \<Rightarrow> string list" where
  "json_string_list value =
     (case value of
        Some (JS_list items) \<Rightarrow> List.map_filter (\<lambda>v. case v of JS_string s \<Rightarrow> Some s | _ \<Rightarrow> None) items
      | _ \<Rightarrow> [])"

definition unique_attempt_strings :: "(PracticeAttempt \<Rightarrow> json_value option) \<Rightarrow> PracticeAttempt list \<Rightarrow> string list" where
  "unique_attempt_strings column attempts = fromkeys (concat (map (\<lambda>a. json_string_list (column a)) attempts))"

definition count_result :: "PracticeAttemptResult \<Rightarrow> PracticeAttempt list \<Rightarrow> nat" where
  "count_result r attempts = length (filter (\<lambda>a. pa_result a = r) attempts)"

definition interrupted_count :: "PracticeAttempt list \<Rightarrow> nat" where
  "interrupted_count attempts = length (filter (\<lambda>a. pa_completion_status a \<noteq> Attempt_COMPLETED) attempts)"

definition target_payload :: "'a float_ops_scheme \<Rightarrow> string \<times> PracticeAttempt list \<Rightarrow> SummaryTarget" where
  "target_payload fl item =
     (let (target_id, attempts) = item;
          scorable = filter is_scorable_attempt attempts;
          last_attempt = last attempts;
          completed = list_ex (\<lambda>a. pa_result a = Result_MATCH) scorable
      in \<lparr>tg_expected_group_id = target_id,
          tg_measure_numbers = unique_attempt_strings pa_measure_numbers attempts,
          tg_render_note_ids = unique_attempt_strings pa_render_note_ids attempts,
          tg_confirmed_correct_render_note_ids = [], tg_confirmed_error_render_note_ids = [], tg_missing_pitches = [],
          tg_unexpected_pitches = [], tg_attempt_count = length attempts, tg_scorable_attempt_count = length scorable,
          tg_interrupted_attempt_count = interrupted_count attempts,
          tg_skipped_attempt_count = count_result Result_SKIPPED attempts,
          tg_matched_attempt_count = count_result Result_MATCH scorable,
          tg_partial_attempt_count = count_result Result_PARTIAL scorable,
          tg_mismatch_attempt_count = count_result Result_MISMATCH scorable, tg_completed = completed,
          tg_completion_status = (if completed then ''completed'' else ''incomplete''),
          tg_last_result = attempt_result_value (pa_result last_attempt),
          tg_last_confidence = py_round fl 3 (pa_confidence last_attempt)\<rparr>)"

definition target_payloads :: "'a float_ops_scheme \<Rightarrow> PracticeAttempt list \<Rightarrow> SummaryTarget list" where
  "target_payloads fl attempts =
     map (target_payload fl) (sort_key (\<lambda>item. pa_attempt_index (hd (snd item))) (attempts_by_target attempts))"

section \<open>Problem measures\<close>

record SummaryMeasure =
  ms_measure_number :: string
  ms_target_count :: nat
  ms_completed_target_count :: nat
  ms_incomplete_target_count :: nat
  ms_attempt_count :: nat
  ms_scorable_attempt_count :: nat
  ms_interrupted_attempt_count :: nat
  ms_skipped_attempt_count :: nat
  ms_partial_attempt_count :: nat
  ms_mismatch_attempt_count :: nat
  ms_average_confidence :: "rat option"

definition measure_payload :: "'a float_ops_scheme \<Rightarrow> string \<times> SummaryTarget list \<Rightarrow> SummaryMeasure" where
  "measure_payload fl item =
     (let (number, targets) = item;
          completed = length (filter tg_completed targets);
          total = (\<lambda>f :: SummaryTarget \<Rightarrow> nat. sum_list (map f targets));
          confidences = map tg_last_confidence (filter (\<lambda>t. tg_scorable_attempt_count t > 0) targets)
      in \<lparr>ms_measure_number = number, ms_target_count = length targets, ms_completed_target_count = completed,
          ms_incomplete_target_count = length targets - completed, ms_attempt_count = total tg_attempt_count,
          ms_scorable_attempt_count = total tg_scorable_attempt_count,
          ms_interrupted_attempt_count = total tg_interrupted_attempt_count,
          ms_skipped_attempt_count = total tg_skipped_attempt_count,
          ms_partial_attempt_count = total tg_partial_attempt_count,
          ms_mismatch_attempt_count = total tg_mismatch_attempt_count,
          ms_average_confidence = rounded_average fl confidences\<rparr>)"

text \<open>The tuples \<open>(0, n)\<close> and \<open>(1, s)\<close>.\<close>

definition measure_sort_key :: "string \<Rightarrow> nat \<times> int \<times> string" where
  "measure_sort_key number = (case py_int 10 number of Some n \<Rightarrow> (0, n, []) | None \<Rightarrow> (1, 0, number))"

definition target_measures :: "SummaryTarget \<Rightarrow> string list" where
  "target_measures t = (if tg_measure_numbers t = [] then [''unknown''] else tg_measure_numbers t)"

definition targets_by_measure :: "SummaryTarget list \<Rightarrow> (string \<times> SummaryTarget list) list" where
  "targets_by_measure targets =
     foldl (\<lambda>d (number, t). dict_append number t d) []
       (concat (map (\<lambda>t. map (\<lambda>number. (number, t)) (target_measures t)) targets))"

definition problem_measure_payloads :: "'a float_ops_scheme \<Rightarrow> SummaryTarget list \<Rightarrow> SummaryMeasure list" where
  "problem_measure_payloads fl targets =
     sort_key (\<lambda>ms. measure_sort_key (ms_measure_number ms)) (map (measure_payload fl) (targets_by_measure targets))"

section \<open>Metrics of attempts\<close>

definition ratio :: "'a float_ops_scheme \<Rightarrow> nat \<Rightarrow> nat \<Rightarrow> json_value" where
  "ratio fl n m = (if m = 0 then JS_null else JS_float (py_round fl 3 (fl_div fl (of_nat n) (of_nat m))))"

definition js_nat :: "nat \<Rightarrow> json_value" where "js_nat n = JS_int (int n)"

definition targets_with :: "(PracticeAttempt \<Rightarrow> bool) \<Rightarrow> (string \<times> PracticeAttempt list) list \<Rightarrow> nat" where
  "targets_with p by_target = length (filter (\<lambda>(target, attempts). list_ex p attempts) by_target)"

definition attempt_metrics :: "'a float_ops_scheme \<Rightarrow> PracticeAttempt list \<Rightarrow> (string \<times> json_value) list" where
  "attempt_metrics fl attempts =
     (let scorable = filter is_scorable_attempt attempts;
          by_target = attempts_by_target attempts;
          scorable_by_target = attempts_by_target scorable;
          completed = completed_target_count by_target;
          scorable_completed = completed_target_count scorable_by_target
      in [(''scoring_policy_version'', JS_string PRACTICE_SESSION_SUMMARY_SCORING_POLICY_VERSION),
          (''attempt_count'', js_nat (length attempts)),
          (''scorable_attempt_count'', js_nat (length scorable)),
          (''interrupted_attempts'', js_nat (interrupted_count attempts)),
          (''skipped_attempts'', js_nat (count_result Result_SKIPPED attempts)),
          (''matched_attempts'', js_nat (count_result Result_MATCH scorable)),
          (''partial_attempts'', js_nat (count_result Result_PARTIAL scorable)),
          (''mismatch_attempts'', js_nat (count_result Result_MISMATCH scorable)),
          (''uncertain_attempts'', js_nat (count_result Result_UNCERTAIN scorable)),
          (''match_rate'', ratio fl (count_result Result_MATCH scorable) (length scorable)),
          (''scoring_coverage'', ratio fl (length scorable) (length attempts)),
          (''target_count'', js_nat (length by_target)),
          (''scorable_target_count'', js_nat (length scorable_by_target)),
          (''completed_targets'', js_nat completed),
          (''scorable_completed_targets'', js_nat scorable_completed),
          (''interrupted_target_count'',
             js_nat (targets_with (\<lambda>a. pa_completion_status a \<noteq> Attempt_COMPLETED) by_target)),
          (''targets_with_partial'', js_nat (targets_with (\<lambda>a. pa_result a = Result_PARTIAL) scorable_by_target)),
          (''targets_with_mismatch'', js_nat (targets_with (\<lambda>a. pa_result a = Result_MISMATCH) scorable_by_target)),
          (''target_completion_rate'', ratio fl completed (length by_target)),
          (''scorable_target_completion_rate'', ratio fl scorable_completed (length scorable_by_target))])"

section \<open>Outcomes of a performance\<close>

fun event_result_value :: "PerformanceExpectedEventResult \<Rightarrow> string" where
  "event_result_value Event_MATCH = ''MATCH''"
| "event_result_value Event_PARTIAL = ''PARTIAL''"
| "event_result_value Event_MISMATCH = ''MISMATCH''"
| "event_result_value Event_UNCERTAIN = ''UNCERTAIN''"
| "event_result_value NOT_OBSERVED = ''NOT_OBSERVED''"

definition strikes_with ::
  "PerformanceExpectedStrikeResult \<Rightarrow> PerformanceExpectedEventOutcome \<Rightarrow> PerformanceExpectedStrikeOutcome list" where
  "strikes_with r out = filter (\<lambda>s. so_result s = r) (eo_expected_strike_outcomes out)"

definition performance_target_payload :: "'a float_ops_scheme \<Rightarrow> PerformanceExpectedEventOutcome \<Rightarrow> SummaryTarget" where
  "performance_target_payload fl out =
     (let matched = (eo_result out = Event_MATCH); flag = (\<lambda>b. if b then 1 else 0 :: nat)
      in \<lparr>tg_expected_group_id = eo_expected_group_id out, tg_measure_numbers = eo_measure_numbers out,
          tg_render_note_ids = eo_render_note_ids out,
          tg_confirmed_correct_render_note_ids = concat (map so_render_note_ids (strikes_with MATCHED out)),
          tg_confirmed_error_render_note_ids = concat (map so_render_note_ids (strikes_with MISSING out)),
          tg_missing_pitches = map so_pitch (strikes_with MISSING out),
          tg_unexpected_pitches = eo_unexpected_pitches out, tg_attempt_count = 1,
          tg_scorable_attempt_count = flag (eo_result out \<noteq> NOT_OBSERVED), tg_interrupted_attempt_count = 0,
          tg_skipped_attempt_count = 0, tg_matched_attempt_count = flag matched,
          tg_partial_attempt_count = flag (eo_result out = Event_PARTIAL),
          tg_mismatch_attempt_count = flag (eo_result out = Event_MISMATCH), tg_completed = matched,
          tg_completion_status = (if matched then ''completed'' else ''incomplete''),
          tg_last_result = event_result_value (eo_result out),
          tg_last_confidence = py_round fl 3 (eo_confidence out)\<rparr>)"

definition targets_with_confirmed_issues :: "SummaryTarget list \<Rightarrow> SummaryTarget list" where
  "targets_with_confirmed_issues targets =
     filter (\<lambda>t. tg_scorable_attempt_count t > 0 \<and> (tg_partial_attempt_count t > 0 \<or> tg_mismatch_attempt_count t > 0))
       targets"

definition confirmed_correct_strike_count :: "PerformanceExpectedEventOutcome list \<Rightarrow> nat" where
  "confirmed_correct_strike_count outs = sum_list (map (\<lambda>out. length (strikes_with MATCHED out)) outs)"

definition missing_strike_count :: "PerformanceExpectedEventOutcome list \<Rightarrow> nat" where
  "missing_strike_count outs = sum_list (map (\<lambda>out. length (strikes_with MISSING out)) outs)"

definition unexpected_pitch_count :: "PerformanceExpectedEventOutcome list \<Rightarrow> nat" where
  "unexpected_pitch_count outs = sum_list (map (\<lambda>out. length (eo_unexpected_pitches out)) outs)"

section \<open>The payload\<close>

fun access_origin_value :: "AccessOrigin \<Rightarrow> string" where
  "access_origin_value Access_OWNER = ''OWNER''"
| "access_origin_value Access_MEMBERSHIP = ''MEMBERSHIP''"
| "access_origin_value Access_SHARE = ''SHARE''"
| "access_origin_value Access_PUBLICATION = ''PUBLICATION''"

fun progression_mode_value :: "PracticeProgressionMode \<Rightarrow> string" where
  "progression_mode_value WAIT_FOR_NOTE = ''WAIT_FOR_NOTE''"
| "progression_mode_value CONTINUOUS = ''CONTINUOUS''"

fun guidance_value :: "PracticeRealtimeGuidance \<Rightarrow> string" where
  "guidance_value STATUS_ONLY = ''STATUS_ONLY''"
| "guidance_value GUIDED = ''GUIDED''"

fun profile_value :: "PracticeEvaluationProfile \<Rightarrow> string" where
  "profile_value LEARNING = ''LEARNING''"
| "profile_value PERFORMANCE = ''PERFORMANCE''"

definition evidence_profile_for_session :: "PracticeSession \<Rightarrow> string" where
  "evidence_profile_for_session session =
     (if ps_input_source session = Input_MIDI then ''MIDI_STRICT''
      else if ps_progression_mode session = WAIT_FOR_NOTE then ''MICROPHONE_BEST_EFFORT''
      else ''MICROPHONE_ALIGNMENT'')"

definition correctness_scope_for_session :: "PracticeSession \<Rightarrow> string" where
  "correctness_scope_for_session session =
     (if ps_input_source session = Input_MIDI then ''symbolic_exact_notes''
      else if ps_progression_mode session = WAIT_FOR_NOTE then ''acoustic_single_note_strict_chord_best_effort''
      else ''continuous_alignment_diagnostics'')"

definition summary_duration_seconds :: "'a float_ops_scheme \<Rightarrow> PracticeSession \<Rightarrow> rat option" where
  "summary_duration_seconds fl session =
     (case (ps_started_at session, ps_finished_at session) of
        (Some started, Some finished) \<Rightarrow>
          Some (py_round fl 2 (max (fl_div fl (of_int (finished - started)) 1000000) 0))
      | _ \<Rightarrow> None)"

definition target_json :: "SummaryTarget \<Rightarrow> json_value" where
  "target_json t = JS_object
     [(''expected_group_id'', JS_string (tg_expected_group_id t)), (''measure_numbers'', js_strings (tg_measure_numbers t)),
      (''render_note_ids'', js_strings (tg_render_note_ids t)),
      (''confirmed_correct_render_note_ids'', js_strings (tg_confirmed_correct_render_note_ids t)),
      (''confirmed_error_render_note_ids'', js_strings (tg_confirmed_error_render_note_ids t)),
      (''missing_pitches'', js_strings (tg_missing_pitches t)),
      (''unexpected_pitches'', js_strings (tg_unexpected_pitches t)),
      (''attempt_count'', js_nat (tg_attempt_count t)), (''scorable_attempt_count'', js_nat (tg_scorable_attempt_count t)),
      (''interrupted_attempt_count'', js_nat (tg_interrupted_attempt_count t)),
      (''skipped_attempt_count'', js_nat (tg_skipped_attempt_count t)),
      (''matched_attempt_count'', js_nat (tg_matched_attempt_count t)),
      (''partial_attempt_count'', js_nat (tg_partial_attempt_count t)),
      (''mismatch_attempt_count'', js_nat (tg_mismatch_attempt_count t)), (''completed'', JS_bool (tg_completed t)),
      (''completion_status'', JS_string (tg_completion_status t)), (''last_result'', JS_string (tg_last_result t)),
      (''last_confidence'', JS_float (tg_last_confidence t))]"

definition measure_json :: "SummaryMeasure \<Rightarrow> json_value" where
  "measure_json ms = JS_object
     [(''measure_number'', JS_string (ms_measure_number ms)), (''target_count'', js_nat (ms_target_count ms)),
      (''completed_target_count'', js_nat (ms_completed_target_count ms)),
      (''incomplete_target_count'', js_nat (ms_incomplete_target_count ms)),
      (''attempt_count'', js_nat (ms_attempt_count ms)),
      (''scorable_attempt_count'', js_nat (ms_scorable_attempt_count ms)),
      (''interrupted_attempt_count'', js_nat (ms_interrupted_attempt_count ms)),
      (''skipped_attempt_count'', js_nat (ms_skipped_attempt_count ms)),
      (''partial_attempt_count'', js_nat (ms_partial_attempt_count ms)),
      (''mismatch_attempt_count'', js_nat (ms_mismatch_attempt_count ms)),
      (''average_confidence'', js_optional JS_float (ms_average_confidence ms))]"

definition payload_json :: "(string \<times> json_value) list \<Rightarrow> SummaryTarget list \<Rightarrow> SummaryMeasure list \<Rightarrow> json_value" where
  "payload_json metrics targets problems = JS_object
     [(''metrics'', JS_object metrics), (''targets'', JS_list (map target_json targets)),
      (''problem_measures'', JS_list (map measure_json problems))]"

definition session_metrics :: "PracticeSession \<Rightarrow> (string \<times> json_value) list" where
  "session_metrics session =
     [(''state'', JS_string (session_state_value (ps_state session))),
      (''access_origin'', JS_string (access_origin_value (ps_access_origin session))),
      (''progression_mode'', JS_string (progression_mode_value (ps_progression_mode session))),
      (''realtime_guidance'', JS_string (guidance_value (ps_realtime_guidance session))),
      (''evaluation_profile'', JS_string (profile_value (ps_evaluation_profile session)))]"

definition performance_metrics_json :: "PerformanceMetrics \<Rightarrow> (string \<times> json_value) list" where
  "performance_metrics_json m =
     [(''summary_policy_version'', JS_string ''performance-evidence-summary-v1''),
      (''completion_reason'', js_optional JS_string (mt_completion_reason m)),
      (''scope_kind'', JS_string (mt_scope_kind m)), (''input_source'', JS_string (mt_input_source m)),
      (''active_duration_seconds'', js_optional JS_float (mt_active_duration_seconds m)),
      (''observed_duration_seconds'', js_optional JS_float (mt_observed_duration_seconds m)),
      (''input_activity_coverage'', js_optional JS_float (mt_input_activity_coverage m)),
      (''analyzable_coverage'', js_optional JS_float (mt_analyzable_coverage m)),
      (''confident_coverage'', js_optional JS_float (mt_confident_coverage m)),
      (''uncertain_coverage'', js_optional JS_float (mt_uncertain_coverage m)),
      (''expected_outcome_count'', js_nat (mt_expected_outcome_count m)),
      (''matched_expected_groups'', js_nat (mt_matched m)), (''partial_expected_groups'', js_nat (mt_partial m)),
      (''mismatched_expected_groups'', js_nat (mt_mismatched m)),
      (''uncertain_expected_groups'', js_nat (mt_uncertain m)),
      (''not_observed_expected_groups'', js_nat (mt_not_observed m)),
      (''average_timing_offset_ms'', js_optional JS_float (mt_average_timing_offset_ms m)),
      (''average_absolute_timing_offset_ms'', js_optional JS_float (mt_average_absolute_timing_offset_ms m))]"

definition performance_summary ::
  "'a float_ops_scheme \<Rightarrow> PracticeSession \<Rightarrow> PerformanceObservation list \<Rightarrow> PerformanceExpectedEventOutcome list \<Rightarrow>
   json_value" where
  "performance_summary fl session observations outcomes =
     (let metrics = performance_metrics_json (performance_metrics fl (summary_from_session fl session observations outcomes));
          targets = map (performance_target_payload fl) outcomes;
          problems = problem_measure_payloads fl (targets_with_confirmed_issues targets)
      in payload_json (session_metrics session @ metrics @
           [(''confirmed_correct_strike_targets'', js_nat (confirmed_correct_strike_count outcomes)),
            (''missing_strike_targets'', js_nat (missing_strike_count outcomes)),
            (''extra_pitch_count'', js_nat (unexpected_pitch_count outcomes)),
            (''problem_measure_count'', js_nat (length problems))]) targets problems)"

definition build_summary ::
  "'a float_ops_scheme \<Rightarrow> PracticeSession \<Rightarrow> PracticeAttempt list \<Rightarrow> PerformanceObservation list \<Rightarrow>
   PerformanceExpectedEventOutcome list \<Rightarrow> json_value" where
  "build_summary fl session attempts observations outcomes =
     (if ps_evaluation_profile session = PERFORMANCE then performance_summary fl session observations outcomes
      else
        let targets = target_payloads fl attempts
        in payload_json (session_metrics session @
             [(''input_source'', JS_string (input_source_value (ps_input_source session))),
              (''evidence_profile'', JS_string (evidence_profile_for_session session)),
              (''correctness_scope'', JS_string (correctness_scope_for_session session)),
              (''duration_seconds'', js_optional JS_float (summary_duration_seconds fl session)),
              (''last_beat_position'', js_optional JS_float (ps_last_beat_position session)),
              (''last_confidence'', js_optional JS_float (ps_last_confidence session))] @ attempt_metrics fl attempts)
             targets (problem_measure_payloads fl targets))"

end
