(* ===== verification/Practice_Read_Model.thy ===== *)
theory Practice_Read_Model
  imports Session_Runtime Practice_Summary
begin

text \<open>
  The configuration of a practice session, \<open>backend/app/modules/practice/session_config.py\<close>, and what is shown of
  one, \<open>read_model.py\<close>. A date that is shown in ISO format is its timestamp.
\<close>

section \<open>Configuration\<close>

datatype PracticeSessionPreset = Preset_STEP_BY_STEP | Preset_CONTINUOUS_PLAY

datatype PracticeRuntimeKind = Kind_STEP_BY_STEP | Kind_FIXED_CLOCK_PERFORMANCE

fun runtime_kind_value :: "PracticeRuntimeKind \<Rightarrow> string" where
  "runtime_kind_value Kind_STEP_BY_STEP = ''STEP_BY_STEP''"
| "runtime_kind_value Kind_FIXED_CLOCK_PERFORMANCE = ''FIXED_CLOCK_PERFORMANCE''"

record PracticeRuntimeConfig =
  rc_runtime_kind :: PracticeRuntimeKind
  rc_progression_mode :: PracticeProgressionMode
  rc_realtime_guidance :: PracticeRealtimeGuidance
  rc_evaluation_profile :: PracticeEvaluationProfile
  rc_input_source :: PracticeInputSource

text \<open>Both input sources are allowed, and there is no third preset.\<close>

fun canonical_runtime_config_for_preset :: "PracticeSessionPreset \<Rightarrow> PracticeInputSource \<Rightarrow> PracticeRuntimeConfig" where
  "canonical_runtime_config_for_preset Preset_STEP_BY_STEP source =
     \<lparr>rc_runtime_kind = Kind_STEP_BY_STEP, rc_progression_mode = WAIT_FOR_NOTE, rc_realtime_guidance = GUIDED,
      rc_evaluation_profile = LEARNING, rc_input_source = source\<rparr>"
| "canonical_runtime_config_for_preset Preset_CONTINUOUS_PLAY source =
     \<lparr>rc_runtime_kind = Kind_FIXED_CLOCK_PERFORMANCE, rc_progression_mode = CONTINUOUS,
      rc_realtime_guidance = STATUS_ONLY, rc_evaluation_profile = PERFORMANCE, rc_input_source = source\<rparr>"

definition canonical_runtime_kind ::
  "PracticeProgressionMode \<Rightarrow> PracticeRealtimeGuidance \<Rightarrow> PracticeEvaluationProfile \<Rightarrow>
   app_exception + PracticeRuntimeKind" where
  "canonical_runtime_kind mode guidance profile =
     (if mode = WAIT_FOR_NOTE \<and> guidance = GUIDED \<and> profile = LEARNING then Inr Kind_STEP_BY_STEP
      else if mode = CONTINUOUS \<and> guidance = STATUS_ONLY \<and> profile = PERFORMANCE
      then Inr Kind_FIXED_CLOCK_PERFORMANCE
      else Inl (validation_exception ''validation_error'' ''runtime_config'' []))"

definition kind_of_session :: "PracticeSession \<Rightarrow> app_exception + PracticeRuntimeKind" where
  "kind_of_session session =
     canonical_runtime_kind (ps_progression_mode session) (ps_realtime_guidance session) (ps_evaluation_profile session)"

section \<open>What a finished session comes to\<close>

record CompletionOutcome =
  co_kind :: string
  co_scope_kind :: string
  co_summary_artifact_kind :: string
  co_completion_reason :: PracticeSessionCompletionReason
  co_playback_expected :: bool

definition completion_outcome_for_session :: "PracticeSession \<Rightarrow> app_exception + CompletionOutcome option" where
  "completion_outcome_for_session session =
     (if ps_state session \<noteq> Session_FINISHED then Inr None
      else case ps_completion_reason session of
          None \<Rightarrow> Inl (OtherException ''finished practice session is missing completion reason'')
        | Some reason \<Rightarrow>
            let playback_expected = (ps_evaluation_profile session = PERFORMANCE);
                is_performance = (ps_evaluation_profile session = PERFORMANCE)
            in Inr (Some (if str_truthy (ps_scope_start_group session)
                 then \<lparr>co_kind = ''SELECTED_SECTION'', co_scope_kind = ''SELECTED_RANGE'',
                        co_summary_artifact_kind = ''SECTION_SUMMARY'', co_completion_reason = reason,
                        co_playback_expected = playback_expected\<rparr>
                 else \<lparr>co_kind = (if is_performance then ''FULL_PIECE_PERFORMANCE'' else ''FULL_PIECE_LEARNING''),
                        co_scope_kind = ''FULL_PIECE'',
                        co_summary_artifact_kind = (if is_performance then ''PERFORMANCE_SUMMARY'' else ''LEARNING_SUMMARY''),
                        co_completion_reason = reason, co_playback_expected = playback_expected\<rparr>)))"

definition is_number :: "json_value option \<Rightarrow> bool" where
  "is_number v \<longleftrightarrow> (case v of Some (JS_int i) \<Rightarrow> True | Some (JS_float x) \<Rightarrow> True | _ \<Rightarrow> False)"

definition positive_number :: "json_value option \<Rightarrow> bool" where
  "positive_number v \<longleftrightarrow> (case v of Some (JS_int i) \<Rightarrow> 0 < i | Some (JS_float x) \<Rightarrow> 0 < x | _ \<Rightarrow> False)"

definition nonempty_list :: "json_value option \<Rightarrow> bool" where
  "nonempty_list v \<longleftrightarrow> (case v of Some (JS_list items) \<Rightarrow> items \<noteq> [] | _ \<Rightarrow> False)"

definition target_has_performance_evidence :: "json_value \<Rightarrow> bool" where
  "target_has_performance_evidence target =
     (case target of
        JS_object d \<Rightarrow> list_ex (\<lambda>key. nonempty_list (js_get key d))
          [''confirmed_correct_render_note_ids'', ''confirmed_error_render_note_ids'', ''missing_pitches'',
           ''unexpected_pitches'']
      | _ \<Rightarrow> False)"

definition evaluation_metric_keys :: "string list" where
  "evaluation_metric_keys =
     [''matched_expected_groups'', ''partial_expected_groups'', ''mismatched_expected_groups'',
      ''uncertain_expected_groups'', ''not_observed_expected_groups'', ''confirmed_correct_strike_targets'',
      ''missing_strike_targets'', ''extra_pitch_count'', ''problem_measure_count'']"

definition payload_has_evaluation :: "json_value \<Rightarrow> bool" where
  "payload_has_evaluation payload =
     (case payload of
        JS_object d \<Rightarrow>
          nonempty_list (js_get ''problem_measures'' d) \<or>
          (case js_get ''targets'' d of Some (JS_list ts) \<Rightarrow> list_ex target_has_performance_evidence ts | _ \<Rightarrow> False) \<or>
          (case js_get ''metrics'' d of
             Some (JS_object metrics) \<Rightarrow>
               positive_number (js_get ''expected_outcome_count'' metrics) \<and>
               list_ex (\<lambda>key. is_number (js_get key metrics)) evaluation_metric_keys
           | _ \<Rightarrow> False)
      | _ \<Rightarrow> False)"

definition has_durable_performance_evaluation :: "PracticeSession \<Rightarrow> bool" where
  "has_durable_performance_evaluation session \<longleftrightarrow>
     ps_evaluation_profile session = PERFORMANCE \<and> ps_state session = Session_FINISHED \<and>
     ps_input_source session = Input_MIDI \<and> ps_summary_status session = Summary_READY \<and>
     (case ps_summary_payload session of None \<Rightarrow> False | Some payload \<Rightarrow> payload_has_evaluation payload)"

record ReportAvailability =
  rv_saved_replay_available :: bool
  rv_evaluation_available :: bool

definition report_availability_for_session :: "PracticeSession \<Rightarrow> bool \<Rightarrow> ReportAvailability option" where
  "report_availability_for_session session saved_replay_available =
     (if ps_evaluation_profile session \<noteq> PERFORMANCE \<or> ps_state session \<noteq> Session_FINISHED then None
      else Some \<lparr>rv_saved_replay_available = saved_replay_available,
        rv_evaluation_available = has_durable_performance_evaluation session\<rparr>)"

section \<open>Views\<close>

record PracticeSessionScope =
  sp_start_expected_group_id :: string
  sp_end_expected_group_id :: "string option"
  sp_start_measure_number :: "string option"
  sp_end_measure_number :: "string option"

definition scope_of_session :: "PracticeSession \<Rightarrow> PracticeSessionScope option" where
  "scope_of_session session =
     (case ps_scope_start_group session of
        None \<Rightarrow> None
      | Some g \<Rightarrow> if g = [] then None
          else Some \<lparr>sp_start_expected_group_id = g, sp_end_expected_group_id = ps_scope_end_group session,
            sp_start_measure_number = ps_scope_start_measure session,
            sp_end_measure_number = ps_scope_end_measure session\<rparr>)"

record PracticeSessionStartRead =
  st_session_id :: string
  st_state :: PracticeSessionState
  st_ws_url :: string
  st_provider :: "PracticeStepMicrophoneVerificationProvider option"

definition to_session_start :: "PracticeSession \<Rightarrow> PracticeSessionStartRead" where
  "to_session_start session =
     \<lparr>st_session_id = ps_session_uuid session, st_state = ps_state session,
      st_ws_url = ''/api/v1/practice/sessions/'' @ ps_session_uuid session @ ''/stream'',
      st_provider = ps_provider session\<rparr>"

record PracticeSessionDetailRead =
  dt_session_id :: string
  dt_score_id :: string
  dt_revision_id :: string
  dt_access_origin :: AccessOrigin
  dt_state :: PracticeSessionState
  dt_preset :: PracticeSessionPreset
  dt_progression_mode :: PracticeProgressionMode
  dt_realtime_guidance :: PracticeRealtimeGuidance
  dt_evaluation_profile :: PracticeEvaluationProfile
  dt_input_source :: PracticeInputSource
  dt_provider :: "PracticeStepMicrophoneVerificationProvider option"
  dt_practice_scope :: "PracticeSessionScope option"
  dt_sample_rate :: int
  dt_channels :: int
  dt_frame_format :: string
  dt_started_at :: "timestamp option"
  dt_finished_at :: "timestamp option"
  dt_last_beat_position :: "rat option"
  dt_last_confidence :: "rat option"
  dt_summary_status :: PracticeSessionSummaryStatus
  dt_completion_outcome :: "CompletionOutcome option"
  dt_report_availability :: "ReportAvailability option"

definition preset_for_session :: "PracticeSession \<Rightarrow> app_exception + PracticeSessionPreset" where
  "preset_for_session session =
     (case kind_of_session session of
        Inl e \<Rightarrow> Inl e
      | Inr Kind_STEP_BY_STEP \<Rightarrow> Inr Preset_STEP_BY_STEP
      | Inr Kind_FIXED_CLOCK_PERFORMANCE \<Rightarrow> Inr Preset_CONTINUOUS_PLAY)"

text \<open>\<open>to_session_detail\<close> over the rows it looks up; an access origin is never missing.\<close>

definition to_session_detail ::
  "Score option \<Rightarrow> ScoreRevision option \<Rightarrow> PracticeSession \<Rightarrow> bool \<Rightarrow> app_exception + PracticeSessionDetailRead" where
  "to_session_detail score revision session saved_replay_available =
     (case (score, revision) of
        (Some sc, Some rv) \<Rightarrow>
          (case preset_for_session session of
             Inl e \<Rightarrow> Inl e
           | Inr preset \<Rightarrow>
               (case completion_outcome_for_session session of
                  Inl e \<Rightarrow> Inl e
                | Inr outcome \<Rightarrow> Inr
                    \<lparr>dt_session_id = ps_session_uuid session, dt_score_id = score_uuid sc,
                     dt_revision_id = revision_uuid rv, dt_access_origin = ps_access_origin session,
                     dt_state = ps_state session, dt_preset = preset,
                     dt_progression_mode = ps_progression_mode session,
                     dt_realtime_guidance = ps_realtime_guidance session,
                     dt_evaluation_profile = ps_evaluation_profile session,
                     dt_input_source = ps_input_source session, dt_provider = ps_provider session,
                     dt_practice_scope = scope_of_session session, dt_sample_rate = ps_sample_rate session,
                     dt_channels = ps_channels session, dt_frame_format = ps_frame_format session,
                     dt_started_at = ps_started_at session, dt_finished_at = ps_finished_at session,
                     dt_last_beat_position = ps_last_beat_position session,
                     dt_last_confidence = ps_last_confidence session, dt_summary_status = ps_summary_status session,
                     dt_completion_outcome = outcome,
                     dt_report_availability = report_availability_for_session session saved_replay_available\<rparr>))
      | _ \<Rightarrow> Inl (resource_not_found_exception ''practice_revision'' (Some (ps_session_uuid session)) ''revision_not_found''))"

record SavedPracticePerformanceRead =
  sv_session_id :: string
  sv_revision_id :: string
  sv_artifact_id :: string
  sv_kind :: PracticeReplayArtifactKind
  sv_input_source :: PracticeInputSource
  sv_practice_scope :: "PracticeSessionScope option"
  sv_started_at :: "timestamp option"
  sv_finished_at :: timestamp
  sv_completion_reason :: PracticeSessionCompletionReason
  sv_replay_duration_ms :: int
  sv_saved_at :: timestamp
  sv_evaluation_available :: bool

definition to_saved_performance ::
  "PracticeSession \<Rightarrow> PracticeReplayArtifact \<Rightarrow> string \<Rightarrow> app_exception + SavedPracticePerformanceRead" where
  "to_saved_performance session artifact revision =
     (if ps_evaluation_profile session \<noteq> PERFORMANCE
      then Inl (OtherException ''saved performance requires a performance practice session'')
      else if ps_state session \<noteq> Session_FINISHED
      then Inl (OtherException ''saved performance requires a finished practice session'')
      else case (ps_finished_at session, ps_completion_reason session) of
          (None, _) \<Rightarrow> Inl (OtherException ''finished practice session is missing finished_at'')
        | (_, None) \<Rightarrow> Inl (OtherException ''finished practice session is missing completion reason'')
        | (Some finished, Some reason) \<Rightarrow> Inr
            \<lparr>sv_session_id = ps_session_uuid session, sv_revision_id = revision, sv_artifact_id = ra_artifact_uuid artifact,
             sv_kind = ra_kind artifact, sv_input_source = ps_input_source session,
             sv_practice_scope = scope_of_session session, sv_started_at = ps_started_at session,
             sv_finished_at = finished, sv_completion_reason = reason,
             sv_replay_duration_ms = ra_duration_ms artifact, sv_saved_at = ra_created_at artifact,
             sv_evaluation_available = has_durable_performance_evaluation session\<rparr>)"

end
