(* ===== verification/Summary_Counts.thy ===== *)
theory Summary_Counts
  imports Practice_Read_Model Performance_Clock_Run "HOL-Library.Multiset"
begin

text \<open>
  What the numbers of a summary (\<open>backend/app/processing/reports/practice_session_summary.py\<close>) amount to: the counts of
  the targets of a learning session against those of its attempts, and when the summary of a performance is one that the
  read model (\<open>modules/practice/read_model.py\<close>) shows as an evaluation.
\<close>

section \<open>Counting in groups\<close>

lemma sum_of_groups:
  assumes "finite ks" and "key ` set xs \<subseteq> ks"
  shows "(\<Sum>k\<in>ks. length (filter p (filter (\<lambda>x. key x = k) xs))) = length (filter p xs)"
  using assms(2)
proof (induction xs)
  case Nil
  then show ?case by simp
next
  case (Cons x xs)
  let ?g = "\<lambda>k. length (filter p (filter (\<lambda>x. key x = k) xs))"
  have "(\<Sum>k\<in>ks. length (filter p (filter (\<lambda>x. key x = k) (x # xs)))) = (\<Sum>k\<in>ks. ?g k + (if key x = k \<and> p x then 1 else 0))"
    by (rule sum.cong) auto
  also have "\<dots> = (\<Sum>k\<in>ks. ?g k) + (\<Sum>k\<in>ks. if key x = k \<and> p x then 1 else 0)" by (rule sum.distrib)
  also have "(\<Sum>k\<in>ks. if key x = k \<and> p x then 1 else 0) = (if p x then 1 else 0 :: nat)"
    using Cons.prems assms(1) by (cases "p x") simp_all
  finally show ?case using Cons by simp
qed

lemma group_counts: "sum_list (map (\<lambda>(k, ys). length (filter p ys)) (group_into key xs)) = length (filter p xs)"
proof -
  have "sum_list (map (\<lambda>(k, ys). length (filter p ys)) (group_into key xs)) =
      sum_list (map (\<lambda>k. length (filter p (filter (\<lambda>x. key x = k) xs))) (fromkeys (map key xs)))"
    by (simp add: group_into_eq o_def)
  also have "\<dots> = (\<Sum>k\<in>set (fromkeys (map key xs)). length (filter p (filter (\<lambda>x. key x = k) xs)))"
    by (rule sum_list_distinct_conv_sum_set) simp
  also have "\<dots> = length (filter p xs)" by (rule sum_of_groups) auto
  finally show ?thesis .
qed

lemma sum_list_sort_key: "sum_list (map (f :: 'b \<Rightarrow> nat) (sort_key g xs)) = sum_list (map f xs)"
  by (metis mset_map mset_sort sum_mset_sum_list)

lemma length_filter_sort_key: "length (filter p (sort_key g xs)) = length (filter p xs)"
  by (metis mset_filter mset_sort size_mset)

text \<open>A number of every target that counts attempts sums up to the count over all attempts.\<close>

lemma target_total:
  assumes "\<And>k ys. f (target_payload fl (k, ys)) = length (filter p ys)"
  shows "sum_list (map f (target_payloads fl attempts)) = length (filter p attempts)"
proof -
  have "f \<circ> target_payload fl = (\<lambda>(k, ys). length (filter p ys))" using assms by auto
  then show ?thesis by (simp add: target_payloads_def sum_list_sort_key attempts_by_target_def group_counts)
qed

lemma length_filter_groups:
  "length (filter (\<lambda>(k, ys). q ys) (group_into key xs)) = card {k \<in> key ` set xs. q (filter (\<lambda>x. key x = k) xs)}"
proof -
  let ?q = "\<lambda>k. q (filter (\<lambda>x. key x = k) xs)"
  have "length (filter (\<lambda>(k, ys). q ys) (group_into key xs)) = length (filter ?q (fromkeys (map key xs)))"
    by (simp add: group_into_eq filter_map o_def)
  also have "\<dots> = card (set (filter ?q (fromkeys (map key xs))))" by (rule distinct_card [symmetric]) simp
  also have "set (filter ?q (fromkeys (map key xs))) = {k \<in> key ` set xs. ?q k}" by auto
  finally show ?thesis .
qed

text \<open>A target is complete when one of its scorable attempts matched.\<close>

lemma completed_total:
  "length (filter tg_completed (target_payloads fl attempts)) =
   completed_target_count (attempts_by_target (filter is_scorable_attempt attempts))"
proof -
  let ?match = "\<lambda>ys. list_ex (\<lambda>a. pa_result a = Result_MATCH) ys"
  let ?of = "\<lambda>k. filter (\<lambda>a. attempt_target_id a = k)"
  have done_def: "tg_completed (target_payload fl item) = (case item of (k, ys) \<Rightarrow> ?match (filter is_scorable_attempt ys))" for item
    by (cases item) (simp add: target_payload_def Let_def)
  have "length (filter tg_completed (target_payloads fl attempts)) =
      card {k \<in> attempt_target_id ` set attempts. ?match (filter is_scorable_attempt (?of k attempts))}"
    by (simp add: target_payloads_def filter_map o_def done_def length_filter_sort_key attempts_by_target_def
        length_filter_groups [where q = "\<lambda>ys. ?match (filter is_scorable_attempt ys)"])
  also have "{k \<in> attempt_target_id ` set attempts. ?match (filter is_scorable_attempt (?of k attempts))} =
      {k \<in> attempt_target_id ` set (filter is_scorable_attempt attempts). ?match (?of k (filter is_scorable_attempt attempts))}"
    by (auto simp: list_ex_iff intro: rev_image_eqI)
  also have "card \<dots> = completed_target_count (attempts_by_target (filter is_scorable_attempt attempts))"
    unfolding completed_target_count_def attempts_by_target_def by (rule length_filter_groups [symmetric])
  finally show ?thesis .
qed

lemma target_ids:
  "mset (map tg_expected_group_id (target_payloads fl attempts)) = mset (fromkeys (map attempt_target_id attempts))"
proof -
  have "map tg_expected_group_id (map (target_payload fl) items) = map fst items" for items
    by (simp add: target_payload_def Let_def split_beta)
  then have "mset (map tg_expected_group_id (target_payloads fl attempts)) = mset (map fst (attempts_by_target attempts))"
    unfolding target_payloads_def by (metis mset_map mset_sort)
  then show ?thesis by (simp add: attempts_by_target_def)
qed

section \<open>Properties\<close>


text \<open>What the read model tells of a performance that was summarized: it shows an evaluation exactly when there is
  an outcome, whatever was observed and however well it was played, if the input was MIDI; without outcomes, or for the
  microphone, it shows none.\<close>

theorem evaluation_shown_iff_judged:
  assumes "ps_evaluation_profile session = PERFORMANCE" and "ps_state session = Session_FINISHED"
    and "row = session\<lparr>ps_summary_status := Summary_READY,
      ps_summary_payload := Some (build_summary fl session attempts observations outcomes)\<rparr>"
  shows "report_availability_for_session row saved =
    Some \<lparr>rv_saved_replay_available = saved,
      rv_evaluation_available = (ps_input_source session = Input_MIDI \<and> outcomes \<noteq> [])\<rparr>"
proof -
  let ?payload = "build_summary fl session attempts observations outcomes"
  let ?targets = "map (performance_target_payload fl) outcomes"
  let ?problems = "problem_measure_payloads fl (targets_with_confirmed_issues ?targets)"
  obtain metrics where payload: "?payload = JS_object [(''metrics'', JS_object metrics), (''targets'', JS_list (map target_json ?targets)),
      (''problem_measures'', JS_list (map measure_json ?problems))]"
    and count: "js_get ''expected_outcome_count'' metrics = Some (JS_int (int (length outcomes)))"
    and matched: "\<exists>n. js_get ''problem_measure_count'' metrics = Some (JS_int n)"
    using assms(1)
    by (simp add: build_summary_def performance_summary_def payload_json_def Let_def session_metrics_def performance_metrics_json_def
        performance_metrics_def summary_from_session_def js_nat_def)
  have shown: "payload_has_evaluation ?payload \<longleftrightarrow> outcomes \<noteq> []"
  proof (cases outcomes)
    case Nil
    then have "?problems = []"
      by (simp add: problem_measure_payloads_def targets_by_measure_def targets_with_confirmed_issues_def)
    with Nil count show ?thesis unfolding payload payload_has_evaluation_def
      by (simp add: nonempty_list_def positive_number_def)
  next
    case (Cons outcome rest)
    have "list_ex (\<lambda>key. is_number (js_get key metrics)) evaluation_metric_keys"
      using matched by (auto simp: evaluation_metric_keys_def is_number_def)
    moreover have "positive_number (js_get ''expected_outcome_count'' metrics)" using count Cons by (simp add: positive_number_def)
    ultimately show ?thesis using Cons unfolding payload payload_has_evaluation_def by simp
  qed
  with assms show ?thesis by (simp add: report_availability_for_session_def has_durable_performance_evaluation_def)
qed

definition finished_performance :: PracticeSession where
  "finished_performance =
     \<lparr>ps_id = Some 1, ps_session_uuid = ''s'', ps_score_id = 1, ps_revision_id = 1, ps_access_origin = Access_OWNER,
      ps_share_grant_id = None, ps_user_id = Some 7, ps_state = Session_FINISHED, ps_progression_mode = CONTINUOUS,
      ps_realtime_guidance = STATUS_ONLY, ps_evaluation_profile = PERFORMANCE, ps_input_source = Input_MIDI,
      ps_provider = None, ps_sample_rate = 16000, ps_channels = 1, ps_frame_format = ''pcm_s16le'',
      ps_scope_start_group = None, ps_scope_end_group = None, ps_scope_start_measure = None, ps_scope_end_measure = None,
      ps_started_at = Some 1, ps_finished_at = Some 2, ps_last_beat_position = None, ps_last_confidence = None,
      ps_audio_path = None, ps_completion_reason = Some STOPPED_BY_USER, ps_summary_status = Summary_PENDING,
      ps_summary_payload = None, ps_error = None, ps_created_at = 0, ps_updated_at = 0\<rparr>"

definition unplayed_outcome :: PerformanceExpectedEventOutcome where
  "unplayed_outcome =
     \<lparr>eo_expected_group_id = ''g'', eo_performance_time_ms = 0, eo_result = NOT_OBSERVED, eo_confidence = 0,
      eo_source = Input_MIDI, eo_expected_strike_outcomes = [], eo_unexpected_pitches = [], eo_render_note_ids = [''n''],
      eo_measure_numbers = [''1''], eo_timing_offset_ms = None\<rparr>"

theorem evaluation_shown_iff_judged_witness:
  "report_availability_for_session (finished_performance\<lparr>ps_summary_status := Summary_READY,
       ps_summary_payload := Some (build_summary exact_floats finished_performance [] [] [unplayed_outcome])\<rparr>) True =
     Some \<lparr>rv_saved_replay_available = True, rv_evaluation_available = True\<rparr> \<and>
   report_availability_for_session (finished_performance\<lparr>ps_summary_status := Summary_READY,
       ps_summary_payload := Some (build_summary exact_floats finished_performance [] [] [])\<rparr>) True =
     Some \<lparr>rv_saved_replay_available = True, rv_evaluation_available = False\<rparr>"
proof -
  have s: "ps_evaluation_profile finished_performance = PERFORMANCE" "ps_state finished_performance = Session_FINISHED"
      "ps_input_source finished_performance = Input_MIDI" by (simp_all add: finished_performance_def)
  show ?thesis using evaluation_shown_iff_judged [OF s(1,2) refl, of exact_floats "[]" "[]" "[unplayed_outcome]" True]
      evaluation_shown_iff_judged [OF s(1,2) refl, of exact_floats "[]" "[]" "[]" True] s(3) by simp
qed

end
