(* ===== verification/Local_Storage.thy ===== *)
theory Local_Storage
  imports App_Errors "HOL-Library.Word" "HOL-Library.AList" "HOL-Library.Sublist"
begin

text \<open>
  The storage on the local file system, \<open>backend/app/storage/local.py\<close>, and the operations that services use of a
  storage, \<open>base.py\<close>. A path is the list of its components below the root of the file system, in the form that
  \<open>os.path.abspath\<close> gives; the state holds the files, and the directories are those the files are in, which is so as
  empty ones are removed. Symbolic links and permissions are left out. The text of an exception of the operating
  system is its kind.
\<close>

section \<open>Text\<close>

text \<open>\<open>s.split(sep)\<close> and \<open>s.replace(a, b)\<close> for single characters.\<close>

fun str_split :: "char \<Rightarrow> string \<Rightarrow> string list" where
  "str_split sep [] = [[]]"
| "str_split sep (c # cs) =
     (if c = sep then [] # str_split sep cs
      else (case str_split sep cs of [] \<Rightarrow> [[c]] | w # ws \<Rightarrow> (c # w) # ws))"

definition replace_char :: "char \<Rightarrow> char \<Rightarrow> string \<Rightarrow> string" where
  "replace_char a b s = map (\<lambda>c. if c = a then b else c) s"

section \<open>Files\<close>

type_synonym path = "string list"

record local_storage =
  ls_root :: path
  ls_files :: "(path \<times> 8 word list) list"

text \<open>One component of a path that \<open>normpath\<close> makes absolute.\<close>

definition path_step :: "path \<Rightarrow> string \<Rightarrow> path" where
  "path_step p seg = (if seg = [] \<or> seg = ''.'' then p else if seg = ''..'' then butlast p else p @ [seg])"

definition is_file :: "local_storage \<Rightarrow> path \<Rightarrow> bool" where
  "is_file st p \<longleftrightarrow> map_of (ls_files st) p \<noteq> None"

definition is_directory :: "local_storage \<Rightarrow> path \<Rightarrow> bool" where
  "is_directory st p \<longleftrightarrow> prefix p (ls_root st) \<or> list_ex (strict_prefix p) (map fst (ls_files st))"

definition path_exists :: "local_storage \<Rightarrow> path \<Rightarrow> bool" where
  "path_exists st p \<longleftrightarrow> is_file st p \<or> is_directory st p"

text \<open>\<open>os.makedirs\<close> and \<open>open(path, "wb")\<close>.\<close>

definition write_file :: "path \<Rightarrow> 8 word list \<Rightarrow> local_storage \<Rightarrow> (app_exception + unit) \<times> local_storage" where
  "write_file p content st =
     (if list_ex (is_file st) (prefixes (butlast p)) then (Inl (OtherException ''NotADirectoryError''), st)
      else if is_directory st p then (Inl (OtherException ''IsADirectoryError''), st)
      else (Inr (), st\<lparr>ls_files := AList.update p content (ls_files st)\<rparr>))"

definition read_file :: "path \<Rightarrow> local_storage \<Rightarrow> app_exception + 8 word list" where
  "read_file p st =
     (case map_of (ls_files st) p of
        Some content \<Rightarrow> Inr content
      | None \<Rightarrow> Inl (OtherException (if is_directory st p then ''IsADirectoryError'' else ''FileNotFoundError'')))"

section \<open>Keys\<close>

definition normalize_key :: "string \<Rightarrow> app_exception + string" where
  "normalize_key key =
     (let normalized = strip_char (CHR ''/'') (replace_char (CHR 92) (CHR ''/'') key)
      in if normalized = [] \<or> prefix ''../'' normalized \<or> str_in ''/../'' normalized
         then Inl (OtherException (''Invalid storage key: '' @ key)) else Inr normalized)"

definition local_path :: "local_storage \<Rightarrow> string \<Rightarrow> app_exception + path" where
  "local_path st key =
     (case normalize_key key of
        Inl e \<Rightarrow> Inl e
      | Inr normalized \<Rightarrow>
          let p = foldl path_step (ls_root st) (str_split (CHR ''/'') normalized)
          in if prefix (ls_root st) p then Inr p
             else Inl (OtherException (''Storage key escapes storage root: '' @ key)))"

definition public_url :: "string \<Rightarrow> app_exception + string" where
  "public_url key = map_sum id (\<lambda>normalized. ''/api/v1/uploads/'' @ normalized) (normalize_key key)"

section \<open>Operations\<close>

record StoredFile =
  sf_storage_key :: string
  sf_filename :: string
  sf_path :: path
  sf_size_bytes :: nat
  sf_public_url :: string

record StoredObjectMetadata =
  om_size_bytes :: int
  om_content_type :: "string option"
  om_checksum_sha256 :: "string option"

definition stored_file :: "string \<Rightarrow> local_storage \<Rightarrow> app_exception + StoredFile" where
  "stored_file key st =
     (case (normalize_key key, local_path st key, public_url key) of
        (Inr normalized, Inr p, Inr url) \<Rightarrow>
          (case read_file p st of
             Inl e \<Rightarrow> Inl e
           | Inr content \<Rightarrow> Inr \<lparr>sf_storage_key = normalized, sf_filename = last (str_split (CHR ''/'') normalized),
               sf_path = p, sf_size_bytes = length content, sf_public_url = url\<rparr>)
      | (Inl e, _, _) \<Rightarrow> Inl e
      | (_, Inl e, _) \<Rightarrow> Inl e
      | (_, _, Inl e) \<Rightarrow> Inl e)"

definition local_put_bytes ::
  "string \<Rightarrow> 8 word list \<Rightarrow> local_storage \<Rightarrow> (app_exception + StoredFile) \<times> local_storage" where
  "local_put_bytes key content st =
     (case local_path st key of
        Inl e \<Rightarrow> (Inl e, st)
      | Inr p \<Rightarrow>
          (case write_file p content st of
             (Inl e, st') \<Rightarrow> (Inl e, st')
           | (Inr u, st') \<Rightarrow> (stored_file key st', st')))"

definition local_exists :: "string \<Rightarrow> local_storage \<Rightarrow> app_exception + bool" where
  "local_exists key st = map_sum id (path_exists st) (local_path st key)"

definition local_read_bytes :: "string \<Rightarrow> local_storage \<Rightarrow> app_exception + 8 word list" where
  "local_read_bytes key st = (case local_path st key of Inl e \<Rightarrow> Inl e | Inr p \<Rightarrow> read_file p st)"

text \<open>The size of a directory is the file system's; what is asked for is the size of a file.\<close>

definition local_object_metadata :: "string \<Rightarrow> local_storage \<Rightarrow> app_exception + StoredObjectMetadata" where
  "local_object_metadata key st =
     map_sum id (\<lambda>content. \<lparr>om_size_bytes = int (length content), om_content_type = None, om_checksum_sha256 = None\<rparr>)
       (local_read_bytes key st)"

definition local_delete :: "string \<Rightarrow> local_storage \<Rightarrow> (app_exception + bool) \<times> local_storage" where
  "local_delete key st =
     (case local_path st key of
        Inl e \<Rightarrow> (Inl e, st)
      | Inr p \<Rightarrow>
          if \<not> path_exists st p then (Inr False, st)
          else if \<not> is_file st p then (Inl (OtherException ''IsADirectoryError''), st)
          else (Inr True, st\<lparr>ls_files := AList.delete p (ls_files st)\<rparr>))"

text \<open>\<open>materialize_to_local(key, local_path(key))\<close>, whose target is the file itself, and then reading it.\<close>

definition local_materialized :: "string \<Rightarrow> local_storage \<Rightarrow> app_exception + 8 word list" where
  "local_materialized key st =
     (case local_path st key of
        Inl e \<Rightarrow> Inl e
      | Inr p \<Rightarrow> if path_exists st p then read_file p st else Inl (OtherException key))"

definition save_blob ::
  "8 word list \<Rightarrow> string \<Rightarrow> string \<Rightarrow> local_storage \<Rightarrow> (app_exception + StoredFile) \<times> local_storage" where
  "save_blob content sha256 extension st =
     (let key = ''blobs/'' @ take 2 sha256 @ ''/'' @ sha256 @ extension
      in case local_exists key st of
           Inl e \<Rightarrow> (Inl e, st)
         | Inr True \<Rightarrow> (stored_file key st, st)
         | Inr False \<Rightarrow> local_put_bytes key content st)"

text \<open>The loop of \<open>iter_bytes\<close> over what follows \<open>start\<close>: what is left to read of the file, and how many bytes are
  wanted, None for all.\<close>

function iter_chunks :: "int \<Rightarrow> int option \<Rightarrow> 8 word list \<Rightarrow> 8 word list list" where
  "iter_chunks chunk_size remaining rest =
     (let read_size = (case remaining of None \<Rightarrow> chunk_size | Some r \<Rightarrow> min chunk_size r)
      in if read_size \<le> 0 then []
         else
           let chunk = take (nat read_size) rest
           in if chunk = [] then []
              else chunk # iter_chunks chunk_size (map_option (\<lambda>r. r - int (length chunk)) remaining)
                             (drop (nat read_size) rest))"
  by pat_completeness auto

termination
  by (relation "measure (\<lambda>(chunk_size, remaining, rest). length rest)") auto

declare iter_chunks.simps [simp del]

definition local_iter_bytes ::
  "string \<Rightarrow> int \<Rightarrow> nat option \<Rightarrow> int option \<Rightarrow> local_storage \<Rightarrow> app_exception + 8 word list list" where
  "local_iter_bytes key chunk_size start end_byte st =
     (case local_read_bytes key st of
        Inl e \<Rightarrow> Inl e
      | Inr content \<Rightarrow>
          let first = (case start of None \<Rightarrow> 0 | Some s \<Rightarrow> s)
          in Inr (iter_chunks chunk_size (map_option (\<lambda>e. e - int first + 1) end_byte) (drop first content)))"

section \<open>Facts about paths and files\<close>

lemma local_path_inside: "local_path st key = Inr p \<Longrightarrow> prefix (ls_root st) p"
  by (auto simp: local_path_def Let_def split: sum.splits if_splits)

lemma local_path_update [simp]: "local_path (st\<lparr>ls_files := fs\<rparr>) key = local_path st key"
  by (simp add: local_path_def cong: sum.case_cong)

lemma is_file_iff: "is_file st p \<longleftrightarrow> p \<in> fst ` set (ls_files st)"
  by (simp add: is_file_def map_of_eq_None_iff)

text \<open>What holds of the files of a file system: there is one for a path, and none is in a place where another needs a
  directory. Files of other programs, outside the root, are among them.\<close>

definition files_ok :: "local_storage \<Rightarrow> bool" where
  "files_ok st \<longleftrightarrow> distinct (map fst (ls_files st)) \<and>
     (\<forall>p. is_file st p \<longrightarrow> \<not> is_directory st p)"

lemma write_file_fields:
  "write_file p content st = (Inr (), st') \<Longrightarrow>
     st' = st\<lparr>ls_files := AList.update p content (ls_files st)\<rparr> \<and> \<not> is_directory st p \<and>
     (\<forall>q. strict_prefix q p \<longrightarrow> \<not> is_file st q)"
proof -
  assume w: "write_file p content st = (Inr (), st')"
  have "\<not> is_file st q" if "strict_prefix q p" for q
  proof -
    from that obtain z zs where "p = q @ z # zs" by (auto elim: strict_prefixE')
    then have "q \<in> set (prefixes (butlast p))" by (simp add: butlast_append)
    moreover have "\<not> list_ex (is_file st) (prefixes (butlast p))" using w by (simp add: write_file_def split: if_splits)
    ultimately show ?thesis by (simp add: list_ex_iff)
  qed
  moreover have "st' = st\<lparr>ls_files := AList.update p content (ls_files st)\<rparr>" "\<not> is_directory st p"
    using w by (simp_all add: write_file_def split: if_splits)
  ultimately show ?thesis by blast
qed

lemma write_file_fails: "write_file p content st = (Inl e, st') \<Longrightarrow> st' = st"
  by (auto simp: write_file_def split: if_splits)

lemma is_file_update [simp]: "is_file (st\<lparr>ls_files := AList.update p c (ls_files st)\<rparr>) q \<longleftrightarrow> q = p \<or> is_file st q"
  by (auto simp: is_file_def update_conv')

lemma is_file_delete [simp]: "is_file (st\<lparr>ls_files := AList.delete p (ls_files st)\<rparr>) q \<longleftrightarrow> q \<noteq> p \<and> is_file st q"
  by (auto simp: is_file_def delete_conv')

lemma is_directory_iff: "is_directory st p \<longleftrightarrow> prefix p (ls_root st) \<or> (\<exists>q. is_file st q \<and> strict_prefix p q)"
  by (auto simp: is_directory_def list_ex_iff is_file_iff)

lemma is_directory_update:
  "is_directory (st\<lparr>ls_files := AList.update p c (ls_files st)\<rparr>) q \<longleftrightarrow> strict_prefix q p \<or> is_directory st q"
  by (auto simp: is_directory_iff)

lemma is_directory_delete:
  "is_directory (st\<lparr>ls_files := AList.delete p (ls_files st)\<rparr>) q \<Longrightarrow> is_directory st q"
  by (auto simp: is_directory_iff)

lemma files_ok_write:
  assumes ok: "files_ok st" and w: "write_file p content st = (Inr (), st')"
  shows "files_ok st'"
proof -
  note f = write_file_fields [OF w]
  have "\<not> is_directory st' q" if "is_file st' q" for q
    using that ok f by (auto simp: files_ok_def is_directory_update)
  moreover have "distinct (map fst (ls_files st'))" using ok f by (simp add: files_ok_def distinct_update)
  ultimately show ?thesis by (simp add: files_ok_def)
qed

lemma files_ok_delete: "files_ok st \<Longrightarrow> files_ok (st\<lparr>ls_files := AList.delete p (ls_files st)\<rparr>)"
  by (auto simp: files_ok_def distinct_delete dest: is_directory_delete)

lemma stored_file_after_write:
  assumes "local_path st key = Inr p" and "read_file p st = Inr content"
  shows "\<exists>f. stored_file key st = Inr f \<and> sf_path f = p \<and> sf_size_bytes f = length content"
proof -
  obtain n where "normalize_key key = Inr n" using assms(1) by (auto simp: local_path_def split: sum.splits)
  with assms show ?thesis by (simp add: stored_file_def public_url_def)
qed

lemma read_after_write [simp]: "read_file p (st\<lparr>ls_files := AList.update p content (ls_files st)\<rparr>) = Inr content"
  by (simp add: read_file_def update_conv')

text \<open>A call of \<open>put_bytes\<close> either fails and changes nothing, or writes the one file.\<close>

lemma put_cases:
  assumes "local_put_bytes key content st = (res, st')"
  obtains (failed) e where "res = Inl e" "st' = st"
  | (written) p f where "local_path st key = Inr p" "write_file p content st = (Inr (), st')" "res = Inr f"
      "sf_path f = p" "st' = st\<lparr>ls_files := AList.update p content (ls_files st)\<rparr>"
proof (cases "local_path st key")
  case (Inl e)
  with assms failed show thesis by (auto simp: local_put_bytes_def)
next
  case (Inr p)
  show thesis
  proof (cases "fst (write_file p content st)")
    case (Inl e)
    obtain st'' where w: "write_file p content st = (Inl e, st'')" using Inl by (cases "write_file p content st") auto
    with assms Inr have "res = Inl e" "st' = st''" by (auto simp: local_put_bytes_def)
    with write_file_fails [OF w] failed show thesis by auto
  next
    case (Inr u)
    obtain st'' where w: "write_file p content st = (Inr (), st'')" using Inr by (cases "write_file p content st") auto
    note f = write_file_fields [OF w]
    obtain sf where sf: "stored_file key st'' = Inr sf" "sf_path sf = p"
      using stored_file_after_write [of st'' key p content] \<open>local_path st key = Inr p\<close> f by auto
    have "res = Inr sf" "st' = st''" using assms \<open>local_path st key = Inr p\<close> w sf by (auto simp: local_put_bytes_def)
    with w f sf \<open>local_path st key = Inr p\<close> show thesis by (intro written) auto
  qed
qed

lemma put_read_back:
  assumes "local_put_bytes key content st = (Inr f, st1)"
  shows "local_read_bytes key st1 = Inr content" and "local_exists key st1 = Inr True"
proof -
  obtain p where p: "local_path st key = Inr p" "st1 = st\<lparr>ls_files := AList.update p content (ls_files st)\<rparr>"
    using assms by (cases rule: put_cases) auto
  have path: "local_path st1 key = Inr p" using p by simp
  have "read_file p st1 = Inr content" "is_file st1 p" by (simp_all add: p(2))
  with path show "local_read_bytes key st1 = Inr content" and "local_exists key st1 = Inr True"
    by (simp_all add: local_read_bytes_def local_exists_def path_exists_def)
qed

lemma delete_cases:
  assumes "local_delete key st = (res, st')"
  obtains (unchanged) "res \<noteq> Inr True" "st' = st"
  | (deleted) p where "local_path st key = Inr p" "is_file st p" "res = Inr True"
      "st' = st\<lparr>ls_files := AList.delete p (ls_files st)\<rparr>"
proof (cases "local_path st key")
  case (Inl e)
  with assms show thesis by (intro unchanged) (auto simp: local_delete_def)
next
  case (Inr p)
  show thesis
  proof (cases "is_file st p")
    case True
    with assms Inr show thesis by (intro deleted [of p]) (simp_all add: local_delete_def path_exists_def)
  next
    case False
    with assms Inr show thesis by (intro unchanged) (auto simp: local_delete_def split: if_splits)
  qed
qed

section \<open>Properties\<close>

text \<open>The states that calls of the storage lead to.\<close>

inductive files_reachable :: "local_storage \<Rightarrow> local_storage \<Rightarrow> bool" for st0 where
  same: "files_reachable st0 st0"
| put: "files_reachable st0 st \<Longrightarrow> files_reachable st0 (snd (local_put_bytes key content st))"
| blob: "files_reachable st0 st \<Longrightarrow> files_reachable st0 (snd (save_blob content sha256 extension st))"
| delete: "files_reachable st0 st \<Longrightarrow> files_reachable st0 (snd (local_delete key st))"

text \<open>The storage keeps the shape of the file system and leaves what is outside its root as it is.\<close>

definition kept_by :: "local_storage \<Rightarrow> local_storage \<Rightarrow> bool" where
  "kept_by st st' \<longleftrightarrow> files_ok st' \<and> ls_root st' = ls_root st \<and>
     (\<forall>q. \<not> prefix (ls_root st) q \<longrightarrow> map_of (ls_files st') q = map_of (ls_files st) q)"

lemma put_keeps: "files_ok st \<Longrightarrow> kept_by st (snd (local_put_bytes key content st))"
proof -
  assume ok: "files_ok st"
  obtain res st' where run: "local_put_bytes key content st = (res, st')" by fastforce
  from run have "kept_by st st'"
  proof (cases rule: put_cases)
    case (failed e)
    with ok show ?thesis by (simp add: kept_by_def)
  next
    case (written p f)
    then show ?thesis using files_ok_write [OF ok written(2)] local_path_inside [OF written(1)]
      by (auto simp: kept_by_def update_conv')
  qed
  with run show ?thesis by simp
qed

lemma delete_keeps: "files_ok st \<Longrightarrow> kept_by st (snd (local_delete key st))"
proof -
  assume ok: "files_ok st"
  obtain res st' where run: "local_delete key st = (res, st')" by fastforce
  from run have "kept_by st st'"
  proof (cases rule: delete_cases)
    case unchanged
    with ok show ?thesis by (simp add: kept_by_def)
  next
    case (deleted p)
    then show ?thesis using files_ok_delete [OF ok] local_path_inside [OF deleted(1)]
      by (auto simp: kept_by_def delete_conv')
  qed
  with run show ?thesis by simp
qed

lemma save_blob_keeps: "files_ok st \<Longrightarrow> kept_by st (snd (save_blob content sha256 extension st))"
  using put_keeps [of st] by (auto simp: save_blob_def Let_def kept_by_def split: sum.splits bool.splits)

text \<open>C37. Whatever keys the calls of the storage are given, with leading slashes, backslashes or dots in them, the
  files outside its root stay as they are, there stays one file for a path and none where another needs a
  directory.\<close>

theorem storage_stays_inside:
  assumes "files_reachable st0 st" and "files_ok st0"
  shows "files_ok st \<and> ls_root st = ls_root st0 \<and>
    (\<forall>q. \<not> prefix (ls_root st0) q \<longrightarrow> map_of (ls_files st) q = map_of (ls_files st0) q)"
  using assms(1)
proof (induction rule: files_reachable.induct)
  case same
  then show ?case using assms(2) by simp
next
  case (put st key content)
  then show ?case using put_keeps [of st key content] by (simp add: kept_by_def)
next
  case (blob st content sha256 extension)
  then show ?case using save_blob_keeps [of st content sha256 extension] by (simp add: kept_by_def)
next
  case (delete st key)
  then show ?case using delete_keeps [of st key] by (simp add: kept_by_def)
qed

definition example_files :: local_storage where
  "example_files = \<lparr>ls_root = [''data'', ''storage''], ls_files = [([''etc'', ''passwd''], [1, 2])]\<rparr>"

lemma example_files_ok: "files_ok example_files"
  by (auto simp: files_ok_def example_files_def is_directory_iff is_file_iff)

theorem storage_stays_inside_witness:
  "map_of (ls_files (snd (local_put_bytes ''x/../../../etc/passwd'' [] example_files))) [''etc'', ''passwd''] =
     Some [1, 2] \<and> files_ok (snd (local_put_bytes ''a/./b'' [7] example_files))"
proof -
  have "files_reachable example_files (snd (local_put_bytes key c example_files))" for key c
    by (intro files_reachable.intros)
  note inside = storage_stays_inside [OF this example_files_ok]
  have "\<not> prefix (ls_root example_files) [''etc'', ''passwd'']" by (simp add: example_files_def)
  moreover have "map_of (ls_files example_files) [''etc'', ''passwd''] = Some [1, 2]"
    by (simp add: example_files_def)
  ultimately show ?thesis using inside [of "''x/../../../etc/passwd''" "[]"] inside [of "''a/./b''" "[7]"] by simp
qed

text \<open>C38. What is stored under a key is what is read back, with its size, until it is deleted or written again; a file
  under a key that names another path is not affected by either.\<close>

theorem storage_roundtrip:
  assumes "local_put_bytes key content st = (Inr f, st1)" and "files_ok st"
  shows "local_read_bytes key st1 = Inr content \<and> local_exists key st1 = Inr True \<and>
    map_sum id om_size_bytes (local_object_metadata key st1) = Inr (int (length content)) \<and>
    fst (local_delete key st1) = Inr True \<and> local_exists key (snd (local_delete key st1)) = Inr False \<and>
    (\<forall>key' other. local_path st key' \<noteq> local_path st key \<longrightarrow> local_read_bytes key' st = Inr other \<longrightarrow>
       local_read_bytes key' st1 = Inr other \<and> local_read_bytes key' (snd (local_delete key st1)) = Inr other)"
proof -
  obtain p where p: "local_path st key = Inr p" "st1 = st\<lparr>ls_files := AList.update p content (ls_files st)\<rparr>"
      "write_file p content st = (Inr (), st1)"
    using assms(1) by (cases rule: put_cases) auto
  have ok1: "files_ok st1" by (rule files_ok_write [OF assms(2) p(3)])
  have path1: "local_path st1 k = local_path st k" for k by (simp add: p(2))
  have file1: "is_file st1 p" by (simp add: p(2))
  note read = put_read_back(1) [OF assms(1)] and ex = put_read_back(2) [OF assms(1)]
  have size: "map_sum id om_size_bytes (local_object_metadata key st1) = Inr (int (length content))"
    by (simp add: local_object_metadata_def read)
  have deleted: "local_delete key st1 = (Inr True, st1\<lparr>ls_files := AList.delete p (ls_files st1)\<rparr>)"
    by (simp add: local_delete_def path1 p(1) path_exists_def file1)
  have "\<not> is_directory (st1\<lparr>ls_files := AList.delete p (ls_files st1)\<rparr>) p"
  proof -
    have "\<not> is_directory st1 p" using ok1 file1 by (simp add: files_ok_def)
    then show ?thesis using is_directory_delete [of p st1 p] by blast
  qed
  then have del: "fst (local_delete key st1) = Inr True \<and> local_exists key (snd (local_delete key st1)) = Inr False"
    by (simp add: deleted local_exists_def path1 p(1) path_exists_def)
  have "local_read_bytes key' st1 = Inr other \<and> local_read_bytes key' (snd (local_delete key st1)) = Inr other"
    if other: "local_path st key' \<noteq> local_path st key" "local_read_bytes key' st = Inr other" for key' other
  proof -
    obtain q where q: "local_path st key' = Inr q"
      using other(2) by (auto simp: local_read_bytes_def split: sum.splits)
    with other p(1) have "q \<noteq> p" by auto
    have "map_of (ls_files st) q = Some other"
      using other(2) q by (auto simp: local_read_bytes_def read_file_def split: option.splits if_splits)
    with \<open>q \<noteq> p\<close> have "map_of (ls_files st1) q = Some other" by (simp add: p(2) update_conv')
    with \<open>q \<noteq> p\<close> show ?thesis
      by (simp add: deleted local_read_bytes_def path1 q read_file_def delete_conv')
  qed
  then show ?thesis using read ex size del by blast
qed

theorem storage_roundtrip_witness:
  "local_read_bytes ''/a/./b'' (snd (local_put_bytes ''/a/./b'' [1, 2, 3] example_files)) = Inr [1, 2, 3] \<and>
   local_path example_files ''/a/./b'' = Inr [''data'', ''storage'', ''a'', ''b'']"
proof -
  have "\<not> isl (fst (local_put_bytes ''/a/./b'' [1, 2, 3] example_files))" by code_simp
  then obtain f st1 where f: "local_put_bytes ''/a/./b'' [1, 2, 3] example_files = (Inr f, st1)"
    by (cases "local_put_bytes ''/a/./b'' [1, 2, 3] example_files") (auto simp: isl_def, metis obj_sumE)
  have "local_path example_files ''/a/./b'' = Inr [''data'', ''storage'', ''a'', ''b'']" by code_simp
  then show ?thesis using storage_roundtrip [OF f example_files_ok] by (simp add: f)
qed

section \<open>Reading in chunks\<close>

lemma iter_chunks_all:
  assumes "0 < chunk_size"
  shows "concat (iter_chunks chunk_size None rest) = rest"
proof (induction "length rest" arbitrary: rest rule: less_induct)
  case less
  show ?case
  proof (cases "rest = []")
    case True
    then show ?thesis by (simp add: iter_chunks.simps Let_def)
  next
    case False
    have shorter: "length (drop (nat chunk_size) rest) < length rest" using False assms by simp
    have step: "iter_chunks chunk_size None rest =
        take (nat chunk_size) rest # iter_chunks chunk_size None (drop (nat chunk_size) rest)"
      by (subst iter_chunks.simps) (use False assms in \<open>simp add: Let_def\<close>)
    show ?thesis by (simp add: step less [OF shorter])
  qed
qed

lemma iter_chunks_some:
  assumes "0 < chunk_size"
  shows "concat (iter_chunks chunk_size (Some r) rest) = take (nat r) rest"
proof (induction "length rest" arbitrary: rest r rule: less_induct)
  case less
  show ?case
  proof (cases "rest = [] \<or> r \<le> 0")
    case True
    then show ?thesis by (subst iter_chunks.simps) (auto simp: Let_def)
  next
    case False
    let ?n = "nat (min chunk_size r)"
    have n: "0 < ?n" using False assms by simp
    have shorter: "length (drop ?n rest) < length rest" using False n by simp
    have size: "length (take ?n rest) = min (length rest) ?n" by simp
    have step: "iter_chunks chunk_size (Some r) rest =
        take ?n rest # iter_chunks chunk_size (Some (r - int (length (take ?n rest)))) (drop ?n rest)"
      by (subst iter_chunks.simps) (use False assms in \<open>auto simp: Let_def\<close>)
    have "concat (iter_chunks chunk_size (Some r) rest) =
        take ?n rest @ take (nat (r - int (length (take ?n rest)))) (drop ?n rest)"
      unfolding step using less [OF shorter] by simp
    also have "\<dots> = take (nat r) rest"
    proof (cases "?n \<le> length rest")
      case True
      have "int ?n = min chunk_size r" using False assms by simp
      then have "nat r = ?n + nat (r - int ?n)" by linarith
      then have "nat r = ?n + nat (r - int (length (take ?n rest)))" using True by (simp add: min_absorb2)
      then show ?thesis by (metis take_add)
    next
      case short: False
      then have "length rest \<le> nat r" by linarith
      with short show ?thesis by simp
    qed
    finally show ?thesis .
  qed
qed

lemma iter_chunks_sizes:
  "0 < chunk_size \<Longrightarrow> c \<in> set (iter_chunks chunk_size remaining rest) \<Longrightarrow> c \<noteq> [] \<and> int (length c) \<le> chunk_size"
proof (induction chunk_size remaining rest rule: iter_chunks.induct)
  case (1 chunk_size remaining rest)
  let ?r = "case remaining of None \<Rightarrow> chunk_size | Some r \<Rightarrow> min chunk_size r"
  show ?case
  proof (cases "?r \<le> 0 \<or> take (nat ?r) rest = []")
    case True
    then have "iter_chunks chunk_size remaining rest = []" by (subst iter_chunks.simps) (auto simp: Let_def)
    with "1.prems" show ?thesis by simp
  next
    case False
    have "iter_chunks chunk_size remaining rest = take (nat ?r) rest # iter_chunks chunk_size
        (map_option (\<lambda>r. r - int (length (take (nat ?r) rest))) remaining) (drop (nat ?r) rest)"
      by (subst iter_chunks.simps) (use False in \<open>simp add: Let_def\<close>)
    moreover have "?r \<le> chunk_size" by (simp split: option.split)
    moreover have "int (length (take (nat ?r) rest)) \<le> ?r"
    proof -
      have "length (take (nat ?r) rest) \<le> nat ?r" by simp
      moreover have "0 < ?r" using False by linarith
      ultimately show ?thesis by linarith
    qed
    ultimately show ?thesis using "1.IH" [OF refl _ refl] "1.prems" False by auto
  qed
qed

text \<open>C39. Streaming a range of a stored file yields exactly the bytes from \<open>start\<close> to \<open>end\<close>, both included, as far as
  the file has them, in non-empty chunks of at most the size asked for, whatever that size is.\<close>

theorem streamed_range_exact:
  assumes "local_read_bytes key st = Inr content" and "0 < chunk_size"
  shows "\<exists>chunks. local_iter_bytes key chunk_size start end_byte st = Inr chunks \<and>
    concat chunks = (let first = (case start of None \<Rightarrow> 0 | Some s \<Rightarrow> s) in case end_byte of
        None \<Rightarrow> drop first content | Some e \<Rightarrow> take (nat (e - int first + 1)) (drop first content)) \<and>
    (\<forall>c \<in> set chunks. c \<noteq> [] \<and> int (length c) \<le> chunk_size)"
proof -
  let ?first = "case start of None \<Rightarrow> 0 | Some s \<Rightarrow> s"
  let ?remaining = "map_option (\<lambda>e. e - int ?first + 1) end_byte"
  let ?chunks = "iter_chunks chunk_size ?remaining (drop ?first content)"
  have "local_iter_bytes key chunk_size start end_byte st = Inr ?chunks"
    using assms(1) by (simp add: local_iter_bytes_def Let_def)
  moreover have "concat ?chunks = (let first = ?first in case end_byte of
        None \<Rightarrow> drop first content | Some e \<Rightarrow> take (nat (e - int first + 1)) (drop first content))"
    by (cases end_byte) (simp_all add: Let_def iter_chunks_all iter_chunks_some assms(2))
  ultimately show ?thesis using iter_chunks_sizes [OF assms(2)] by blast
qed

definition example_recording :: local_storage where
  "example_recording = \<lparr>ls_root = [''data''], ls_files = [([''data'', ''a''], [10, 11, 12, 13, 14])]\<rparr>"

theorem streamed_range_exact_witness:
  "\<exists>chunks. local_iter_bytes ''a'' 2 (Some 1) (Some 3) example_recording = Inr chunks \<and> concat chunks = [11, 12, 13]"
proof -
  have "local_read_bytes ''a'' example_recording = Inr [10, 11, 12, 13, 14]" by code_simp
  from streamed_range_exact [OF this, of 2 "Some 1" "Some 3"] show ?thesis by (simp add: Let_def) blast
qed

end
