(* ===== verification/Practice_Store.thy ===== *)
theory Practice_Store
  imports Practice_Read_Model Library Local_Storage Replay_Deletion_Outbox
begin

text \<open>
  What the practice service works on: the rows, the object storage and the registry of runtimes, and the queries of
  \<open>backend/app/modules/practice/repository.py\<close>. A write is flushed and committed at once unless it says otherwise.
  A reading of the clock, a fresh key and a fresh uuid are arguments.
\<close>

section \<open>Steps\<close>

text \<open>One step after another; an exception ends them and leaves the state it left.\<close>

definition and_then :: "('e + 'a) \<times> 's \<Rightarrow> ('a \<Rightarrow> 's \<Rightarrow> ('e + 'b) \<times> 's) \<Rightarrow> ('e + 'b) \<times> 's" where
  "and_then step next = (case step of (Inl e, s) \<Rightarrow> (Inl e, s) | (Inr x, s) \<Rightarrow> next x s)"

text \<open>A query does not change the state.\<close>

definition query :: "'e + 'a \<Rightarrow> 's \<Rightarrow> ('e + 'a) \<times> 's" where
  "query r s = (r, s)"

lemma and_then_simps [simp]:
  "and_then (Inl e, s) f = (Inl e, s)" "and_then (Inr x, s) f = f x s"
  "and_then (query (Inl e) s) f = (Inl e, s)" "and_then (query (Inr x) s) f = f x s"
  by (simp_all add: and_then_def query_def)

lemma and_then_Inr:
  "and_then m f = (Inr y, s') \<longleftrightarrow> (\<exists>x s. m = (Inr x, s) \<and> f x s = (Inr y, s'))"
  by (cases m rule: prod.exhaust) (auto simp: and_then_def split: sum.splits)

lemma query_Inr [simp]: "query r s = (Inr x, s') \<longleftrightarrow> r = Inr x \<and> s' = s"
  by (auto simp: query_def)

section \<open>Storages\<close>

record DirectUploadTarget =
  ut_upload_url :: string
  ut_upload_method :: string
  ut_upload_headers :: "(string \<times> string) list"

text \<open>The operations of the protocol \<open>FileStorage\<close> that the service calls, on states of type \<open>'s\<close>.\<close>

record 's file_storage =
  fs_backend_name :: string
  fs_put_bytes :: "string \<Rightarrow> 8 word list \<Rightarrow> string \<Rightarrow> 's \<Rightarrow> (app_exception + StoredFile) \<times> 's"
  fs_exists :: "string \<Rightarrow> 's \<Rightarrow> app_exception + bool"
  fs_read_bytes :: "string \<Rightarrow> 's \<Rightarrow> app_exception + 8 word list"
  fs_object_metadata :: "string \<Rightarrow> 's \<Rightarrow> app_exception + StoredObjectMetadata"
  fs_upload_url :: "string \<Rightarrow> string \<Rightarrow> string \<Rightarrow> 's \<Rightarrow> app_exception + DirectUploadTarget option"
  fs_download_url :: "string \<Rightarrow> 's \<Rightarrow> app_exception + string option"
  fs_materialized :: "string \<Rightarrow> 's \<Rightarrow> app_exception + 8 word list"

definition local_file_storage :: "local_storage file_storage" where
  "local_file_storage =
     \<lparr>fs_backend_name = ''local'', fs_put_bytes = (\<lambda>key content content_type. local_put_bytes key content),
      fs_exists = local_exists, fs_read_bytes = local_read_bytes, fs_object_metadata = local_object_metadata,
      fs_upload_url = (\<lambda>key content_type checksum st. Inr None),
      fs_download_url = (\<lambda>key st. map_sum id Some (public_url key)), fs_materialized = local_materialized\<rparr>"

section \<open>State\<close>

datatype RevisionSourceFormat = Source_MUSICXML

record ScoreRevisionSource =
  rs_id :: int
  rs_source_uuid :: string
  rs_revision_id :: int
  rs_format :: RevisionSourceFormat
  rs_storage_backend :: string
  rs_storage_key :: string
  rs_filename :: string
  rs_mime_type :: string
  rs_size_bytes :: "int option"
  rs_sha256 :: string
  rs_generator :: string
  rs_generator_version :: string
  rs_created_at :: timestamp

record practice_db =
  pd_access :: access_db
  pd_library :: library_db
  pd_sources :: "ScoreRevisionSource list"
  pd_sessions :: "PracticeSession list"
  pd_attempts :: "PracticeAttempt list"
  pd_artifacts :: "PracticeReplayArtifact list"
  pd_deletions :: "PracticeReplayObjectDeletionOutbox list"

record 's practice_state = practice_db +
  pd_storage :: 's
  pd_runtimes :: runtime_registry

text \<open>What is outside: hashing, reading a score from the bytes of its file, and the storage that is configured.\<close>

record 's service_env = practice_env +
  sv_token_hash :: "string \<Rightarrow> string"
  sv_sha256 :: "8 word list \<Rightarrow> string"
  sv_timeline :: "8 word list \<Rightarrow> practice_error + PracticeScoreTimeline"
  sv_storage :: "'s file_storage"

definition require_persisted_id :: "string \<Rightarrow> int option \<Rightarrow> app_exception + int" where
  "require_persisted_id entity i =
     (case i of None \<Rightarrow> Inl (OtherException (entity @ '' does not have a persisted id'')) | Some k \<Rightarrow> Inr k)"

text \<open>\<open>canonical_source\<close> of the score assets.\<close>

definition canonical_source :: "int \<Rightarrow> 'b practice_db_scheme \<Rightarrow> app_exception + ScoreRevisionSource option" where
  "canonical_source revision_id db =
     one_or_none (filter (\<lambda>r. rs_revision_id r = revision_id \<and> rs_format r = Source_MUSICXML) (pd_sources db))"

section \<open>Sessions\<close>

definition get_session_by_uuid :: "string \<Rightarrow> 'b practice_db_scheme \<Rightarrow> app_exception + PracticeSession option" where
  "get_session_by_uuid uuid db = one_or_none (filter (\<lambda>s. ps_session_uuid s = uuid) (pd_sessions db))"

text \<open>A column declared unique refuses a second row.\<close>

definition repository_create_session ::
  "int \<Rightarrow> PracticeSession \<Rightarrow> 's practice_state \<Rightarrow> (app_exception + PracticeSession) \<times> 's practice_state" where
  "repository_create_session new_id session db =
     (if ps_session_uuid session \<in> set (map ps_session_uuid (pd_sessions db)) then (Inl (OrmException IntegrityError), db)
      else
        let stored = session\<lparr>ps_id := Some new_id\<rparr>
        in (Inr stored, db\<lparr>pd_sessions := pd_sessions db @ [stored]\<rparr>))"

text \<open>\<open>onupdate\<close> of a row whose columns changed.\<close>

definition touched_session :: "timestamp \<Rightarrow> PracticeSession \<Rightarrow> PracticeSession \<Rightarrow> PracticeSession" where
  "touched_session now session stored = (if session = stored then stored else session\<lparr>ps_updated_at := now\<rparr>)"

definition save_session ::
  "timestamp \<Rightarrow> PracticeSession \<Rightarrow> 's practice_state \<Rightarrow> PracticeSession \<times> 's practice_state" where
  "save_session now session db =
     (let row = (case List.find (\<lambda>s. ps_id s = ps_id session) (pd_sessions db) of
            None \<Rightarrow> session | Some stored \<Rightarrow> touched_session now session stored)
      in (row, db\<lparr>pd_sessions := write_row (\<lambda>s. ps_id s = ps_id session) row (pd_sessions db)\<rparr>))"

section \<open>Attempts\<close>

definition get_attempt_by_uid :: "int \<Rightarrow> string \<Rightarrow> 'b practice_db_scheme \<Rightarrow> app_exception + PracticeAttempt option" where
  "get_attempt_by_uid session_id uid db =
     one_or_none (filter (\<lambda>a. pa_session_id a = session_id \<and> pa_attempt_uid a = uid) (pd_attempts db))"

definition next_attempt_index :: "int \<Rightarrow> 'b practice_db_scheme \<Rightarrow> int" where
  "next_attempt_index session_id db =
     (let indices = map pa_attempt_index (filter (\<lambda>a. pa_session_id a = session_id) (pd_attempts db))
      in (if indices = [] then 0 else foldr max (tl indices) (hd indices)) + 1)"

text \<open>A refused insert rolls back to the committed rows of the sessions, and is no error when the attempt is there
  already.\<close>

definition create_attempt_if_absent ::
  "PracticeSession list \<Rightarrow> int \<Rightarrow> PracticeAttempt \<Rightarrow> 's practice_state \<Rightarrow> (app_exception + bool) \<times> 's practice_state" where
  "create_attempt_if_absent committed new_id attempt db =
     (if list_ex (\<lambda>a. pa_session_id a = pa_session_id attempt \<and> pa_attempt_uid a = pa_attempt_uid attempt) (pd_attempts db)
      then
        let db' = db\<lparr>pd_sessions := committed\<rparr>
        in case get_attempt_by_uid (pa_session_id attempt) (pa_attempt_uid attempt) db' of
             Inl e \<Rightarrow> (Inl e, db')
           | Inr None \<Rightarrow> (Inl (OrmException IntegrityError), db')
           | Inr (Some existing) \<Rightarrow> (Inr False, db')
      else (Inr True, db\<lparr>pd_attempts := pd_attempts db @ [attempt\<lparr>pa_id := Some new_id\<rparr>]\<rparr>))"

definition list_attempts_for_session :: "int \<Rightarrow> 'b practice_db_scheme \<Rightarrow> PracticeAttempt list" where
  "list_attempts_for_session session_id db =
     sort_key pa_attempt_index (filter (\<lambda>a. pa_session_id a = session_id) (pd_attempts db))"

section \<open>Replay artifacts\<close>

definition create_replay_artifact ::
  "int \<Rightarrow> PracticeReplayArtifact \<Rightarrow> 's practice_state \<Rightarrow>
   (app_exception + PracticeReplayArtifact) \<times> 's practice_state" where
  "create_replay_artifact new_id artifact db =
     (if list_ex (\<lambda>a. ra_artifact_uuid a = ra_artifact_uuid artifact \<or> ra_object_key a = ra_object_key artifact \<or>
          ra_session_id a = ra_session_id artifact \<and> ra_kind a = ra_kind artifact) (pd_artifacts db)
      then (Inl (OrmException IntegrityError), db)
      else
        let stored = artifact\<lparr>ra_id := Some new_id\<rparr>
        in (Inr stored, db\<lparr>pd_artifacts := pd_artifacts db @ [stored]\<rparr>))"

definition get_replay_artifact_by_uuid ::
  "string \<Rightarrow> 'b practice_db_scheme \<Rightarrow> app_exception + PracticeReplayArtifact option" where
  "get_replay_artifact_by_uuid uuid db = one_or_none (filter (\<lambda>a. ra_artifact_uuid a = uuid) (pd_artifacts db))"

definition get_replay_artifact_for_session_kind ::
  "int \<Rightarrow> PracticeReplayArtifactKind \<Rightarrow> 'b practice_db_scheme \<Rightarrow> app_exception + PracticeReplayArtifact option" where
  "get_replay_artifact_for_session_kind session_id kind db =
     one_or_none (filter (\<lambda>a. ra_session_id a = session_id \<and> ra_kind a = kind) (pd_artifacts db))"

text \<open>Rows in descending order of their time; rows of the same time keep the order of the table.\<close>

definition newest_first :: "('r \<Rightarrow> timestamp) \<Rightarrow> 'r list \<Rightarrow> 'r list" where
  "newest_first time rows = sort_key (\<lambda>r. - time r) rows"

definition list_replay_artifacts_for_session :: "int \<Rightarrow> 'b practice_db_scheme \<Rightarrow> PracticeReplayArtifact list" where
  "list_replay_artifacts_for_session session_id db =
     newest_first ra_created_at (filter (\<lambda>a. ra_session_id a = session_id) (pd_artifacts db))"

definition has_replay_artifact_for_session :: "int \<Rightarrow> 'b practice_db_scheme \<Rightarrow> bool" where
  "has_replay_artifact_for_session session_id db \<longleftrightarrow> list_ex (\<lambda>a. ra_session_id a = session_id) (pd_artifacts db)"

definition list_saved_performances_for_score_user ::
  "int \<Rightarrow> int \<Rightarrow> nat \<Rightarrow> 'b practice_db_scheme \<Rightarrow> (PracticeSession \<times> PracticeReplayArtifact) list" where
  "list_saved_performances_for_score_user score_id user_id limit db =
     take limit (newest_first (\<lambda>(s, a). ra_created_at a)
       (concat (map (\<lambda>s. map (Pair s) (filter (\<lambda>a. Some (ra_session_id a) = ps_id s) (pd_artifacts db)))
          (filter (\<lambda>s. ps_score_id s = score_id \<and> ps_user_id s = Some user_id \<and> ps_state s = Session_FINISHED \<and>
             ps_evaluation_profile s = PERFORMANCE) (pd_sessions db)))))"

text \<open>The deletion is queued and the artifact removed in one transaction; the artifact's uuid and the outbox uuid are
  unique in the outbox.\<close>

definition delete_replay_artifact_and_queue_object_deletion ::
  "PracticeReplayArtifact \<Rightarrow> PracticeReplayObjectDeletionOutbox \<Rightarrow> 's practice_state \<Rightarrow>
   (app_exception + unit) \<times> 's practice_state" where
  "delete_replay_artifact_and_queue_object_deletion artifact deletion db =
     (if list_ex (\<lambda>d. rd_outbox_uuid d = rd_outbox_uuid deletion \<or> rd_artifact_uuid d = rd_artifact_uuid deletion)
          (pd_deletions db)
      then (Inl (OrmException IntegrityError), db)
      else (Inr (), db\<lparr>pd_deletions := pd_deletions db @ [deletion],
        pd_artifacts := filter (\<lambda>a. ra_id a \<noteq> ra_id artifact) (pd_artifacts db)\<rparr>))"

text \<open>\<open>cleanup_service.py\<close>: the sessions of a score and, as their foreign keys cascade, what hangs on them; the keys of
  the recordings are returned.\<close>

definition cleanup_for_score :: "int \<Rightarrow> 's practice_state \<Rightarrow> string list \<times> 's practice_state" where
  "cleanup_for_score score_id db =
     (let sessions = filter (\<lambda>s. ps_score_id s = score_id) (pd_sessions db);
          gone = (\<lambda>i. list_ex (\<lambda>s. ps_id s = Some i) sessions)
      in (List.map_filter ps_audio_path sessions,
          db\<lparr>pd_sessions := filter (\<lambda>s. ps_score_id s \<noteq> score_id) (pd_sessions db),
             pd_attempts := filter (\<lambda>a. \<not> gone (pa_session_id a)) (pd_attempts db),
             pd_artifacts := filter (\<lambda>a. \<not> gone (ra_session_id a)) (pd_artifacts db)\<rparr>))"

end
