(* ===== verification/Practice_Service.thy ===== *)
theory Practice_Service
  imports Practice_Store
begin

text \<open>
  The life of a practice session, \<open>PracticeService\<close> of \<open>backend/app/modules/practice/service.py\<close>: creating,
  preparing its runtime, streaming, pausing, resuming, finishing and failing, the attempts and the summary. What
  concerns saved replays is in the theory \<open>Practice_Replay\<close>. \<open>clk i\<close> is the i-th reading of the clock of a call.
  A row that is changed and not yet committed is written at once; a rollback brings the committed rows back.
\<close>

section \<open>Guards\<close>

definition session_not_found :: "string \<Rightarrow> app_exception" where
  "session_not_found uuid = resource_not_found_exception ''practice_session'' (Some uuid) ''practice_session_not_found''"

definition invalid_state :: app_exception where
  "invalid_state = validation_exception ''practice_session_invalid_state'' ''state'' []"

definition require_session :: "string \<Rightarrow> 'b practice_db_scheme \<Rightarrow> app_exception + PracticeSession" where
  "require_session uuid db =
     (case get_session_by_uuid uuid db of
        Inl e \<Rightarrow> Inl e | Inr None \<Rightarrow> Inl (session_not_found uuid) | Inr (Some session) \<Rightarrow> Inr session)"

definition require_session_for_user :: "string \<Rightarrow> int \<Rightarrow> 'b practice_db_scheme \<Rightarrow> app_exception + PracticeSession" where
  "require_session_for_user uuid user db =
     (case require_session uuid db of
        Inl e \<Rightarrow> Inl e
      | Inr session \<Rightarrow>
          if ps_user_id session \<noteq> Some user
          then Inl (unauthorized_exception ''no_practice_access'' [(''session_id'', D_str uuid)]) else Inr session)"

datatype BrowserVerifierCapability = STEP_MICROPHONE_VERIFIER_V1

definition step_provider_for_session ::
  "string \<Rightarrow> PracticeInputSource \<Rightarrow> PracticeStepMicrophoneVerificationProvider option \<Rightarrow>
   BrowserVerifierCapability list \<Rightarrow> app_exception + PracticeStepMicrophoneVerificationProvider option" where
  "step_provider_for_session runtime_kind source requested capabilities =
     (if runtime_kind \<noteq> ''STEP_BY_STEP'' \<or> source \<noteq> Input_MICROPHONE
      then if requested \<noteq> None \<or> capabilities \<noteq> []
        then Inl (validation_exception ''validation_error'' ''step_microphone_verification_provider''
          [(''reason'', D_str ''STEP microphone verifier provider is only valid for STEP_BY_STEP microphone sessions.'')])
        else Inr None
      else
        let provider = (case requested of None \<Rightarrow> Verify_SERVER | Some p \<Rightarrow> p)
        in if provider = Verify_BROWSER_LOCAL \<and> STEP_MICROPHONE_VERIFIER_V1 \<notin> set capabilities
           then Inl (validation_exception ''validation_error'' ''browser_verifier_capabilities''
             [(''reason'', D_str (''BROWSER_LOCAL STEP microphone verification requires explicit '' @
                ''browser verifier capability.''))])
           else Inr (Some provider))"

text \<open>Both input sources pass the last test of each mode, and there is no third mode.\<close>

definition validate_session_policy ::
  "PracticeProgressionMode \<Rightarrow> PracticeRealtimeGuidance \<Rightarrow> PracticeEvaluationProfile \<Rightarrow> PracticeInputSource \<Rightarrow>
   app_exception + unit" where
  "validate_session_policy mode guidance profile source =
     (let (g, p) = (case mode of CONTINUOUS \<Rightarrow> (STATUS_ONLY, PERFORMANCE) | WAIT_FOR_NOTE \<Rightarrow> (GUIDED, LEARNING))
      in if guidance \<noteq> g then Inl (validation_exception ''validation_error'' ''realtime_guidance'' [])
         else if profile \<noteq> p then Inl (validation_exception ''validation_error'' ''evaluation_profile'' [])
         else if source \<notin> {Input_MICROPHONE, Input_MIDI}
         then Inl (validation_exception ''validation_error'' ''input_source'' []) else Inr ())"

section \<open>Creating\<close>

record create_request =
  cr_score_uuid :: string
  cr_user_id :: int
  cr_revision_uuid :: "string option"
  cr_sample_rate :: int
  cr_channels :: int
  cr_frame_format :: string
  cr_preset :: PracticeSessionPreset
  cr_input_source :: PracticeInputSource
  cr_practice_scope :: "PracticeSessionScope option"
  cr_provider :: "PracticeStepMicrophoneVerificationProvider option"
  cr_capabilities :: "BrowserVerifierCapability list"

definition practice_request :: "int \<Rightarrow> string option \<Rightarrow> access_request" where
  "practice_request user revision = \<lparr>rq_user = Some user, rq_revision = revision, rq_token = None, rq_slug = None\<rparr>"

definition new_session ::
  "string \<Rightarrow> timestamp \<Rightarrow> timestamp \<Rightarrow> create_request \<Rightarrow> PracticeRuntimeConfig \<Rightarrow>
   PracticeStepMicrophoneVerificationProvider option \<Rightarrow> ScoreAccessContext \<Rightarrow> PracticeSession" where
  "new_session uuid t_created t_updated rq config provider access =
     \<lparr>ps_id = None, ps_session_uuid = uuid, ps_score_id = sc_id (cx_score access),
      ps_revision_id = rv_id (cx_revision access), ps_access_origin = cx_origin access,
      ps_share_grant_id = map_option sg_id (cx_grant access), ps_user_id = Some (cr_user_id rq),
      ps_state = Session_CREATED, ps_progression_mode = rc_progression_mode config,
      ps_realtime_guidance = rc_realtime_guidance config, ps_evaluation_profile = rc_evaluation_profile config,
      ps_input_source = rc_input_source config, ps_provider = provider, ps_sample_rate = cr_sample_rate rq,
      ps_channels = cr_channels rq, ps_frame_format = cr_frame_format rq,
      ps_scope_start_group = map_option sp_start_expected_group_id (cr_practice_scope rq),
      ps_scope_end_group = Option.bind (cr_practice_scope rq) sp_end_expected_group_id,
      ps_scope_start_measure = Option.bind (cr_practice_scope rq) sp_start_measure_number,
      ps_scope_end_measure = Option.bind (cr_practice_scope rq) sp_end_measure_number, ps_started_at = None,
      ps_finished_at = None, ps_last_beat_position = None, ps_last_confidence = None, ps_audio_path = None,
      ps_completion_reason = None, ps_summary_status = Summary_NOT_REQUESTED, ps_summary_payload = None,
      ps_error = None, ps_created_at = t_created, ps_updated_at = t_updated\<rparr>"

definition create_session ::
  "'s service_env \<Rightarrow> (nat \<Rightarrow> timestamp) \<Rightarrow> int \<Rightarrow> string \<Rightarrow> create_request \<Rightarrow> 's practice_state \<Rightarrow>
   (app_exception + PracticeSessionStartRead) \<times> 's practice_state" where
  "create_session env clk new_id new_uuid rq db =
     (let config = canonical_runtime_config_for_preset (cr_preset rq) (cr_input_source rq) in
      and_then (query (canonical_runtime_kind (rc_progression_mode config) (rc_realtime_guidance config)
        (rc_evaluation_profile config)) db) (\<lambda>kind db.
      and_then (query (step_provider_for_session (runtime_kind_value kind) (rc_input_source config) (cr_provider rq)
        (cr_capabilities rq)) db) (\<lambda>provider db.
      and_then (query (validate_session_policy (rc_progression_mode config) (rc_realtime_guidance config)
        (rc_evaluation_profile config) (cr_input_source rq)) db) (\<lambda>u db.
      and_then (query (authorize (sv_token_hash env) (pd_access db) (clk 0) (cr_score_uuid rq) Act_PRACTICE
        (practice_request (cr_user_id rq) (cr_revision_uuid rq))) db) (\<lambda>access db.
      and_then (query (canonical_source (rv_id (cx_revision access)) db) db) (\<lambda>source db.
      case source of
        None \<Rightarrow> (Inl (resource_not_found_exception ''source'' (cr_revision_uuid rq) ''file_not_found''), db)
      | Some src \<Rightarrow>
          and_then (repository_create_session new_id (new_session new_uuid (clk 1) (clk 2) rq config provider access) db)
            (\<lambda>session db. (Inr (to_session_start session), db))))))))"

section \<open>Showing\<close>

definition session_detail ::
  "PracticeSession \<Rightarrow> 'b practice_db_scheme \<Rightarrow> app_exception + PracticeSessionDetailRead" where
  "session_detail session db =
     (let shown = (\<lambda>saved. to_session_detail (db_get sc_id (ad_scores (pd_access db)) (Some (ps_score_id session)))
            (db_get rv_id (ad_revisions (pd_access db)) (Some (ps_revision_id session))) session saved)
      in if ps_evaluation_profile session = PERFORMANCE \<and> ps_state session = Session_FINISHED
         then (case require_persisted_id ''practice session'' (ps_id session) of
             Inl e \<Rightarrow> Inl e | Inr i \<Rightarrow> shown (has_replay_artifact_for_session i db))
         else shown False)"

definition get_session_detail :: "string \<Rightarrow> int \<Rightarrow> 'b practice_db_scheme \<Rightarrow> app_exception + PracticeSessionDetailRead" where
  "get_session_detail uuid user db =
     (case require_session_for_user uuid user db of Inl e \<Rightarrow> Inl e | Inr session \<Rightarrow> session_detail session db)"

text \<open>\<open>list_saved_performances\<close>: what was saved of performances whose revision is still there. The set of revisions is
  read row by row; the first exception ends it.\<close>

definition list_saved_performances ::
  "'s service_env \<Rightarrow> timestamp \<Rightarrow> string \<Rightarrow> int \<Rightarrow> nat \<Rightarrow> 's practice_state \<Rightarrow>
   app_exception + SavedPracticePerformanceRead list" where
  "list_saved_performances env now score user limit db =
     (case authorize (sv_token_hash env) (pd_access db) now score Act_PRACTICE (practice_request user None) of
        Inl e \<Rightarrow> Inl e
      | Inr access \<Rightarrow>
          traverse (\<lambda>(session, artifact, revision). to_saved_performance session artifact (revision_uuid revision))
            (List.map_filter (\<lambda>(session, artifact). map_option (\<lambda>revision. (session, artifact, revision))
                (db_get rv_id (ad_revisions (pd_access db)) (Some (ps_revision_id session))))
              (list_saved_performances_for_score_user (sc_id (cx_score access)) user limit db)))"

section \<open>Attempts\<close>

fun attempt_result_for_evaluation :: "EvaluationResult \<Rightarrow> PracticeAttemptResult" where
  "attempt_result_for_evaluation MATCH = Result_MATCH"
| "attempt_result_for_evaluation PARTIAL = Result_PARTIAL"
| "attempt_result_for_evaluation MISMATCH = Result_MISMATCH"
| "attempt_result_for_evaluation UNCERTAIN = Result_UNCERTAIN"
| "attempt_result_for_evaluation SKIPPED = Result_SKIPPED"

fun attempt_resolution_reason :: "AlignmentReason \<Rightarrow> PracticeAttemptResolutionReason" where
  "attempt_resolution_reason stable_match = Reason_stable_match"
| "attempt_resolution_reason partial_match = Reason_partial_match"
| "attempt_resolution_reason insufficient_input = Reason_insufficient_input"
| "attempt_resolution_reason entry_mismatch = Reason_entry_mismatch"
| "attempt_resolution_reason low_alignment_confidence = Reason_low_alignment_confidence"
| "attempt_resolution_reason holding_position = Reason_holding_position"
| "attempt_resolution_reason reacquiring = Reason_reacquiring"
| "attempt_resolution_reason large_jump = Reason_large_jump"
| "attempt_resolution_reason practice_paused = Reason_practice_paused"
| "attempt_resolution_reason practice_finished = Reason_practice_finished"
| "attempt_resolution_reason connection_closed = Reason_connection_closed"
| "attempt_resolution_reason user_skipped = Reason_user_skipped"

definition completion_status_for_reason :: "AlignmentReason \<Rightarrow> PracticeAttemptCompletionStatus" where
  "completion_status_for_reason reason =
     (if reason \<in> {practice_paused, practice_finished, connection_closed} then Attempt_INTERRUPTED else Attempt_COMPLETED)"

fun action_value :: "AlignmentAction \<Rightarrow> string" where
  "action_value Advance = ''advance''"
| "action_value Hold = ''hold''"
| "action_value Wait = ''wait''"
| "action_value Skip = ''skip''"

fun experience_state_value :: "PracticeExperienceState \<Rightarrow> string" where
  "experience_state_value waiting_for_input = ''waiting_for_input''"
| "experience_state_value listening = ''listening''"
| "experience_state_value following = ''following''"
| "experience_state_value partially_matched = ''partially_matched''"
| "experience_state_value heard_but_uncertain = ''heard_but_uncertain''"
| "experience_state_value possible_wrong_note = ''possible_wrong_note''"
| "experience_state_value recovering = ''recovering''"
| "experience_state_value lost = ''lost''"
| "experience_state_value paused = ''paused''"
| "experience_state_value skipped = ''skipped''"

text \<open>An empty list is stored as null.\<close>

definition stored_strings :: "string list \<Rightarrow> json_value option" where
  "stored_strings xs = (if xs = [] then None else Some (js_strings xs))"

definition attempt_from_resolved :: "timestamp \<Rightarrow> PracticeSession \<Rightarrow> int \<Rightarrow> ResolvedPracticeAttempt \<Rightarrow> PracticeAttempt" where
  "attempt_from_resolved t_created session session_id resolved =
     (let anchor = ra_display_anchor resolved; oc = ra_outcome resolved; s = oc_snapshot oc
      in \<lparr>pa_id = None, pa_session_id = session_id, pa_attempt_index = 0, pa_attempt_uid = sp_attempt_id s,
          pa_started_at_ms = Some (sp_started_at_ms s), pa_resolved_at_ms = sp_resolved_at_ms s,
          pa_expected_group_id = Some (an_group_id anchor), pa_event_id = Some (an_event_id anchor),
          pa_beat_position = ra_beat_position resolved,
          pa_render_note_ids = stored_strings (an_render_note_ids anchor),
          pa_measure_numbers = stored_strings (ra_measure_numbers resolved),
          pa_result = attempt_result_for_evaluation (pe_result (oc_evaluation oc)),
          pa_action = action_value (ra_action resolved),
          pa_completion_status = completion_status_for_reason (ra_resolution_reason resolved),
          pa_resolution_reason = attempt_resolution_reason (ra_resolution_reason resolved),
          pa_experience_state = experience_state_value (ra_experience_state resolved),
          pa_input_source = ps_input_source session, pa_evidence_profile = evidence_profile_for_session session,
          pa_correctness_scope = correctness_scope_for_session session,
          pa_evaluator_version = Some (evaluator_version (oc_evaluation oc)),
          pa_policy_profile_version = Some (oc_policy_profile_version oc), pa_confidence = ra_confidence resolved,
          pa_validation_confidence = Some (ra_validation_confidence resolved),
          pa_input_policy_confidence = Some (ra_input_policy_confidence resolved),
          pa_timestamp_ms = ra_timestamp_ms resolved, pa_created_at = t_created\<rparr>)"

definition persist_practice_attempt ::
  "PracticeSession list \<Rightarrow> timestamp \<Rightarrow> int \<Rightarrow> string \<Rightarrow> ResolvedPracticeAttempt \<Rightarrow> 's practice_state \<Rightarrow>
   (app_exception + unit) \<times> 's practice_state" where
  "persist_practice_attempt committed t_created new_id uuid resolved db =
     and_then (query (require_session uuid db) db) (\<lambda>session db.
     and_then (query (require_persisted_id ''practice session'' (ps_id session)) db) (\<lambda>session_id db.
     and_then (create_attempt_if_absent committed new_id ((attempt_from_resolved t_created session session_id resolved)
        \<lparr>pa_attempt_index := next_attempt_index session_id db\<rparr>) db) (\<lambda>created db. (Inr (), db))))"

text \<open>A list of attempts, each committed before the next; the i-th has the i-th key and time.\<close>

fun persist_attempts ::
  "PracticeSession list \<Rightarrow> (nat \<Rightarrow> timestamp) \<Rightarrow> (nat \<Rightarrow> int) \<Rightarrow> string \<Rightarrow> ResolvedPracticeAttempt list \<Rightarrow> 's practice_state \<Rightarrow>
   (app_exception + unit) \<times> 's practice_state" where
  "persist_attempts committed clk new_id uuid [] db = (Inr (), db)"
| "persist_attempts committed clk new_id uuid (r # rs) db =
     and_then (persist_practice_attempt committed (clk 0) (new_id 0) uuid r db) (\<lambda>u db.
       persist_attempts (pd_sessions db) (\<lambda>i. clk (Suc i)) (\<lambda>i. new_id (Suc i)) uuid rs db)"

definition put_session_runtime :: "string \<Rightarrow> PracticeRuntime \<Rightarrow> 's practice_state \<Rightarrow> 's practice_state" where
  "put_session_runtime uuid runtime db = db\<lparr>pd_runtimes := put_runtime uuid runtime (pd_runtimes db)\<rparr>"

definition finalize_pending ::
  "'b float_ops_scheme \<Rightarrow> PracticeSession list \<Rightarrow> (nat \<Rightarrow> timestamp) \<Rightarrow> (nat \<Rightarrow> int) \<Rightarrow> string \<Rightarrow> AlignmentReason \<Rightarrow>
   's practice_state \<Rightarrow> (app_exception + unit) \<times> 's practice_state" where
  "finalize_pending fl committed clk new_id uuid reason db =
     (case get_runtime uuid (pd_runtimes db) of
        None \<Rightarrow> (Inr (), db)
      | Some (Performance_runtime pr) \<Rightarrow> (Inr (), db)
      | Some (Step_runtime sr) \<Rightarrow>
          let (attempts, sr') = runtime_finalize fl reason sr
          in persist_attempts committed clk new_id uuid attempts (put_session_runtime uuid (Step_runtime sr') db))"

definition persist_alignment ::
  "timestamp \<Rightarrow> string \<Rightarrow> AlignmentUpdate \<Rightarrow> 's practice_state \<Rightarrow> (app_exception + unit) \<times> 's practice_state" where
  "persist_alignment t_updated uuid alignment db =
     and_then (query (require_session uuid db) db) (\<lambda>session db.
       (Inr (), snd (save_session t_updated
          (session\<lparr>ps_last_beat_position := Some (au_beat_position alignment),
             ps_last_confidence := Some (au_confidence alignment)\<rparr>) db)))"

section \<open>The runtime of a stream\<close>

fun runtime_provider :: "PracticeStepMicrophoneVerificationProvider \<Rightarrow> VerificationProvider" where
  "runtime_provider Verify_SERVER = SERVER"
| "runtime_provider Verify_BROWSER_LOCAL = BROWSER_LOCAL"

definition runtime_config_of :: "Score \<Rightarrow> PracticeRuntimeKind \<Rightarrow> PracticeSession \<Rightarrow> session_config" where
  "runtime_config_of score kind session =
     \<lparr>cf_session_id = ps_session_uuid session, cf_task_id = score_uuid score,
      cf_state = session_state_value (ps_state session), cf_sample_rate = ps_sample_rate session,
      cf_channels = ps_channels session, cf_frame_format = ps_frame_format session,
      cf_progression_mode = progression_mode_value (ps_progression_mode session),
      cf_realtime_guidance = guidance_value (ps_realtime_guidance session),
      cf_evaluation_profile = profile_value (ps_evaluation_profile session),
      cf_input_source = input_source_value (ps_input_source session),
      cf_start_expected_group_id = ps_scope_start_group session, cf_end_expected_group_id = ps_scope_end_group session,
      cf_runtime_kind = runtime_kind_value kind, cf_websocket = None\<rparr>"

text \<open>What the client is told of an exception of the registration: the two exceptions of the follow policy have codes of
  their own. A scope shows its group, or its missing group as an empty text.\<close>

definition registration_exception :: "PracticeSession \<Rightarrow> performance_error \<Rightarrow> app_exception" where
  "registration_exception session e =
     (case e of
        Score_timeline_error (PracticeScopeTargetNotFound g) \<Rightarrow>
          validation_exception ''practice_scope_target_not_found'' ''practice_scope'' [(''expected_group_id'', D_str g)]
      | Score_timeline_error PracticeScopeInvalidRange \<Rightarrow>
          validation_exception ''practice_scope_invalid'' ''practice_scope''
            [(''start_expected_group_id'', D_str (case ps_scope_start_group session of None \<Rightarrow> [] | Some g \<Rightarrow> g)),
             (''end_expected_group_id'', D_str (case ps_scope_end_group session of None \<Rightarrow> [] | Some g \<Rightarrow> g))]
      | _ \<Rightarrow> external_service_exception ''practice_alignment'' ''practice_alignment_failed'')"

text \<open>The exception of a kind that is not canonical is one of the registration's. The registry of the service has no
  factory of acoustic verifiers, and none is passed.\<close>

definition register_session ::
  "'s service_env \<Rightarrow> Score \<Rightarrow> PracticeSession \<Rightarrow> practice_error + PracticeScoreTimeline \<Rightarrow> runtime_registry \<Rightarrow>
   (performance_error + PracticeRuntime) \<times> runtime_registry" where
  "register_session env score session timeline registry =
     (case kind_of_session session of
        Inl e \<Rightarrow> (Inl (PerformanceRuntimeError (exception_code e)), registry)
      | Inr kind \<Rightarrow>
          register_runtime (practice_env.truncate env) timeline False (map_option runtime_provider (ps_provider session))
            (runtime_config_of score kind session) registry)"

definition prepare_stream_runtime ::
  "'s service_env \<Rightarrow> timestamp \<Rightarrow> string \<Rightarrow> int \<Rightarrow> 's practice_state \<Rightarrow>
   (app_exception + PracticeRuntime) \<times> 's practice_state" where
  "prepare_stream_runtime env t_updated uuid user db =
     and_then (query (require_session_for_user uuid user db) db) (\<lambda>session db.
     case get_runtime uuid (pd_runtimes db) of
       Some runtime \<Rightarrow> (Inr runtime, db)
     | None \<Rightarrow>
       if ps_state session \<in> {Session_FINISHED, Session_FAILED} then (Inl invalid_state, db)
       else case (db_get sc_id (ad_scores (pd_access db)) (Some (ps_score_id session)),
                  db_get rv_id (ad_revisions (pd_access db)) (Some (ps_revision_id session))) of
           (Some score, Some revision) \<Rightarrow>
             and_then (query (canonical_source (rv_id revision) db) db) (\<lambda>source db.
             case source of
               None \<Rightarrow> (Inl (resource_not_found_exception ''practice_revision_source'' (Some (revision_uuid revision))
                  ''file_not_found''), db)
             | Some src \<Rightarrow>
               and_then (query (fs_materialized (sv_storage env) (rs_storage_key src) (pd_storage db)) db) (\<lambda>content db.
               case register_session env score session (sv_timeline env content) (pd_runtimes db) of
                 (Inr runtime, registry) \<Rightarrow> (Inr runtime, db\<lparr>pd_runtimes := registry\<rparr>)
               | (Inl e, registry) \<Rightarrow>
                   (Inl (registration_exception session e),
                    snd (save_session t_updated (session\<lparr>ps_state := Session_FAILED, ps_error := Some (error_text e)\<rparr>) db))))
         | _ \<Rightarrow> (Inl (resource_not_found_exception ''practice_revision'' (Some uuid) ''revision_not_found''), db))"

definition update_runtime_state :: "string \<Rightarrow> PracticeSessionState \<Rightarrow> 's practice_state \<Rightarrow> 's practice_state" where
  "update_runtime_state uuid state db =
     (case get_runtime uuid (pd_runtimes db) of
        None \<Rightarrow> db
      | Some runtime \<Rightarrow> put_session_runtime uuid (set_runtime_state (session_state_value state) runtime) db)"

definition release_session_runtime :: "'b float_ops_scheme \<Rightarrow> string \<Rightarrow> 's practice_state \<Rightarrow> 's practice_state" where
  "release_session_runtime fl uuid db = db\<lparr>pd_runtimes := snd (release_runtime fl uuid (pd_runtimes db))\<rparr>"

section \<open>Streaming, pausing, resuming\<close>

type_synonym 's detail_answer = "(app_exception + PracticeSessionDetailRead) \<times> 's practice_state"

definition with_start :: "timestamp \<Rightarrow> PracticeSession \<Rightarrow> PracticeSession" where
  "with_start now session = (if ps_started_at session = None then session\<lparr>ps_started_at := Some now\<rparr> else session)"

text \<open>Saving a session, telling its runtime, and showing it.\<close>

definition saved_and_shown :: "timestamp \<Rightarrow> PracticeSession \<Rightarrow> 's practice_state \<Rightarrow> 's detail_answer" where
  "saved_and_shown t_updated session db =
     (let (stored, db1) = save_session t_updated session db;
          db2 = update_runtime_state (ps_session_uuid stored) (ps_state stored) db1
      in (session_detail stored db2, db2))"

definition start_session_stream ::
  "(nat \<Rightarrow> timestamp) \<Rightarrow> string \<Rightarrow> int \<Rightarrow> 's practice_state \<Rightarrow> 's detail_answer" where
  "start_session_stream clk uuid user db =
     and_then (query (require_session_for_user uuid user db) db) (\<lambda>session db.
       if ps_state session \<notin> {Session_CREATED, Session_STREAMING} then (Inl invalid_state, db)
       else saved_and_shown (clk 1) (with_start (clk 0) (session\<lparr>ps_state := Session_STREAMING\<rparr>)) db)"

definition resume_session ::
  "(nat \<Rightarrow> timestamp) \<Rightarrow> string \<Rightarrow> int \<Rightarrow> 's practice_state \<Rightarrow> 's detail_answer" where
  "resume_session clk uuid user db =
     and_then (query (require_session_for_user uuid user db) db) (\<lambda>session db.
       if ps_state session \<noteq> Session_PAUSED then (Inl invalid_state, db)
       else saved_and_shown (clk 1) (with_start (clk 0) (session\<lparr>ps_state := Session_STREAMING\<rparr>)) db)"

definition reset_step_input :: "string \<Rightarrow> 's practice_state \<Rightarrow> 's practice_state" where
  "reset_step_input uuid db =
     (case get_runtime uuid (pd_runtimes db) of
        Some (Step_runtime sr) \<Rightarrow> put_session_runtime uuid (Step_runtime (runtime_reset_input_buffer sr)) db
      | _ \<Rightarrow> db)"

definition pause_session ::
  "'s service_env \<Rightarrow> (nat \<Rightarrow> timestamp) \<Rightarrow> (nat \<Rightarrow> int) \<Rightarrow> string \<Rightarrow> int \<Rightarrow> 's practice_state \<Rightarrow> 's detail_answer" where
  "pause_session env clk new_id uuid user db =
     and_then (query (require_session_for_user uuid user db) db) (\<lambda>session db.
       if ps_state session \<notin> {Session_CREATED, Session_STREAMING} then (Inl invalid_state, db)
       else and_then (finalize_pending env (pd_sessions db) (\<lambda>i. clk (Suc i)) new_id uuid practice_paused db) (\<lambda>u db.
         let (stored, db1) = save_session (clk 0) (session\<lparr>ps_state := Session_PAUSED\<rparr>) db;
             db2 = reset_step_input (ps_session_uuid stored)
               (update_runtime_state (ps_session_uuid stored) (ps_state stored) db1)
         in (session_detail stored db2, db2)))"

section \<open>Finishing and failing\<close>

text \<open>A changed row before it is committed, and the row of a session after other steps.\<close>

definition flushed :: "timestamp \<Rightarrow> PracticeSession \<Rightarrow> 's practice_state \<Rightarrow> 's practice_state" where
  "flushed now session db = snd (save_session now session db)"

definition current_row :: "PracticeSession \<Rightarrow> 'b practice_db_scheme \<Rightarrow> PracticeSession" where
  "current_row session db =
     (case List.find (\<lambda>s. ps_id s = ps_id session) (pd_sessions db) of None \<Rightarrow> session | Some row \<Rightarrow> row)"

definition finished_row :: "PracticeSessionCompletionReason \<Rightarrow> timestamp \<Rightarrow> PracticeSession \<Rightarrow> PracticeSession" where
  "finished_row reason now session =
     session\<lparr>ps_state := Session_FINISHED, ps_completion_reason := Some reason, ps_finished_at := Some now,
       ps_summary_status := Summary_PENDING, ps_summary_payload := None\<rparr>"

definition finish_session ::
  "'s service_env \<Rightarrow> (nat \<Rightarrow> timestamp) \<Rightarrow> (nat \<Rightarrow> int) \<Rightarrow> string \<Rightarrow> int \<Rightarrow> PracticeSessionCompletionReason \<Rightarrow>
   's practice_state \<Rightarrow> 's detail_answer" where
  "finish_session env clk new_id uuid user reason db =
     and_then (query (require_session_for_user uuid user db) db) (\<lambda>session db.
       if ps_state session = Session_FINISHED
       then if ps_completion_reason session = Some reason then (session_detail session db, db) else (Inl invalid_state, db)
       else if ps_state session = Session_FAILED then (Inl invalid_state, db)
       else
         let started = with_start (clk 0) session in
         and_then (finalize_pending env (pd_sessions db) (\<lambda>i. clk (5 + i)) new_id uuid practice_finished
           (flushed (clk 1) started db)) (\<lambda>u db.
           let (stored, db1) = save_session (clk 3) (finished_row reason (clk 2) (current_row started db)) db;
               db2 = db1\<lparr>pd_library := mark_practiced (clk 4) user (ps_score_id stored) (pd_library db1)\<rparr>;
               db3 = release_session_runtime env (ps_session_uuid stored) db2
           in (session_detail stored db3, db3)))"

definition fail_active_session_stream ::
  "'s service_env \<Rightarrow> (nat \<Rightarrow> timestamp) \<Rightarrow> (nat \<Rightarrow> int) \<Rightarrow> string \<Rightarrow> int \<Rightarrow> string \<Rightarrow> 's practice_state \<Rightarrow>
   's detail_answer" where
  "fail_active_session_stream env clk new_id uuid user reason db =
     and_then (query (require_session_for_user uuid user db) db) (\<lambda>session db.
       if ps_state session = Session_FINISHED then (Inl invalid_state, db)
       else if ps_state session = Session_FAILED then (session_detail session db, db)
       else and_then (finalize_pending env (pd_sessions db) (\<lambda>i. clk (Suc (Suc i))) new_id uuid connection_closed db) (\<lambda>u db.
         let (stored, db1) = save_session (clk 1) (session\<lparr>ps_state := Session_FAILED, ps_finished_at := Some (clk 0),
               ps_error := Some reason\<rparr>) db;
             db2 = release_session_runtime env (ps_session_uuid stored) db1
         in (session_detail stored db2, db2)))"

section \<open>Summaries\<close>

definition summarized_row ::
  "'b float_ops_scheme \<Rightarrow> PerformanceObservation list \<Rightarrow> PerformanceExpectedEventOutcome list \<Rightarrow> PracticeSession \<Rightarrow>
   'c practice_db_scheme \<Rightarrow> PracticeSession" where
  "summarized_row fl observations outcomes session db =
     (case require_persisted_id ''practice session'' (ps_id session) of
        Inl e \<Rightarrow> session\<lparr>ps_summary_status := Summary_FAILED, ps_summary_payload := None,
          ps_error := Some (case e of OtherException text \<Rightarrow> text | _ \<Rightarrow> [])\<rparr>
      | Inr session_id \<Rightarrow> session\<lparr>ps_summary_status := Summary_READY,
          ps_summary_payload := Some (build_summary fl (session\<lparr>ps_summary_status := Summary_PENDING\<rparr>)
            (list_attempts_for_session session_id db) observations outcomes),
          ps_error := None\<rparr>)"

definition build_summary_for_finished_session ::
  "'s service_env \<Rightarrow> timestamp \<Rightarrow> string \<Rightarrow> int \<Rightarrow> PerformanceObservation list \<Rightarrow> PerformanceExpectedEventOutcome list \<Rightarrow>
   's practice_state \<Rightarrow> 's detail_answer" where
  "build_summary_for_finished_session env t_updated uuid user observations outcomes db =
     and_then (query (require_session_for_user uuid user db) db) (\<lambda>session db.
       if ps_state session \<noteq> Session_FINISHED then (Inl invalid_state, db)
       else
         let (stored, db1) = save_session t_updated (summarized_row env observations outcomes session db) db
         in (session_detail stored db1, db1))"

record PracticeSessionResultSummary =
  sm_session_id :: string
  sm_summary_status :: PracticeSessionSummaryStatus
  sm_summary_payload :: "json_value option"
  sm_performance_timeline :: "PerformanceTimelineProjection option"

text \<open>The payload is the one the builder wrote, which has the shape that is validated when it is read.\<close>

definition performance_timeline_for_summary ::
  "'s service_env \<Rightarrow> PracticeSession \<Rightarrow> 's practice_state \<Rightarrow> app_exception + PerformanceTimelineProjection option" where
  "performance_timeline_for_summary env session db =
     (if ps_evaluation_profile session \<noteq> PERFORMANCE \<or> ps_state session \<noteq> Session_FINISHED then Inr None
      else case db_get rv_id (ad_revisions (pd_access db)) (Some (ps_revision_id session)) of
          None \<Rightarrow> Inl (resource_not_found_exception ''practice_revision'' (Some (ps_session_uuid session)) ''revision_not_found'')
        | Some revision \<Rightarrow>
            (case canonical_source (rv_id revision) db of
               Inl e \<Rightarrow> Inl e
             | Inr None \<Rightarrow> Inl (resource_not_found_exception ''practice_revision_source'' (Some (revision_uuid revision))
                 ''file_not_found'')
             | Inr (Some src) \<Rightarrow>
                 (case fs_materialized (sv_storage env) (rs_storage_key src) (pd_storage db) of
                    Inl e \<Rightarrow> Inl e
                  | Inr content \<Rightarrow>
                      (case build_performance_runtime (practice_env.truncate env) (sv_timeline env content)
                          (ps_scope_start_group session) (ps_scope_end_group session) of
                         Inl e \<Rightarrow> Inl (OtherException (error_text e))
                       | Inr rt \<Rightarrow> Inr (Some (timeline_projection env rt))))))"

definition get_summary ::
  "'s service_env \<Rightarrow> string \<Rightarrow> int \<Rightarrow> 's practice_state \<Rightarrow> app_exception + PracticeSessionResultSummary" where
  "get_summary env uuid user db =
     (case require_session_for_user uuid user db of
        Inl e \<Rightarrow> Inl e
      | Inr session \<Rightarrow>
          map_sum id (\<lambda>timeline. \<lparr>sm_session_id = ps_session_uuid session, sm_summary_status = ps_summary_status session,
              sm_summary_payload = ps_summary_payload session, sm_performance_timeline = timeline\<rparr>)
            (performance_timeline_for_summary env session db))"

end
