(* ===== verification/Practice_Lifecycle.thy ===== *)
theory Practice_Lifecycle
  imports Practice_Service Practice_Pairing
begin

text \<open>
  What the calls of the practice service keep: the rows of sessions have the shape that reading them relies on, a
  session that has ended stays as it ended, and the attempts of a session are numbered in the order they were stored.
\<close>

section \<open>Rows\<close>

definition session_row_ok :: "PracticeSession \<Rightarrow> bool" where
  "session_row_ok s \<longleftrightarrow>
     ps_id s \<noteq> None \<and> (\<exists>kind. kind_of_session s = Inr kind) \<and>
     (ps_state s = Session_FINISHED \<longleftrightarrow> ps_completion_reason s \<noteq> None) \<and>
     (ps_state s = Session_FINISHED \<longrightarrow> ps_finished_at s \<noteq> None) \<and>
     (ps_state s = Session_STREAMING \<longrightarrow> ps_started_at s \<noteq> None) \<and>
     (ps_summary_status s = Summary_NOT_REQUESTED \<longleftrightarrow> ps_state s \<noteq> Session_FINISHED) \<and>
     (ps_summary_payload s \<noteq> None \<longleftrightarrow> ps_summary_status s = Summary_READY)"

text \<open>What no call changes in a row, and what an ended session keeps.\<close>

definition same_session :: "PracticeSession \<Rightarrow> PracticeSession \<Rightarrow> bool" where
  "same_session s s' \<longleftrightarrow>
     ps_id s' = ps_id s \<and> ps_session_uuid s' = ps_session_uuid s \<and> ps_score_id s' = ps_score_id s \<and>
     ps_revision_id s' = ps_revision_id s \<and> ps_user_id s' = ps_user_id s \<and> ps_access_origin s' = ps_access_origin s \<and>
     ps_progression_mode s' = ps_progression_mode s \<and> ps_realtime_guidance s' = ps_realtime_guidance s \<and>
     ps_evaluation_profile s' = ps_evaluation_profile s \<and> ps_input_source s' = ps_input_source s \<and>
     ps_provider s' = ps_provider s \<and> ps_scope_start_group s' = ps_scope_start_group s \<and>
     ps_scope_end_group s' = ps_scope_end_group s"

definition session_moves :: "PracticeSession \<Rightarrow> PracticeSession \<Rightarrow> bool" where
  "session_moves s s' \<longleftrightarrow> same_session s s' \<and>
     (ps_started_at s \<noteq> None \<longrightarrow> ps_started_at s' = ps_started_at s) \<and>
     (ps_state s' = Session_CREATED \<longrightarrow> ps_state s = Session_CREATED) \<and>
     (ps_state s = Session_FINISHED \<longrightarrow> ps_state s' = Session_FINISHED \<and>
        ps_completion_reason s' = ps_completion_reason s \<and> ps_finished_at s' = ps_finished_at s) \<and>
     (ps_state s = Session_FAILED \<longrightarrow> ps_state s' = Session_FAILED \<and> ps_finished_at s' = ps_finished_at s)"

lemma session_moves_refl [simp]: "session_moves s s"
  by (simp add: session_moves_def same_session_def)

lemma same_session_trans: "same_session s t \<Longrightarrow> same_session t u \<Longrightarrow> same_session s u"
  unfolding same_session_def by simp

lemma session_movesD:
  assumes "session_moves s t"
  shows "same_session s t"
    and "ps_started_at s \<noteq> None \<Longrightarrow> ps_started_at t = ps_started_at s"
    and "ps_state t = Session_CREATED \<Longrightarrow> ps_state s = Session_CREATED"
    and "ps_state s = Session_FINISHED \<Longrightarrow> ps_state t = Session_FINISHED \<and>
      ps_completion_reason t = ps_completion_reason s \<and> ps_finished_at t = ps_finished_at s"
    and "ps_state s = Session_FAILED \<Longrightarrow> ps_state t = Session_FAILED \<and> ps_finished_at t = ps_finished_at s"
  using assms unfolding session_moves_def by blast+

lemma session_moves_trans:
  assumes "session_moves s t" and "session_moves t u"
  shows "session_moves s u"
proof -
  note st = session_movesD [OF assms(1)] and tu = session_movesD [OF assms(2)]
  have "same_session s u" using same_session_trans [OF st(1) tu(1)] .
  moreover have "ps_started_at u = ps_started_at s" if "ps_started_at s \<noteq> None" using st(2) tu(2) that by metis
  moreover have "ps_state s = Session_CREATED" if "ps_state u = Session_CREATED" using st(3) tu(3) that by blast
  moreover have "ps_state u = Session_FINISHED \<and> ps_completion_reason u = ps_completion_reason s \<and>
      ps_finished_at u = ps_finished_at s" if "ps_state s = Session_FINISHED"
    using st(4) tu(4) that by metis
  moreover have "ps_state u = Session_FAILED \<and> ps_finished_at u = ps_finished_at s" if "ps_state s = Session_FAILED"
    using st(5) tu(5) that by metis
  ultimately show ?thesis unfolding session_moves_def by blast
qed

lemma session_moves_id: "session_moves s s' \<Longrightarrow> ps_id s' = ps_id s \<and> ps_session_uuid s' = ps_session_uuid s"
  by (simp add: session_moves_def same_session_def)

definition sessions_ok :: "PracticeSession list \<Rightarrow> bool" where
  "sessions_ok rows \<longleftrightarrow> unique_column ps_id rows \<and> unique_column ps_session_uuid rows \<and>
     (\<forall>s \<in> set rows. session_row_ok s)"

text \<open>A call writes at most one row, and moves the session of that row.\<close>

definition one_row_moves :: "PracticeSession list \<Rightarrow> PracticeSession list \<Rightarrow> bool" where
  "one_row_moves rows rows' \<longleftrightarrow> rows' = rows \<or>
     (\<exists>s \<in> set rows. \<exists>row. session_moves s row \<and> session_row_ok row \<and>
        rows' = write_row (\<lambda>x. ps_id x = ps_id s) row rows)"

lemma one_row_moves_same [simp]: "one_row_moves rows rows"
  by (simp add: one_row_moves_def)

lemma one_row_ok:
  assumes "sessions_ok rows" and "one_row_moves rows rows'"
  shows "sessions_ok rows'"
proof (cases "rows' = rows")
  case True
  with assms(1) show ?thesis by simp
next
  case False
  with assms(2) obtain s row where s: "s \<in> set rows" "session_moves s row" "session_row_ok row"
      "rows' = write_row (\<lambda>x. ps_id x = ps_id s) row rows" by (auto simp: one_row_moves_def)
  have row: "ps_id row = ps_id s" "ps_session_uuid row = ps_session_uuid s" using session_moves_id [OF s(2)] by auto
  have ids: "unique_column ps_id rows" and uuids: "unique_column ps_session_uuid rows"
    using assms(1) by (auto simp: sessions_ok_def)
  have same: "x = s" if "x \<in> set rows" "ps_id x = ps_id s" for x
    using ids that s(1) by (auto simp: unique_column_def distinct_map dest: inj_onD)
  have "map ps_session_uuid rows' = map ps_session_uuid rows"
    unfolding s(4) write_row_def using same row by auto
  moreover have "map ps_id rows' = map ps_id rows" unfolding s(4) using row(1) by (rule write_row_keys)
  moreover have "session_row_ok x" if "x \<in> set rows'" for x
    using that assms(1) s(3) unfolding s(4) write_row_def by (auto simp: sessions_ok_def)
  ultimately show ?thesis using ids uuids by (simp add: sessions_ok_def unique_column_def)
qed

lemma one_row_moves_row:
  assumes "sessions_ok rows" and "one_row_moves rows rows'" and "s \<in> set rows" and "s' \<in> set rows'" and
    "ps_id s' = ps_id s"
  shows "session_moves s s'"
proof -
  have same: "x = y" if "x \<in> set rows" "y \<in> set rows" "ps_id x = ps_id y" for x y
    using assms(1) that by (auto simp: sessions_ok_def unique_column_def distinct_map dest: inj_onD)
  show ?thesis
  proof (cases "rows' = rows")
    case True
    with assms(3-5) same [of s' s] show ?thesis by simp
  next
    case False
    with assms(2) obtain t row where t: "t \<in> set rows" "session_moves t row"
        "rows' = write_row (\<lambda>x. ps_id x = ps_id t) row rows" by (auto simp: one_row_moves_def)
    from assms(4) t(3) obtain x where x: "x \<in> set rows" "s' = (if ps_id x = ps_id t then row else x)"
      by (auto simp: write_row_def)
    show ?thesis
    proof (cases "ps_id x = ps_id t")
      case True
      with x have "s' = row" by simp
      moreover have "t = s" using same t(1) assms(3,5) session_moves_id [OF t(2)] calculation by metis
      ultimately show ?thesis using t(2) by simp
    next
      case False
      with x have "s' = x" by simp
      moreover have "x = s" using same [of x s] x(1) assms(3,5) calculation by simp
      ultimately show ?thesis by simp
    qed
  qed
qed

section \<open>Saving\<close>

lemma found_session:
  assumes "require_session uuid db = Inr s"
  shows "s \<in> set (pd_sessions db)" and "ps_session_uuid s = uuid"
proof -
  have "filter (\<lambda>x. ps_session_uuid x = uuid) (pd_sessions db) = [s]"
    using assms by (auto simp: require_session_def get_session_by_uuid_def one_or_none_Some split: sum.splits option.splits)
  then have "s \<in> set (filter (\<lambda>x. ps_session_uuid x = uuid) (pd_sessions db))" by simp
  then show "s \<in> set (pd_sessions db)" and "ps_session_uuid s = uuid" by simp_all
qed

lemma found_session_of_user:
  assumes "require_session_for_user uuid user db = Inr s"
  shows "require_session uuid db = Inr s" and "s \<in> set (pd_sessions db)" and "ps_session_uuid s = uuid"
    and "ps_user_id s = Some user"
proof -
  show r: "require_session uuid db = Inr s" and "ps_user_id s = Some user"
    using assms by (auto simp: require_session_for_user_def split: sum.splits if_splits)
  show "s \<in> set (pd_sessions db)" and "ps_session_uuid s = uuid" using found_session [OF r] by auto
qed

lemma find_by_id:
  assumes "unique_column ps_id rows" and "s \<in> set rows" and "ps_id t = ps_id s"
  shows "List.find (\<lambda>x. ps_id x = ps_id t) rows = Some s"
proof -
  have "List.find (\<lambda>x. ps_id x = ps_id t) rows \<noteq> None" using assms(2,3) by (auto simp: find_None_iff)
  then obtain x where x: "List.find (\<lambda>x. ps_id x = ps_id t) rows = Some x" by blast
  then have "x \<in> set rows" "ps_id x = ps_id s" using assms(3) by (auto simp: find_Some_iff)
  with assms(1,2) have "x = s" by (auto simp: unique_column_def distinct_map dest: inj_onD)
  with x show ?thesis by simp
qed

lemma touched_facts:
  "session_moves s t \<Longrightarrow> session_moves s (touched_session now t s)"
  "session_row_ok t \<Longrightarrow> session_row_ok (touched_session now t s)"
proof -
  have "session_moves s (t\<lparr>ps_updated_at := now\<rparr>) = session_moves s t"
    unfolding session_moves_def same_session_def by simp
  then show "session_moves s t \<Longrightarrow> session_moves s (touched_session now t s)" by (simp add: touched_session_def)
  have "session_row_ok (t\<lparr>ps_updated_at := now\<rparr>) = session_row_ok t"
    unfolding session_row_ok_def kind_of_session_def by simp
  then show "session_row_ok t \<Longrightarrow> session_row_ok (touched_session now t s)" by (auto simp: touched_session_def)
qed

lemma session_moves_touched: "session_moves s t \<Longrightarrow> session_moves s u \<Longrightarrow> session_moves s (touched_session now t u)"
proof -
  have "session_moves s (t\<lparr>ps_updated_at := now\<rparr>) = session_moves s t"
    unfolding session_moves_def same_session_def by simp
  then show "session_moves s t \<Longrightarrow> session_moves s u \<Longrightarrow> session_moves s (touched_session now t u)"
    by (simp add: touched_session_def)
qed

lemma save_session_rows:
  assumes "unique_column ps_id (pd_sessions db)" and "s \<in> set (pd_sessions db)" and "ps_id t = ps_id s"
  shows "save_session now t db = (touched_session now t s,
    db\<lparr>pd_sessions := write_row (\<lambda>x. ps_id x = ps_id s) (touched_session now t s) (pd_sessions db)\<rparr>)"
  using find_by_id [OF assms] assms(3) by (simp add: save_session_def Let_def)

text \<open>Saving a session that moved is one row that moves.\<close>

lemma save_moves:
  assumes "sessions_ok (pd_sessions db)" and "s \<in> set (pd_sessions db)" and "session_moves s t" and "session_row_ok t"
  shows "one_row_moves (pd_sessions db) (pd_sessions (snd (save_session now t db)))"
proof -
  have "unique_column ps_id (pd_sessions db)" using assms(1) by (simp add: sessions_ok_def)
  from save_session_rows [OF this assms(2), of t now] session_moves_id [OF assms(3)]
  have "pd_sessions (snd (save_session now t db)) =
      write_row (\<lambda>x. ps_id x = ps_id s) (touched_session now t s) (pd_sessions db)" by simp
  then show ?thesis unfolding one_row_moves_def
    using assms(2) touched_facts(1) [OF assms(3)] touched_facts(2) [OF assms(4)] by blast
qed

lemma save_session_other [simp]:
  "pd_attempts (snd (save_session now t db)) = pd_attempts db" "pd_runtimes (snd (save_session now t db)) = pd_runtimes db"
  "pd_artifacts (snd (save_session now t db)) = pd_artifacts db"
  by (simp_all add: save_session_def Let_def)

lemma runtime_updates [simp]:
  "pd_sessions (put_session_runtime u r db) = pd_sessions db" "pd_attempts (put_session_runtime u r db) = pd_attempts db"
  "pd_sessions (update_runtime_state u st db) = pd_sessions db" "pd_attempts (update_runtime_state u st db) = pd_attempts db"
  "pd_sessions (reset_step_input u db) = pd_sessions db" "pd_attempts (reset_step_input u db) = pd_attempts db"
  "pd_sessions (release_session_runtime fl u db) = pd_sessions db"
  "pd_attempts (release_session_runtime fl u db) = pd_attempts db"
  by (simp_all add: put_session_runtime_def update_runtime_state_def reset_step_input_def release_session_runtime_def
      split: option.split PracticeRuntime.split)

section \<open>Attempts\<close>

text \<open>Storing attempts leaves the sessions, or brings back those that were committed.\<close>

lemma create_attempt_sessions:
  "pd_sessions (snd (create_attempt_if_absent committed i a db)) \<in> {pd_sessions db, committed}"
  by (auto simp: create_attempt_if_absent_def Let_def split: sum.split option.split)

lemma and_then_snd: "snd (and_then m f) = (case fst m of Inl e \<Rightarrow> snd m | Inr x \<Rightarrow> snd (f x (snd m)))"
  by (cases m) (auto simp: and_then_def split: sum.split)

lemma persist_attempt_sessions:
  "pd_sessions (snd (persist_practice_attempt committed t i uuid r db)) \<in> {pd_sessions db, committed}"
  using create_attempt_sessions [of committed i _ db]
  by (auto simp: persist_practice_attempt_def and_then_snd query_def split: sum.split)

lemma persist_attempts_sessions:
  "pd_sessions (snd (persist_attempts committed clk new_id uuid rs db)) \<in> {pd_sessions db, committed}"
proof (induction rs arbitrary: committed clk new_id db)
  case Nil
  then show ?case by simp
next
  case (Cons r rs)
  let ?m = "persist_practice_attempt committed (clk 0) (new_id 0) uuid r db"
  have "pd_sessions (snd ?m) \<in> {pd_sessions db, committed}" by (rule persist_attempt_sessions)
  with Cons.IH [of "pd_sessions (snd ?m)" _ _ "snd ?m"] show ?case by (auto simp: and_then_snd split: sum.split)
qed

lemma finalize_sessions:
  "pd_sessions (snd (finalize_pending fl committed clk new_id uuid reason db)) \<in> {pd_sessions db, committed}"
proof (cases "get_runtime uuid (pd_runtimes db)")
  case None
  then show ?thesis by (simp add: finalize_pending_def)
next
  case (Some rt)
  show ?thesis
  proof (cases rt)
    case (Performance_runtime pr)
    with Some show ?thesis by (simp add: finalize_pending_def)
  next
    case (Step_runtime sr)
    obtain attempts sr' where f: "runtime_finalize fl reason sr = (attempts, sr')" by fastforce
    show ?thesis using Some Step_runtime persist_attempts_sessions [of committed clk new_id uuid attempts
        "put_session_runtime uuid (Step_runtime sr') db"]
      by (simp add: finalize_pending_def f)
  qed
qed

lemma finalize_same:
  "finalize_pending fl (pd_sessions db) clk new_id uuid reason db = (r, db1) \<Longrightarrow> pd_sessions db1 = pd_sessions db"
  using finalize_sessions [of fl "pd_sessions db" clk new_id uuid reason db] by simp

section \<open>Each call moves one session\<close>

lemma detail_sessions [simp]: "pd_sessions (snd (saved_and_shown t s db)) = pd_sessions (snd (save_session t s db))"
  by (simp add: saved_and_shown_def Let_def split_beta)

lemma with_start_moves:
  assumes "session_moves s t"
  shows "session_moves s (with_start now t)"
proof (cases "ps_started_at t = None")
  case False
  then have "with_start now t = t" by (simp add: with_start_def del: not_None_eq)
  with assms show ?thesis by simp
next
  case True
  then have "ps_started_at s = None" using session_movesD(2) [OF assms] by metis
  moreover have "same_session s (t\<lparr>ps_started_at := Some now\<rparr>) = same_session s t" by (simp add: same_session_def)
  ultimately have "session_moves s (t\<lparr>ps_started_at := Some now\<rparr>) = (same_session s t \<and>
      (ps_state t = Session_CREATED \<longrightarrow> ps_state s = Session_CREATED) \<and>
      (ps_state s = Session_FINISHED \<longrightarrow> ps_state t = Session_FINISHED \<and>
         ps_completion_reason t = ps_completion_reason s \<and> ps_finished_at t = ps_finished_at s) \<and>
      (ps_state s = Session_FAILED \<longrightarrow> ps_state t = Session_FAILED \<and> ps_finished_at t = ps_finished_at s))"
    unfolding session_moves_def by simp
  then have "session_moves s (t\<lparr>ps_started_at := Some now\<rparr>)" using session_movesD [OF assms] by blast
  with True show ?thesis by (simp add: with_start_def)
qed

lemma row_okD:
  assumes "sessions_ok rows" and "s \<in> set rows"
  shows "session_row_ok s"
  using assms by (simp add: sessions_ok_def)

lemma streaming_row:
  assumes "session_row_ok s" and "ps_state s \<in> {Session_CREATED, Session_STREAMING, Session_PAUSED}"
  shows "session_moves s (with_start now (s\<lparr>ps_state := Session_STREAMING\<rparr>))"
    and "session_row_ok (with_start now (s\<lparr>ps_state := Session_STREAMING\<rparr>))"
proof -
  have "session_moves s (s\<lparr>ps_state := Session_STREAMING\<rparr>)"
    using assms(2) by (auto simp: session_moves_def same_session_def)
  then show "session_moves s (with_start now (s\<lparr>ps_state := Session_STREAMING\<rparr>))" by (rule with_start_moves)
  show "session_row_ok (with_start now (s\<lparr>ps_state := Session_STREAMING\<rparr>))"
    using assms by (auto simp: session_row_ok_def with_start_def kind_of_session_def)
qed

lemma start_moves:
  assumes "sessions_ok (pd_sessions db)"
  shows "one_row_moves (pd_sessions db) (pd_sessions (snd (start_session_stream clk uuid user db)))"
proof (cases "require_session_for_user uuid user db")
  case (Inl e)
  then show ?thesis by (simp add: start_session_stream_def)
next
  case (Inr s)
  note found = found_session_of_user [OF Inr]
  show ?thesis
  proof (cases "ps_state s \<in> {Session_CREATED, Session_STREAMING}")
    case True
    then have "ps_state s \<in> {Session_CREATED, Session_STREAMING, Session_PAUSED}" by blast
    from streaming_row [OF row_okD [OF assms found(2)] this] save_moves [OF assms found(2)] True Inr
    show ?thesis by (simp add: start_session_stream_def)
  next
    case False
    with Inr show ?thesis by (simp add: start_session_stream_def)
  qed
qed

lemma resume_moves:
  assumes "sessions_ok (pd_sessions db)"
  shows "one_row_moves (pd_sessions db) (pd_sessions (snd (resume_session clk uuid user db)))"
proof (cases "require_session_for_user uuid user db")
  case (Inl e)
  then show ?thesis by (simp add: resume_session_def)
next
  case (Inr s)
  note found = found_session_of_user [OF Inr]
  show ?thesis
  proof (cases "ps_state s = Session_PAUSED")
    case True
    then have "ps_state s \<in> {Session_CREATED, Session_STREAMING, Session_PAUSED}" by blast
    from streaming_row [OF row_okD [OF assms found(2)] this] save_moves [OF assms found(2)] True Inr
    show ?thesis by (simp add: resume_session_def)
  next
    case False
    with Inr show ?thesis by (simp add: resume_session_def)
  qed
qed

lemma pause_moves:
  assumes "sessions_ok (pd_sessions db)"
  shows "one_row_moves (pd_sessions db) (pd_sessions (snd (pause_session env clk new_id uuid user db)))"
proof (cases "require_session_for_user uuid user db")
  case (Inl e)
  then show ?thesis by (simp add: pause_session_def)
next
  case (Inr s)
  note found = found_session_of_user [OF Inr]
  show ?thesis
  proof (cases "ps_state s \<in> {Session_CREATED, Session_STREAMING}")
    case False
    with Inr show ?thesis by (simp add: pause_session_def)
  next
    case True
    obtain r db1 where f: "finalize_pending env (pd_sessions db) (\<lambda>i. clk (Suc i)) new_id uuid practice_paused db = (r, db1)"
      by fastforce
    have same: "pd_sessions db1 = pd_sessions db"
      using finalize_same [OF f] .
    let ?t = "s\<lparr>ps_state := Session_PAUSED\<rparr>"
    have "session_moves s ?t" using True by (auto simp: session_moves_def same_session_def)
    moreover have "session_row_ok ?t"
      using row_okD [OF assms found(2)] True by (auto simp: session_row_ok_def kind_of_session_def)
    ultimately have "one_row_moves (pd_sessions db) (pd_sessions (snd (save_session (clk 0) ?t db1)))"
      using save_moves [of db1 s ?t "clk 0"] assms found(2) same by simp
    then show ?thesis using True Inr same by (cases r) (simp_all add: pause_session_def f split_beta Let_def)
  qed
qed

lemma fail_moves:
  assumes "sessions_ok (pd_sessions db)"
  shows "one_row_moves (pd_sessions db) (pd_sessions (snd (fail_active_session_stream env clk new_id uuid user reason db)))"
proof (cases "require_session_for_user uuid user db")
  case (Inl e)
  then show ?thesis by (simp add: fail_active_session_stream_def)
next
  case (Inr s)
  note found = found_session_of_user [OF Inr]
  show ?thesis
  proof (cases "ps_state s \<in> {Session_FINISHED, Session_FAILED}")
    case True
    with Inr show ?thesis by (auto simp: fail_active_session_stream_def)
  next
    case False
    obtain r db1 where f: "finalize_pending env (pd_sessions db) (\<lambda>i. clk (Suc (Suc i))) new_id uuid connection_closed db = (r, db1)"
      by fastforce
    have same: "pd_sessions db1 = pd_sessions db"
      using finalize_same [OF f] .
    let ?t = "s\<lparr>ps_state := Session_FAILED, ps_finished_at := Some (clk 0), ps_error := Some reason\<rparr>"
    have "session_moves s ?t" using False by (auto simp: session_moves_def same_session_def)
    moreover have "session_row_ok ?t"
      using row_okD [OF assms found(2)] False by (auto simp: session_row_ok_def kind_of_session_def)
    ultimately have "one_row_moves (pd_sessions db) (pd_sessions (snd (save_session (clk 1) ?t db1)))"
      using save_moves [of db1 s ?t "clk 1"] assms found(2) same by simp
    then show ?thesis using False Inr same
      by (cases r) (simp_all add: fail_active_session_stream_def f split_beta Let_def)
  qed
qed

lemma summary_moves:
  assumes "sessions_ok (pd_sessions db)"
  shows "one_row_moves (pd_sessions db)
    (pd_sessions (snd (build_summary_for_finished_session env t uuid user observations outcomes db)))"
proof (cases "require_session_for_user uuid user db")
  case (Inl e)
  then show ?thesis by (simp add: build_summary_for_finished_session_def)
next
  case (Inr s)
  note found = found_session_of_user [OF Inr]
  note ok = row_okD [OF assms found(2)]
  let ?t = "summarized_row env observations outcomes s db"
  have "session_moves s ?t"
    by (simp add: summarized_row_def session_moves_def same_session_def split: sum.split)
  moreover have "session_row_ok ?t" if "ps_state s = Session_FINISHED"
    using ok that by (auto simp: summarized_row_def session_row_ok_def kind_of_session_def require_persisted_id_def
        split: option.split)
  ultimately show ?thesis using save_moves [OF assms found(2), of ?t t] Inr
    by (simp add: build_summary_for_finished_session_def split_beta Let_def)
qed

lemma alignment_moves:
  assumes "sessions_ok (pd_sessions db)"
  shows "one_row_moves (pd_sessions db) (pd_sessions (snd (persist_alignment t uuid alignment db)))"
proof (cases "require_session uuid db")
  case (Inl e)
  then show ?thesis by (simp add: persist_alignment_def)
next
  case (Inr s)
  note found = found_session [OF Inr]
  let ?t = "s\<lparr>ps_last_beat_position := Some (au_beat_position alignment), ps_last_confidence := Some (au_confidence alignment)\<rparr>"
  have "session_moves s ?t" by (simp add: session_moves_def same_session_def)
  moreover have "session_row_ok ?t = session_row_ok s" by (simp add: session_row_ok_def kind_of_session_def)
  ultimately show ?thesis using save_moves [OF assms found(1), of ?t t] row_okD [OF assms found(1)] Inr
    by (simp add: persist_alignment_def)
qed

text \<open>Finishing writes the row twice.\<close>

lemma write_row_twice:
  "ps_id r = i \<Longrightarrow> write_row (\<lambda>x. ps_id x = i) r' (write_row (\<lambda>x. ps_id x = i) r rows) = write_row (\<lambda>x. ps_id x = i) r' rows"
  by (simp add: write_row_def)

lemma finished_row_moves:
  assumes "session_moves s t" and "session_row_ok t" and "ps_state s \<notin> {Session_FINISHED, Session_FAILED}"
  shows "session_moves s (finished_row reason now t)" and "session_row_ok (finished_row reason now t)"
proof -
  have "session_moves s (finished_row reason now t) = (same_session s t \<and>
      (ps_started_at s \<noteq> None \<longrightarrow> ps_started_at t = ps_started_at s))"
    using assms(3) unfolding session_moves_def finished_row_def same_session_def by simp
  then show "session_moves s (finished_row reason now t)" using session_movesD(1,2) [OF assms(1)] by blast
  show "session_row_ok (finished_row reason now t)"
    using assms(2) by (simp add: session_row_ok_def kind_of_session_def finished_row_def)
qed

lemma with_start_ok: "session_row_ok s \<Longrightarrow> session_row_ok (with_start now s)"
  by (auto simp: with_start_def session_row_ok_def kind_of_session_def)

text \<open>The steps of a finish of an active session: the row \<open>c\<close> when the pending attempts are stored, and the row that is
  stored last.\<close>

lemma finish_steps:
  assumes ok: "sessions_ok (pd_sessions db)" and user: "require_session_for_user uuid user db = Inr s"
    and active: "ps_state s \<notin> {Session_FINISHED, Session_FAILED}"
  obtains r db2 c where
    "finalize_pending env (pd_sessions db) (\<lambda>i. clk (5 + i)) new_id uuid practice_finished
       (flushed (clk 1) (with_start (clk 0) s) db) = (r, db2)"
    "session_moves s c" "session_row_ok c" "pd_sessions db2 = write_row (\<lambda>x. ps_id x = ps_id s) c (pd_sessions db)"
    "finish_session env clk new_id uuid user reason db =
       (case r of Inl e \<Rightarrow> (Inl e, db2)
        | Inr u \<Rightarrow>
            let row = touched_session (clk 3) (finished_row reason (clk 2) c) c;
                db3 = release_session_runtime env uuid (db2\<lparr>pd_sessions := write_row (\<lambda>x. ps_id x = ps_id s) row (pd_sessions db),
                  pd_library := mark_practiced (clk 4) user (ps_score_id s) (pd_library db2)\<rparr>)
            in (session_detail row db3, db3))"
proof -
  note found = found_session_of_user [OF user]
  note s_ok = row_okD [OF ok found(2)]
  have ids: "unique_column ps_id (pd_sessions db)" using ok by (simp add: sessions_ok_def)
  let ?w = "with_start (clk 0) s" and ?p = "\<lambda>x. ps_id x = ps_id s"
  let ?r1 = "touched_session (clk 1) ?w s"
  have w: "session_moves s ?w" "session_row_ok ?w" using with_start_moves [of s s] with_start_ok [OF s_ok] by simp_all
  note r1 = touched_facts(1) [OF w(1)] touched_facts(2) [OF w(2)]
  have wid: "ps_id ?w = ps_id s" and r1id: "ps_id ?r1 = ps_id s"
    using session_moves_id [OF w(1)] session_moves_id [OF r1(1)] by auto
  have flush: "pd_sessions (flushed (clk 1) ?w db) = write_row ?p ?r1 (pd_sessions db)"
    using save_session_rows [OF ids found(2) wid] by (simp add: flushed_def)
  have r1_in: "?r1 \<in> set (write_row ?p ?r1 (pd_sessions db))" using found(2) by (force simp: write_row_def)
  have rows1: "one_row_moves (pd_sessions db) (write_row ?p ?r1 (pd_sessions db))"
    unfolding one_row_moves_def using found(2) r1 by blast
  have ids1: "unique_column ps_id (write_row ?p ?r1 (pd_sessions db))"
    using one_row_ok [OF ok rows1] by (simp add: sessions_ok_def)
  obtain r db2 where f: "finalize_pending env (pd_sessions db) (\<lambda>i. clk (5 + i)) new_id uuid practice_finished
      (flushed (clk 1) ?w db) = (r, db2)" by fastforce
  have "pd_sessions db2 \<in> {pd_sessions (flushed (clk 1) ?w db), pd_sessions db}"
    using finalize_sessions [of env "pd_sessions db" "\<lambda>i. clk (5 + i)" new_id uuid practice_finished
      "flushed (clk 1) ?w db"] unfolding f by simp
  then have "\<exists>c. session_moves s c \<and> session_row_ok c \<and> pd_sessions db2 = write_row ?p c (pd_sessions db) \<and>
      current_row ?w db2 = c"
  proof
    assume d: "pd_sessions db2 = pd_sessions (flushed (clk 1) ?w db)"
    have "List.find (\<lambda>x. ps_id x = ps_id ?w) (pd_sessions db2) = Some ?r1"
      unfolding d flush by (rule find_by_id [OF ids1 r1_in]) (simp only: wid r1id)
    then have "current_row ?w db2 = ?r1" by (simp add: current_row_def)
    with d flush r1 show ?thesis by auto
  next
    assume "pd_sessions db2 \<in> {pd_sessions db}"
    then have d: "pd_sessions db2 = pd_sessions db" by simp
    have "List.find (\<lambda>x. ps_id x = ps_id ?w) (pd_sessions db2) = Some s"
      unfolding d by (rule find_by_id [OF ids found(2) wid])
    then have "current_row ?w db2 = s" by (simp add: current_row_def)
    moreover have "write_row ?p s (pd_sessions db) = pd_sessions db"
      unfolding write_row_def by (rule map_row_id [OF ids found(2)])
    ultimately show ?thesis using d s_ok by (intro exI [of _ s]) simp
  qed
  then obtain c where c: "session_moves s c" "session_row_ok c" "pd_sessions db2 = write_row ?p c (pd_sessions db)"
      "current_row ?w db2 = c" by blast
  have same: "ps_id c = ps_id s" "ps_session_uuid c = uuid" "ps_score_id c = ps_score_id s"
    using session_moves_id [OF c(1)] found(3) session_movesD(1) [OF c(1)] by (simp_all add: same_session_def)
  let ?t = "finished_row reason (clk 2) c"
  have c_in: "c \<in> set (pd_sessions db2)" unfolding c(3) using found(2) by (force simp: write_row_def)
  have rows2: "one_row_moves (pd_sessions db) (pd_sessions db2)"
    unfolding one_row_moves_def c(3) using found(2) c(1,2) by blast
  have ids2: "unique_column ps_id (pd_sessions db2)" using one_row_ok [OF ok rows2] by (simp add: sessions_ok_def)
  let ?r2 = "touched_session (clk 3) ?t c"
  have "save_session (clk 3) ?t db2 = (?r2, db2\<lparr>pd_sessions := write_row (\<lambda>x. ps_id x = ps_id c) ?r2 (pd_sessions db2)\<rparr>)"
    by (rule save_session_rows [OF ids2 c_in]) (simp add: finished_row_def)
  moreover have "write_row (\<lambda>x. ps_id x = ps_id c) ?r2 (pd_sessions db2) = write_row ?p ?r2 (pd_sessions db)"
    unfolding c(3) same(1) by (rule write_row_twice [OF same(1)])
  ultimately have saved: "save_session (clk 3) ?t db2 = (?r2, db2\<lparr>pd_sessions := write_row ?p ?r2 (pd_sessions db)\<rparr>)"
    by simp
  have r2: "ps_session_uuid ?r2 = uuid" "ps_score_id ?r2 = ps_score_id s"
    using same by (simp_all add: touched_session_def finished_row_def)
  have "finish_session env clk new_id uuid user reason db =
       (case r of Inl e \<Rightarrow> (Inl e, db2)
        | Inr u \<Rightarrow>
            let row = ?r2;
                db3 = release_session_runtime env uuid (db2\<lparr>pd_sessions := write_row ?p row (pd_sessions db),
                  pd_library := mark_practiced (clk 4) user (ps_score_id s) (pd_library db2)\<rparr>)
            in (session_detail row db3, db3))"
    using active user by (cases r) (simp_all add: finish_session_def f c(4) Let_def saved r2 del: One_nat_def)
  with that f c(1-3) show thesis by blast
qed

lemma finish_moves:
  assumes ok: "sessions_ok (pd_sessions db)"
  shows "one_row_moves (pd_sessions db) (pd_sessions (snd (finish_session env clk new_id uuid user reason db)))"
proof (cases "require_session_for_user uuid user db")
  case (Inl e)
  then show ?thesis by (simp add: finish_session_def)
next
  case (Inr s)
  note found = found_session_of_user [OF Inr]
  show ?thesis
  proof (cases "ps_state s \<in> {Session_FINISHED, Session_FAILED}")
    case True
    with Inr show ?thesis by (auto simp: finish_session_def)
  next
    case False
    obtain r db2 c where "finalize_pending env (pd_sessions db) (\<lambda>i. clk (5 + i)) new_id uuid practice_finished
         (flushed (clk 1) (with_start (clk 0) s) db) = (r, db2)" and st: "session_moves s c" "session_row_ok c"
        "pd_sessions db2 = write_row (\<lambda>x. ps_id x = ps_id s) c (pd_sessions db)"
        "finish_session env clk new_id uuid user reason db =
         (case r of Inl e \<Rightarrow> (Inl e, db2)
          | Inr u \<Rightarrow>
              let row = touched_session (clk 3) (finished_row reason (clk 2) c) c;
                  db3 = release_session_runtime env uuid (db2\<lparr>pd_sessions := write_row (\<lambda>x. ps_id x = ps_id s) row (pd_sessions db),
                    pd_library := mark_practiced (clk 4) user (ps_score_id s) (pd_library db2)\<rparr>)
              in (session_detail row db3, db3))"
      by (rule finish_steps [OF ok Inr False, where env = env and clk = clk and new_id = new_id and reason = reason])
    let ?r2 = "touched_session (clk 3) (finished_row reason (clk 2) c) c"
    have row: "session_moves s ?r2" "session_row_ok ?r2"
      using finished_row_moves [OF st(1,2) False, of reason "clk 2"] session_moves_touched st(1)
        touched_facts(2) by blast+
    have "pd_sessions (snd (finish_session env clk new_id uuid user reason db)) =
        write_row (\<lambda>x. ps_id x = ps_id s) (case r of Inl e \<Rightarrow> c | Inr u \<Rightarrow> ?r2) (pd_sessions db)"
      unfolding st(4) by (cases r) (simp_all add: Let_def st(3))
    moreover have "session_moves s (case r of Inl e \<Rightarrow> c | Inr u \<Rightarrow> ?r2)"
      and "session_row_ok (case r of Inl e \<Rightarrow> c | Inr u \<Rightarrow> ?r2)" using st(1,2) row by (simp_all split: sum.split)
    ultimately show ?thesis unfolding one_row_moves_def using found(2) by blast
  qed
qed

lemma prepare_moves:
  assumes ok: "sessions_ok (pd_sessions db)"
  shows "one_row_moves (pd_sessions db) (pd_sessions (snd (prepare_stream_runtime env t uuid user db)))"
proof (cases "require_session_for_user uuid user db")
  case (Inl e)
  then show ?thesis by (simp add: prepare_stream_runtime_def)
next
  case (Inr s)
  note found = found_session_of_user [OF Inr]
  have "one_row_moves (pd_sessions db)
      (pd_sessions (snd (save_session t (s\<lparr>ps_state := Session_FAILED, ps_error := Some msg\<rparr>) db)))"
    if "ps_state s \<notin> {Session_FINISHED, Session_FAILED}" for msg
  proof (rule save_moves [OF ok found(2)])
    show "session_moves s (s\<lparr>ps_state := Session_FAILED, ps_error := Some msg\<rparr>)"
      using that by (simp add: session_moves_def same_session_def)
    show "session_row_ok (s\<lparr>ps_state := Session_FAILED, ps_error := Some msg\<rparr>)"
      using row_okD [OF ok found(2)] that by (simp add: session_row_ok_def kind_of_session_def)
  qed
  then show ?thesis using Inr
    by (simp add: prepare_stream_runtime_def and_then_snd query_def
        split: option.split sum.split prod.split if_split)
qed

lemma create_rows:
  "pd_sessions (snd (create_session env clk new_id new_uuid rq db)) = pd_sessions db \<or>
   (\<exists>s. pd_sessions (snd (create_session env clk new_id new_uuid rq db)) = pd_sessions db @ [s] \<and>
      ps_id s = Some new_id \<and> ps_session_uuid s \<notin> ps_session_uuid ` set (pd_sessions db) \<and> session_row_ok s)"
proof -
  let ?config = "canonical_runtime_config_for_preset (cr_preset rq) (cr_input_source rq)"
  have kind: "\<exists>k. canonical_runtime_kind (rc_progression_mode ?config) (rc_realtime_guidance ?config)
      (rc_evaluation_profile ?config) = Inr k"
    by (cases "cr_preset rq") (simp_all add: canonical_runtime_kind_def)
  have row: "session_row_ok ((new_session new_uuid t u rq ?config provider access)\<lparr>ps_id := Some new_id\<rparr>)"
    for t u provider access
    using kind by (simp add: session_row_ok_def kind_of_session_def new_session_def)
  have uuid: "ps_session_uuid (new_session new_uuid t u rq ?config provider access) = new_uuid" for t u provider access
    by (simp add: new_session_def)
  have stored: "pd_sessions (snd (repository_create_session new_id s db)) = pd_sessions db \<or>
      (pd_sessions (snd (repository_create_session new_id s db)) = pd_sessions db @ [s\<lparr>ps_id := Some new_id\<rparr>] \<and>
       ps_session_uuid s \<notin> ps_session_uuid ` set (pd_sessions db))" for s
    by (simp add: repository_create_session_def Let_def)
  have "pd_sessions (snd (create_session env clk new_id new_uuid rq db)) = pd_sessions db \<or>
      (\<exists>provider access. pd_sessions (snd (create_session env clk new_id new_uuid rq db)) =
         pd_sessions (snd (repository_create_session new_id (new_session new_uuid (clk 1) (clk 2) rq ?config provider access) db)))"
    by (simp add: create_session_def Let_def and_then_snd query_def split: sum.split option.split) blast
  then show ?thesis
  proof
    assume "\<exists>provider access. pd_sessions (snd (create_session env clk new_id new_uuid rq db)) =
         pd_sessions (snd (repository_create_session new_id (new_session new_uuid (clk 1) (clk 2) rq ?config provider access) db))"
    then obtain provider access where e: "pd_sessions (snd (create_session env clk new_id new_uuid rq db)) =
         pd_sessions (snd (repository_create_session new_id (new_session new_uuid (clk 1) (clk 2) rq ?config provider access) db))"
      by blast
    let ?s = "new_session new_uuid (clk 1) (clk 2) rq ?config provider access"
    have "ps_session_uuid (?s\<lparr>ps_id := Some new_id\<rparr>) = ps_session_uuid ?s" "ps_id (?s\<lparr>ps_id := Some new_id\<rparr>) = Some new_id"
      by simp_all
    with stored [of ?s] row [of "clk 1" "clk 2" provider access] show ?thesis unfolding e by metis
  qed simp
qed

section \<open>Numbers of attempts\<close>

definition session_attempts :: "int \<Rightarrow> PracticeAttempt list \<Rightarrow> PracticeAttempt list" where
  "session_attempts i as = filter (\<lambda>a. pa_session_id a = i) as"

definition numbering_ok :: "PracticeAttempt list \<Rightarrow> bool" where
  "numbering_ok as \<longleftrightarrow> (\<forall>i. map pa_attempt_index (session_attempts i as) = [1..int (length (session_attempts i as))] \<and>
     distinct (map pa_attempt_uid (session_attempts i as)))"

lemma numbering_okD:
  assumes "numbering_ok as"
  shows "map pa_attempt_index (session_attempts i as) = [1..int (length (session_attempts i as))]"
    and "distinct (map pa_attempt_uid (session_attempts i as))"
  using assms by (simp_all add: numbering_ok_def)

lemma foldr_max_Max: "foldr max xs (x :: int) = Max (insert x (set xs))"
  by (induction xs) (simp_all add: insert_commute max.left_commute)

lemma next_index:
  assumes "numbering_ok (pd_attempts db)"
  shows "next_attempt_index i db = int (length (session_attempts i (pd_attempts db))) + 1"
proof -
  let ?n = "length (session_attempts i (pd_attempts db))"
  have idx: "map pa_attempt_index (filter (\<lambda>a. pa_session_id a = i) (pd_attempts db)) = [1..int ?n]"
    using numbering_okD(1) [OF assms, of i] by (simp add: session_attempts_def)
  show ?thesis
  proof (cases "?n = 0")
    case True
    then show ?thesis unfolding next_attempt_index_def Let_def idx by simp
  next
    case False
    then have n1: "1 \<le> int ?n" by (cases ?n) simp_all
    from upto_rec1 [OF n1] have "[1..int ?n] = 1 # [2..int ?n]" by simp
    moreover
    have "Max (insert 1 {2..k}) = k" if "1 \<le> k" for k :: int using that by (intro Max_eqI) auto
    from this [OF n1] have "Max (insert 1 {2..int ?n}) = int ?n" .
    ultimately show ?thesis unfolding next_attempt_index_def Let_def idx by (simp add: foldr_max_Max)
  qed
qed

lemma numbering_ok_append:
  assumes ok: "numbering_ok as" and index: "pa_attempt_index a = int (length (session_attempts (pa_session_id a) as)) + 1"
    and fresh: "pa_attempt_uid a \<notin> pa_attempt_uid ` set (session_attempts (pa_session_id a) as)"
  shows "numbering_ok (as @ [a])"
  unfolding numbering_ok_def
proof
  fix i
  show "map pa_attempt_index (session_attempts i (as @ [a])) = [1..int (length (session_attempts i (as @ [a])))] \<and>
      distinct (map pa_attempt_uid (session_attempts i (as @ [a])))"
  proof (cases "pa_session_id a = i")
    case False
    then have "session_attempts i (as @ [a]) = session_attempts i as" by (simp add: session_attempts_def)
    with numbering_okD [OF ok] show ?thesis by metis
  next
    case True
    then have "session_attempts i (as @ [a]) = session_attempts i as @ [a]" by (simp add: session_attempts_def)
    moreover have "[1..int (length (session_attempts i as)) + 1] =
        [1..int (length (session_attempts i as))] @ [int (length (session_attempts i as)) + 1]"
      by (subst upto_rec2) simp_all
    ultimately show ?thesis using numbering_okD [OF ok, of i] index fresh True
      by (simp add: add.commute)
  qed
qed

lemma create_attempt_ok:
  assumes "numbering_ok (pd_attempts db)"
    and "pa_attempt_index a = next_attempt_index (pa_session_id a) db"
  shows "numbering_ok (pd_attempts (snd (create_attempt_if_absent committed i a db)))"
proof (cases "list_ex (\<lambda>b. pa_session_id b = pa_session_id a \<and> pa_attempt_uid b = pa_attempt_uid a) (pd_attempts db)")
  case True
  then have "pd_attempts (snd (create_attempt_if_absent committed i a db)) = pd_attempts db"
    by (simp add: create_attempt_if_absent_def Let_def split: sum.split option.split)
  with assms(1) show ?thesis by simp
next
  case False
  have "numbering_ok (pd_attempts db @ [a\<lparr>pa_id := Some i\<rparr>])"
    by (rule numbering_ok_append) (use assms False in \<open>auto simp: next_index session_attempts_def list_ex_iff\<close>)
  then show ?thesis unfolding create_attempt_if_absent_def if_not_P [OF False] by simp
qed

lemma persist_attempt_ok:
  "numbering_ok (pd_attempts db) \<Longrightarrow> numbering_ok (pd_attempts (snd (persist_practice_attempt committed t i uuid r db)))"
  by (auto simp: persist_practice_attempt_def and_then_snd query_def attempt_from_resolved_def Let_def
      intro!: create_attempt_ok split: sum.split)

lemma persist_attempts_ok:
  "numbering_ok (pd_attempts db) \<Longrightarrow> numbering_ok (pd_attempts (snd (persist_attempts committed clk new_id uuid rs db)))"
proof (induction rs arbitrary: committed clk new_id db)
  case Nil
  then show ?case by simp
next
  case (Cons r rs)
  let ?m = "persist_practice_attempt committed (clk 0) (new_id 0) uuid r db"
  have "numbering_ok (pd_attempts (snd ?m))" by (rule persist_attempt_ok [OF Cons.prems])
  with Cons.IH show ?case by (simp add: and_then_snd split: sum.split)
qed

lemma finalize_ok:
  "numbering_ok (pd_attempts db) \<Longrightarrow>
   numbering_ok (pd_attempts (snd (finalize_pending fl committed clk new_id uuid reason db)))"
  by (simp add: finalize_pending_def persist_attempts_ok split_beta split: option.split PracticeRuntime.split)

lemma detail_attempts [simp]: "pd_attempts (snd (saved_and_shown t s db)) = pd_attempts db"
  by (simp add: saved_and_shown_def Let_def split_beta)

lemma flushed_attempts [simp]: "pd_attempts (flushed t s db) = pd_attempts db"
  by (simp add: flushed_def)

text \<open>The calls that store attempts, and those that do not touch them.\<close>

lemma calls_keep_attempts:
  "pd_attempts (snd (create_session env clk new_id new_uuid rq db)) = pd_attempts db"
  "pd_attempts (snd (prepare_stream_runtime env t uuid user db)) = pd_attempts db"
  "pd_attempts (snd (start_session_stream clk uuid user db)) = pd_attempts db"
  "pd_attempts (snd (resume_session clk uuid user db)) = pd_attempts db"
  "pd_attempts (snd (build_summary_for_finished_session env t uuid user observations outcomes db)) = pd_attempts db"
  "pd_attempts (snd (persist_alignment t uuid alignment db)) = pd_attempts db"
  by (simp_all add: create_session_def prepare_stream_runtime_def start_session_stream_def resume_session_def
      build_summary_for_finished_session_def persist_alignment_def and_then_snd query_def Let_def
      repository_create_session_def split_beta split: sum.split option.split prod.split)

lemma calls_number_attempts:
  assumes "numbering_ok (pd_attempts db)"
  shows "numbering_ok (pd_attempts (snd (pause_session env clk ids uuid user db)))"
    and "numbering_ok (pd_attempts (snd (finish_session env clk ids uuid user reason db)))"
    and "numbering_ok (pd_attempts (snd (fail_active_session_stream env clk ids uuid user why db)))"
  using assms by (simp_all add: pause_session_def finish_session_def fail_active_session_stream_def and_then_snd
      query_def Let_def split_beta finalize_ok split: sum.split)

section \<open>Sequences of calls\<close>

text \<open>A call of the service by anybody, with any arguments; a new key is one that no session has. Streams that drive
  the runtimes, the replay calls and the other services change neither sessions nor attempts.\<close>

inductive practice_call :: "'s service_env \<Rightarrow> 's practice_state \<Rightarrow> 's practice_state \<Rightarrow> bool" for env where
  create: "Some new_id \<notin> ps_id ` set (pd_sessions db) \<Longrightarrow>
    practice_call env db (snd (create_session env clk new_id new_uuid rq db))"
| prepare: "practice_call env db (snd (prepare_stream_runtime env t uuid user db))"
| start: "practice_call env db (snd (start_session_stream clk uuid user db))"
| resume: "practice_call env db (snd (resume_session clk uuid user db))"
| pause: "practice_call env db (snd (pause_session env clk ids uuid user db))"
| finish: "practice_call env db (snd (finish_session env clk ids uuid user reason db))"
| fail: "practice_call env db (snd (fail_active_session_stream env clk ids uuid user why db))"
| summary: "practice_call env db (snd (build_summary_for_finished_session env t uuid user observations outcomes db))"
| attempt: "practice_call env db (snd (persist_practice_attempt (pd_sessions db) t i uuid resolved db))"
| alignment: "practice_call env db (snd (persist_alignment t uuid update db))"
| other: "pd_sessions db' = pd_sessions db \<Longrightarrow> pd_attempts db' = pd_attempts db \<Longrightarrow> practice_call env db db'"

inductive practice_step :: "'s service_env \<Rightarrow> 's practice_state \<Rightarrow> 's practice_state \<Rightarrow> bool" for env where
  call: "practice_call env db db' \<Longrightarrow> practice_step env db db'"
| score_deleted: "practice_step env db (snd (cleanup_for_score score_id db))"

definition practice_ok :: "'b practice_db_scheme \<Rightarrow> bool" where
  "practice_ok db \<longleftrightarrow> sessions_ok (pd_sessions db) \<and> numbering_ok (pd_attempts db)"

text \<open>One call writes the row of one session or adds one.\<close>

lemma call_rows:
  assumes "practice_call env db db'" and "sessions_ok (pd_sessions db)"
  shows "one_row_moves (pd_sessions db) (pd_sessions db') \<or>
    (\<exists>s. pd_sessions db' = pd_sessions db @ [s] \<and> ps_id s \<notin> ps_id ` set (pd_sessions db) \<and>
       ps_session_uuid s \<notin> ps_session_uuid ` set (pd_sessions db) \<and> session_row_ok s)"
  using assms(1)
proof cases
  case (create new_id clk new_uuid rq)
  with create_rows [of env clk new_id new_uuid rq db] show ?thesis by auto
next
  case (attempt t i uuid resolved)
  then have "pd_sessions db' = pd_sessions db"
    using persist_attempt_sessions [of "pd_sessions db" t i uuid resolved db] by simp
  then show ?thesis by simp
qed (simp_all add: assms(2) start_moves resume_moves pause_moves finish_moves fail_moves summary_moves prepare_moves
    alignment_moves)

lemma sessions_ok_append:
  assumes "sessions_ok rows" and "ps_id s \<notin> ps_id ` set rows" and "ps_session_uuid s \<notin> ps_session_uuid ` set rows"
    and "session_row_ok s"
  shows "sessions_ok (rows @ [s])"
  using assms by (auto simp: sessions_ok_def unique_column_def)

lemma sessions_ok_filter: "sessions_ok rows \<Longrightarrow> sessions_ok (filter p rows)"
  by (auto simp: sessions_ok_def unique_column_def distinct_map intro: inj_on_subset)

lemma numbering_ok_filter:
  assumes "numbering_ok as"
  shows "numbering_ok (filter (\<lambda>a. \<not> gone (pa_session_id a)) as)"
proof -
  have "session_attempts i (filter (\<lambda>a. \<not> gone (pa_session_id a)) as) = (if gone i then [] else session_attempts i as)" for i
    by (induction as) (auto simp: session_attempts_def)
  with assms show ?thesis by (simp add: numbering_ok_def)
qed

lemma call_keeps_ok:
  assumes "practice_call env db db'" and "practice_ok db"
  shows "practice_ok db'"
proof -
  have ok: "sessions_ok (pd_sessions db)" and nums: "numbering_ok (pd_attempts db)"
    using assms(2) by (simp_all add: practice_ok_def)
  have "sessions_ok (pd_sessions db')"
    using call_rows [OF assms(1) ok] ok by (auto intro: one_row_ok sessions_ok_append)
  moreover from assms(1) have "numbering_ok (pd_attempts db')"
    by cases (simp_all add: nums calls_keep_attempts calls_number_attempts persist_attempt_ok)
  ultimately show ?thesis by (simp add: practice_ok_def)
qed

lemma step_keeps_ok:
  assumes "practice_step env db db'" and "practice_ok db"
  shows "practice_ok db'"
  using assms(1)
proof cases
  case call
  from call_keeps_ok [OF this assms(2)] show ?thesis .
next
  case (score_deleted score_id)
  with assms(2) show ?thesis
    using numbering_ok_filter [of "pd_attempts db"
        "\<lambda>i. list_ex (\<lambda>s. ps_id s = Some i) (filter (\<lambda>s. ps_score_id s = score_id) (pd_sessions db))"]
    by (simp add: practice_ok_def cleanup_for_score_def Let_def sessions_ok_filter)
qed

lemma reachable_ok: "(practice_step env)\<^sup>*\<^sup>* db db' \<Longrightarrow> practice_ok db \<Longrightarrow> practice_ok db'"
  by (induction rule: rtranclp_induct) (auto intro: step_keeps_ok)

lemma moved_row:
  assumes "sessions_ok rows" and one: "one_row_moves rows rows'" and "s \<in> set rows"
  shows "\<exists>s' \<in> set rows'. session_moves s s'"
proof -
  have "ps_id s \<in> ps_id ` set rows'"
  proof (cases "rows' = rows")
    case True
    with assms(3) show ?thesis by simp
  next
    case False
    with one obtain t row where t: "session_moves t row"
        "rows' = write_row (\<lambda>x. ps_id x = ps_id t) row rows" by (auto simp: one_row_moves_def)
    have "map ps_id rows' = map ps_id rows"
      unfolding t(2) using session_moves_id [OF t(1)] by (intro write_row_keys) simp
    then have "ps_id ` set rows' = ps_id ` set rows" by (metis set_map)
    with assms(3) show ?thesis by simp
  qed
  then obtain s' where s': "s' \<in> set rows'" "ps_id s' = ps_id s" by auto
  from one_row_moves_row [OF assms(1) one assms(3) s'] s'(1) show ?thesis by blast
qed

lemma call_moves_row:
  assumes "practice_call env db db'" and "sessions_ok (pd_sessions db)" and "s \<in> set (pd_sessions db)"
  shows "\<exists>s' \<in> set (pd_sessions db'). session_moves s s'"
  using call_rows [OF assms(1,2)]
proof
  assume "one_row_moves (pd_sessions db) (pd_sessions db')"
  from moved_row [OF assms(2) this assms(3)] show ?thesis .
next
  assume "\<exists>t. pd_sessions db' = pd_sessions db @ [t] \<and> ps_id t \<notin> ps_id ` set (pd_sessions db) \<and>
       ps_session_uuid t \<notin> ps_session_uuid ` set (pd_sessions db) \<and> session_row_ok t"
  with assms(3) show ?thesis by (auto intro!: bexI [of _ s])
qed

lemma calls_move_row:
  assumes "(practice_call env)\<^sup>*\<^sup>* db db'" and "practice_ok db" and "s \<in> set (pd_sessions db)"
  shows "practice_ok db' \<and> (\<exists>s' \<in> set (pd_sessions db'). session_moves s s')"
  using assms(1)
proof (induction rule: rtranclp_induct)
  case base
  show ?case using assms(2,3) session_moves_refl by blast
next
  case (step db1 db2)
  then obtain s1 where s1: "practice_ok db1" "s1 \<in> set (pd_sessions db1)" "session_moves s s1" by blast
  then have "sessions_ok (pd_sessions db1)" by (simp add: practice_ok_def)
  from call_moves_row [OF step(2) this s1(2)] obtain s2 where "s2 \<in> set (pd_sessions db2)" "session_moves s1 s2" by blast
  with session_moves_trans [OF s1(3)] call_keeps_ok [OF step(2) s1(1)] show ?case by blast
qed

section \<open>Storing what is pending\<close>

text \<open>The rows in which a session is the one with its uuid.\<close>

definition has_session :: "string \<Rightarrow> int \<Rightarrow> PracticeSession list \<Rightarrow> bool" where
  "has_session uuid i rows \<longleftrightarrow> (\<exists>s. filter (\<lambda>x. ps_session_uuid x = uuid) rows = [s] \<and> ps_id s = Some i)"

lemma has_session_require:
  "has_session uuid i (pd_sessions db) \<Longrightarrow> \<exists>s. require_session uuid db = Inr s \<and> ps_id s = Some i"
  by (auto simp: has_session_def require_session_def get_session_by_uuid_def)

lemma has_session_row:
  assumes "sessions_ok rows" and "s \<in> set rows"
  shows "\<exists>i. ps_id s = Some i \<and> has_session (ps_session_uuid s) i rows"
proof -
  have "filter (\<lambda>x. ps_session_uuid x = ps_session_uuid s) rows = [s]"
    by (rule unique_filter) (use assms in \<open>simp_all add: sessions_ok_def\<close>)
  moreover have "ps_id s \<noteq> None" using row_okD [OF assms] by (simp add: session_row_ok_def)
  ultimately show ?thesis by (auto simp: has_session_def)
qed

lemma has_session_moved:
  assumes "sessions_ok rows" and "one_row_moves rows rows'" and "has_session uuid i rows"
  shows "has_session uuid i rows'"
proof -
  obtain s where s: "filter (\<lambda>x. ps_session_uuid x = uuid) rows = [s]" "ps_id s = Some i"
    using assms(3) by (auto simp: has_session_def)
  have "s \<in> set (filter (\<lambda>x. ps_session_uuid x = uuid) rows)" using s(1) by simp
  then have in_rows: "s \<in> set rows" "ps_session_uuid s = uuid" by simp_all
  obtain s' where s': "s' \<in> set rows'" "session_moves s s'" using moved_row [OF assms(1,2) in_rows(1)] by blast
  with has_session_row [OF one_row_ok [OF assms(1,2)] s'(1)] session_moves_id [OF s'(2)] s(2) in_rows(2)
  show ?thesis by auto
qed

lemma found_again:
  assumes "sessions_ok (pd_sessions db)" and "s \<in> set (pd_sessions db)" and "ps_user_id s = Some user"
  shows "require_session_for_user (ps_session_uuid s) user db = Inr s"
proof -
  have "filter (\<lambda>x. ps_session_uuid x = ps_session_uuid s) (pd_sessions db) = [s]"
    by (rule unique_filter) (use assms in \<open>simp_all add: sessions_ok_def\<close>)
  with assms(3) show ?thesis by (simp add: require_session_for_user_def require_session_def get_session_by_uuid_def)
qed

lemma touched_fields:
  "ps_state (touched_session now t c) = ps_state t" "ps_completion_reason (touched_session now t c) = ps_completion_reason t"
  "ps_finished_at (touched_session now t c) = ps_finished_at t" "ps_summary_status (touched_session now t c) = ps_summary_status t"
  "ps_summary_payload (touched_session now t c) = ps_summary_payload t" "ps_error (touched_session now t c) = ps_error t"
  "ps_id (touched_session now t c) = ps_id t" "ps_session_uuid (touched_session now t c) = ps_session_uuid t"
  "ps_user_id (touched_session now t c) = ps_user_id t"
  "ps_evaluation_profile (touched_session now t c) = ps_evaluation_profile t"
  "ps_input_source (touched_session now t c) = ps_input_source t"
  by (simp_all add: touched_session_def)

lemma filter_other_rows:
  "(\<And>x. x \<in> set rows \<Longrightarrow> p x \<Longrightarrow> \<not> q x) \<Longrightarrow> \<not> q row \<Longrightarrow> filter q (write_row p row rows) = filter q rows"
  by (induction rows) (auto simp: write_row_def)

definition uid_of :: "ResolvedPracticeAttempt \<Rightarrow> string" where
  "uid_of r = sp_attempt_id (oc_snapshot (ra_outcome r))"

text \<open>Storing an attempt returns, and the attempt is then among those of its session.\<close>

lemma persist_attempt_returns:
  assumes "has_session uuid i (pd_sessions db)" and "numbering_ok (pd_attempts db)"
  shows "fst (persist_practice_attempt committed t k uuid r db) = Inr ()"
    and "uid_of r \<in> pa_attempt_uid ` set (session_attempts i (pd_attempts (snd (persist_practice_attempt committed t k uuid r db))))"
    and "set (pd_attempts db) \<subseteq> set (pd_attempts (snd (persist_practice_attempt committed t k uuid r db)))"
    and "pd_library (snd (persist_practice_attempt committed t k uuid r db)) = pd_library db"
proof -
  obtain s where s: "require_session uuid db = Inr s" "ps_id s = Some i" using has_session_require [OF assms(1)] by blast
  let ?a = "(attempt_from_resolved t s i r)\<lparr>pa_attempt_index := next_attempt_index i db\<rparr>"
  let ?c = "create_attempt_if_absent committed k ?a db"
  have step: "persist_practice_attempt committed t k uuid r db = and_then ?c (\<lambda>created db. (Inr (), db))"
    by (simp add: persist_practice_attempt_def query_def s require_persisted_id_def)
  have key: "pa_session_id ?a = i" "pa_attempt_uid ?a = uid_of r"
    by (simp_all add: attempt_from_resolved_def Let_def uid_of_def)
  have "(\<exists>b. ?c = (Inr b, snd ?c)) \<and> uid_of r \<in> pa_attempt_uid ` set (session_attempts i (pd_attempts (snd ?c))) \<and>
      set (pd_attempts db) \<subseteq> set (pd_attempts (snd ?c)) \<and> pd_library (snd ?c) = pd_library db"
  proof (cases "list_ex (\<lambda>a. pa_session_id a = i \<and> pa_attempt_uid a = uid_of r) (pd_attempts db)")
    case True
    then obtain a where a: "a \<in> set (session_attempts i (pd_attempts db))" "pa_attempt_uid a = uid_of r"
      by (auto simp: list_ex_iff session_attempts_def)
    have "filter (\<lambda>x. pa_attempt_uid x = pa_attempt_uid a) (session_attempts i (pd_attempts db)) = [a]"
      by (rule unique_filter) (use numbering_okD(2) [OF assms(2), of i] a(1) in \<open>simp_all add: unique_column_def\<close>)
    moreover have "filter (\<lambda>x. pa_session_id x = i \<and> pa_attempt_uid x = uid_of r) (pd_attempts db) =
        filter (\<lambda>x. pa_attempt_uid x = pa_attempt_uid a) (session_attempts i (pd_attempts db))"
      using a(2) by (simp add: session_attempts_def conj_commute)
    ultimately have "?c = (Inr False, db\<lparr>pd_sessions := committed\<rparr>)"
      using True by (simp add: create_attempt_if_absent_def key get_attempt_by_uid_def)
    with a show ?thesis by force
  next
    case False
    then have "?c = (Inr True, db\<lparr>pd_attempts := pd_attempts db @ [?a\<lparr>pa_id := Some k\<rparr>]\<rparr>)"
      by (simp add: create_attempt_if_absent_def key)
    with key show ?thesis by (auto simp: session_attempts_def)
  qed
  then show "fst (persist_practice_attempt committed t k uuid r db) = Inr ()"
    and "uid_of r \<in> pa_attempt_uid ` set (session_attempts i (pd_attempts (snd (persist_practice_attempt committed t k uuid r db))))"
    and "set (pd_attempts db) \<subseteq> set (pd_attempts (snd (persist_practice_attempt committed t k uuid r db)))"
    and "pd_library (snd (persist_practice_attempt committed t k uuid r db)) = pd_library db"
    unfolding step by (auto simp: and_then_def split: prod.splits sum.splits)
qed

lemma session_attempts_mono: "set as \<subseteq> set bs \<Longrightarrow> set (session_attempts i as) \<subseteq> set (session_attempts i bs)"
  by (auto simp: session_attempts_def)

lemma persist_attempts_returns:
  assumes "has_session uuid i (pd_sessions db)" and "has_session uuid i committed" and "numbering_ok (pd_attempts db)"
  shows "fst (persist_attempts committed clk ids uuid rs db) = Inr () \<and>
    (\<forall>r \<in> set rs. uid_of r \<in> pa_attempt_uid ` set (session_attempts i (pd_attempts (snd (persist_attempts committed clk ids uuid rs db))))) \<and>
    set (pd_attempts db) \<subseteq> set (pd_attempts (snd (persist_attempts committed clk ids uuid rs db))) \<and>
    pd_library (snd (persist_attempts committed clk ids uuid rs db)) = pd_library db"
  using assms
proof (induction rs arbitrary: committed clk ids db)
  case Nil
  then show ?case by simp
next
  case (Cons r rs)
  let ?m = "persist_practice_attempt committed (clk 0) (ids 0) uuid r db"
  note one = persist_attempt_returns [OF Cons.prems(1,3), where committed = committed and t = "clk 0" and k = "ids 0" and r = r]
  have rows: "has_session uuid i (pd_sessions (snd ?m))"
    using persist_attempt_sessions [of committed "clk 0" "ids 0" uuid r db] Cons.prems(1,2) by auto
  let ?n = "persist_attempts (pd_sessions (snd ?m)) (\<lambda>j. clk (Suc j)) (\<lambda>j. ids (Suc j)) uuid rs (snd ?m)"
  have step: "persist_attempts committed clk ids uuid (r # rs) db = ?n"
    using one(1) by (cases ?m) simp
  note rest = Cons.IH [OF rows rows persist_attempt_ok [OF Cons.prems(3)], of "\<lambda>j. clk (Suc j)" "\<lambda>j. ids (Suc j)"]
  have "uid_of r \<in> pa_attempt_uid ` set (session_attempts i (pd_attempts (snd ?n)))"
    using one(2) rest session_attempts_mono by blast
  with one(3,4) rest show ?case unfolding step by auto
qed

lemma finalize_returns:
  assumes "has_session uuid i (pd_sessions db)" and "has_session uuid i committed" and "numbering_ok (pd_attempts db)"
  shows "fst (finalize_pending fl committed clk ids uuid reason db) = Inr () \<and>
    (\<forall>sr. get_runtime uuid (pd_runtimes db) = Some (Step_runtime sr) \<longrightarrow> (\<forall>r \<in> set (fst (runtime_finalize fl reason sr)).
       uid_of r \<in> pa_attempt_uid ` set (session_attempts i (pd_attempts (snd (finalize_pending fl committed clk ids uuid reason db)))))) \<and>
    pd_library (snd (finalize_pending fl committed clk ids uuid reason db)) = pd_library db"
proof (cases "get_runtime uuid (pd_runtimes db)")
  case None
  then show ?thesis by (simp add: finalize_pending_def)
next
  case (Some rt)
  show ?thesis
  proof (cases rt)
    case (Performance_runtime pr)
    with Some show ?thesis by (simp add: finalize_pending_def)
  next
    case (Step_runtime sr)
    obtain attempts sr' where f: "runtime_finalize fl reason sr = (attempts, sr')" by fastforce
    have "pd_library (put_session_runtime uuid (Step_runtime sr') db) = pd_library db" by (simp add: put_session_runtime_def)
    with persist_attempts_returns [of uuid i "put_session_runtime uuid (Step_runtime sr') db" committed clk ids attempts]
    show ?thesis using assms Some Step_runtime by (simp add: finalize_pending_def f)
  qed
qed

section \<open>Properties\<close>


text \<open>C30. A session that is finished stays finished, for the same reason and with the same end, and one that failed stays
  failed; no call changes whose session it is, its score, its configuration or its scope, or its first start.\<close>

theorem ended_session_is_final:
  assumes "(practice_call env)\<^sup>*\<^sup>* db db'" and "practice_ok db" and "s \<in> set (pd_sessions db)"
  shows "\<exists>s' \<in> set (pd_sessions db'). ps_session_uuid s' = ps_session_uuid s \<and> same_session s s' \<and>
    (ps_state s = Session_FINISHED \<longrightarrow> ps_state s' = Session_FINISHED \<and>
       ps_completion_reason s' = ps_completion_reason s \<and> ps_finished_at s' = ps_finished_at s) \<and>
    (ps_state s = Session_FAILED \<longrightarrow> ps_state s' = Session_FAILED \<and> ps_finished_at s' = ps_finished_at s) \<and>
    (ps_started_at s \<noteq> None \<longrightarrow> ps_started_at s' = ps_started_at s)"
proof -
  obtain s' where s': "s' \<in> set (pd_sessions db')" "session_moves s s'" using calls_move_row [OF assms] by blast
  from s'(2) have "ps_session_uuid s' = ps_session_uuid s" using session_moves_id by blast
  with s' show ?thesis unfolding session_moves_def by blast
qed

text \<open>C31. The attempts of a session are numbered from 1 in the order they were stored, one number for each, and no
  attempt is stored twice.\<close>

theorem attempts_numbered_once:
  assumes "(practice_step env)\<^sup>*\<^sup>* db db'" and "practice_ok db"
  shows "map pa_attempt_index (list_attempts_for_session i db') =
      [1..int (length (list_attempts_for_session i db'))] \<and>
    distinct (map pa_attempt_uid (list_attempts_for_session i db'))"
proof -
  have ok: "numbering_ok (pd_attempts db')" using reachable_ok [OF assms] by (simp add: practice_ok_def)
  have "sorted (map pa_attempt_index (session_attempts i (pd_attempts db')))"
    unfolding numbering_okD(1) [OF ok] by simp
  then have "sort_key pa_attempt_index (session_attempts i (pd_attempts db')) = session_attempts i (pd_attempts db')"
    by (rule sort_key_id_if_sorted)
  then have "list_attempts_for_session i db' = session_attempts i (pd_attempts db')"
    by (simp add: list_attempts_for_session_def session_attempts_def)
  with numbering_okD [OF ok, of i] show ?thesis by simp
qed

text \<open>C32. Finishing an active session: its attempts in progress are stored, it ends with the reason given at the time it
  was finished, its summary is awaited, its score counts as practiced and its runtime is released; other sessions stay
  as they are. Finishing it again for the same reason changes nothing, and every other call on its state is refused.\<close>

theorem finish_settles:
  assumes "practice_ok db" and "require_session_for_user uuid user db = Inr s"
    and "ps_state s \<notin> {Session_FINISHED, Session_FAILED}"
    and "finish_session env clk ids uuid user reason db = (res, db')"
  shows "\<exists>row. require_session_for_user uuid user db' = Inr row \<and> res = session_detail row db' \<and>
    ps_state row = Session_FINISHED \<and> ps_completion_reason row = Some reason \<and> ps_finished_at row = Some (clk 2) \<and>
    ps_summary_status row = Summary_PENDING \<and> get_runtime uuid (pd_runtimes db') = None \<and>
    pd_library db' = mark_practiced (clk 4) user (ps_score_id s) (pd_library db) \<and>
    (\<forall>sr. get_runtime uuid (pd_runtimes db) = Some (Step_runtime sr) \<longrightarrow> (\<forall>r \<in> set (fst (runtime_finalize env practice_finished sr)).
       \<exists>a \<in> set (pd_attempts db'). Some (pa_session_id a) = ps_id s \<and> pa_attempt_uid a = uid_of r)) \<and>
    filter (\<lambda>x. ps_session_uuid x \<noteq> uuid) (pd_sessions db') = filter (\<lambda>x. ps_session_uuid x \<noteq> uuid) (pd_sessions db) \<and>
    (\<forall>clk' ids'. finish_session env clk' ids' uuid user reason db' = (res, db')) \<and>
    (\<forall>clk' ids' other. other \<noteq> reason \<longrightarrow> finish_session env clk' ids' uuid user other db' = (Inl invalid_state, db')) \<and>
    (\<forall>clk' ids' why. start_session_stream clk' uuid user db' = (Inl invalid_state, db') \<and>
       resume_session clk' uuid user db' = (Inl invalid_state, db') \<and>
       pause_session env clk' ids' uuid user db' = (Inl invalid_state, db') \<and>
       fail_active_session_stream env clk' ids' uuid user why db' = (Inl invalid_state, db'))"
proof -
  have ok: "sessions_ok (pd_sessions db)" and nums: "numbering_ok (pd_attempts db)"
    using assms(1) by (simp_all add: practice_ok_def)
  note found = found_session_of_user [OF assms(2)]
  let ?p = "\<lambda>x. ps_id x = ps_id s" and ?f = "flushed (clk 1) (with_start (clk 0) s) db"
  obtain r db2 c where f: "finalize_pending env (pd_sessions db) (\<lambda>i. clk (5 + i)) ids uuid practice_finished ?f = (r, db2)"
    and c: "session_moves s c" "session_row_ok c" "pd_sessions db2 = write_row ?p c (pd_sessions db)"
    and fin: "finish_session env clk ids uuid user reason db =
       (case r of Inl e \<Rightarrow> (Inl e, db2)
        | Inr u \<Rightarrow>
            let row = touched_session (clk 3) (finished_row reason (clk 2) c) c;
                db3 = release_session_runtime env uuid (db2\<lparr>pd_sessions := write_row ?p row (pd_sessions db),
                  pd_library := mark_practiced (clk 4) user (ps_score_id s) (pd_library db2)\<rparr>)
            in (session_detail row db3, db3))"
    by (rule finish_steps [OF ok assms(2,3), where env = env and clk = clk and new_id = ids and reason = reason])
  let ?row = "touched_session (clk 3) (finished_row reason (clk 2) c) c"
  obtain i where i: "ps_id s = Some i" "has_session uuid i (pd_sessions db)"
    using has_session_row [OF ok found(2)] found(3) by auto
  have flush: "one_row_moves (pd_sessions db) (pd_sessions ?f)"
    unfolding flushed_def by (rule save_moves [OF ok found(2)])
      (simp_all add: with_start_moves with_start_ok row_okD [OF ok found(2)])
  note returns = finalize_returns [OF has_session_moved [OF ok flush i(2)] i(2), of env "\<lambda>i. clk (5 + i)" ids practice_finished]
  have returned: "r = Inr ()" "pd_library db2 = pd_library db"
      "get_runtime uuid (pd_runtimes db) = Some (Step_runtime sr) \<Longrightarrow> q \<in> set (fst (runtime_finalize env practice_finished sr)) \<Longrightarrow>
       uid_of q \<in> pa_attempt_uid ` set (session_attempts i (pd_attempts db2))" for sr q
    using returns nums unfolding f by (simp_all add: flushed_def save_session_def Let_def)
  have row: "session_moves s ?row" "session_row_ok ?row"
    using finished_row_moves [OF c(1,2) assms(3), of reason "clk 2"] session_moves_touched c(1) touched_facts(2) by blast+
  have db': "pd_sessions db' = write_row ?p ?row (pd_sessions db)" "pd_attempts db' = pd_attempts db2"
      "pd_library db' = mark_practiced (clk 4) user (ps_score_id s) (pd_library db)"
      "get_runtime uuid (pd_runtimes db') = None" "res = session_detail ?row db'"
    using assms(4) fin returned(1,2) by (auto simp: Let_def release_session_runtime_def)
  have one: "one_row_moves (pd_sessions db) (pd_sessions db')"
    unfolding one_row_moves_def db'(1) using found(2) row by blast
  have ok': "sessions_ok (pd_sessions db')" by (rule one_row_ok [OF ok one])
  have in': "?row \<in> set (pd_sessions db')" unfolding db'(1) using found(2) by (force simp: write_row_def)
  have uuid: "ps_session_uuid ?row = uuid" and user: "ps_user_id ?row = Some user"
    using session_movesD(1) [OF row(1)] found(3,4) by (simp_all add: same_session_def)
  have req: "require_session_for_user uuid user db' = Inr ?row"
    using found_again [OF ok' in' user] uuid by simp
  have state: "ps_state ?row = Session_FINISHED" "ps_completion_reason ?row = Some reason"
      "ps_finished_at ?row = Some (clk 2)" "ps_summary_status ?row = Summary_PENDING"
    by (simp_all add: touched_fields finished_row_def)
  have same_id: "x = s" if "x \<in> set (pd_sessions db)" "?p x" for x
    using ok that found(2) by (auto simp: sessions_ok_def unique_column_def distinct_map dest: inj_onD)
  have "filter (\<lambda>x. ps_session_uuid x \<noteq> uuid) (pd_sessions db') = filter (\<lambda>x. ps_session_uuid x \<noteq> uuid) (pd_sessions db)"
    unfolding db'(1) by (rule filter_other_rows) (use same_id found(3) uuid in auto)
  moreover have "\<exists>a \<in> set (pd_attempts db'). Some (pa_session_id a) = ps_id s \<and> pa_attempt_uid a = uid_of q"
    if "get_runtime uuid (pd_runtimes db) = Some (Step_runtime sr)"
      "q \<in> set (fst (runtime_finalize env practice_finished sr))" for sr q
    using returned(3) [OF that] i(1) unfolding db'(2) by (auto simp: session_attempts_def)
  moreover have "finish_session env clk' ids' uuid user other db' =
      (if other = reason then (res, db') else (Inl invalid_state, db'))" for clk' ids' other
    using req state db'(5) by (simp add: finish_session_def)
  moreover have "start_session_stream clk' uuid user db' = (Inl invalid_state, db') \<and>
       resume_session clk' uuid user db' = (Inl invalid_state, db') \<and>
       pause_session env clk' ids' uuid user db' = (Inl invalid_state, db') \<and>
       fail_active_session_stream env clk' ids' uuid user why db' = (Inl invalid_state, db')" for clk' ids' why
    using req state by (simp add: start_session_stream_def resume_session_def pause_session_def
        fail_active_session_stream_def)
  ultimately show ?thesis using req state db'(3-5) by (intro exI [of _ ?row]) simp
qed

text \<open>The route \<open>POST /sessions/{id}/finish\<close> of \<open>router.py\<close>: finishing, then the summary.\<close>

definition finish_route ::
  "'s service_env \<Rightarrow> (nat \<Rightarrow> timestamp) \<Rightarrow> (nat \<Rightarrow> int) \<Rightarrow> timestamp \<Rightarrow> string \<Rightarrow> int \<Rightarrow> 's practice_state \<Rightarrow> 's detail_answer" where
  "finish_route env clk ids t uuid user db =
     and_then (finish_session env clk ids uuid user STOPPED_BY_USER db) (\<lambda>detail db.
       build_summary_for_finished_session env t uuid user [] [] db)"

lemma detail_of_row:
  assumes "session_row_ok s" and "db_get sc_id (ad_scores (pd_access db)) (Some (ps_score_id s)) = Some score"
    and "db_get rv_id (ad_revisions (pd_access db)) (Some (ps_revision_id s)) = Some revision"
  shows "\<exists>d. session_detail s db = Inr d"
proof -
  obtain kind where "kind_of_session s = Inr kind" using assms(1) by (auto simp: session_row_ok_def)
  then obtain preset where "preset_for_session s = Inr preset" by (cases kind) (simp_all add: preset_for_session_def)
  moreover obtain outcome where "completion_outcome_for_session s = Inr outcome"
    using assms(1) by (cases "ps_completion_reason s") (auto simp: completion_outcome_for_session_def session_row_ok_def Let_def)
  ultimately have "\<exists>d. to_session_detail (Some score) (Some revision) s saved = Inr d" for saved
    by (simp add: to_session_detail_def)
  moreover obtain i where "ps_id s = Some i" using assms(1) by (auto simp: session_row_ok_def)
  ultimately show ?thesis using assms(2,3) by (simp add: session_detail_def Let_def require_persisted_id_def)
qed

lemma empty_performance_summary:
  assumes "ps_evaluation_profile s = PERFORMANCE"
  shows "\<not> payload_has_evaluation (build_summary fl s as [] [])"
proof -
  have "mt_expected_outcome_count (performance_metrics fl (summary_from_session fl s [] [])) = 0"
    by (simp add: performance_metrics_def summary_from_session_def Let_def)
  moreover have "problem_measure_payloads fl (targets_with_confirmed_issues []) = []"
    by (simp add: problem_measure_payloads_def targets_with_confirmed_issues_def targets_by_measure_def)
  ultimately show ?thesis using assms
    by (simp add: build_summary_def performance_summary_def payload_has_evaluation_def payload_json_def Let_def
        nonempty_list_def session_metrics_def performance_metrics_json_def positive_number_def js_nat_def)
qed


text \<open>A STEP session on the microphone whose audio the server is to verify, which is what is asked for when nothing is
  said, never gets a runtime: the registration needs a verifier that the service does not have. Its stream answers
  that the alignment failed, and the session has failed.\<close>

theorem step_server_microphone_never_streams:
  assumes "practice_ok db" and "require_session_for_user uuid user db = Inr s"
    and "kind_of_session s = Inr Kind_STEP_BY_STEP" and "ps_input_source s = Input_MICROPHONE"
    and "ps_provider s \<noteq> Some Verify_BROWSER_LOCAL"
    and "get_runtime uuid (pd_runtimes db) = None"
  shows "(\<exists>e. fst (prepare_stream_runtime env t uuid user db) = Inl e) \<and>
    get_runtime uuid (pd_runtimes (snd (prepare_stream_runtime env t uuid user db))) = None \<and>
    (ps_state s \<notin> {Session_FINISHED, Session_FAILED} \<longrightarrow>
     db_get sc_id (ad_scores (pd_access db)) (Some (ps_score_id s)) = Some score \<longrightarrow>
     db_get rv_id (ad_revisions (pd_access db)) (Some (ps_revision_id s)) = Some revision \<longrightarrow>
     canonical_source (rv_id revision) db = Inr (Some src) \<longrightarrow>
     fs_materialized (sv_storage env) (rs_storage_key src) (pd_storage db) = Inr content \<longrightarrow>
     fst (prepare_stream_runtime env t uuid user db) =
       Inl (external_service_exception ''practice_alignment'' ''practice_alignment_failed'') \<and>
     (\<exists>row. require_session_for_user uuid user (snd (prepare_stream_runtime env t uuid user db)) = Inr row \<and>
        ps_state row = Session_FAILED))"
proof -
  have "ps_provider s = None \<or> ps_provider s = Some Verify_SERVER"
    using assms(5) by (cases "ps_provider s") (auto intro: PracticeStepMicrophoneVerificationProvider.exhaust)
  moreover have "ps_progression_mode s = WAIT_FOR_NOTE \<and> ps_realtime_guidance s = GUIDED \<and> ps_evaluation_profile s = LEARNING"
    using assms(3) by (simp add: kind_of_session_def canonical_runtime_kind_def split: if_splits)
  ultimately have "\<exists>msg. \<forall>sc timeline registry. register_session env sc s timeline registry =
      (Inl (Score_timeline_error (RuntimeError msg)), registry)" using assms(3,4)
    by (auto simp: register_session_def register_runtime_def runtime_config_of_def new_step_session_def
        build_alignment_engine_def Let_def)
  then obtain msg where refused: "\<And>sc timeline registry. register_session env sc s timeline registry =
      (Inl (Score_timeline_error (RuntimeError msg)), registry)" by blast
  have ok: "sessions_ok (pd_sessions db)" using assms(1) by (simp add: practice_ok_def)
  note found = found_session_of_user [OF assms(2)]
  have ids: "unique_column ps_id (pd_sessions db)" using ok by (simp add: sessions_ok_def)
  let ?t = "s\<lparr>ps_state := Session_FAILED, ps_error := Some msg\<rparr>"
  let ?db = "snd (save_session t ?t db)"
  have first: "\<exists>e. fst (prepare_stream_runtime env t uuid user db) = Inl e"
    using assms(2,6) by (simp add: prepare_stream_runtime_def refused and_then_def query_def
        split: option.split sum.split prod.split)
  have second: "get_runtime uuid (pd_runtimes (snd (prepare_stream_runtime env t uuid user db))) = None"
    using assms(2,6) by (simp add: prepare_stream_runtime_def refused and_then_snd query_def
        split: option.split sum.split prod.split)
  have third: "prepare_stream_runtime env t uuid user db =
      (Inl (external_service_exception ''practice_alignment'' ''practice_alignment_failed''), ?db)"
    if "ps_state s \<notin> {Session_FINISHED, Session_FAILED}"
      "db_get sc_id (ad_scores (pd_access db)) (Some (ps_score_id s)) = Some score"
      "db_get rv_id (ad_revisions (pd_access db)) (Some (ps_revision_id s)) = Some revision"
      "canonical_source (rv_id revision) db = Inr (Some src)"
      "fs_materialized (sv_storage env) (rs_storage_key src) (pd_storage db) = Inr content"
    using that assms(2,6) by (simp add: prepare_stream_runtime_def refused registration_exception_def)
  have fourth: "\<exists>row. require_session_for_user uuid user ?db = Inr row \<and> ps_state row = Session_FAILED"
    if active: "ps_state s \<notin> {Session_FINISHED, Session_FAILED}"
  proof -
    have moves: "session_moves s ?t" using active by (simp add: session_moves_def same_session_def)
    have "session_row_ok ?t"
      using row_okD [OF ok found(2)] active by (simp add: session_row_ok_def kind_of_session_def)
    note row = touched_facts(1) [OF moves, of t] touched_facts(2) [OF this, of t s]
    have db: "pd_sessions ?db = write_row (\<lambda>x. ps_id x = ps_id s) (touched_session t ?t s) (pd_sessions db)"
      using save_session_rows [OF ids found(2), of ?t t] by simp
    have "one_row_moves (pd_sessions db) (pd_sessions ?db)" unfolding one_row_moves_def db using found(2) row by blast
    then have ok': "sessions_ok (pd_sessions ?db)" by (rule one_row_ok [OF ok])
    have in': "touched_session t ?t s \<in> set (pd_sessions ?db)" unfolding db using found(2) by (force simp: write_row_def)
    have "ps_session_uuid (touched_session t ?t s) = uuid" "ps_user_id (touched_session t ?t s) = Some user"
      using found(3,4) by (simp_all add: touched_fields)
    with found_again [OF ok' in'] have "require_session_for_user uuid user ?db = Inr (touched_session t ?t s)" by simp
    then show ?thesis by (simp add: touched_fields)
  qed
  show ?thesis using first second third fourth by (intro conjI impI) simp_all
qed

section \<open>Examples\<close>

text \<open>User 7 practises a score of three notes: one STEP session on a MIDI keyboard, one on the microphone that the server is
  to verify, and a performance that is finished.\<close>

definition example_service_env :: "local_storage service_env" where
  "example_service_env = practice_env.extend demo_env
     (service_env.fields (\<lambda>s. s) (\<lambda>bytes. replicate 64 (CHR ''0'')) (\<lambda>bytes. Inr demo_timeline) local_file_storage)"

definition example_source :: ScoreRevisionSource where
  "example_source = \<lparr>rs_id = 1, rs_source_uuid = ''src'', rs_revision_id = 1, rs_format = Source_MUSICXML,
     rs_storage_backend = ''local'', rs_storage_key = ''a'', rs_filename = ''a'', rs_mime_type = ''x'', rs_size_bytes = None,
     rs_sha256 = ''x'', rs_generator = ''x'', rs_generator_version = ''x'', rs_created_at = 0\<rparr>"

definition example_session ::
  "int \<Rightarrow> string \<Rightarrow> PracticeSessionPreset \<Rightarrow> PracticeInputSource \<Rightarrow> PracticeStepMicrophoneVerificationProvider option \<Rightarrow>
   PracticeSessionState \<Rightarrow> PracticeSession" where
  "example_session i uuid preset source provider state =
     (let config = canonical_runtime_config_for_preset preset source; ended = (state = Session_FINISHED)
      in \<lparr>ps_id = Some i, ps_session_uuid = uuid, ps_score_id = 1, ps_revision_id = 1, ps_access_origin = Access_OWNER,
          ps_share_grant_id = None, ps_user_id = Some 7, ps_state = state,
          ps_progression_mode = rc_progression_mode config, ps_realtime_guidance = rc_realtime_guidance config,
          ps_evaluation_profile = rc_evaluation_profile config, ps_input_source = source, ps_provider = provider,
          ps_sample_rate = 16000, ps_channels = 1, ps_frame_format = ''pcm_s16le'', ps_scope_start_group = None,
          ps_scope_end_group = None, ps_scope_start_measure = None, ps_scope_end_measure = None, ps_started_at = Some 1,
          ps_finished_at = (if ended then Some 2 else None), ps_last_beat_position = None, ps_last_confidence = None,
          ps_audio_path = None, ps_completion_reason = (if ended then Some STOPPED_BY_USER else None),
          ps_summary_status = (if ended then Summary_PENDING else Summary_NOT_REQUESTED), ps_summary_payload = None,
          ps_error = None, ps_created_at = 0, ps_updated_at = 0\<rparr>)"

definition example_sessions :: "PracticeSession list" where
  "example_sessions =
     [example_session 1 ''midi'' Preset_STEP_BY_STEP Input_MIDI None Session_STREAMING,
      example_session 2 ''mic'' Preset_STEP_BY_STEP Input_MICROPHONE (Some Verify_SERVER) Session_CREATED,
      example_session 3 ''done'' Preset_CONTINUOUS_PLAY Input_MIDI None Session_FINISHED]"

definition example_practice :: "local_storage practice_state" where
  "example_practice =
     \<lparr>pd_access = example_access_db, pd_library = \<lparr>lb_folders = [], lb_entries = [], lb_scores = [example_score]\<rparr>,
      pd_sources = [example_source], pd_sessions = example_sessions, pd_attempts = [], pd_artifacts = [], pd_deletions = [],
      pd_storage = example_recording, pd_runtimes = []\<rparr>"

lemma example_practice_ok: "practice_ok example_practice"
  by (simp add: practice_ok_def sessions_ok_def numbering_ok_def session_attempts_def example_practice_def
      example_sessions_def example_session_def session_row_ok_def unique_column_def kind_of_session_def
      canonical_runtime_kind_def Let_def)

lemma example_found:
  "require_session_for_user ''midi'' 7 example_practice = Inr (example_sessions ! 0)"
  "require_session_for_user ''mic'' 7 example_practice = Inr (example_sessions ! 1)"
  "require_session_for_user ''done'' 7 example_practice = Inr (example_sessions ! 2)"
  by (simp_all add: require_session_for_user_def require_session_def get_session_by_uuid_def example_practice_def
      example_sessions_def example_session_def Let_def)


theorem ended_session_is_final_witness:
  "\<exists>s' \<in> set (pd_sessions (snd (fail_active_session_stream example_service_env (\<lambda>i. 50) (\<lambda>i. 9) ''done'' 7 ''x''
       example_practice))). ps_session_uuid s' = ''done'' \<and> ps_state s' = Session_FINISHED \<and> ps_finished_at s' = Some 2"
proof -
  let ?s = "example_sessions ! 2"
  have "practice_call example_service_env example_practice (snd (fail_active_session_stream example_service_env (\<lambda>i. 50) (\<lambda>i. 9)
      ''done'' 7 ''x'' example_practice))" by (rule practice_call.fail)
  then have run: "(practice_call example_service_env)\<^sup>*\<^sup>* example_practice (snd (fail_active_session_stream example_service_env
      (\<lambda>i. 50) (\<lambda>i. 9) ''done'' 7 ''x'' example_practice))" by blast
  have "?s \<in> set (pd_sessions example_practice)" by (simp add: example_practice_def example_sessions_def)
  moreover have "ps_session_uuid ?s = ''done''" "ps_state ?s = Session_FINISHED" "ps_finished_at ?s = Some 2"
    by (simp_all add: example_sessions_def example_session_def Let_def)
  ultimately show ?thesis using ended_session_is_final [OF run example_practice_ok] by fastforce
qed

definition example_outcome :: ResolvedPracticeAttempt where
  "example_outcome = \<lparr>
     ra_outcome = \<lparr>oc_snapshot = \<lparr>sp_attempt_id = ''u1'', sp_attempt_sequence = 1, sp_expected_group_id = ''g'', sp_started_at_ms = 0,
       sp_state = Resolved, sp_resolved_at_ms = Some 5\<rparr>, oc_evaluation = \<lparr>pe_expected_group_id = ''g'', pe_result = MATCH,
       matched_pitches = [], missing_pitches = [], extra_pitches = [], pe_confidence = 1, evaluator_version = ''v''\<rparr>,
       oc_policy_profile_version = ''p''\<rparr>,
     ra_action = Advance, ra_resolution_reason = stable_match, ra_experience_state = following,
     ra_display_anchor = \<lparr>an_beat = 0, an_event_id = ''e'', an_group_id = ''g'', an_render_note_ids = [''n'']\<rparr>,
     ra_measure_numbers = [''1''], ra_beat_position = 0, ra_confidence = 1, ra_timestamp_ms = 5,
     ra_validation_confidence = 1, ra_input_policy_confidence = 1\<rparr>"

text \<open>An attempt that is stored twice.\<close>

theorem attempts_numbered_once_witness:
  "\<exists>db'. (practice_step example_service_env)\<^sup>*\<^sup>* example_practice db' \<and>
     map pa_attempt_index (list_attempts_for_session 1 db') = [1..int (length (list_attempts_for_session 1 db'))] \<and>
     list_attempts_for_session 1 db' \<noteq> []"
proof -
  let ?store = "\<lambda>db. snd (persist_practice_attempt (pd_sessions db) 3 9 ''midi'' example_outcome db)"
  have one: "practice_step example_service_env db (?store db)" for db
    by (intro practice_step.call practice_call.attempt)
  let ?db = "?store example_practice"
  have "practice_step example_service_env example_practice ?db" by (rule one)
  then have "(practice_step example_service_env)\<^sup>*\<^sup>* example_practice ?db" by simp
  moreover have "practice_step example_service_env ?db (?store ?db)" by (rule one)
  ultimately have run: "(practice_step example_service_env)\<^sup>*\<^sup>* example_practice (?store ?db)" by simp
  have ok: "practice_ok ?db" by (rule step_keeps_ok [OF one example_practice_ok])
  have "has_session ''midi'' 1 (pd_sessions example_practice)"
    by (simp add: has_session_def example_practice_def example_sessions_def example_session_def Let_def)
  moreover have "pd_sessions ?db = pd_sessions example_practice"
    using persist_attempt_sessions [of "pd_sessions example_practice" 3 9 "''midi''" example_outcome example_practice] by simp
  ultimately have "has_session ''midi'' 1 (pd_sessions ?db)" by simp
  from persist_attempt_returns(2) [OF this, where committed = "pd_sessions ?db" and t = 3 and k = 9 and r = example_outcome] ok
  have "set (session_attempts 1 (pd_attempts (?store ?db))) \<noteq> {}"
    by (auto simp: practice_ok_def)
  moreover have "set (list_attempts_for_session 1 (?store ?db)) = set (session_attempts 1 (pd_attempts (?store ?db)))"
    by (simp add: list_attempts_for_session_def session_attempts_def)
  ultimately have "list_attempts_for_session 1 (?store ?db) \<noteq> []" by fastforce
  with attempts_numbered_once [OF run example_practice_ok, of 1] run show ?thesis by blast
qed

theorem finish_settles_witness:
  "\<exists>row. require_session_for_user ''midi'' 7 (snd (finish_session example_service_env (\<lambda>i. 50) (\<lambda>i. 9) ''midi'' 7
       SCOPE_COMPLETED example_practice)) = Inr row \<and> ps_state row = Session_FINISHED \<and>
     ps_completion_reason row = Some SCOPE_COMPLETED \<and> ps_finished_at row = Some 50"
proof -
  obtain res db' where run: "finish_session example_service_env (\<lambda>i. 50) (\<lambda>i. 9) ''midi'' 7 SCOPE_COMPLETED example_practice =
      (res, db')" by fastforce
  have "ps_state (example_sessions ! 0) \<notin> {Session_FINISHED, Session_FAILED}"
    by (simp add: example_sessions_def example_session_def Let_def)
  from finish_settles [OF example_practice_ok example_found(1) this run] show ?thesis unfolding run by auto
qed


theorem step_server_microphone_never_streams_witness:
  "fst (prepare_stream_runtime example_service_env 5 ''mic'' 7 example_practice) =
     Inl (external_service_exception ''practice_alignment'' ''practice_alignment_failed'')"
proof -
  have s: "kind_of_session (example_sessions ! 1) = Inr Kind_STEP_BY_STEP" "ps_input_source (example_sessions ! 1) = Input_MICROPHONE"
      "ps_provider (example_sessions ! 1) \<noteq> Some Verify_BROWSER_LOCAL" "ps_state (example_sessions ! 1) \<notin> {Session_FINISHED, Session_FAILED}"
    by (simp_all add: example_sessions_def example_session_def Let_def kind_of_session_def canonical_runtime_kind_def)
  have none: "get_runtime ''mic'' (pd_runtimes example_practice) = None" by (simp add: example_practice_def get_runtime_def)
  have rows: "db_get sc_id (ad_scores (pd_access example_practice)) (Some (ps_score_id (example_sessions ! 1))) = Some example_score"
      "db_get rv_id (ad_revisions (pd_access example_practice)) (Some (ps_revision_id (example_sessions ! 1))) = Some example_revision"
      "canonical_source (rv_id example_revision) example_practice = Inr (Some example_source)"
    by (simp_all add: example_sessions_def example_session_def Let_def example_practice_def example_access_db_def
        example_score_def example_revision_def db_get_def canonical_source_def example_source_def)
  have content: "fs_materialized (sv_storage example_service_env) (rs_storage_key example_source) (pd_storage example_practice) =
      Inr [10, 11, 12, 13, 14]" by code_simp
  note never = step_server_microphone_never_streams [OF example_practice_ok example_found(2) s(1-3) none, of example_service_env 5
      example_score example_revision example_source "[10, 11, 12, 13, 14]"]
  from never s(4) rows content show ?thesis by blast
qed

text \<open>A scope that is not in the score: a STEP session on a keyboard is told so, a performance is told that the alignment
  failed.\<close>

definition lost_scope :: "PracticeSessionPreset \<Rightarrow> PracticeSession" where
  "lost_scope preset = (example_session 1 ''x'' preset Input_MIDI None Session_CREATED)\<lparr>ps_scope_start_group := Some ''none''\<rparr>"

lemma performance_scope_error_is_hidden:
  "(case fst (register_session example_service_env example_score (lost_scope preset) (Inr demo_timeline) []) of
      Inl e \<Rightarrow> registration_exception (lost_scope preset) e = (case preset of
        Preset_STEP_BY_STEP \<Rightarrow> validation_exception ''practice_scope_target_not_found'' ''practice_scope''
          [(''expected_group_id'', D_str ''none'')]
      | Preset_CONTINUOUS_PLAY \<Rightarrow> external_service_exception ''practice_alignment'' ''practice_alignment_failed'')
    | Inr runtime \<Rightarrow> False)"
  by (cases preset; hypsubst) code_simp+

end
