(* ===== verification/Practice_Replay.thy ===== *)
theory Practice_Replay
  imports Practice_Lifecycle
begin

text \<open>
  The recordings of practice sessions, the replay part of \<open>PracticeService\<close> in
  \<open>backend/app/modules/practice/service.py\<close>: authorizing an upload, the upload itself on local storage, saving the
  uploaded object as an artifact, showing, playing back and deleting it.
\<close>

section \<open>Content types and keys\<close>

definition replay_kind_for_input_source :: "PracticeInputSource \<Rightarrow> PracticeReplayArtifactKind" where
  "replay_kind_for_input_source source = (if source = Input_MIDI then MIDI_EVENTS else AUDIO_RECORDING)"

definition allowed_replay_content_types :: "PracticeReplayArtifactKind \<Rightarrow> string list" where
  "allowed_replay_content_types kind =
     (if kind = MIDI_EVENTS then [''application/json'', ''application/vnd.noteverse.replay+json'']
      else [''audio/webm'', ''audio/wav'', ''audio/wave'', ''audio/x-wav''])"

fun replay_kind_value :: "PracticeReplayArtifactKind \<Rightarrow> string" where
  "replay_kind_value AUDIO_RECORDING = ''AUDIO_RECORDING''"
| "replay_kind_value MIDI_EVENTS = ''MIDI_EVENTS''"

definition replay_media_type :: "string \<Rightarrow> string" where
  "replay_media_type content_type = str_lower (str_strip (hd (str_split (CHR 59) content_type)))"

definition canonical_replay_content_type :: "PracticeReplayArtifactKind \<Rightarrow> string \<Rightarrow> app_exception + string" where
  "canonical_replay_content_type kind content_type =
     (let media_type = replay_media_type content_type
      in if media_type \<notin> set (allowed_replay_content_types kind)
         then Inl (validation_exception ''file_type_not_allowed'' ''content_type''
           [(''content_type'', D_str content_type), (''kind'', D_str (replay_kind_value kind))])
         else Inr media_type)"

definition replay_kind_for_content_type :: "string \<Rightarrow> app_exception + PracticeReplayArtifactKind" where
  "replay_kind_for_content_type content_type =
     (let media_type = replay_media_type content_type
      in if media_type \<in> set (allowed_replay_content_types MIDI_EVENTS) then Inr MIDI_EVENTS
         else if media_type \<in> set (allowed_replay_content_types AUDIO_RECORDING) then Inr AUDIO_RECORDING
         else Inl (validation_exception ''file_type_not_allowed'' ''content_type'' [(''content_type'', D_str content_type)]))"

definition download_extension :: "PracticeReplayArtifactKind \<Rightarrow> string \<Rightarrow> string" where
  "download_extension kind content_type =
     (if kind = MIDI_EVENTS then ''.json''
      else if replay_media_type content_type = ''audio/webm'' then ''.webm'' else ''.wav'')"

definition replay_artifact_object_key :: "string \<Rightarrow> string \<Rightarrow> PracticeReplayArtifactKind \<Rightarrow> string \<Rightarrow> string" where
  "replay_artifact_object_key session artifact kind content_type =
     ''practice/replays/'' @ session @ ''/'' @ artifact @ download_extension kind content_type"

section \<open>Checks\<close>

record replay_metadata =
  rm_kind :: PracticeReplayArtifactKind
  rm_content_type :: string
  rm_byte_size :: int
  rm_checksum_sha256 :: string
  rm_duration_ms :: int
  rm_timebase_version :: int
  rm_format_version :: int

record replay_finalize_request = replay_metadata +
  rm_artifact_id :: string

definition validate_replay_metadata :: "PracticeSession \<Rightarrow> 'b replay_metadata_scheme \<Rightarrow> app_exception + unit" where
  "validate_replay_metadata session rq =
     (let expected = replay_kind_for_input_source (ps_input_source session);
          bad = (\<lambda>field. Inl (validation_exception ''validation_error'' field []))
      in if ps_state session \<noteq> Session_FINISHED then Inl invalid_state
         else if ps_evaluation_profile session \<noteq> PERFORMANCE
         then Inl (validation_exception ''practice_session_invalid_state'' ''evaluation_profile'' [])
         else if rm_kind rq \<noteq> expected
         then Inl (validation_exception ''validation_error'' ''kind''
           [(''expected'', D_str (replay_kind_value expected)), (''actual'', D_str (replay_kind_value (rm_kind rq)))])
         else if rm_byte_size rq \<le> 0 then Inl (validation_exception ''no_file_selected'' ''byte_size'' [])
         else if rm_duration_ms rq < 0 then bad ''duration_ms''
         else if rm_timebase_version rq < 1 then bad ''timebase_version''
         else if rm_format_version rq < 1 then bad ''format_version''
         else if replay_media_type (rm_content_type rq) \<notin> set (allowed_replay_content_types (rm_kind rq))
         then Inl (validation_exception ''file_type_not_allowed'' ''content_type''
           [(''content_type'', D_str (rm_content_type rq)), (''kind'', D_str (replay_kind_value (rm_kind rq)))])
         else if length (rm_checksum_sha256 rq) \<noteq> 64 \<or> py_int 16 (rm_checksum_sha256 rq) = None then bad ''checksum_sha256''
         else Inr ())"

text \<open>\<open>if a and b != c\<close> on an optional text.\<close>

definition validate_uploaded_replay_object ::
  "'s service_env \<Rightarrow> string \<Rightarrow> replay_finalize_request \<Rightarrow> 's \<Rightarrow> app_exception + unit" where
  "validate_uploaded_replay_object env key rq st =
     (let bad = (\<lambda>field. Inl (validation_exception ''validation_error'' field []))
      in case fs_exists (sv_storage env) key st of
           Inl e \<Rightarrow> Inl e
         | Inr False \<Rightarrow> Inl (resource_not_found_exception ''practice_replay_artifact_object'' (Some (rm_artifact_id rq))
             ''file_not_found'')
         | Inr True \<Rightarrow>
             (case fs_object_metadata (sv_storage env) key st of
                Inl e \<Rightarrow> Inl e
              | Inr metadata \<Rightarrow>
                  if om_size_bytes metadata \<noteq> rm_byte_size rq then bad ''byte_size''
                  else if str_truthy (om_content_type metadata) \<and>
                    Inr (replay_media_type (the (om_content_type metadata))) \<noteq>
                      canonical_replay_content_type (rm_kind rq) (rm_content_type rq)
                  then bad ''content_type''
                  else if str_truthy (om_checksum_sha256 metadata)
                  then if str_lower (the (om_checksum_sha256 metadata)) \<noteq> str_lower (rm_checksum_sha256 rq)
                    then bad ''checksum_sha256'' else Inr ()
                  else if fs_backend_name (sv_storage env) \<noteq> ''s3''
                  then (case fs_read_bytes (sv_storage env) key st of
                      Inl e \<Rightarrow> Inl e
                    | Inr content \<Rightarrow>
                        if sv_sha256 env content \<noteq> str_lower (rm_checksum_sha256 rq) then bad ''checksum_sha256''
                        else Inr ())
                  else Inr ()))"

definition validate_existing_replay_artifact ::
  "PracticeSession \<Rightarrow> PracticeReplayArtifact \<Rightarrow> replay_finalize_request \<Rightarrow> string \<Rightarrow> app_exception + unit" where
  "validate_existing_replay_artifact session artifact rq content_type =
     (if ra_object_key artifact \<noteq>
           replay_artifact_object_key (ps_session_uuid session) (rm_artifact_id rq) (rm_kind rq) content_type \<or>
         ra_kind artifact \<noteq> rm_kind rq \<or> ra_content_type artifact \<noteq> content_type \<or>
         ra_byte_size artifact \<noteq> rm_byte_size rq \<or> ra_checksum_sha256 artifact \<noteq> str_lower (rm_checksum_sha256 rq) \<or>
         ra_duration_ms artifact \<noteq> rm_duration_ms rq \<or> ra_timebase_version artifact \<noteq> rm_timebase_version rq \<or>
         ra_format_version artifact \<noteq> rm_format_version rq
      then Inl (validation_exception ''validation_error'' ''artifact_id'' []) else Inr ())"

section \<open>Uploading\<close>

text \<open>\<open>urllib.parse.quote\<close> of a text whose characters are below 256.\<close>

definition hex_digit :: "nat \<Rightarrow> char" where
  "hex_digit n = (if n < 10 then char_of (48 + n) else char_of (55 + n))"

definition percent :: "nat \<Rightarrow> string" where
  "percent n = [CHR ''%'', hex_digit (n div 16), hex_digit (n mod 16)]"

definition quote_char :: "char \<Rightarrow> string" where
  "quote_char c =
     (let n = (of_char c :: nat)
      in if 48 \<le> n \<and> n \<le> 57 \<or> 65 \<le> n \<and> n \<le> 90 \<or> 97 \<le> n \<and> n \<le> 122 \<or> n \<in> {95, 46, 45, 126, 47} then [c]
         else if n < 128 then percent n else percent (192 + n div 64) @ percent (128 + n mod 64))"

definition url_quote :: "string \<Rightarrow> string" where "url_quote s = concat (map quote_char s)"

definition local_replay_upload_target :: "string \<Rightarrow> string \<Rightarrow> string \<Rightarrow> string \<Rightarrow> DirectUploadTarget" where
  "local_replay_upload_target session artifact content_type checksum =
     \<lparr>ut_upload_url = ''/api/v1/practice/sessions/'' @ url_quote session @ ''/replay-uploads/'' @ url_quote artifact,
      ut_upload_method = ''PUT'',
      ut_upload_headers = [(''content-type'', content_type), (''x-noteverse-content-sha256'', checksum)]\<rparr>"

record replay_upload_authorization = replay_finalize_request +
  rm_upload_target :: DirectUploadTarget

definition authorize_replay_upload ::
  "'s service_env \<Rightarrow> string \<Rightarrow> string \<Rightarrow> int \<Rightarrow> replay_metadata \<Rightarrow> 's practice_state \<Rightarrow>
   app_exception + replay_upload_authorization" where
  "authorize_replay_upload env new_uuid uuid user rq db =
     (case require_session_for_user uuid user db of
        Inl e \<Rightarrow> Inl e
      | Inr session \<Rightarrow>
          (case validate_replay_metadata session rq of
             Inl e \<Rightarrow> Inl e
           | Inr u \<Rightarrow>
               (case canonical_replay_content_type (rm_kind rq) (rm_content_type rq) of
                  Inl e \<Rightarrow> Inl e
                | Inr content_type \<Rightarrow>
                    let key = replay_artifact_object_key (ps_session_uuid session) new_uuid (rm_kind rq) content_type
                    in case fs_upload_url (sv_storage env) key content_type (rm_checksum_sha256 rq) (pd_storage db) of
                         Inl e \<Rightarrow> Inl e
                       | Inr target \<Rightarrow> Inr (replay_metadata.extend (rq\<lparr>rm_content_type := content_type\<rparr>)
                           \<lparr>rm_artifact_id = new_uuid, rm_upload_target = (case target of Some t \<Rightarrow> t
                              | None \<Rightarrow> local_replay_upload_target (ps_session_uuid session) new_uuid content_type
                                  (rm_checksum_sha256 rq))\<rparr>))))"

definition upload_replay_object ::
  "'s service_env \<Rightarrow> string \<Rightarrow> int \<Rightarrow> string \<Rightarrow> 8 word list \<Rightarrow> string \<Rightarrow> string \<Rightarrow> 's practice_state \<Rightarrow>
   (app_exception + unit) \<times> 's practice_state" where
  "upload_replay_object env uuid user artifact content content_type checksum db =
     and_then (query (require_session_for_user uuid user db) db) (\<lambda>session db.
     if fs_backend_name (sv_storage env) \<noteq> ''local''
     then (Inl (validation_exception ''validation_error'' ''storage_backend'' []), db)
     else if sv_sha256 env content \<noteq> str_lower checksum
     then (Inl (validation_exception ''validation_error'' ''checksum_sha256'' []), db)
     else
       and_then (query (replay_kind_for_content_type content_type) db) (\<lambda>kind db.
       and_then (query (canonical_replay_content_type kind content_type) db) (\<lambda>canonical db.
         let (result, st) = fs_put_bytes (sv_storage env)
               (replay_artifact_object_key (ps_session_uuid session) artifact kind canonical) content canonical (pd_storage db)
         in (map_sum id (\<lambda>f. ()) result, db\<lparr>pd_storage := st\<rparr>))))"

section \<open>Saving\<close>

record SavedPracticeReplayArtifact = replay_finalize_request +
  sa_session_id :: string
  sa_input_source :: PracticeInputSource
  sa_created_at :: timestamp

definition saved_replay_artifact :: "PracticeSession \<Rightarrow> PracticeReplayArtifact \<Rightarrow> SavedPracticeReplayArtifact" where
  "saved_replay_artifact session artifact =
     \<lparr>rm_kind = ra_kind artifact, rm_content_type = ra_content_type artifact, rm_byte_size = ra_byte_size artifact,
      rm_checksum_sha256 = ra_checksum_sha256 artifact, rm_duration_ms = ra_duration_ms artifact,
      rm_timebase_version = ra_timebase_version artifact, rm_format_version = ra_format_version artifact,
      rm_artifact_id = ra_artifact_uuid artifact, sa_session_id = ps_session_uuid session,
      sa_input_source = ra_input_source artifact, sa_created_at = ra_created_at artifact\<rparr>"

definition new_replay_artifact ::
  "'s service_env \<Rightarrow> timestamp \<Rightarrow> PracticeSession \<Rightarrow> int \<Rightarrow> string \<Rightarrow> string \<Rightarrow> replay_finalize_request \<Rightarrow>
   PracticeReplayArtifact" where
  "new_replay_artifact env t_created session session_id key content_type rq =
     \<lparr>ra_id = None, ra_artifact_uuid = rm_artifact_id rq, ra_session_id = session_id, ra_kind = rm_kind rq,
      ra_input_source = ps_input_source session, ra_storage_backend = fs_backend_name (sv_storage env),
      ra_object_key = key, ra_content_type = content_type, ra_byte_size = rm_byte_size rq,
      ra_checksum_sha256 = str_lower (rm_checksum_sha256 rq), ra_duration_ms = rm_duration_ms rq,
      ra_timebase_version = rm_timebase_version rq, ra_format_version = rm_format_version rq, ra_created_at = t_created\<rparr>"

definition finalize_replay_artifact ::
  "'s service_env \<Rightarrow> timestamp \<Rightarrow> int \<Rightarrow> string \<Rightarrow> int \<Rightarrow> replay_finalize_request \<Rightarrow> 's practice_state \<Rightarrow>
   (app_exception + SavedPracticeReplayArtifact) \<times> 's practice_state" where
  "finalize_replay_artifact env t_created new_id uuid user rq db =
     and_then (query (require_session_for_user uuid user db) db) (\<lambda>session db.
     and_then (query (validate_replay_metadata session rq) db) (\<lambda>u db.
     and_then (query (canonical_replay_content_type (rm_kind rq) (rm_content_type rq)) db) (\<lambda>content_type db.
     and_then (query (get_replay_artifact_by_uuid (rm_artifact_id rq) db) db) (\<lambda>existing db.
     case existing of
       Some artifact \<Rightarrow>
         if Some (ra_session_id artifact) \<noteq> ps_id session
         then (Inl (validation_exception ''validation_error'' ''artifact_id'' []), db)
         else and_then (query (validate_existing_replay_artifact session artifact rq content_type) db) (\<lambda>u db.
           (Inr (saved_replay_artifact session artifact), db))
     | None \<Rightarrow>
         and_then (query (require_persisted_id ''practice session'' (ps_id session)) db) (\<lambda>session_id db.
         and_then (query (get_replay_artifact_for_session_kind session_id (rm_kind rq) db) db) (\<lambda>of_kind db.
         case of_kind of
           Some artifact \<Rightarrow> (Inr (saved_replay_artifact session artifact), db)
         | None \<Rightarrow>
             let key = replay_artifact_object_key (ps_session_uuid session) (rm_artifact_id rq) (rm_kind rq) content_type
             in and_then (query (validate_uploaded_replay_object env key rq (pd_storage db)) db) (\<lambda>u db.
                and_then (create_replay_artifact new_id
                  (new_replay_artifact env t_created session session_id key content_type rq) db) (\<lambda>artifact db.
                (Inr (saved_replay_artifact session artifact), db)))))))))"

section \<open>Reading and deleting\<close>

definition list_replay_artifacts ::
  "string \<Rightarrow> int \<Rightarrow> 'b practice_db_scheme \<Rightarrow> app_exception + SavedPracticeReplayArtifact list" where
  "list_replay_artifacts uuid user db =
     (case require_session_for_user uuid user db of
        Inl e \<Rightarrow> Inl e
      | Inr session \<Rightarrow>
          (case require_persisted_id ''practice session'' (ps_id session) of
             Inl e \<Rightarrow> Inl e
           | Inr i \<Rightarrow> Inr (map (saved_replay_artifact session) (list_replay_artifacts_for_session i db))))"

definition get_replay_artifact ::
  "string \<Rightarrow> int \<Rightarrow> string \<Rightarrow> 'b practice_db_scheme \<Rightarrow> app_exception + PracticeReplayArtifact" where
  "get_replay_artifact uuid user artifact_uuid db =
     (let missing = Inl (resource_not_found_exception ''practice_replay_artifact'' (Some artifact_uuid)
            ''practice_replay_artifact_not_found'')
      in case require_session_for_user uuid user db of
           Inl e \<Rightarrow> Inl e
         | Inr session \<Rightarrow>
             (case get_replay_artifact_by_uuid artifact_uuid db of
                Inl e \<Rightarrow> Inl e
              | Inr None \<Rightarrow> missing
              | Inr (Some artifact) \<Rightarrow> if Some (ra_session_id artifact) \<noteq> ps_id session then missing else Inr artifact))"

record SavedPracticeReplayPlayback =
  sp_artifact_id :: string
  sp_playback_url :: string
  sp_kind :: PracticeReplayArtifactKind
  sp_content_type :: string
  sp_duration_ms :: int

definition require_replay_artifact_object ::
  "'s service_env \<Rightarrow> PracticeReplayArtifact \<Rightarrow> 's \<Rightarrow> app_exception + unit" where
  "require_replay_artifact_object env artifact st =
     (let missing = Inl (resource_not_found_exception ''practice_replay_artifact_object'' (Some (ra_artifact_uuid artifact))
            ''file_not_found'')
      in if ra_storage_backend artifact \<noteq> fs_backend_name (sv_storage env) then missing
         else (case fs_exists (sv_storage env) (ra_object_key artifact) st of
             Inl e \<Rightarrow> Inl e | Inr present \<Rightarrow> if present then Inr () else missing))"

definition get_replay_artifact_playback ::
  "'s service_env \<Rightarrow> string \<Rightarrow> int \<Rightarrow> string \<Rightarrow> 's practice_state \<Rightarrow> app_exception + SavedPracticeReplayPlayback" where
  "get_replay_artifact_playback env uuid user artifact_uuid db =
     (case get_replay_artifact uuid user artifact_uuid db of
        Inl e \<Rightarrow> Inl e
      | Inr artifact \<Rightarrow>
          (case require_replay_artifact_object env artifact (pd_storage db) of
             Inl e \<Rightarrow> Inl e
           | Inr u \<Rightarrow>
               (case fs_download_url (sv_storage env) (ra_object_key artifact) (pd_storage db) of
                  Inl e \<Rightarrow> Inl e
                | Inr url \<Rightarrow>
                    if \<not> str_truthy url
                    then Inl (resource_not_found_exception ''practice_replay_artifact_object'' (Some artifact_uuid) ''file_not_found'')
                    else Inr \<lparr>sp_artifact_id = ra_artifact_uuid artifact, sp_playback_url = the url, sp_kind = ra_kind artifact,
                      sp_content_type = ra_content_type artifact, sp_duration_ms = ra_duration_ms artifact\<rparr>)))"

definition delete_replay_artifact ::
  "(nat \<Rightarrow> timestamp) \<Rightarrow> string \<Rightarrow> string \<Rightarrow> int \<Rightarrow> string \<Rightarrow> 's practice_state \<Rightarrow>
   (app_exception + SavedPracticeReplayArtifact) \<times> 's practice_state" where
  "delete_replay_artifact clk deletion_uuid uuid user artifact_uuid db =
     and_then (query (require_session_for_user uuid user db) db) (\<lambda>session db.
     and_then (query (get_replay_artifact uuid user artifact_uuid db) db) (\<lambda>artifact db.
     and_then (delete_replay_artifact_and_queue_object_deletion artifact
        (new_replay_deletion deletion_uuid (clk 0) (clk 1) (clk 2) (ra_artifact_uuid artifact) (ra_storage_backend artifact)
          (ra_object_key artifact)) db) (\<lambda>u db.
       (Inr (saved_replay_artifact session artifact), db))))"

section \<open>What a state of recordings keeps\<close>

text \<open>A recording belongs to a finished performance, is of the kind of its input, and lies under the key that is made of
  its session and its own uuid.\<close>

definition recording_of :: "PracticeSession list \<Rightarrow> PracticeReplayArtifact \<Rightarrow> bool" where
  "recording_of sessions a \<longleftrightarrow> (\<exists>s \<in> set sessions. ps_id s = Some (ra_session_id a) \<and> ps_state s = Session_FINISHED \<and>
     ps_evaluation_profile s = PERFORMANCE \<and> ra_kind a = replay_kind_for_input_source (ps_input_source s) \<and>
     ra_content_type a \<in> set (allowed_replay_content_types (ra_kind a)) \<and>
     ra_object_key a = replay_artifact_object_key (ps_session_uuid s) (ra_artifact_uuid a) (ra_kind a) (ra_content_type a))"

definition recordings_ok :: "'b practice_db_scheme \<Rightarrow> bool" where
  "recordings_ok db \<longleftrightarrow> practice_ok db \<and> unique_column ra_id (pd_artifacts db) \<and>
     unique_column ra_artifact_uuid (pd_artifacts db) \<and> unique_column ra_object_key (pd_artifacts db) \<and>
     unique_column ra_session_id (pd_artifacts db) \<and> (\<forall>a \<in> set (pd_artifacts db). recording_of (pd_sessions db) a)"

text \<open>A call on the recordings, a call that does not touch the table of recordings, as those on the sessions and the
  deletion worker, or the deletion of a score.\<close>

inductive recording_step :: "'s service_env \<Rightarrow> 's practice_state \<Rightarrow> 's practice_state \<Rightarrow> bool" for env where
  upload: "recording_step env db (snd (upload_replay_object env uuid user artifact content content_type checksum db))"
| save: "Some new_id \<notin> ra_id ` set (pd_artifacts db) \<Longrightarrow>
    recording_step env db (snd (finalize_replay_artifact env t new_id uuid user rq db))"
| delete: "recording_step env db (snd (delete_replay_artifact clk deletion_uuid uuid user artifact db))"
| session_call: "practice_call env db db' \<Longrightarrow> pd_artifacts db' = pd_artifacts db \<Longrightarrow> recording_step env db db'"
| score_deleted: "recording_step env db (snd (cleanup_for_score score_id db))"

lemma upload_keeps:
  "pd_sessions (snd (upload_replay_object env uuid user artifact content ct checksum db)) = pd_sessions db"
  "pd_attempts (snd (upload_replay_object env uuid user artifact content ct checksum db)) = pd_attempts db"
  "pd_artifacts (snd (upload_replay_object env uuid user artifact content ct checksum db)) = pd_artifacts db"
  by (simp_all add: upload_replay_object_def and_then_snd query_def Let_def split_beta split: sum.split)

text \<open>Saving a recording changes nothing, or adds one that passed every check.\<close>

lemma finalize_cases:
  assumes "finalize_replay_artifact env t new_id uuid user rq db = (res, db')"
  obtains (kept) "db' = db"
  | (added) s i content_type a where "require_session_for_user uuid user db = Inr s" "ps_id s = Some i"
      "validate_replay_metadata s rq = Inr ()" "canonical_replay_content_type (rm_kind rq) (rm_content_type rq) = Inr content_type"
      "get_replay_artifact_by_uuid (rm_artifact_id rq) db = Inr None"
      "get_replay_artifact_for_session_kind i (rm_kind rq) db = Inr None"
      "validate_uploaded_replay_object env (replay_artifact_object_key (ps_session_uuid s) (rm_artifact_id rq) (rm_kind rq)
         content_type) rq (pd_storage db) = Inr ()"
      "a = (new_replay_artifact env t s i (replay_artifact_object_key (ps_session_uuid s) (rm_artifact_id rq) (rm_kind rq)
         content_type) content_type rq)\<lparr>ra_id := Some new_id\<rparr>"
      "\<forall>b \<in> set (pd_artifacts db). ra_artifact_uuid b \<noteq> ra_artifact_uuid a \<and> ra_object_key b \<noteq> ra_object_key a \<and>
         \<not> (ra_session_id b = ra_session_id a \<and> ra_kind b = ra_kind a)"
      "res = Inr (saved_replay_artifact s a)" "db' = db\<lparr>pd_artifacts := pd_artifacts db @ [a]\<rparr>"
proof (cases "require_session_for_user uuid user db")
  case (Inl e)
  with assms kept show thesis by (simp add: finalize_replay_artifact_def)
next
  case (Inr s)
  note s = this
  show thesis
  proof (cases "validate_replay_metadata s rq")
    case (Inl e)
    with assms s kept show thesis by (simp add: finalize_replay_artifact_def)
  next
    case (Inr u)
    note valid = this
    show thesis
    proof (cases "canonical_replay_content_type (rm_kind rq) (rm_content_type rq)")
      case (Inl e)
      with assms s valid kept show thesis by (simp add: finalize_replay_artifact_def)
    next
      case (Inr content_type)
      note type = this
      show thesis
      proof (cases "get_replay_artifact_by_uuid (rm_artifact_id rq) db = Inr None \<and> ps_id s \<noteq> None \<and>
          get_replay_artifact_for_session_kind (the (ps_id s)) (rm_kind rq) db = Inr None")
        case False
        with assms s valid type have "db' = db"
          by (auto simp: finalize_replay_artifact_def require_persisted_id_def and_then_def query_def
              split: sum.splits option.splits if_splits prod.splits)
        with kept show thesis by blast
      next
        case True
        then obtain i where i: "ps_id s = Some i" by blast
        let ?key = "replay_artifact_object_key (ps_session_uuid s) (rm_artifact_id rq) (rm_kind rq) content_type"
        let ?new = "new_replay_artifact env t s i ?key content_type rq"
        let ?a = "?new\<lparr>ra_id := Some new_id\<rparr>"
        show thesis
        proof (cases "validate_uploaded_replay_object env ?key rq (pd_storage db)")
          case (Inl e)
          with assms s valid type True i kept show thesis
            by (simp add: finalize_replay_artifact_def require_persisted_id_def Let_def)
        next
          case (Inr v)
          have create: "finalize_replay_artifact env t new_id uuid user rq db =
              and_then (create_replay_artifact new_id ?new db) (\<lambda>artifact db. (Inr (saved_replay_artifact s artifact), db))"
            using s valid type True i Inr by (simp add: finalize_replay_artifact_def require_persisted_id_def Let_def)
          have same: "ra_artifact_uuid ?a = ra_artifact_uuid ?new" "ra_object_key ?a = ra_object_key ?new"
              "ra_session_id ?a = ra_session_id ?new" "ra_kind ?a = ra_kind ?new" by simp_all
          show thesis
          proof (cases "\<exists>b \<in> set (pd_artifacts db). ra_artifact_uuid b = ra_artifact_uuid ?new \<or>
              ra_object_key b = ra_object_key ?new \<or> ra_session_id b = ra_session_id ?new \<and> ra_kind b = ra_kind ?new")
            case True
            then have "create_replay_artifact new_id ?new db = (Inl (OrmException IntegrityError), db)"
              by (simp add: create_replay_artifact_def list_ex_iff)
            with assms create kept show thesis by simp
          next
            case False
            then have "create_replay_artifact new_id ?new db = (Inr ?a, db\<lparr>pd_artifacts := pd_artifacts db @ [?a]\<rparr>)"
              by (simp add: create_replay_artifact_def list_ex_iff Let_def)
            with assms create have "res = Inr (saved_replay_artifact s ?a)" "db' = db\<lparr>pd_artifacts := pd_artifacts db @ [?a]\<rparr>"
              by simp_all
            moreover have "\<forall>b \<in> set (pd_artifacts db). ra_artifact_uuid b \<noteq> ra_artifact_uuid ?a \<and>
                ra_object_key b \<noteq> ra_object_key ?a \<and> \<not> (ra_session_id b = ra_session_id ?a \<and> ra_kind b = ra_kind ?a)"
              using False unfolding same by blast
            moreover have "get_replay_artifact_for_session_kind i (rm_kind rq) db = Inr None" using True i by simp
            ultimately show thesis using s i valid type True Inr by (intro added [of s i content_type ?a]) simp_all
          qed
        qed
      qed
    qed
  qed
qed

lemma delete_replay_cases:
  assumes "delete_replay_artifact clk deletion_uuid uuid user artifact_uuid db = (res, db')"
  obtains (kept) e where "res = Inl e" "db' = db"
  | (deleted) s a where "require_session_for_user uuid user db = Inr s" "get_replay_artifact_by_uuid artifact_uuid db = Inr (Some a)"
      "ps_id s = Some (ra_session_id a)" "res = Inr (saved_replay_artifact s a)"
      "\<forall>d \<in> set (pd_deletions db). rd_artifact_uuid d \<noteq> ra_artifact_uuid a"
      "db' = db\<lparr>pd_deletions := pd_deletions db @ [new_replay_deletion deletion_uuid (clk 0) (clk 1) (clk 2)
          (ra_artifact_uuid a) (ra_storage_backend a) (ra_object_key a)],
        pd_artifacts := filter (\<lambda>b. ra_id b \<noteq> ra_id a) (pd_artifacts db)\<rparr>"
proof (cases "require_session_for_user uuid user db")
  case (Inl e)
  with assms have "res = Inl e" "db' = db" by (simp_all add: delete_replay_artifact_def)
  then show thesis by (rule kept)
next
  case (Inr s)
  note s = this
  show thesis
  proof (cases "get_replay_artifact uuid user artifact_uuid db")
    case (Inl e)
    with assms s have "res = Inl e" "db' = db" by (simp_all add: delete_replay_artifact_def)
    then show thesis by (rule kept)
  next
    case (Inr a)
    have a: "get_replay_artifact_by_uuid artifact_uuid db = Inr (Some a)" "ps_id s = Some (ra_session_id a)"
      using Inr s by (auto simp: get_replay_artifact_def Let_def split: sum.splits option.splits if_splits)
    let ?d = "new_replay_deletion deletion_uuid (clk 0) (clk 1) (clk 2) (ra_artifact_uuid a) (ra_storage_backend a) (ra_object_key a)"
    have run: "delete_replay_artifact clk deletion_uuid uuid user artifact_uuid db =
        and_then (delete_replay_artifact_and_queue_object_deletion a ?d db) (\<lambda>u db. (Inr (saved_replay_artifact s a), db))"
      using s Inr by (simp add: delete_replay_artifact_def)
    show thesis
    proof (cases "list_ex (\<lambda>d. rd_outbox_uuid d = rd_outbox_uuid ?d \<or> rd_artifact_uuid d = rd_artifact_uuid ?d) (pd_deletions db)")
      case True
      then have "delete_replay_artifact_and_queue_object_deletion a ?d db = (Inl (OrmException IntegrityError), db)"
        by (simp add: delete_replay_artifact_and_queue_object_deletion_def)
      with assms run have "res = Inl (OrmException IntegrityError)" "db' = db" by simp_all
      then show thesis by (rule kept)
    next
      case False
      have "rd_artifact_uuid ?d = ra_artifact_uuid a" by (simp add: new_replay_deletion_def)
      with False have "\<forall>d \<in> set (pd_deletions db). rd_artifact_uuid d \<noteq> ra_artifact_uuid a" by (auto simp: list_ex_iff)
      moreover have "delete_replay_artifact_and_queue_object_deletion a ?d db = (Inr (), db\<lparr>pd_deletions := pd_deletions db @ [?d],
          pd_artifacts := filter (\<lambda>b. ra_id b \<noteq> ra_id a) (pd_artifacts db)\<rparr>)"
        unfolding delete_replay_artifact_and_queue_object_deletion_def if_not_P [OF False] by simp
      ultimately show thesis using assms run s a by (intro deleted [of s a]) simp_all
    qed
  qed
qed

lemma recording_of_moves:
  assumes "recording_of rows a" and "\<And>s. s \<in> set rows \<Longrightarrow> \<exists>s' \<in> set rows'. session_moves s s'"
  shows "recording_of rows' a"
proof -
  obtain s where s: "s \<in> set rows" "ps_id s = Some (ra_session_id a)" "ps_state s = Session_FINISHED"
      "ps_evaluation_profile s = PERFORMANCE" "ra_kind a = replay_kind_for_input_source (ps_input_source s)"
      "ra_content_type a \<in> set (allowed_replay_content_types (ra_kind a))"
      "ra_object_key a = replay_artifact_object_key (ps_session_uuid s) (ra_artifact_uuid a) (ra_kind a) (ra_content_type a)"
    using assms(1) by (auto simp: recording_of_def)
  obtain s' where s': "s' \<in> set rows'" "session_moves s s'" using assms(2) s(1) by blast
  have "ps_state s' = Session_FINISHED" using session_movesD(4) [OF s'(2)] s(3) by blast
  with s s' show ?thesis using session_movesD(1) [OF s'(2)] unfolding recording_of_def same_session_def by metis
qed

text \<open>What the validation of metadata says.\<close>

lemma validated:
  assumes "validate_replay_metadata s rq = Inr ()"
  shows "ps_state s = Session_FINISHED" and "ps_evaluation_profile s = PERFORMANCE"
    and "rm_kind rq = replay_kind_for_input_source (ps_input_source s)"
    and "replay_media_type (rm_content_type rq) \<in> set (allowed_replay_content_types (rm_kind rq))"
  using assms by (simp_all add: validate_replay_metadata_def Let_def split: if_splits)

lemma added_fields:
  assumes "a = (new_replay_artifact env t s i key content_type rq)\<lparr>ra_id := Some new_id\<rparr>"
  shows "ra_id a = Some new_id" "ra_artifact_uuid a = rm_artifact_id rq" "ra_session_id a = i" "ra_kind a = rm_kind rq"
    "ra_object_key a = key" "ra_content_type a = content_type" "ra_byte_size a = rm_byte_size rq"
    "ra_checksum_sha256 a = str_lower (rm_checksum_sha256 rq)" "ra_duration_ms a = rm_duration_ms rq"
    "ra_timebase_version a = rm_timebase_version rq" "ra_format_version a = rm_format_version rq"
    "ra_storage_backend a = fs_backend_name (sv_storage env)"
  using assms by (simp_all add: new_replay_artifact_def)

lemma finalize_keeps_ok:
  assumes ok: "recordings_ok db" and fresh: "Some new_id \<notin> ra_id ` set (pd_artifacts db)"
  shows "recordings_ok (snd (finalize_replay_artifact env t new_id uuid user rq db))"
proof -
  obtain res db' where run: "finalize_replay_artifact env t new_id uuid user rq db = (res, db')" by fastforce
  from run have "recordings_ok db'"
  proof (cases rule: finalize_cases)
    case kept
    with ok show ?thesis by simp
  next
    case (added s i content_type a)
    note f = added_fields [OF added(8)] and v = validated [OF added(3)]
    note found = found_session_of_user [OF added(1)]
    have ids: "unique_column ps_id (pd_sessions db)" using ok by (simp add: recordings_ok_def practice_ok_def sessions_ok_def)
    have type: "content_type \<in> set (allowed_replay_content_types (rm_kind rq))"
      using added(4) by (simp add: canonical_replay_content_type_def Let_def split: if_splits)
    have mine: "recording_of (pd_sessions db) a"
      unfolding recording_of_def f using found(2) added(2) v type by (intro bexI [of _ s]) simp_all
    have alone: "ra_session_id b \<noteq> i" if b: "b \<in> set (pd_artifacts db)" for b
    proof
      assume same: "ra_session_id b = i"
      have "recording_of (pd_sessions db) b" using ok b by (simp add: recordings_ok_def)
      then obtain r where r: "r \<in> set (pd_sessions db)" "ps_id r = Some i" "ra_kind b = replay_kind_for_input_source (ps_input_source r)"
        using same by (auto simp: recording_of_def)
      have "inj_on ps_id (set (pd_sessions db))" using ids by (simp add: unique_column_def distinct_map)
      then have "r = s" using r(1,2) found(2) added(2) by (metis inj_onD)
      with r(3) v(3) have "ra_kind b = ra_kind a" using f(4) by simp
      moreover have "ra_session_id b = ra_session_id a" using same f(3) by simp
      ultimately show False using added(9) b by blast
    qed
    have "ra_session_id a \<notin> ra_session_id ` set (pd_artifacts db)" using alone f(3) by (metis imageE)
    then have "unique_column ra_session_id (pd_artifacts db @ [a])"
      using ok by (simp add: recordings_ok_def unique_column_def)
    moreover have "unique_column ra_id (pd_artifacts db @ [a])"
      using ok fresh f(1) by (auto simp: recordings_ok_def unique_column_def)
    moreover have "unique_column ra_artifact_uuid (pd_artifacts db @ [a])" "unique_column ra_object_key (pd_artifacts db @ [a])"
      using ok added(9) by (auto simp: recordings_ok_def unique_column_def)
    moreover have "\<forall>b \<in> set (pd_artifacts db @ [a]). recording_of (pd_sessions db) b" using ok mine by (simp add: recordings_ok_def)
    ultimately show ?thesis using ok unfolding added(11) recordings_ok_def practice_ok_def by simp
  qed
  with run show ?thesis by simp
qed

lemma recordings_ok_less:
  assumes "recordings_ok db" and "pd_artifacts db' = filter p (pd_artifacts db)" and "practice_ok db'"
    and "\<forall>a \<in> set (pd_artifacts db'). recording_of (pd_sessions db') a"
  shows "recordings_ok db'"
  using assms(1,3,4) unfolding recordings_ok_def assms(2) by (auto intro: unique_column_filter)

lemma recording_step_keeps_ok:
  assumes "recording_step env db db'" and ok: "recordings_ok db"
  shows "recordings_ok db'"
  using assms(1)
proof cases
  case (upload uuid user artifact content ct checksum)
  with ok upload_keeps [of env uuid user artifact content ct checksum db] show ?thesis
    by (simp add: recordings_ok_def practice_ok_def)
next
  case (save new_id t uuid user rq)
  with finalize_keeps_ok [OF ok] show ?thesis by simp
next
  case (delete clk d uuid user artifact)
  obtain res db1 where run: "delete_replay_artifact clk d uuid user artifact db = (res, db1)" by fastforce
  from run have "recordings_ok db1"
  proof (cases rule: delete_replay_cases)
    case (kept e)
    with ok show ?thesis by simp
  next
    case (deleted s a)
    show ?thesis unfolding deleted(6)
      by (rule recordings_ok_less [OF ok]) (use ok in \<open>auto simp: recordings_ok_def practice_ok_def\<close>)
  qed
  with delete run show ?thesis by simp
next
  case session_call
  have pok: "practice_ok db" using ok by (simp add: recordings_ok_def)
  then have sok: "sessions_ok (pd_sessions db)" by (simp add: practice_ok_def)
  have "recording_of (pd_sessions db') a" if "a \<in> set (pd_artifacts db')" for a
    by (rule recording_of_moves [of "pd_sessions db"])
      (use ok that session_call call_moves_row [OF session_call(1) sok] in \<open>auto simp: recordings_ok_def\<close>)
  then show ?thesis using ok call_keeps_ok [OF session_call(1) pok] session_call(2) by (simp add: recordings_ok_def)
next
  case (score_deleted score_id)
  have pok: "practice_ok db" using ok by (simp add: recordings_ok_def)
  then have ids: "unique_column ps_id (pd_sessions db)" by (simp add: practice_ok_def sessions_ok_def)
  show ?thesis unfolding score_deleted
  proof (rule recordings_ok_less [OF ok])
    show "pd_artifacts (snd (cleanup_for_score score_id db)) = filter (\<lambda>a. \<not> list_ex (\<lambda>s. ps_id s = Some (ra_session_id a))
        (filter (\<lambda>s. ps_score_id s = score_id) (pd_sessions db))) (pd_artifacts db)"
      by (simp add: cleanup_for_score_def Let_def)
    show "practice_ok (snd (cleanup_for_score score_id db))"
      by (rule step_keeps_ok [OF practice_step.score_deleted pok])
    show "\<forall>a \<in> set (pd_artifacts (snd (cleanup_for_score score_id db))).
        recording_of (pd_sessions (snd (cleanup_for_score score_id db))) a"
    proof
      fix a assume "a \<in> set (pd_artifacts (snd (cleanup_for_score score_id db)))"
      then have a: "a \<in> set (pd_artifacts db)" "\<forall>s \<in> set (pd_sessions db). ps_id s = Some (ra_session_id a) \<longrightarrow> ps_score_id s \<noteq> score_id"
        by (auto simp: cleanup_for_score_def Let_def list_ex_iff)
      have "recording_of (pd_sessions db) a" using ok a(1) by (simp add: recordings_ok_def)
      then obtain s where s: "s \<in> set (pd_sessions db)" "ps_id s = Some (ra_session_id a)" and rest: "ps_state s = Session_FINISHED \<and>
         ps_evaluation_profile s = PERFORMANCE \<and> ra_kind a = replay_kind_for_input_source (ps_input_source s) \<and>
         ra_content_type a \<in> set (allowed_replay_content_types (ra_kind a)) \<and>
         ra_object_key a = replay_artifact_object_key (ps_session_uuid s) (ra_artifact_uuid a) (ra_kind a) (ra_content_type a)"
        unfolding recording_of_def by blast
      have "s \<in> set (pd_sessions (snd (cleanup_for_score score_id db)))"
        using s a(2) by (auto simp: cleanup_for_score_def Let_def)
      with s(2) rest show "recording_of (pd_sessions (snd (cleanup_for_score score_id db))) a"
        unfolding recording_of_def by blast
    qed
  qed
qed

lemma replay_reachable_ok: "(recording_step env)\<^sup>*\<^sup>* db db' \<Longrightarrow> recordings_ok db \<Longrightarrow> recordings_ok db'"
  by (induction rule: rtranclp_induct) (auto intro: recording_step_keeps_ok)

section \<open>Object stores\<close>

text \<open>What the service relies on of a storage: an object that was put is there, with its bytes and its size.\<close>

locale object_store =
  fixes fs :: "'s file_storage" and good :: "'s \<Rightarrow> bool"
  assumes put_stored: "good st \<Longrightarrow> fs_put_bytes fs key content content_type st = (Inr f, st') \<Longrightarrow>
      good st' \<and> fs_exists fs key st' = Inr True \<and> fs_read_bytes fs key st' = Inr content \<and>
      (\<exists>m. fs_object_metadata fs key st' = Inr m \<and> om_size_bytes m = int (length content) \<and>
         om_content_type m \<in> {None, Some content_type} \<and> om_checksum_sha256 m = None)"
begin

lemma put_validated:
  assumes "good st" and "fs_put_bytes fs key content content_type st = (Inr f, st')" and "sv_storage env = fs"
    and "canonical_replay_content_type (rm_kind rq) (rm_content_type rq) = Inr content_type"
    and "replay_media_type content_type = content_type"
    and "rm_byte_size rq = int (length content)" and "sv_sha256 env content = str_lower (rm_checksum_sha256 rq)"
  shows "validate_uploaded_replay_object env key rq st' = Inr ()"
proof -
  obtain m where m: "fs_object_metadata fs key st' = Inr m" "om_size_bytes m = int (length content)"
      "om_content_type m \<in> {None, Some content_type}" "om_checksum_sha256 m = None"
    and there: "fs_exists fs key st' = Inr True" "fs_read_bytes fs key st' = Inr content"
    using put_stored [OF assms(1,2)] by blast
  have "\<not> (str_truthy (om_content_type m) \<and>
      Inr (replay_media_type (the (om_content_type m))) \<noteq> canonical_replay_content_type (rm_kind rq) (rm_content_type rq))"
    using m(3) assms(4,5) by auto
  with m(1,2,4) there assms(3,6,7) show ?thesis by (simp add: validate_uploaded_replay_object_def Let_def)
qed

end

interpretation local_objects: object_store local_file_storage files_ok
proof
  fix st st' :: local_storage and key content_type content f
  assume ok: "files_ok st" and "fs_put_bytes local_file_storage key content content_type st = (Inr f, st')"
  then have put: "local_put_bytes key content st = (Inr f, st')" by (simp add: local_file_storage_def)
  have "files_ok st'" using put_keeps [OF ok, of key content] by (simp add: put kept_by_def)
  moreover note put_read_back [OF put]
  ultimately show "files_ok st' \<and> fs_exists local_file_storage key st' = Inr True \<and>
      fs_read_bytes local_file_storage key st' = Inr content \<and>
      (\<exists>m. fs_object_metadata local_file_storage key st' = Inr m \<and> om_size_bytes m = int (length content) \<and>
         om_content_type m \<in> {None, Some content_type} \<and> om_checksum_sha256 m = None)"
    by (simp add: local_file_storage_def local_object_metadata_def)
qed

section \<open>Properties\<close>

text \<open>The calls on the sessions leave the recordings.\<close>

lemma runtime_calls_artifacts [simp]:
  "pd_artifacts (put_session_runtime u r db) = pd_artifacts db"
  "pd_artifacts (update_runtime_state u st db) = pd_artifacts db"
  "pd_artifacts (reset_step_input u db) = pd_artifacts db"
  by (simp_all add: put_session_runtime_def update_runtime_state_def reset_step_input_def
      split: option.split PracticeRuntime.split)

lemma saved_and_shown_artifacts [simp]: "pd_artifacts (snd (saved_and_shown t s db)) = pd_artifacts db"
  by (simp add: saved_and_shown_def Let_def split_beta)

lemma session_calls_keep_recordings:
  "pd_artifacts (snd (create_session env clk new_id new_uuid rq db)) = pd_artifacts db"
  "pd_artifacts (snd (prepare_stream_runtime env t uuid user db)) = pd_artifacts db"
  "pd_artifacts (snd (start_session_stream clk uuid user db)) = pd_artifacts db"
  "pd_artifacts (snd (resume_session clk uuid user db)) = pd_artifacts db"
  "pd_artifacts (snd (build_summary_for_finished_session env t uuid user observations outcomes db)) = pd_artifacts db"
  "pd_artifacts (snd (persist_alignment t uuid alignment db)) = pd_artifacts db"
  by (simp_all add: create_session_def prepare_stream_runtime_def start_session_stream_def resume_session_def
      build_summary_for_finished_session_def persist_alignment_def and_then_snd query_def Let_def
      repository_create_session_def split_beta split: sum.split option.split prod.split)

lemma allowed_types_canonical:
  "content_type \<in> set (allowed_replay_content_types kind) \<Longrightarrow>
     replay_media_type content_type = content_type \<and> replay_kind_for_content_type content_type = Inr kind"
proof -
  have "list_all (\<lambda>kind. list_all (\<lambda>t. replay_media_type t = t \<and> replay_kind_for_content_type t = Inr kind)
      (allowed_replay_content_types kind)) [MIDI_EVENTS, AUDIO_RECORDING]" by code_simp
  then show "content_type \<in> set (allowed_replay_content_types kind) \<Longrightarrow>
     replay_media_type content_type = content_type \<and> replay_kind_for_content_type content_type = Inr kind"
    by (cases kind) (simp_all add: list_all_iff)
qed

lemma kind_of_validated:
  assumes "replay_media_type t \<in> set (allowed_replay_content_types kind)"
  shows "replay_kind_for_content_type t = Inr kind"
    and "canonical_replay_content_type kind t = Inr (replay_media_type t)"
proof -
  have "replay_kind_for_content_type (replay_media_type t) = replay_kind_for_content_type t" if "replay_media_type (replay_media_type t) = replay_media_type t"
    using that assms by (cases kind) (simp_all add: replay_kind_for_content_type_def Let_def)
  with allowed_types_canonical [OF assms] show "replay_kind_for_content_type t = Inr kind" by simp
  show "canonical_replay_content_type kind t = Inr (replay_media_type t)"
    using assms by (simp add: canonical_replay_content_type_def)
qed

text \<open>An upload on local storage that returns has put the object.\<close>

lemma upload_put:
  assumes "upload_replay_object env uuid user artifact content t checksum db = (Inr (), db1)"
    and "require_session_for_user uuid user db = Inr s" and "replay_media_type t \<in> set (allowed_replay_content_types kind)"
    and "sv_storage env = local_file_storage"
  obtains f st where "local_put_bytes (replay_artifact_object_key (ps_session_uuid s) artifact kind (replay_media_type t))
      content (pd_storage db) = (Inr f, st)" "db1 = db\<lparr>pd_storage := st\<rparr>" "sv_sha256 env content = str_lower checksum"
proof -
  let ?put = "local_put_bytes (replay_artifact_object_key (ps_session_uuid s) artifact kind (replay_media_type t)) content
      (pd_storage db)"
  obtain r st where put: "?put = (r, st)" by fastforce
  have "sv_sha256 env content = str_lower checksum"
    using assms(1,2) by (auto simp: upload_replay_object_def split: if_splits)
  moreover from this have "upload_replay_object env uuid user artifact content t checksum db =
      (map_sum id (\<lambda>f. ()) r, db\<lparr>pd_storage := st\<rparr>)"
    using assms(2,4) put kind_of_validated [OF assms(3)]
    by (simp add: upload_replay_object_def local_file_storage_def)
  ultimately show thesis using assms(1) put by (cases r) (auto intro: that)
qed

text \<open>C34. Whatever uploads, saves and deletions of recordings, calls on sessions and deletions of scores there are, a
  session has at most one recording, each is of a finished performance, of the kind its input asks for and of an allowed
  type, and lies under the key made of its session and its uuid, which no other has.\<close>

theorem recordings_stay_consistent:
  assumes "(recording_step env)\<^sup>*\<^sup>* db db'" and "recordings_ok db" and "a \<in> set (pd_artifacts db')"
  shows "recording_of (pd_sessions db') a \<and>
    (\<forall>b \<in> set (pd_artifacts db'). ra_session_id b = ra_session_id a \<or> ra_artifact_uuid b = ra_artifact_uuid a \<or>
       ra_object_key b = ra_object_key a \<longrightarrow> b = a)"
proof -
  have ok: "recordings_ok db'" by (rule replay_reachable_ok [OF assms(1,2)])
  have unique: "b = a" if "unique_column key (pd_artifacts db')" "b \<in> set (pd_artifacts db')" "key b = key a"
    for key :: "PracticeReplayArtifact \<Rightarrow> 'k" and b
    using that assms(3) by (auto simp: unique_column_def distinct_map dest: inj_onD)
  show ?thesis using ok assms(3) by (auto simp: recordings_ok_def intro: unique)
qed

lemma no_artifact_column: "(\<forall>b \<in> set rows. \<not> p b) \<Longrightarrow> one_or_none (filter p rows) = Inr None"
  by simp

lemma validate_existing_same:
  assumes "a = (new_replay_artifact env t s i (replay_artifact_object_key (ps_session_uuid s) (rm_artifact_id rq) (rm_kind rq)
    content_type) content_type rq)\<lparr>ra_id := Some new_id\<rparr>"
  shows "validate_existing_replay_artifact s a rq content_type = Inr ()"
  using assms by (simp add: validate_existing_replay_artifact_def new_replay_artifact_def)

text \<open>C35. A recording that is uploaded to local storage and saved under a fresh uuid, for a performance that has none, is
  played back with exactly the bytes that were uploaded; saving it once more gives the same answer and changes
  nothing.\<close>

theorem replay_roundtrip:
  assumes "recordings_ok db" and "files_ok (pd_storage db)" and "sv_storage env = local_file_storage"
    and "require_session_for_user uuid user db = Inr s" and "validate_replay_metadata s rq = Inr ()"
    and "upload_replay_object env uuid user (rm_artifact_id rq) content (rm_content_type rq) (rm_checksum_sha256 rq) db =
      (Inr (), db1)"
    and "rm_byte_size rq = int (length content)"
    and "key = replay_artifact_object_key (ps_session_uuid s) (rm_artifact_id rq) (rm_kind rq)
      (replay_media_type (rm_content_type rq))"
    and "\<forall>b \<in> set (pd_artifacts db). Some (ra_session_id b) \<noteq> ps_id s \<and> ra_artifact_uuid b \<noteq> rm_artifact_id rq \<and>
      ra_object_key b \<noteq> key"
  shows "\<exists>saved db2 play. finalize_replay_artifact env t new_id uuid user rq db1 = (Inr saved, db2) \<and>
    finalize_replay_artifact env t' other_id uuid user rq db2 = (Inr saved, db2) \<and>
    get_replay_artifact_playback env uuid user (rm_artifact_id rq) db2 = Inr play \<and>
    public_url key = Inr (sp_playback_url play) \<and> sp_kind play = rm_kind rq \<and> sp_duration_ms play = rm_duration_ms rq \<and>
    local_read_bytes key (pd_storage db2) = Inr content"
proof -
  note v = validated [OF assms(5)]
  let ?type = "replay_media_type (rm_content_type rq)"
  obtain f st where put: "local_put_bytes key content (pd_storage db) = (Inr f, st)" and db1: "db1 = db\<lparr>pd_storage := st\<rparr>"
      and sha: "sv_sha256 env content = str_lower (rm_checksum_sha256 rq)"
    unfolding assms(8) by (rule upload_put [OF assms(6,4) v(4) assms(3)])
  have canonical: "canonical_replay_content_type (rm_kind rq) (rm_content_type rq) = Inr ?type"
    by (rule kind_of_validated(2) [OF v(4)])
  have "session_row_ok s" using found_session_of_user(2) [OF assms(4)] assms(1)
    by (simp add: recordings_ok_def practice_ok_def sessions_ok_def)
  then obtain i where i: "ps_id s = Some i" by (auto simp: session_row_ok_def)
  define a where "a = (new_replay_artifact env t s i key ?type rq)\<lparr>ra_id := Some new_id\<rparr>"
  define db2 where "db2 = db1\<lparr>pd_artifacts := pd_artifacts db @ [a]\<rparr>"
  note f = added_fields [OF a_def]
  have owner: "require_session_for_user uuid user db1 = Inr s" "require_session_for_user uuid user db2 = Inr s"
    using assms(4) by (simp_all add: db1 db2_def require_session_for_user_def require_session_def get_session_by_uuid_def)
  have valid: "validate_uploaded_replay_object env key rq st = Inr ()"
    by (rule local_objects.put_validated [where content = content and content_type = ?type and st = "pd_storage db" and f = f])
      (use put assms(2,3,7) sha canonical allowed_types_canonical [OF v(4)] in \<open>simp_all add: local_file_storage_def\<close>)
  have none: "get_replay_artifact_by_uuid (rm_artifact_id rq) db1 = Inr None"
      "get_replay_artifact_for_session_kind i (rm_kind rq) db1 = Inr None"
    unfolding get_replay_artifact_by_uuid_def get_replay_artifact_for_session_kind_def
    by (rule no_artifact_column, use assms(9) i in \<open>auto simp: db1\<close>)+
  have create: "create_replay_artifact new_id (new_replay_artifact env t s i key ?type rq) db1 = (Inr a, db2)"
    using assms(9) i by (auto simp: create_replay_artifact_def list_ex_iff db1 db2_def a_def new_replay_artifact_def Let_def)
  have save: "finalize_replay_artifact env t new_id uuid user rq db1 = (Inr (saved_replay_artifact s a), db2)"
    using owner(1) assms(5) canonical none i valid create
    by (simp add: finalize_replay_artifact_def require_persisted_id_def assms(8) db1)
  have there: "get_replay_artifact_by_uuid (rm_artifact_id rq) db2 = Inr (Some a)"
    using assms(9) by (simp add: get_replay_artifact_by_uuid_def db2_def f(2) cong: filter_cong)
  have "validate_existing_replay_artifact s a rq ?type = Inr ()"
    by (rule validate_existing_same [where content_type = ?type]) (use a_def assms(8) in simp)
  then have again: "finalize_replay_artifact env t' other_id uuid user rq db2 = (Inr (saved_replay_artifact s a), db2)"
    using owner(2) assms(5) canonical there i by (simp add: finalize_replay_artifact_def f(3))
  have storage2: "pd_storage db2 = st" by (simp add: db2_def db1)
  obtain url where url: "public_url key = Inr url" "url \<noteq> []"
    using put by (cases rule: put_cases) (auto simp: local_path_def public_url_def split: sum.splits)
  show ?thesis using save again
    by (auto simp: get_replay_artifact_playback_def get_replay_artifact_def owner(2) there f i assms(3) storage2
        require_replay_artifact_object_def local_file_storage_def put_read_back [OF put] url)
qed


definition example_replay :: "replay_finalize_request" where
  "example_replay = \<lparr>rm_kind = MIDI_EVENTS, rm_content_type = ''Application/JSON; charset=utf-8'', rm_byte_size = 3,
     rm_checksum_sha256 = replicate 64 (CHR ''0''), rm_duration_ms = 1000, rm_timebase_version = 1, rm_format_version = 1,
     rm_artifact_id = ''art''\<rparr>"

lemma example_recordings_ok: "recordings_ok example_practice"
  using example_practice_ok by (simp add: recordings_ok_def example_practice_def unique_column_def)

lemma example_recording_ok: "files_ok (pd_storage example_practice)"
  by (auto simp: example_practice_def files_ok_def example_recording_def is_directory_iff is_file_iff)

lemma example_done: "require_session_for_user ''done'' 7 example_practice = Inr (example_sessions ! 2)"
  by code_simp

lemma example_replay_valid: "validate_replay_metadata (example_sessions ! 2) example_replay = Inr ()"
  by code_simp

lemma example_upload:
  "fst (upload_replay_object example_service_env ''done'' 7 ''art'' [1, 2, 3] (rm_content_type example_replay)
     (rm_checksum_sha256 example_replay) example_practice) = Inr ()"
  by code_simp

theorem replay_roundtrip_witness:
  "\<exists>db1 saved db2 play. finalize_replay_artifact example_service_env 5 1 ''done'' 7 example_replay db1 = (Inr saved, db2) \<and>
     finalize_replay_artifact example_service_env 6 2 ''done'' 7 example_replay db2 = (Inr saved, db2) \<and>
     get_replay_artifact_playback example_service_env ''done'' 7 ''art'' db2 = Inr play \<and> sp_duration_ms play = 1000 \<and>
     local_read_bytes ''practice/replays/done/art.json'' (pd_storage db2) = Inr [1, 2, 3]"
proof -
  obtain db1 where up: "upload_replay_object example_service_env ''done'' 7 (rm_artifact_id example_replay) [1, 2, 3]
      (rm_content_type example_replay) (rm_checksum_sha256 example_replay) example_practice = (Inr (), db1)"
    using example_upload by (metis eq_fst_iff example_replay_def replay_finalize_request.select_convs(1))
  have storage: "sv_storage example_service_env = local_file_storage"
    by (simp add: example_service_env_def practice_env.defs service_env.defs)
  have size: "rm_byte_size example_replay = int (length [1 :: 8 word, 2, 3])" by (simp add: example_replay_def)
  have key: "''practice/replays/done/art.json'' = replay_artifact_object_key (ps_session_uuid (example_sessions ! 2))
      (rm_artifact_id example_replay) (rm_kind example_replay) (replay_media_type (rm_content_type example_replay))"
    by code_simp
  have free: "\<forall>b \<in> set (pd_artifacts example_practice). Some (ra_session_id b) \<noteq> ps_id (example_sessions ! 2) \<and>
      ra_artifact_uuid b \<noteq> rm_artifact_id example_replay \<and> ra_object_key b \<noteq> ''practice/replays/done/art.json''"
    by (simp add: example_practice_def)
  have fields: "rm_artifact_id example_replay = ''art''" "rm_duration_ms example_replay = 1000" by (simp_all add: example_replay_def)
  show ?thesis
    using replay_roundtrip [OF example_recordings_ok example_recording_ok storage example_done example_replay_valid up size key free,
      of 5 1 6 2] unfolding fields by blast
qed

text \<open>C36. Deleting a recording either changes nothing or removes it, so that it is not found any more, and queues the
  deletion of its stored object, under its backend and key, as a task that is due and was never tried; the other
  recordings stay.\<close>

theorem deleted_replay_is_queued:
  assumes "delete_replay_artifact clk deletion_uuid uuid user artifact db = (res, db')" and "recordings_ok db"
  shows "(isl res \<and> db' = db) \<or>
    (\<exists>a d. a \<in> set (pd_artifacts db) \<and> ra_artifact_uuid a = artifact \<and> pd_deletions db' = pd_deletions db @ [d] \<and>
       rd_storage_backend d = ra_storage_backend a \<and> rd_object_key d = ra_object_key a \<and> rd_status d = Replay_PENDING \<and>
       rd_attempt_count d = 0 \<and> get_replay_artifact_by_uuid artifact db' = Inr None \<and>
       set (pd_artifacts db') = set (pd_artifacts db) - {a} \<and> pd_sessions db' = pd_sessions db \<and>
       pd_storage db' = pd_storage db)"
  using assms(1)
proof (cases rule: delete_replay_cases)
  case (kept e)
  then show ?thesis by simp
next
  case (deleted s a)
  have a: "a \<in> set (pd_artifacts db)" "ra_artifact_uuid a = artifact"
    using deleted(2) by (auto simp: get_replay_artifact_by_uuid_def one_or_none_Some filter_eq_Cons_iff)
  have ids: "unique_column ra_id (pd_artifacts db)" "unique_column ra_artifact_uuid (pd_artifacts db)"
    using assms(2) by (simp_all add: recordings_ok_def)
  have rest: "set (pd_artifacts db') = set (pd_artifacts db) - {a}"
    using ids(1) a(1) by (auto simp: deleted(6) unique_column_def distinct_map dest: inj_onD)
  moreover have "get_replay_artifact_by_uuid artifact db' = Inr None"
    unfolding get_replay_artifact_by_uuid_def
    by (rule no_artifact_column) (use rest ids(2) a in \<open>auto simp: unique_column_def distinct_map dest: inj_onD\<close>)
  ultimately show ?thesis using a by (intro disjI2 exI [of _ a]) (simp add: deleted(6) new_replay_deletion_def)
qed

text \<open>A recording whose uuid was deleted before and that is saved once more, which nothing refuses, cannot be deleted
  again: its uuid is still in the outbox, and the insert of a second row fails.\<close>

lemma resaved_recording_cannot_be_deleted:
  assumes "d \<in> set (pd_deletions db)" and "rd_artifact_uuid d = artifact"
  shows "isl (fst (delete_replay_artifact clk deletion_uuid uuid user artifact db)) \<and>
    snd (delete_replay_artifact clk deletion_uuid uuid user artifact db) = db"
proof -
  obtain res db' where run: "delete_replay_artifact clk deletion_uuid uuid user artifact db = (res, db')" by fastforce
  from run have "isl res \<and> db' = db"
  proof (cases rule: delete_replay_cases)
    case (kept e)
    then show ?thesis by simp
  next
    case (deleted s a)
    have "ra_artifact_uuid a = artifact"
      using deleted(2) by (auto simp: get_replay_artifact_by_uuid_def one_or_none_Some filter_eq_Cons_iff)
    with deleted(5) assms show ?thesis by auto
  qed
  with run show ?thesis by simp
qed

text \<open>Deleting a score takes the rows of its recordings and leaves their objects in the storage; no deletion of them is
  queued.\<close>

lemma score_deletion_leaves_objects:
  "pd_storage (snd (cleanup_for_score score_id db)) = pd_storage db \<and>
   pd_deletions (snd (cleanup_for_score score_id db)) = pd_deletions db \<and>
   (recordings_ok db \<longrightarrow> a \<in> set (pd_artifacts db) \<longrightarrow>
     (\<forall>s \<in> set (pd_sessions db). ps_id s = Some (ra_session_id a) \<longrightarrow> ps_score_id s = score_id) \<longrightarrow>
     a \<notin> set (pd_artifacts (snd (cleanup_for_score score_id db))))"
proof -
  have "\<exists>s \<in> set (pd_sessions db). ps_id s = Some (ra_session_id a)" if "recordings_ok db" "a \<in> set (pd_artifacts db)"
    using that by (auto simp: recordings_ok_def recording_of_def)
  then show ?thesis by (auto simp: cleanup_for_score_def Let_def list_ex_iff)
qed

definition example_recorded :: PracticeReplayArtifact where
  "example_recorded = (new_replay_artifact example_service_env 5 (example_sessions ! 2) 3 ''practice/replays/done/art.json''
     ''application/json'' example_replay)\<lparr>ra_id := Some 1\<rparr>"

definition example_saved :: "local_storage practice_state" where
  "example_saved = example_practice\<lparr>pd_artifacts := [example_recorded]\<rparr>"

lemma example_saved_ok: "recordings_ok example_saved"
proof -
  have "recording_of example_sessions example_recorded"
    unfolding recording_of_def
    by (rule bexI [of _ "example_sessions ! 2"])
      (simp_all add: example_recorded_def new_replay_artifact_def example_replay_def example_sessions_def example_session_def
        Let_def replay_kind_for_input_source_def
        allowed_replay_content_types_def replay_artifact_object_key_def download_extension_def)
  then show ?thesis using example_practice_ok
    by (simp add: recordings_ok_def example_saved_def example_practice_def unique_column_def practice_ok_def)
qed

theorem deleted_replay_is_queued_witness:
  "\<exists>res db'. delete_replay_artifact (\<lambda>i. 20) ''task'' ''done'' 7 ''art'' example_saved = (res, db') \<and>
     map rd_object_key (pd_deletions db') = [''practice/replays/done/art.json''] \<and> pd_artifacts db' = []"
proof -
  obtain res db' where run: "delete_replay_artifact (\<lambda>i. 20) ''task'' ''done'' 7 ''art'' example_saved = (res, db')" by fastforce
  have "\<not> isl (fst (delete_replay_artifact (\<lambda>i. 20) ''task'' ''done'' 7 ''art'' example_saved))" by code_simp
  then have "\<not> isl res" by (simp add: run)
  with deleted_replay_is_queued [OF run example_saved_ok] obtain a d where
      "a \<in> set (pd_artifacts example_saved)" "pd_deletions db' = pd_deletions example_saved @ [d]"
      "rd_object_key d = ra_object_key a" "set (pd_artifacts db') = set (pd_artifacts example_saved) - {a}" by blast
  moreover have "ra_object_key example_recorded = ''practice/replays/done/art.json''"
    by (simp add: example_recorded_def new_replay_artifact_def)
  ultimately have "map rd_object_key (pd_deletions db') = [''practice/replays/done/art.json'']" "pd_artifacts db' = []"
    by (simp_all add: example_saved_def example_practice_def)
  with run show ?thesis by (intro exI conjI)
qed

text \<open>The object of a saved recording is uploaded again, and a second recording of the session is saved.\<close>

theorem recordings_stay_consistent_witness:
  "\<exists>db'. (recording_step example_service_env)\<^sup>*\<^sup>* example_saved db' \<and>
     (\<exists>a \<in> set (pd_artifacts db'). recording_of (pd_sessions db') a \<and>
       (\<forall>b \<in> set (pd_artifacts db'). ra_session_id b = ra_session_id a \<longrightarrow> b = a))"
proof -
  let ?up = "snd (upload_replay_object example_service_env ''done'' 7 ''art'' [4] (rm_content_type example_replay)
      (rm_checksum_sha256 example_replay) example_saved)"
  have first: "recording_step example_service_env example_saved ?up" by (rule recording_step.upload)
  have there: "pd_artifacts ?up = [example_recorded]" by (simp add: upload_keeps(3) example_saved_def)
  have "Some 2 \<notin> ra_id ` set (pd_artifacts ?up)" by (simp add: there example_recorded_def)
  from recording_step.save [OF this, of example_service_env 6 "''done''" 7 "example_replay\<lparr>rm_artifact_id := ''other''\<rparr>"]
  obtain db' where db': "db' = snd (finalize_replay_artifact example_service_env 6 2 ''done'' 7
      (example_replay\<lparr>rm_artifact_id := ''other''\<rparr>) ?up)" and second: "recording_step example_service_env ?up db'" by blast
  have run: "(recording_step example_service_env)\<^sup>*\<^sup>* example_saved db'"
    using first second by (meson converse_rtranclp_into_rtranclp r_into_rtranclp)
  obtain res where "finalize_replay_artifact example_service_env 6 2 ''done'' 7
      (example_replay\<lparr>rm_artifact_id := ''other''\<rparr>) ?up = (res, db')" by (metis db' prod.collapse)
  then have "example_recorded \<in> set (pd_artifacts db')" by (cases rule: finalize_cases) (auto simp: there)
  with recordings_stay_consistent [OF run example_saved_ok this] run show ?thesis by blast
qed

end
